(* ===== verification/Spear_Prelude.thy ===== *)
theory Spear_Prelude
  imports Main "HOL-Library.AList" "HOL-Library.Char_ord" "HOL-Library.List_Lexorder"
    "HOL-Library.Sublist"
begin

text \<open>
  The vocabulary every component of the development shares: the JSON values that the
  Python code passes between components and writes to disk, the string methods it calls
  on them, insertion-ordered dictionaries, raising computations, and the replay of a log
  of events through a reducer that may raise.

  Conventions.
  \<^item> A Python \<open>str\<close> is a HOL \<open>string\<close>, read as a sequence of code points below 256.
  \<^item> A Python \<open>dict\<close> is an association list without repeated keys, in insertion order;
    assignment is \<^const>\<open>AList.update\<close>, which overwrites in place and appends a new key.
  \<^item> A call that may raise returns \<open>'e + 'a\<close>: \<open>Inl\<close> is the exception.
  \<^item> A method that may raise after it has changed its object returns
    \<open>'e option \<times> 's\<close>: the exception, if any, and the object as the call leaves it.
\<close>

named_theorems dict_simps \<open>lookups in insertion-ordered dictionaries\<close>
named_theorems raise_simps \<open>how raising computations decompose\<close>

section \<open>JSON values\<close>

datatype json =
    JNull
  | JBool bool
  | JInt int
  | JFloat string
  | JStr string
  | JList "json list"
  | JObj "(string \<times> json) list"

type_synonym json_object = "(string \<times> json) list"

text \<open>\<open>json.dumps(\<dots>, allow_nan=False)\<close> refuses the three non-standard float literals.\<close>

fun json_finite :: "json \<Rightarrow> bool" where
  "json_finite (JFloat r) = (r \<notin> {''nan'', ''inf'', ''-inf''})"
| "json_finite (JList vs) = list_all json_finite vs"
| "json_finite (JObj kvs) = list_all (\<lambda>kv. json_finite (snd kv)) kvs"
| "json_finite _ = True"

text \<open>Python's truth value of a JSON value, and whether it can be a member of a set.\<close>

fun json_truthy :: "json \<Rightarrow> bool" where
  "json_truthy JNull = False"
| "json_truthy (JBool b) = b"
| "json_truthy (JInt n) = (n \<noteq> 0)"
| "json_truthy (JFloat r) = (r \<notin> {''0.0'', ''-0.0''})"
| "json_truthy (JStr s) = (s \<noteq> [])"
| "json_truthy (JList vs) = (vs \<noteq> [])"
| "json_truthy (JObj d) = (d \<noteq> [])"

fun hashable :: "json \<Rightarrow> bool" where
  "hashable (JList _) = False"
| "hashable (JObj _) = False"
| "hashable _ = True"

text \<open>Calling an enum on a value: the member with that value, none for anything else.\<close>

definition enum_of :: "('a \<Rightarrow> string) \<Rightarrow> 'a list \<Rightarrow> json \<Rightarrow> 'a option" where
  "enum_of val members v =
     (case v of JStr s \<Rightarrow> find (\<lambda>m. val m = s) members | _ \<Rightarrow> None)"

lemma enum_of_value:
  "inj val \<Longrightarrow> m \<in> set members \<Longrightarrow> enum_of val members (JStr (val m)) = Some m"
  by (induction members) (auto simp: enum_of_def dest: injD)

lemma enum_of_Some: "enum_of val members v = Some m \<Longrightarrow> v = JStr (val m)"
  by (auto simp: enum_of_def find_Some_iff split: json.splits)

section \<open>Dictionaries\<close>

text \<open>\<open>d.get(name)\<close> on a JSON object: a missing key reads as \<open>None\<close>, that is \<open>null\<close>.\<close>

definition get :: "json_object \<Rightarrow> string \<Rightarrow> json" where
  "get d name = (case map_of d name of None \<Rightarrow> JNull | Some v \<Rightarrow> v)"

text \<open>\<open>d.get(name, default)\<close>: the default is used for a missing key only.\<close>

definition get_default :: "json_object \<Rightarrow> string \<Rightarrow> json \<Rightarrow> json" where
  "get_default d name v = (case map_of d name of None \<Rightarrow> v | Some x \<Rightarrow> x)"

definition dict_values :: "('k \<times> 'v) list \<Rightarrow> 'v list" where
  "dict_values d = map snd d"

definition has_key :: "('k \<times> 'v) list \<Rightarrow> 'k \<Rightarrow> bool" where
  "has_key d k \<longleftrightarrow> k \<in> fst ` set d"

text \<open>A dictionary has each key once.\<close>

abbreviation dict :: "('k \<times> 'v) list \<Rightarrow> bool" where
  "dict d \<equiv> distinct (map fst d)"

lemma has_key_iff [dict_simps]: "has_key d k \<longleftrightarrow> map_of d k \<noteq> None"
  by (simp add: has_key_def map_of_eq_None_iff)

lemma map_of_update [dict_simps]:
  "map_of (AList.update k v d) = (map_of d)(k \<mapsto> v)"
  by (rule update_conv')

lemma dict_update [simp, intro]: "dict d \<Longrightarrow> dict (AList.update k v d)"
  by (rule distinct_update)

lemma keys_update [dict_simps]:
  "set (map fst (AList.update k v d)) = insert k (set (map fst d))"
  by (auto simp: update_keys)

lemma map_of_in_values: "map_of d k = Some v \<Longrightarrow> v \<in> set (dict_values d)"
  by (force simp: dict_values_def dest: map_of_SomeD)

lemma dict_in_map_of: "dict d \<Longrightarrow> (k, v) \<in> set d \<longleftrightarrow> map_of d k = Some v"
  by auto

lemma dict_value_has_key:
  "v \<in> set (dict_values d) \<Longrightarrow> dict d \<Longrightarrow> \<exists>k. map_of d k = Some v"
  by (fastforce simp: dict_values_def)

lemma update_new_key: "\<not> has_key d k \<Longrightarrow> AList.update k v d = d @ [(k, v)]"
  by (induction d) (auto simp: has_key_def)

lemma list_ex_key: "list_ex (\<lambda>x. f x = k) xs \<longleftrightarrow> k \<in> f ` set xs"
  by (auto simp: list_ex_iff)

text \<open>\<open>list(dict.fromkeys(xs))\<close>: the first occurrence of each item, in order.\<close>

definition dedup :: "'a list \<Rightarrow> 'a list" where
  "dedup xs = rev (remdups (rev xs))"

lemma set_dedup [simp]: "set (dedup xs) = set xs"
  by (simp add: dedup_def)

lemma distinct_dedup [simp]: "distinct (dedup xs)"
  by (simp add: dedup_def)

section \<open>Strings\<close>

text \<open>The characters \<open>str.isspace\<close> accepts among the first 256 code points.\<close>

definition py_space :: "char \<Rightarrow> bool" where
  "py_space c \<longleftrightarrow>
     (let n = (of_char c :: nat)
      in 9 \<le> n \<and> n \<le> 13 \<or> 28 \<le> n \<and> n \<le> 32 \<or> n = 133 \<or> n = 160)"

text \<open>Characters of identifiers and of digests.\<close>

definition ascii_letter :: "char \<Rightarrow> bool" where
  "ascii_letter c \<longleftrightarrow> (let n = (of_char c :: nat) in 65 \<le> n \<and> n \<le> 90 \<or> 97 \<le> n \<and> n \<le> 122)"

definition ascii_digit :: "char \<Rightarrow> bool" where
  "ascii_digit c \<longleftrightarrow> (let n = (of_char c :: nat) in 48 \<le> n \<and> n \<le> 57)"

definition hex_digit :: "char \<Rightarrow> bool" where
  "hex_digit c \<longleftrightarrow> ascii_digit c \<or> (let n = (of_char c :: nat) in 97 \<le> n \<and> n \<le> 102)"

definition lstrip :: "string \<Rightarrow> string" where
  "lstrip s = dropWhile py_space s"

definition rstrip :: "string \<Rightarrow> string" where
  "rstrip s = rev (dropWhile py_space (rev s))"

definition strip :: "string \<Rightarrow> string" where
  "strip s = rstrip (lstrip s)"

lemma rstrip_Nil_iff: "rstrip s = [] \<longleftrightarrow> list_all py_space s"
  by (auto simp: rstrip_def dropWhile_eq_Nil_conv list_all_iff)

lemma lstrip_space_free: "lstrip s = [] \<or> \<not> py_space (hd (lstrip s))"
  unfolding lstrip_def by (metis hd_dropWhile)

lemma rstrip_hd: "s \<noteq> [] \<Longrightarrow> \<not> py_space (hd s) \<Longrightarrow> rstrip s \<noteq> [] \<and> hd (rstrip s) = hd s"
proof (cases s)
  case (Cons c t)
  assume "\<not> py_space (hd s)"
  with Cons have "rstrip s = c # rstrip t"
    by (auto simp: rstrip_def dropWhile_append)
  with Cons show ?thesis by simp
qed simp

lemma rstrip_idem [simp]: "rstrip (rstrip s) = rstrip s"
  by (simp add: rstrip_def dropWhile_idem)

lemma strip_Nil [simp]: "strip [] = []"
  by (simp add: strip_def rstrip_def lstrip_def)

lemma strip_idem [simp]: "strip (strip s) = strip s"
proof (cases "lstrip s = []")
  case True
  then have "strip s = []" by (simp add: strip_def rstrip_def)
  then show ?thesis by simp
next
  case False
  then have "\<not> py_space (hd (lstrip s))" using lstrip_space_free by blast
  with False have "\<not> py_space (hd (strip s))" "strip s \<noteq> []"
    using rstrip_hd by (auto simp: strip_def)
  then have "lstrip (strip s) = strip s"
    by (cases "strip s") (auto simp: lstrip_def)
  then show ?thesis by (simp add: strip_def)
qed

lemma strip_nonempty: "strip s \<noteq> [] \<Longrightarrow> s \<noteq> []"
  by auto

text \<open>\<open>str.lower\<close> on the first 256 code points.\<close>

definition lower_char :: "char \<Rightarrow> char" where
  "lower_char c = (let n = (of_char c :: nat) in
     if 65 \<le> n \<and> n \<le> 90 \<or> 192 \<le> n \<and> n \<le> 222 \<and> n \<noteq> 215 then char_of (n + 32) else c)"

definition lower :: "string \<Rightarrow> string" where
  "lower s = map lower_char s"

text \<open>
  \<open>str.upper\<close>, leaving alone the three of the first 256 code points whose capital is
  outside them.
\<close>

definition upper_char :: "char \<Rightarrow> char" where
  "upper_char c = (let n = (of_char c :: nat) in
     if 97 \<le> n \<and> n \<le> 122 \<or> 224 \<le> n \<and> n \<le> 254 \<and> n \<noteq> 247 then char_of (n - 32) else c)"

definition upper :: "string \<Rightarrow> string" where
  "upper s = map upper_char s"

text \<open>\<open>sub in s\<close>.\<close>

definition contains :: "string \<Rightarrow> string \<Rightarrow> bool" where
  "contains s sub = sublist sub s"

text \<open>\<open>s.split()\<close>: the runs of characters that are not white space.\<close>

fun words_from :: "string \<Rightarrow> string \<Rightarrow> string list" where
  "words_from w [] = (if w = [] then [] else [rev w])"
| "words_from w (c # s) =
     (if py_space c then (if w = [] then [] else [rev w]) @ words_from [] s
      else words_from (c # w) s)"

definition words :: "string \<Rightarrow> string list" where
  "words s = words_from [] s"

text \<open>\<open>sep.join(parts)\<close> and \<open>s.split(sep)\<close> for a separator of one character.\<close>

fun join :: "string \<Rightarrow> string list \<Rightarrow> string" where
  "join sep [] = []"
| "join sep [x] = x"
| "join sep (x # y # xs) = x @ sep @ join sep (y # xs)"

fun split_on :: "char \<Rightarrow> string \<Rightarrow> string list" where
  "split_on c [] = [[]]"
| "split_on c (d # s) =
     (if d = c then [] # split_on c s
      else case split_on c s of [] \<Rightarrow> [[d]] | w # ws \<Rightarrow> (d # w) # ws)"

text \<open>\<open>" ".join(s.split())\<close>: white space collapsed to single blanks.\<close>

definition squeeze :: "string \<Rightarrow> string" where
  "squeeze s = join '' '' (words s)"

text \<open>\<open>s[-n:]\<close>.\<close>

definition last_chars :: "nat \<Rightarrow> string \<Rightarrow> string" where
  "last_chars n s = drop (length s - n) s"

text \<open>\<open>s.rstrip("/")\<close>, \<open>Path(s).name\<close>, and the UTF-8 bytes of the long dash.\<close>

definition rstrip_slash :: "string \<Rightarrow> string" where
  "rstrip_slash s = rev (dropWhile (\<lambda>c. c = CHR ''/'') (rev s))"

definition path_name :: "string \<Rightarrow> string" where
  "path_name s = (let parts = filter (\<lambda>p. p \<noteq> [] \<and> p \<noteq> ''.'') (split_on CHR ''/'' s) in
     if parts = [] then [] else last parts)"

definition dash :: string where
  "dash = [CHR 0xE2, CHR 0x80, CHR 0x94]"

text \<open>\<open>str\<close> of an integer.\<close>

fun nat_str :: "nat \<Rightarrow> string" where
  "nat_str n = (if n < 10 then [char_of (48 + n)] else nat_str (n div 10) @ [char_of (48 + n mod 10)])"

declare nat_str.simps [simp del]

definition int_str :: "int \<Rightarrow> string" where
  "int_str n = (if n < 0 then ''-'' @ nat_str (nat (- n)) else nat_str (nat n))"

lemma char_of_digit_inject:
  "a < 10 \<Longrightarrow> b < 10 \<Longrightarrow> (char_of (48 + a) = (char_of (48 + b) :: char)) \<longleftrightarrow> a = (b :: nat)"
  by (auto simp: char_of_eq_iff take_bit_eq_mod)

lemma nat_str_not_Nil [simp]: "nat_str n \<noteq> []"
  by (simp add: nat_str.simps [of n])

lemma nat_str_inject: "nat_str m = nat_str n \<Longrightarrow> m = n"
proof (induction m arbitrary: n rule: nat_str.induct)
  case (1 m)
  have last: "last (nat_str k) = char_of (48 + k mod 10)" for k
    by (cases "k < 10") (simp_all add: nat_str.simps [of k])
  have front: "butlast (nat_str k) = (if k < 10 then [] else nat_str (k div 10))" for k
    by (simp add: nat_str.simps [of k])
  from "1.prems" last have mod: "m mod 10 = n mod 10"
    using char_of_digit_inject [of "m mod 10" "n mod 10"] by (metis mod_less_divisor zero_less_numeral)
  from "1.prems" front have "(if m < 10 then [] else nat_str (m div 10))
      = (if n < 10 then [] else nat_str (n div 10))" by metis
  with "1.IH" have "m < 10 \<and> n < 10 \<or> m div 10 = n div 10" by (auto split: if_splits dest: sym)
  with mod show ?case by (metis div_mult_mod_eq mod_less)
qed

section \<open>Computations that raise\<close>

primrec bindE :: "'e + 'a \<Rightarrow> ('a \<Rightarrow> 'e + 'b) \<Rightarrow> 'e + 'b" where
  "bindE (Inl e) k = Inl e"
| "bindE (Inr x) k = k x"

lemma bindE_Inr [raise_simps]: "bindE r k = Inr y \<longleftrightarrow> (\<exists>x. r = Inr x \<and> k x = Inr y)"
  by (cases r) auto

lemma bindE_Inl [raise_simps]:
  "bindE r k = Inl e \<longleftrightarrow> r = Inl e \<or> (\<exists>x. r = Inr x \<and> k x = Inl e)"
  by (cases r) auto

lemma raise_if_Inr [raise_simps]: "(if b then Inl e else r) = Inr y \<longleftrightarrow> \<not> b \<and> r = Inr y"
  by simp

text \<open>\<open>map\<close> over a list, stopping at the first exception.\<close>

fun mapE :: "('a \<Rightarrow> 'e + 'b) \<Rightarrow> 'a list \<Rightarrow> 'e + 'b list" where
  "mapE f [] = Inr []"
| "mapE f (x # xs) = bindE (f x) (\<lambda>y. bindE (mapE f xs) (\<lambda>ys. Inr (y # ys)))"

lemma mapE_all: "(\<And>x. x \<in> set xs \<Longrightarrow> f x = Inr (g x)) \<Longrightarrow> mapE f xs = Inr (map g xs)"
  by (induction xs) auto

lemma mapE_length: "mapE f xs = Inr ys \<Longrightarrow> length ys = length xs"
  by (induction xs arbitrary: ys) (auto simp: raise_simps)

text \<open>
  A method body that computes its result before it changes anything: an exception
  leaves the object as it was.
\<close>

definition commit :: "'s \<Rightarrow> 'e + 's \<Rightarrow> 'e option \<times> 's" where
  "commit s r = (case r of Inl e \<Rightarrow> (Some e, s) | Inr s' \<Rightarrow> (None, s'))"

lemma commit_None [raise_simps]: "commit s r = (None, s') \<longleftrightarrow> r = Inr s'"
  by (auto simp: commit_def split: sum.splits)

lemma commit_Some [raise_simps]: "commit s r = (Some e, s') \<longleftrightarrow> r = Inl e \<and> s' = s"
  by (auto simp: commit_def split: sum.splits)

section \<open>Replaying events through a reducer\<close>

fun replay_with :: "('ev \<Rightarrow> 's \<Rightarrow> 'e option \<times> 's) \<Rightarrow> 'ev list \<Rightarrow> 's \<Rightarrow> 'e + 's" where
  "replay_with step [] s = Inr s"
| "replay_with step (e # es) s =
     (case step e s of (Some x, _) \<Rightarrow> Inl x | (None, s') \<Rightarrow> replay_with step es s')"

lemma replay_with_append [raise_simps]:
  "replay_with step (es @ fs) s = bindE (replay_with step es s) (replay_with step fs)"
  by (induction es arbitrary: s) (auto split: prod.splits option.splits)

text \<open>
  The contract of an event-sourced component: an accepted event is appended to the log,
  a rejected one leaves the log alone, and \<open>inv\<close> is what every accepted event keeps.
\<close>

locale event_sourced =
  fixes start :: "'s"
    and step :: "'ev \<Rightarrow> 's \<Rightarrow> 'e option \<times> 's"
    and log :: "'s \<Rightarrow> 'ev list"
    and inv :: "'s \<Rightarrow> bool"
  assumes log_start: "log start = []"
    and log_accepted: "step e s = (None, s') \<Longrightarrow> log s' = log s @ [e]"
    and log_rejected: "step e s = (Some x, s') \<Longrightarrow> log s' = log s"
    and inv_start: "inv start"
    and inv_accepted: "inv s \<Longrightarrow> step e s = (None, s') \<Longrightarrow> inv s'"
begin

lemma replay_log:
  "replay_with step es s = Inr s' \<Longrightarrow> log s' = log s @ es"
proof (induction es arbitrary: s)
  case (Cons e es)
  then obtain t where t: "step e s = (None, t)" and r: "replay_with step es t = Inr s'"
    by (auto split: prod.splits option.splits)
  from Cons.IH [OF r] log_accepted [OF t] show ?case by simp
qed simp

lemma replay_inv: "inv s \<Longrightarrow> replay_with step es s = Inr s' \<Longrightarrow> inv s'"
proof (induction es arbitrary: s)
  case (Cons e es)
  then obtain t where t: "step e s = (None, t)" and r: "replay_with step es t = Inr s'"
    by (auto split: prod.splits option.splits)
  from Cons.IH [OF inv_accepted [OF Cons.prems(1) t] r] show ?case .
qed simp

lemma replay_start_log: "replay_with step es start = Inr s \<Longrightarrow> log s = es"
  using replay_log [of es start s] log_start by simp

lemma replay_start_inv: "replay_with step es start = Inr s \<Longrightarrow> inv s"
  using replay_inv [OF inv_start] .

text \<open>The log of a replayed state rebuilds exactly that state.\<close>

lemma replay_own_log:
  "replay_with step es start = Inr s \<Longrightarrow> replay_with step (log s) start = Inr s"
  by (simp add: replay_start_log)

end

text \<open>
  A finite state machine given by the set of statuses each status may move to, and the
  statuses that have no way out.
\<close>

locale transition_table =
  fixes allowed :: "'st \<Rightarrow> 'st set"
    and final :: "'st \<Rightarrow> bool"
  assumes final_stuck: "final a \<longleftrightarrow> allowed a = {}"
begin

lemma final_absorbing: "final a \<Longrightarrow> (a, b) \<in> {(x, y). y \<in> allowed x}\<^sup>* \<Longrightarrow> b = a"
  by (erule converse_rtranclE) (auto simp: final_stuck)

end

text \<open>A machine that only ever moves forward.\<close>

locale forward_table = transition_table +
  fixes rank :: "'a \<Rightarrow> nat"
  assumes rank_grows: "b \<in> allowed a \<Longrightarrow> rank a < rank b"
begin

lemma no_self_step: "a \<notin> allowed a"
  using rank_grows by blast

lemma steps_rank: "(a, b) \<in> {(x, y). y \<in> allowed x}\<^sup>* \<Longrightarrow> rank a \<le> rank b"
  by (induction rule: rtrancl_induct) (auto dest: rank_grows)

lemma never_back:
  "b \<in> allowed a \<Longrightarrow> (b, a) \<notin> {(x, y). y \<in> allowed x}\<^sup>*"
  using rank_grows steps_rank by (meson not_less)

end

text \<open>
  An object whose methods may raise and leave it changed: the caller catches the exception
  and goes on with the object as it is.  What every valid call keeps, raising or not, every
  sequence of calls keeps.
\<close>

fun run_all :: "('op \<Rightarrow> 's \<Rightarrow> 'e option \<times> 's) \<Rightarrow> 'op list \<Rightarrow> 's \<Rightarrow> 's" where
  "run_all step [] s = s"
| "run_all step (c # cs) s = run_all step cs (snd (step c s))"

locale robust_object =
  fixes step :: "'op \<Rightarrow> 's \<Rightarrow> 'e option \<times> 's"
    and valid :: "'op \<Rightarrow> bool"
    and inv :: "'s \<Rightarrow> bool"
  assumes inv_step: "valid c \<Longrightarrow> inv s \<Longrightarrow> inv (snd (step c s))"
begin

lemma run_all_inv: "\<forall>c \<in> set cs. valid c \<Longrightarrow> inv s \<Longrightarrow> inv (run_all step cs s)"
  by (induction cs arbitrary: s) (auto intro: inv_step)

end

end
