(* ===== verification/Working_State.thy ===== *)
theory Working_State
  imports Spear_Prelude
begin

text \<open>
  The event-reduced truth about one agent task (\<open>client/runtime/working_state.py\<close>): the
  event and record types, the field readers, the reducer with one definition per event
  kind, and the replay that restores a state from its serialised log.

  Record fields carry a prefix that names their class (\<open>ev_\<close> StateEvent, \<open>ps_\<close> PlanStep,
  \<open>ws_\<close> WorkingState, \<dots>), enum members a prefix that names their enum; \<open>_reduce\<close> is split
  into one definition per event kind. An exception text that Python builds from another
  exception is cut to its constant prefix.
\<close>

section \<open>Enumerations and exceptions\<close>

datatype ws_error =
    StateTransitionError string
  | DuplicateEventError string
  | SerializationError string
  | ValueError string

datatype state_source = USER | HARNESS | TOOL_RUNTIME | RETRIEVAL | MODEL

datatype state_event_type =
    TASK_STARTED | OBJECTIVE_RECORDED | CONSTRAINT_RECORDED
  | ACCEPTANCE_CRITERION_RECORDED | PLAN_STEP_ADDED | PLAN_STEP_UPDATED
  | PLAN_STEP_REVISED | DISCOVERY_RECORDED | DECISION_RECORDED
  | FILE_READ | FILE_MODIFIED | FILE_CREATED | FILE_DELETED
  | ACTION_SUCCEEDED | ACTION_FAILED | ACTION_CANCELLED | FAILURE_RESOLVED
  | VERIFICATION_RECORDED | REVIEW_RECORDED | CHECKPOINT_RECORDED
  | CHECKPOINT_STATUS_UPDATED | ROUND_STARTED | RETRY_RECORDED
  | REPEATED_ACTION_RECORDED | VERIFICATION_REPROMPT_RECORDED | BUDGET_REACHED
  | TASK_COMPLETED | TASK_FAILED | TASK_INTERRUPTED | TASK_RESUMED
  | BUDGET_EXHAUSTED

datatype terminal_status =
    TS_RUNNING | TS_COMPLETED | TS_FAILED | TS_INTERRUPTED | TS_BUDGET_EXHAUSTED

datatype plan_step_status = PS_PENDING | PS_ACTIVE | PS_COMPLETED | PS_BLOCKED | PS_SKIPPED

datatype action_kind = AK_MODEL | AK_TOOL | AK_COMMAND

datatype action_status = AS_SUCCEEDED | AS_FAILED | AS_CANCELLED

datatype verification_outcome = VO_NOT_RUN | VO_PASSED | VO_FAILED

text \<open>The string each enum member is written as, and the member a string names.\<close>

fun source_value :: "state_source \<Rightarrow> string" where
  "source_value USER = ''user''"
| "source_value HARNESS = ''harness''"
| "source_value TOOL_RUNTIME = ''tool_runtime''"
| "source_value RETRIEVAL = ''retrieval''"
| "source_value MODEL = ''model''"

definition all_sources :: "state_source list" where
  "all_sources = [USER, HARNESS, TOOL_RUNTIME, RETRIEVAL, MODEL]"

fun event_type_value :: "state_event_type \<Rightarrow> string" where
  "event_type_value TASK_STARTED = ''task_started''"
| "event_type_value OBJECTIVE_RECORDED = ''objective_recorded''"
| "event_type_value CONSTRAINT_RECORDED = ''constraint_recorded''"
| "event_type_value ACCEPTANCE_CRITERION_RECORDED = ''acceptance_criterion_recorded''"
| "event_type_value PLAN_STEP_ADDED = ''plan_step_added''"
| "event_type_value PLAN_STEP_UPDATED = ''plan_step_updated''"
| "event_type_value PLAN_STEP_REVISED = ''plan_step_revised''"
| "event_type_value DISCOVERY_RECORDED = ''discovery_recorded''"
| "event_type_value DECISION_RECORDED = ''decision_recorded''"
| "event_type_value FILE_READ = ''file_read''"
| "event_type_value FILE_MODIFIED = ''file_modified''"
| "event_type_value FILE_CREATED = ''file_created''"
| "event_type_value FILE_DELETED = ''file_deleted''"
| "event_type_value ACTION_SUCCEEDED = ''action_succeeded''"
| "event_type_value ACTION_FAILED = ''action_failed''"
| "event_type_value ACTION_CANCELLED = ''action_cancelled''"
| "event_type_value FAILURE_RESOLVED = ''failure_resolved''"
| "event_type_value VERIFICATION_RECORDED = ''verification_recorded''"
| "event_type_value REVIEW_RECORDED = ''review_recorded''"
| "event_type_value CHECKPOINT_RECORDED = ''checkpoint_recorded''"
| "event_type_value CHECKPOINT_STATUS_UPDATED = ''checkpoint_status_updated''"
| "event_type_value ROUND_STARTED = ''round_started''"
| "event_type_value RETRY_RECORDED = ''retry_recorded''"
| "event_type_value REPEATED_ACTION_RECORDED = ''repeated_action_recorded''"
| "event_type_value VERIFICATION_REPROMPT_RECORDED = ''verification_reprompt_recorded''"
| "event_type_value BUDGET_REACHED = ''budget_reached''"
| "event_type_value TASK_COMPLETED = ''task_completed''"
| "event_type_value TASK_FAILED = ''task_failed''"
| "event_type_value TASK_INTERRUPTED = ''task_interrupted''"
| "event_type_value TASK_RESUMED = ''task_resumed''"
| "event_type_value BUDGET_EXHAUSTED = ''budget_exhausted''"

definition all_event_types :: "state_event_type list" where
  "all_event_types =
     [TASK_STARTED, OBJECTIVE_RECORDED, CONSTRAINT_RECORDED,
      ACCEPTANCE_CRITERION_RECORDED, PLAN_STEP_ADDED, PLAN_STEP_UPDATED,
      PLAN_STEP_REVISED, DISCOVERY_RECORDED, DECISION_RECORDED,
      FILE_READ, FILE_MODIFIED, FILE_CREATED, FILE_DELETED,
      ACTION_SUCCEEDED, ACTION_FAILED, ACTION_CANCELLED, FAILURE_RESOLVED,
      VERIFICATION_RECORDED, REVIEW_RECORDED, CHECKPOINT_RECORDED,
      CHECKPOINT_STATUS_UPDATED, ROUND_STARTED, RETRY_RECORDED,
      REPEATED_ACTION_RECORDED, VERIFICATION_REPROMPT_RECORDED, BUDGET_REACHED,
      TASK_COMPLETED, TASK_FAILED, TASK_INTERRUPTED, TASK_RESUMED,
      BUDGET_EXHAUSTED]"

fun terminal_value :: "terminal_status \<Rightarrow> string" where
  "terminal_value TS_RUNNING = ''running''"
| "terminal_value TS_COMPLETED = ''completed''"
| "terminal_value TS_FAILED = ''failed''"
| "terminal_value TS_INTERRUPTED = ''interrupted''"
| "terminal_value TS_BUDGET_EXHAUSTED = ''budget_exhausted''"

fun plan_status_value :: "plan_step_status \<Rightarrow> string" where
  "plan_status_value PS_PENDING = ''pending''"
| "plan_status_value PS_ACTIVE = ''active''"
| "plan_status_value PS_COMPLETED = ''completed''"
| "plan_status_value PS_BLOCKED = ''blocked''"
| "plan_status_value PS_SKIPPED = ''skipped''"

fun action_kind_value :: "action_kind \<Rightarrow> string" where
  "action_kind_value AK_MODEL = ''model''"
| "action_kind_value AK_TOOL = ''tool''"
| "action_kind_value AK_COMMAND = ''command''"

fun outcome_value :: "verification_outcome \<Rightarrow> string" where
  "outcome_value VO_NOT_RUN = ''not_run''"
| "outcome_value VO_PASSED = ''passed''"
| "outcome_value VO_FAILED = ''failed''"

abbreviation source_of :: "json \<Rightarrow> state_source option" where
  "source_of \<equiv> enum_of source_value all_sources"

abbreviation event_type_of :: "json \<Rightarrow> state_event_type option" where
  "event_type_of \<equiv> enum_of event_type_value all_event_types"

abbreviation plan_status_of :: "json \<Rightarrow> plan_step_status option" where
  "plan_status_of \<equiv> enum_of plan_status_value
     [PS_PENDING, PS_ACTIVE, PS_COMPLETED, PS_BLOCKED, PS_SKIPPED]"

abbreviation action_kind_of :: "json \<Rightarrow> action_kind option" where
  "action_kind_of \<equiv> enum_of action_kind_value [AK_MODEL, AK_TOOL, AK_COMMAND]"

abbreviation outcome_of :: "json \<Rightarrow> verification_outcome option" where
  "outcome_of \<equiv> enum_of outcome_value [VO_NOT_RUN, VO_PASSED, VO_FAILED]"

section \<open>Reading event payloads\<close>

definition required_text :: "json_object \<Rightarrow> string \<Rightarrow> ws_error + string" where
  "required_text data name =
     (case get data name of
        JStr v \<Rightarrow> (if strip v = [] then Inl (StateTransitionError (name @ '' must be a non-empty string''))
                   else Inr (strip v))
      | _ \<Rightarrow> Inl (StateTransitionError (name @ '' must be a non-empty string'')))"

definition optional_text :: "json_object \<Rightarrow> string \<Rightarrow> ws_error + string option" where
  "optional_text data name =
     (case get data name of
        JNull \<Rightarrow> Inr None
      | JStr v \<Rightarrow> Inr (if strip v = [] then None else Some (strip v))
      | _ \<Rightarrow> Inl (StateTransitionError (name @ '' must be a string or null'')))"

definition required_int :: "json_object \<Rightarrow> string \<Rightarrow> int \<Rightarrow> ws_error + int" where
  "required_int data name minimum =
     (case get data name of
        JInt v \<Rightarrow> (if v < minimum then Inl (StateTransitionError (name @ '' must be an integer >= minimum''))
                   else Inr v)
      | _ \<Rightarrow> Inl (StateTransitionError (name @ '' must be an integer >= minimum'')))"

fun nonblank_string :: "json \<Rightarrow> bool" where
  "nonblank_string (JStr s) = (strip s \<noteq> [])"
| "nonblank_string _ = False"

fun json_string :: "json \<Rightarrow> string" where
  "json_string (JStr s) = s"
| "json_string _ = []"

definition string_tuple :: "json_object \<Rightarrow> string \<Rightarrow> ws_error + string list" where
  "string_tuple data name =
     (case get_default data name (JList []) of
        JList vs \<Rightarrow> (if list_all nonblank_string vs then Inr (map json_string vs)
                     else Inl (StateTransitionError (name @ '' must be a list of non-empty strings'')))
      | _ \<Rightarrow> Inl (StateTransitionError (name @ '' must be a list of non-empty strings'')))"

text \<open>
  The inline checks of the form "None, or an int (never a bool) of at least
  \<open>minimum\<close>"; \<open>message\<close> is the text the caller raises with.
\<close>

definition optional_int_min :: "json_object \<Rightarrow> string \<Rightarrow> int \<Rightarrow> string \<Rightarrow> ws_error + int option" where
  "optional_int_min data name minimum message =
     (case get data name of
        JNull \<Rightarrow> Inr None
      | JInt v \<Rightarrow> (if v < minimum then Inl (StateTransitionError message) else Inr (Some v))
      | _ \<Rightarrow> Inl (StateTransitionError message))"

section \<open>Records\<close>

record state_event =
  ev_type :: state_event_type
  ev_task_id :: string
  ev_source :: state_source
  ev_data :: json_object
  ev_id :: string
  ev_timestamp :: string
  ev_monotonic_ns :: int

record plan_step =
  ps_step_id :: string
  ps_description :: string
  ps_status :: plan_step_status
  ps_evidence_action_ids :: "string list"
  ps_dependencies :: "string list"
  ps_completion_criteria :: "string list"
  ps_requires_evidence :: bool

record plan_revision =
  pr_step_id :: string
  pr_prior_description :: string
  pr_revised_description :: string
  pr_reason :: string
  pr_event_id :: string
  pr_timestamp :: string

record discovery =
  di_summary :: string
  di_file_path :: "string option"
  di_symbol :: "string option"
  di_action_id :: "string option"

record decision =
  de_summary :: string
  de_rationale :: "string option"
  de_action_id :: "string option"

record action_record =
  ar_action_id :: string
  ar_kind :: action_kind
  ar_name :: string
  ar_status :: action_status
  ar_summary :: "string option"
  ar_round_number :: "int option"
  ar_output_chars :: "int option"
  ar_exit_code :: "int option"
  ar_event_id :: string
  ar_timestamp :: string

record failure_record =
  fr_failure_id :: string
  fr_action_id :: "string option"
  fr_category :: string
  fr_summary :: string
  fr_resolved :: bool
  fr_event_id :: string
  fr_timestamp :: string
  fr_resolved_by_event_id :: "string option"

record verification_record =
  vr_verification_id :: string
  vr_kind :: string
  vr_executed :: bool
  vr_outcome :: verification_outcome
  vr_action_id :: "string option"
  vr_summary :: "string option"
  vr_event_id :: string
  vr_timestamp :: string
  vr_category :: string
  vr_coverage :: string
  vr_mutation_generation :: int
  vr_result_reference :: "string option"
  vr_command :: "string option"
  vr_project_bench :: bool

record review_record =
  rr_review_id :: string
  rr_mutation_generation :: int
  rr_verdict :: string
  rr_blocking_count :: int
  rr_evidence_reference :: "string option"
  rr_event_id :: string
  rr_timestamp :: string

text \<open>\<open>StateEvent.__post_init__\<close>: an event with an empty identity, or a payload JSON cannot carry, is refused.\<close>

definition state_event_new ::
  "state_event_type \<Rightarrow> string \<Rightarrow> state_source \<Rightarrow> json_object \<Rightarrow> string \<Rightarrow> string \<Rightarrow> int
   \<Rightarrow> ws_error + state_event" where
  "state_event_new ty task_id src data event_id timestamp monotonic_ns =
     (if task_id = [] then Inl (StateTransitionError ''event task_id must be a non-empty string'')
      else if event_id = [] then Inl (StateTransitionError ''event_id must be a non-empty string'')
      else if \<not> json_finite (JObj data) then Inl (StateTransitionError ''event data is not JSON-compatible'')
      else Inr \<lparr>ev_type = ty, ev_task_id = task_id, ev_source = src, ev_data = data,
                ev_id = event_id, ev_timestamp = timestamp, ev_monotonic_ns = monotonic_ns\<rparr>)"

definition event_to_dict :: "state_event \<Rightarrow> json" where
  "event_to_dict ev = JObj
     [(''event_id'', JStr (ev_id ev)),
      (''event_type'', JStr (event_type_value (ev_type ev))),
      (''task_id'', JStr (ev_task_id ev)),
      (''source'', JStr (source_value (ev_source ev))),
      (''timestamp'', JStr (ev_timestamp ev)),
      (''monotonic_ns'', JInt (ev_monotonic_ns ev)),
      (''data'', JObj (ev_data ev))]"

text \<open>\<open>StateEvent.from_dict\<close>: subscripting a missing key and an unknown enum value are the
  same failure; a rejection by the constructor is a deserialization failure.\<close>

definition event_from_dict :: "json \<Rightarrow> ws_error + state_event" where
  "event_from_dict raw =
     (case raw of
        JObj d \<Rightarrow>
          (case (event_type_of (get d ''event_type''), source_of (get d ''source''),
                 map_of d ''task_id'', map_of d ''event_id'', map_of d ''timestamp'',
                 map_of d ''monotonic_ns'') of
             (Some ty, Some src, Some task_id, Some event_id, Some timestamp, Some monotonic_ns) \<Rightarrow>
               (case timestamp of
                  JStr ts \<Rightarrow>
                    (if ts = [] then Inl (SerializationError ''event timestamp must be a non-empty string'')
                     else case monotonic_ns of
                       JInt ns \<Rightarrow>
                         (case (task_id, event_id, get_default d ''data'' (JObj [])) of
                            (JStr t, JStr i, JObj data) \<Rightarrow>
                              (case state_event_new ty t src data i ts ns of
                                 Inl (StateTransitionError m) \<Rightarrow> Inl (SerializationError m)
                               | Inl e \<Rightarrow> Inl e
                               | Inr ev \<Rightarrow> Inr ev)
                          | (JStr t, JStr i, _) \<Rightarrow>
                              (if t = [] then Inl (SerializationError ''event task_id must be a non-empty string'')
                               else if i = [] then Inl (SerializationError ''event_id must be a non-empty string'')
                               else Inl (SerializationError ''event data must be a mapping''))
                          | (JStr t, _, _) \<Rightarrow>
                              (if t = [] then Inl (SerializationError ''event task_id must be a non-empty string'')
                               else Inl (SerializationError ''event_id must be a non-empty string''))
                          | _ \<Rightarrow> Inl (SerializationError ''event task_id must be a non-empty string''))
                     | _ \<Rightarrow> Inl (SerializationError ''event monotonic_ns must be an integer''))
                | _ \<Rightarrow> Inl (SerializationError ''event timestamp must be a non-empty string''))
           | _ \<Rightarrow> Inl (SerializationError ''malformed state event''))
      | _ \<Rightarrow> Inl (SerializationError ''event must be an object''))"

record working_state =
  ws_task_id :: string
  ws_objective :: string
  ws_user_constraints :: "string list"
  ws_acceptance_criteria :: "string list"
  ws_plan_steps :: "(string \<times> plan_step) list"
  ws_plan_revisions :: "plan_revision list"
  ws_discoveries :: "discovery list"
  ws_decisions :: "decision list"
  ws_files_read :: "string set"
  ws_modified_files :: "string set"
  ws_created_files :: "string set"
  ws_deleted_files :: "string set"
  ws_actions :: "action_record list"
  ws_failures :: "(string \<times> failure_record) list"
  ws_verifications :: "verification_record list"
  ws_reviews :: "review_record list"
  ws_current_round :: int
  ws_model_rounds :: int
  ws_tool_actions :: int
  ws_command_actions :: int
  ws_tool_budget_used :: int
  ws_max_model_rounds :: "int option"
  ws_max_tool_actions :: "int option"
  ws_retry_count :: int
  ws_repeated_action_count :: int
  ws_verification_reprompt_count :: int
  ws_mutation_generation :: int
  ws_mutation_action_ids :: "string set"
  ws_checkpoint_id :: "string option"
  ws_checkpoint_status :: "string option"
  ws_budget_reached :: bool
  ws_terminal_status :: terminal_status
  ws_outcome_summary :: "string option"
  ws_started :: bool
  ws_events :: "state_event list"
  ws_applied_event_ids :: "string set"

text \<open>\<open>WorkingState(task_id)\<close>: the state before any event.\<close>

definition fresh_state :: "string \<Rightarrow> working_state" where
  "fresh_state task_id = \<lparr>
     ws_task_id = task_id, ws_objective = [], ws_user_constraints = [],
     ws_acceptance_criteria = [], ws_plan_steps = [], ws_plan_revisions = [],
     ws_discoveries = [], ws_decisions = [], ws_files_read = {}, ws_modified_files = {},
     ws_created_files = {}, ws_deleted_files = {}, ws_actions = [], ws_failures = [],
     ws_verifications = [], ws_reviews = [], ws_current_round = 0, ws_model_rounds = 0,
     ws_tool_actions = 0, ws_command_actions = 0, ws_tool_budget_used = 0,
     ws_max_model_rounds = None, ws_max_tool_actions = None, ws_retry_count = 0,
     ws_repeated_action_count = 0, ws_verification_reprompt_count = 0,
     ws_mutation_generation = 0, ws_mutation_action_ids = {}, ws_checkpoint_id = None,
     ws_checkpoint_status = None, ws_budget_reached = False,
     ws_terminal_status = TS_RUNNING, ws_outcome_summary = None, ws_started = False,
     ws_events = [], ws_applied_event_ids = {}\<rparr>"

section \<open>Derived views\<close>

definition completed_steps :: "working_state \<Rightarrow> plan_step list" where
  "completed_steps s = filter (\<lambda>p. ps_status p = PS_COMPLETED) (dict_values (ws_plan_steps s))"

definition pending_steps :: "working_state \<Rightarrow> plan_step list" where
  "pending_steps s = filter (\<lambda>p. ps_status p = PS_PENDING) (dict_values (ws_plan_steps s))"

definition blocked_steps :: "working_state \<Rightarrow> plan_step list" where
  "blocked_steps s = filter (\<lambda>p. ps_status p = PS_BLOCKED) (dict_values (ws_plan_steps s))"

definition current_step :: "working_state \<Rightarrow> plan_step option" where
  "current_step s = find (\<lambda>p. ps_status p = PS_ACTIVE) (dict_values (ws_plan_steps s))"

definition unresolved_failures :: "working_state \<Rightarrow> failure_record list" where
  "unresolved_failures s = filter (\<lambda>f. \<not> fr_resolved f) (dict_values (ws_failures s))"

definition verification_outcome :: "working_state \<Rightarrow> verification_outcome" where
  "verification_outcome s =
     (let current = filter (\<lambda>v. vr_mutation_generation v = ws_mutation_generation s
                                \<and> vr_coverage v \<noteq> ''none'') (ws_verifications s)
      in if current = [] then VO_NOT_RUN else vr_outcome (last current))"

definition current_review :: "working_state \<Rightarrow> review_record option" where
  "current_review s =
     find (\<lambda>r. rr_mutation_generation r = ws_mutation_generation s) (rev (ws_reviews s))"

definition current_review_accepted :: "working_state \<Rightarrow> bool" where
  "current_review_accepted s =
     (case current_review s of
        None \<Rightarrow> False
      | Some r \<Rightarrow> rr_verdict r = ''accept'' \<and> rr_blocking_count r = 0)"

text \<open>What \<open>x for \<dots> if x\<close> keeps of an optional string: neither \<open>None\<close> nor the empty one.\<close>

definition truthy :: "string option \<Rightarrow> string list" where
  "truthy v = (case v of None \<Rightarrow> [] | Some x \<Rightarrow> if x = [] then [] else [x])"

definition relevant_files :: "working_state \<Rightarrow> string set" where
  "relevant_files s =
     ws_files_read s \<union> ws_modified_files s \<union> ws_created_files s \<union> ws_deleted_files s
     \<union> set (concat (map (\<lambda>d. truthy (di_file_path d)) (ws_discoveries s)))"

section \<open>The reducer\<close>

text \<open>Which sources are trusted to assert each class of fact.\<close>

definition grounded_file_sources :: "state_source set" where
  "grounded_file_sources = {TOOL_RUNTIME}"

definition grounded_fact_sources :: "state_source set" where
  "grounded_fact_sources = {HARNESS, TOOL_RUNTIME, RETRIEVAL}"

definition grounded_action_sources :: "state_source set" where
  "grounded_action_sources = {HARNESS, TOOL_RUNTIME}"

definition grounded_verification_sources :: "state_source set" where
  "grounded_verification_sources = {HARNESS, TOOL_RUNTIME}"

type_synonym reduction = "ws_error + working_state"

abbreviation refuse :: "string \<Rightarrow> ws_error + 'a" where
  "refuse m \<equiv> Inl (StateTransitionError m)"

definition reduce_task_started :: "state_event \<Rightarrow> working_state \<Rightarrow> reduction" where
  "reduce_task_started ev s =
     (if ws_started s then refuse ''task has already started''
      else if ev_source ev \<noteq> USER then refuse ''task definition must originate from the user''
      else bindE (required_text (ev_data ev) ''objective'') (\<lambda>objective.
           bindE (optional_int_min (ev_data ev) ''max_model_rounds'' 1
                    ''max_model_rounds must be null or a positive integer'') (\<lambda>rounds.
           bindE (optional_int_min (ev_data ev) ''max_tool_actions'' 1
                    ''max_tool_actions must be null or a positive integer'') (\<lambda>tools.
           Inr (s\<lparr>ws_objective := objective, ws_max_model_rounds := rounds,
                  ws_max_tool_actions := tools, ws_started := True\<rparr>)))))"

definition reduce_objective_recorded :: "state_event \<Rightarrow> working_state \<Rightarrow> reduction" where
  "reduce_objective_recorded ev s =
     (if ev_source ev \<noteq> USER then refuse ''objective updates must originate from the user''
      else bindE (required_text (ev_data ev) ''objective'') (\<lambda>objective.
           Inr (s\<lparr>ws_objective := objective\<rparr>)))"

definition reduce_constraint_recorded :: "state_event \<Rightarrow> working_state \<Rightarrow> reduction" where
  "reduce_constraint_recorded ev s =
     (if ev_source ev \<noteq> USER then refuse ''constraints must originate from the user''
      else bindE (required_text (ev_data ev) ''constraint'') (\<lambda>v.
           Inr (if v \<in> set (ws_user_constraints s) then s
                else s\<lparr>ws_user_constraints := ws_user_constraints s @ [v]\<rparr>)))"

definition reduce_criterion_recorded :: "state_event \<Rightarrow> working_state \<Rightarrow> reduction" where
  "reduce_criterion_recorded ev s =
     (if ev_source ev \<noteq> USER then refuse ''acceptance criteria must originate from the user''
      else bindE (required_text (ev_data ev) ''criterion'') (\<lambda>v.
           Inr (if v \<in> set (ws_acceptance_criteria s) then s
                else s\<lparr>ws_acceptance_criteria := ws_acceptance_criteria s @ [v]\<rparr>)))"

definition bool_field :: "json_object \<Rightarrow> string \<Rightarrow> string \<Rightarrow> ws_error + bool" where
  \<comment> \<open>\<open>data.get(name, False)\<close>, refused unless it is a bool\<close>
  "bool_field data name message =
     (case get_default data name (JBool False) of JBool b \<Rightarrow> Inr b | _ \<Rightarrow> refuse message)"

definition reduce_plan_step_added :: "state_event \<Rightarrow> working_state \<Rightarrow> reduction" where
  "reduce_plan_step_added ev s =
     (if ev_source ev \<notin> {USER, HARNESS}
      then refuse ''plans must originate from the user or harness validation''
      else bindE (required_text (ev_data ev) ''step_id'') (\<lambda>step_id.
        if has_key (ws_plan_steps s) step_id then refuse (''plan step already exists: '' @ step_id)
        else bindE (string_tuple (ev_data ev) ''dependencies'') (\<lambda>dependencies.
          if step_id \<in> set dependencies
             \<or> list_ex (\<lambda>d. \<not> has_key (ws_plan_steps s) d) dependencies
          then refuse ''plan dependencies must reference earlier steps''
          else bindE (string_tuple (ev_data ev) ''completion_criteria'') (\<lambda>criteria.
               bindE (bool_field (ev_data ev) ''requires_evidence''
                        ''requires_evidence must be boolean'') (\<lambda>requires_evidence.
               bindE (required_text (ev_data ev) ''description'') (\<lambda>description.
               Inr (s\<lparr>ws_plan_steps := AList.update step_id
                        \<lparr>ps_step_id = step_id, ps_description = description,
                         ps_status = PS_PENDING, ps_evidence_action_ids = [],
                         ps_dependencies = dependencies,
                         ps_completion_criteria = criteria,
                         ps_requires_evidence = requires_evidence\<rparr> (ws_plan_steps s)\<rparr>)))))))"

text \<open>The status changes \<open>_update_plan_step\<close> allows.\<close>

fun plan_allowed :: "plan_step_status \<Rightarrow> plan_step_status set" where
  "plan_allowed PS_PENDING = {PS_ACTIVE, PS_BLOCKED, PS_SKIPPED}"
| "plan_allowed PS_ACTIVE = {PS_COMPLETED, PS_BLOCKED, PS_SKIPPED}"
| "plan_allowed PS_BLOCKED = {PS_ACTIVE, PS_SKIPPED}"
| "plan_allowed PS_COMPLETED = {}"
| "plan_allowed PS_SKIPPED = {}"

definition another_active :: "string \<Rightarrow> working_state \<Rightarrow> bool" where
  "another_active step_id s \<longleftrightarrow>
     list_ex (\<lambda>p. ps_status p = PS_ACTIVE \<and> ps_step_id p \<noteq> step_id)
       (dict_values (ws_plan_steps s))"

fun nonempty_string :: "json \<Rightarrow> bool" where
  "nonempty_string (JStr s) = (s \<noteq> [])"
| "nonempty_string _ = False"

definition evidence_field :: "json_object \<Rightarrow> ws_error + string list" where
  "evidence_field data =
     (case get_default data ''evidence_action_ids'' (JList []) of
        JList vs \<Rightarrow> (if list_all nonempty_string vs then Inr (map json_string vs)
                     else refuse ''evidence_action_ids must be a list of strings'')
      | _ \<Rightarrow> refuse ''evidence_action_ids must be a list of strings'')"

definition step_open :: "working_state \<Rightarrow> string \<Rightarrow> bool" where
  \<comment> \<open>\<open>self.plan_steps[item].status not in {COMPLETED, SKIPPED}\<close>; dependencies are always keys\<close>
  "step_open s d = (case map_of (ws_plan_steps s) d of
     None \<Rightarrow> True | Some p \<Rightarrow> ps_status p \<notin> {PS_COMPLETED, PS_SKIPPED})"

text \<open>What may stand as evidence for a completed step: outcomes something other than the
  model observed.\<close>

definition grounded_evidence :: "working_state \<Rightarrow> string set" where
  "grounded_evidence s =
     set (map ar_action_id (filter (\<lambda>a. ar_status a = AS_SUCCEEDED) (ws_actions s)))
     \<union> set (concat (map (\<lambda>d. truthy (di_action_id d)) (ws_discoveries s)))
     \<union> set (map vr_verification_id
              (filter (\<lambda>v. vr_outcome v = VO_PASSED) (ws_verifications s)))
     \<union> set (concat (map (\<lambda>v. truthy (vr_action_id v))
              (filter (\<lambda>v. vr_outcome v = VO_PASSED) (ws_verifications s))))
     \<union> set (map rr_review_id (filter (\<lambda>r. rr_verdict r = ''accept'' \<and> rr_blocking_count r = 0)
              (ws_reviews s)))"

definition update_plan_step :: "state_event \<Rightarrow> working_state \<Rightarrow> reduction" where
  "update_plan_step ev s =
     (if ev_source ev \<notin> grounded_fact_sources
      then refuse ''plan progress requires grounded harness/runtime evidence''
      else bindE (required_text (ev_data ev) ''step_id'') (\<lambda>step_id.
        case map_of (ws_plan_steps s) step_id of
          None \<Rightarrow> refuse (''unknown plan step: '' @ step_id)
        | Some step \<Rightarrow>
          (case plan_status_of (get (ev_data ev) ''status'') of
             None \<Rightarrow> refuse ''invalid plan step status''
           | Some status \<Rightarrow>
             if status \<notin> plan_allowed (ps_status step)
             then refuse (''invalid plan transition: '' @ plan_status_value (ps_status step)
                          @ '' -> '' @ plan_status_value status)
             else if status = PS_ACTIVE \<and> another_active step_id s
             then refuse ''only one plan step may be active''
             else bindE (evidence_field (ev_data ev)) (\<lambda>evidence.
               if status = PS_ACTIVE \<and> list_ex (step_open s) (ps_dependencies step)
               then refuse ''plan step dependencies are incomplete''
               else if status = PS_COMPLETED \<and> ps_requires_evidence step
                       \<and> (ev_source ev = MODEL \<or> evidence = [])
               then refuse ''grounded plan completion requires evidence''
               else if status = PS_COMPLETED \<and> ps_requires_evidence step
                       \<and> \<not> set evidence \<subseteq> grounded_evidence s
               then refuse ''plan completion references ungrounded evidence''
               else Inr (s\<lparr>ws_plan_steps := AList.update step_id
                           (step\<lparr>ps_status := status, ps_evidence_action_ids := evidence\<rparr>)
                           (ws_plan_steps s)\<rparr>)))))"

text \<open>An unknown status raises a bare \<open>ValueError\<close> here, unlike in \<^const>\<open>update_plan_step\<close>.\<close>

definition reduce_plan_step_revised :: "state_event \<Rightarrow> working_state \<Rightarrow> reduction" where
  "reduce_plan_step_revised ev s =
     (if ev_source ev \<noteq> HARNESS then refuse ''plan revisions must originate from orchestration''
      else bindE (required_text (ev_data ev) ''step_id'') (\<lambda>step_id.
        case map_of (ws_plan_steps s) step_id of
          None \<Rightarrow> refuse (''unknown plan step: '' @ step_id)
        | Some step \<Rightarrow>
          bindE (required_text (ev_data ev) ''description'') (\<lambda>description.
          bindE (required_text (ev_data ev) ''reason'') (\<lambda>reason.
          case plan_status_of (get_default (ev_data ev) ''status'' (JStr ''pending'')) of
            None \<Rightarrow> Inl (ValueError ''not a valid PlanStepStatus'')
          | Some status \<Rightarrow>
            if status \<notin> {PS_PENDING, PS_ACTIVE, PS_BLOCKED, PS_SKIPPED}
            then refuse ''revised plan step cannot remain completed''
            else if status = PS_ACTIVE \<and> another_active step_id s
            then refuse ''only one plan step may be active''
            else Inr (s\<lparr>ws_plan_revisions := ws_plan_revisions s @
                         [\<lparr>pr_step_id = step_id, pr_prior_description = ps_description step,
                           pr_revised_description = description, pr_reason = reason,
                           pr_event_id = ev_id ev, pr_timestamp = ev_timestamp ev\<rparr>],
                       ws_plan_steps := AList.update step_id
                         (step\<lparr>ps_description := description, ps_status := status,
                               ps_evidence_action_ids := []\<rparr>) (ws_plan_steps s)\<rparr>)))))"

definition reduce_discovery_recorded :: "state_event \<Rightarrow> working_state \<Rightarrow> reduction" where
  "reduce_discovery_recorded ev s =
     (if ev_source ev \<notin> grounded_fact_sources
      then refuse ''discoveries require grounded harness/runtime evidence''
      else bindE (required_text (ev_data ev) ''summary'') (\<lambda>summary.
           bindE (optional_text (ev_data ev) ''file_path'') (\<lambda>file_path.
           bindE (optional_text (ev_data ev) ''symbol'') (\<lambda>symbol.
           bindE (optional_text (ev_data ev) ''action_id'') (\<lambda>action_id.
           Inr (s\<lparr>ws_discoveries := ws_discoveries s @
                  [\<lparr>di_summary = summary, di_file_path = file_path, di_symbol = symbol,
                    di_action_id = action_id\<rparr>]\<rparr>))))))"

definition reduce_decision_recorded :: "state_event \<Rightarrow> working_state \<Rightarrow> reduction" where
  "reduce_decision_recorded ev s =
     (if ev_source ev \<notin> {HARNESS, MODEL}
      then refuse ''decisions must originate from the harness or model''
      else bindE (required_text (ev_data ev) ''summary'') (\<lambda>summary.
           bindE (optional_text (ev_data ev) ''rationale'') (\<lambda>rationale.
           bindE (optional_text (ev_data ev) ''action_id'') (\<lambda>action_id.
           Inr (s\<lparr>ws_decisions := ws_decisions s @
                  [\<lparr>de_summary = summary, de_rationale = rationale,
                    de_action_id = action_id\<rparr>]\<rparr>)))))"

definition apply_file_status :: "state_event_type \<Rightarrow> string \<Rightarrow> working_state \<Rightarrow> working_state" where
  "apply_file_status ty path s =
     (if ty = FILE_READ then s\<lparr>ws_files_read := insert path (ws_files_read s)\<rparr>
      else if ty = FILE_MODIFIED then s\<lparr>ws_modified_files := insert path (ws_modified_files s)\<rparr>
      else if ty = FILE_CREATED
      then s\<lparr>ws_created_files := insert path (ws_created_files s),
             ws_deleted_files := ws_deleted_files s - {path}\<rparr>
      else s\<lparr>ws_deleted_files := insert path (ws_deleted_files s),
             ws_created_files := ws_created_files s - {path},
             ws_modified_files := ws_modified_files s - {path}\<rparr>)"

definition count_mutation :: "state_event_type \<Rightarrow> string \<Rightarrow> working_state \<Rightarrow> working_state" where
  "count_mutation ty action_id s =
     (if ty \<noteq> FILE_READ \<and> action_id \<notin> ws_mutation_action_ids s
      then s\<lparr>ws_mutation_action_ids := insert action_id (ws_mutation_action_ids s),
             ws_mutation_generation := ws_mutation_generation s + 1\<rparr>
      else s)"

definition record_file_event :: "state_event \<Rightarrow> working_state \<Rightarrow> reduction" where
  "record_file_event ev s =
     (if ev_source ev \<notin> grounded_file_sources
      then refuse ''file state requires grounded tool-runtime evidence''
      else bindE (required_text (ev_data ev) ''path'') (\<lambda>path.
           bindE (required_text (ev_data ev) ''action_id'') (\<lambda>action_id.
           case find (\<lambda>a. ar_action_id a = action_id) (ws_actions s) of
             None \<Rightarrow> refuse ''file state must reference a recorded runtime action''
           | Some action \<Rightarrow>
             if ev_type ev \<noteq> FILE_READ
                \<and> (ar_kind action \<noteq> AK_TOOL \<or> ar_status action \<noteq> AS_SUCCEEDED)
             then refuse ''file mutation requires a successful grounded tool action''
             else Inr (count_mutation (ev_type ev) action_id
                         (apply_file_status (ev_type ev) path s)))))"

fun action_status_for :: "state_event_type \<Rightarrow> action_status" where
  \<comment> \<open>the status table of \<open>_record_action\<close>; only the three action events are looked up\<close>
  "action_status_for ACTION_SUCCEEDED = AS_SUCCEEDED"
| "action_status_for ACTION_FAILED = AS_FAILED"
| "action_status_for _ = AS_CANCELLED"

fun expected_observed :: "action_status \<Rightarrow> string" where
  "expected_observed AS_SUCCEEDED = ''ok''"
| "expected_observed AS_FAILED = ''failed''"
| "expected_observed AS_CANCELLED = ''cancelled''"

definition count_action :: "action_kind \<Rightarrow> working_state \<Rightarrow> working_state" where
  "count_action kind s =
     (if kind = AK_MODEL then s\<lparr>ws_model_rounds := ws_model_rounds s + 1\<rparr>
      else s\<lparr>ws_tool_actions := ws_tool_actions s + 1,
             ws_tool_budget_used := ws_tool_budget_used s + 1,
             ws_command_actions := (if kind = AK_COMMAND then ws_command_actions s + 1
                                    else ws_command_actions s)\<rparr>)"

definition or_else :: "string option \<Rightarrow> string \<Rightarrow> string" where
  "or_else v d = (case v of None \<Rightarrow> d | Some x \<Rightarrow> if x = [] then d else x)"

definition open_failure :: "string \<Rightarrow> string option \<Rightarrow> string \<Rightarrow> string \<Rightarrow> state_event
    \<Rightarrow> working_state \<Rightarrow> working_state" where
  "open_failure failure_id action_id category summary ev s =
     s\<lparr>ws_failures := AList.update failure_id
         \<lparr>fr_failure_id = failure_id, fr_action_id = action_id, fr_category = category,
          fr_summary = summary, fr_resolved = False, fr_event_id = ev_id ev,
          fr_timestamp = ev_timestamp ev, fr_resolved_by_event_id = None\<rparr> (ws_failures s)\<rparr>"

definition exit_code_field :: "json_object \<Rightarrow> ws_error + int option" where
  "exit_code_field data =
     (case get data ''exit_code'' of
        JNull \<Rightarrow> Inr None
      | JInt c \<Rightarrow> Inr (Some c)
      | _ \<Rightarrow> refuse ''exit_code must be null or an integer'')"

definition record_action :: "state_event \<Rightarrow> working_state \<Rightarrow> reduction" where
  "record_action ev s =
     (if ev_source ev \<notin> grounded_action_sources
      then refuse ''actions require grounded harness/runtime evidence''
      else bindE (required_text (ev_data ev) ''action_id'') (\<lambda>action_id.
      if list_ex (\<lambda>a. ar_action_id a = action_id) (ws_actions s)
      then refuse (''action already recorded: '' @ action_id)
      else case action_kind_of (get (ev_data ev) ''kind'') of
        None \<Rightarrow> refuse ''invalid action kind''
      | Some kind \<Rightarrow>
        let status = action_status_for (ev_type ev) in
        if get (ev_data ev) ''observed_status'' \<noteq> JStr (expected_observed status)
        then refuse (event_type_value (ev_type ev) @ '' requires observed_status=''
                     @ [CHR 0x27] @ expected_observed status @ [CHR 0x27])
        else bindE (optional_int_min (ev_data ev) ''round_number'' 0
                      ''round_number must be null or a non-negative integer'') (\<lambda>round_number.
        bindE (optional_int_min (ev_data ev) ''output_chars'' 0
                 ''output_chars must be null or non-negative'') (\<lambda>output_chars.
        bindE (exit_code_field (ev_data ev)) (\<lambda>exit_code.
        if kind = AK_COMMAND \<and> status = AS_SUCCEEDED \<and> exit_code \<notin> {None, Some 0}
        then refuse ''a nonzero command exit cannot be successful''
        else bindE (required_text (ev_data ev) ''name'') (\<lambda>name.
        bindE (optional_text (ev_data ev) ''summary'') (\<lambda>summary.
        bindE (if status = AS_FAILED then optional_text (ev_data ev) ''category''
               else Inr None) (\<lambda>category.
        let s1 = count_action kind (s\<lparr>ws_actions := ws_actions s @
              [\<lparr>ar_action_id = action_id, ar_kind = kind, ar_name = name,
                ar_status = status, ar_summary = summary, ar_round_number = round_number,
                ar_output_chars = output_chars, ar_exit_code = exit_code,
                ar_event_id = ev_id ev, ar_timestamp = ev_timestamp ev\<rparr>]\<rparr>)
        in Inr (if status = AS_FAILED
                then open_failure (''failure:'' @ action_id) (Some action_id)
                       (or_else category ''action_failed'')
                       (or_else summary (name @ '' failed'')) ev s1
                else s1)))))))))"

definition reduce_failure_resolved :: "state_event \<Rightarrow> working_state \<Rightarrow> reduction" where
  "reduce_failure_resolved ev s =
     bindE (required_text (ev_data ev) ''failure_id'') (\<lambda>failure_id.
       case map_of (ws_failures s) failure_id of
         None \<Rightarrow> refuse (''unknown failure: '' @ failure_id)
       | Some failure \<Rightarrow>
         if fr_resolved failure then refuse (''failure already resolved: '' @ failure_id)
         else Inr (s\<lparr>ws_failures := AList.update failure_id
                      (failure\<lparr>fr_resolved := True,
                               fr_resolved_by_event_id := Some (ev_id ev)\<rparr>)
                      (ws_failures s)\<rparr>))"

definition executed_field :: "json_object \<Rightarrow> ws_error + bool" where
  "executed_field data =
     (case get data ''executed'' of
        JBool b \<Rightarrow> Inr b
      | _ \<Rightarrow> refuse ''verification executed must be boolean'')"

definition generation_field :: "json_object \<Rightarrow> int \<Rightarrow> ws_error + int" where
  "generation_field data current =
     (case get_default data ''mutation_generation'' (JInt current) of
        JInt g \<Rightarrow> (if g < 0 then refuse ''verification mutation_generation must be non-negative''
                    else Inr g)
      | _ \<Rightarrow> refuse ''verification mutation_generation must be non-negative'')"

definition category_field :: "json_object \<Rightarrow> ws_error + string" where
  "category_field data =
     bindE (optional_text data ''category'') (\<lambda>given.
       case given of Some c \<Rightarrow> Inr c | None \<Rightarrow> required_text data ''kind'')"

text \<open>The record a verification event describes, with every check \<open>_record_verification\<close> makes.\<close>

definition verification_of :: "state_event \<Rightarrow> working_state \<Rightarrow> ws_error + verification_record" where
  "verification_of ev s =
     (if ev_source ev \<notin> grounded_verification_sources
      then refuse ''verification requires grounded harness/runtime evidence''
      else bindE (executed_field (ev_data ev)) (\<lambda>executed.
      case outcome_of (get (ev_data ev) ''outcome'') of
        None \<Rightarrow> refuse ''invalid verification outcome''
      | Some outcome \<Rightarrow>
        if \<not> executed \<and> outcome \<noteq> VO_NOT_RUN
        then refuse ''verification that did not execute cannot pass or fail''
        else if executed \<and> outcome = VO_NOT_RUN
        then refuse ''executed verification needs a pass/fail outcome''
        else bindE (required_text (ev_data ev) ''verification_id'') (\<lambda>verification_id.
        if list_ex (\<lambda>v. vr_verification_id v = verification_id) (ws_verifications s)
        then refuse (''verification already recorded: '' @ verification_id)
        else bindE (generation_field (ev_data ev) (ws_mutation_generation s)) (\<lambda>generation.
        bindE (category_field (ev_data ev)) (\<lambda>category.
        bindE (optional_text (ev_data ev) ''coverage'') (\<lambda>coverage.
        bindE (bool_field (ev_data ev) ''project_bench''
                 ''verification project_bench must be boolean'') (\<lambda>project_bench.
        bindE (required_text (ev_data ev) ''kind'') (\<lambda>kind.
        bindE (optional_text (ev_data ev) ''action_id'') (\<lambda>action_id.
        bindE (optional_text (ev_data ev) ''summary'') (\<lambda>summary.
        bindE (optional_text (ev_data ev) ''result_reference'') (\<lambda>result_reference.
        bindE (optional_text (ev_data ev) ''command'') (\<lambda>command.
        Inr \<lparr>vr_verification_id = verification_id, vr_kind = kind,
             vr_executed = executed, vr_outcome = outcome, vr_action_id = action_id,
             vr_summary = summary, vr_event_id = ev_id ev,
             vr_timestamp = ev_timestamp ev, vr_category = category,
             vr_coverage = or_else coverage ''unknown'', vr_mutation_generation = generation,
             vr_result_reference = result_reference, vr_command = command,
             vr_project_bench = project_bench\<rparr>))))))))))))"

definition record_verification :: "state_event \<Rightarrow> working_state \<Rightarrow> reduction" where
  "record_verification ev s =
     bindE (verification_of ev s) (\<lambda>v.
       let s1 = s\<lparr>ws_verifications := ws_verifications s @ [v]\<rparr>
       in Inr (if vr_outcome v = VO_FAILED \<and> vr_coverage v \<noteq> ''none''
               then open_failure (''verification:'' @ vr_verification_id v) (vr_action_id v)
                      ''verification_failed''
                      (or_else (vr_summary v)
                         (''verification '' @ vr_verification_id v @ '' failed'')) ev s1
               else s1))"

definition review_generation_field :: "json_object \<Rightarrow> int \<Rightarrow> ws_error + int" where
  "review_generation_field data current =
     (case get data ''mutation_generation'' of
        JInt g \<Rightarrow> (if g < 0 \<or> current < g then refuse ''invalid review mutation generation''
                    else Inr g)
      | _ \<Rightarrow> refuse ''invalid review mutation generation'')"

definition blocking_field :: "json_object \<Rightarrow> ws_error + int" where
  "blocking_field data =
     (case get data ''blocking_count'' of
        JInt n \<Rightarrow> (if n < 0 then refuse ''invalid review blocking count'' else Inr n)
      | _ \<Rightarrow> refuse ''invalid review blocking count'')"

definition reduce_review_recorded :: "state_event \<Rightarrow> working_state \<Rightarrow> reduction" where
  "reduce_review_recorded ev s =
     (if ev_source ev \<noteq> HARNESS then refuse ''reviews must originate from orchestration''
      else bindE (review_generation_field (ev_data ev) (ws_mutation_generation s)) (\<lambda>generation.
      bindE (blocking_field (ev_data ev)) (\<lambda>blocking.
      bindE (required_text (ev_data ev) ''verdict'') (\<lambda>verdict.
      if verdict \<notin> {''accept'', ''repair_required'', ''blocked''}
      then refuse ''invalid review verdict''
      else bindE (required_text (ev_data ev) ''review_id'') (\<lambda>review_id.
      if list_ex (\<lambda>r. rr_review_id r = review_id) (ws_reviews s)
      then refuse (''review already recorded: '' @ review_id)
      else if verdict = ''accept'' \<and> blocking \<noteq> 0
      then refuse ''accepted review cannot contain blockers''
      else bindE (optional_text (ev_data ev) ''evidence_reference'') (\<lambda>reference.
      Inr (s\<lparr>ws_reviews := ws_reviews s @
             [\<lparr>rr_review_id = review_id, rr_mutation_generation = generation,
               rr_verdict = verdict, rr_blocking_count = blocking,
               rr_evidence_reference = reference, rr_event_id = ev_id ev,
               rr_timestamp = ev_timestamp ev\<rparr>]\<rparr>)))))))"

text \<open>
  The one branch that assigns before its last check: a payload with a checkpoint id and
  no usable status raises with the id already stored.
\<close>

definition reduce_checkpoint_recorded ::
  "state_event \<Rightarrow> working_state \<Rightarrow> ws_error option \<times> working_state" where
  "reduce_checkpoint_recorded ev s =
     (if ev_source ev \<noteq> HARNESS
      then (Some (StateTransitionError ''checkpoint state must originate from harness''), s)
      else if ws_checkpoint_id s \<noteq> None
      then (Some (StateTransitionError ''task already has a checkpoint''), s)
      else case required_text (ev_data ev) ''checkpoint_id'' of
        Inl e \<Rightarrow> (Some e, s)
      | Inr checkpoint_id \<Rightarrow>
        let s1 = s\<lparr>ws_checkpoint_id := Some checkpoint_id\<rparr> in
        (case required_text (ev_data ev) ''status'' of
           Inl e \<Rightarrow> (Some e, s1)
         | Inr status \<Rightarrow> (None, s1\<lparr>ws_checkpoint_status := Some status\<rparr>)))"

definition reduce_checkpoint_status_updated :: "state_event \<Rightarrow> working_state \<Rightarrow> reduction" where
  "reduce_checkpoint_status_updated ev s =
     (if ev_source ev \<noteq> HARNESS then refuse ''checkpoint state must originate from harness''
      else bindE (required_text (ev_data ev) ''checkpoint_id'') (\<lambda>checkpoint_id.
        if Some checkpoint_id \<noteq> ws_checkpoint_id s
        then refuse ''checkpoint ID does not match task''
        else bindE (required_text (ev_data ev) ''status'') (\<lambda>status.
             Inr (s\<lparr>ws_checkpoint_status := Some status\<rparr>))))"

definition reduce_round_started :: "state_event \<Rightarrow> working_state \<Rightarrow> reduction" where
  "reduce_round_started ev s =
     bindE (required_int (ev_data ev) ''round_number'' 1) (\<lambda>round_number.
       if round_number \<le> ws_current_round s then refuse ''round numbers must increase''
       else Inr (s\<lparr>ws_current_round := round_number\<rparr>))"

definition reduce_task_resumed :: "state_event \<Rightarrow> working_state \<Rightarrow> reduction" where
  "reduce_task_resumed ev s =
     (if ws_terminal_status s \<noteq> TS_INTERRUPTED
      then refuse ''only an interrupted task may be resumed''
      else if ev_source ev \<noteq> HARNESS
      then refuse ''task resume must originate from the harness''
      else Inr (s\<lparr>ws_terminal_status := TS_RUNNING, ws_outcome_summary := None\<rparr>))"

definition reduce_terminal :: "terminal_status \<Rightarrow> state_event \<Rightarrow> working_state \<Rightarrow> reduction" where
  "reduce_terminal status ev s =
     bindE (optional_text (ev_data ev) ''summary'') (\<lambda>summary.
       Inr (s\<lparr>ws_terminal_status := status, ws_outcome_summary := summary\<rparr>))"

definition reduce :: "state_event \<Rightarrow> working_state \<Rightarrow> ws_error option \<times> working_state" where
  "reduce ev s =
     (case ev_type ev of
        TASK_STARTED \<Rightarrow> commit s (reduce_task_started ev s)
      | OBJECTIVE_RECORDED \<Rightarrow> commit s (reduce_objective_recorded ev s)
      | CONSTRAINT_RECORDED \<Rightarrow> commit s (reduce_constraint_recorded ev s)
      | ACCEPTANCE_CRITERION_RECORDED \<Rightarrow> commit s (reduce_criterion_recorded ev s)
      | PLAN_STEP_ADDED \<Rightarrow> commit s (reduce_plan_step_added ev s)
      | PLAN_STEP_UPDATED \<Rightarrow> commit s (update_plan_step ev s)
      | PLAN_STEP_REVISED \<Rightarrow> commit s (reduce_plan_step_revised ev s)
      | DISCOVERY_RECORDED \<Rightarrow> commit s (reduce_discovery_recorded ev s)
      | DECISION_RECORDED \<Rightarrow> commit s (reduce_decision_recorded ev s)
      | FILE_READ \<Rightarrow> commit s (record_file_event ev s)
      | FILE_MODIFIED \<Rightarrow> commit s (record_file_event ev s)
      | FILE_CREATED \<Rightarrow> commit s (record_file_event ev s)
      | FILE_DELETED \<Rightarrow> commit s (record_file_event ev s)
      | ACTION_SUCCEEDED \<Rightarrow> commit s (record_action ev s)
      | ACTION_FAILED \<Rightarrow> commit s (record_action ev s)
      | ACTION_CANCELLED \<Rightarrow> commit s (record_action ev s)
      | FAILURE_RESOLVED \<Rightarrow> commit s (reduce_failure_resolved ev s)
      | VERIFICATION_RECORDED \<Rightarrow> commit s (record_verification ev s)
      | REVIEW_RECORDED \<Rightarrow> commit s (reduce_review_recorded ev s)
      | CHECKPOINT_RECORDED \<Rightarrow> reduce_checkpoint_recorded ev s
      | CHECKPOINT_STATUS_UPDATED \<Rightarrow> commit s (reduce_checkpoint_status_updated ev s)
      | ROUND_STARTED \<Rightarrow> commit s (reduce_round_started ev s)
      | RETRY_RECORDED \<Rightarrow> (None, s\<lparr>ws_retry_count := ws_retry_count s + 1\<rparr>)
      | REPEATED_ACTION_RECORDED \<Rightarrow>
          (None, s\<lparr>ws_repeated_action_count := ws_repeated_action_count s + 1\<rparr>)
      | VERIFICATION_REPROMPT_RECORDED \<Rightarrow>
          (None, s\<lparr>ws_verification_reprompt_count := ws_verification_reprompt_count s + 1\<rparr>)
      | BUDGET_REACHED \<Rightarrow> (None, s\<lparr>ws_budget_reached := True\<rparr>)
      | TASK_RESUMED \<Rightarrow> commit s (reduce_task_resumed ev s)
      | TASK_COMPLETED \<Rightarrow> commit s (reduce_terminal TS_COMPLETED ev s)
      | TASK_FAILED \<Rightarrow> commit s (reduce_terminal TS_FAILED ev s)
      | TASK_INTERRUPTED \<Rightarrow> commit s (reduce_terminal TS_INTERRUPTED ev s)
      | BUDGET_EXHAUSTED \<Rightarrow> commit s (reduce_terminal TS_BUDGET_EXHAUSTED ev s))"

definition apply_event :: "state_event \<Rightarrow> working_state \<Rightarrow> ws_error option \<times> working_state" where
  "apply_event ev s =
     (if ev_task_id ev \<noteq> ws_task_id s
      then (Some (StateTransitionError ''event task_id does not match WorkingState''), s)
      else if ev_id ev \<in> ws_applied_event_ids s
      then (Some (DuplicateEventError (''duplicate state event: '' @ ev_id ev)), s)
      else if ws_terminal_status s \<noteq> TS_RUNNING
              \<and> ev_type ev \<notin> {FAILURE_RESOLVED, TASK_RESUMED}
      then (Some (StateTransitionError (''cannot apply '' @ event_type_value (ev_type ev)
              @ '' after '' @ terminal_value (ws_terminal_status s))), s)
      else case reduce ev s of
        (Some e, s') \<Rightarrow> (Some e, s')
      | (None, s') \<Rightarrow>
          (None, s'\<lparr>ws_events := ws_events s' @ [ev],
                    ws_applied_event_ids := insert (ev_id ev) (ws_applied_event_ids s')\<rparr>))"

section \<open>Serialisation by log\<close>

definition to_dict :: "working_state \<Rightarrow> json" where
  "to_dict s = JObj [(''schema_version'', JInt 1), (''task_id'', JStr (ws_task_id s)),
                     (''events'', JList (map event_to_dict (ws_events s)))]"

definition restore_error :: "ws_error \<Rightarrow> ws_error" where
  "restore_error e = (case e of SerializationError m \<Rightarrow> SerializationError m
                      | _ \<Rightarrow> SerializationError ''could not restore working state'')"

fun replay_raw :: "json list \<Rightarrow> working_state \<Rightarrow> ws_error + working_state" where
  "replay_raw [] s = Inr s"
| "replay_raw (raw # raws) s =
     (case event_from_dict raw of
        Inl e \<Rightarrow> Inl (restore_error e)
      | Inr ev \<Rightarrow> (case apply_event ev s of
                     (Some e, _) \<Rightarrow> Inl (restore_error e)
                   | (None, s') \<Rightarrow> replay_raw raws s'))"

definition from_dict :: "json \<Rightarrow> ws_error + working_state" where
  "from_dict raw =
     (case raw of
        JObj d \<Rightarrow>
          (if get d ''schema_version'' \<noteq> JInt 1
           then Inl (SerializationError ''unsupported working state schema'')
           else case get d ''task_id'' of
             JStr task_id \<Rightarrow>
               (if task_id = []
                then Inl (SerializationError ''working state task_id must be a non-empty string'')
                else case get d ''events'' of
                  JList raws \<Rightarrow> replay_raw raws (fresh_state task_id)
                | _ \<Rightarrow> Inl (SerializationError ''working state events must be an array''))
           | _ \<Rightarrow> Inl (SerializationError ''working state task_id must be a non-empty string''))
      | _ \<Rightarrow> Inl (SerializationError ''working state must be an object''))"

definition replay_state :: "string \<Rightarrow> state_event list \<Rightarrow> ws_error + working_state" where
  "replay_state task_id evs =
     (if task_id = [] then refuse ''task_id must be a non-empty string''
      else replay_with apply_event evs (fresh_state task_id))"

end
