(* ===== verification/Working_State_Laws.thy ===== *)
theory Working_State_Laws
  imports Working_State
begin

text \<open>
  What the reducer of \<open>Working_State\<close> promises. An abstract step relation says what an
  event may change, with the payload parsing gone; the reducer refines it; the state
  invariant is proved on the relation by cases over its rules and carried to every
  replayed state through the \<open>event_sourced\<close> contract.
\<close>

section \<open>The abstract step relation\<close>

definition add_failure :: "failure_record option \<Rightarrow> working_state \<Rightarrow> working_state" where
  "add_failure f s = (case f of
     None \<Rightarrow> s
   | Some r \<Rightarrow> s\<lparr>ws_failures := AList.update (fr_failure_id r) r (ws_failures s)\<rparr>)"

inductive ws_effect :: "state_source \<Rightarrow> working_state \<Rightarrow> working_state \<Rightarrow> bool" where
  define_task: "src = USER \<Longrightarrow> \<not> ws_started s \<Longrightarrow>
    ws_effect src s (s\<lparr>ws_objective := obj, ws_max_model_rounds := r,
                      ws_max_tool_actions := t, ws_started := True\<rparr>)"
| objective: "src = USER \<Longrightarrow> ws_effect src s (s\<lparr>ws_objective := obj\<rparr>)"
| constraint: "src = USER \<Longrightarrow> ws_effect src s (s\<lparr>ws_user_constraints := cs\<rparr>)"
| criterion: "src = USER \<Longrightarrow> ws_effect src s (s\<lparr>ws_acceptance_criteria := cs\<rparr>)"
| plan_add: "src \<in> {USER, HARNESS} \<Longrightarrow> \<not> has_key (ws_plan_steps s) (ps_step_id p) \<Longrightarrow>
    ps_step_id p \<noteq> [] \<Longrightarrow> strip (ps_step_id p) = ps_step_id p \<Longrightarrow>
    set (ps_dependencies p) \<subseteq> fst ` set (ws_plan_steps s) \<Longrightarrow> ps_status p = PS_PENDING \<Longrightarrow>
    ws_effect src s (s\<lparr>ws_plan_steps := ws_plan_steps s @ [(ps_step_id p, p)]\<rparr>)"
| plan_move: "src \<in> grounded_fact_sources \<Longrightarrow> map_of (ws_plan_steps s) k = Some p \<Longrightarrow>
    st \<in> plan_allowed (ps_status p) \<Longrightarrow>
    (st = PS_ACTIVE \<longrightarrow> \<not> another_active k s \<and> \<not> list_ex (step_open s) (ps_dependencies p)) \<Longrightarrow>
    (st = PS_COMPLETED \<and> ps_requires_evidence p \<longrightarrow>
       ids \<noteq> [] \<and> set ids \<subseteq> grounded_evidence s) \<Longrightarrow>
    ws_effect src s (s\<lparr>ws_plan_steps := AList.update k
      (p\<lparr>ps_status := st, ps_evidence_action_ids := ids\<rparr>) (ws_plan_steps s)\<rparr>)"
| plan_revise: "src = HARNESS \<Longrightarrow> map_of (ws_plan_steps s) k = Some p \<Longrightarrow>
    st \<noteq> PS_COMPLETED \<Longrightarrow> (st = PS_ACTIVE \<longrightarrow> \<not> another_active k s) \<Longrightarrow>
    ws_effect src s (s\<lparr>ws_plan_revisions := ws_plan_revisions s @ [rvn],
      ws_plan_steps := AList.update k
      (p\<lparr>ps_description := d, ps_status := st, ps_evidence_action_ids := []\<rparr>)
      (ws_plan_steps s)\<rparr>)"
| discover: "src \<in> grounded_fact_sources \<Longrightarrow>
    ws_effect src s (s\<lparr>ws_discoveries := ws_discoveries s @ [dis]\<rparr>)"
| decide: "src \<in> {HARNESS, MODEL} \<Longrightarrow>
    ws_effect src s (s\<lparr>ws_decisions := ws_decisions s @ [dec]\<rparr>)"
| read_file: "src \<in> grounded_file_sources \<Longrightarrow>
    ws_effect src s (s\<lparr>ws_files_read := insert path (ws_files_read s)\<rparr>)"
| mutate_file: "src \<in> grounded_file_sources \<Longrightarrow> ty \<in> {FILE_MODIFIED, FILE_CREATED, FILE_DELETED} \<Longrightarrow>
    a \<in> set (ws_actions s) \<Longrightarrow> ar_kind a = AK_TOOL \<Longrightarrow> ar_status a = AS_SUCCEEDED \<Longrightarrow>
    ws_effect src s (count_mutation ty (ar_action_id a) (apply_file_status ty path s))"
| act: "src \<in> grounded_action_sources \<Longrightarrow>
    ar_action_id a \<notin> ar_action_id ` set (ws_actions s) \<Longrightarrow>
    (ar_kind a = AK_COMMAND \<and> ar_status a = AS_SUCCEEDED \<longrightarrow> ar_exit_code a \<in> {None, Some 0}) \<Longrightarrow>
    (f \<noteq> None \<longleftrightarrow> ar_status a = AS_FAILED) \<Longrightarrow>
    ws_effect src s (add_failure f (count_action (ar_kind a)
      (s\<lparr>ws_actions := ws_actions s @ [a]\<rparr>)))"
| resolve: "map_of (ws_failures s) k = Some f \<Longrightarrow> \<not> fr_resolved f \<Longrightarrow>
    ws_effect src s (s\<lparr>ws_failures := AList.update k
      (f\<lparr>fr_resolved := True, fr_resolved_by_event_id := resolver\<rparr>) (ws_failures s)\<rparr>)"
| verify: "src \<in> grounded_verification_sources \<Longrightarrow>
    vr_verification_id v \<notin> vr_verification_id ` set (ws_verifications s) \<Longrightarrow>
    (vr_executed v \<longleftrightarrow> vr_outcome v \<noteq> VO_NOT_RUN) \<Longrightarrow> 0 \<le> vr_mutation_generation v \<Longrightarrow>
    (f \<noteq> None \<longleftrightarrow> vr_outcome v = VO_FAILED \<and> vr_coverage v \<noteq> ''none'') \<Longrightarrow>
    ws_effect src s (add_failure f (s\<lparr>ws_verifications := ws_verifications s @ [v]\<rparr>))"
| review: "src = HARNESS \<Longrightarrow> rr_review_id r \<notin> rr_review_id ` set (ws_reviews s) \<Longrightarrow>
    0 \<le> rr_mutation_generation r \<Longrightarrow> rr_mutation_generation r \<le> ws_mutation_generation s \<Longrightarrow>
    0 \<le> rr_blocking_count r \<Longrightarrow> (rr_verdict r = ''accept'' \<longrightarrow> rr_blocking_count r = 0) \<Longrightarrow>
    ws_effect src s (s\<lparr>ws_reviews := ws_reviews s @ [r]\<rparr>)"
| checkpoint: "src = HARNESS \<Longrightarrow> ws_checkpoint_id s = None \<Longrightarrow>
    ws_effect src s (s\<lparr>ws_checkpoint_id := Some c, ws_checkpoint_status := Some st\<rparr>)"
| checkpoint_status: "src = HARNESS \<Longrightarrow> ws_checkpoint_id s = Some c \<Longrightarrow>
    ws_effect src s (s\<lparr>ws_checkpoint_status := Some st\<rparr>)"
| start_round: "ws_current_round s < n \<Longrightarrow> ws_effect src s (s\<lparr>ws_current_round := n\<rparr>)"
| retry: "ws_effect src s (s\<lparr>ws_retry_count := ws_retry_count s + 1\<rparr>)"
| repeated: "ws_effect src s (s\<lparr>ws_repeated_action_count := ws_repeated_action_count s + 1\<rparr>)"
| reprompt: "ws_effect src s
    (s\<lparr>ws_verification_reprompt_count := ws_verification_reprompt_count s + 1\<rparr>)"
| budget: "ws_effect src s (s\<lparr>ws_budget_reached := True\<rparr>)"
| resume: "src = HARNESS \<Longrightarrow> ws_terminal_status s = TS_INTERRUPTED \<Longrightarrow>
    ws_effect src s (s\<lparr>ws_terminal_status := TS_RUNNING, ws_outcome_summary := None\<rparr>)"
| finish: "st \<noteq> TS_RUNNING \<Longrightarrow>
    ws_effect src s (s\<lparr>ws_terminal_status := st, ws_outcome_summary := summary\<rparr>)"

section \<open>The reducer refines the relation\<close>

named_theorems refines \<open>one refinement fact per event kind\<close>

lemma effect_same_constraints: "src = USER \<Longrightarrow> ws_effect src s s"
  using ws_effect.constraint [of src s "ws_user_constraints s"] by simp

lemma task_started_refines [refines]:
  "reduce_task_started ev s = Inr s' \<Longrightarrow> ws_effect (ev_source ev) s s'"
  by (auto simp: reduce_task_started_def raise_simps intro: ws_effect.define_task split: if_splits)

lemma objective_refines [refines]:
  "reduce_objective_recorded ev s = Inr s' \<Longrightarrow> ws_effect (ev_source ev) s s'"
  by (auto simp: reduce_objective_recorded_def raise_simps intro: ws_effect.objective split: if_splits)

lemma constraint_refines [refines]:
  "reduce_constraint_recorded ev s = Inr s' \<Longrightarrow> ws_effect (ev_source ev) s s'"
  by (auto simp: reduce_constraint_recorded_def raise_simps
      intro: ws_effect.constraint effect_same_constraints split: if_splits)

lemma criterion_refines [refines]:
  "reduce_criterion_recorded ev s = Inr s' \<Longrightarrow> ws_effect (ev_source ev) s s'"
  by (auto simp: reduce_criterion_recorded_def raise_simps
      intro: ws_effect.criterion effect_same_constraints split: if_splits)

lemma required_text_Inr: "required_text d name = Inr v \<Longrightarrow> v \<noteq> [] \<and> strip v = v"
  by (auto simp: required_text_def split: json.splits if_splits)

lemma plan_step_added_refines [refines]:
  assumes "reduce_plan_step_added ev s = Inr s'"
  shows "ws_effect (ev_source ev) s s'"
proof -
  from assms obtain k deps crit req d where
    src: "ev_source ev \<in> {USER, HARNESS}" and new: "\<not> has_key (ws_plan_steps s) k"
    and deps: "\<forall>x \<in> set deps. has_key (ws_plan_steps s) x"
    and k: "required_text (ev_data ev) ''step_id'' = Inr k"
    and s': "s' = s\<lparr>ws_plan_steps := AList.update k
               \<lparr>ps_step_id = k, ps_description = d, ps_status = PS_PENDING,
                ps_evidence_action_ids = [], ps_dependencies = deps,
                ps_completion_criteria = crit, ps_requires_evidence = req\<rparr> (ws_plan_steps s)\<rparr>"
    by (auto simp: reduce_plan_step_added_def raise_simps list_ex_iff split: if_splits)
  let ?p = "\<lparr>ps_step_id = k, ps_description = d, ps_status = PS_PENDING,
             ps_evidence_action_ids = [], ps_dependencies = deps,
             ps_completion_criteria = crit, ps_requires_evidence = req\<rparr>"
  have "ws_effect (ev_source ev) s (s\<lparr>ws_plan_steps := ws_plan_steps s @ [(ps_step_id ?p, ?p)]\<rparr>)"
    by (rule ws_effect.plan_add) (use src new deps required_text_Inr [OF k] in \<open>auto simp: has_key_def\<close>)
  with s' new show ?thesis by (simp add: update_new_key)
qed

lemma update_plan_step_refines [refines]:
  "update_plan_step ev s = Inr s' \<Longrightarrow> ws_effect (ev_source ev) s s'"
  by (auto simp: update_plan_step_def raise_simps intro!: ws_effect.plan_move
      split: if_splits option.splits)

lemma plan_step_revised_refines [refines]:
  "reduce_plan_step_revised ev s = Inr s' \<Longrightarrow> ws_effect (ev_source ev) s s'"
  by (auto simp: reduce_plan_step_revised_def raise_simps intro!: ws_effect.plan_revise
      split: if_splits option.splits)

lemma discovery_refines [refines]:
  "reduce_discovery_recorded ev s = Inr s' \<Longrightarrow> ws_effect (ev_source ev) s s'"
  by (auto simp: reduce_discovery_recorded_def raise_simps intro: ws_effect.discover split: if_splits)

lemma decision_refines [refines]:
  "reduce_decision_recorded ev s = Inr s' \<Longrightarrow> ws_effect (ev_source ev) s s'"
  by (auto simp: reduce_decision_recorded_def raise_simps intro: ws_effect.decide split: if_splits)

lemma file_event_refines [refines]:
  assumes "record_file_event ev s = Inr s'"
    and ty: "ev_type ev \<in> {FILE_READ, FILE_MODIFIED, FILE_CREATED, FILE_DELETED}"
  shows "ws_effect (ev_source ev) s s'"
proof -
  from assms(1) obtain path i a where src: "ev_source ev \<in> grounded_file_sources"
    and a: "find (\<lambda>a. ar_action_id a = i) (ws_actions s) = Some a"
    and ok: "ev_type ev = FILE_READ \<or> ar_kind a = AK_TOOL \<and> ar_status a = AS_SUCCEEDED"
    and s': "s' = count_mutation (ev_type ev) i (apply_file_status (ev_type ev) path s)"
    by (auto simp: record_file_event_def raise_simps split: if_splits option.splits)
  from a have mem: "a \<in> set (ws_actions s)" and i: "ar_action_id a = i"
    by (auto simp: find_Some_iff)
  show ?thesis
  proof (cases "ev_type ev = FILE_READ")
    case True
    with src s' show ?thesis
      by (auto simp: count_mutation_def apply_file_status_def intro: ws_effect.read_file)
  next
    case False
    with ty ok src mem show ?thesis
      unfolding s' i [symmetric] by (intro ws_effect.mutate_file) auto
  qed
qed

lemma add_open_failure:
  "\<exists>f. open_failure k i c m ev s = add_failure (Some f) s"
  by (auto simp: open_failure_def add_failure_def intro!: exI [of _
      "\<lparr>fr_failure_id = k, fr_action_id = i, fr_category = c, fr_summary = m,
        fr_resolved = False, fr_event_id = ev_id ev, fr_timestamp = ev_timestamp ev,
        fr_resolved_by_event_id = None\<rparr>"])

lemma act_ok:
  assumes "src \<in> grounded_action_sources" "ar_action_id a \<notin> ar_action_id ` set (ws_actions s)"
    "kind = ar_kind a" "ar_status a \<noteq> AS_FAILED"
    "kind = AK_COMMAND \<and> ar_status a = AS_SUCCEEDED \<longrightarrow> ar_exit_code a \<in> {None, Some 0}"
  shows "ws_effect src s (count_action kind (s\<lparr>ws_actions := ws_actions s @ [a]\<rparr>))"
  using ws_effect.act [of src a s None] assms by (simp add: add_failure_def)

lemma act_failed:
  assumes "src \<in> grounded_action_sources" "ar_action_id a \<notin> ar_action_id ` set (ws_actions s)"
    "kind = ar_kind a" "ar_status a = AS_FAILED"
  shows "ws_effect src s (open_failure k i c m ev
           (count_action kind (s\<lparr>ws_actions := ws_actions s @ [a]\<rparr>)))"
proof -
  obtain f where "open_failure k i c m ev (count_action kind (s\<lparr>ws_actions := ws_actions s @ [a]\<rparr>))
    = add_failure (Some f) (count_action kind (s\<lparr>ws_actions := ws_actions s @ [a]\<rparr>))"
    using add_open_failure by blast
  with ws_effect.act [of src a s "Some f"] assms show ?thesis by simp
qed

lemma action_refines [refines]:
  "record_action ev s = Inr s' \<Longrightarrow> ws_effect (ev_source ev) s s'"
  unfolding record_action_def Let_def list_ex_key
  by (auto simp: raise_simps intro!: act_ok act_failed split: if_splits option.splits)

lemma failure_resolved_refines [refines]:
  "reduce_failure_resolved ev s = Inr s' \<Longrightarrow> ws_effect (ev_source ev) s s'"
  by (auto simp: reduce_failure_resolved_def raise_simps intro!: ws_effect.resolve
      split: if_splits option.splits)

lemma verify_ok:
  assumes "src \<in> grounded_verification_sources"
    "vr_verification_id v \<notin> vr_verification_id ` set (ws_verifications s)"
    "vr_executed v \<longleftrightarrow> vr_outcome v \<noteq> VO_NOT_RUN" "0 \<le> vr_mutation_generation v"
    "\<not> (vr_outcome v = VO_FAILED \<and> vr_coverage v \<noteq> ''none'')"
  shows "ws_effect src s (s\<lparr>ws_verifications := ws_verifications s @ [v]\<rparr>)"
  using ws_effect.verify [of src v s None] assms by (simp add: add_failure_def)

lemma verify_failed:
  assumes "src \<in> grounded_verification_sources"
    "vr_verification_id v \<notin> vr_verification_id ` set (ws_verifications s)"
    "vr_executed v \<longleftrightarrow> vr_outcome v \<noteq> VO_NOT_RUN" "0 \<le> vr_mutation_generation v"
    "vr_outcome v = VO_FAILED \<and> vr_coverage v \<noteq> ''none''"
  shows "ws_effect src s (open_failure k i c m ev
           (s\<lparr>ws_verifications := ws_verifications s @ [v]\<rparr>))"
proof -
  obtain f where "open_failure k i c m ev (s\<lparr>ws_verifications := ws_verifications s @ [v]\<rparr>)
    = add_failure (Some f) (s\<lparr>ws_verifications := ws_verifications s @ [v]\<rparr>)"
    using add_open_failure by blast
  with ws_effect.verify [of src v s "Some f"] assms show ?thesis by simp
qed

lemma generation_field_Inr: "generation_field d n = Inr g \<Longrightarrow> 0 \<le> g"
  by (auto simp: generation_field_def split: json.splits if_splits)

lemma review_generation_field_Inr: "review_generation_field d n = Inr g \<Longrightarrow> 0 \<le> g \<and> g \<le> n"
  by (auto simp: review_generation_field_def split: json.splits if_splits)

lemma blocking_field_Inr: "blocking_field d = Inr n \<Longrightarrow> 0 \<le> n"
  by (auto simp: blocking_field_def split: json.splits if_splits)

lemma verification_of_Inr:
  assumes "verification_of ev s = Inr v"
  shows "ev_source ev \<in> grounded_verification_sources"
    "vr_verification_id v \<notin> vr_verification_id ` set (ws_verifications s)"
    "vr_executed v \<longleftrightarrow> vr_outcome v \<noteq> VO_NOT_RUN" "0 \<le> vr_mutation_generation v"
  using assms unfolding verification_of_def list_ex_key
  by (auto simp: raise_simps dest!: generation_field_Inr split: if_split_asm option.split_asm)

lemma verification_refines [refines]:
  assumes "record_verification ev s = Inr s'"
  shows "ws_effect (ev_source ev) s s'"
proof -
  from assms obtain v where v: "verification_of ev s = Inr v"
    by (auto simp: record_verification_def raise_simps)
  note facts = verification_of_Inr [OF v]
  show ?thesis
  proof (cases "vr_outcome v = VO_FAILED \<and> vr_coverage v \<noteq> ''none''")
    case True
    with assms v show ?thesis
      by (auto simp: record_verification_def intro!: verify_failed [OF facts])
  next
    case False
    with assms v show ?thesis
      by (auto simp: record_verification_def intro!: verify_ok [OF facts])
  qed
qed

lemma review_refines [refines]:
  "reduce_review_recorded ev s = Inr s' \<Longrightarrow> ws_effect (ev_source ev) s s'"
  unfolding reduce_review_recorded_def list_ex_key
  by (auto simp: raise_simps intro!: ws_effect.review
      dest!: review_generation_field_Inr blocking_field_Inr split: if_splits)

lemma checkpoint_refines [refines]:
  "reduce_checkpoint_recorded ev s = (None, s') \<Longrightarrow> ws_effect (ev_source ev) s s'"
  using ws_effect.checkpoint [of "ev_source ev" s]
  by (auto simp: reduce_checkpoint_recorded_def Let_def split: if_splits sum.splits)

lemma checkpoint_status_refines [refines]:
  "reduce_checkpoint_status_updated ev s = Inr s' \<Longrightarrow> ws_effect (ev_source ev) s s'"
  by (auto simp: reduce_checkpoint_status_updated_def raise_simps
      intro!: ws_effect.checkpoint_status [OF _ sym] split: if_splits)

lemma round_refines [refines]:
  "reduce_round_started ev s = Inr s' \<Longrightarrow> ws_effect (ev_source ev) s s'"
  by (auto simp: reduce_round_started_def raise_simps intro!: ws_effect.start_round split: if_splits)

lemma resumed_refines [refines]:
  "reduce_task_resumed ev s = Inr s' \<Longrightarrow> ws_effect (ev_source ev) s s'"
  by (auto simp: reduce_task_resumed_def intro!: ws_effect.resume split: if_splits)

lemma terminal_refines [refines]:
  "reduce_terminal st ev s = Inr s' \<Longrightarrow> st \<noteq> TS_RUNNING \<Longrightarrow> ws_effect (ev_source ev) s s'"
  by (auto simp: reduce_terminal_def raise_simps intro!: ws_effect.finish)

lemma reduce_refines:
  "reduce ev s = (None, s') \<Longrightarrow> ws_effect (ev_source ev) s s'"
  by (cases "ev_type ev")
    (auto simp: reduce_def raise_simps intro: refines ws_effect.retry ws_effect.repeated
      ws_effect.reprompt ws_effect.budget)

section \<open>The state invariant\<close>

text \<open>
  Steps are keyed by their own identifier, which has no white space around it, and depend on
  steps that stand before them, so the plan has no cycle.
\<close>

fun plan_ordered :: "string set \<Rightarrow> (string \<times> plan_step) list \<Rightarrow> bool" where
  "plan_ordered K [] = True"
| "plan_ordered K ((k, p) # r) =
     (k \<notin> K \<and> k \<noteq> [] \<and> strip k = k \<and> ps_step_id p = k \<and> set (ps_dependencies p) \<subseteq> K \<and> plan_ordered (insert k K) r)"

definition one_active :: "(string \<times> plan_step) list \<Rightarrow> bool" where
  "one_active d \<longleftrightarrow>
     (\<forall>k p k' p'. map_of d k = Some p \<and> map_of d k' = Some p'
        \<and> ps_status p = PS_ACTIVE \<and> ps_status p' = PS_ACTIVE \<longrightarrow> k = k')"

definition completion_grounded :: "(string \<times> plan_step) list \<Rightarrow> string set \<Rightarrow> bool" where
  "completion_grounded d G \<longleftrightarrow>
     (\<forall>k p. map_of d k = Some p \<and> ps_status p = PS_COMPLETED \<and> ps_requires_evidence p
        \<longrightarrow> ps_evidence_action_ids p \<noteq> [] \<and> set (ps_evidence_action_ids p) \<subseteq> G)"

definition actions_ok :: "working_state \<Rightarrow> bool" where
  "actions_ok s \<longleftrightarrow>
     distinct (map ar_action_id (ws_actions s))
     \<and> ws_model_rounds s = int (length (filter (\<lambda>a. ar_kind a = AK_MODEL) (ws_actions s)))
     \<and> ws_tool_actions s = int (length (filter (\<lambda>a. ar_kind a \<noteq> AK_MODEL) (ws_actions s)))
     \<and> ws_command_actions s = int (length (filter (\<lambda>a. ar_kind a = AK_COMMAND) (ws_actions s)))
     \<and> ws_tool_budget_used s = ws_tool_actions s
     \<and> (\<forall>a \<in> set (ws_actions s). ar_kind a = AK_COMMAND \<and> ar_status a = AS_SUCCEEDED
          \<longrightarrow> ar_exit_code a \<in> {None, Some 0})"

definition mutations_ok :: "working_state \<Rightarrow> bool" where
  "mutations_ok s \<longleftrightarrow>
     finite (ws_mutation_action_ids s)
     \<and> ws_mutation_generation s = int (card (ws_mutation_action_ids s))
     \<and> ws_mutation_action_ids s \<subseteq>
         ar_action_id ` {a \<in> set (ws_actions s). ar_kind a = AK_TOOL \<and> ar_status a = AS_SUCCEEDED}
     \<and> (ws_modified_files s \<union> ws_created_files s \<union> ws_deleted_files s \<noteq> {}
          \<longrightarrow> 0 < ws_mutation_generation s)
     \<and> ws_created_files s \<inter> ws_deleted_files s = {}"

definition verifications_ok :: "working_state \<Rightarrow> bool" where
  "verifications_ok s \<longleftrightarrow>
     distinct (map vr_verification_id (ws_verifications s))
     \<and> (\<forall>v \<in> set (ws_verifications s).
          (vr_executed v \<longleftrightarrow> vr_outcome v \<noteq> VO_NOT_RUN) \<and> 0 \<le> vr_mutation_generation v)"

definition reviews_ok :: "working_state \<Rightarrow> bool" where
  "reviews_ok s \<longleftrightarrow>
     distinct (map rr_review_id (ws_reviews s))
     \<and> (\<forall>r \<in> set (ws_reviews s).
          0 \<le> rr_mutation_generation r \<and> rr_mutation_generation r \<le> ws_mutation_generation s
          \<and> 0 \<le> rr_blocking_count r
          \<and> (rr_verdict r = ''accept'' \<longrightarrow> rr_blocking_count r = 0))"

definition failures_ok :: "working_state \<Rightarrow> bool" where
  "failures_ok s \<longleftrightarrow>
     dict (ws_failures s) \<and> (\<forall>(k, f) \<in> set (ws_failures s). fr_failure_id f = k)"

definition log_ok :: "working_state \<Rightarrow> bool" where
  "log_ok s \<longleftrightarrow>
     distinct (map ev_id (ws_events s))
     \<and> ws_applied_event_ids s = ev_id ` set (ws_events s)
     \<and> (\<forall>e \<in> set (ws_events s). ev_task_id e = ws_task_id s)"

definition plan_ok :: "working_state \<Rightarrow> bool" where
  "plan_ok s \<longleftrightarrow>
     plan_ordered {} (ws_plan_steps s) \<and> one_active (ws_plan_steps s)
     \<and> completion_grounded (ws_plan_steps s) (grounded_evidence s)"

definition ws_inv :: "working_state \<Rightarrow> bool" where
  "ws_inv s \<longleftrightarrow> log_ok s \<and> plan_ok s \<and> actions_ok s \<and> mutations_ok s
     \<and> verifications_ok s \<and> reviews_ok s \<and> failures_ok s"

subsection \<open>The plan\<close>

lemma plan_ordered_append:
  "plan_ordered K (xs @ ys) \<longleftrightarrow> plan_ordered K xs \<and> plan_ordered (K \<union> fst ` set xs) ys"
  by (induction K xs rule: plan_ordered.induct) auto

lemma plan_ordered_keys: "plan_ordered K d \<Longrightarrow> K \<inter> fst ` set d = {} \<and> dict d"
  by (induction K d rule: plan_ordered.induct) auto

lemma plan_ordered_update:
  assumes "plan_ordered K d" "map_of d k = Some p"
    "ps_step_id q = ps_step_id p" "ps_dependencies q = ps_dependencies p"
  shows "plan_ordered K (AList.update k q d)"
  using assms by (induction K d rule: plan_ordered.induct) (auto split: if_splits)

lemma plan_ordered_step_id: "plan_ordered K d \<Longrightarrow> map_of d k = Some p \<Longrightarrow> ps_step_id p = k"
  by (induction K d rule: plan_ordered.induct) (auto split: if_splits)

lemma not_another_active:
  assumes "\<not> another_active k s" "plan_ordered {} (ws_plan_steps s)"
    "map_of (ws_plan_steps s) k' = Some p'" "ps_status p' = PS_ACTIVE"
  shows "k' = k"
proof -
  from assms(3) have "p' \<in> set (dict_values (ws_plan_steps s))" by (rule map_of_in_values)
  moreover from assms(2,3) have "ps_step_id p' = k'" by (rule plan_ordered_step_id)
  ultimately show ?thesis using assms(1,4) by (auto simp: another_active_def list_ex_iff)
qed

lemma one_active_update:
  assumes "one_active d"
    and "ps_status q = PS_ACTIVE \<Longrightarrow> (\<And>k' p'. map_of d k' = Some p' \<Longrightarrow> ps_status p' = PS_ACTIVE \<Longrightarrow> k' = k)"
  shows "one_active (AList.update k q d)"
  using assms by (auto simp: one_active_def dict_simps)

lemma completion_grounded_update:
  assumes "completion_grounded d G"
    and "ps_status q = PS_COMPLETED \<Longrightarrow> ps_requires_evidence q \<Longrightarrow>
      ps_evidence_action_ids q \<noteq> [] \<and> set (ps_evidence_action_ids q) \<subseteq> G"
  shows "completion_grounded (AList.update k q d) G"
  using assms by (auto simp: completion_grounded_def dict_simps)

lemma completion_grounded_mono: "completion_grounded d G \<Longrightarrow> G \<subseteq> H \<Longrightarrow> completion_grounded d H"
  by (fastforce simp: completion_grounded_def)

text \<open>Evidence only accumulates.\<close>

lemma grounded_evidence_mono:
  assumes "set (ws_actions s) \<subseteq> set (ws_actions t)" "set (ws_discoveries s) \<subseteq> set (ws_discoveries t)"
    "set (ws_verifications s) \<subseteq> set (ws_verifications t)" "set (ws_reviews s) \<subseteq> set (ws_reviews t)"
  shows "grounded_evidence s \<subseteq> grounded_evidence t"
  unfolding grounded_evidence_def by (intro Un_mono) (use assms in auto)

lemmas field_simps_ws =
  add_failure_def count_action_def count_mutation_def apply_file_status_def

lemma effect_evidence_mono: "ws_effect src s t \<Longrightarrow> grounded_evidence s \<subseteq> grounded_evidence t"
  by (rule grounded_evidence_mono; induction rule: ws_effect.induct)
     (auto simp: field_simps_ws split: option.splits)

lemma one_active_append:
  assumes "one_active d" "ps_status p \<noteq> PS_ACTIVE"
  shows "one_active (d @ [(k, p)])"
  using assms by (auto simp: one_active_def map_add_def split: option.splits if_splits)

lemma completion_grounded_append:
  assumes "completion_grounded d G" "ps_status p \<noteq> PS_COMPLETED"
  shows "completion_grounded (d @ [(k, p)]) G"
  using assms by (auto simp: completion_grounded_def map_add_def split: option.splits if_splits)

subsection \<open>Every effect keeps the invariant\<close>

lemma plan_ok_update:
  assumes ok: "plan_ok s" and p: "map_of (ws_plan_steps s) k = Some p"
    and same: "ps_step_id q = ps_step_id p" "ps_dependencies q = ps_dependencies p"
    and active: "ps_status q = PS_ACTIVE \<Longrightarrow> \<not> another_active k s"
    and completed: "ps_status q = PS_COMPLETED \<Longrightarrow> ps_requires_evidence q \<Longrightarrow>
      ps_evidence_action_ids q \<noteq> [] \<and> set (ps_evidence_action_ids q) \<subseteq> grounded_evidence s"
    and t: "ws_plan_steps t = AList.update k q (ws_plan_steps s)"
      "grounded_evidence t = grounded_evidence s"
  shows "plan_ok t"
proof -
  from ok have ordered: "plan_ordered {} (ws_plan_steps s)" by (simp add: plan_ok_def)
  have "one_active (AList.update k q (ws_plan_steps s))"
    by (rule one_active_update)
       (use ok active not_another_active [OF _ ordered] in \<open>auto simp: plan_ok_def\<close>)
  moreover have "completion_grounded (AList.update k q (ws_plan_steps s)) (grounded_evidence s)"
    by (rule completion_grounded_update) (use ok completed in \<open>auto simp: plan_ok_def\<close>)
  moreover have "plan_ordered {} (AList.update k q (ws_plan_steps s))"
    using ordered p same by (rule plan_ordered_update)
  ultimately show ?thesis by (simp add: plan_ok_def t)
qed

lemma effect_plan:
  assumes "ws_effect src s t" "plan_ok s"
  shows "plan_ok t"
proof -
  have same: "plan_ok t" if "ws_plan_steps t = ws_plan_steps s"
    using assms(2) effect_evidence_mono [OF assms(1)] that
    by (auto simp: plan_ok_def intro: completion_grounded_mono)
  from assms show ?thesis
  proof (cases rule: ws_effect.cases)
    case (plan_add p)
    moreover from this have "grounded_evidence t = grounded_evidence s"
      by (simp add: grounded_evidence_def)
    ultimately show ?thesis using assms(2)
      by (auto simp: plan_ok_def plan_ordered_append has_key_def
          intro: one_active_append completion_grounded_append)
  next
    case (plan_move k p st ids)
    show ?thesis
      by (rule plan_ok_update [OF assms(2) plan_move(3)]) (use plan_move in \<open>auto simp: grounded_evidence_def\<close>)
  next
    case (plan_revise k p st rvn d)
    show ?thesis
      by (rule plan_ok_update [OF assms(2) plan_revise(3)]) (use plan_revise in \<open>auto simp: grounded_evidence_def\<close>)
  qed (rule same, simp add: field_simps_ws split: option.split)+
qed

lemma effect_actions: "ws_effect src s t \<Longrightarrow> actions_ok s \<Longrightarrow> actions_ok t"
  by (induction rule: ws_effect.induct)
     (auto simp: actions_ok_def field_simps_ws split: option.splits)

lemma effect_mutations: "ws_effect src s t \<Longrightarrow> mutations_ok s \<Longrightarrow> mutations_ok t"
  by (induction rule: ws_effect.induct)
     (auto simp: mutations_ok_def field_simps_ws split: option.splits)

lemma effect_verifications: "ws_effect src s t \<Longrightarrow> verifications_ok s \<Longrightarrow> verifications_ok t"
  by (induction rule: ws_effect.induct)
     (auto simp: verifications_ok_def field_simps_ws split: option.splits)

lemma effect_generation_mono: "ws_effect src s t \<Longrightarrow> ws_mutation_generation s \<le> ws_mutation_generation t"
  by (induction rule: ws_effect.induct) (auto simp: field_simps_ws split: option.splits)

lemma effect_reviews: "ws_effect src s t \<Longrightarrow> reviews_ok s \<Longrightarrow> reviews_ok t"
  by (induction rule: ws_effect.induct)
     (auto simp: reviews_ok_def field_simps_ws split: option.splits)

lemma failures_ok_update:
  assumes "failures_ok s" "fr_failure_id f = k" "ws_failures t = AList.update k f (ws_failures s)"
  shows "failures_ok t"
proof -
  have "\<forall>(k', f') \<in> set (AList.update k f d). fr_failure_id f' = k'"
    if "\<forall>(k, f) \<in> set d. fr_failure_id f = k" for d
    using that assms(2) by (induction d) auto
  with assms show ?thesis by (auto simp: failures_ok_def)
qed

lemma failures_ok_add:
  assumes "failures_ok s" "ws_failures u = ws_failures s"
  shows "failures_ok (add_failure f u)"
proof (cases f)
  case None
  with assms show ?thesis by (simp add: add_failure_def failures_ok_def)
next
  case (Some r)
  with assms(2) show ?thesis
    by (intro failures_ok_update [OF assms(1), where f = r]) (auto simp: add_failure_def)
qed

lemma effect_failures:
  assumes "ws_effect src s t" "failures_ok s"
  shows "failures_ok t"
proof -
  have same: "failures_ok t" if "ws_failures t = ws_failures s"
    using assms(2) that by (simp add: failures_ok_def)
  from assms(1) show ?thesis
  proof (cases rule: ws_effect.cases)
    case (resolve k f resolver)
    with assms(2) have "fr_failure_id f = k" by (auto simp: failures_ok_def)
    with resolve show ?thesis by (intro failures_ok_update [OF assms(2)]) auto
  next
    case (act a f)
    then show ?thesis by (auto simp: count_action_def intro!: failures_ok_add [OF assms(2)])
  next
    case (verify v f)
    then show ?thesis by (auto intro!: failures_ok_add [OF assms(2)])
  qed (rule same, simp add: field_simps_ws)+
qed

text \<open>No effect touches the log or the identity of the task: \<open>apply\<close> alone writes it.\<close>

lemma effect_log_fields:
  "ws_effect src s t \<Longrightarrow> ws_events t = ws_events s \<and> ws_task_id t = ws_task_id s
     \<and> ws_applied_event_ids t = ws_applied_event_ids s"
  by (induction rule: ws_effect.induct) (auto simp: field_simps_ws split: option.splits)

lemma rejected_log_fields:
  "reduce ev s = (Some e, t) \<Longrightarrow> ws_events t = ws_events s \<and> ws_task_id t = ws_task_id s
     \<and> ws_applied_event_ids t = ws_applied_event_ids s"
  by (cases "ev_type ev")
     (auto simp: reduce_def raise_simps reduce_checkpoint_recorded_def Let_def
       split: if_splits sum.splits)

lemma apply_event_None:
  assumes "apply_event ev s = (None, t)"
  obtains u where "reduce ev s = (None, u)" "ws_effect (ev_source ev) s u"
    "t = u\<lparr>ws_events := ws_events s @ [ev],
          ws_applied_event_ids := insert (ev_id ev) (ws_applied_event_ids s)\<rparr>"
    "ev_task_id ev = ws_task_id s" "ev_id ev \<notin> ws_applied_event_ids s"
    "ws_terminal_status s = TS_RUNNING \<or> ev_type ev \<in> {FAILURE_RESOLVED, TASK_RESUMED}"
proof -
  from assms obtain u where u: "reduce ev s = (None, u)"
    and t: "t = u\<lparr>ws_events := ws_events u @ [ev],
                  ws_applied_event_ids := insert (ev_id ev) (ws_applied_event_ids u)\<rparr>"
    and guards: "ev_task_id ev = ws_task_id s" "ev_id ev \<notin> ws_applied_event_ids s"
      "ws_terminal_status s = TS_RUNNING \<or> ev_type ev \<in> {FAILURE_RESOLVED, TASK_RESUMED}"
    by (auto simp: apply_event_def split: if_splits prod.splits option.splits)
  from reduce_refines [OF u] effect_log_fields show thesis
    by (intro that [OF u _ _ guards]) (auto simp: t)
qed

lemma log_fields_irrelevant:
  "plan_ok (s\<lparr>ws_events := x, ws_applied_event_ids := y\<rparr>) = plan_ok s"
  "actions_ok (s\<lparr>ws_events := x, ws_applied_event_ids := y\<rparr>) = actions_ok s"
  "mutations_ok (s\<lparr>ws_events := x, ws_applied_event_ids := y\<rparr>) = mutations_ok s"
  "verifications_ok (s\<lparr>ws_events := x, ws_applied_event_ids := y\<rparr>) = verifications_ok s"
  "reviews_ok (s\<lparr>ws_events := x, ws_applied_event_ids := y\<rparr>) = reviews_ok s"
  "failures_ok (s\<lparr>ws_events := x, ws_applied_event_ids := y\<rparr>) = failures_ok s"
  by (simp_all add: plan_ok_def grounded_evidence_def actions_ok_def mutations_ok_def
      verifications_ok_def reviews_ok_def failures_ok_def)

lemma apply_event_log:
  assumes "apply_event ev s = (None, t)"
  shows "ws_events t = ws_events s @ [ev]" "ws_task_id t = ws_task_id s"
  using assms effect_log_fields by (auto elim!: apply_event_None)

lemma apply_event_inv:
  assumes "ws_inv s" "apply_event ev s = (None, t)"
  shows "ws_inv t"
proof -
  from assms(2) obtain u where eff: "ws_effect (ev_source ev) s u"
    and t: "t = u\<lparr>ws_events := ws_events s @ [ev],
                  ws_applied_event_ids := insert (ev_id ev) (ws_applied_event_ids s)\<rparr>"
    and "ev_task_id ev = ws_task_id s" "ev_id ev \<notin> ws_applied_event_ids s"
    by (rule apply_event_None)
  moreover have "log_ok s" using assms(1) by (simp add: ws_inv_def)
  ultimately have "log_ok t"
    using effect_log_fields [OF eff] by (auto simp: log_ok_def)
  with assms(1) eff show ?thesis
    by (auto simp: t ws_inv_def log_fields_irrelevant intro: effect_plan effect_actions
        effect_mutations effect_verifications effect_reviews effect_failures)
qed

lemma fresh_inv: "ws_inv (fresh_state task_id)"
  by (simp add: ws_inv_def log_ok_def plan_ok_def one_active_def completion_grounded_def
      actions_ok_def mutations_ok_def verifications_ok_def reviews_ok_def failures_ok_def
      fresh_state_def)

lemma apply_event_rejected_log:
  "apply_event ev s = (Some e, t) \<Longrightarrow> ws_events t = ws_events s"
  using rejected_log_fields
  by (auto simp: apply_event_def split: if_splits prod.splits option.splits)

interpretation task_log: event_sourced "fresh_state task_id" apply_event ws_events ws_inv
  for task_id
  by unfold_locales
     (auto simp: fresh_inv apply_event_log(1) apply_event_rejected_log intro: apply_event_inv,
      simp add: fresh_state_def)

section \<open>Live tasks\<close>

text \<open>
  A live task also survives events that are refused: the caller catches the exception and
  goes on with the object as the refused call left it.
\<close>

inductive ws_reachable :: "string \<Rightarrow> working_state \<Rightarrow> bool" for task_id where
  fresh: "ws_reachable task_id (fresh_state task_id)"
| event: "ws_reachable task_id s \<Longrightarrow> apply_event ev s = (result, t) \<Longrightarrow> ws_reachable task_id t"

lemma reduce_rejected:
  assumes "reduce ev s = (Some e, t)"
  shows "t = s \<or> (\<exists>c. t = s\<lparr>ws_checkpoint_id := Some c\<rparr> \<and> ev_type ev = CHECKPOINT_RECORDED)"
  using assms
  by (cases "ev_type ev")
     (auto simp: reduce_def raise_simps reduce_checkpoint_recorded_def Let_def
       split: if_splits sum.splits)

lemma apply_event_rejected:
  assumes "apply_event ev s = (Some e, t)"
  shows "t = s \<or> (\<exists>c. t = s\<lparr>ws_checkpoint_id := Some c\<rparr> \<and> ev_type ev = CHECKPOINT_RECORDED)"
  using assms by (auto simp: apply_event_def dest: reduce_rejected
      split: if_splits prod.splits option.splits)

lemma checkpoint_id_irrelevant: "ws_inv (s\<lparr>ws_checkpoint_id := c\<rparr>) = ws_inv s"
  by (simp add: ws_inv_def log_ok_def plan_ok_def grounded_evidence_def actions_ok_def
      mutations_ok_def verifications_ok_def reviews_ok_def failures_ok_def)

lemma replay_reachable:
  assumes "replay_with apply_event evs s = Inr t" "ws_reachable task_id s"
  shows "ws_reachable task_id t"
  using assms
  by (induction evs arbitrary: s) (auto intro: ws_reachable.event split: prod.splits option.splits)

lemma reachable_task_id: "ws_reachable task_id s \<Longrightarrow> ws_task_id s = task_id"
proof (induction rule: ws_reachable.induct)
  case (event s ev result t)
  then show ?case
    by (cases result) (auto dest: apply_event_rejected apply_event_log(2))
qed (simp add: fresh_state_def)

lemma reachable_inv: "ws_reachable task_id s \<Longrightarrow> ws_inv s"
proof (induction rule: ws_reachable.induct)
  case fresh
  show ?case by (rule fresh_inv)
next
  case (event s ev result t)
  then show ?case
    by (cases result) (auto dest: apply_event_rejected apply_event_inv simp: checkpoint_id_irrelevant)
qed

text \<open>Verifications and generations only ever grow.\<close>

lemma effect_verifications_prefix: "ws_effect src s t \<Longrightarrow> prefix (ws_verifications s) (ws_verifications t)"
  by (induction rule: ws_effect.induct) (auto simp: field_simps_ws split: option.splits)

lemma replay_grows:
  assumes "replay_with apply_event evs s = Inr t"
  shows "prefix (ws_verifications s) (ws_verifications t) \<and> ws_mutation_generation s \<le> ws_mutation_generation t"
  using assms
proof (induction evs arbitrary: s)
  case (Cons ev evs)
  then obtain u where u: "apply_event ev s = (None, u)" and r: "replay_with apply_event evs u = Inr t"
    by (auto split: prod.splits option.splits)
  from u obtain w where "ws_effect (ev_source ev) s w" "u = w\<lparr>ws_events := ws_events s @ [ev],
      ws_applied_event_ids := insert (ev_id ev) (ws_applied_event_ids s)\<rparr>" by (rule apply_event_None)
  with effect_verifications_prefix effect_generation_mono
  have "prefix (ws_verifications s) (ws_verifications u)" "ws_mutation_generation s \<le> ws_mutation_generation u" by fastforce+
  with Cons.IH [OF r] show ?case by (auto intro: prefix_order.trans)
qed simp

end
