(* ===== verification/Working_State_Props.thy ===== *)
theory Working_State_Props
  imports Working_State_Laws
begin

text \<open>
  The properties of the task state: the invariant of every live task, what the model cannot
  assert, the finality of finished tasks, the permanence of closed plan steps, and the
  round trip through the serialised log, each with a concrete task as its witness.
\<close>

text \<open>
  C2: whatever sequence of events a live task is given, accepted or refused, its state keeps
  the invariant \<^const>\<open>ws_inv\<close>: the log has no duplicate event and is the set of applied
  identifiers; plan steps depend on earlier steps only, at most one is active, and a
  completed step that requires evidence cites evidence on record; counters equal the
  recorded actions; the mutation generation is the number of distinct successful tool
  actions that changed files; a verification has an outcome exactly if it was executed; an
  accepted review has no blockers and never judges a future generation.
\<close>

theorem reachable_invariant: "ws_reachable task_id s \<Longrightarrow> ws_inv s"
  by (rule reachable_inv)

section \<open>The reducer and its specification\<close>

text \<open>
  C17: the reducer refines the relation \<open>ws_effect\<close>, which says who may change what and how:
  an event that is accepted has exactly one of the effects its source is allowed, is new, is of
  this task, and is appended to the log.
\<close>

theorem events_refine_effects:
  assumes "apply_event ev s = (None, t)"
  shows "\<exists>u. ws_effect (ev_source ev) s u \<and> t = u\<lparr>ws_events := ws_events s @ [ev],
      ws_applied_event_ids := insert (ev_id ev) (ws_applied_event_ids s)\<rparr> \<and>
    ev_id ev \<notin> ws_applied_event_ids s \<and> ev_task_id ev = ws_task_id s"
  using assms by (rule apply_event_None) blast

section \<open>Who may assert what\<close>

text \<open>
  C3: an accepted event whose source is the model changes no grounded fact: objective,
  constraints, criteria, plan, discoveries, file sets, actions, verifications, reviews,
  mutation generation and checkpoint are what they were.
\<close>

theorem model_grounds_nothing:
  assumes "apply_event ev s = (None, t)" "ev_source ev = MODEL"
  shows "ws_objective t = ws_objective s \<and> ws_user_constraints t = ws_user_constraints s
    \<and> ws_acceptance_criteria t = ws_acceptance_criteria s
    \<and> ws_plan_steps t = ws_plan_steps s \<and> ws_plan_revisions t = ws_plan_revisions s
    \<and> ws_discoveries t = ws_discoveries s \<and> ws_files_read t = ws_files_read s
    \<and> ws_modified_files t = ws_modified_files s \<and> ws_created_files t = ws_created_files s
    \<and> ws_deleted_files t = ws_deleted_files s \<and> ws_actions t = ws_actions s
    \<and> ws_verifications t = ws_verifications s \<and> ws_reviews t = ws_reviews s
    \<and> ws_mutation_generation t = ws_mutation_generation s
    \<and> ws_checkpoint_id t = ws_checkpoint_id s \<and> ws_checkpoint_status t = ws_checkpoint_status s"
proof -
  from assms(1) obtain u where "ws_effect (ev_source ev) s u"
    and t: "t = u\<lparr>ws_events := ws_events s @ [ev],
                  ws_applied_event_ids := insert (ev_id ev) (ws_applied_event_ids s)\<rparr>"
    by (rule apply_event_None)
  from this(1) assms(2) show ?thesis
    by (cases rule: ws_effect.cases)
       (auto simp: t grounded_fact_sources_def grounded_file_sources_def
         grounded_action_sources_def grounded_verification_sources_def)
qed

definition demo_event :: "state_event_type \<Rightarrow> state_source \<Rightarrow> string \<Rightarrow> json_object \<Rightarrow> state_event" where
  "demo_event ty src i d = \<lparr>ev_type = ty, ev_task_id = ''task'', ev_source = src, ev_data = d,
     ev_id = i, ev_timestamp = ''2026-01-01T00:00:00'', ev_monotonic_ns = 1\<rparr>"

section \<open>A concrete task\<close>

definition demo_log :: "state_event list" where
  "demo_log =
    [demo_event TASK_STARTED USER ''e1'' [(''objective'', JStr ''fix the parser'')],
     demo_event ACTION_SUCCEEDED TOOL_RUNTIME ''e2''
       [(''action_id'', JStr ''a1''), (''kind'', JStr ''tool''), (''name'', JStr ''edit_file''),
        (''observed_status'', JStr ''ok'')],
     demo_event FILE_MODIFIED TOOL_RUNTIME ''e3''
       [(''path'', JStr ''x.c''), (''action_id'', JStr ''a1'')]]"

definition demo_state :: working_state where
  "demo_state = (case replay_state ''task'' demo_log of Inr s \<Rightarrow> s | Inl _ \<Rightarrow> fresh_state ''task'')"

lemma demo_replay: "replay_state ''task'' demo_log = Inr demo_state"
proof -
  have "\<not> isl (replay_state ''task'' demo_log)" by code_simp
  then show ?thesis by (auto simp: demo_state_def split: sum.splits)
qed

lemma demo_reachable: "ws_reachable ''task'' demo_state"
  using demo_replay ws_reachable.fresh
  by (auto simp: replay_state_def intro: replay_reachable)

lemma demo_generation: "ws_mutation_generation demo_state = 1"
  by code_simp

theorem reachable_invariant_witness:
  "ws_reachable ''task'' demo_state \<and> ws_mutation_generation demo_state = 1 \<and> ws_inv demo_state"
  using demo_reachable demo_generation reachable_invariant by blast

lemma accepts: "fst (apply_event ev s) = None \<Longrightarrow> apply_event ev s = (None, snd (apply_event ev s))"
  by (cases "apply_event ev s") simp

theorem events_refine_effects_witness:
  "\<exists>t u. apply_event (demo_event DECISION_RECORDED MODEL ''e9'' [(''summary'', JStr ''use a map'')]) demo_state = (None, t)
     \<and> ws_effect MODEL demo_state u \<and> ws_decisions t = ws_decisions u"
proof -
  let ?ev = "demo_event DECISION_RECORDED MODEL ''e9'' [(''summary'', JStr ''use a map'')]"
  have "fst (apply_event ?ev demo_state) = None" by code_simp
  note a = accepts [OF this]
  from events_refine_effects [OF a] obtain u where "ws_effect (ev_source ?ev) demo_state u"
    "ws_decisions (snd (apply_event ?ev demo_state)) = ws_decisions u" by auto
  with a show ?thesis by (auto simp: demo_event_def)
qed

theorem model_grounds_nothing_witness:
  "\<exists>t. apply_event (demo_event DECISION_RECORDED MODEL ''e9'' [(''summary'', JStr ''use a map'')])
         demo_state = (None, t)
     \<and> ws_plan_steps t = ws_plan_steps demo_state
     \<and> ws_verifications t = ws_verifications demo_state"
proof -
  let ?ev = "demo_event DECISION_RECORDED MODEL ''e9'' [(''summary'', JStr ''use a map'')]"
  have "fst (apply_event ?ev demo_state) = None" by code_simp
  then have ok: "apply_event ?ev demo_state = (None, snd (apply_event ?ev demo_state))"
    by (rule accepts)
  have "ev_source ?ev = MODEL" by (simp add: demo_event_def)
  from model_grounds_nothing [OF ok this] ok show ?thesis by blast
qed

section \<open>Finished tasks\<close>

abbreviation finished :: "terminal_status \<Rightarrow> bool" where
  "finished st \<equiv> st \<in> {TS_COMPLETED, TS_FAILED, TS_BUDGET_EXHAUSTED}"

lemma finished_step:
  assumes "apply_event ev s = (None, t)" "finished (ws_terminal_status s)"
  shows "ev_type ev = FAILURE_RESOLVED \<and>
    t = s\<lparr>ws_failures := ws_failures t, ws_events := ws_events s @ [ev],
          ws_applied_event_ids := insert (ev_id ev) (ws_applied_event_ids s)\<rparr>"
proof -
  from assms(1) obtain u where u: "reduce ev s = (None, u)"
    and t: "t = u\<lparr>ws_events := ws_events s @ [ev],
          ws_applied_event_ids := insert (ev_id ev) (ws_applied_event_ids s)\<rparr>"
    and ty: "ws_terminal_status s = TS_RUNNING \<or> ev_type ev \<in> {FAILURE_RESOLVED, TASK_RESUMED}"
    by (rule apply_event_None)
  from u ty assms(2) have "ev_type ev = FAILURE_RESOLVED"
    by (auto simp: reduce_def raise_simps reduce_task_resumed_def split: if_splits)
  with u show ?thesis
    by (auto simp: t reduce_def raise_simps reduce_failure_resolved_def
        split: option.splits if_splits)
qed

text \<open>
  Once a task is completed, failed or out of budget, no sequence of events changes that:
  every event accepted afterwards resolves a recorded failure, and everything but the
  failure table and the log stays as it was.
\<close>

theorem finished_is_final:
  assumes "replay_with apply_event evs s = Inr t" "finished (ws_terminal_status s)"
  shows "(\<forall>ev \<in> set evs. ev_type ev = FAILURE_RESOLVED) \<and>
    t = s\<lparr>ws_failures := ws_failures t, ws_events := ws_events t,
          ws_applied_event_ids := ws_applied_event_ids t\<rparr>"
  using assms
proof (induction evs arbitrary: s)
  case Nil
  then show ?case by simp
next
  case (Cons ev evs)
  then obtain u where u: "apply_event ev s = (None, u)" and r: "replay_with apply_event evs u = Inr t"
    by (auto split: prod.splits option.splits)
  note step = finished_step [OF u Cons.prems(2)]
  then have st: "ws_terminal_status u = ws_terminal_status s"
    by (metis (no_types, lifting) working_state.select_convs(32)
        working_state.surjective working_state.update_convs(14,35,36))
  with Cons.prems(2) have "finished (ws_terminal_status u)" by simp
  note rest = Cons.IH [OF r this]
  from step have "u = s\<lparr>ws_failures := ws_failures u, ws_events := ws_events u,
      ws_applied_event_ids := ws_applied_event_ids u\<rparr>"
    by (cases u, cases s) simp
  with rest step show ?case
    by (cases u, cases s, cases t) simp
qed

definition demo_finished_log :: "state_event list" where
  "demo_finished_log =
    [demo_event TASK_STARTED USER ''e1'' [(''objective'', JStr ''fix the parser'')],
     demo_event ACTION_FAILED TOOL_RUNTIME ''e2''
       [(''action_id'', JStr ''a1''), (''kind'', JStr ''command''), (''name'', JStr ''bash''),
        (''observed_status'', JStr ''failed''), (''exit_code'', JInt 2)],
     demo_event TASK_COMPLETED HARNESS ''e3'' []]"

definition demo_resolution :: "state_event list" where
  "demo_resolution =
    [demo_event FAILURE_RESOLVED HARNESS ''e4'' [(''failure_id'', JStr ''failure:a1'')]]"

definition demo_finished :: working_state where
  "demo_finished =
     (case replay_state ''task'' demo_finished_log of Inr s \<Rightarrow> s | Inl _ \<Rightarrow> fresh_state ''task'')"

theorem finished_is_final_witness:
  "\<exists>t. replay_with apply_event demo_resolution demo_finished = Inr t
     \<and> finished (ws_terminal_status demo_finished)
     \<and> list_all (\<lambda>ev. ev_type ev = FAILURE_RESOLVED) demo_resolution
     \<and> t = demo_finished\<lparr>ws_failures := ws_failures t, ws_events := ws_events t,
             ws_applied_event_ids := ws_applied_event_ids t\<rparr>"
proof -
  have st: "finished (ws_terminal_status demo_finished)" by code_simp
  have "\<not> isl (replay_with apply_event demo_resolution demo_finished)" by code_simp
  then obtain t where t: "replay_with apply_event demo_resolution demo_finished = Inr t"
    by (cases "replay_with apply_event demo_resolution demo_finished") auto
  from t st finished_is_final [OF t st] show ?thesis unfolding list_all_iff by blast
qed

section \<open>Closed plan steps\<close>

interpretation plan_table: transition_table plan_allowed "\<lambda>st. st \<in> {PS_COMPLETED, PS_SKIPPED}"
proof
  fix a
  show "(a \<in> {PS_COMPLETED, PS_SKIPPED}) = (plan_allowed a = {})" by (cases a) auto
qed

lemma effect_closed_step:
  assumes "ws_effect src s u" "map_of (ws_plan_steps s) k = Some p"
    "ps_status p \<in> {PS_COMPLETED, PS_SKIPPED}" "ws_plan_revisions u = ws_plan_revisions s"
  shows "map_of (ws_plan_steps u) k = Some p"
  using assms(1)
proof (cases rule: ws_effect.cases)
  case (plan_move k' p' st ids)
  then have "ps_status p' \<notin> {PS_COMPLETED, PS_SKIPPED}"
    using plan_table.final_stuck by fastforce
  with plan_move assms(2,3) show ?thesis by (auto simp: dict_simps)
qed (use assms(2,4) in \<open>auto simp: field_simps_ws map_add_def split: option.splits\<close>)

lemma effect_revisions: "ws_effect src s u \<Longrightarrow> \<exists>r. ws_plan_revisions u = ws_plan_revisions s @ r"
  by (induction rule: ws_effect.induct) (auto simp: field_simps_ws split: option.splits)

lemma apply_revisions:
  "apply_event ev s = (None, t) \<Longrightarrow> \<exists>r. ws_plan_revisions t = ws_plan_revisions s @ r"
  by (erule apply_event_None) (auto dest: effect_revisions)

lemma replay_revisions:
  "replay_with apply_event evs s = Inr t \<Longrightarrow> \<exists>r. ws_plan_revisions t = ws_plan_revisions s @ r"
proof (induction evs arbitrary: s)
  case (Cons ev evs)
  then obtain u where "apply_event ev s = (None, u)" "replay_with apply_event evs u = Inr t"
    by (auto split: prod.splits option.splits)
  with Cons.IH apply_revisions show ?case by (metis append.assoc)
qed simp

text \<open>
  A completed or skipped plan step is reopened by a recorded revision only: over any
  run of accepted events that records none, the step is still there with the same
  status, description and evidence.
\<close>

theorem closed_steps_stay_closed:
  assumes "replay_with apply_event evs s = Inr t" "ws_plan_revisions t = ws_plan_revisions s"
    "map_of (ws_plan_steps s) k = Some p" "ps_status p \<in> {PS_COMPLETED, PS_SKIPPED}"
  shows "map_of (ws_plan_steps t) k = Some p"
  using assms(1,2,3)
proof (induction evs arbitrary: s)
  case (Cons ev evs)
  then obtain u where u: "apply_event ev s = (None, u)" and r: "replay_with apply_event evs u = Inr t"
    by (auto split: prod.splits option.splits)
  obtain x y where x: "ws_plan_revisions u = ws_plan_revisions s @ x"
    and y: "ws_plan_revisions t = ws_plan_revisions u @ y"
    using apply_revisions [OF u] replay_revisions [OF r] by blast
  then have "ws_plan_revisions s @ x @ y = ws_plan_revisions s @ []"
    using Cons.prems(2) by (metis append.assoc append_Nil2)
  then have same: "ws_plan_revisions u = ws_plan_revisions s" using x by simp
  from u obtain v where v: "ws_effect (ev_source ev) s v"
    and uv: "u = v\<lparr>ws_events := ws_events s @ [ev],
          ws_applied_event_ids := insert (ev_id ev) (ws_applied_event_ids s)\<rparr>"
    by (rule apply_event_None)
  from effect_closed_step [OF v Cons.prems(3) assms(4)] same
  have "map_of (ws_plan_steps u) k = Some p" by (simp add: uv)
  with Cons.IH [OF r] Cons.prems(2) same show ?case by simp
qed simp

definition demo_plan_log :: "state_event list" where
  "demo_plan_log =
    [demo_event PLAN_STEP_ADDED HARNESS ''p1''
       [(''step_id'', JStr ''s1''), (''description'', JStr ''locate'')],
     demo_event PLAN_STEP_ADDED HARNESS ''p2''
       [(''step_id'', JStr ''s2''), (''description'', JStr ''edit''),
        (''dependencies'', JList [JStr ''s1'']), (''requires_evidence'', JBool True)],
     demo_event PLAN_STEP_UPDATED HARNESS ''p3''
       [(''step_id'', JStr ''s1''), (''status'', JStr ''skipped'')]]"

definition demo_plan_tail :: "state_event list" where
  "demo_plan_tail =
    [demo_event PLAN_STEP_UPDATED HARNESS ''p4''
       [(''step_id'', JStr ''s2''), (''status'', JStr ''active'')],
     demo_event PLAN_STEP_UPDATED HARNESS ''p5''
       [(''step_id'', JStr ''s2''), (''status'', JStr ''completed''),
        (''evidence_action_ids'', JList [JStr ''a1''])]]"

definition demo_planned :: working_state where
  "demo_planned =
     (case replay_with apply_event demo_plan_log demo_state of Inr s \<Rightarrow> s | Inl _ \<Rightarrow> demo_state)"

lemma projr_if_ok: "\<not> isl r \<Longrightarrow> r = Inr (projr r)"
  by (cases r) auto

theorem closed_steps_stay_closed_witness:
  "\<exists>t p. replay_with apply_event demo_plan_tail demo_planned = Inr t
     \<and> map_of (ws_plan_steps demo_planned) ''s1'' = Some p \<and> ps_status p = PS_SKIPPED
     \<and> map_of (ws_plan_steps t) ''s1'' = Some p"
proof -
  let ?r = "replay_with apply_event demo_plan_tail demo_planned"
  let ?p = "the (map_of (ws_plan_steps demo_planned) ''s1'')"
  have "\<not> isl ?r" by code_simp
  then have r: "?r = Inr (projr ?r)" by (rule projr_if_ok)
  have rv: "ws_plan_revisions (projr ?r) = ws_plan_revisions demo_planned" by code_simp
  have "map_of (ws_plan_steps demo_planned) ''s1'' \<noteq> None" by code_simp
  then have p: "map_of (ws_plan_steps demo_planned) ''s1'' = Some ?p" by simp
  have "ps_status ?p = PS_SKIPPED" by code_simp
  with r p closed_steps_stay_closed [OF r rv p] show ?thesis by blast
qed

section \<open>Serialisation\<close>

definition event_ok :: "state_event \<Rightarrow> bool" where
  "event_ok ev \<longleftrightarrow> ev_task_id ev \<noteq> [] \<and> ev_id ev \<noteq> [] \<and> ev_timestamp ev \<noteq> []
     \<and> json_finite (JObj (ev_data ev))"

lemma event_type_roundtrip [simp]: "event_type_of (JStr (event_type_value k)) = Some k"
  by (cases k) (simp_all add: enum_of_def all_event_types_def)

lemma source_roundtrip [simp]: "source_of (JStr (source_value k)) = Some k"
  by (cases k) (simp_all add: enum_of_def all_sources_def)

lemma event_roundtrip: "event_ok ev \<Longrightarrow> event_from_dict (event_to_dict ev) = Inr ev"
  by (simp add: event_ok_def event_to_dict_def event_from_dict_def state_event_new_def
      get_def get_default_def)

lemma replay_raw_events:
  assumes "\<forall>ev \<in> set evs. event_ok ev" "replay_with apply_event evs s = Inr t"
  shows "replay_raw (map event_to_dict evs) s = Inr t"
  using assms by (induction evs arbitrary: s) (auto simp: event_roundtrip split: prod.splits option.splits)

text \<open>
  C6: restoring a serialised state gives back exactly that state, for every state that
  accepted events built: the log alone carries all thirty-four derived fields.
\<close>

theorem state_roundtrip:
  assumes "replay_state task_id evs = Inr s" "\<forall>ev \<in> set evs. event_ok ev"
  shows "from_dict (to_dict s) = Inr s"
proof -
  from assms(1) have task: "task_id \<noteq> []"
    and r: "replay_with apply_event evs (fresh_state task_id) = Inr s"
    by (auto simp: replay_state_def split: if_splits)
  from r have "ws_reachable task_id s" by (rule replay_reachable) (rule ws_reachable.fresh)
  then have id: "ws_task_id s = task_id" by (rule reachable_task_id)
  from r have "ws_events s = evs" by (rule task_log.replay_start_log)
  with replay_raw_events [OF assms(2) r] task id show ?thesis
    by (simp add: from_dict_def to_dict_def get_def)
qed

lemma demo_roundtrip: "from_dict (to_dict demo_state) = Inr demo_state"
proof -
  have "\<forall>ev \<in> set demo_log. event_ok ev" by code_simp
  from replay_raw_events [OF this] demo_replay show ?thesis
    using reachable_task_id [OF demo_reachable] task_log.replay_start_log
    by (auto simp: replay_state_def from_dict_def to_dict_def get_def)
qed

theorem state_roundtrip_witness:
  "replay_state ''task'' demo_log = Inr demo_state \<and> from_dict (to_dict demo_state) = Inr demo_state"
proof -
  have "\<forall>ev \<in> set demo_log. event_ok ev" by code_simp
  with demo_replay state_roundtrip [OF demo_replay] show ?thesis by blast
qed

text \<open>
  A refused checkpoint event can leave the live state changed although the log is not:
  with an identifier and no status, \<open>CHECKPOINT_RECORDED\<close> raises after the identifier is
  stored, and restoring the serialised state does not give the live state back.
\<close>

theorem rejected_checkpoint_leaks:
  "\<exists>ev err t. ev_source ev = HARNESS \<and> apply_event ev demo_state = (Some err, t)
     \<and> ws_events t = ws_events demo_state \<and> ws_checkpoint_id demo_state = None
     \<and> ws_checkpoint_id t = Some ''cp1'' \<and> from_dict (to_dict t) = Inr demo_state"
proof -
  let ?ev = "demo_event CHECKPOINT_RECORDED HARNESS ''e9'' [(''checkpoint_id'', JStr ''cp1'')]"
  let ?t = "snd (apply_event ?ev demo_state)"
  have "fst (apply_event ?ev demo_state) \<noteq> None" by code_simp
  then obtain err where err: "apply_event ?ev demo_state = (Some err, ?t)"
    by (cases "apply_event ?ev demo_state") auto
  have ids: "ws_checkpoint_id demo_state = None" "ws_checkpoint_id ?t = Some ''cp1''"
    by code_simp+
  have log: "ws_events ?t = ws_events demo_state" by (rule apply_event_rejected_log [OF err])
  have "ws_task_id ?t = ws_task_id demo_state" using apply_event_rejected [OF err] by auto
  with log have "to_dict ?t = to_dict demo_state" by (simp add: to_dict_def)
  moreover have "from_dict (to_dict demo_state) = Inr demo_state" by (rule demo_roundtrip)
  moreover have "ev_source ?ev = HARNESS" by (simp add: demo_event_def)
  ultimately show ?thesis using err ids log
    by (intro exI [of _ ?ev] exI [of _ err] exI [of _ ?t]) simp
qed

end
