(* ===== verification/Budgets.thy ===== *)
theory Budgets
  imports Spear_Prelude
begin

text \<open>
  Hierarchical budget accounting (\<open>client/runtime/budgets.py\<close>).  A
  \<open>BudgetManager\<close> is a ledger and its named children.  A method only ever touches the
  manager it is called on and the managers above it, through \<open>_parent\<close>, so the methods are
  functions on a chain of ledgers: the manager first, then its parent, and so on up to
  the task's own budget.  \<open>time.monotonic()\<close> is read once for every manager a call
  visits that has a wall-clock limit; the readings are an argument, \<open>clock i\<close> the one made
  at the \<open>i\<close>-th manager of the chain, in milliseconds.
\<close>

datatype budget_kind =
    PRIMARY_MODEL_CALLS | AUXILIARY_MODEL_CALLS | MODEL_TURNS | TOOL_CALLS
  | COMMAND_EXECUTIONS | INPUT_TOKENS | OUTPUT_TOKENS | CHILD_AGENT_CALLS
  | CHILD_MODEL_TURNS | WALL_TIME_MS

fun kind_value :: "budget_kind \<Rightarrow> string" where
  "kind_value PRIMARY_MODEL_CALLS = ''primary_model_calls''"
| "kind_value AUXILIARY_MODEL_CALLS = ''auxiliary_model_calls''"
| "kind_value MODEL_TURNS = ''model_turns''"
| "kind_value TOOL_CALLS = ''tool_calls''"
| "kind_value COMMAND_EXECUTIONS = ''command_executions''"
| "kind_value INPUT_TOKENS = ''input_tokens''"
| "kind_value OUTPUT_TOKENS = ''output_tokens''"
| "kind_value CHILD_AGENT_CALLS = ''child_agent_calls''"
| "kind_value CHILD_MODEL_TURNS = ''child_model_turns''"
| "kind_value WALL_TIME_MS = ''wall_time_ms''"

definition all_kinds :: "budget_kind list" where
  "all_kinds = [PRIMARY_MODEL_CALLS, AUXILIARY_MODEL_CALLS, MODEL_TURNS, TOOL_CALLS,
     COMMAND_EXECUTIONS, INPUT_TOKENS, OUTPUT_TOKENS, CHILD_AGENT_CALLS, CHILD_MODEL_TURNS,
     WALL_TIME_MS]"

abbreviation budget_kind_of :: "json \<Rightarrow> budget_kind option" where
  "budget_kind_of \<equiv> enum_of kind_value all_kinds"

datatype budget_error =
    BudgetExceeded budget_kind string
  | BudgetError string
  | BudgetValueError string

record budget_limit =
  bl_amount :: int
  bl_approximate :: bool

definition budget_limit_new :: "int \<Rightarrow> bool \<Rightarrow> budget_error + budget_limit" where
  "budget_limit_new amount approx =
     (if amount < 0 then Inl (BudgetValueError ''budget limit cannot be negative'')
      else Inr \<lparr>bl_amount = amount, bl_approximate = approx\<rparr>)"

record ledger =
  bm_component :: string
  bm_limits :: "(budget_kind \<times> budget_limit) list"
  bm_consumed :: "(budget_kind \<times> int) list"
  bm_approximate :: "budget_kind set"
  bm_started_monotonic :: int
  bm_wall_offset_ms :: int

datatype budget_manager = BudgetManager (ledger_of: ledger) (children_of: "(string \<times> budget_manager) list")

definition ledger_new :: "string \<Rightarrow> (budget_kind \<times> budget_limit) list \<Rightarrow> int \<Rightarrow> ledger" where
  "ledger_new component limits now = \<lparr>bm_component = component, bm_limits = limits, bm_consumed = [],
     bm_approximate = {}, bm_started_monotonic = now, bm_wall_offset_ms = 0\<rparr>"

definition from_legacy :: "string \<Rightarrow> int \<Rightarrow> int \<Rightarrow> int option \<Rightarrow> int \<Rightarrow> budget_error + budget_manager" where
  "from_legacy component model_turns tool_calls context_tokens now =
     bindE (budget_limit_new (model_turns + 4) False) (\<lambda>turns.
     bindE (budget_limit_new tool_calls False) (\<lambda>calls.
     let limits = [(MODEL_TURNS, turns), (PRIMARY_MODEL_CALLS, turns), (TOOL_CALLS, calls)] in
     if context_tokens \<in> {None, Some 0}
     then Inr (BudgetManager (ledger_new component limits now) [])
     else bindE (budget_limit_new (the context_tokens) True) (\<lambda>tokens.
       Inr (BudgetManager (ledger_new component (AList.update INPUT_TOKENS tokens limits) now) []))))"

section \<open>Counters\<close>

definition consumed_of :: "ledger \<Rightarrow> budget_kind \<Rightarrow> int" where
  "consumed_of m k = (case map_of (bm_consumed m) k of None \<Rightarrow> 0 | Some n \<Rightarrow> n)"

definition over_limit :: "ledger \<Rightarrow> budget_kind \<Rightarrow> int \<Rightarrow> bool" where
  "over_limit m k n =
     (case map_of (bm_limits m) k of None \<Rightarrow> False | Some limit \<Rightarrow> n > bl_amount limit)"

definition approximate_limit :: "ledger \<Rightarrow> budget_kind \<Rightarrow> bool" where
  "approximate_limit m k =
     (case map_of (bm_limits m) k of None \<Rightarrow> False | Some limit \<Rightarrow> bl_approximate limit)"

definition set_consumed :: "budget_kind \<Rightarrow> int \<Rightarrow> ledger \<Rightarrow> ledger" where
  "set_consumed k n m = m\<lparr>bm_consumed := AList.update k n (bm_consumed m)\<rparr>"

definition check_wall_time :: "int \<Rightarrow> ledger \<Rightarrow> budget_error option \<times> ledger" where
  "check_wall_time now m =
     (case map_of (bm_limits m) WALL_TIME_MS of
        None \<Rightarrow> (None, m)
      | Some limit \<Rightarrow>
          let elapsed = bm_wall_offset_ms m + (now - bm_started_monotonic m);
              m1 = set_consumed WALL_TIME_MS elapsed m
          in if elapsed > bl_amount limit
             then (Some (BudgetExceeded WALL_TIME_MS (bm_component m)), m1)
             else (None, m1))"

text \<open>What a child's consumption is charged to at its parent.\<close>

fun parent_kind :: "budget_kind \<Rightarrow> budget_kind option" where
  "parent_kind MODEL_TURNS = Some CHILD_MODEL_TURNS"
| "parent_kind PRIMARY_MODEL_CALLS = Some PRIMARY_MODEL_CALLS"
| "parent_kind AUXILIARY_MODEL_CALLS = Some AUXILIARY_MODEL_CALLS"
| "parent_kind TOOL_CALLS = Some TOOL_CALLS"
| "parent_kind COMMAND_EXECUTIONS = Some COMMAND_EXECUTIONS"
| "parent_kind INPUT_TOKENS = Some INPUT_TOKENS"
| "parent_kind OUTPUT_TOKENS = Some OUTPUT_TOKENS"
| "parent_kind _ = None"

definition record_use :: "budget_kind \<Rightarrow> int \<Rightarrow> bool \<Rightarrow> ledger \<Rightarrow> ledger" where
  "record_use k used approx m =
     (let m1 = set_consumed k used m
      in if approx \<or> approximate_limit m k
         then m1\<lparr>bm_approximate := insert k (bm_approximate m1)\<rparr> else m1)"

text \<open>
  \<open>consume\<close> on a manager and its ancestors.  The limit of the manager is checked first, then
  the parent is debited (and may refuse), then the manager records its own use.
\<close>

fun consume :: "(nat \<Rightarrow> int) \<Rightarrow> budget_kind \<Rightarrow> int \<Rightarrow> bool \<Rightarrow> ledger list \<Rightarrow>
    budget_error option \<times> ledger list" where
  "consume clock k amount approx [] = (None, [])"
| "consume clock k amount approx (m # ps) =
     (if amount < 0 then (Some (BudgetValueError ''budget consumption cannot be negative''), m # ps)
      else case check_wall_time (clock 0) m of
        (Some e, m1) \<Rightarrow> (Some e, m1 # ps)
      | (None, m1) \<Rightarrow>
        let current = consumed_of m1 k in
        if over_limit m1 k (current + amount)
        then (Some (BudgetExceeded k (bm_component m1)), m1 # ps)
        else case (case parent_kind k of
                     None \<Rightarrow> (None, ps)
                   | Some pk \<Rightarrow> consume (\<lambda>i. clock (Suc i)) pk amount approx ps) of
               (Some e, ps') \<Rightarrow> (Some e, m1 # ps')
             | (None, ps') \<Rightarrow> (None, record_use k (current + amount) approx m1 # ps'))"

fun refund :: "budget_kind \<Rightarrow> int \<Rightarrow> ledger list \<Rightarrow> ledger list" where
  "refund k amount [] = []"
| "refund k amount (m # ps) =
     (if \<not> has_key (bm_limits m) k then m # ps
      else set_consumed k (max 0 (consumed_of m k - max 0 amount)) m # refund k amount ps)"

fun ensure_available :: "(nat \<Rightarrow> int) \<Rightarrow> budget_kind \<Rightarrow> int \<Rightarrow> ledger list \<Rightarrow>
    budget_error option \<times> ledger list" where
  "ensure_available clock k amount [] = (None, [])"
| "ensure_available clock k amount (m # ps) =
     (if amount < 0 then (Some (BudgetValueError ''budget check cannot be negative''), m # ps)
      else case check_wall_time (clock 0) m of
        (Some e, m1) \<Rightarrow> (Some e, m1 # ps)
      | (None, m1) \<Rightarrow>
        if over_limit m1 k (consumed_of m1 k + amount)
        then (Some (BudgetExceeded k (bm_component m1)), m1 # ps)
        else case (case parent_kind k of
                     None \<Rightarrow> (None, ps)
                   | Some pk \<Rightarrow> ensure_available (\<lambda>i. clock (Suc i)) pk amount ps) of
               (r, ps') \<Rightarrow> (r, m1 # ps'))"

definition remaining :: "budget_kind \<Rightarrow> ledger \<Rightarrow> int option" where
  "remaining k m =
     (case map_of (bm_limits m) k of
        None \<Rightarrow> None
      | Some limit \<Rightarrow> Some (max 0 (bl_amount limit - consumed_of m k)))"

section \<open>Managers in their tree\<close>

text \<open>
  A manager is addressed by the allocation identifiers on the way down to it.
  \<open>chain_at\<close> is the manager's ledger followed by those of its ancestors, and
  \<open>put_chain\<close> stores such a chain back, top first.
\<close>

fun manager_at :: "string list \<Rightarrow> budget_manager \<Rightarrow> budget_manager option" where
  "manager_at [] m = Some m"
| "manager_at (k # p) m = (case map_of (children_of m) k of None \<Rightarrow> None | Some c \<Rightarrow> manager_at p c)"

fun chain_at :: "string list \<Rightarrow> budget_manager \<Rightarrow> ledger list option" where
  "chain_at [] m = Some [ledger_of m]"
| "chain_at (k # p) m =
     (case map_of (children_of m) k of
        None \<Rightarrow> None
      | Some c \<Rightarrow> map_option (\<lambda>ls. ls @ [ledger_of m]) (chain_at p c))"

fun put_chain :: "string list \<Rightarrow> ledger list \<Rightarrow> budget_manager \<Rightarrow> budget_manager" where
  "put_chain _ [] m = m"
| "put_chain [] (l # ls) m = BudgetManager l (children_of m)"
| "put_chain (k # p) (l # ls) m =
     BudgetManager l
       (case map_of (children_of m) k of
          None \<Rightarrow> children_of m
        | Some c \<Rightarrow> AList.update k (put_chain p ls c) (children_of m))"

fun put_child :: "string list \<Rightarrow> string \<Rightarrow> budget_manager \<Rightarrow> budget_manager \<Rightarrow> budget_manager" where
  "put_child [] i c m = BudgetManager (ledger_of m) (AList.update i c (children_of m))"
| "put_child (k # p) i c m =
     (case map_of (children_of m) k of
        None \<Rightarrow> m
      | Some d \<Rightarrow> BudgetManager (ledger_of m) (AList.update k (put_child p i c d) (children_of m)))"

definition on_chain :: "(ledger list \<Rightarrow> budget_error option \<times> ledger list) \<Rightarrow> string list \<Rightarrow>
    budget_manager \<Rightarrow> budget_error option \<times> budget_manager" where
  "on_chain f p m =
     (case chain_at p m of
        None \<Rightarrow> (None, m)
      | Some ls \<Rightarrow> (case f ls of (e, ls') \<Rightarrow> (e, put_chain p (rev ls') m)))"

text \<open>
  The limits a child asks for are plain integers or \<open>BudgetLimit\<close> values; \<open>Inl\<close> is an integer.
\<close>

definition normalize_limits ::
  "(budget_kind \<times> (int + budget_limit)) list \<Rightarrow> budget_error + (budget_kind \<times> budget_limit) list" where
  "normalize_limits limits =
     mapE (\<lambda>(k, v). case v of
         Inr l \<Rightarrow> Inr (k, l)
       | Inl n \<Rightarrow> bindE (budget_limit_new n False) (\<lambda>l. Inr (k, l))) limits"

definition exceeds_remaining :: "(budget_kind \<times> budget_limit) list \<Rightarrow> ledger \<Rightarrow> budget_kind \<times> budget_kind \<Rightarrow> bool" where
  "exceeds_remaining limits m ck =
     (case (map_of limits (fst ck), remaining (snd ck) m) of
        (Some requested, Some left) \<Rightarrow> bl_amount requested > left
      | _ \<Rightarrow> False)"

definition reserved_kinds :: "(budget_kind \<times> budget_kind) list" where
  "reserved_kinds = [(MODEL_TURNS, CHILD_MODEL_TURNS), (PRIMARY_MODEL_CALLS, PRIMARY_MODEL_CALLS),
     (TOOL_CALLS, TOOL_CALLS)]"

definition allocate_child :: "(nat \<Rightarrow> int) \<Rightarrow> int \<Rightarrow> string list \<Rightarrow> string \<Rightarrow> string \<Rightarrow>
    (budget_kind \<times> (int + budget_limit)) list \<Rightarrow> budget_manager \<Rightarrow> budget_error option \<times> budget_manager" where
  "allocate_child clock now p allocation_id component limits root =
     (case manager_at p root of
        None \<Rightarrow> (None, root)
      | Some self \<Rightarrow>
        if allocation_id = [] \<or> has_key (children_of self) allocation_id
        then (Some (BudgetError ''child allocation identifier must be unique''), root)
        else case on_chain (consume clock CHILD_AGENT_CALLS 1 False) p root of
          (Some e, root1) \<Rightarrow> (Some e, root1)
        | (None, root1) \<Rightarrow>
          (case normalize_limits limits of
             Inl e \<Rightarrow> (Some e, root1)
           | Inr normalized \<Rightarrow>
             let self1 = ledger_of (the (manager_at p root1)) in
             (case find (exceeds_remaining normalized self1) reserved_kinds of
                Some ck \<Rightarrow> (Some (BudgetExceeded (snd ck) (bm_component self1)), root1)
              | None \<Rightarrow>
                (None, put_child p allocation_id
                         (BudgetManager (ledger_new component normalized now) []) root1))))"

section \<open>Snapshots\<close>

text \<open>\<open>sorted\<close> of the kinds' values, kept as the kinds in the alphabetical order of their values.\<close>

definition kinds_by_value :: "budget_kind list" where
  "kinds_by_value = sort_key kind_value all_kinds"

definition limit_to_dict :: "budget_limit \<Rightarrow> json" where
  "limit_to_dict l = JObj [(''amount'', JInt (bl_amount l)), (''approximate'', JBool (bl_approximate l))]"

fun budget_to_dict :: "budget_manager \<Rightarrow> json" where
  "budget_to_dict (BudgetManager m cs) = JObj
     [(''schema_version'', JInt 1),
      (''component'', JStr (bm_component m)),
      (''limits'', JObj (map (\<lambda>(k, l). (kind_value k, limit_to_dict l)) (bm_limits m))),
      (''consumed'', JObj (map (\<lambda>(k, n). (kind_value k, JInt n)) (bm_consumed m))),
      (''approximate'', JList (map (\<lambda>k. JStr (kind_value k))
                          (filter (\<lambda>k. k \<in> bm_approximate m) kinds_by_value))),
      (''children'', JObj (map (\<lambda>kc. (fst kc, budget_to_dict (snd kc))) cs))]"

text \<open>
  The conversions \<open>from_dict\<close> applies to parsed JSON.  \<open>num\<close> is how \<open>int()\<close> reads the text
  of a string or truncates a float literal, \<open>text\<close> what \<open>str()\<close> prints for a value that is
  not a string; both are left open, and every statement holds for all of them.
\<close>

definition py_int :: "(json \<Rightarrow> int option) \<Rightarrow> json \<Rightarrow> int option" where
  "py_int num v =
     (case v of
        JInt n \<Rightarrow> Some n
      | JBool b \<Rightarrow> Some (if b then 1 else 0)
      | JFloat _ \<Rightarrow> num v
      | JStr _ \<Rightarrow> num v
      | _ \<Rightarrow> None)"

definition py_str :: "(json \<Rightarrow> string) \<Rightarrow> json \<Rightarrow> string" where
  "py_str text v = (case v of JStr s \<Rightarrow> s | _ \<Rightarrow> text v)"

fun py_bool :: "json \<Rightarrow> bool" where
  "py_bool JNull = False"
| "py_bool (JBool b) = b"
| "py_bool (JInt n) = (n \<noteq> 0)"
| "py_bool (JFloat r) = (r \<notin> {''0.0'', ''-0.0''})"
| "py_bool (JStr s) = (s \<noteq> [])"
| "py_bool (JList xs) = (xs \<noteq> [])"
| "py_bool (JObj d) = (d \<noteq> [])"

text \<open>
  \<open>dict(v)\<close>: an object, or a sequence whose items are themselves sequences of two.
\<close>

fun pair_of :: "json \<Rightarrow> (json \<times> json) option" where
  "pair_of (JList [JList _, v]) = None"
| "pair_of (JList [JObj _, v]) = None"
| "pair_of (JList [k, v]) = Some (k, v)"
| "pair_of (JStr [c, d]) = Some (JStr [c], JStr [d])"
| "pair_of (JObj [(a, _), (b, _)]) = Some (JStr a, JStr b)"
| "pair_of _ = None"

definition py_dict :: "json \<Rightarrow> (json \<times> json) list option" where
  "py_dict v =
     (case v of
        JObj d \<Rightarrow> Some (map (\<lambda>(k, x). (JStr k, x)) d)
      | JList xs \<Rightarrow> map_option (\<lambda>kvs. fold (\<lambda>(k, x). AList.update k x) kvs []) (those (map pair_of xs))
      | JStr s \<Rightarrow> (if s = [] then Some [] else None)
      | _ \<Rightarrow> None)"

text \<open>Iterating over a JSON value.\<close>

fun py_iter :: "json \<Rightarrow> json list option" where
  "py_iter (JList xs) = Some xs"
| "py_iter (JStr s) = Some (map (\<lambda>c. JStr [c]) s)"
| "py_iter (JObj d) = Some (map (\<lambda>(k, _). JStr k) d)"
| "py_iter _ = None"

fun py_is_one :: "json \<Rightarrow> bool" where
  "py_is_one (JInt n) = (n = 1)"
| "py_is_one (JBool b) = b"
| "py_is_one (JFloat r) = (r = ''1.0'')"
| "py_is_one _ = False"

text \<open>Every exception raised while a snapshot is read becomes one \<open>BudgetError\<close>.\<close>

definition malformed :: budget_error where
  "malformed = BudgetError ''malformed budget snapshot''"

definition or_malformed :: "'a option \<Rightarrow> budget_error + 'a" where
  "or_malformed r = (case r of None \<Rightarrow> Inl malformed | Some x \<Rightarrow> Inr x)"

definition limit_from_dict :: "(json \<Rightarrow> int option) \<Rightarrow> json \<times> json \<Rightarrow> budget_error + budget_kind \<times> budget_limit" where
  "limit_from_dict num kv =
     (case (budget_kind_of (fst kv), snd kv) of
        (Some k, JObj v) \<Rightarrow>
          bindE (or_malformed (Option.bind (map_of v ''amount'') (py_int num))) (\<lambda>amount.
            if amount < 0 then Inl malformed
            else Inr (k, \<lparr>bl_amount = amount,
                          bl_approximate = py_bool (get_default v ''approximate'' (JBool False))\<rparr>))
      | _ \<Rightarrow> Inl malformed)"

definition consumed_from_dict :: "(json \<Rightarrow> int option) \<Rightarrow> json \<times> json \<Rightarrow> budget_error + budget_kind \<times> int" where
  "consumed_from_dict num kv =
     (case (budget_kind_of (fst kv), py_int num (snd kv)) of
        (Some k, Some n) \<Rightarrow> Inr (k, n)
      | _ \<Rightarrow> Inl malformed)"

definition ledger_from_dict :: "(json \<Rightarrow> int option) \<Rightarrow> (json \<Rightarrow> string) \<Rightarrow> int \<Rightarrow> json_object \<Rightarrow> budget_error + ledger" where
  "ledger_from_dict num text now raw =
     bindE (or_malformed (py_dict (get_default raw ''limits'' (JObj [])))) (\<lambda>raw_limits.
     bindE (mapE (limit_from_dict num) raw_limits) (\<lambda>limits.
     bindE (or_malformed (map_of raw ''component'')) (\<lambda>component.
     bindE (or_malformed (py_dict (get_default raw ''consumed'' (JObj [])))) (\<lambda>raw_consumed.
     bindE (mapE (consumed_from_dict num) raw_consumed) (\<lambda>used.
     bindE (or_malformed (py_iter (get_default raw ''approximate'' (JList [])))) (\<lambda>raw_approx.
     bindE (or_malformed (those (map budget_kind_of raw_approx))) (\<lambda>approx.
     Inr \<lparr>bm_component = py_str text component, bm_limits = limits, bm_consumed = used,
          bm_approximate = set approx, bm_started_monotonic = now,
          bm_wall_offset_ms = (case map_of used WALL_TIME_MS of None \<Rightarrow> 0 | Some n \<Rightarrow> n)\<rparr>)))))))"

lemma size_snd_map_of: "map_of d k = Some v \<Longrightarrow> size v < size (JObj d)"
proof -
  assume "map_of d k = Some v"
  then have "(k, v) \<in> set d" by (rule map_of_SomeD)
  then have "size v < Suc (size_list (size_prod (\<lambda>_. 0) size) d)"
    by (induction d) auto
  then show ?thesis by simp
qed

lemma size_pair_of: "pair_of x = Some kv \<Longrightarrow> size (snd kv) \<le> size x"
  by (induction x rule: pair_of.induct) auto

lemma fold_update_subset:
  "set (fold (\<lambda>(k, x). AList.update k x) kvs d) \<subseteq> set kvs \<union> set d"
proof (induction kvs arbitrary: d)
  case (Cons kv kvs)
  have "set (AList.update (fst kv) (snd kv) d) \<subseteq> insert kv (set d)"
    by (induction d) (auto split: if_splits)
  with Cons.IH [of "AList.update (fst kv) (snd kv) d"] show ?case
    by (auto simp: case_prod_unfold)
qed simp

lemma size_py_dict: "py_dict v = Some kvs \<Longrightarrow> kv \<in> set kvs \<Longrightarrow> size (snd kv) < Suc (size v)"
proof (cases v)
  case (JObj d)
  assume "py_dict v = Some kvs" "kv \<in> set kvs"
  with JObj obtain k where "(k, snd kv) \<in> set d" by (auto simp: py_dict_def)
  then have "size (snd kv) < Suc (size_list (size_prod (\<lambda>_. 0) size) d)"
    by (induction d) auto
  with JObj show ?thesis by simp
next
  case (JList xs)
  assume "py_dict v = Some kvs" "kv \<in> set kvs"
  then obtain ps where ps: "those (map pair_of xs) = Some ps"
    and "kvs = fold (\<lambda>(k, x). AList.update k x) ps []"
    using JList by (auto simp: py_dict_def)
  with \<open>kv \<in> set kvs\<close> fold_update_subset [of ps "[]"] have "kv \<in> set ps" by auto
  with ps have "\<exists>x \<in> set xs. pair_of x = Some kv"
    by (induction xs arbitrary: ps) (auto split: option.splits)
  then obtain x where x: "x \<in> set xs" and "pair_of x = Some kv" by blast
  then have "size (snd kv) \<le> size x" by (simp add: size_pair_of)
  moreover from x have "size x < Suc (size_list size xs)" by (induction xs) auto
  ultimately show ?thesis using JList by simp
qed (auto simp: py_dict_def split: if_splits)

lemma size_get_default:
  "py_dict (get_default d k (JObj [])) = Some kvs \<Longrightarrow> kv \<in> set kvs \<Longrightarrow> size (snd kv) < size (JObj d)"
  by (auto simp: get_default_def py_dict_def [of "JObj []"] split: option.splits
      dest!: size_py_dict size_snd_map_of)

lemma mapE_cong [fundef_cong]:
  "xs = ys \<Longrightarrow> (\<And>x. x \<in> set ys \<Longrightarrow> f x = g x) \<Longrightarrow> mapE f xs = mapE g ys"
  by (induction ys arbitrary: xs) auto

text \<open>
  \<open>BudgetManager.from_dict\<close>.  A \<open>BudgetError\<close> raised for a child passes through unchanged:
  the handler catches lookup, type and value errors only.
\<close>

function budget_from_dict :: "(json \<Rightarrow> int option) \<Rightarrow> (json \<Rightarrow> string) \<Rightarrow> int \<Rightarrow> json \<Rightarrow>
    budget_error + budget_manager" where
  "budget_from_dict num text now v =
     (case v of
        JObj raw \<Rightarrow>
          if \<not> py_is_one (get raw ''schema_version'')
          then Inl (BudgetError ''unsupported or malformed budget snapshot'')
          else bindE (ledger_from_dict num text now raw) (\<lambda>m.
            case py_dict (get_default raw ''children'' (JObj [])) of
              None \<Rightarrow> Inl malformed
            | Some kvs \<Rightarrow>
                bindE (mapE (\<lambda>kv. bindE (budget_from_dict num text now (snd kv))
                                    (\<lambda>c. Inr (py_str text (fst kv), c))) kvs) (\<lambda>cs.
                  Inr (BudgetManager m (fold (\<lambda>(k, c). AList.update k c) cs []))))
      | _ \<Rightarrow> Inl (BudgetError ''unsupported or malformed budget snapshot''))"
  by pat_completeness auto
termination
  by (relation "measure (\<lambda>(_, _, _, v). size v)") (auto dest: size_get_default)

declare budget_from_dict.simps [simp del]

definition metrics :: "ledger \<Rightarrow> json" where
  "metrics m = JObj (map (\<lambda>k. (kind_value k, JObj
     [(''allocated'', case map_of (bm_limits m) k of None \<Rightarrow> JNull | Some l \<Rightarrow> JInt (bl_amount l)),
      (''consumed'', JInt (consumed_of m k)),
      (''remaining'', case remaining k m of None \<Rightarrow> JNull | Some n \<Rightarrow> JInt n),
      (''approximate'', JBool (k \<in> bm_approximate m))])) all_kinds)"

end
