(* ===== verification/Budgets_Props.thy ===== *)
theory Budgets_Props
  imports Budgets
begin

text \<open>
  What the budget accounting guarantees: no counter passes its limit, whatever calls are
  made and however they end; a refused call changes no counter but the clock; asking first
  agrees with consuming; what children use is covered by what their parent was charged; and
  snapshots restore the tree.  Refunds are the exception: they are charged back to the wrong
  counter of the parent.
\<close>

section \<open>Counters after one call\<close>

lemma consumed_set [simp]: "consumed_of (set_consumed k n m) j = (if j = k then n else consumed_of m j)"
  by (simp add: consumed_of_def set_consumed_def dict_simps)

lemma consumed_record_use [simp]:
  "consumed_of (record_use k n a m) j = (if j = k then n else consumed_of m j)"
  by (simp add: record_use_def consumed_of_def set_consumed_def dict_simps Let_def)

lemma limits_unchanged [simp]:
  "bm_limits (set_consumed k n m) = bm_limits m" "bm_limits (record_use k n a m) = bm_limits m"
  "bm_limits (snd (check_wall_time now m)) = bm_limits m"
  by (auto simp: set_consumed_def record_use_def check_wall_time_def Let_def split: option.splits)

text \<open>Equal but for the clock: \<open>adds (Some k) n\<close> says the counter of \<open>k\<close> grew by \<open>n\<close>.\<close>

definition adds :: "budget_kind option \<Rightarrow> int \<Rightarrow> ledger \<Rightarrow> ledger \<Rightarrow> bool" where
  "adds k n m m' \<longleftrightarrow> bm_limits m' = bm_limits m \<and>
     (\<forall>j. j \<noteq> WALL_TIME_MS \<longrightarrow> consumed_of m' j = consumed_of m j + (if k = Some j then n else 0))"

lemma adds_refl [simp]: "adds None n m m"
  by (simp add: adds_def)

lemma adds_wall: "check_wall_time now m = (r, m1) \<Longrightarrow> adds None n m m1"
  by (auto simp: check_wall_time_def adds_def Let_def split: option.splits if_splits)

text \<open>A chain of ledgers after a charge that started at kind \<open>k\<close>.\<close>

fun charged :: "budget_kind option \<Rightarrow> int \<Rightarrow> ledger list \<Rightarrow> ledger list \<Rightarrow> bool" where
  "charged k n [] ls = (ls = [])"
| "charged k n (m # ps) ls =
     (\<exists>m' ps'. ls = m' # ps' \<and> adds k n m m' \<and> charged (Option.bind k parent_kind) n ps ps')"

lemma charged_None_refl [simp]: "charged None n ls ls"
  by (induction ls) auto

lemma consume_step:
  assumes "consume clock k n a (m # ps) = (r, ls')"
  obtains
    (refused) m1 e where "r = Some e" "ls' = m1 # ps" "adds None n m m1"
  | (parent) m1 e pk ps' where "r = Some e" "ls' = m1 # ps'" "adds None n m m1"
      "parent_kind k = Some pk" "consume (\<lambda>i. clock (Suc i)) pk n a ps = (Some e, ps')"
  | (spent) m' ps' where "r = None" "ls' = m' # ps'" "adds (Some k) n m m'" "0 \<le> n"
      "k \<noteq> WALL_TIME_MS \<longrightarrow> \<not> over_limit m' k (consumed_of m' k)"
      "case parent_kind k of None \<Rightarrow> ps' = ps
       | Some pk \<Rightarrow> consume (\<lambda>i. clock (Suc i)) pk n a ps = (None, ps')"
proof (cases "n < 0")
  case True
  with assms show thesis by (auto intro: refused)
next
  case False
  obtain w m1 where w: "check_wall_time (clock 0) m = (w, m1)" by force
  then have m1: "adds None n m m1" by (rule adds_wall)
  define up where "up = (case parent_kind k of None \<Rightarrow> (None, ps)
      | Some pk \<Rightarrow> consume (\<lambda>i. clock (Suc i)) pk n a ps)"
  obtain e ps' where up': "up = (e, ps')" by force
  let ?m' = "record_use k (consumed_of m1 k + n) a m1"
  show thesis
  proof (cases "w \<noteq> None \<or> over_limit m1 k (consumed_of m1 k + n)")
    case True
    with assms False w m1 show thesis by (cases w) (auto simp: Let_def intro: refused)
  next
    case free: False
    with assms False w up' have r: "r = e" "ls' = (if e = None then ?m' else m1) # ps'"
      by (auto simp: Let_def up_def [symmetric] split: option.splits)
    show thesis
    proof (cases e)
      case None
      have "adds (Some k) n m ?m'" using m1 by (auto simp: adds_def)
      moreover have "\<not> over_limit ?m' k (consumed_of ?m' k)"
        using free by (simp add: over_limit_def)
      ultimately show thesis using r None False up'
        by (intro spent) (auto simp: up_def split: option.splits)
    next
      case (Some x)
      with up' obtain pk where "parent_kind k = Some pk" by (auto simp: up_def split: option.splits)
      with Some r up' m1 show thesis by (intro parent) (auto simp: up_def)
    qed
  qed
qed

lemma consume_charges:
  "consume clock k n a ls = (r, ls') \<Longrightarrow> charged (if r = None then Some k else None) n ls ls'"
proof (induction ls arbitrary: clock k r ls')
  case (Cons m ps)
  from Cons.prems show ?case
  proof (cases rule: consume_step)
    case (spent m' ps')
    with Cons.IH show ?thesis by (fastforce split: option.splits)
  qed (use Cons.IH in fastforce)+
qed simp

section \<open>Limits\<close>

definition within_limits :: "ledger \<Rightarrow> bool" where
  "within_limits m \<longleftrightarrow> (\<forall>k. k \<noteq> WALL_TIME_MS \<longrightarrow>
     0 \<le> consumed_of m k \<and> \<not> over_limit m k (consumed_of m k))"

lemma adds_None_within: "adds None n m m' \<Longrightarrow> within_limits m \<Longrightarrow> within_limits m'"
  by (auto simp: adds_def within_limits_def over_limit_def)

lemma adds_Some_within:
  assumes "adds (Some k) n m m'" "0 \<le> n" "within_limits m"
    "k \<noteq> WALL_TIME_MS \<longrightarrow> \<not> over_limit m' k (consumed_of m' k)"
  shows "within_limits m'"
  unfolding within_limits_def
proof (intro allI impI)
  fix j assume j: "j \<noteq> WALL_TIME_MS"
  then show "0 \<le> consumed_of m' j \<and> \<not> over_limit m' j (consumed_of m' j)"
  proof (cases "j = k")
    case False
    with assms(1) j have "consumed_of m' j = consumed_of m j" by (simp add: adds_def)
    with assms(1,3) j show ?thesis by (simp add: adds_def within_limits_def over_limit_def)
  qed (use assms in \<open>simp add: adds_def within_limits_def\<close>)
qed

lemma consume_within:
  "consume clock k n a ls = (r, ls') \<Longrightarrow> list_all within_limits ls \<Longrightarrow> list_all within_limits ls'"
proof (induction ls arbitrary: clock k r ls')
  case (Cons m ps)
  from Cons.prems(1) show ?case
  proof (cases rule: consume_step)
    case (spent m' ps')
    with Cons show ?thesis by (auto intro: adds_Some_within split: option.splits)
  qed (use Cons in \<open>auto intro: adds_None_within\<close>)
qed simp

lemma refund_within: "list_all within_limits ls \<Longrightarrow> list_all within_limits (refund k n ls)"
proof (induction ls)
  case (Cons m ps)
  have "within_limits (set_consumed k (max 0 (consumed_of m k - max 0 n)) m)"
    using Cons.prems by (auto simp: within_limits_def over_limit_def split: option.splits)
      (smt (verit) option.sel)+
  with Cons show ?case by auto
qed simp

lemma ensure_charges:
  "ensure_available clock k n ls = (r, ls') \<Longrightarrow> charged None n ls ls'"
proof (induction ls arbitrary: clock k r ls')
  case (Cons m ps)
  then show ?case
    by (auto simp: Let_def dest: adds_wall split: if_splits prod.splits option.splits)
qed simp

lemma charged_None_within: "charged None n ls ls' \<Longrightarrow> list_all within_limits ls \<Longrightarrow> list_all within_limits ls'"
  by (induction ls arbitrary: ls') (auto intro: adds_None_within)

section \<open>Every manager of a task\<close>

fun all_ledgers :: "(ledger \<Rightarrow> bool) \<Rightarrow> budget_manager \<Rightarrow> bool" where
  "all_ledgers P (BudgetManager m cs) \<longleftrightarrow> P m \<and> list_all (\<lambda>kc. all_ledgers P (snd kc)) cs"

abbreviation all_children :: "(ledger \<Rightarrow> bool) \<Rightarrow> (string \<times> budget_manager) list \<Rightarrow> bool" where
  "all_children P cs \<equiv> list_all (\<lambda>kc. all_ledgers P (snd kc)) cs"

lemma all_ledgers_root: "all_ledgers P t \<Longrightarrow> P (ledger_of t)"
  by (cases t) simp

lemma all_ledgers_children: "all_ledgers P t \<Longrightarrow> all_children P (children_of t)"
  by (cases t) simp

lemma all_ledgers_child:
  "all_ledgers P t \<Longrightarrow> map_of (children_of t) k = Some c \<Longrightarrow> all_ledgers P c"
  by (cases t) (auto simp: list_all_iff dest!: map_of_SomeD)

lemma all_children_update: "all_children P cs \<Longrightarrow> all_ledgers P c \<Longrightarrow> all_children P (AList.update k c cs)"
  by (induction cs) auto

lemma chain_at_all: "all_ledgers P t \<Longrightarrow> chain_at p t = Some ls \<Longrightarrow> list_all P ls"
proof (induction p arbitrary: t ls)
  case (Cons k p)
  then obtain c z where c: "map_of (children_of t) k = Some c" and z: "chain_at p c = Some z"
    and "ls = z @ [ledger_of t]" by (auto split: option.splits)
  moreover from Cons.IH [OF all_ledgers_child [OF Cons.prems(1) c] z] have "list_all P z" .
  ultimately show ?case using all_ledgers_root [OF Cons.prems(1)] by simp
qed (auto dest: all_ledgers_root)

lemma put_chain_all:
  "all_ledgers P t \<Longrightarrow> list_all P ls \<Longrightarrow> all_ledgers P (put_chain p ls t)"
proof (induction p ls t rule: put_chain.induct)
  case (3 k p l ls m)
  then show ?case
    using all_ledgers_child [OF 3(2)] all_ledgers_children [OF 3(2)] all_children_update
    by (auto split: option.splits)
qed (auto dest: all_ledgers_children)

lemma put_child_all: "all_ledgers P t \<Longrightarrow> all_ledgers P c \<Longrightarrow> all_ledgers P (put_child p i c t)"
proof (induction p i c t rule: put_child.induct)
  case (2 k p i c m)
  then show ?case
    using all_ledgers_child [OF 2(2)] all_ledgers_children [OF 2(2)] all_ledgers_root [OF 2(2)]
      all_children_update
    by (auto split: option.splits)
qed (auto dest: all_ledgers_children all_ledgers_root intro: all_children_update)

lemma on_chain_all:
  assumes "on_chain f p t = (r, t')" "all_ledgers P t"
    "\<And>ls r ls'. f ls = (r, ls') \<Longrightarrow> list_all P ls \<Longrightarrow> list_all P ls'"
  shows "all_ledgers P t'"
  using assms chain_at_all [OF assms(2)] put_chain_all [OF assms(2)]
  by (fastforce simp: on_chain_def split: option.splits prod.splits)

section \<open>Calls on a budget tree\<close>

datatype budget_call =
    Consume "nat \<Rightarrow> int" "string list" budget_kind int bool
  | Ensure "nat \<Rightarrow> int" "string list" budget_kind int
  | Refund "string list" budget_kind int
  | Allocate "nat \<Rightarrow> int" int "string list" string string "(budget_kind \<times> (int + budget_limit)) list"

fun budget_step :: "budget_call \<Rightarrow> budget_manager \<Rightarrow> budget_error option \<times> budget_manager" where
  "budget_step (Consume clock p k n a) t = on_chain (consume clock k n a) p t"
| "budget_step (Ensure clock p k n) t = on_chain (ensure_available clock k n) p t"
| "budget_step (Refund p k n) t = on_chain (\<lambda>ls. (None, refund k n ls)) p t"
| "budget_step (Allocate clock now p i component limits) t = allocate_child clock now p i component limits t"

text \<open>A \<open>BudgetLimit\<close> object handed to a child passed its constructor, so it is not negative.\<close>

fun valid_call :: "budget_call \<Rightarrow> bool" where
  "valid_call (Allocate clock now p i component limits) =
     list_all (\<lambda>kv. case snd kv of Inl _ \<Rightarrow> True | Inr l \<Rightarrow> 0 \<le> bl_amount l) limits"
| "valid_call _ = True"

lemma normalized_nonneg:
  assumes "normalize_limits limits = Inr ls"
    "list_all (\<lambda>kv. case snd kv of Inl _ \<Rightarrow> True | Inr l \<Rightarrow> 0 \<le> bl_amount l) limits"
  shows "list_all (\<lambda>kl. 0 \<le> bl_amount (snd kl)) ls"
  using assms unfolding normalize_limits_def
  by (induction limits arbitrary: ls)
     (auto simp: raise_simps budget_limit_new_def split: sum.splits if_splits)

lemma new_within:
  "list_all (\<lambda>kl. 0 \<le> bl_amount (snd kl)) limits \<Longrightarrow> within_limits (ledger_new c limits now)"
  by (force simp: within_limits_def ledger_new_def consumed_of_def over_limit_def list_all_iff
      split: option.splits dest: map_of_SomeD)

lemma allocate_child_cases:
  assumes "allocate_child clock now p i component limits t = (r, t')"
  obtains (refused) e where "r = Some e" "t' = t"
  | (charged) r' where "on_chain (consume clock CHILD_AGENT_CALLS 1 False) p t = (r', t')" "r \<noteq> None"
  | (allocated) t1 ls self where "r = None" "on_chain (consume clock CHILD_AGENT_CALLS 1 False) p t = (None, t1)"
      "normalize_limits limits = Inr ls"
      "t' = put_child p i (BudgetManager (ledger_new component ls now) []) t1"
      "manager_at p t = Some self" "\<not> has_key (children_of self) i"
  | (absent) "r = None" "t' = t" "manager_at p t = None"
  using assms
  by (auto simp: allocate_child_def Let_def split: option.splits if_splits prod.splits sum.splits)

interpretation budget_tree: robust_object budget_step valid_call "all_ledgers within_limits"
proof
  fix c t
  assume v: "valid_call c" and t: "all_ledgers within_limits t"
  obtain r t' where s: "budget_step c t = (r, t')" by force
  have "all_ledgers within_limits t'"
  proof (cases c)
    case (Consume clock p k n a)
    with s t show ?thesis by (auto intro: on_chain_all consume_within)
  next
    case (Ensure clock p k n)
    with s t show ?thesis by (auto intro: on_chain_all charged_None_within ensure_charges)
  next
    case (Refund p k n)
    with s t show ?thesis by (auto intro: on_chain_all refund_within)
  next
    case (Allocate clock now p i component limits)
    with s have "allocate_child clock now p i component limits t = (r, t')" by simp
    then show ?thesis
    proof (cases rule: allocate_child_cases)
      case (allocated t1 ls self)
      then have "all_ledgers within_limits t1" using t consume_within by (auto intro: on_chain_all)
      moreover have "within_limits (ledger_new component ls now)"
        using allocated v Allocate by (auto intro: new_within normalized_nonneg)
      ultimately show ?thesis using allocated by (auto intro: put_child_all)
    qed (use t consume_within in \<open>auto intro: on_chain_all\<close>)
  qed
  with s show "all_ledgers within_limits (snd (budget_step c t))" by simp
qed

section \<open>What children use is charged to their parent\<close>

definition used_by :: "budget_kind \<Rightarrow> (string \<times> budget_manager) list \<Rightarrow> int" where
  "used_by k cs = sum_list (map (\<lambda>kc. consumed_of (ledger_of (snd kc)) k) cs)"

definition covers :: "ledger \<Rightarrow> (string \<times> budget_manager) list \<Rightarrow> bool" where
  "covers m cs \<longleftrightarrow> (\<forall>k pk. parent_kind k = Some pk \<longrightarrow> used_by k cs \<le> consumed_of m pk)"

fun balanced :: "budget_manager \<Rightarrow> bool" where
  "balanced (BudgetManager m cs) \<longleftrightarrow> dict cs \<and> covers m cs \<and> list_all (\<lambda>kc. balanced (snd kc)) cs"

lemma balanced_child: "balanced t \<Longrightarrow> map_of (children_of t) k = Some c \<Longrightarrow> balanced c"
  by (cases t) (auto simp: list_all_iff dest!: map_of_SomeD)

lemma balanced_update:
  "list_all (\<lambda>kc. balanced (snd kc)) cs \<Longrightarrow> balanced c \<Longrightarrow>
     list_all (\<lambda>kc. balanced (snd kc)) (AList.update k c cs)"
  by (induction cs) auto

lemma used_by_update:
  "dict cs \<Longrightarrow> map_of cs i = Some c \<Longrightarrow>
     used_by k (AList.update i c' cs)
       = used_by k cs - consumed_of (ledger_of c) k + consumed_of (ledger_of c') k"
proof (induction cs)
  case (Cons x cs)
  then show ?case by (cases x) (auto simp: used_by_def)
qed simp

lemma used_by_new:
  "\<not> has_key cs i \<Longrightarrow> used_by k (AList.update i c cs) = used_by k cs + consumed_of (ledger_of c) k"
  by (simp add: update_new_key used_by_def)

fun kind_above :: "budget_kind option \<Rightarrow> nat \<Rightarrow> budget_kind option" where
  "kind_above k 0 = k"
| "kind_above k (Suc i) = kind_above (Option.bind k parent_kind) i"

lemma kind_above_Suc: "kind_above k (Suc i) = Option.bind (kind_above k i) parent_kind"
proof (induction i arbitrary: k)
  case (Suc i)
  show ?case unfolding kind_above.simps(2) [of k "Suc i"] Suc.IH [of "Option.bind k parent_kind"] by simp
qed simp

lemma kind_above_None [simp]: "kind_above None i = None"
  by (induction i) auto

lemma charged_snoc:
  "charged k n (z @ [l]) ls' \<Longrightarrow>
     \<exists>z' l'. ls' = z' @ [l'] \<and> charged k n z z' \<and> adds (kind_above k (length z)) n l l'"
proof (induction z arbitrary: k ls')
  case (Cons m z)
  then obtain m' ps' where p: "ls' = m' # ps'" "adds k n m m'"
    "charged (Option.bind k parent_kind) n (z @ [l]) ps'" by auto
  from Cons.IH [OF p(3)] p(1,2) show ?case by fastforce
qed simp

lemma chain_at_length: "chain_at p t = Some ls \<Longrightarrow> length ls = Suc (length p)"
  by (induction p arbitrary: t ls) (auto split: option.splits)

lemma covers_charge:
  assumes "covers m cs" "adds k n (ledger_of c) (ledger_of c')" "0 \<le> n \<or> k = None" "dict cs"
    "map_of cs i = Some c" "adds (Option.bind k parent_kind) n m m'"
  shows "covers m' (AList.update i c' cs)"
  unfolding covers_def
proof (intro allI impI)
  fix j pj assume j: "parent_kind j = Some pj"
  then have "j \<noteq> WALL_TIME_MS" "pj \<noteq> WALL_TIME_MS" by (cases j; auto)+
  with assms(2,6) have "consumed_of (ledger_of c') j = consumed_of (ledger_of c) j + (if k = Some j then n else 0)"
    "consumed_of m' pj = consumed_of m pj + (if Option.bind k parent_kind = Some pj then n else 0)"
    by (simp_all add: adds_def)
  moreover have "used_by j cs \<le> consumed_of m pj" using assms(1) j by (simp add: covers_def)
  ultimately show "used_by j (AList.update i c' cs) \<le> consumed_of m' pj"
    using assms(3) j used_by_update [OF assms(4,5)] by auto
qed

lemma put_chain_balanced:
  assumes "balanced t" "chain_at p t = Some ls" "charged k n ls ls'" "0 \<le> n \<or> k = None"
  shows "balanced (put_chain p (rev ls') t) \<and>
    adds (kind_above k (length p)) n (ledger_of t) (ledger_of (put_chain p (rev ls') t))"
  using assms(1-3)
proof (induction p arbitrary: t ls ls')
  case Nil
  then obtain m' where "ls' = [m']" "adds k n (ledger_of t) m'" by auto
  with Nil.prems(1) assms(4) show ?case
  proof (cases t)
    case (BudgetManager m cs)
    have "covers m' cs"
      unfolding covers_def
    proof (intro allI impI)
      fix j pj assume j: "parent_kind j = Some pj"
      then have "pj \<noteq> WALL_TIME_MS" by (cases j; auto)
      with \<open>adds k n (ledger_of t) m'\<close> BudgetManager assms(4)
      have "consumed_of m pj \<le> consumed_of m' pj" by (auto simp: adds_def)
      with Nil.prems(1) BudgetManager j show "used_by j cs \<le> consumed_of m' pj"
        by (fastforce simp: covers_def)
    qed
    with \<open>ls' = [m']\<close> \<open>adds k n (ledger_of t) m'\<close> Nil.prems(1) BudgetManager show ?thesis by simp
  qed
next
  case (Cons i p)
  obtain m cs where t: "t = BudgetManager m cs" by (cases t)
  with Cons.prems(2) obtain c z where c: "map_of cs i = Some c" and z: "chain_at p c = Some z"
    and ls: "ls = z @ [m]" by (auto split: option.splits)
  from Cons.prems(3) ls obtain z' m' where ls': "ls' = z' @ [m']" and "charged k n z z'"
    and m': "adds (kind_above k (length z)) n m m'" using charged_snoc by blast
  with Cons.IH [OF balanced_child [OF Cons.prems(1)] z] c t
  have ih: "balanced (put_chain p (rev z') c)"
    "adds (kind_above k (length p)) n (ledger_of c) (ledger_of (put_chain p (rev z') c))" by auto
  have len: "length z = Suc (length p)" using z by (rule chain_at_length)
  have "covers m' (AList.update i (put_chain p (rev z') c) cs)"
  proof (rule covers_charge)
    show "covers m cs" "dict cs" using Cons.prems(1) t by auto
    show "adds (Option.bind (kind_above k (length p)) parent_kind) n m m'"
      using m' len by (simp only: kind_above_Suc)
    show "0 \<le> n \<or> kind_above k (length p) = None" using assms(4) by auto
  qed (fact ih(2) c)+
  with Cons.prems(1) ih(1) t c ls' m' len show ?case by (auto intro: balanced_update)
qed

lemma on_chain_balanced:
  assumes "on_chain f p t = (r, t')" "balanced t"
    "\<And>ls r ls'. ls \<noteq> [] \<Longrightarrow> f ls = (r, ls') \<Longrightarrow> \<exists>k n. charged k n ls ls' \<and> (0 \<le> n \<or> k = None)"
  shows "balanced t'"
proof (cases "chain_at p t")
  case (Some ls)
  obtain ls' where f: "f ls = (r, ls')" and t': "t' = put_chain p (rev ls') t"
    using assms(1) Some by (auto simp: on_chain_def split: prod.splits)
  have "ls \<noteq> []" using chain_at_length [OF Some] by auto
  from assms(3) [OF this f] put_chain_balanced [OF assms(2) Some] t' show ?thesis by blast
qed (use assms in \<open>simp add: on_chain_def\<close>)

lemma consume_nonneg: "consume clock k n a ls = (None, ls') \<Longrightarrow> ls \<noteq> [] \<Longrightarrow> 0 \<le> n"
  by (cases ls) (auto split: if_splits)

lemma consume_charged:
  "ls \<noteq> [] \<Longrightarrow> consume clock k n a ls = (r, ls') \<Longrightarrow> \<exists>j m. charged j m ls ls' \<and> (0 \<le> m \<or> j = None)"
  using consume_charges [of clock k n a ls r ls'] consume_nonneg [of clock k n a ls ls']
  by (cases r) auto

lemma put_child_balanced:
  assumes "balanced t" "manager_at p t = Some self" "\<not> has_key (children_of self) i" "balanced c"
    "\<And>k. consumed_of (ledger_of c) k = 0"
  shows "balanced (put_child p i c t) \<and> ledger_of (put_child p i c t) = ledger_of t"
  using assms(1,2)
proof (induction p arbitrary: t)
  case Nil
  obtain m cs where t: "t = BudgetManager m cs" by (cases t)
  with Nil assms(3) have new: "\<not> has_key cs i" by auto
  with Nil t have "covers m (AList.update i c cs)"
    by (simp add: covers_def used_by_new assms(5))
  with Nil t assms(4) show ?case by (auto intro: balanced_update)
next
  case (Cons k p)
  obtain m cs where t: "t = BudgetManager m cs" by (cases t)
  with Cons.prems(2) obtain d where d: "map_of cs k = Some d" "manager_at p d = Some self"
    by (auto split: option.splits)
  from Cons.IH [OF balanced_child [OF Cons.prems(1)] d(2)] d(1) t
  have ih: "balanced (put_child p i c d)" "ledger_of (put_child p i c d) = ledger_of d" by auto
  from Cons.prems(1) t have "dict cs" "covers m cs" by auto
  with d(1) ih(2) have "covers m (AList.update k (put_child p i c d) cs)"
    by (simp add: covers_def used_by_update)
  with Cons.prems(1) t d(1) ih(1) show ?case by (auto intro: balanced_update)
qed

lemma put_chain_children:
  "chain_at p t = Some ls \<Longrightarrow> length ls' = length ls \<Longrightarrow> manager_at p t = Some self \<Longrightarrow>
     \<exists>m. manager_at p (put_chain p (rev ls') t) = Some (BudgetManager m (children_of self))"
proof (induction p arbitrary: t ls ls')
  case Nil
  then show ?case by (cases ls') auto
next
  case (Cons k p)
  then obtain d z where d: "map_of (children_of t) k = Some d" "manager_at p d = Some self"
    and z: "chain_at p d = Some z" "ls = z @ [ledger_of t]" by (auto split: option.splits)
  from Cons.prems(2) z(2) obtain z' l' where ls': "ls' = z' @ [l']" "length z' = length z"
    by (cases ls' rule: rev_cases) auto
  from Cons.IH [OF z(1) ls'(2) d(2)] ls'(1) d(1) show ?case by (auto simp: dict_simps)
qed

lemma charged_length: "charged k n ls ls' \<Longrightarrow> length ls' = length ls"
  by (induction ls arbitrary: k ls') auto

lemma on_chain_consume_children:
  assumes "on_chain (consume clock k n a) p t = (r, t')" "manager_at p t = Some self"
  shows "\<exists>m. manager_at p t' = Some (BudgetManager m (children_of self))"
proof (cases "chain_at p t")
  case None
  with assms show ?thesis by (cases self) (auto simp: on_chain_def)
next
  case (Some ls)
  with assms(1) obtain ls' where "consume clock k n a ls = (r, ls')" "t' = put_chain p (rev ls') t"
    by (auto simp: on_chain_def split: prod.splits)
  with put_chain_children [OF Some _ assms(2)] charged_length consume_charges show ?thesis by metis
qed

fun charges_only :: "budget_call \<Rightarrow> bool" where
  "charges_only (Refund p k n) = False"
| "charges_only c = valid_call c"

lemma charging_step_balanced:
  assumes "charges_only c" "balanced t"
  shows "balanced (snd (budget_step c t))"
proof -
  obtain r t' where s: "budget_step c t = (r, t')" by force
  have "balanced t'"
  proof (cases c)
    case (Consume clock p k n a)
    with s have "on_chain (consume clock k n a) p t = (r, t')" by simp
    then show ?thesis using assms(2) by (rule on_chain_balanced) (rule consume_charged)
  next
    case (Ensure clock p k n)
    with s have "on_chain (ensure_available clock k n) p t = (r, t')" by simp
    then show ?thesis using assms(2) by (rule on_chain_balanced) (blast dest: ensure_charges)
  next
    case (Allocate clock now p i component limits)
    with s have "allocate_child clock now p i component limits t = (r, t')" by simp
    then show ?thesis
    proof (cases rule: allocate_child_cases)
      case (allocated t1 ls self)
      from this(2) assms(2) have "balanced t1" by (rule on_chain_balanced) (rule consume_charged)
      moreover obtain m where "manager_at p t1 = Some (BudgetManager m (children_of self))"
        using on_chain_consume_children [OF allocated(2,5)] by blast
      ultimately have "balanced (put_child p i (BudgetManager (ledger_new component ls now) []) t1)"
        using allocated(6)
        by (intro conjunct1 [OF put_child_balanced [where self = "BudgetManager m (children_of self)"]])
           (auto simp: covers_def used_by_def ledger_new_def consumed_of_def)
      with allocated show ?thesis by simp
    next
      case (charged r')
      from charged(1) assms(2) show ?thesis by (rule on_chain_balanced) (rule consume_charged)
    qed (use assms(2) in simp_all)
  qed (use assms in simp)
  with s show ?thesis by simp
qed

interpretation charging: robust_object budget_step charges_only balanced
  by unfold_locales (rule charging_step_balanced)

section \<open>Snapshots\<close>

text \<open>
  What a restored manager is: the same ledger, with the clock started now and the time
  already spent carried as the offset.
\<close>

definition restored_ledger :: "int \<Rightarrow> ledger \<Rightarrow> ledger" where
  "restored_ledger now m = m\<lparr>bm_started_monotonic := now, bm_wall_offset_ms := consumed_of m WALL_TIME_MS\<rparr>"

fun restored :: "int \<Rightarrow> budget_manager \<Rightarrow> budget_manager" where
  "restored now (BudgetManager m cs) =
     BudgetManager (restored_ledger now m) (map (\<lambda>kc. (fst kc, restored now (snd kc))) cs)"

text \<open>Dictionaries have each key once, and limits passed their constructor.\<close>

definition ledger_ok :: "ledger \<Rightarrow> bool" where
  "ledger_ok m \<longleftrightarrow> dict (bm_limits m) \<and> dict (bm_consumed m)
     \<and> list_all (\<lambda>kl. 0 \<le> bl_amount (snd kl)) (bm_limits m)"

fun snapshot_ok :: "budget_manager \<Rightarrow> bool" where
  "snapshot_ok (BudgetManager m cs) \<longleftrightarrow> ledger_ok m \<and> dict cs \<and> list_all (\<lambda>kc. snapshot_ok (snd kc)) cs"

lemma kind_of_value [simp]: "budget_kind_of (JStr (kind_value k)) = Some k"
  by (cases k) (simp_all add: enum_of_def all_kinds_def)

lemma all_kinds_UNIV: "set kinds_by_value = UNIV"
proof -
  have "k \<in> set all_kinds" for k by (cases k) (simp_all add: all_kinds_def)
  then show ?thesis by (auto simp: kinds_by_value_def)
qed

lemma limit_dict_roundtrip:
  "0 \<le> bl_amount l \<Longrightarrow> limit_from_dict num (JStr (kind_value k), limit_to_dict l) = Inr (k, l)"
  by (simp add: limit_from_dict_def limit_to_dict_def or_malformed_def py_int_def get_default_def)

lemma those_Some [simp]: "those (map Some xs) = Some xs"
  by (induction xs) auto

lemma ledger_roundtrip:
  assumes "ledger_ok m"
    "get_default raw ''limits'' (JObj []) = JObj (map (\<lambda>(k, l). (kind_value k, limit_to_dict l)) (bm_limits m))"
    "get_default raw ''consumed'' (JObj []) = JObj (map (\<lambda>(k, n). (kind_value k, JInt n)) (bm_consumed m))"
    "get_default raw ''approximate'' (JList []) = JList (map (\<lambda>k. JStr (kind_value k))
        (filter (\<lambda>k. k \<in> bm_approximate m) kinds_by_value))"
    "map_of raw ''component'' = Some (JStr (bm_component m))"
  shows "ledger_from_dict num text now raw = Inr (restored_ledger now m)"
proof -
  have "mapE (limit_from_dict num) (map (\<lambda>(k, l). (JStr (kind_value k), limit_to_dict l)) ls) = Inr ls"
    if "list_all (\<lambda>kl. 0 \<le> bl_amount (snd kl)) ls" for ls
    using that by (induction ls) (auto simp: limit_dict_roundtrip)
  moreover have "mapE (consumed_from_dict num) (map (\<lambda>(k, n). (JStr (kind_value k), JInt n)) ns) = Inr ns" for ns
    by (induction ns) (auto simp: consumed_from_dict_def py_int_def)
  moreover have "set (filter (\<lambda>k. k \<in> A) kinds_by_value) = A" for A
    using all_kinds_UNIV by auto
  ultimately show ?thesis using assms(1)
    by (simp add: ledger_from_dict_def assms(2-5) py_dict_def or_malformed_def ledger_ok_def
        case_prod_unfold comp_def restored_ledger_def py_str_def consumed_of_def)
qed

lemma fold_update_dict: "dict (d @ cs) \<Longrightarrow> fold (\<lambda>(k, c). AList.update k c) cs d = d @ cs"
proof (induction cs arbitrary: d)
  case (Cons x cs)
  then have "\<not> has_key d (fst x)" by (auto simp: has_key_def)
  with Cons show ?case by (simp add: case_prod_unfold update_new_key)
qed simp

lemma children_roundtrip:
  assumes "\<And>kc. kc \<in> set cs \<Longrightarrow> f (g (snd kc)) = Inr (h (snd kc))"
  shows "mapE (\<lambda>kv. bindE (f (snd kv)) (\<lambda>c. Inr (py_str text (fst kv), c)))
      (map (\<lambda>kc. (JStr (fst kc), g (snd kc))) cs) = Inr (map (\<lambda>kc. (fst kc, h (snd kc))) cs)"
  using assms by (induction cs) (auto simp: py_str_def)

section \<open>Properties\<close>

definition new_manager :: "string \<Rightarrow> (budget_kind \<times> budget_limit) list \<Rightarrow> int \<Rightarrow> budget_manager" where
  "new_manager component limits now = BudgetManager (ledger_new component limits now) []"

lemma new_manager_within:
  "list_all (\<lambda>kl. 0 \<le> bl_amount (snd kl)) limits \<Longrightarrow> all_ledgers within_limits (new_manager c limits now)"
  by (simp add: new_manager_def new_within)

lemma new_manager_balanced: "balanced (new_manager c limits now)"
  by (simp add: new_manager_def covers_def used_by_def ledger_new_def consumed_of_def)

lemma all_ledgers_at: "all_ledgers P t \<Longrightarrow> manager_at p t = Some m \<Longrightarrow> all_ledgers P m"
  by (induction p arbitrary: t) (auto dest: all_ledgers_child split: option.splits)

lemma balanced_at: "balanced t \<Longrightarrow> manager_at p t = Some m \<Longrightarrow> balanced m"
  by (induction p arbitrary: t) (auto dest: balanced_child split: option.splits)

text \<open>
  C10: no counter other than the clock ever passes its limit or goes below zero, in any
  manager of a task's tree, after any sequence of charges, checks, refunds and child
  allocations, whether each call succeeded or raised.
\<close>

theorem budget_never_overrun:
  assumes "list_all (\<lambda>kl. 0 \<le> bl_amount (snd kl)) limits" "\<forall>c \<in> set calls. valid_call c"
    "manager_at p (run_all budget_step calls (new_manager component limits now)) = Some m"
    "k \<noteq> WALL_TIME_MS"
  shows "0 \<le> consumed_of (ledger_of m) k \<and>
    (case map_of (bm_limits (ledger_of m)) k of None \<Rightarrow> True
     | Some l \<Rightarrow> consumed_of (ledger_of m) k \<le> bl_amount l)"
proof -
  have "all_ledgers within_limits (run_all budget_step calls (new_manager component limits now))"
    using assms(1,2) by (auto intro: budget_tree.run_all_inv new_manager_within)
  with assms(3) have "within_limits (ledger_of m)" by (blast intro: all_ledgers_root all_ledgers_at)
  with assms(4) show ?thesis
    by (auto simp: within_limits_def over_limit_def not_less split: option.splits)
qed

definition demo_limits :: "(budget_kind \<times> budget_limit) list" where
  "demo_limits = [(CHILD_MODEL_TURNS, \<lparr>bl_amount = 3, bl_approximate = False\<rparr>),
     (MODEL_TURNS, \<lparr>bl_amount = 5, bl_approximate = False\<rparr>)]"

definition demo_calls :: "budget_call list" where
  "demo_calls = [Consume (\<lambda>_. 0) [] MODEL_TURNS 2 False,
     Allocate (\<lambda>_. 0) 0 [] ''reviewer'' ''review'' [(MODEL_TURNS, Inl 3)],
     Consume (\<lambda>_. 0) [''reviewer''] MODEL_TURNS 2 False,
     Consume (\<lambda>_. 0) [''reviewer''] MODEL_TURNS 2 False]"

definition demo_tree :: budget_manager where
  "demo_tree = run_all budget_step demo_calls (new_manager ''main'' demo_limits 0)"

lemma demo_root: "manager_at [] demo_tree = Some demo_tree"
  by simp

theorem budget_never_overrun_witness:
  "consumed_of (ledger_of demo_tree) CHILD_MODEL_TURNS = 2 \<and>
   consumed_of (ledger_of demo_tree) CHILD_MODEL_TURNS \<le> 3"
proof -
  have l: "list_all (\<lambda>kl. 0 \<le> bl_amount (snd kl)) demo_limits" by code_simp
  have v: "\<forall>c \<in> set demo_calls. valid_call c" by (simp add: demo_calls_def)
  have lim: "map_of (bm_limits (ledger_of demo_tree)) CHILD_MODEL_TURNS
      = Some \<lparr>bl_amount = 3, bl_approximate = False\<rparr>" by code_simp
  have "consumed_of (ledger_of demo_tree) CHILD_MODEL_TURNS = 2" by code_simp
  with budget_never_overrun [OF l v demo_root [unfolded demo_tree_def], of CHILD_MODEL_TURNS] lim
  show ?thesis by (simp add: demo_tree_def [symmetric])
qed

text \<open>
  C18: as long as nothing is refunded, what the children of a manager have used of a kind is
  together no more than the parent's own limit for the kind they are charged to: delegated
  model turns stay within \<open>CHILD_MODEL_TURNS\<close>, and calls, commands and tokens within the
  parent's limit for the same kind.
\<close>

theorem children_stay_covered:
  assumes "list_all (\<lambda>kl. 0 \<le> bl_amount (snd kl)) limits" "\<forall>c \<in> set calls. charges_only c"
    "manager_at p (run_all budget_step calls (new_manager component limits now)) = Some m"
    "parent_kind k = Some pk" "map_of (bm_limits (ledger_of m)) pk = Some l"
  shows "sum_list (map (\<lambda>kc. consumed_of (ledger_of (snd kc)) k) (children_of m)) \<le> bl_amount l"
proof -
  let ?t = "run_all budget_step calls (new_manager component limits now)"
  have "valid_call c" if "charges_only c" for c using that by (cases c) auto
  with assms(2) have "all_ledgers within_limits ?t"
    using new_manager_within [OF assms(1)] by (blast intro: budget_tree.run_all_inv)
  with assms(3) have w: "within_limits (ledger_of m)" by (blast intro: all_ledgers_root all_ledgers_at)
  have "pk \<noteq> WALL_TIME_MS" using assms(4) by (cases k) auto
  with w assms(5) have "consumed_of (ledger_of m) pk \<le> bl_amount l"
    by (fastforce simp: within_limits_def over_limit_def)
  moreover have "balanced m"
    using charging.run_all_inv [OF assms(2) new_manager_balanced] assms(3) by (rule balanced_at)
  then have "used_by k (children_of m) \<le> consumed_of (ledger_of m) pk"
    using assms(4) by (cases m) (auto simp: covers_def)
  ultimately show ?thesis by (simp add: used_by_def)
qed

theorem children_stay_covered_witness:
  "length (children_of demo_tree) = 1 \<and>
   sum_list (map (\<lambda>kc. consumed_of (ledger_of (snd kc)) MODEL_TURNS) (children_of demo_tree)) \<le> 3"
proof -
  have l: "list_all (\<lambda>kl. 0 \<le> bl_amount (snd kl)) demo_limits" by code_simp
  have v: "\<forall>c \<in> set demo_calls. charges_only c" by (simp add: demo_calls_def)
  have lim: "map_of (bm_limits (ledger_of demo_tree)) CHILD_MODEL_TURNS
      = Some \<lparr>bl_amount = 3, bl_approximate = False\<rparr>" by code_simp
  have "length (children_of demo_tree) = 1" by code_simp
  with children_stay_covered [OF l v demo_root [unfolded demo_tree_def],
      of MODEL_TURNS CHILD_MODEL_TURNS, OF _ lim [unfolded demo_tree_def]]
  show ?thesis by (simp add: demo_tree_def [symmetric])
qed

text \<open>
  A refused charge changes no counter but the clock, neither in the manager nor in any
  manager above it, whichever of them refused.
\<close>

theorem refused_charge_changes_nothing:
  assumes "consume clock k n a ls = (Some e, ls')"
  shows "list_all2 (\<lambda>m m'. bm_limits m' = bm_limits m \<and>
      (\<forall>j. j \<noteq> WALL_TIME_MS \<longrightarrow> consumed_of m' j = consumed_of m j)) ls ls'"
proof -
  have "charged None n ls ls'" using consume_charges [OF assms] by simp
  then show ?thesis by (induction ls arbitrary: ls') (auto simp: adds_def)
qed

definition demo_chain :: "ledger list" where
  "demo_chain = [ledger_new ''review'' [(MODEL_TURNS, \<lparr>bl_amount = 9, bl_approximate = False\<rparr>)] 0,
     ledger_of demo_tree]"

theorem refused_charge_changes_nothing_witness:
  "\<exists>e ls'. consume (\<lambda>_. 0) MODEL_TURNS 2 False demo_chain = (Some e, ls') \<and>
     list_all2 (\<lambda>m m'. bm_limits m' = bm_limits m \<and> consumed_of m' MODEL_TURNS = consumed_of m MODEL_TURNS)
       demo_chain ls'"
proof -
  have "fst (consume (\<lambda>_. 0) MODEL_TURNS 2 False demo_chain) \<noteq> None" by code_simp
  then obtain e ls' where r: "consume (\<lambda>_. 0) MODEL_TURNS 2 False demo_chain = (Some e, ls')"
    by (cases "consume (\<lambda>_. 0) MODEL_TURNS 2 False demo_chain") auto
  from refused_charge_changes_nothing [OF r]
  have "list_all2 (\<lambda>m m'. bm_limits m' = bm_limits m \<and> consumed_of m' MODEL_TURNS = consumed_of m MODEL_TURNS)
      demo_chain ls'" by (rule list_all2_mono) auto
  with r show ?thesis by blast
qed

text \<open>
  For an amount that is not negative, \<open>ensure_available\<close> raises exactly when \<open>consume\<close>
  would, with the same exception, at every level of the tree.
\<close>

theorem ensure_agrees_with_consume:
  assumes "0 \<le> n"
  shows "fst (ensure_available clock k n ls) = fst (consume clock k n a ls)"
  using assms
proof (induction ls arbitrary: clock k)
  case (Cons m ps)
  show ?case
  proof (cases "parent_kind k")
    case None
    with Cons.prems show ?thesis by (auto simp: Let_def split: prod.splits option.splits)
  next
    case (Some pk)
    with Cons show ?thesis
      by (auto simp: Let_def split: prod.splits option.splits) (metis fst_conv)+
  qed
qed simp

theorem ensure_agrees_with_consume_witness:
  "fst (ensure_available (\<lambda>_. 0) MODEL_TURNS 2 demo_chain)
     = Some (BudgetExceeded CHILD_MODEL_TURNS ''main'') \<and>
   fst (consume (\<lambda>_. 0) MODEL_TURNS 2 True demo_chain)
     = Some (BudgetExceeded CHILD_MODEL_TURNS ''main'')"
proof -
  have "fst (ensure_available (\<lambda>_. 0) MODEL_TURNS 2 demo_chain)
      = Some (BudgetExceeded CHILD_MODEL_TURNS ''main'')" by code_simp
  with ensure_agrees_with_consume [of 2 "\<lambda>_. 0" MODEL_TURNS demo_chain True] show ?thesis by simp
qed

text \<open>
  Restoring a snapshot gives back the whole tree, limits, counters, estimates and
  children, with each clock restarted and the time already spent kept as its offset.
\<close>

theorem budget_snapshot_roundtrip:
  "snapshot_ok t \<Longrightarrow> budget_from_dict num text now (budget_to_dict t) = Inr (restored now t)"
proof (induction t)
  case (BudgetManager m cs)
  let ?raw = "[(''schema_version'', JInt 1), (''component'', JStr (bm_component m)),
      (''limits'', JObj (map (\<lambda>(k, l). (kind_value k, limit_to_dict l)) (bm_limits m))),
      (''consumed'', JObj (map (\<lambda>(k, n). (kind_value k, JInt n)) (bm_consumed m))),
      (''approximate'', JList (map (\<lambda>k. JStr (kind_value k))
                          (filter (\<lambda>k. k \<in> bm_approximate m) kinds_by_value))),
      (''children'', JObj (map (\<lambda>kc. (fst kc, budget_to_dict (snd kc))) cs))]"
  have l: "ledger_from_dict num text now ?raw = Inr (restored_ledger now m)"
    using BudgetManager.prems by (intro ledger_roundtrip) (simp_all add: get_default_def)
  have ih: "budget_from_dict num text now (budget_to_dict (snd kc)) = Inr (restored now (snd kc))"
    if "kc \<in> set cs" for kc
    using that BudgetManager.IH [of kc "snd kc"] BudgetManager.prems
    by (auto simp: list_all_iff intro: snds.intros)
  note cs_ok = children_roundtrip [of cs "budget_from_dict num text now" budget_to_dict "restored now" "text", OF ih]
  have d: "fold (\<lambda>(k, c). AList.update k c) (map (\<lambda>kc. (fst kc, restored now (snd kc))) cs) []
      = map (\<lambda>kc. (fst kc, restored now (snd kc))) cs"
    using BudgetManager.prems fold_update_dict [of "[]" "map (\<lambda>kc. (fst kc, restored now (snd kc))) cs"]
    by (simp add: comp_def)
  show ?case
    by (subst budget_from_dict.simps)
       (simp add: l [unfolded case_prod_unfold] d [unfolded case_prod_unfold] cs_ok get_def
         get_default_def [of _ "''children''"] py_dict_def comp_def case_prod_unfold)
qed

theorem budget_snapshot_roundtrip_witness:
  "snapshot_ok demo_tree \<and> budget_from_dict (\<lambda>_. None) (\<lambda>_. []) 7 (budget_to_dict demo_tree)
     = Inr (restored 7 demo_tree)"
proof -
  have "snapshot_ok demo_tree" by code_simp
  with budget_snapshot_roundtrip [OF this] show ?thesis by blast
qed

text \<open>
  A refund of a child's model turns goes to the parent's own \<open>MODEL_TURNS\<close>, which the
  charge never touched, and leaves its \<open>CHILD_MODEL_TURNS\<close> debited: charging and refunding
  two turns through a child takes two units of the parent's delegated allowance for good
  and hands back two of its own turns that were really used.
\<close>

theorem refund_credits_the_wrong_counter:
  "\<exists>parent child charged_chain.
     consume (\<lambda>_. 0) MODEL_TURNS 2 False [child, parent] = (None, charged_chain) \<and>
     (case refund MODEL_TURNS 2 charged_chain of [child', parent'] \<Rightarrow>
        consumed_of child' MODEL_TURNS = consumed_of child MODEL_TURNS \<and>
        consumed_of parent' CHILD_MODEL_TURNS = consumed_of parent CHILD_MODEL_TURNS + 2 \<and>
        consumed_of parent' MODEL_TURNS = consumed_of parent MODEL_TURNS - 2
      | _ \<Rightarrow> False)"
proof -
  let ?child = "ledger_new ''review'' [(MODEL_TURNS, \<lparr>bl_amount = 9, bl_approximate = False\<rparr>)] 0"
  let ?parent = "set_consumed MODEL_TURNS 4 (ledger_new ''main'' demo_limits 0)"
  have "fst (consume (\<lambda>_. 0) MODEL_TURNS 2 False [?child, ?parent]) = None" by code_simp
  then have c: "consume (\<lambda>_. 0) MODEL_TURNS 2 False [?child, ?parent]
      = (None, snd (consume (\<lambda>_. 0) MODEL_TURNS 2 False [?child, ?parent]))"
    by (cases "consume (\<lambda>_. 0) MODEL_TURNS 2 False [?child, ?parent]") simp
  have "case refund MODEL_TURNS 2 (snd (consume (\<lambda>_. 0) MODEL_TURNS 2 False [?child, ?parent])) of
      [child', parent'] \<Rightarrow>
        consumed_of child' MODEL_TURNS = consumed_of ?child MODEL_TURNS \<and>
        consumed_of parent' CHILD_MODEL_TURNS = consumed_of ?parent CHILD_MODEL_TURNS + 2 \<and>
        consumed_of parent' MODEL_TURNS = consumed_of ?parent MODEL_TURNS - 2
      | _ \<Rightarrow> False" by code_simp
  with c show ?thesis by blast
qed

end
