(* ===== verification/Runtime_Policy.thy ===== *)
theory Runtime_Policy
  imports Spear_Prelude
begin

text \<open>
  The small policies of the runtime: how failures are classified and retried
  (\<open>client/runtime/failure_policy.py\<close>), and cooperative cancellation
  (\<open>client/runtime/cancellation.py\<close>).  A cancellation source is shared by reference, so
  sources live in a store addressed by number; a linked token answers from its parent
  token and its own source.  The lock makes \<open>cancel\<close> one atomic step; the interleaving of
  several callers is a sequence of such steps.
\<close>

section \<open>Failures and retries\<close>

datatype failure_kind =
    MODEL_ERROR | INVALID_MODEL_TURN | UNKNOWN_TOOL | INVALID_TOOL_ARGUMENTS | TOOL_ERROR
  | COMMAND_FAILED | TIMEOUT | PERMISSION_DENIED | CONTEXT_OVERFLOW | COMPACTION_FAILED
  | VERIFICATION_FAILED | INTERRUPTED | BUDGET_EXHAUSTED_FAILURE | STALLED | RUNTIME_ERROR
  | CHECKPOINT_CONFLICT

fun failure_value :: "failure_kind \<Rightarrow> string" where
  "failure_value MODEL_ERROR = ''model_error''"
| "failure_value INVALID_MODEL_TURN = ''invalid_model_turn''"
| "failure_value UNKNOWN_TOOL = ''unknown_tool''"
| "failure_value INVALID_TOOL_ARGUMENTS = ''invalid_tool_arguments''"
| "failure_value TOOL_ERROR = ''tool_error''"
| "failure_value COMMAND_FAILED = ''command_failed''"
| "failure_value TIMEOUT = ''timeout''"
| "failure_value PERMISSION_DENIED = ''permission_denied''"
| "failure_value CONTEXT_OVERFLOW = ''context_overflow''"
| "failure_value COMPACTION_FAILED = ''compaction_failed''"
| "failure_value VERIFICATION_FAILED = ''verification_failed''"
| "failure_value INTERRUPTED = ''interrupted''"
| "failure_value BUDGET_EXHAUSTED_FAILURE = ''budget_exhausted''"
| "failure_value STALLED = ''stalled''"
| "failure_value RUNTIME_ERROR = ''runtime_error''"
| "failure_value CHECKPOINT_CONFLICT = ''checkpoint_conflict''"

datatype retry_action = RETRY | REPROMPT | DO_NOT_RETRY | TERMINATE

record failure =
  fl_kind :: failure_kind
  fl_summary :: string
  fl_action_id :: "string option"
  fl_retryable :: "bool option"

record retry_decision =
  rd_action :: retry_action
  rd_attempt :: int
  rd_maximum_attempts :: int
  rd_reason :: string

definition should_retry :: "retry_decision \<Rightarrow> bool" where
  "should_retry d \<longleftrightarrow> rd_action d \<in> {RETRY, REPROMPT}"

type_synonym retry_policy = "(failure_kind \<times> int) list"

definition default_retry_policy :: retry_policy where
  "default_retry_policy = [(MODEL_ERROR, 0), (INVALID_MODEL_TURN, 2)]"

definition retry_maximum :: "retry_policy \<Rightarrow> failure \<Rightarrow> int" where
  "retry_maximum policy f =
     (if fl_retryable f = Some False then 0
      else case map_of policy (fl_kind f) of None \<Rightarrow> 0 | Some n \<Rightarrow> n)"

definition decide :: "retry_policy \<Rightarrow> failure \<Rightarrow> int \<Rightarrow> string + retry_decision" where
  "decide policy f prior_attempts =
     (if prior_attempts < 0 then Inl ''prior_attempts cannot be negative''
      else let maximum = retry_maximum policy f in
        if prior_attempts < maximum
        then Inr \<lparr>rd_action = (if fl_kind f = INVALID_MODEL_TURN then REPROMPT else RETRY),
                  rd_attempt = prior_attempts + 1, rd_maximum_attempts = maximum,
                  rd_reason = failure_value (fl_kind f)\<rparr>
        else Inr \<lparr>rd_action = (if fl_kind f \<in> {INTERRUPTED, BUDGET_EXHAUSTED_FAILURE, STALLED,
                                                RUNTIME_ERROR}
                               then TERMINATE else DO_NOT_RETRY),
                  rd_attempt = prior_attempts, rd_maximum_attempts = maximum,
                  rd_reason = (if maximum \<noteq> 0 then ''retry limit reached'' else ''not retryable'')\<rparr>)"

definition classify_tool_failure :: "string \<Rightarrow> string option \<Rightarrow> int option \<Rightarrow> failure_kind" where
  "classify_tool_failure status category exit_code =
     (let text = lower (if category \<in> {None, Some []} then status else the category) in
      if contains text ''permission'' \<or> status = ''denied'' then PERMISSION_DENIED
      else if status = ''unknown_tool'' then UNKNOWN_TOOL
      else if status = ''invalid_arguments'' then INVALID_TOOL_ARGUMENTS
      else if status = ''timeout'' \<or> contains text ''timeout'' then TIMEOUT
      else if exit_code \<notin> {None, Some 0} then COMMAND_FAILED
      else TOOL_ERROR)"

text \<open>
  The caller's loop: ask the policy, try again while it says so.  \<open>attempts\<close> is what it
  makes of a list of attempts, each of which failed (\<open>Some\<close>) or succeeded (\<open>None\<close>).
\<close>

fun retried :: "retry_policy \<Rightarrow> failure option list \<Rightarrow> int \<Rightarrow> int" where
  "retried policy [] prior = prior"
| "retried policy (None # fs) prior = prior"
| "retried policy (Some f # fs) prior =
     (case decide policy f prior of
        Inl _ \<Rightarrow> prior
      | Inr d \<Rightarrow> if should_retry d then retried policy fs (rd_attempt d) else prior)"

section \<open>Cancellation\<close>

datatype cancellation_scope = SCOPE_OPERATION | SCOPE_TASK

record cancellation_state =
  cs_event :: bool
  cs_reason :: "string option"
  cs_scope :: "cancellation_scope option"

definition fresh_cancellation :: cancellation_state where
  "fresh_cancellation = \<lparr>cs_event = False, cs_reason = None, cs_scope = None\<rparr>"

text \<open>The sources created so far, by number; a token refers to one or links two tokens.\<close>

type_synonym cancellation_store = "cancellation_state list"

datatype cancellation_token = Token nat | Linked cancellation_token cancellation_token

definition state_at :: "cancellation_store \<Rightarrow> nat \<Rightarrow> cancellation_state" where
  "state_at st i = (if i < length st then st ! i else fresh_cancellation)"

fun is_cancelled :: "cancellation_store \<Rightarrow> cancellation_token \<Rightarrow> bool" where
  "is_cancelled st (Token i) = cs_event (state_at st i)"
| "is_cancelled st (Linked parent local) = (is_cancelled st parent \<or> is_cancelled st local)"

fun reason :: "cancellation_store \<Rightarrow> cancellation_token \<Rightarrow> string option" where
  "reason st (Token i) = cs_reason (state_at st i)"
| "reason st (Linked parent local) =
     (if is_cancelled st parent then reason st parent else reason st local)"

fun scope :: "cancellation_store \<Rightarrow> cancellation_token \<Rightarrow> cancellation_scope option" where
  "scope st (Token i) = cs_scope (state_at st i)"
| "scope st (Linked parent local) =
     (if is_cancelled st parent then scope st parent else scope st local)"

text \<open>The exception \<open>OperationCancelled\<close>, with its reason and scope.\<close>

definition raise_if_cancelled :: "cancellation_store \<Rightarrow> cancellation_token \<Rightarrow>
    (string \<times> cancellation_scope) option" where
  "raise_if_cancelled st t =
     (if is_cancelled st t
      then Some (case reason st t of None \<Rightarrow> ''operation cancelled'' | Some r \<Rightarrow>
                   if r = [] then ''operation cancelled'' else r,
                 case scope st t of None \<Rightarrow> SCOPE_TASK | Some s \<Rightarrow> s)
      else None)"

definition cancel :: "string \<Rightarrow> cancellation_scope \<Rightarrow> nat \<Rightarrow> cancellation_store \<Rightarrow> bool \<times> cancellation_store" where
  "cancel why sc i st =
     (if cs_event (state_at st i) then (False, st)
      else (True, st[i := \<lparr>cs_event = True,
                          cs_reason = Some (if strip why = [] then ''cancellation requested'' else strip why),
                          cs_scope = Some sc\<rparr>]))"

definition new_source :: "cancellation_store \<Rightarrow> nat \<times> cancellation_store" where
  "new_source st = (length st, st @ [fresh_cancellation])"

definition linked_cancellation :: "cancellation_token \<Rightarrow> cancellation_store \<Rightarrow>
    (nat \<times> cancellation_token) \<times> cancellation_store" where
  "linked_cancellation parent st =
     (let (i, st1) = new_source st in ((i, Linked parent (Token i)), st1))"

end
