(* ===== verification/Runtime_Policy_Props.thy ===== *)
theory Runtime_Policy_Props
  imports Runtime_Policy
begin

text \<open>
  Retries are bounded by the policy, whatever sequence of failures occurs; cancellation is
  permanent, keeps the first reason, and travels from parent to child only.
\<close>

section \<open>Retries\<close>

lemma decide_retry:
  "decide policy f prior = Inr d \<Longrightarrow> should_retry d \<Longrightarrow>
     rd_attempt d = prior + 1 \<and> prior < retry_maximum policy f \<and> fl_retryable f \<noteq> Some False"
  by (auto simp: decide_def should_retry_def retry_maximum_def Let_def split: if_splits)

lemma retry_maximum_bound: "0 \<le> M \<Longrightarrow> \<forall>kn \<in> set policy. snd kn \<le> M \<Longrightarrow> retry_maximum policy f \<le> M"
  by (force simp: retry_maximum_def split: option.splits dest: map_of_SomeD)

text \<open>
  Whatever failures a caller meets, the number of retries it makes under a policy
  never exceeds the largest maximum of the policy, and it never retries a failure marked
  as not retryable.
\<close>

theorem retries_are_bounded:
  assumes "\<forall>kn \<in> set policy. snd kn \<le> M" "0 \<le> prior" "prior \<le> M"
  shows "retried policy fs prior \<le> M \<and>
    (\<forall>f d. decide policy f prior = Inr d \<and> should_retry d \<longrightarrow>
       fl_retryable f \<noteq> Some False \<and> rd_attempt d \<le> M)"
proof
  show "retried policy fs prior \<le> M"
    using assms
  proof (induction policy fs prior rule: retried.induct)
    case (3 policy f fs prior)
    then show ?case
      using decide_retry [of policy f prior] retry_maximum_bound [of M policy f]
      by (auto split: sum.splits)
  qed auto
  have "0 \<le> M" using assms(2,3) by simp
  with assms(1) show "\<forall>f d. decide policy f prior = Inr d \<and> should_retry d \<longrightarrow>
      fl_retryable f \<noteq> Some False \<and> rd_attempt d \<le> M"
    using decide_retry retry_maximum_bound by (metis (no_types, lifting) order.trans zless_imp_add1_zle)
qed

definition demo_failure :: failure where
  "demo_failure = \<lparr>fl_kind = INVALID_MODEL_TURN, fl_summary = ''no tool call'', fl_action_id = None,
     fl_retryable = None\<rparr>"

theorem retries_are_bounded_witness:
  "retried default_retry_policy (replicate 5 (Some demo_failure)) 0 = 2 \<and>
   retried default_retry_policy (replicate 5 (Some demo_failure)) 0 \<le> 2"
proof -
  have "retried default_retry_policy (replicate 5 (Some demo_failure)) 0 = 2" by code_simp
  moreover have "\<forall>kn \<in> set default_retry_policy. snd kn \<le> 2" by (simp add: default_retry_policy_def)
  ultimately show ?thesis
    using retries_are_bounded [of default_retry_policy 2 0 "replicate 5 (Some demo_failure)"] by simp
qed

section \<open>Cancellation\<close>

datatype cancellation_call = Cancel string cancellation_scope nat | Link cancellation_token

fun cancellation_step :: "cancellation_call \<Rightarrow> cancellation_store \<Rightarrow> unit option \<times> cancellation_store" where
  "cancellation_step (Cancel why sc i) st = (None, snd (cancel why sc i st))"
| "cancellation_step (Link t) st = (None, snd (linked_cancellation t st))"

fun sources :: "cancellation_token \<Rightarrow> nat set" where
  "sources (Token i) = {i}"
| "sources (Linked p l) = sources p \<union> sources l"

lemma cancelled_state_kept:
  assumes "cs_event (state_at st i)"
  shows "state_at (snd (cancellation_step c st)) i = state_at st i"
proof (cases c)
  case (Cancel why sc j)
  with assms show ?thesis
    by (cases "i = j") (auto simp: cancel_def state_at_def nth_list_update split: if_splits)
next
  case (Link t)
  with assms show ?thesis
    by (auto simp: linked_cancellation_def new_source_def state_at_def nth_append
        fresh_cancellation_def split: if_splits)
qed

interpretation cancelled_source: robust_object cancellation_step "\<lambda>_. True"
  "\<lambda>st. cs_event (state_at st i) \<and> state_at st i = s" for i s
  using cancelled_state_kept by unfold_locales (auto simp: cancelled_state_kept)

lemma run_keeps_cancelled:
  "cs_event (state_at st i) \<Longrightarrow> state_at (run_all cancellation_step cs st) i = state_at st i"
  using cancelled_source.run_all_inv [of cs st i] by blast

text \<open>
  Cancellation is permanent and the first request wins: after any further cancellation
  requests and newly linked children, a source once cancelled still raises with the reason and
  scope of that first request, and every token that was cancelled still is.
\<close>

theorem cancellation_is_permanent:
  assumes "is_cancelled st t"
  shows "is_cancelled (run_all cancellation_step cs st) t \<and>
    (\<forall>i. t = Token i \<longrightarrow> raise_if_cancelled (run_all cancellation_step cs st) t = raise_if_cancelled st t)"
proof
  show "is_cancelled (run_all cancellation_step cs st) t"
    using assms by (induction t) (auto simp: run_keeps_cancelled)
  show "\<forall>i. t = Token i \<longrightarrow> raise_if_cancelled (run_all cancellation_step cs st) t = raise_if_cancelled st t"
    using assms by (auto simp: raise_if_cancelled_def run_keeps_cancelled)
qed

definition demo_store :: cancellation_store where
  "demo_store = snd (cancel ''user pressed stop'' SCOPE_TASK 0 [fresh_cancellation])"

theorem cancellation_is_permanent_witness:
  "raise_if_cancelled (run_all cancellation_step [Link (Token 0), Cancel ''again'' SCOPE_OPERATION 0] demo_store)
     (Token 0) = Some (''user pressed stop'', SCOPE_TASK)"
proof -
  have "is_cancelled demo_store (Token 0)" by code_simp
  moreover have "raise_if_cancelled demo_store (Token 0) = Some (''user pressed stop'', SCOPE_TASK)"
    by code_simp
  ultimately show ?thesis
    using cancellation_is_permanent [of demo_store "Token 0"
        "[Link (Token 0), Cancel ''again'' SCOPE_OPERATION 0]"] by simp
qed

lemma token_unaffected:
  assumes "\<And>j. j \<in> sources t \<Longrightarrow> state_at st' j = state_at st j"
  shows "is_cancelled st' t = is_cancelled st t \<and> reason st' t = reason st t \<and> scope st' t = scope st t"
  using assms by (induction t) auto

text \<open>
  Cancelling a child stops the child and never its parent; a child of a cancelled parent
  is cancelled too and reports the parent's reason.
\<close>

theorem cancellation_is_one_way:
  assumes "linked_cancellation parent st = ((i, child), st1)" "\<forall>j \<in> sources parent. j < length st"
    "cancel why sc i st1 = (first, st2)"
  shows "first \<and> is_cancelled st2 child
    \<and> raise_if_cancelled st2 parent = raise_if_cancelled st parent
    \<and> (is_cancelled st parent \<longrightarrow> reason st2 child = reason st parent)"
proof -
  from assms(1) have i: "i = length st" and child: "child = Linked parent (Token i)"
    and st1: "st1 = st @ [fresh_cancellation]"
    by (auto simp: linked_cancellation_def new_source_def)
  have "\<not> cs_event (state_at st1 i)" by (simp add: i st1 state_at_def fresh_cancellation_def)
  with assms(3) obtain s where "first" and st2: "st2 = st1[i := s]" and s: "cs_event s"
    by (auto simp: cancel_def)
  have "state_at st2 j = state_at st j" if "j \<in> sources parent" for j
    using assms(2) that by (auto simp: st2 st1 i state_at_def nth_append nth_list_update)
  note same = token_unaffected [OF this]
  have "is_cancelled st2 child" using s by (simp add: child st2 st1 i state_at_def)
  with \<open>first\<close> same show ?thesis by (auto simp: raise_if_cancelled_def child)
qed

theorem cancellation_is_one_way_witness:
  "\<exists>i child st1 st2. linked_cancellation (Token 0) [fresh_cancellation] = ((i, child), st1)
     \<and> cancel ''child done'' SCOPE_OPERATION i st1 = (True, st2) \<and> is_cancelled st2 child
     \<and> raise_if_cancelled st2 (Token 0) = None"
proof -
  obtain i child st1 where l: "linked_cancellation (Token 0) [fresh_cancellation] = ((i, child), st1)"
    by (metis prod.exhaust)
  obtain first st2 where c: "cancel ''child done'' SCOPE_OPERATION i st1 = (first, st2)" by force
  have "\<forall>j \<in> sources (Token 0). j < length [fresh_cancellation]" by simp
  from cancellation_is_one_way [OF l this c] l c show ?thesis
    by (auto simp: raise_if_cancelled_def state_at_def fresh_cancellation_def)
qed

end
