(* ===== verification/Normative_Coverage.thy ===== *)
theory Normative_Coverage
  imports Spear_Prelude "HOL-Library.Product_Lexorder"
begin

text \<open>
  Which provisions of a bound standard a change answers to
  (\<open>client/normative/normative_coverage.py\<close>): the provisions the normative pass cited,
  closed over the structure the document itself records, and the applicability of each,
  decided from deterministic facts only.

  Left open, as arguments: \<open>digest\<close>, the hexadecimal SHA-256 of a text, whose first twelve
  digits make instance identities; \<open>labels_in\<close>, the printed labels the provision grammar finds in a
  text; \<open>names_label\<close> and \<open>names_section\<close>, whether the user's request names a printed label
  or a section.  A provision record carries its effective force, \<open>None\<close> when reading the
  property raised.
\<close>

section \<open>Provision records\<close>

datatype provision_key =
    ProvisionKey (key_section: string) (key_kind: string) "int option"
  | TableRowKey (key_section: string) string int
  | UnlabelledBodyKey (key_section: string) string string
  | TableCellKey (key_section: string) string int string
  | ScopePreambleKey (key_section: string) string

definition section_sign :: string where
  "section_sign = [CHR 0xA7]"

fun key_str :: "provision_key \<Rightarrow> string" where
  "key_str (ProvisionKey sec kind None) = kind @ '' '' @ section_sign @ sec"
| "key_str (ProvisionKey sec kind (Some n)) = kind @ '' '' @ sec @ ''-'' @ int_str n"
| "key_str (TableRowKey sec table row) = ''TableRow '' @ table @ '':'' @ int_str row"
| "key_str (UnlabelledBodyKey sec kind d) = kind @ '' '' @ section_sign @ sec @ ''@'' @ take 12 d"
| "key_str (TableCellKey sec table row col) =
     ''TableCell '' @ table @ '':'' @ int_str row @ ''['' @ col @ '']''"
| "key_str (ScopePreambleKey sec d) = ''ScopePreamble '' @ section_sign @ sec @ ''@'' @ take 12 d"

record provision_record =
  pr_key :: provision_key
  pr_source_id :: string
  pr_page :: "int option"
  pr_text :: string
  pr_effective_force :: "int option"
  pr_declaration_status :: string
  pr_needs_review :: bool
  pr_standard_id :: string
  pr_revision :: string

definition instance_of :: "(string \<Rightarrow> string) \<Rightarrow> provision_record \<Rightarrow> string" where
  "instance_of digest r = key_str (pr_key r) @ ''@'' @
     take 12 (digest (pr_standard_id r @ ''|'' @ pr_revision r @ ''|'' @ key_str (pr_key r) @ ''|''
             @ pr_source_id r @ ''|'' @ pr_text r))"

definition normative :: "provision_record \<Rightarrow> bool" where
  "normative r \<longleftrightarrow> pr_effective_force r \<in> {Some 1, Some 2, Some 3}"

section \<open>The coverage set\<close>

datatype origin = CITED | CLOSURE

record coverage_entry =
  ce_record :: provision_record
  ce_origin :: origin
  ce_coverage_reason :: string
  ce_source_relation :: string
  ce_originating :: string
  ce_parent :: string

definition ce_instance :: "(string \<Rightarrow> string) \<Rightarrow> coverage_entry \<Rightarrow> string" where
  "ce_instance digest e = instance_of digest (ce_record e)"

record coverage =
  cv_retrieved :: "string list"
  cv_entries :: "coverage_entry list"
  cv_complete :: bool
  cv_incomplete_reason :: string
  cv_ungrouped :: "string list"

definition cited_entries :: "coverage \<Rightarrow> coverage_entry list" where
  "cited_entries c = filter (\<lambda>e. ce_origin e = CITED) (cv_entries c)"

definition added_entries :: "coverage \<Rightarrow> coverage_entry list" where
  "added_entries c = filter (\<lambda>e. ce_origin e = CLOSURE) (cv_entries c)"

section \<open>The structure of the document\<close>

record unit_info =
  un_heading_path :: "string list"
  un_position :: int

record universe =
  uv_units :: "(string \<times> unit_info) list"
  uv_lists :: "((string \<times> string \<times> string list) \<times> provision_record list) list"
  uv_tables :: "((string \<times> string) \<times> provision_record list) list"
  uv_by_key :: "(string \<times> provision_record list) list"
  uv_sections :: "(string \<times> provision_record list) list"

definition lookup_list :: "('k \<times> 'v list) list \<Rightarrow> 'k \<Rightarrow> 'v list" where
  "lookup_list d k = (case map_of d k of None \<Rightarrow> [] | Some xs \<Rightarrow> xs)"

text \<open>\<open>d.setdefault(k, []).append(v)\<close>.\<close>

definition append_to :: "'k \<Rightarrow> 'v \<Rightarrow> ('k \<times> 'v list) list \<Rightarrow> ('k \<times> 'v list) list" where
  "append_to k v d = AList.update k (lookup_list d k @ [v]) d"

definition heading :: "(string \<times> unit_info) list \<Rightarrow> provision_record \<Rightarrow> string list" where
  "heading units r = (case map_of units (pr_source_id r) of None \<Rightarrow> [] | Some u \<Rightarrow> un_heading_path u)"

definition list_of :: "(string \<times> unit_info) list \<Rightarrow> provision_record \<Rightarrow> string \<times> string \<times> string list" where
  "list_of units r = (key_section (pr_key r), key_kind (pr_key r), heading units r)"

definition declared :: "provision_record \<Rightarrow> bool" where
  "declared r \<longleftrightarrow> pr_declaration_status r = ''DECLARATION''"

definition universe_add :: "provision_record \<Rightarrow> universe \<Rightarrow> universe" where
  "universe_add r u =
     (let u1 = u\<lparr>uv_by_key := append_to (key_str (pr_key r)) r (uv_by_key u)\<rparr>;
          u2 = (if normative r \<and> declared r
                then u1\<lparr>uv_sections := append_to (key_section (pr_key r)) r (uv_sections u1)\<rparr> else u1)
      in if \<not> declared r then u2
         else case pr_key r of
           ProvisionKey _ _ (Some _) \<Rightarrow>
             u2\<lparr>uv_lists := append_to (list_of (uv_units u) r) r (uv_lists u2)\<rparr>
         | TableRowKey sec table _ \<Rightarrow>
             u2\<lparr>uv_tables := append_to (sec, table) r (uv_tables u2)\<rparr>
         | _ \<Rightarrow> u2)"

definition universe_new :: "provision_record list \<Rightarrow> (string \<times> unit_info) list \<Rightarrow> universe" where
  "universe_new records units = fold universe_add records
     \<lparr>uv_units = units, uv_lists = [], uv_tables = [], uv_by_key = [], uv_sections = []\<rparr>"

definition group :: "universe \<Rightarrow> provision_record \<Rightarrow> string option \<times> string \<times> provision_record list" where
  "group u r =
     (case pr_key r of
        ProvisionKey sec kind (Some _) \<Rightarrow>
          (Some ''SAME_NORMATIVE_LIST'',
           kind @ '' list of '' @ section_sign @ sec @
             (let h = heading (uv_units u) r in if h = [] then [] else '' ('' @ last h @ '')''),
           lookup_list (uv_lists u) (list_of (uv_units u) r))
      | TableRowKey sec table _ \<Rightarrow>
          (Some ''SAME_TABLE'', ''Table '' @ table @ '' of '' @ section_sign @ sec,
           lookup_list (uv_tables u) (sec, table))
      | _ \<Rightarrow> (None, [], []))"

definition in_section :: "universe \<Rightarrow> string \<Rightarrow> provision_record list" where
  "in_section u sec = lookup_list (uv_sections u) sec"

text \<open>\<open>identity.rsplit("@", 1)[0]\<close> of an identity that has an \<open>@\<close>.\<close>

definition before_last_at :: "string \<Rightarrow> string" where
  "before_last_at s = rev (tl (dropWhile (\<lambda>c. c \<noteq> CHR 0x40) (rev s)))"

definition resolve :: "(string \<Rightarrow> string) \<Rightarrow> universe \<Rightarrow> string \<Rightarrow> provision_record list" where
  "resolve digest u raw =
     (let identity = strip raw in
      if CHR 0x40 \<in> set identity
      then filter (\<lambda>r. instance_of digest r = identity)
             (lookup_list (uv_by_key u) (before_last_at identity))
      else let found = lookup_list (uv_by_key u) identity in
           if length found = 1 then found else [])"

definition doc_order :: "universe \<Rightarrow> provision_record \<Rightarrow> int \<times> int \<times> string" where
  "doc_order u r =
     ((case pr_key r of ProvisionKey _ _ (Some n) \<Rightarrow> n | _ \<Rightarrow> 0),
      (case map_of (uv_units u) (pr_source_id r) of None \<Rightarrow> 0 | Some i \<Rightarrow> un_position i),
      pr_source_id r)"

section \<open>Closing the citations over that structure\<close>

definition group_limit :: nat where "group_limit = 16"

definition closure_limit :: nat where "closure_limit = 24"

type_synonym chosen = "(string \<times> coverage_entry) list"

text \<open>\<open>chosen.setdefault(instance, entry)\<close>: an entry already there stays.\<close>

definition admit :: "string \<Rightarrow> coverage_entry \<Rightarrow> chosen \<Rightarrow> chosen" where
  "admit i e ch = (if has_key ch i then ch else ch @ [(i, e)])"

definition admit_cited :: "(string \<Rightarrow> string) \<Rightarrow> provision_record list \<Rightarrow> chosen" where
  "admit_cited digest cited = fold (\<lambda>r. admit (instance_of digest r)
     \<lparr>ce_record = r, ce_origin = CITED, ce_coverage_reason = ''cited by the normative pass'',
      ce_source_relation = [], ce_originating = [], ce_parent = []\<rparr>) cited []"

record closing =
  cl_chosen :: chosen
  cl_ungrouped :: "string list"
  cl_complete :: bool
  cl_reasons :: "string list"

definition admit_member ::
  "(string \<Rightarrow> string) \<Rightarrow> provision_record \<Rightarrow> string \<Rightarrow> string \<Rightarrow> string \<Rightarrow> provision_record \<Rightarrow> chosen \<Rightarrow> chosen" where
  "admit_member digest r relation originating parent m = admit (instance_of digest m)
     \<lparr>ce_record = m, ce_origin = CLOSURE,
      ce_coverage_reason = key_str (pr_key m) @ '' is in the same '' @ parent @ '' as '' @ key_str (pr_key r),
      ce_source_relation = relation, ce_originating = originating, ce_parent = parent\<rparr>"

definition admit_named ::
  "(string \<Rightarrow> string) \<Rightarrow> provision_record \<Rightarrow> string \<Rightarrow> provision_record \<Rightarrow> chosen \<Rightarrow> chosen" where
  "admit_named digest r originating m = admit (instance_of digest m)
     \<lparr>ce_record = m, ce_origin = CLOSURE,
      ce_coverage_reason = key_str (pr_key r) @ '' names '' @ key_str (pr_key m),
      ce_source_relation = ''EXPLICIT_REFERENCE'', ce_originating = originating,
      ce_parent = key_str (pr_key r)\<rparr>"

definition close_group :: "(string \<Rightarrow> string) \<Rightarrow> universe \<Rightarrow> coverage_entry \<Rightarrow> closing \<Rightarrow> closing" where
  "close_group digest u e c =
     (let r = ce_record e;
          (relation, parent, members) = group u r;
          members = filter normative members
      in case relation of
           None \<Rightarrow> c\<lparr>cl_ungrouped := cl_ungrouped c @ [ce_instance digest e]\<rparr>
         | Some rel \<Rightarrow>
             if length members > group_limit
             then c\<lparr>cl_complete := False,
                    cl_reasons := cl_reasons c @ [parent @ '' has '' @ nat_str (length members)
                      @ '' normative members, over the limit of '' @ nat_str group_limit]\<rparr>
             else c\<lparr>cl_chosen := fold (admit_member digest r rel (ce_instance digest e) parent)
                      (sort_key (doc_order u) members) (cl_chosen c)\<rparr>)"

definition named_targets :: "(string \<Rightarrow> string list) \<Rightarrow> universe \<Rightarrow> provision_record \<Rightarrow> provision_record list" where
  "named_targets labels_in u r =
     filter (\<lambda>m. normative m \<and> declared m)
       (concat (map (lookup_list (uv_by_key u)) (labels_in (pr_text r))))"

definition close_entry :: "(string \<Rightarrow> string) \<Rightarrow> (string \<Rightarrow> string list) \<Rightarrow> universe \<Rightarrow>
    coverage_entry \<Rightarrow> closing \<Rightarrow> closing" where
  "close_entry digest labels_in u e c =
     (let c1 = close_group digest u e c
      in c1\<lparr>cl_chosen := fold (admit_named digest (ce_record e) (ce_instance digest e))
             (named_targets labels_in u (ce_record e)) (cl_chosen c1)\<rparr>)"

definition close :: "(string \<Rightarrow> string) \<Rightarrow> (string \<Rightarrow> string list) \<Rightarrow> provision_record list \<Rightarrow>
    universe \<Rightarrow> string list \<Rightarrow> coverage" where
  "close digest labels_in cited u retrieved =
     (let start = admit_cited digest cited;
          c0 = \<lparr>cl_chosen = start, cl_ungrouped = [], cl_complete = start \<noteq> [],
                cl_reasons = (if start = [] then [''the normative pass cited no provision''] else [])\<rparr>;
          c = fold (close_entry digest labels_in u) (dict_values start) c0;
          added = filter (\<lambda>e. ce_origin e = CLOSURE) (dict_values (cl_chosen c));
          keep = set (map (ce_instance digest) (take closure_limit added));
          over = length added > closure_limit
      in \<lparr>cv_retrieved = retrieved,
          cv_entries = dict_values
            (if over then filter (\<lambda>(k, e). ce_origin e = CITED \<or> k \<in> keep) (cl_chosen c)
             else cl_chosen c),
          cv_complete = cl_complete c \<and> \<not> over,
          cv_incomplete_reason = join ''; '' (cl_reasons c @
            (if over then [''structural closure would add '' @ nat_str (length added)
                           @ '' provisions, over the limit of '' @ nat_str closure_limit] else [])),
          cv_ungrouped = cl_ungrouped c\<rparr>)"

section \<open>Applicability\<close>

datatype applicability_status = APPLICABLE | NOT_APPLICABLE | UNRESOLVED

record applicability =
  ap_status :: applicability_status
  ap_basis :: string
  ap_advisory :: string

definition named_by :: "(string \<Rightarrow> string \<Rightarrow> bool) \<Rightarrow> (string \<Rightarrow> string \<Rightarrow> bool) \<Rightarrow> string \<Rightarrow>
    provision_record \<Rightarrow> string" where
  "named_by names_label names_section objective r =
     (if (case pr_key r of ProvisionKey _ _ (Some _) \<Rightarrow> names_label objective (key_str (pr_key r)) | _ \<Rightarrow> False)
      then ''the request names '' @ key_str (pr_key r)
      else if key_section (pr_key r) \<noteq> [] \<and> names_section objective (key_section (pr_key r))
      then ''the request names '' @ section_sign @ key_section (pr_key r)
      else [])"

text \<open>
  \<open>decls\<close> maps an instance to the project's statements about it, each a status, a reason and
  an authority; \<open>bound\<close> maps an instance to the identifiers of the checks bound to it.
\<close>

definition decide_applicability ::
  "(string \<Rightarrow> string) \<Rightarrow> (string \<Rightarrow> string \<Rightarrow> bool) \<Rightarrow> (string \<Rightarrow> string \<Rightarrow> bool) \<Rightarrow> coverage_entry \<Rightarrow> string \<Rightarrow>
   (string \<times> (applicability_status \<times> string \<times> string) list) list \<Rightarrow> (string \<times> string list) list \<Rightarrow>
   applicability" where
  "decide_applicability digest names_label names_section e objective decls bound =
     (let advisory = (if ce_origin e = CITED then ''POSSIBLY_APPLICABLE: cited by the normative pass'' else []);
          stated = lookup_list decls (ce_instance digest e);
          statements = remdups (map fst stated);
          basis = (case stated of [] \<Rightarrow> [] | (_, why, authority) # _ \<Rightarrow> authority @ '': '' @ why);
          checks = lookup_list bound (ce_instance digest e);
          named = named_by names_label names_section objective (ce_record e)
      in if length statements > 1
         then \<lparr>ap_status = UNRESOLVED,
               ap_basis = ''the project declares it both applicable and not applicable'', ap_advisory = advisory\<rparr>
         else if statements = [NOT_APPLICABLE]
         then \<lparr>ap_status = NOT_APPLICABLE, ap_basis = basis, ap_advisory = advisory\<rparr>
         else if statements = [APPLICABLE]
         then \<lparr>ap_status = APPLICABLE, ap_basis = basis, ap_advisory = advisory\<rparr>
         else if checks \<noteq> []
         then \<lparr>ap_status = APPLICABLE,
               ap_basis = ''the project binds a conformance check to it ('' @ join '', '' (sort checks) @ '')'',
               ap_advisory = advisory\<rparr>
         else if named \<noteq> []
         then \<lparr>ap_status = APPLICABLE, ap_basis = named, ap_advisory = advisory\<rparr>
         else \<lparr>ap_status = UNRESOLVED,
               ap_basis = ''nothing deterministic establishes that it applies to this change'',
               ap_advisory = advisory\<rparr>)"

end
