(* ===== verification/Normative_Verdict.thy ===== *)
theory Normative_Verdict
  imports Normative_Coverage
begin

text \<open>
  From provisions to a verdict: the constraint packet
  (\<open>client/normative/normative_constraints.py\<close>), the evidence providers
  (\<open>client/normative/normative_evidence.py\<close>), the adjudication of each constraint and the
  composite status a bound change ends with (\<open>client/normative/mixed_orchestration.py\<close>).

  Left open, as arguments: the readers that pick phrases out of a provision's text, the
  source predicate \<open>evaluate\<close>, the confined runner of project checks and the fingerprint of
  the source tree.  The runner and the fingerprint act on a world of their own type; a
  runner returns the world as it leaves it.
\<close>

section \<open>Constraints\<close>

datatype modality = SHALL | SHOULD | MAY

fun modality_value :: "modality \<Rightarrow> string" where
  "modality_value SHALL = ''SHALL''"
| "modality_value SHOULD = ''SHOULD''"
| "modality_value MAY = ''MAY''"

fun modality_of_force :: "int option \<Rightarrow> modality option" where
  "modality_of_force (Some f) =
     (if f = 3 then Some SHALL else if f = 2 then Some SHOULD else if f = 1 then Some MAY else None)"
| "modality_of_force None = None"

record norm_constraint =
  nc_id :: string
  nc_provision :: string
  nc_instance_id :: string
  nc_source_id :: string
  nc_page :: "int option"
  nc_modality :: modality
  nc_requirement :: string
  nc_condition :: string
  nc_cardinality :: "string list"
  nc_values :: "string list"
  nc_identifiers :: "string list"
  nc_resolved :: bool
  nc_unresolved_reason :: string
  nc_origin :: origin
  nc_coverage_reason :: string
  nc_source_relation :: string
  nc_originating :: string
  nc_applicability :: applicability_status
  nc_applicability_basis :: string
  nc_applicability_advisory :: string

record constraint_set =
  ns_set_id :: string
  ns_standard_id :: string
  ns_revision :: string
  ns_objective :: string
  ns_constraints :: "norm_constraint list"
  ns_coverage_complete :: bool
  ns_coverage_reason :: string
  ns_retrieved :: nat

definition implication :: "norm_constraint \<Rightarrow> string" where
  "implication c =
     (if \<not> nc_resolved c
      then ''Unresolved in the standard as stored: do not guess an implementation for it.''
      else (case nc_modality c of
              SHALL \<Rightarrow> ''Required: the implementation must do what the provision states.''
            | SHOULD \<Rightarrow> ''Recommended: follow it unless there is a stated reason not to; it is not a hard requirement.''
            | MAY \<Rightarrow> ''Permitted, not required: the implementation must not make it mandatory, and must still work when it is absent or not done.'')
           @ (if nc_condition c \<noteq> []
              then '' It applies only under its condition ('' @ nc_condition c @ ''); do not apply it unconditionally.''
              else [])
           @ (if nc_cardinality c \<noteq> []
              then '' Keep the count exactly as stated: '' @ join ''; '' (nc_cardinality c) @ ''.'' else []))"

definition packet_get :: "constraint_set \<Rightarrow> string \<Rightarrow> norm_constraint option" where
  "packet_get p i = find (\<lambda>c. nc_id c = i) (ns_constraints p)"

section \<open>Building the packet\<close>

text \<open>The phrase readers: family members, trigger clause, counts, values, identifiers.\<close>

record readers =
  rd_family :: "string \<Rightarrow> string list"
  rd_trigger :: "string \<Rightarrow> string"
  rd_cardinality :: "string \<Rightarrow> string list"
  rd_values :: "string \<Rightarrow> string list"
  rd_identifiers :: "string \<Rightarrow> string list"

definition unresolved_why :: "provision_record \<Rightarrow> string" where
  "unresolved_why r =
     (if pr_needs_review r then ''the store marks this provision as needing review''
      else if upper (pr_declaration_status r) = ''CANDIDATE''
      then ''the store could not establish this as a declared provision''
      else [])"

definition constraint_from :: "(string \<Rightarrow> string) \<Rightarrow> readers \<Rightarrow> provision_record \<Rightarrow> string \<Rightarrow> norm_constraint option" where
  "constraint_from digest rd r cid =
     (let text = squeeze (pr_text r) in
      case modality_of_force (pr_effective_force r) of
        None \<Rightarrow> None
      | Some m \<Rightarrow>
        if text = [] then None
        else Some \<lparr>nc_id = cid, nc_provision = key_str (pr_key r),
               nc_instance_id = instance_of digest r, nc_source_id = pr_source_id r,
               nc_page = pr_page r, nc_modality = m, nc_requirement = take 400 text,
               nc_condition = rd_trigger rd text, nc_cardinality = rd_cardinality rd text,
               nc_values = rd_values rd text,
               nc_identifiers = take 8 (dedup (rd_family rd text @ rd_identifiers rd text)),
               nc_resolved = (unresolved_why r = []), nc_unresolved_reason = unresolved_why r,
               nc_origin = CITED, nc_coverage_reason = [], nc_source_relation = [],
               nc_originating = [], nc_applicability = UNRESOLVED, nc_applicability_basis = [],
               nc_applicability_advisory = []\<rparr>)"

definition not_assessed :: applicability where
  "not_assessed = \<lparr>ap_status = UNRESOLVED, ap_basis = ''not assessed'', ap_advisory = []\<rparr>"

definition decided :: "(string \<Rightarrow> string) \<Rightarrow> (string \<times> applicability) list \<Rightarrow> coverage_entry \<Rightarrow>
    coverage_entry \<times> applicability" where
  "decided digest decisions e =
     (e, case map_of decisions (ce_instance digest e) of None \<Rightarrow> not_assessed | Some d \<Rightarrow> d)"

fun carry :: "(string \<Rightarrow> string) \<Rightarrow> readers \<Rightarrow> (coverage_entry \<times> applicability) list \<Rightarrow>
    norm_constraint list \<Rightarrow> norm_constraint list" where
  "carry digest rd [] cs = cs"
| "carry digest rd ((e, d) # rest) cs =
     (case constraint_from digest rd (ce_record e) (''C'' @ nat_str (length cs + 1)) of
        None \<Rightarrow> carry digest rd rest cs
      | Some c \<Rightarrow> carry digest rd rest (cs @
          [c\<lparr>nc_origin := ce_origin e, nc_coverage_reason := ce_coverage_reason e,
             nc_source_relation := ce_source_relation e, nc_originating := ce_originating e,
             nc_applicability := ap_status d, nc_applicability_basis := ap_basis d,
             nc_applicability_advisory := ap_advisory d\<rparr>]))"

definition from_coverage :: "(string \<Rightarrow> string) \<Rightarrow> readers \<Rightarrow> coverage \<Rightarrow> (string \<times> applicability) list \<Rightarrow>
    string \<Rightarrow> string \<Rightarrow> string \<Rightarrow> nat \<Rightarrow> constraint_set" where
  "from_coverage digest rd cv decisions standard_id revision objective limit =
     (let active = filter (\<lambda>ed. ap_status (snd ed) \<noteq> NOT_APPLICABLE)
                     (map (decided digest decisions) (cv_entries cv));
          over = length active > limit;
          reasons = (if cv_incomplete_reason cv \<noteq> [] then [cv_incomplete_reason cv] else []) @
            (if over then [nat_str (length active) @ '' provisions apply or may apply; the packet carries ''
                           @ nat_str limit] else []);
          cs = carry digest rd (take limit active) []
      in \<lparr>ns_set_id = ''ncs-'' @ take 16 (digest (join [CHR 0x0A] ([standard_id, revision] @
              sort (map (\<lambda>c. if nc_instance_id c \<noteq> [] then nc_instance_id c else nc_provision c) cs)))),
          ns_standard_id = standard_id, ns_revision = revision, ns_objective = objective,
          ns_constraints = cs, ns_coverage_complete = (cv_complete cv \<and> \<not> over),
          ns_coverage_reason = join ''; '' reasons, ns_retrieved = length (cv_retrieved cv)\<rparr>)"

section \<open>Evidence\<close>

datatype norm_status = SATISFIED | VIOLATED | NOT_DEMONSTRATED | NOT_APPLICABLE_STATUS | AMBIGUOUS | EVIDENCE_CONFLICT

type_synonym source_fact = "string \<times> int option \<times> string"

type_synonym files = "(string \<times> string) list"

record evidence =
  ne_constraint_id :: string
  ne_provider :: string
  ne_kind :: string
  ne_status :: norm_status
  ne_decisive :: bool
  ne_source_epoch :: string
  ne_reason :: string
  ne_facts :: "source_fact list"

definition ne_authority :: "evidence \<Rightarrow> string" where
  "ne_authority e = ne_provider e @ '':'' @ ne_kind e"

text \<open>A predicate's result always quotes at least one place in the source.\<close>

record predicate_result =
  pd_predicate :: string
  pd_expected :: string
  pd_observed :: string
  pd_holds :: bool
  pd_fact :: source_fact
  pd_more_facts :: "source_fact list"

definition line_str :: "int option \<Rightarrow> string" where
  "line_str l = (case l of None \<Rightarrow> ''None'' | Some n \<Rightarrow> int_str n)"

definition predicate_evidence_of :: "string \<Rightarrow> norm_constraint \<Rightarrow> predicate_result \<Rightarrow> evidence" where
  "predicate_evidence_of epoch c r =
     (let (path, line, excerpt) = pd_fact r in
      \<lparr>ne_constraint_id = nc_id c, ne_provider = ''predicate'', ne_kind = pd_predicate r,
       ne_status = (if pd_holds r then SATISFIED else VIOLATED), ne_decisive = True,
       ne_source_epoch = epoch,
       ne_reason = pd_predicate r @ '': the provision states '' @ pd_expected r @
         '', the final source gives '' @ pd_observed r @ '' ('' @ path @ '':'' @ line_str line @
         '' `'' @ take 80 excerpt @ ''`)'',
       ne_facts = pd_fact r # pd_more_facts r\<rparr>)"

definition predicate_evidence :: "(norm_constraint \<Rightarrow> files \<Rightarrow> predicate_result option) \<Rightarrow>
    constraint_set \<Rightarrow> files \<Rightarrow> string \<Rightarrow> evidence list" where
  "predicate_evidence evaluate p fs epoch =
     concat (map (\<lambda>c. if \<not> nc_resolved c then []
                      else case evaluate c fs of None \<Rightarrow> [] | Some r \<Rightarrow> [predicate_evidence_of epoch c r])
       (ns_constraints p))"

section \<open>Project checks bound to provisions\<close>

datatype check_semantics = PASS_ESTABLISHES_SATISFIED | PASS_AND_FAIL_DECISIVE

record check_binding =
  cb_binding_id :: string
  cb_standard_id :: string
  cb_revision :: string
  cb_provisions :: "string list"
  cb_check_kind :: string
  cb_command :: string
  cb_semantics :: check_semantics
  cb_scope :: string
  cb_authority :: string
  cb_enabled :: bool

record check_run =
  cr_binding_id :: string
  cr_constraint_ids :: "string list"
  cr_source_epoch :: string
  cr_command :: string
  cr_status :: string
  cr_exit_code :: "int option"
  cr_output_sha256 :: string
  cr_output_tail :: string

text \<open>
  A runner executes one command: it raises (\<open>Inl\<close>, the exception as text) or gives a status,
  an exit code and the output.
\<close>

type_synonym 'w runner = "string \<Rightarrow> 'w \<Rightarrow> 'w \<times> (string + string \<times> int option \<times> string)"

definition execute_check :: "'w runner option \<Rightarrow> string \<Rightarrow> 'w \<Rightarrow> 'w \<times> string \<times> int option \<times> string" where
  "execute_check runner command w =
     (case runner of
        None \<Rightarrow> (w, ''NOT_RUN'', None, ''no confined runner for project checks'')
      | Some run \<Rightarrow> (case run command w of
          (w', Inl err) \<Rightarrow> (w', ''ERROR'', None, err)
        | (w', Inr r) \<Rightarrow> (w', r)))"

definition run_check :: "(string \<Rightarrow> string) \<Rightarrow> ('w \<Rightarrow> string) \<Rightarrow> 'w runner option \<Rightarrow> check_binding \<Rightarrow>
    string list \<Rightarrow> 'w \<Rightarrow> 'w \<times> check_run" where
  "run_check digest fingerprint runner b ids w =
     (let before = fingerprint w;
          (w1, status, code, output) = execute_check runner (cb_command b) w;
          after = fingerprint w1
      in (w1, \<lparr>cr_binding_id = cb_binding_id b, cr_constraint_ids = ids,
               cr_source_epoch = (if before = after then before else ''changed-by-check:'' @ after),
               cr_command = cb_command b, cr_status = status, cr_exit_code = code,
               cr_output_sha256 = digest output, cr_output_tail = last_chars 600 output\<rparr>))"

definition check_evidence_of :: "check_binding \<Rightarrow> check_run \<Rightarrow> norm_constraint \<Rightarrow> evidence" where
  "check_evidence_of b run c =
     (let head = ''project check '' @ cb_binding_id b @ '' (`'' @ take 80 (cb_command b) @ ''`)'';
          mk = (\<lambda>status decisive why.
            \<lparr>ne_constraint_id = nc_id c, ne_provider = ''check'', ne_kind = cb_binding_id b,
             ne_status = status, ne_decisive = decisive, ne_source_epoch = cr_source_epoch run,
             ne_reason = head @ why, ne_facts = []\<rparr>)
      in if cr_status run = ''PASSED'' then mk SATISFIED True '' passed''
         else if cr_status run = ''FAILED'' \<and> cb_semantics b = PASS_AND_FAIL_DECISIVE
         then mk VIOLATED True ('' failed (exit '' @ line_str (cr_exit_code run)
                                @ ''); its binding makes a failure decisive'')
         else mk NOT_DEMONSTRATED False ('' '' @
           (if cr_status run = ''FAILED''
            then ''failed (exit '' @ line_str (cr_exit_code run)
                 @ ''), and its binding does not make a failure decisive''
            else if cr_status run = ''ERROR'' then ''could not complete (infrastructure error)''
            else if cr_status run = ''NOT_RUN'' then ''did not run''
            else lower (cr_status run))))"

fun check_evidence :: "(string \<Rightarrow> string) \<Rightarrow> ('w \<Rightarrow> string) \<Rightarrow> 'w runner option \<Rightarrow>
    (check_binding \<Rightarrow> norm_constraint list) \<Rightarrow> check_binding list \<Rightarrow> 'w \<Rightarrow>
    'w \<times> evidence list \<times> check_run list" where
  "check_evidence digest fingerprint runner bound [] w = (w, [], [])"
| "check_evidence digest fingerprint runner bound (b # bs) w =
     (if \<not> cb_enabled b \<or> bound b = [] then check_evidence digest fingerprint runner bound bs w
      else let (w1, run) = run_check digest fingerprint runner b (map nc_id (bound b)) w;
               (w2, found, runs) = check_evidence digest fingerprint runner bound bs w1
           in (w2, map (check_evidence_of b run) (bound b) @ found, run # runs))"

section \<open>Adjudication\<close>

datatype candidate_kind =
    POSSIBLE_SATISFACTION | POSSIBLE_VIOLATION | POSSIBLE_NOT_APPLICABLE | POSSIBLE_AMBIGUITY | NO_FINDING

fun candidate_phrase :: "candidate_kind \<Rightarrow> string" where
  "candidate_phrase POSSIBLE_SATISFACTION = ''satisfaction''"
| "candidate_phrase POSSIBLE_VIOLATION = ''violation''"
| "candidate_phrase POSSIBLE_NOT_APPLICABLE = ''not applicable''"
| "candidate_phrase POSSIBLE_AMBIGUITY = ''ambiguity''"
| "candidate_phrase NO_FINDING = ''no finding''"

record candidate_finding =
  cf_constraint_id :: string
  cf_candidate :: candidate_kind
  cf_interpretation :: string
  cf_facts :: "source_fact list"
  cf_ungrounded :: nat
  cf_advisory :: string

definition no_candidate :: "string \<Rightarrow> candidate_finding" where
  "no_candidate i = \<lparr>cf_constraint_id = i, cf_candidate = NO_FINDING, cf_interpretation = [],
     cf_facts = [], cf_ungrounded = 0, cf_advisory = []\<rparr>"

record constraint_status =
  cs_constraint_id :: string
  cs_status :: norm_status
  cs_why :: string
  cs_evidence :: "source_fact list"
  cs_authority :: string
  cs_candidate :: candidate_finding
  cs_predicate :: "evidence option"

definition candidate_note :: "candidate_finding \<Rightarrow> string list" where
  "candidate_note c =
     (if cf_candidate c = NO_FINDING then []
      else [''not independently established (the model check found a possible ''
            @ candidate_phrase (cf_candidate c)
            @ (if cf_interpretation c \<noteq> [] then '': '' @ take 160 (cf_interpretation c) else [])
            @ '')''])"

definition adjudicate_one :: "(string \<times> candidate_finding) list \<Rightarrow> evidence list \<Rightarrow> string \<Rightarrow>
    norm_constraint \<Rightarrow> constraint_status" where
  "adjudicate_one candidates found_all epoch c =
     (let candidate = (case map_of candidates (nc_id c) of None \<Rightarrow> no_candidate (nc_id c) | Some x \<Rightarrow> x) in
      if \<not> nc_resolved c
      then \<lparr>cs_constraint_id = nc_id c, cs_status = AMBIGUOUS, cs_why = nc_unresolved_reason c,
            cs_evidence = [], cs_authority = ''packet'', cs_candidate = candidate, cs_predicate = None\<rparr>
      else
        let found = filter (\<lambda>e. ne_constraint_id e = nc_id c) found_all;
            fresh = filter (\<lambda>e. ne_decisive e \<and> ne_source_epoch e = epoch) found;
            stale = filter (\<lambda>e. ne_decisive e \<and> ne_source_epoch e \<noteq> epoch) found;
            said = set (map ne_status fresh);
            facts = concat (map ne_facts fresh);
            authority = join ''+'' (sort (remdups (map ne_authority fresh)));
            why = join ''; '' (map ne_reason fresh);
            predicate = find (\<lambda>e. ne_provider e = ''predicate'') fresh
        in if said = {SATISFIED} \<or> said = {VIOLATED}
           then \<lparr>cs_constraint_id = nc_id c,
                 cs_status = (if said = {SATISFIED} then SATISFIED else VIOLATED),
                 cs_why = why, cs_evidence = facts, cs_authority = authority,
                 cs_candidate = candidate, cs_predicate = predicate\<rparr>
           else if length (remdups (map ne_status fresh)) > 1
           then \<lparr>cs_constraint_id = nc_id c, cs_status = EVIDENCE_CONFLICT,
                 cs_why = ''authoritative evidence disagrees: '' @ why, cs_evidence = facts,
                 cs_authority = authority, cs_candidate = candidate, cs_predicate = predicate\<rparr>
           else let notes = map ne_reason (filter (\<lambda>e. \<not> ne_decisive e) found)
                      @ map (\<lambda>e. ne_reason e @ '' -- on an earlier source state, stale'') stale
                      @ candidate_note candidate
                in \<lparr>cs_constraint_id = nc_id c, cs_status = NOT_DEMONSTRATED,
                    cs_why = (if join ''; '' notes = []
                              then ''nothing in the final source establishes it either way''
                              else join ''; '' notes),
                    cs_evidence = cf_facts candidate, cs_authority = ''none'',
                    cs_candidate = candidate, cs_predicate = None\<rparr>)"

definition adjudicate :: "constraint_set \<Rightarrow> (string \<times> candidate_finding) list \<Rightarrow> evidence list \<Rightarrow> string \<Rightarrow>
    constraint_status list" where
  "adjudicate p candidates found epoch = map (adjudicate_one candidates found epoch) (ns_constraints p)"

text \<open>\<open>_decisive\<close>: some part of the authority names a predicate or a check.\<close>

definition decisive :: "constraint_status \<Rightarrow> bool" where
  "decisive s \<longleftrightarrow> list_ex (\<lambda>part. hd (split_on CHR 0x3A part) \<in> {''predicate'', ''check''})
                     (split_on CHR 0x2B (cs_authority s))"

definition repairable :: "constraint_set \<Rightarrow> constraint_status list \<Rightarrow> constraint_status list" where
  "repairable p statuses = filter (\<lambda>s. cs_status s = VIOLATED \<and> decisive s \<and>
     (case packet_get p (cs_constraint_id s) of
        None \<Rightarrow> False
      | Some c \<Rightarrow> nc_modality c = SHALL \<and> nc_applicability c = APPLICABLE)) statuses"

text \<open>The status a dictionary of statuses by identifier gives: the last one recorded.\<close>

definition status_of :: "constraint_status list \<Rightarrow> string \<Rightarrow> norm_status" where
  "status_of statuses i =
     (case find (\<lambda>s. cs_constraint_id s = i) (rev statuses) of
        None \<Rightarrow> NOT_DEMONSTRATED | Some s \<Rightarrow> cs_status s)"

definition required_of :: "constraint_set \<Rightarrow> constraint_status list \<Rightarrow> (norm_constraint \<times> norm_status) list" where
  "required_of p statuses =
     map (\<lambda>c. (c, status_of statuses (nc_id c)))
       (filter (\<lambda>c. nc_modality c = SHALL \<and> nc_applicability c \<noteq> NOT_APPLICABLE) (ns_constraints p))"

definition normative_status :: "constraint_set \<Rightarrow> constraint_status list \<Rightarrow> norm_status" where
  "normative_status p statuses =
     (let required = required_of p statuses in
      if list_ex (\<lambda>(c, st). nc_applicability c = APPLICABLE \<and> st = VIOLATED) required then VIOLATED
      else if list_ex (\<lambda>(c, st). st = EVIDENCE_CONFLICT) required then EVIDENCE_CONFLICT
      else if list_ex (\<lambda>(c, st). nc_applicability c = APPLICABLE \<and> st = AMBIGUOUS) required then AMBIGUOUS
      else if ns_coverage_complete p \<and> required \<noteq> []
              \<and> list_all (\<lambda>(c, st). nc_applicability c = APPLICABLE \<and> st = SATISFIED) required
      then SATISFIED
      else NOT_DEMONSTRATED)"

definition count_state :: "constraint_status list \<Rightarrow> norm_status \<Rightarrow> norm_constraint list \<Rightarrow> int" where
  "count_state statuses st cs = int (length (filter (\<lambda>c. status_of statuses (nc_id c) = st) cs))"

definition coverage_report :: "constraint_set \<Rightarrow> constraint_status list \<Rightarrow> int \<Rightarrow> json" where
  "coverage_report p statuses excluded =
     (let required = filter (\<lambda>c. nc_modality c = SHALL) (ns_constraints p);
          applicable = filter (\<lambda>c. nc_applicability c = APPLICABLE) required;
          num = (\<lambda>xs. JInt (int (length xs)))
      in JObj
       [(''coverage'', JStr (if ns_coverage_complete p then ''COMPLETE'' else ''INCOMPLETE'')),
        (''coverage_reason'', JStr (ns_coverage_reason p)),
        (''cited'', num (filter (\<lambda>c. nc_origin c = CITED) (ns_constraints p))),
        (''closure_added'', num (filter (\<lambda>c. nc_origin c = CLOSURE) (ns_constraints p))),
        (''not_applicable_excluded'', JInt excluded),
        (''required'', num required), (''required_applicable'', num applicable),
        (''satisfied'', JInt (count_state statuses SATISFIED applicable)),
        (''violated'', JInt (count_state statuses VIOLATED applicable)),
        (''not_demonstrated'', JInt (count_state statuses NOT_DEMONSTRATED applicable)),
        (''ambiguous'', JInt (count_state statuses AMBIGUOUS applicable)),
        (''conflicts'', JInt (count_state statuses EVIDENCE_CONFLICT required)),
        (''unresolved_applicability'',
           num (filter (\<lambda>c. nc_applicability c = UNRESOLVED) required))])"

definition composite :: "string \<Rightarrow> norm_status \<Rightarrow> string" where
  "composite implementation normative_verdict =
     (if normative_verdict = VIOLATED then ''NOT COMPLIANT''
      else if normative_verdict = EVIDENCE_CONFLICT then ''EVIDENCE CONFLICT''
      else if normative_verdict = AMBIGUOUS then ''NORMATIVE AMBIGUITY''
      else if normative_verdict = NOT_DEMONSTRATED then ''COMPLIANCE NOT DEMONSTRATED''
      else if implementation = ''VERIFIED'' then ''VERIFIED + COMPLIANT''
      else if implementation = ''NO_CHANGE'' then ''COMPLIANT, NO CHANGE MADE''
      else ''COMPLIANT BUT IMPLEMENTATION UNVERIFIED'')"

section \<open>The check of the final source\<close>

text \<open>
  \<open>MixedOrchestrator._check\<close>: both providers on the tree as it stands, then adjudication.
  \<open>candidates\<close> is whatever the model's answer was read as.  The result is the statuses, the
  fingerprint they hold for and the runs, and the world the checks leave.
\<close>

definition bound_constraints :: "constraint_set \<Rightarrow> (string \<times> string list) list \<Rightarrow> check_binding \<Rightarrow> norm_constraint list" where
  "bound_constraints p bound_instances b =
     filter (\<lambda>c. nc_instance_id c \<in> set (lookup_list bound_instances (cb_binding_id b))) (ns_constraints p)"

definition check_source :: "(string \<Rightarrow> string) \<Rightarrow> ('w \<Rightarrow> string) \<Rightarrow> ('w \<Rightarrow> files) \<Rightarrow>
    (norm_constraint \<Rightarrow> files \<Rightarrow> predicate_result option) \<Rightarrow> 'w runner option \<Rightarrow> check_binding list \<Rightarrow>
    (string \<times> string list) list \<Rightarrow> constraint_set \<Rightarrow> (string \<times> candidate_finding) list \<Rightarrow> 'w \<Rightarrow>
    (constraint_status list \<times> string \<times> check_run list) \<times> 'w" where
  "check_source digest fingerprint final_files evaluate runner bindings bound_instances p candidates w =
     (let epoch = fingerprint w;
          fs = final_files w
      in if ns_constraints p = [] then (([], epoch, []), w)
         else let found = predicate_evidence evaluate p fs epoch;
                  (w1, checks, runs) =
                    check_evidence digest fingerprint runner (bound_constraints p bound_instances) bindings w
              in ((adjudicate p candidates (found @ checks) epoch, epoch, runs), w1))"

text \<open>
  The end of \<open>MixedOrchestrator.run\<close>: the verdict stands only if the source still is what was
  checked.
\<close>

definition final_normative :: "constraint_set \<Rightarrow> constraint_status list \<Rightarrow> string \<Rightarrow> string \<Rightarrow> norm_status" where
  "final_normative p statuses checked now =
     (if checked \<noteq> now then NOT_DEMONSTRATED else normative_status p statuses)"

definition final_verdict :: "string \<Rightarrow> constraint_set \<Rightarrow> constraint_status list \<Rightarrow> string \<Rightarrow> string \<Rightarrow> string" where
  "final_verdict implementation p statuses checked now =
     composite implementation (final_normative p statuses checked now)"

end
