(* ===== verification/Normative_Props.thy ===== *)
theory Normative_Props
  imports Normative_Verdict
begin

text \<open>
  What a compliance verdict rests on.  The model's own reading of the source decides
  nothing; a change is reported compliant only on fresh, decisive evidence for every
  requirement of a completely covered packet; an established contradiction is never
  reported as compliance; and a coverage set that calls itself complete is closed.
\<close>

section \<open>The packet\<close>

lemma constraint_from_id: "constraint_from digest rd r i = Some c \<Longrightarrow> nc_id c = i"
  by (auto simp: constraint_from_def Let_def split: option.splits if_splits)

definition numbered :: "norm_constraint list \<Rightarrow> bool" where
  "numbered cs \<longleftrightarrow> map nc_id cs = map (\<lambda>i. ''C'' @ nat_str (i + 1)) [0..<length cs]"

lemma carry_numbered: "numbered cs \<Longrightarrow> numbered (carry digest rd eds cs)"
proof (induction digest rd eds cs rule: carry.induct)
  case (2 digest rd e d rest cs)
  then show ?case
    by (auto simp: numbered_def split: option.splits dest: constraint_from_id)
qed simp

lemma numbered_distinct: "numbered cs \<Longrightarrow> distinct (map nc_id cs)"
  by (auto simp: numbered_def distinct_map inj_on_def dest!: nat_str_inject)

lemma packet_distinct:
  "distinct (map nc_id (ns_constraints (from_coverage digest rd cv decisions sid rvn obj limit)))"
  unfolding from_coverage_def Let_def
  by (auto intro!: numbered_distinct carry_numbered simp: numbered_def)

lemma carry_applicable:
  assumes "c \<in> set (carry digest rd eds cs)" "\<forall>ed \<in> set eds. ap_status (snd ed) \<noteq> NOT_APPLICABLE"
    "\<forall>c \<in> set cs. nc_applicability c \<noteq> NOT_APPLICABLE"
  shows "nc_applicability c \<noteq> NOT_APPLICABLE"
  using assms
proof (induction digest rd eds cs rule: carry.induct)
  case (2 digest rd e d rest cs)
  then show ?case by (auto split: option.splits)
qed auto

lemma packet_applicable:
  assumes "c \<in> set (ns_constraints (from_coverage digest rd cv decisions sid rvn obj limit))"
  shows "nc_applicability c \<noteq> NOT_APPLICABLE"
proof -
  let ?active = "filter (\<lambda>ed. ap_status (snd ed) \<noteq> NOT_APPLICABLE)
      (map (decided digest decisions) (cv_entries cv))"
  from assms have "c \<in> set (carry digest rd (take limit ?active) [])"
    by (simp add: from_coverage_def Let_def)
  then show ?thesis by (rule carry_applicable) (auto dest: in_set_takeD)
qed

lemma packet_complete:
  "ns_coverage_complete (from_coverage digest rd cv decisions sid rvn obj limit) \<Longrightarrow> cv_complete cv"
  by (simp add: from_coverage_def Let_def)

section \<open>One constraint\<close>

lemma adjudicate_id [simp]: "cs_constraint_id (adjudicate_one cands found epoch c) = nc_id c"
  by (simp add: adjudicate_one_def Let_def)

abbreviation fresh_on :: "string \<Rightarrow> norm_constraint \<Rightarrow> evidence \<Rightarrow> bool" where
  "fresh_on epoch c e \<equiv> ne_constraint_id e = nc_id c \<and> ne_decisive e \<and> ne_source_epoch e = epoch"

definition fresh_evidence :: "evidence list \<Rightarrow> string \<Rightarrow> norm_constraint \<Rightarrow> evidence list" where
  "fresh_evidence found epoch c = filter (\<lambda>e. ne_decisive e \<and> ne_source_epoch e = epoch)
     (filter (\<lambda>e. ne_constraint_id e = nc_id c) found)"

lemma fresh_evidence_set: "e \<in> set (fresh_evidence found epoch c) \<longleftrightarrow> e \<in> set found \<and> fresh_on epoch c e"
  by (auto simp: fresh_evidence_def)

lemma adjudicate_status:
  "cs_status (adjudicate_one cands found epoch c) =
     (if \<not> nc_resolved c then AMBIGUOUS
      else let said = set (map ne_status (fresh_evidence found epoch c)) in
        if said = {SATISFIED} then SATISFIED else if said = {VIOLATED} then VIOLATED
        else if length (remdups (map ne_status (fresh_evidence found epoch c))) > 1
        then EVIDENCE_CONFLICT else NOT_DEMONSTRATED)"
  by (simp add: adjudicate_one_def Let_def fresh_evidence_def del: set_map)

lemma adjudicate_authority:
  "cs_authority (adjudicate_one cands found epoch c) =
     (if \<not> nc_resolved c then ''packet''
      else let said = set (map ne_status (fresh_evidence found epoch c)) in
        if said = {SATISFIED} \<or> said = {VIOLATED}
           \<or> length (remdups (map ne_status (fresh_evidence found epoch c))) > 1
        then join ''+'' (sort (remdups (map ne_authority (fresh_evidence found epoch c)))) else ''none'')"
  by (simp add: adjudicate_one_def Let_def fresh_evidence_def del: set_map)

lemma image_singleton: "f ` A = {x} \<longleftrightarrow> (\<exists>a. a \<in> A) \<and> (\<forall>a. a \<in> A \<longrightarrow> f a = x)"
  by auto

lemma adjudicate_satisfied:
  "cs_status (adjudicate_one cands found epoch c) = SATISFIED \<longleftrightarrow>
     nc_resolved c \<and> (\<exists>e \<in> set found. fresh_on epoch c e) \<and>
     (\<forall>e \<in> set found. fresh_on epoch c e \<longrightarrow> ne_status e = SATISFIED)"
proof -
  have "cs_status (adjudicate_one cands found epoch c) = SATISFIED \<longleftrightarrow>
      nc_resolved c \<and> set (map ne_status (fresh_evidence found epoch c)) = {SATISFIED}"
    unfolding adjudicate_status Let_def by (simp del: set_map)
  then show ?thesis by (simp only: set_map image_singleton fresh_evidence_set) blast
qed

lemma adjudicate_violated:
  "cs_status (adjudicate_one cands found epoch c) = VIOLATED \<longleftrightarrow>
     nc_resolved c \<and> (\<exists>e \<in> set found. fresh_on epoch c e) \<and>
     (\<forall>e \<in> set found. fresh_on epoch c e \<longrightarrow> ne_status e = VIOLATED)"
proof -
  have "cs_status (adjudicate_one cands found epoch c) = VIOLATED \<longleftrightarrow>
      nc_resolved c \<and> set (map ne_status (fresh_evidence found epoch c)) = {VIOLATED}"
    unfolding adjudicate_status Let_def by (auto simp del: set_map)
  then show ?thesis by (simp only: set_map image_singleton fresh_evidence_set) blast
qed

lemma remdups_two: "x \<in> set xs \<Longrightarrow> y \<in> set xs \<Longrightarrow> x \<noteq> y \<Longrightarrow> length (remdups xs) > 1"
  using card_mono [of "set xs" "{x, y}"] by (simp add: length_remdups_card_conv)

lemma adjudicate_contradicted:
  assumes "e \<in> set found" "fresh_on epoch c e" "ne_status e = VIOLATED" "nc_resolved c"
  shows "cs_status (adjudicate_one cands found epoch c) \<in> {VIOLATED, EVIDENCE_CONFLICT}"
proof (cases "\<forall>e \<in> set found. fresh_on epoch c e \<longrightarrow> ne_status e = VIOLATED")
  case True
  with assms show ?thesis using adjudicate_violated by blast
next
  case False
  then obtain f where f: "f \<in> set found" "fresh_on epoch c f" "ne_status f \<noteq> VIOLATED" by blast
  let ?said = "map ne_status (fresh_evidence found epoch c)"
  from assms f have in_said: "VIOLATED \<in> set ?said" "ne_status f \<in> set ?said"
    by (simp, metis fresh_evidence_set imageI)+
  with f(3) have "length (remdups ?said) > 1" by (metis remdups_two)
  moreover from in_said f(3) have "set ?said \<noteq> {SATISFIED}" "set ?said \<noteq> {VIOLATED}" by auto
  ultimately show ?thesis using assms(4) by (simp add: adjudicate_status Let_def del: set_map)
qed

lemma status_of_adjudicate:
  assumes "distinct (map nc_id cs)" "c \<in> set cs"
  shows "status_of (map (adjudicate_one cands found epoch) cs) (nc_id c)
    = cs_status (adjudicate_one cands found epoch c)"
proof -
  have "find (\<lambda>s. cs_constraint_id s = nc_id c) (map (adjudicate_one cands found epoch) ds)
      = Some (adjudicate_one cands found epoch c)"
    if "distinct (map nc_id ds)" "c \<in> set ds" for ds
    using that by (induction ds) auto
  from this [of "rev cs"] assms show ?thesis
    by (simp add: status_of_def rev_map [symmetric])
qed

section \<open>The verdict\<close>

lemma adjudicate_ignores_candidates:
  "map (\<lambda>s. (cs_constraint_id s, cs_status s, cs_authority s)) (adjudicate p cands found epoch)
     = map (\<lambda>s. (cs_constraint_id s, cs_status s, cs_authority s)) (adjudicate p cands' found epoch)"
  by (simp only: adjudicate_def map_map comp_def adjudicate_id adjudicate_status adjudicate_authority)

lemma find_same_projection:
  "map (\<lambda>s. (f s, g s)) xs = map (\<lambda>s. (f s, g s)) ys \<Longrightarrow>
     map_option g (find (\<lambda>s. f s = i) xs) = map_option g (find (\<lambda>s. f s = i) ys)"
proof (induction xs arbitrary: ys)
  case (Cons x xs)
  from Cons.prems obtain y zs where ys: "ys = y # zs" by (cases ys) simp_all
  with Cons.prems have "f x = f y" "g x = g y" "map (\<lambda>s. (f s, g s)) xs = map (\<lambda>s. (f s, g s)) zs"
    by simp_all
  with Cons.IH [of zs] ys show ?case by simp
qed simp

lemma status_of_projection:
  assumes "map (\<lambda>s. (cs_constraint_id s, cs_status s)) xs = map (\<lambda>s. (cs_constraint_id s, cs_status s)) ys"
  shows "status_of xs i = status_of ys i"
proof -
  have "map (\<lambda>s. (cs_constraint_id s, cs_status s)) (rev xs)
      = map (\<lambda>s. (cs_constraint_id s, cs_status s)) (rev ys)"
    using assms by (simp add: rev_map [symmetric])
  from find_same_projection [OF this, of i] show ?thesis
    by (auto simp: status_of_def split: option.splits)
qed

text \<open>
  C9: what the model said about the source decides nothing: for any two sets of candidate
  findings, every constraint gets the same status on the same authority, the same
  violations are handed to the repair, and the composite verdict is the same.
\<close>

theorem candidates_decide_nothing:
  "map (\<lambda>s. (cs_constraint_id s, cs_status s, cs_authority s)) (adjudicate p cands found epoch)
     = map (\<lambda>s. (cs_constraint_id s, cs_status s, cs_authority s)) (adjudicate p cands' found epoch)
   \<and> map cs_constraint_id (repairable p (adjudicate p cands found epoch))
     = map cs_constraint_id (repairable p (adjudicate p cands' found epoch))
   \<and> final_verdict impl p (adjudicate p cands found epoch) epoch now
     = final_verdict impl p (adjudicate p cands' found epoch) epoch now"
proof -
  let ?x = "adjudicate p cands found epoch" and ?y = "adjudicate p cands' found epoch"
  let ?f = "\<lambda>s. (cs_constraint_id s, cs_status s, cs_authority s)"
  note same = adjudicate_ignores_candidates [of p cands found epoch cands']
  define P where "P = (\<lambda>(i, st, a). st = VIOLATED
      \<and> list_ex (\<lambda>part. hd (split_on CHR 0x3A part) \<in> {''predicate'', ''check''}) (split_on CHR 0x2B a)
      \<and> (case packet_get p i of None \<Rightarrow> False
         | Some c \<Rightarrow> nc_modality c = SHALL \<and> nc_applicability c = APPLICABLE))"
  have rep: "map ?f (repairable p zs) = filter P (map ?f zs)" for zs
    by (simp add: repairable_def decisive_def P_def filter_map comp_def)
  have "map fst (map ?f (repairable p ?x)) = map fst (map ?f (repairable p ?y))"
    by (simp only: rep same)
  then have "map cs_constraint_id (repairable p ?x) = map cs_constraint_id (repairable p ?y)"
    by (simp add: comp_def)
  moreover have "map (\<lambda>s. (cs_constraint_id s, cs_status s)) ?x = map (\<lambda>s. (cs_constraint_id s, cs_status s)) ?y"
    using arg_cong [OF same, of "map (\<lambda>(i, st, a). (i, st))"] by (simp add: comp_def)
  then have "status_of ?x i = status_of ?y i" for i by (rule status_of_projection)
  then have "required_of p ?x = required_of p ?y" by (simp add: required_of_def)
  then have "normative_status p ?x = normative_status p ?y" by (simp add: normative_status_def)
  then have "final_verdict impl p ?x epoch now = final_verdict impl p ?y epoch now"
    by (simp only: final_verdict_def final_normative_def)
  ultimately show ?thesis using same by blast
qed

lemma predicate_evidence_complete:
  assumes "c \<in> set (ns_constraints p)" "nc_resolved c" "evaluate c fs = Some r"
  shows "predicate_evidence_of epoch c r \<in> set (predicate_evidence evaluate p fs epoch)"
  using assms by (force simp: predicate_evidence_def)

lemma predicate_evidence_of_fresh:
  "fresh_on epoch c (predicate_evidence_of epoch c r)"
  "ne_status (predicate_evidence_of epoch c r) = (if pd_holds r then SATISFIED else VIOLATED)"
  by (simp_all add: predicate_evidence_of_def split: prod.splits)

lemma predicate_evidence_sound:
  assumes "e \<in> set (predicate_evidence evaluate p fs epoch)"
  obtains c r where "c \<in> set (ns_constraints p)" "nc_resolved c" "evaluate c fs = Some r"
    "ne_constraint_id e = nc_id c" "ne_status e = (if pd_holds r then SATISFIED else VIOLATED)"
proof -
  from assms obtain c r where "c \<in> set (ns_constraints p)" "nc_resolved c" "evaluate c fs = Some r"
    "e = predicate_evidence_of epoch c r"
    by (auto simp: predicate_evidence_def split: if_splits option.splits dest!: sym [of "Some _"])
  then show thesis using that predicate_evidence_of_fresh by blast
qed

lemma check_evidence_of_id [simp]: "ne_constraint_id (check_evidence_of b run c) = nc_id c"
  by (simp add: check_evidence_of_def Let_def)

lemma check_evidence_of_epoch [simp]: "ne_source_epoch (check_evidence_of b run c) = cr_source_epoch run"
  by (simp add: check_evidence_of_def Let_def)

lemma check_evidence_of_satisfied: "ne_status (check_evidence_of b run c) = SATISFIED \<Longrightarrow> cr_status run = ''PASSED''"
  by (simp add: check_evidence_of_def Let_def split: if_splits)

lemma check_evidence_sound:
  assumes "check_evidence digest fp runner bound bs w = (w', found, runs)" "e \<in> set found"
  shows "\<exists>b c run. b \<in> set bs \<and> cb_enabled b \<and> c \<in> set (bound b) \<and> run \<in> set runs
    \<and> cr_binding_id run = cb_binding_id b \<and> e = check_evidence_of b run c"
  using assms
proof (induction bs arbitrary: w w' found runs)
  case (Cons b bs)
  show ?case
  proof (cases "\<not> cb_enabled b \<or> bound b = []")
    case True
    with Cons.prems Cons.IH [of w w' found runs] show ?thesis by auto
  next
    case False
    obtain w1 run where run: "run_check digest fp runner b (map nc_id (bound b)) w = (w1, run)" by force
    obtain w2 f2 r2 where rest: "check_evidence digest fp runner bound bs w1 = (w2, f2, r2)"
      by (metis prod.exhaust)
    have "cr_binding_id run = cb_binding_id b"
      using run by (auto simp: run_check_def Let_def split: prod.splits)
    moreover from Cons.prems False run rest have "runs = run # r2"
      "e \<in> set (map (check_evidence_of b run) (bound b)) \<or> e \<in> set f2" by auto
    ultimately show ?thesis using Cons.IH [OF rest] False by (auto; blast)
  qed
qed simp

lemma bound_in_packet: "c \<in> set (bound_constraints p bound b) \<Longrightarrow> c \<in> set (ns_constraints p)"
  by (simp add: bound_constraints_def)

lemma same_constraint:
  "distinct (map nc_id cs) \<Longrightarrow> c \<in> set cs \<Longrightarrow> d \<in> set cs \<Longrightarrow> nc_id c = nc_id d \<Longrightarrow> c = d"
  by (auto simp: distinct_map dest: inj_onD)

lemma check_source_result:
  assumes "ns_constraints p \<noteq> []"
    "check_source digest fp final_files evaluate runner bindings bound p cands w = ((sts, checked, runs), w')"
  obtains found where "check_evidence digest fp runner (bound_constraints p bound) bindings w = (w', found, runs)"
    "sts = adjudicate p cands (predicate_evidence evaluate p (final_files w) (fp w) @ found) (fp w)"
    "checked = fp w"
proof -
  obtain w1 found r where ce: "check_evidence digest fp runner (bound_constraints p bound) bindings w
      = (w1, found, r)" by (metis prod.exhaust)
  from assms(2) have "w1 = w'" "r = runs" "checked = fp w"
    "sts = adjudicate p cands (predicate_evidence evaluate p (final_files w) (fp w) @ found) (fp w)"
    by (auto simp: check_source_def Let_def ce assms(1))
  with ce show thesis by (intro that) simp_all
qed

lemma normative_satisfied:
  "normative_status p sts = SATISFIED \<Longrightarrow>
     ns_coverage_complete p \<and> required_of p sts \<noteq> [] \<and>
     (\<forall>(c, st) \<in> set (required_of p sts). nc_applicability c = APPLICABLE \<and> st = SATISFIED)"
  by (auto simp: normative_status_def Let_def list_all_iff split: if_splits)

lemma composite_compliant:
  "composite impl st = ''VERIFIED + COMPLIANT'' \<Longrightarrow> impl = ''VERIFIED'' \<and> st \<in> {SATISFIED, NOT_APPLICABLE_STATUS}"
  by (cases st) (auto simp: composite_def split: if_splits)

lemma final_compliant:
  assumes "final_verdict impl p sts checked now = ''VERIFIED + COMPLIANT''"
  shows "impl = ''VERIFIED'' \<and> checked = now \<and> normative_status p sts = SATISFIED"
proof -
  have "normative_status p sts \<noteq> NOT_APPLICABLE_STATUS"
    by (simp add: normative_status_def Let_def)
  with composite_compliant [OF assms [unfolded final_verdict_def]] show ?thesis
    by (auto simp: final_normative_def split: if_splits)
qed

definition grounded_by_check :: "check_binding list \<Rightarrow> (string \<times> string list) list \<Rightarrow> constraint_set \<Rightarrow>
    check_run list \<Rightarrow> string \<Rightarrow> norm_constraint \<Rightarrow> bool" where
  "grounded_by_check bindings bound p runs epoch c \<longleftrightarrow>
     (\<exists>b run. b \<in> set bindings \<and> cb_enabled b \<and> c \<in> set (bound_constraints p bound b)
        \<and> run \<in> set runs \<and> cr_binding_id run = cb_binding_id b
        \<and> cr_status run = ''PASSED'' \<and> cr_source_epoch run = epoch)"

lemma satisfied_is_grounded:
  assumes dist: "distinct (map nc_id (ns_constraints p))" and c: "c \<in> set (ns_constraints p)"
    and ce: "check_evidence digest fp runner (bound_constraints p bound) bindings w = (w', found, runs)"
    and sat: "cs_status (adjudicate_one cands (predicate_evidence evaluate p fs epoch @ found) epoch c) = SATISFIED"
  shows "nc_resolved c \<and> (\<forall>r. evaluate c fs = Some r \<longrightarrow> pd_holds r)
    \<and> ((\<exists>r. evaluate c fs = Some r \<and> pd_holds r) \<or> grounded_by_check bindings bound p runs epoch c)"
proof -
  let ?all = "predicate_evidence evaluate p fs epoch @ found"
  from sat have res: "nc_resolved c" and some: "\<exists>e \<in> set ?all. fresh_on epoch c e"
    and only: "\<forall>e \<in> set ?all. fresh_on epoch c e \<longrightarrow> ne_status e = SATISFIED"
    unfolding adjudicate_satisfied by blast+
  have holds: "pd_holds r" if "evaluate c fs = Some r" for r
  proof (rule ccontr)
    assume "\<not> pd_holds r"
    moreover have "predicate_evidence_of epoch c r \<in> set ?all"
      using predicate_evidence_complete [where epoch = epoch and evaluate = evaluate, OF c res that] by simp
    ultimately show False using only predicate_evidence_of_fresh [of epoch c r] by auto
  qed
  from some obtain e where e: "e \<in> set ?all" "fresh_on epoch c e" by blast
  with only have est: "ne_status e = SATISFIED" by blast
  from e(1) have "e \<in> set (predicate_evidence evaluate p fs epoch) \<or> e \<in> set found" by simp
  then show ?thesis
  proof
    assume "e \<in> set (predicate_evidence evaluate p fs epoch)"
    then obtain d r where "d \<in> set (ns_constraints p)" "evaluate d fs = Some r"
      "ne_constraint_id e = nc_id d" "ne_status e = (if pd_holds r then SATISFIED else VIOLATED)"
      by (rule predicate_evidence_sound)
    moreover from this e(2) c have "d = c" by (intro same_constraint [OF dist]) auto
    ultimately show ?thesis using est res holds by (auto split: if_splits)
  next
    assume "e \<in> set found"
    from check_evidence_sound [OF ce this] obtain b d run where b: "b \<in> set bindings" "cb_enabled b"
      "d \<in> set (bound_constraints p bound b)" "run \<in> set runs" "cr_binding_id run = cb_binding_id b"
      "e = check_evidence_of b run d" by blast
    with e(2) c have "d = c" by (intro same_constraint [OF dist]) (auto dest: bound_in_packet)
    moreover from b(6) e(2) est have "cr_status run = ''PASSED''" "cr_source_epoch run = epoch"
      by (auto dest: check_evidence_of_satisfied)
    ultimately show ?thesis using b res holds unfolding grounded_by_check_def by blast
  qed
qed

text \<open>
  C1: a change is reported \<open>VERIFIED + COMPLIANT\<close> only when the implementation was verified,
  the source is what was checked, the coverage is complete, there is at least one
  requirement, and every requirement of the packet is resolved, applicable, not contradicted
  by the source predicate, and either shown by the predicate on the final files or by an
  enabled project check bound to it that passed on that very source.
\<close>

theorem compliance_is_grounded:
  assumes "p = from_coverage digest rd cv decisions sid rvn obj limit"
    "check_source digest fp final_files evaluate runner bindings bound p cands w = ((sts, checked, runs), w')"
    "final_verdict impl p sts checked now = ''VERIFIED + COMPLIANT''"
  shows "impl = ''VERIFIED'' \<and> now = fp w \<and> cv_complete cv
    \<and> (\<exists>c \<in> set (ns_constraints p). nc_modality c = SHALL)
    \<and> (\<forall>c \<in> set (ns_constraints p). nc_modality c = SHALL \<longrightarrow>
         nc_resolved c \<and> nc_applicability c = APPLICABLE
         \<and> (\<forall>r. evaluate c (final_files w) = Some r \<longrightarrow> pd_holds r)
         \<and> ((\<exists>r. evaluate c (final_files w) = Some r \<and> pd_holds r)
            \<or> grounded_by_check bindings bound p runs (fp w) c))"
proof -
  from final_compliant [OF assms(3)] have impl: "impl = ''VERIFIED''" and now: "checked = now"
    and sat: "normative_status p sts = SATISFIED" by auto
  from normative_satisfied [OF sat] have complete: "ns_coverage_complete p"
    and req: "required_of p sts \<noteq> []"
      "\<forall>(c, st) \<in> set (required_of p sts). nc_applicability c = APPLICABLE \<and> st = SATISFIED" by auto
  have ne: "ns_constraints p \<noteq> []" using req(1) by (auto simp: required_of_def)
  obtain found where ce: "check_evidence digest fp runner (bound_constraints p bound) bindings w
      = (w', found, runs)" and sts: "sts = adjudicate p cands
        (predicate_evidence evaluate p (final_files w) (fp w) @ found) (fp w)"
    and checked: "checked = fp w" using ne assms(2) by (rule check_source_result)
  have dist: "distinct (map nc_id (ns_constraints p))" unfolding assms(1) by (rule packet_distinct)
  have app: "nc_applicability c = APPLICABLE" and st: "cs_status (adjudicate_one cands
      (predicate_evidence evaluate p (final_files w) (fp w) @ found) (fp w) c) = SATISFIED"
    if c: "c \<in> set (ns_constraints p)" "nc_modality c = SHALL" for c
  proof -
    have "nc_applicability c \<noteq> NOT_APPLICABLE" using c(1) unfolding assms(1) by (rule packet_applicable)
    with c have "(c, status_of sts (nc_id c)) \<in> set (required_of p sts)" by (auto simp: required_of_def)
    with req(2) show "nc_applicability c = APPLICABLE" "cs_status (adjudicate_one cands
        (predicate_evidence evaluate p (final_files w) (fp w) @ found) (fp w) c) = SATISFIED"
      using status_of_adjudicate [OF dist c(1)] by (auto simp: sts adjudicate_def)
  qed
  have "\<exists>c \<in> set (ns_constraints p). nc_modality c = SHALL"
    using req(1) by (auto simp: required_of_def filter_empty_conv)
  moreover have "cv_complete cv" using complete packet_complete unfolding assms(1) by blast
  ultimately show ?thesis
    using impl now checked app satisfied_is_grounded [OF dist _ ce st] by blast
qed

text \<open>
  C20: when the source predicate contradicts an applicable, resolved requirement of the
  packet, the verdict on that source is \<open>NOT COMPLIANT\<close> or \<open>EVIDENCE CONFLICT\<close>, whatever any
  check or the model says, and on a source changed since then it is not compliance either.
\<close>

theorem contradiction_is_reported:
  assumes "p = from_coverage digest rd cv decisions sid rvn obj limit"
    "check_source digest fp final_files evaluate runner bindings bound p cands w = ((sts, checked, runs), w')"
    "c \<in> set (ns_constraints p)" "nc_modality c = SHALL" "nc_applicability c = APPLICABLE" "nc_resolved c"
    "evaluate c (final_files w) = Some r" "\<not> pd_holds r"
  shows "if now = fp w then final_verdict impl p sts checked now \<in> {''NOT COMPLIANT'', ''EVIDENCE CONFLICT''}
    else final_verdict impl p sts checked now = ''COMPLIANCE NOT DEMONSTRATED''"
proof -
  have ne: "ns_constraints p \<noteq> []" using assms(3) by auto
  obtain found where sts: "sts = adjudicate p cands
        (predicate_evidence evaluate p (final_files w) (fp w) @ found) (fp w)"
    and checked: "checked = fp w" using ne assms(2) by (rule check_source_result)
  let ?all = "predicate_evidence evaluate p (final_files w) (fp w) @ found"
  have "predicate_evidence_of (fp w) c r \<in> set ?all"
    using predicate_evidence_complete [where epoch = "fp w" and evaluate = evaluate, OF assms(3,6,7)] by simp
  then have "cs_status (adjudicate_one cands ?all (fp w) c) \<in> {VIOLATED, EVIDENCE_CONFLICT}"
    by (rule adjudicate_contradicted) (use assms(6,8) predicate_evidence_of_fresh in auto)
  moreover have "distinct (map nc_id (ns_constraints p))" unfolding assms(1) by (rule packet_distinct)
  ultimately have "status_of sts (nc_id c) \<in> {VIOLATED, EVIDENCE_CONFLICT}"
    using status_of_adjudicate [OF _ assms(3)] by (simp add: sts adjudicate_def)
  moreover have "(c, status_of sts (nc_id c)) \<in> set (required_of p sts)"
    using assms(3-5) by (auto simp: required_of_def)
  ultimately have "list_ex (\<lambda>(c, st). nc_applicability c = APPLICABLE \<and> st = VIOLATED) (required_of p sts)
      \<or> list_ex (\<lambda>(c, st). st = EVIDENCE_CONFLICT) (required_of p sts)"
    using assms(5) by (force simp: list_ex_iff)
  then have "normative_status p sts \<in> {VIOLATED, EVIDENCE_CONFLICT}"
    by (auto simp: normative_status_def Let_def)
  then show ?thesis by (auto simp: final_verdict_def final_normative_def composite_def checked)
qed

section \<open>Coverage\<close>

abbreviation keys :: "chosen \<Rightarrow> string set" where
  "keys ch \<equiv> fst ` set ch"

text \<open>Entries are filed under their own instance, and only citations are marked as cited.\<close>

definition filed :: "(string \<Rightarrow> string) \<Rightarrow> chosen \<Rightarrow> bool" where
  "filed digest ch \<longleftrightarrow> (\<forall>(k, e) \<in> set ch. k = ce_instance digest e)"

definition cited_in :: "chosen \<Rightarrow> coverage_entry set" where
  "cited_in ch = {e \<in> snd ` set ch. ce_origin e = CITED}"

lemma keys_admit [simp]: "keys (admit i e ch) = insert i (keys ch)"
  by (auto simp: admit_def has_key_def)

lemma keys_members [simp]:
  "keys (fold (admit_member digest r rel i parent) ms ch) = keys ch \<union> instance_of digest ` set ms"
  by (induction ms arbitrary: ch) (auto simp: admit_member_def)

lemma keys_named [simp]:
  "keys (fold (admit_named digest r i) ms ch) = keys ch \<union> instance_of digest ` set ms"
  by (induction ms arbitrary: ch) (auto simp: admit_named_def)

lemma keys_cited: "keys (admit_cited digest rs) = instance_of digest ` set rs"
proof -
  have "keys (fold (\<lambda>r. admit (instance_of digest r) (f r)) rs ch) = keys ch \<union> instance_of digest ` set rs"
    for f ch by (induction rs arbitrary: ch) auto
  from this [of _ "[]"] show ?thesis by (simp add: admit_cited_def)
qed

lemma filed_admit: "filed digest ch \<Longrightarrow> i = ce_instance digest e \<Longrightarrow> filed digest (admit i e ch)"
  by (auto simp: filed_def admit_def)

lemma filed_fold:
  "(\<And>x ch. filed digest ch \<Longrightarrow> filed digest (f x ch)) \<Longrightarrow> filed digest ch \<Longrightarrow> filed digest (fold f xs ch)"
  by (induction xs arbitrary: ch) auto

lemma cited_in_fold:
  "(\<And>x ch. cited_in (f x ch) = cited_in ch) \<Longrightarrow> cited_in (fold f xs ch) = cited_in ch"
  by (induction xs arbitrary: ch) auto

lemma filed_members: "filed digest ch \<Longrightarrow> filed digest (fold (admit_member digest r rel i parent) ms ch)"
  by (rule filed_fold) (auto simp: admit_member_def ce_instance_def intro: filed_admit)

lemma filed_named: "filed digest ch \<Longrightarrow> filed digest (fold (admit_named digest r i) ms ch)"
  by (rule filed_fold) (auto simp: admit_named_def ce_instance_def intro: filed_admit)

lemma cited_members [simp]: "cited_in (fold (admit_member digest r rel i parent) ms ch) = cited_in ch"
  by (rule cited_in_fold) (auto simp: admit_member_def admit_def cited_in_def)

lemma cited_named [simp]: "cited_in (fold (admit_named digest r i) ms ch) = cited_in ch"
  by (rule cited_in_fold) (auto simp: admit_named_def admit_def cited_in_def)

text \<open>What closing an entry means, for the keys chosen so far.\<close>

definition closed_for :: "(string \<Rightarrow> string) \<Rightarrow> (string \<Rightarrow> string list) \<Rightarrow> universe \<Rightarrow> provision_record \<Rightarrow> string set \<Rightarrow> bool" where
  "closed_for digest labels_in u r ks \<longleftrightarrow>
     (\<forall>m \<in> set (snd (snd (group u r))). fst (group u r) \<noteq> None \<and> normative m \<longrightarrow> instance_of digest m \<in> ks)
     \<and> (\<forall>m \<in> set (named_targets labels_in u r). instance_of digest m \<in> ks)"

text \<open>How far a step of the closure may change what was chosen.\<close>

definition extends :: "(string \<Rightarrow> string) \<Rightarrow> closing \<Rightarrow> closing \<Rightarrow> bool" where
  "extends digest c c' \<longleftrightarrow> keys (cl_chosen c) \<subseteq> keys (cl_chosen c')
     \<and> (filed digest (cl_chosen c) \<longrightarrow> filed digest (cl_chosen c'))
     \<and> cited_in (cl_chosen c') = cited_in (cl_chosen c) \<and> (cl_complete c' \<longrightarrow> cl_complete c)"

lemma extends_refl [simp]: "extends digest c c"
  by (simp add: extends_def)

lemma extends_trans: "extends digest a b \<Longrightarrow> extends digest b c \<Longrightarrow> extends digest a c"
  unfolding extends_def by (elim conjE, intro conjI) (rule subset_trans, assumption+, simp_all)

lemma close_group_extends: "extends digest c (close_group digest u e c)"
proof -
  obtain rel parent ms where g: "group u (ce_record e) = (rel, parent, ms)"
    by (cases "group u (ce_record e)") auto
  show ?thesis
    by (cases rel) (simp_all add: close_group_def g extends_def filed_members Let_def)
qed

lemma close_group_complete:
  assumes "cl_complete (close_group digest u e c)" "m \<in> set (snd (snd (group u (ce_record e))))"
    "fst (group u (ce_record e)) \<noteq> None" "normative m"
  shows "instance_of digest m \<in> keys (cl_chosen (close_group digest u e c))"
proof -
  obtain rel parent ms where g: "group u (ce_record e) = (Some rel, parent, ms)"
    using assms(3) by (cases "group u (ce_record e)") auto
  with assms(1) have "\<not> length (filter normative ms) > group_limit"
    by (auto simp: close_group_def)
  with g assms(2,4) show ?thesis by (simp add: close_group_def)
qed

lemma close_entry_extends: "extends digest c (close_entry digest labels_in u e c)"
  using close_group_extends [of digest c u e]
  by (auto simp: close_entry_def Let_def filed_named extends_def)

lemma close_entry_complete:
  "cl_complete (close_entry digest labels_in u e c) \<Longrightarrow>
     closed_for digest labels_in u (ce_record e) (keys (cl_chosen (close_entry digest labels_in u e c)))"
  using close_group_complete [of digest u e c]
  by (auto simp: close_entry_def Let_def closed_for_def)

lemma closed_for_mono: "closed_for digest labels_in u r ks \<Longrightarrow> ks \<subseteq> ks' \<Longrightarrow> closed_for digest labels_in u r ks'"
  by (auto simp: closed_for_def)

lemma close_fold_extends: "extends digest c (fold (close_entry digest labels_in u) es c)"
proof (induction es arbitrary: c)
  case (Cons e es)
  from extends_trans [OF close_entry_extends Cons.IH] show ?case by simp
qed simp

lemma close_fold_complete:
  "cl_complete (fold (close_entry digest labels_in u) es c) \<Longrightarrow> e \<in> set es \<Longrightarrow>
     closed_for digest labels_in u (ce_record e) (keys (cl_chosen (fold (close_entry digest labels_in u) es c)))"
proof (induction es arbitrary: c)
  case (Cons f es)
  let ?c = "close_entry digest labels_in u f c"
  have ext: "extends digest ?c (fold (close_entry digest labels_in u) es ?c)" by (rule close_fold_extends)
  show ?case
  proof (cases "e \<in> set es")
    case True
    with Cons.IH [of ?c] Cons.prems(1) show ?thesis by simp
  next
    case False
    with Cons.prems(2) have "e = f" by simp
    moreover have "cl_complete ?c" using ext Cons.prems(1) by (simp add: extends_def)
    ultimately show ?thesis using close_entry_complete [of digest labels_in u f c] ext
      by (auto simp: extends_def intro: closed_for_mono)
  qed
qed simp

lemma admit_cited_filed: "filed digest (admit_cited digest rs)"
  unfolding admit_cited_def
  by (rule filed_fold) (auto simp: ce_instance_def filed_def [of digest "[]"] intro: filed_admit)

lemma filed_instances: "filed digest ch \<Longrightarrow> ce_instance digest ` set (dict_values ch) = keys ch"
  by (force simp: filed_def dict_values_def)

text \<open>
  C23: a coverage set that is reported complete holds every provision the normative pass
  cited and, for each cited entry, every normative member of the numbered list or table the
  document puts it in and every declared normative provision its text names; a declared
  provision that is not normative is not followed.
\<close>

theorem complete_coverage_is_closed:
  assumes "cv = close digest labels_in cited u retrieved" "cv_complete cv"
  shows "instance_of digest ` set cited \<subseteq> ce_instance digest ` set (cv_entries cv)
    \<and> (\<forall>e \<in> set (cited_entries cv).
         (\<forall>m \<in> set (snd (snd (group u (ce_record e)))). normative m \<longrightarrow>
            fst (group u (ce_record e)) = None \<or> instance_of digest m \<in> ce_instance digest ` set (cv_entries cv))
         \<and> (\<forall>m \<in> set (named_targets labels_in u (ce_record e)).
              instance_of digest m \<in> ce_instance digest ` set (cv_entries cv)))"
proof -
  let ?start = "admit_cited digest cited"
  define c0 where "c0 = \<lparr>cl_chosen = ?start, cl_ungrouped = [], cl_complete = ?start \<noteq> [],
      cl_reasons = (if ?start = [] then [''the normative pass cited no provision''] else [])\<rparr>"
  define c where "c = fold (close_entry digest labels_in u) (dict_values ?start) c0"
  have complete: "cl_complete c" and entries: "cv_entries cv = dict_values (cl_chosen c)"
    using assms by (auto simp: close_def Let_def c_def c0_def)
  have ext: "extends digest c0 c" unfolding c_def by (rule close_fold_extends)
  have "filed digest (cl_chosen c)" using ext admit_cited_filed by (simp add: extends_def c0_def)
  then have inst: "ce_instance digest ` set (cv_entries cv) = keys (cl_chosen c)"
    by (simp add: entries filed_instances)
  have "keys ?start \<subseteq> keys (cl_chosen c)" using ext by (simp add: extends_def c0_def)
  moreover have "closed_for digest labels_in u (ce_record e) (keys (cl_chosen c))"
    if "e \<in> set (cited_entries cv)" for e
  proof -
    from that have "e \<in> cited_in (cl_chosen c)"
      by (auto simp: cited_entries_def entries cited_in_def dict_values_def)
    then have "e \<in> set (dict_values ?start)"
      using ext by (auto simp: extends_def c0_def cited_in_def dict_values_def)
    from close_fold_complete [OF complete [unfolded c_def] this] show ?thesis by (simp add: c_def)
  qed
  ultimately show ?thesis unfolding inst keys_cited closed_for_def by blast
qed

section \<open>A concrete standard and change\<close>

text \<open>
  Two rules of one list, the first cited; a source tree that is one file; a predicate that
  reads the value the first rule asks for; and a project check bound to the second.
\<close>

definition demo_rule :: "int \<Rightarrow> string \<Rightarrow> provision_record" where
  "demo_rule n txt = \<lparr>pr_key = ProvisionKey ''4.1'' ''Rule'' (Some n), pr_source_id = ''std-1'', pr_page = Some 7,
     pr_text = txt, pr_effective_force = Some 3, pr_declaration_status = ''DECLARATION'',
     pr_needs_review = False, pr_standard_id = ''S'', pr_revision = ''1''\<rparr>"

definition demo_rules :: "provision_record list" where
  "demo_rules = [demo_rule 1 ''The version shall be 2'', demo_rule 2 ''The trailer shall be checked'']"

definition demo_digest :: "string \<Rightarrow> string" where
  "demo_digest s = nat_str (length s)"

definition demo_coverage :: coverage where
  "demo_coverage = close demo_digest (\<lambda>_. []) [demo_rules ! 0] (universe_new demo_rules []) []"

definition demo_readers :: readers where
  "demo_readers = \<lparr>rd_family = (\<lambda>_. []), rd_trigger = (\<lambda>_. []), rd_cardinality = (\<lambda>_. []),
     rd_values = (\<lambda>_. []), rd_identifiers = (\<lambda>_. [])\<rparr>"

definition demo_decisions :: "(string \<times> applicability) list" where
  "demo_decisions = map (\<lambda>r. (instance_of demo_digest r,
     \<lparr>ap_status = APPLICABLE, ap_basis = ''the request names it'', ap_advisory = []\<rparr>)) demo_rules"

definition demo_packet :: constraint_set where
  "demo_packet = from_coverage demo_digest demo_readers demo_coverage demo_decisions ''S'' ''1'' ''do it'' 12"

definition demo_evaluate :: "norm_constraint \<Rightarrow> files \<Rightarrow> predicate_result option" where
  "demo_evaluate c fs =
     (if nc_provision c = ''Rule 4.1-1''
      then map_option (\<lambda>txt. \<lparr>pd_predicate = ''VALUE_EQUALS'', pd_expected = ''2'', pd_observed = txt,
             pd_holds = (txt = ''2''), pd_fact = (''version.py'', Some 1, txt), pd_more_facts = []\<rparr>)
           (map_of fs ''version.py'')
      else None)"

definition demo_binding :: check_binding where
  "demo_binding = \<lparr>cb_binding_id = ''trailer'', cb_standard_id = ''S'', cb_revision = ''1'',
     cb_provisions = [''Rule 4.1-2''], cb_check_kind = ''test'', cb_command = ''ctest -R trailer'',
     cb_semantics = PASS_AND_FAIL_DECISIVE, cb_scope = ''workspace'', cb_authority = ''projects.json'',
     cb_enabled = True\<rparr>"

definition demo_runner :: "files runner" where
  "demo_runner command w = (w, Inr (''PASSED'', Some 0, ''ok''))"

definition demo_check :: "files \<Rightarrow> (constraint_status list \<times> string \<times> check_run list) \<times> files" where
  "demo_check w = check_source demo_digest (\<lambda>w. concat (map snd w)) (\<lambda>w. w) demo_evaluate
     (Some demo_runner) [demo_binding] [(''trailer'', [instance_of demo_digest (demo_rules ! 1)])]
     demo_packet [] w"

lemma demo_check_eq: "demo_check w = ((fst (fst (demo_check w)), fst (snd (fst (demo_check w))),
    snd (snd (fst (demo_check w)))), snd (demo_check w))"
  by simp

theorem compliance_is_grounded_witness:
  "final_verdict ''VERIFIED'' demo_packet (fst (fst (demo_check [(''version.py'', ''2'')])))
     (fst (snd (fst (demo_check [(''version.py'', ''2'')])))) ''2'' = ''VERIFIED + COMPLIANT''
   \<and> cv_complete demo_coverage \<and> length (ns_constraints demo_packet) = 2
   \<and> nc_modality (ns_constraints demo_packet ! 0) = SHALL
   \<and> nc_applicability (ns_constraints demo_packet ! 0) = APPLICABLE"
proof -
  have v: "final_verdict ''VERIFIED'' demo_packet (fst (fst (demo_check [(''version.py'', ''2'')])))
     (fst (snd (fst (demo_check [(''version.py'', ''2'')])))) ''2'' = ''VERIFIED + COMPLIANT''" by code_simp
  have n: "length (ns_constraints demo_packet) = 2" by code_simp
  have m: "nc_modality (ns_constraints demo_packet ! 0) = SHALL" by code_simp
  have i: "ns_constraints demo_packet ! 0 \<in> set (ns_constraints demo_packet)" using n by simp
  have g: "cv_complete demo_coverage" "\<forall>c \<in> set (ns_constraints demo_packet).
      nc_modality c = SHALL \<longrightarrow> nc_applicability c = APPLICABLE"
    using compliance_is_grounded [OF demo_packet_def demo_check_eq [unfolded demo_check_def]
      v [unfolded demo_check_def]] by blast+
  from v n m g(1) g(2) [rule_format, OF i m] show ?thesis by blast
qed

theorem contradiction_is_reported_witness:
  "final_verdict ''VERIFIED'' demo_packet (fst (fst (demo_check [(''version.py'', ''3'')])))
     (fst (snd (fst (demo_check [(''version.py'', ''3'')])))) ''3'' \<in> {''NOT COMPLIANT'', ''EVIDENCE CONFLICT''}"
proof -
  let ?w = "[(''version.py'', ''3'')]"
  let ?c = "ns_constraints demo_packet ! 0"
  have "length (ns_constraints demo_packet) = 2" by code_simp
  then have c: "?c \<in> set (ns_constraints demo_packet)" by simp
  have "nc_modality ?c = SHALL" "nc_applicability ?c = APPLICABLE" "nc_resolved ?c" by code_simp+
  moreover have "map_option pd_holds (demo_evaluate ?c ?w) = Some False" by code_simp
  then obtain r where "demo_evaluate ?c ?w = Some r" "\<not> pd_holds r" by auto
  ultimately show ?thesis
    using contradiction_is_reported [OF demo_packet_def demo_check_eq [unfolded demo_check_def, of ?w] c,
        of r "''3''" "''VERIFIED''"]
    by (simp add: demo_check_def)
qed

theorem complete_coverage_is_closed_witness:
  "cv_complete demo_coverage \<and> length (cv_entries demo_coverage) = 2 \<and>
   instance_of demo_digest ` set [demo_rules ! 0] \<subseteq> ce_instance demo_digest ` set (cv_entries demo_coverage)"
proof -
  have "cv_complete demo_coverage" "length (cv_entries demo_coverage) = 2" by code_simp+
  with complete_coverage_is_closed [OF demo_coverage_def this(1)] show ?thesis by blast
qed

end
