(* ===== verification/Filesystem.thy ===== *)
theory Filesystem
  imports Spear_Prelude
begin

text \<open>
  The part of the filesystem the harness works on: a map from absolute paths, lists of
  components, to nodes, with the resolution of symbolic links that Python's \<open>pathlib\<close> does.  The
  bytes of a file are a \<open>string\<close>.
\<close>

section \<open>The filesystem\<close>

type_synonym path = "string list"

datatype fs_node =
    File string int
  | Dir
  | Symlink bool "string list"
  | Special

type_synonym filesystem = "path \<Rightarrow> fs_node option"

definition exists_at :: "filesystem \<Rightarrow> path \<Rightarrow> bool" where
  "exists_at fs p \<longleftrightarrow> fs p \<noteq> None"

definition is_symlink :: "filesystem \<Rightarrow> path \<Rightarrow> bool" where
  "is_symlink fs p = (case fs p of Some (Symlink _ _) \<Rightarrow> True | _ \<Rightarrow> False)"

definition is_file :: "filesystem \<Rightarrow> path \<Rightarrow> bool" where
  "is_file fs p = (case fs p of Some (File _ _) \<Rightarrow> True | _ \<Rightarrow> False)"

definition read_bytes :: "filesystem \<Rightarrow> path \<Rightarrow> string" where
  "read_bytes fs p = (case fs p of Some (File d _) \<Rightarrow> d | _ \<Rightarrow> [])"

definition mode_at :: "filesystem \<Rightarrow> path \<Rightarrow> int" where
  "mode_at fs p = (case fs p of Some (File _ m) \<Rightarrow> m | _ \<Rightarrow> 0)"

text \<open>\<open>Path(s)\<close>: whether it is absolute, and its components, without empty ones and dots.\<close>

definition parse_path :: "string \<Rightarrow> bool \<times> string list" where
  "parse_path s = (s \<noteq> [] \<and> hd s = CHR ''/'',
     filter (\<lambda>c. c \<noteq> [] \<and> c \<noteq> ''.'') (split_on CHR ''/'' s))"

text \<open>\<open>os.path.abspath\<close> of an absolute path: dots and double dots removed by their spelling.\<close>

fun abspath :: "path \<Rightarrow> string list \<Rightarrow> path" where
  "abspath acc [] = acc"
| "abspath acc (c # cs) = abspath (if c = ''..'' then butlast acc else acc @ [c]) cs"

text \<open>
  \<open>Path.resolve()\<close>: the components are followed one by one, a symbolic link is replaced by
  its target.  \<open>n\<close> bounds the links followed; a path with more is treated as a loop, and a
  loop is an error, as it is before Python 3.13, whose \<open>resolve\<close> without \<open>strict\<close> no longer
  raises there.
\<close>

function realpath :: "nat \<Rightarrow> filesystem \<Rightarrow> path \<Rightarrow> string list \<Rightarrow> path option" where
  "realpath n fs acc [] = Some acc"
| "realpath n fs acc (c # cs) =
     (if c = ''.'' then realpath n fs acc cs
      else if c = ''..'' then realpath n fs (butlast acc) cs
      else case fs (acc @ [c]) of
        Some (Symlink absolute target) \<Rightarrow>
          (case n of 0 \<Rightarrow> None | Suc m \<Rightarrow> realpath m fs (if absolute then [] else acc) (target @ cs))
      | _ \<Rightarrow> realpath n fs (acc @ [c]) cs)"
  by pat_completeness auto
termination by (relation "inv_image (less_than <*lex*> less_than) (\<lambda>(n, _, _, cs). (n, length cs))") auto

definition link_limit :: nat where "link_limit = 40"

text \<open>\<open>p.as_posix()\<close> of a relative and of an absolute path.\<close>

definition as_posix :: "bool \<Rightarrow> path \<Rightarrow> string" where
  "as_posix absolute p = (if absolute then ''/'' else []) @ join ''/'' p"

definition resolve_strict :: "filesystem \<Rightarrow> path \<Rightarrow> path option" where
  "resolve_strict fs p =
     (case realpath link_limit fs [] p of None \<Rightarrow> None
      | Some q \<Rightarrow> if exists_at fs q then Some q else None)"

text \<open>\<open>p.is_relative_to(root)\<close>.\<close>

definition under :: "path \<Rightarrow> path \<Rightarrow> bool" where
  "under root p \<longleftrightarrow> take (length root) p = root"

section \<open>Names of paths\<close>

definition clean :: "string \<Rightarrow> bool" where
  "clean c \<longleftrightarrow> c \<noteq> [] \<and> c \<noteq> ''.'' \<and> c \<noteq> ''..'' \<and> CHR ''/'' \<notin> set c"

lemma split_on_free: "c \<notin> set w \<Longrightarrow> split_on c w = [w]"
  by (induction w) auto

lemma split_on_append: "c \<notin> set w \<Longrightarrow> split_on c (w @ c # s) = w # split_on c s"
  by (induction w) (auto split: list.splits)

lemma split_on_join: "xs \<noteq> [] \<Longrightarrow> \<forall>w \<in> set xs. c \<notin> set w \<Longrightarrow> split_on c (join [c] xs) = xs"
proof (induction xs)
  case (Cons w xs)
  then show ?case by (cases xs) (auto simp: split_on_free split_on_append)
qed simp

lemma parse_posix_absolute:
  assumes "p \<noteq> []" "\<forall>c \<in> set p. clean c"
  shows "parse_path (as_posix True p) = (True, p)"
proof -
  have "split_on CHR ''/'' (CHR ''/'' # join ''/'' p) = [] # p"
    using assms by (simp add: split_on_join clean_def)
  with assms(2) show ?thesis
    by (simp add: parse_path_def as_posix_def clean_def filter_id_conv)
qed

lemma abspath_clean: "\<forall>c \<in> set cs. clean c \<Longrightarrow> abspath acc cs = acc @ cs"
  by (induction cs arbitrary: acc) (auto simp: clean_def)

section \<open>Resolution depends on symbolic links only\<close>

definition same_links :: "filesystem \<Rightarrow> filesystem \<Rightarrow> bool" where
  "same_links fs fs' \<longleftrightarrow> (\<forall>q a t. fs q = Some (Symlink a t) \<longleftrightarrow> fs' q = Some (Symlink a t))"

lemma same_links_refl [simp]: "same_links fs fs"
  by (simp add: same_links_def)

lemma same_links_trans: "same_links a b \<Longrightarrow> same_links b c \<Longrightarrow> same_links a c"
  by (simp add: same_links_def)

lemma is_symlink_iff: "is_symlink fs q \<longleftrightarrow> (\<exists>a t. fs q = Some (Symlink a t))"
  by (auto simp: is_symlink_def split: option.splits fs_node.splits)

lemma same_links_symlink: "same_links fs fs' \<Longrightarrow> is_symlink fs = is_symlink fs'"
  by (auto simp: same_links_def is_symlink_iff fun_eq_iff)

lemma realpath_step:
  "realpath n fs acc (c # cs) =
     (if c = ''.'' then realpath n fs acc cs
      else if c = ''..'' then realpath n fs (butlast acc) cs
      else if is_symlink fs (acc @ [c])
      then (case fs (acc @ [c]) of
          Some (Symlink absolute tgt) \<Rightarrow>
            (case n of 0 \<Rightarrow> None | Suc m \<Rightarrow> realpath m fs (if absolute then [] else acc) (tgt @ cs))
        | _ \<Rightarrow> None)
      else realpath n fs (acc @ [c]) cs)"
  by (auto simp: is_symlink_def split: option.splits fs_node.splits)

lemma realpath_induct [case_names empty dot up link plain]:
  assumes "\<And>n acc. P n acc []"
    and "\<And>n acc cs. P n acc cs \<Longrightarrow> P n acc (''.'' # cs)"
    and "\<And>n acc cs. P n (butlast acc) cs \<Longrightarrow> P n acc (''..'' # cs)"
    and "\<And>n acc c cs a t. c \<noteq> ''.'' \<Longrightarrow> c \<noteq> ''..'' \<Longrightarrow> fs (acc @ [c]) = Some (Symlink a t) \<Longrightarrow>
           (\<And>m. n = Suc m \<Longrightarrow> P m (if a then [] else acc) (t @ cs)) \<Longrightarrow> P n acc (c # cs)"
    and "\<And>n acc c cs. c \<noteq> ''.'' \<Longrightarrow> c \<noteq> ''..'' \<Longrightarrow> \<not> is_symlink fs (acc @ [c]) \<Longrightarrow>
           P n (acc @ [c]) cs \<Longrightarrow> P n acc (c # cs)"
  shows "P n acc cs"
proof -
  have step: "P n acc cs" if outer: "\<And>m acc cs. n = Suc m \<Longrightarrow> P m acc cs" for n acc cs
  proof (induction cs arbitrary: acc)
    case Nil
    show ?case by (rule assms(1))
  next
    case (Cons c cs)
    consider (dot) "c = ''.''" | (up) "c = ''..''"
      | (link) a t where "c \<noteq> ''.''" "c \<noteq> ''..''" "fs (acc @ [c]) = Some (Symlink a t)"
      | (plain) "c \<noteq> ''.''" "c \<noteq> ''..''" "\<not> is_symlink fs (acc @ [c])"
    proof -
      have "(\<exists>a t. fs (acc @ [c]) = Some (Symlink a t)) \<or> \<not> is_symlink fs (acc @ [c])"
        by (auto simp: is_symlink_def split: option.splits fs_node.splits)
      with that show thesis by blast
    qed
    then show ?case
    proof cases
      case dot
      then show ?thesis using assms(2) Cons.IH by blast
    next
      case up
      then show ?thesis using assms(3) Cons.IH by blast
    next
      case link
      then show ?thesis by (rule assms(4)) (rule outer)
    next
      case plain
      then show ?thesis by (rule assms(5)) (rule Cons.IH)
    qed
  qed
  show ?thesis by (induction n arbitrary: acc cs) (auto intro: step)
qed

lemma realpath_plain:
  "c \<noteq> ''.'' \<Longrightarrow> c \<noteq> ''..'' \<Longrightarrow> \<not> is_symlink fs (acc @ [c]) \<Longrightarrow>
     realpath n fs acc (c # cs) = realpath n fs (acc @ [c]) cs"
  by (simp add: realpath_step del: realpath.simps)

lemma realpath_same_links: "same_links fs fs' \<Longrightarrow> realpath n fs acc cs = realpath n fs' acc cs"
proof (induction n acc cs rule: realpath_induct [where fs = fs])
  case (link n acc c cs a t)
  then have "fs' (acc @ [c]) = Some (Symlink a t)" by (simp add: same_links_def)
  with link show ?case by (cases n) simp_all
next
  case (plain n acc c cs)
  with same_links_symlink [of fs fs'] show ?case by (simp add: realpath_plain del: realpath.simps)
qed simp_all

definition plain :: "string \<Rightarrow> bool" where
  "plain c \<longleftrightarrow> c \<noteq> [] \<and> CHR ''/'' \<notin> set c"

text \<open>Component names have no slash.\<close>

definition wf_fs :: "filesystem \<Rightarrow> bool" where
  "wf_fs fs \<longleftrightarrow> (\<forall>q a t. fs q = Some (Symlink a t) \<longrightarrow> (\<forall>c \<in> set t. plain c))"

lemma split_on_pieces: "w \<in> set (split_on c s) \<Longrightarrow> c \<notin> set w"
  by (induction s arbitrary: w) (auto split: if_splits list.splits)

lemma parse_path_plain: "c \<in> set (snd (parse_path s)) \<Longrightarrow> plain c"
  by (auto simp: parse_path_def plain_def dest: split_on_pieces)

lemma realpath_clean:
  "realpath n fs acc cs = Some p \<Longrightarrow> wf_fs fs \<Longrightarrow> \<forall>c \<in> set acc. clean c \<Longrightarrow> \<forall>c \<in> set cs. plain c \<Longrightarrow>
     \<forall>c \<in> set p. clean c"
proof (induction n acc cs rule: realpath_induct [where fs = fs])
  case (link n acc c cs a t)
  from link(3) link.prems(2) have t: "\<forall>c \<in> set t. plain c" unfolding wf_fs_def by blast
  from link(1-3) link.prems(1) obtain m where m: "n = Suc m"
    "realpath m fs (if a then [] else acc) (t @ cs) = Some p" by (cases n) simp_all
  show ?case
    by (rule link.IH [OF m(1,2) link.prems(2)]) (use t link.prems(3,4) in auto)
next
  case (plain n acc c cs)
  from plain(1-3) plain.prems(1) have r: "realpath n fs (acc @ [c]) cs = Some p"
    by (simp add: realpath_plain del: realpath.simps)
  have "clean c" using plain(1,2) plain.prems(4) by (simp add: clean_def plain_def)
  show ?case
    by (rule plain.IH [OF r plain.prems(2)]) (use \<open>clean c\<close> plain.prems(3,4) in auto)
next
  case (up n acc cs)
  then show ?case by (auto dest: in_set_butlastD)
qed simp_all

text \<open>No part of a canonical path is a symbolic link; resolving one changes nothing.\<close>

definition canonical :: "filesystem \<Rightarrow> path \<Rightarrow> bool" where
  "canonical fs p \<longleftrightarrow> list_all (\<lambda>q. q = [] \<or> \<not> is_symlink fs q) (prefixes p)"

lemma canonical_Nil [simp]: "canonical fs []"
  by (simp add: canonical_def)

lemma canonical_snoc [simp]: "canonical fs (p @ [c]) \<longleftrightarrow> canonical fs p \<and> \<not> is_symlink fs (p @ [c])"
  by (auto simp: canonical_def list_all_iff)

lemma canonical_butlast: "canonical fs p \<Longrightarrow> canonical fs (butlast p)"
  by (cases p rule: rev_cases) simp_all

lemma realpath_canonical: "realpath n fs acc cs = Some p \<Longrightarrow> canonical fs acc \<Longrightarrow> canonical fs p"
proof (induction n acc cs rule: realpath_induct [where fs = fs])
  case (link n acc c cs a t)
  then obtain m where "n = Suc m" "realpath m fs (if a then [] else acc) (t @ cs) = Some p" by (cases n) simp_all
  with link show ?case by (auto split: if_splits)
next
  case (plain n acc c cs)
  then show ?case by (simp add: realpath_plain del: realpath.simps)
qed (simp_all add: canonical_butlast)

lemma realpath_of_canonical:
  "canonical fs (acc @ cs) \<Longrightarrow> \<forall>c \<in> set cs. clean c \<Longrightarrow> realpath n fs acc cs = Some (acc @ cs)"
proof (induction cs arbitrary: acc)
  case (Cons c cs)
  have "prefix (acc @ [c]) (acc @ c # cs)" by simp
  then have "\<not> is_symlink fs (acc @ [c])"
    using Cons.prems(1) unfolding canonical_def list_all_iff by (metis in_set_prefixes append_is_Nil_conv list.distinct(1))
  moreover have "c \<noteq> ''.''" "c \<noteq> ''..''" using Cons.prems(2) by (auto simp: clean_def)
  ultimately show ?case using Cons by (simp add: realpath_plain del: realpath.simps)
qed simp

end
