(* ===== verification/Checkpoints.thy ===== *)
theory Checkpoints
  imports Filesystem
begin

text \<open>
  Filesystem checkpoints (\<open>client/harness/checkpoint.py\<close>): the files a task is about to
  change are captured before the change, and rollback puts them back, all together or not
  at all.

  The store of one checkpoint is its blobs and its metadata as last
  saved; storage failures are not modelled, failures in the workspace are.  \<open>digest\<close>, the
  hexadecimal SHA-256 of some bytes, is an argument.
\<close>

section \<open>Checkpoints\<close>

datatype checkpoint_error = CheckpointError string | OSError string

datatype checkpoint_status = CP_ACTIVE | CP_FINALIZED | CP_ROLLED_BACK | CP_CONFLICT

datatype mutation_type = MODIFIED | CREATED | DELETED

datatype path_rollback_status =
    RESTORED | REMOVED_CREATED_FILE | ALREADY_ORIGINAL | PATH_CONFLICT | MISSING | PATH_ERROR

datatype rollback_status = RB_SUCCESS | RB_PARTIAL | RB_CONFLICT | RB_FAILED

record checkpoint_path =
  cp_relative_path :: string
  cp_original_exists :: bool
  cp_original_hash :: "string option"
  cp_blob_name :: "string option"
  cp_original_mode :: "int option"
  cp_post_mutation_hash :: "string option"
  cp_mutation_type :: "mutation_type option"
  cp_action_id :: "string option"

record checkpoint =
  ck_checkpoint_id :: string
  ck_task_id :: string
  ck_session_id :: string
  ck_created_at :: string
  ck_status :: checkpoint_status
  ck_paths :: "(string \<times> checkpoint_path) list"

record path_rollback_result =
  pr_path :: string
  pr_status :: path_rollback_status
  pr_summary :: "string option"

record rollback_result =
  rr_checkpoint_id :: string
  rr_status :: rollback_status
  rr_paths :: "path_rollback_result list"

text \<open>A manager's configuration.\<close>

record manager =
  mg_storage_root :: path
  mg_workspace :: path
  mg_extra_roots :: "path list"

text \<open>
  \<open>CheckpointManager(\<dots>)\<close> of absolute paths: the workspace must be a directory, an extra root
  that is gone, is no directory or is the workspace is left out.
\<close>

definition make_manager :: "filesystem \<Rightarrow> path \<Rightarrow> path \<Rightarrow> path list \<Rightarrow> checkpoint_error + manager" where
  "make_manager fs storage_root workspace extra_roots =
     (case realpath link_limit fs [] storage_root of
        None \<Rightarrow> Inl (OSError ''too many levels of symbolic links'')
      | Some storage \<Rightarrow>
        (case resolve_strict fs workspace of
           None \<Rightarrow> Inl (OSError ''no such file'')
         | Some ws \<Rightarrow>
           if fs ws \<noteq> Some Dir then Inl (CheckpointError ''workspace must be a directory'')
           else Inr \<lparr>mg_storage_root = storage, mg_workspace = ws,
                     mg_extra_roots = filter (\<lambda>r. fs r = Some Dir \<and> r \<noteq> ws)
                       (List.map_filter (resolve_strict fs) extra_roots)\<rparr>))"

text \<open>What a call works on: the workspace, the checkpoint's blobs, and its saved metadata.\<close>

record store =
  st_fs :: filesystem
  st_blobs :: "string \<Rightarrow> string option"
  st_saved :: "checkpoint option"

text \<open>\<open>_ID\<close>: a letter, then seven to ninety-five letters, digits, underscores or dashes.\<close>

definition valid_id :: "string \<Rightarrow> bool" where
  "valid_id s \<longleftrightarrow> (case s of [] \<Rightarrow> False | c # cs \<Rightarrow> ascii_letter c \<and> 7 \<le> length cs \<and> length cs \<le> 95
     \<and> list_all (\<lambda>d. ascii_letter d \<or> ascii_digit d \<or> d = CHR ''_'' \<or> d = CHR ''-'') cs)"

text \<open>\<open>[0-9a-f]{64}\.blob\<close>.\<close>

definition valid_blob_name :: "string \<Rightarrow> bool" where
  "valid_blob_name s \<longleftrightarrow> length s = 69 \<and> list_all hex_digit (take 64 s) \<and> drop 64 s = ''.blob''"

section \<open>Paths a manager accepts\<close>

definition root_for :: "manager \<Rightarrow> path \<Rightarrow> path option" where
  "root_for mg lexical = find (\<lambda>root. under root lexical) (mg_workspace mg # mg_extra_roots mg)"

text \<open>The paths the probe visits: the target and what is between it and its root.\<close>

definition between :: "path \<Rightarrow> path \<Rightarrow> path list" where
  "between root p = map (\<lambda>n. take n p) [Suc (length root)..<Suc (length p)]"

definition target :: "manager \<Rightarrow> filesystem \<Rightarrow> string \<Rightarrow> checkpoint_error + path \<times> string" where
  "target mg fs raw =
     (let (absolute, cs) = parse_path raw;
          candidate = (if absolute then cs else mg_workspace mg @ cs);
          lexical = abspath [] candidate
      in case root_for mg lexical of
           None \<Rightarrow> Inl (CheckpointError ''checkpoint target escapes workspace'')
         | Some root \<Rightarrow>
           if list_ex (is_symlink fs) (between root lexical)
           then Inl (CheckpointError ''checkpoint target uses a symlink'')
           else case realpath link_limit fs [] candidate of
             None \<Rightarrow> Inl (OSError ''too many levels of symbolic links'')
           | Some resolved \<Rightarrow>
             if under (mg_storage_root mg) resolved
             then Inl (CheckpointError ''checkpoint storage is not a mutation target'')
             else if \<not> under root resolved
             then Inl (CheckpointError ''checkpoint target escapes workspace'')
             else if resolved = root then Inl (CheckpointError ''invalid checkpoint target'')
             else Inr (resolved, if root = mg_workspace mg
                                 then as_posix False (drop (length root) resolved)
                                 else as_posix True resolved))"

section \<open>Operations\<close>

definition save :: "checkpoint \<Rightarrow> store \<Rightarrow> store" where
  "save ck st = st\<lparr>st_saved := Some ck\<rparr>"

definition begin_checkpoint :: "string \<Rightarrow> string \<Rightarrow> string \<Rightarrow> string \<Rightarrow> store \<Rightarrow>
    checkpoint_error + checkpoint \<times> store" where
  "begin_checkpoint uuid now task_id session_id st =
     (if \<not> valid_id task_id then Inl (CheckpointError ''invalid task_id'')
      else if \<not> valid_id session_id then Inl (CheckpointError ''invalid session_id'')
      else let ck = \<lparr>ck_checkpoint_id = ''checkpoint_'' @ uuid, ck_task_id = task_id,
                     ck_session_id = session_id, ck_created_at = now, ck_status = CP_ACTIVE, ck_paths = []\<rparr>
           in Inr (ck, save ck (st\<lparr>st_blobs := (\<lambda>_. None)\<rparr>)))"

definition capture :: "(string \<Rightarrow> string) \<Rightarrow> manager \<Rightarrow> string \<Rightarrow> checkpoint \<Rightarrow> store \<Rightarrow>
    checkpoint_error + checkpoint \<times> store" where
  "capture digest mg raw ck st =
     (if ck_status ck \<noteq> CP_ACTIVE then Inl (CheckpointError ''checkpoint is not active'')
      else bindE (target mg (st_fs st) raw) (\<lambda>(p, relative).
        if has_key (ck_paths ck) relative then Inr (ck, st)
        else let fs = st_fs st; there = exists_at fs p in
          if there \<and> (is_symlink fs p \<or> \<not> is_file fs p)
          then Inl (CheckpointError ''only regular workspace files may be captured'')
          else let data = read_bytes fs p;
                   name = digest data @ ''.blob'';
                   blobs = (if there \<and> st_blobs st name = None then (st_blobs st)(name \<mapsto> data) else st_blobs st);
                   item = \<lparr>cp_relative_path = relative, cp_original_exists = there,
                           cp_original_hash = (if there then Some (digest data) else None),
                           cp_blob_name = (if there then Some name else None),
                           cp_original_mode = (if there then Some (mode_at fs p) else None),
                           cp_post_mutation_hash = None, cp_mutation_type = None, cp_action_id = None\<rparr>;
                   ck' = ck\<lparr>ck_paths := AList.update relative item (ck_paths ck)\<rparr>
               in Inr (ck', save ck' (st\<lparr>st_blobs := blobs\<rparr>))))"

definition infer_mutation :: "checkpoint_path \<Rightarrow> bool \<Rightarrow> mutation_type" where
  "infer_mutation item there =
     (if \<not> cp_original_exists item \<and> there then CREATED
      else if cp_original_exists item \<and> \<not> there then DELETED
      else MODIFIED)"

definition record_mutation :: "(string \<Rightarrow> string) \<Rightarrow> manager \<Rightarrow> string \<Rightarrow> string \<Rightarrow> mutation_type option \<Rightarrow>
    checkpoint \<Rightarrow> store \<Rightarrow> checkpoint_error + checkpoint \<times> store" where
  "record_mutation digest mg raw action_id mutation ck st =
     (if ck_status ck \<noteq> CP_ACTIVE then Inl (CheckpointError ''checkpoint is not active'')
      else bindE (target mg (st_fs st) raw) (\<lambda>(p, relative).
        case map_of (ck_paths ck) relative of
          None \<Rightarrow> Inl (CheckpointError ''path was not captured before mutation'')
        | Some item \<Rightarrow>
          let fs = st_fs st; there = exists_at fs p in
          if there \<and> (is_symlink fs p \<or> \<not> is_file fs p)
          then Inl (CheckpointError ''mutated path is not a regular file'')
          else let item' = item\<lparr>cp_post_mutation_hash := (if there then Some (digest (read_bytes fs p)) else None),
                     cp_mutation_type := Some (case mutation of None \<Rightarrow> infer_mutation item there | Some m \<Rightarrow> m),
                     cp_action_id := Some action_id\<rparr>;
                   ck' = ck\<lparr>ck_paths := AList.update relative item' (ck_paths ck)\<rparr>
               in Inr (ck', save ck' st)))"

definition finalize :: "checkpoint \<Rightarrow> store \<Rightarrow> checkpoint_error + checkpoint \<times> store" where
  "finalize ck st =
     (if ck_status ck \<noteq> CP_ACTIVE then Inl (CheckpointError ''checkpoint is not active'')
      else let ck' = ck\<lparr>ck_status := CP_FINALIZED\<rparr> in Inr (ck', save ck' st))"

text \<open>\<open>load\<close>: the saved metadata, if it is that checkpoint's and belongs to the caller.\<close>

definition load :: "string \<Rightarrow> string option \<Rightarrow> string option \<Rightarrow> store \<Rightarrow> checkpoint_error + checkpoint" where
  "load checkpoint_id task_id session_id st =
     (if \<not> valid_id checkpoint_id then Inl (CheckpointError ''invalid checkpoint_id'')
      else case st_saved st of
        None \<Rightarrow> Inl (CheckpointError ''checkpoint not found'')
      | Some ck \<Rightarrow>
        if ck_checkpoint_id ck \<noteq> checkpoint_id then Inl (CheckpointError ''checkpoint not found'')
        else if task_id \<notin> {None, Some (ck_task_id ck)}
        then Inl (CheckpointError ''checkpoint belongs to another task'')
        else if session_id \<notin> {None, Some (ck_session_id ck)}
        then Inl (CheckpointError ''checkpoint belongs to another session'')
        else Inr ck)"

definition validate_identity :: "checkpoint \<Rightarrow> store \<Rightarrow> checkpoint_error + unit" where
  "validate_identity ck st =
     bindE (load (ck_checkpoint_id ck) (Some (ck_task_id ck)) (Some (ck_session_id ck)) st) (\<lambda>loaded.
       if ck_created_at loaded \<noteq> ck_created_at ck
       then Inl (CheckpointError ''checkpoint identity mismatch'') else Inr ())"

definition original_bytes :: "(string \<Rightarrow> string) \<Rightarrow> string \<Rightarrow> checkpoint \<Rightarrow> store \<Rightarrow>
    checkpoint_error + string option" where
  "original_bytes digest relative ck st =
     bindE (validate_identity ck st) (\<lambda>_.
     case map_of (ck_paths ck) relative of
        None \<Rightarrow> Inl (CheckpointError ''path is not captured by checkpoint'')
      | Some item \<Rightarrow>
        if \<not> cp_original_exists item then Inr None
        else (case cp_blob_name item of
            None \<Rightarrow> Inl (CheckpointError ''invalid checkpoint blob reference'')
          | Some name \<Rightarrow>
            if \<not> valid_blob_name name then Inl (CheckpointError ''invalid checkpoint blob reference'')
            else (case st_blobs st name of
                None \<Rightarrow> Inl (OSError ''no such file'')
              | Some data \<Rightarrow>
                if Some (digest data) \<noteq> cp_original_hash item
                then Inl (CheckpointError ''checkpoint blob hash mismatch'')
                else Inr (Some data))))"

definition current_bytes :: "manager \<Rightarrow> string \<Rightarrow> checkpoint \<Rightarrow> store \<Rightarrow> checkpoint_error + string option" where
  "current_bytes mg relative ck st =
     bindE (validate_identity ck st) (\<lambda>_.
      if \<not> has_key (ck_paths ck) relative
      then Inl (CheckpointError ''path is not captured by checkpoint'')
      else bindE (target mg (st_fs st) relative) (\<lambda>(p, resolved).
        if resolved \<noteq> relative then Inl (CheckpointError ''checkpoint path mismatch'')
        else if \<not> exists_at (st_fs st) p then Inr None
        else if is_symlink (st_fs st) p \<or> \<not> is_file (st_fs st) p
        then Inl (CheckpointError ''current checkpoint target is not a regular file'')
        else Inr (Some (read_bytes (st_fs st) p))))"

section \<open>Rollback\<close>

definition result :: "string \<Rightarrow> path_rollback_status \<Rightarrow> string \<Rightarrow> path_rollback_result" where
  "result p status summary =
     \<lparr>pr_path = p, pr_status = status, pr_summary = (if summary = [] then None else Some summary)\<rparr>"

definition preflight :: "(string \<Rightarrow> string) \<Rightarrow> manager \<Rightarrow> filesystem \<Rightarrow> checkpoint_path \<Rightarrow>
    checkpoint_error + path_rollback_result" where
  "preflight digest mg fs item =
     bindE (target mg fs (cp_relative_path item)) (\<lambda>(p, relative).
       Inr (if relative \<noteq> cp_relative_path item then result relative PATH_CONFLICT ''path identity changed''
            else if is_symlink fs p then result relative PATH_CONFLICT ''target became a symlink''
            else let there = exists_at fs p;
                     current = (if there \<and> is_file fs p then Some (digest (read_bytes fs p)) else None)
            in if cp_original_exists item \<and> current = cp_original_hash item
               then result relative ALREADY_ORIGINAL []
               else if \<not> cp_original_exists item \<and> \<not> there then result relative ALREADY_ORIGINAL []
               else if cp_mutation_type item = Some DELETED \<and> cp_original_exists item \<and> \<not> there
                       \<and> cp_post_mutation_hash item = None
               then result relative RESTORED []
               else if \<not> there then result relative MISSING ''task-owned post-state is missing''
               else if \<not> is_file fs p \<or> current \<noteq> cp_post_mutation_hash item
               then result relative PATH_CONFLICT ''current file differs from task-owned post-state''
               else result relative RESTORED []))"

text \<open>
  \<open>_atomic_write\<close> into the workspace: the parents are created, the bytes go to a temporary
  file that replaces the target in one step; a parent that is not a directory, or a target
  that is one, is an \<open>OSError\<close> and leaves the target as it was.
\<close>

definition parents :: "path \<Rightarrow> path list" where
  "parents p = map (\<lambda>n. take n p) [0..<length p]"

definition write_file :: "filesystem \<Rightarrow> path \<Rightarrow> string \<Rightarrow> int \<Rightarrow> checkpoint_error + filesystem" where
  "write_file fs p data mode =
     (if list_ex (\<lambda>q. fs q \<notin> {None, Some Dir}) (parents p) then Inl (OSError ''not a directory'')
      else if fs p = Some Dir then Inl (OSError ''is a directory'')
      else Inr (\<lambda>q. if q = p then Some (File data mode)
                    else if q \<in> set (parents p) \<and> fs q = None then Some Dir else fs q))"

definition unlink :: "filesystem \<Rightarrow> path \<Rightarrow> checkpoint_error + filesystem" where
  "unlink fs p =
     (case fs p of
        None \<Rightarrow> Inl (OSError ''no such file'')
      | Some Dir \<Rightarrow> Inl (OSError ''is a directory'')
      | _ \<Rightarrow> Inr (fs(p := None)))"

definition restore_path :: "(string \<Rightarrow> string) \<Rightarrow> manager \<Rightarrow> (string \<Rightarrow> string option) \<Rightarrow> checkpoint_path \<Rightarrow>
    path_rollback_result \<Rightarrow> filesystem \<Rightarrow> checkpoint_error + path_rollback_result \<times> filesystem" where
  "restore_path digest mg blobs item checked fs =
     bindE (target mg fs (cp_relative_path item)) (\<lambda>(p, _).
       if pr_status checked = ALREADY_ORIGINAL then Inr (checked, fs)
       else if \<not> cp_original_exists item
       then bindE (unlink fs p) (\<lambda>fs'. Inr (result (cp_relative_path item) REMOVED_CREATED_FILE [], fs'))
       else case cp_blob_name item of
         None \<Rightarrow> Inl (CheckpointError ''invalid checkpoint blob reference'')
       | Some name \<Rightarrow>
         if \<not> valid_blob_name name then Inl (CheckpointError ''invalid checkpoint blob reference'')
         else (case blobs name of
             None \<Rightarrow> Inl (OSError ''no such file'')
           | Some data \<Rightarrow>
             if Some (digest data) \<noteq> cp_original_hash item
             then Inl (CheckpointError ''checkpoint blob hash mismatch'')
             else bindE (write_file fs p data (case cp_original_mode item of None \<Rightarrow> 384 | Some m \<Rightarrow> m))
                    (\<lambda>fs'. Inr (result (cp_relative_path item) RESTORED [], fs'))))"

definition blocked :: "path_rollback_result \<Rightarrow> bool" where
  "blocked r \<longleftrightarrow> pr_status r \<in> {PATH_CONFLICT, MISSING, PATH_ERROR}"

fun error_text :: "checkpoint_error \<Rightarrow> string" where
  "error_text (CheckpointError s) = s"
| "error_text (OSError s) = s"

fun restore_all :: "(string \<Rightarrow> string) \<Rightarrow> manager \<Rightarrow> (string \<Rightarrow> string option) \<Rightarrow>
    (checkpoint_path \<times> path_rollback_result) list \<Rightarrow> filesystem \<Rightarrow> path_rollback_result list \<times> filesystem" where
  "restore_all digest mg blobs [] fs = ([], fs)"
| "restore_all digest mg blobs ((item, checked) # rest) fs =
     (let (r, fs1) = (if blocked checked then (checked, fs)
                      else case restore_path digest mg blobs item checked fs of
                        Inl e \<Rightarrow> (result (cp_relative_path item) PATH_ERROR (take 240 (error_text e)), fs)
                      | Inr rf \<Rightarrow> rf);
          (rs, fs2) = restore_all digest mg blobs rest fs1
      in (r # rs, fs2))"

definition mutated :: "checkpoint \<Rightarrow> checkpoint_path list" where
  "mutated ck = filter (\<lambda>i. cp_mutation_type i \<noteq> None) (dict_values (ck_paths ck))"

definition restored_ok :: "path_rollback_result \<Rightarrow> bool" where
  "restored_ok r \<longleftrightarrow> pr_status r \<in> {RESTORED, REMOVED_CREATED_FILE, ALREADY_ORIGINAL}"

definition overall :: "path_rollback_result list \<Rightarrow> rollback_status" where
  "overall rs =
     (if list_all restored_ok rs then RB_SUCCESS
      else if list_ex (\<lambda>r. pr_status r = PATH_CONFLICT) rs then RB_CONFLICT
      else if rs \<noteq> [] then RB_PARTIAL else RB_FAILED)"

definition status_after :: "rollback_status \<Rightarrow> checkpoint_status \<Rightarrow> checkpoint_status" where
  "status_after r old = (if r = RB_SUCCESS then CP_ROLLED_BACK else if r = RB_CONFLICT then CP_CONFLICT else old)"

definition rollback :: "(string \<Rightarrow> string) \<Rightarrow> manager \<Rightarrow> bool \<Rightarrow> checkpoint \<Rightarrow> store \<Rightarrow>
    checkpoint_error + rollback_result \<times> checkpoint \<times> store" where
  "rollback digest mg all_or_nothing ck st =
     (if ck_status ck \<notin> {CP_ACTIVE, CP_CONFLICT}
      then Inl (CheckpointError ''checkpoint is not rollback-eligible'')
      else bindE (mapE (preflight digest mg (st_fs st)) (mutated ck)) (\<lambda>checks.
        if list_ex blocked checks \<and> all_or_nothing
        then let ck' = ck\<lparr>ck_status := CP_CONFLICT\<rparr>
             in Inr (\<lparr>rr_checkpoint_id = ck_checkpoint_id ck, rr_status = RB_CONFLICT, rr_paths = checks\<rparr>,
                     ck', save ck' st)
        else let (rs, fs') = restore_all digest mg (st_blobs st) (zip (mutated ck) checks) (st_fs st);
                 ck' = ck\<lparr>ck_status := status_after (overall rs) (ck_status ck)\<rparr>
             in Inr (\<lparr>rr_checkpoint_id = ck_checkpoint_id ck, rr_status = overall rs, rr_paths = rs\<rparr>,
                     ck', save ck' (st\<lparr>st_fs := fs'\<rparr>))))"

end
