(* ===== verification/Checkpoints_Props.thy ===== *)
theory Checkpoints_Props
  imports Checkpoints
begin

text \<open>
  What rollback guarantees: a successful one leaves every file the task changed with its
  original content, a refused one leaves the workspace as it was, no other file is touched,
  and no path outside the manager's roots is ever accepted.
\<close>

section \<open>Resolution depends on symbolic links only\<close>

lemma target_same_links: "same_links fs fs' \<Longrightarrow> target mg fs raw = target mg fs' raw"
proof -
  assume s: "same_links fs fs'"
  have "realpath link_limit fs [] = realpath link_limit fs' []"
    using realpath_same_links [OF s] by blast
  with same_links_symlink [OF s] show ?thesis unfolding target_def by (simp only:)
qed

section \<open>What a manager accepts\<close>

lemma target_Inr:
  assumes "target mg fs raw = Inr (p, key)"
  obtains root where "root_for mg (abspath [] (if fst (parse_path raw) then snd (parse_path raw)
        else mg_workspace mg @ snd (parse_path raw))) = Some root"
    "realpath link_limit fs [] (if fst (parse_path raw) then snd (parse_path raw)
        else mg_workspace mg @ snd (parse_path raw)) = Some p"
    "under root p" "p \<noteq> root" "\<not> under (mg_storage_root mg) p"
    "key = (if root = mg_workspace mg then as_posix False (drop (length root) p) else as_posix True p)"
  using assms
  by (auto simp: target_def Let_def case_prod_unfold split: option.splits if_splits)

lemma target_scope:
  assumes "target mg fs raw = Inr (p, key)"
  shows "(\<exists>root \<in> set (mg_workspace mg # mg_extra_roots mg). under root p) \<and> \<not> under (mg_storage_root mg) p"
  using assms by (rule target_Inr) (auto simp: root_for_def find_Some_iff split: if_splits)

text \<open>The workspace of a manager is a path without slashes in its names.\<close>

definition wf_manager :: "manager \<Rightarrow> bool" where
  "wf_manager mg \<longleftrightarrow> (\<forall>c \<in> set (mg_workspace mg). plain c)"

lemma make_manager_wf:
  assumes "make_manager fs storage ws extra = Inr mg" "wf_fs fs" "\<forall>c \<in> set ws. plain c"
  shows "wf_manager mg"
proof -
  from assms(1) have "realpath link_limit fs [] ws = Some (mg_workspace mg)"
    by (auto simp: make_manager_def resolve_strict_def split: option.splits if_splits)
  from realpath_clean [OF this assms(2) _ assms(3)] show ?thesis by (auto simp: wf_manager_def clean_def plain_def)
qed

lemma target_clean:
  assumes "target mg fs raw = Inr (p, key)" "wf_fs fs" "wf_manager mg"
  shows "p \<noteq> [] \<and> (\<forall>c \<in> set p. clean c)"
  using assms(1)
proof (rule target_Inr)
  fix root
  assume r: "realpath link_limit fs [] (if fst (parse_path raw) then snd (parse_path raw)
      else mg_workspace mg @ snd (parse_path raw)) = Some p" and u: "under root p" "p \<noteq> root"
  have "\<forall>c \<in> set p. clean c"
    using r assms(2) by (rule realpath_clean) (use assms(3) in \<open>auto simp: wf_manager_def dest: parse_path_plain\<close>)
  with u show ?thesis by (auto simp: under_def)
qed

lemma target_key:
  assumes "target mg fs raw = Inr (p, key)"
  shows "under (mg_workspace mg) p \<and> key = as_posix False (drop (length (mg_workspace mg)) p)
    \<or> key = as_posix True p"
  using assms by (rule target_Inr) (auto split: if_splits)

text \<open>A stored key names its path: two keys that resolve to themselves name different paths.\<close>

lemma absolute_key_root:
  assumes "target mg fs key = Inr (p, key)" "key = as_posix True p" "wf_fs fs" "wf_manager mg"
  shows "root_for mg p \<noteq> None \<and> (root_for mg p = Some (mg_workspace mg) \<longrightarrow>
    key = as_posix False (drop (length (mg_workspace mg)) p))"
proof -
  from target_clean [OF assms(1,3,4)] have c: "p \<noteq> []" "\<forall>c \<in> set p. clean c" by auto
  then have "parse_path key = (True, p)" by (simp add: assms(2) parse_posix_absolute)
  moreover have "abspath [] p = p" using c(2) abspath_clean [of p "[]"] by simp
  ultimately show ?thesis using assms(1) by (auto elim!: target_Inr)
qed

lemma key_is:
  assumes "target mg fs j = Inr (p, j)" "wf_fs fs" "wf_manager mg"
  shows "j = (if under (mg_workspace mg) p then as_posix False (drop (length (mg_workspace mg)) p)
    else as_posix True p)"
proof (cases "j = as_posix True p")
  case True
  show ?thesis
  proof (cases "under (mg_workspace mg) p")
    case u: True
    then have "root_for mg p = Some (mg_workspace mg)" by (simp add: root_for_def)
    with absolute_key_root [OF assms(1) True assms(2,3)] u show ?thesis by simp
  qed (simp add: True)
next
  case False
  with target_key [OF assms(1)] show ?thesis by simp
qed

lemma key_names_path:
  assumes "target mg fs k = Inr (p, k)" "target mg fs k' = Inr (p, k')" "wf_fs fs" "wf_manager mg"
  shows "k = k'"
  using key_is [OF assms(1,3,4)] key_is [OF assms(2,3,4)] by (rule trans [OF _ sym])

section \<open>One path restored\<close>

text \<open>The path an item is restored at: the stored key still resolves to itself.\<close>

definition at_path :: "manager \<Rightarrow> filesystem \<Rightarrow> checkpoint_path \<Rightarrow> path \<Rightarrow> bool" where
  "at_path mg fs item p \<longleftrightarrow> target mg fs (cp_relative_path item) = Inr (p, cp_relative_path item)"

text \<open>
  What an item looks like once it is back: a file with the captured content, known by its
  digest, or no file, where there was none.
\<close>

definition put_back :: "(string \<Rightarrow> string) \<Rightarrow> checkpoint_path \<Rightarrow> fs_node option \<Rightarrow> bool" where
  "put_back digest item node \<longleftrightarrow>
     (if cp_original_exists item
      then (case node of Some (File d _) \<Rightarrow> cp_original_hash item = Some (digest d) | _ \<Rightarrow> False)
      else node \<in> {None, Some Dir})"

text \<open>Restoring \<open>p\<close> may create the missing directories above it, and changes nothing else.\<close>

definition only_at :: "path \<Rightarrow> filesystem \<Rightarrow> filesystem \<Rightarrow> bool" where
  "only_at p fs fs' \<longleftrightarrow> (\<forall>q. q \<noteq> p \<longrightarrow> fs' q = fs q \<or> fs q = None \<and> fs' q = Some Dir \<and> q \<in> set (parents p))"

definition hash_known :: "checkpoint_path \<Rightarrow> bool" where
  "hash_known item \<longleftrightarrow> (cp_original_exists item \<longrightarrow> cp_original_hash item \<noteq> None)"

definition ready :: "manager \<Rightarrow> filesystem \<Rightarrow> checkpoint_path \<times> path_rollback_result \<Rightarrow> bool" where
  "ready mg fs = (\<lambda>(item, checked). blocked checked \<or>
     pr_status checked \<in> {ALREADY_ORIGINAL, RESTORED} \<and> (\<exists>p. at_path mg fs item p \<and> \<not> is_symlink fs p))"

lemma pr_status_result [simp]: "pr_status (result p s m) = s"
  by (simp add: result_def)

lemma preflight_ready: "preflight digest mg fs item = Inr c \<Longrightarrow> ready mg fs (item, c)"
  by (auto simp: preflight_def ready_def at_path_def blocked_def raise_simps Let_def split: if_splits)

lemma at_path_unique: "at_path mg fs item p \<Longrightarrow> at_path mg fs item q \<Longrightarrow> p = q"
  by (simp add: at_path_def)

lemma preflight_already:
  assumes "preflight digest mg fs item = Inr c" "pr_status c = ALREADY_ORIGINAL" "hash_known item"
    "at_path mg fs item p"
  shows "put_back digest item (fs p)"
  using assms
  by (cases "fs p"; cases "the (fs p)")
    (auto simp: preflight_def at_path_def hash_known_def put_back_def exists_at_def is_file_def is_symlink_def
      read_bytes_def split: if_splits)

lemma unlink_Inr:
  "unlink fs p = Inr fs' \<longleftrightarrow> fs p \<noteq> None \<and> fs p \<noteq> Some Dir \<and> fs' = fs(p := None)"
  by (auto simp: unlink_def split: option.splits fs_node.splits)

lemma write_file_Inr:
  "write_file fs p d m = Inr fs' \<Longrightarrow> only_at p fs fs' \<and> fs' p = Some (File d m)"
  by (auto simp: write_file_def only_at_def split: if_splits)

lemma only_at_links:
  assumes "only_at p fs fs'" "\<not> is_symlink fs p" "\<not> is_symlink fs' p"
  shows "same_links fs fs'"
  unfolding same_links_def
proof (intro allI)
  fix q a t
  show "fs q = Some (Symlink a t) \<longleftrightarrow> fs' q = Some (Symlink a t)"
    using assms by (cases "q = p") (auto simp: only_at_def is_symlink_iff dest: spec [of _ q])
qed

lemma restore_path_Inr:
  assumes r: "restore_path digest mg blobs item checked fs = Inr (r, fs')"
    and p: "at_path mg fs item p" "\<not> is_symlink fs p"
    and c: "pr_status checked \<in> {ALREADY_ORIGINAL, RESTORED}"
  shows "only_at p fs fs' \<and> same_links fs fs' \<and> restored_ok r
    \<and> (if pr_status checked = ALREADY_ORIGINAL then fs' = fs else put_back digest item (fs' p))"
proof (cases "pr_status checked = ALREADY_ORIGINAL")
  case True
  with r p show ?thesis by (auto simp: restore_path_def at_path_def only_at_def restored_ok_def)
next
  case no: False
  show ?thesis
  proof (cases "cp_original_exists item")
    case False
    with no r p have "fs' = fs(p := None)" "r = result (cp_relative_path item) REMOVED_CREATED_FILE []"
      by (auto simp: restore_path_def at_path_def raise_simps unlink_Inr)
    moreover have "only_at p fs (fs(p := None))" by (simp add: only_at_def)
    ultimately show ?thesis using no False only_at_links [of p fs fs'] p(2)
      by (auto simp: put_back_def restored_ok_def is_symlink_def)
  next
    case True
    with no r p obtain d m where w: "write_file fs p d m = Inr fs'" and d: "cp_original_hash item = Some (digest d)"
      and r': "r = result (cp_relative_path item) RESTORED []"
      by (auto simp: restore_path_def at_path_def raise_simps split: option.splits if_splits)
    note write_file_Inr [OF w]
    then show ?thesis using no True d r' only_at_links [of p fs fs'] p(2)
      by (auto simp: put_back_def restored_ok_def is_symlink_def)
  qed
qed

lemma at_path_same_links: "same_links fs fs' \<Longrightarrow> at_path mg fs item p = at_path mg fs' item p"
  using target_same_links by (simp add: at_path_def)

lemma ready_same_links: "same_links fs fs' \<Longrightarrow> ready mg fs ic = ready mg fs' ic"
  by (cases ic) (simp add: ready_def at_path_same_links [of fs fs'] same_links_symlink [of fs fs'])

section \<open>All of them\<close>

text \<open>One round of the loop.\<close>

definition restore_one :: "(string \<Rightarrow> string) \<Rightarrow> manager \<Rightarrow> (string \<Rightarrow> string option) \<Rightarrow> checkpoint_path \<Rightarrow>
    path_rollback_result \<Rightarrow> filesystem \<Rightarrow> path_rollback_result \<times> filesystem" where
  "restore_one digest mg blobs item checked fs =
     (if blocked checked then (checked, fs)
      else case restore_path digest mg blobs item checked fs of
        Inl e \<Rightarrow> (result (cp_relative_path item) PATH_ERROR (take 240 (error_text e)), fs)
      | Inr rf \<Rightarrow> rf)"

lemma restore_all_Cons:
  assumes "restore_all digest mg blobs ((item, checked) # rest) fs = (rs, fs')"
  obtains r fs1 rs' where "restore_one digest mg blobs item checked fs = (r, fs1)"
    "restore_all digest mg blobs rest fs1 = (rs', fs')" "rs = r # rs'"
  using assms by (auto simp: restore_one_def Let_def split: prod.splits)

lemma restore_one_cases [consumes 2, case_names same put]:
  assumes "restore_one digest mg blobs item checked fs = (r, fs')" "ready mg fs (item, checked)"
  obtains "fs' = fs" "restored_ok r \<longrightarrow> pr_status checked = ALREADY_ORIGINAL"
  | p where "\<not> blocked checked" "at_path mg fs item p" "only_at p fs fs'" "same_links fs fs'"
      "put_back digest item (fs' p)"
proof (cases "blocked checked")
  case True
  with assms have "fs' = fs" "\<not> restored_ok r" by (auto simp: restore_one_def blocked_def restored_ok_def)
  then show ?thesis by (simp add: that(1))
next
  case False
  with assms(2) obtain p where p: "at_path mg fs item p" "\<not> is_symlink fs p"
    and c: "pr_status checked \<in> {ALREADY_ORIGINAL, RESTORED}" by (auto simp: ready_def)
  show ?thesis
  proof (cases "restore_path digest mg blobs item checked fs")
    case (Inl e)
    with assms(1) False have "fs' = fs" "\<not> restored_ok r" by (auto simp: restore_one_def restored_ok_def)
    then show ?thesis by (simp add: that(1))
  next
    case (Inr rf)
    with assms(1) False have "restore_path digest mg blobs item checked fs = Inr (r, fs')"
      by (simp add: restore_one_def)
    from restore_path_Inr [OF this p c] show ?thesis
      using that(1) that(2) [OF False p(1)] by (cases "pr_status checked = ALREADY_ORIGINAL") simp_all
  qed
qed

lemma restore_one_links:
  "restore_one digest mg blobs item checked fs = (r, fs') \<Longrightarrow> ready mg fs (item, checked) \<Longrightarrow> same_links fs fs'"
  by (erule (1) restore_one_cases) simp_all

text \<open>The places the loop may change: the paths of the items it does not skip.\<close>

definition may_change :: "manager \<Rightarrow> filesystem \<Rightarrow> (checkpoint_path \<times> path_rollback_result) list \<Rightarrow> path set" where
  "may_change mg fs its = {p. \<exists>(item, checked) \<in> set its. \<not> blocked checked \<and> at_path mg fs item p}"

lemma may_change_links: "same_links fs fs' \<Longrightarrow> may_change mg fs its = may_change mg fs' its"
  by (simp add: may_change_def at_path_same_links [of fs fs'])

definition confined :: "path set \<Rightarrow> filesystem \<Rightarrow> filesystem \<Rightarrow> bool" where
  "confined ps fs fs' \<longleftrightarrow> (\<forall>q. q \<notin> ps \<longrightarrow> fs' q = fs q \<or>
     fs q = None \<and> fs' q = Some Dir \<and> (\<exists>p \<in> ps. q \<in> set (parents p)))"

lemma confined_refl [simp]: "confined ps fs fs"
  by (simp add: confined_def)

lemma confined_trans: "confined ps a b \<Longrightarrow> confined ps b c \<Longrightarrow> confined ps a c"
  unfolding confined_def by (metis option.distinct(1))

lemma confined_mono: "confined ps a b \<Longrightarrow> ps \<subseteq> ps' \<Longrightarrow> confined ps' a b"
  unfolding confined_def by blast

lemma only_at_confined:
  assumes "only_at p fs fs'" "p \<in> ps"
  shows "confined ps fs fs'"
  unfolding confined_def
proof (intro allI impI)
  fix q
  assume "q \<notin> ps"
  with assms(2) have "q \<noteq> p" by auto
  with assms(1) have "fs' q = fs q \<or> fs q = None \<and> fs' q = Some Dir \<and> q \<in> set (parents p)"
    by (simp add: only_at_def)
  with assms(2) show "fs' q = fs q \<or> fs q = None \<and> fs' q = Some Dir \<and> (\<exists>p \<in> ps. q \<in> set (parents p))"
    by auto
qed

lemma restore_one_confined:
  assumes "restore_one digest mg blobs item checked fs = (r, fs')" "ready mg fs (item, checked)"
  shows "confined (may_change mg fs ((item, checked) # rest)) fs fs'"
  using assms
proof (cases rule: restore_one_cases)
  case (put p)
  then have "p \<in> may_change mg fs ((item, checked) # rest)" by (auto simp: may_change_def)
  with put(3) show ?thesis by (rule only_at_confined)
qed simp

lemma restore_all_confined:
  "restore_all digest mg blobs its fs = (rs, fs') \<Longrightarrow> \<forall>ic \<in> set its. ready mg fs ic \<Longrightarrow>
     same_links fs fs' \<and> confined (may_change mg fs its) fs fs'"
proof (induction its arbitrary: rs fs)
  case (Cons ic rest)
  obtain item checked where ic: "ic = (item, checked)" by (cases ic)
  from Cons.prems(1) obtain r fs1 rs' where one: "restore_one digest mg blobs item checked fs = (r, fs1)"
    and rest: "restore_all digest mg blobs rest fs1 = (rs', fs')"
    unfolding ic by (elim restore_all_Cons)
  have rd: "ready mg fs (item, checked)" using Cons.prems(2) ic by simp
  note l = restore_one_links [OF one rd]
  have "\<forall>ic \<in> set rest. ready mg fs1 ic" using Cons.prems(2) ready_same_links [OF l] by simp
  from Cons.IH [OF rest this] have IH: "same_links fs1 fs'" "confined (may_change mg fs rest) fs1 fs'"
    using may_change_links [OF l] by auto
  have "confined (may_change mg fs (ic # rest)) fs1 fs'"
    using IH(2) by (rule confined_mono) (auto simp: may_change_def)
  with restore_one_confined [OF one rd, of rest] same_links_trans [OF l IH(1)] show ?case
    unfolding ic by (blast intro: confined_trans)
qed simp

lemma put_back_confined:
  "confined ps fs fs' \<Longrightarrow> p \<notin> ps \<Longrightarrow> put_back digest item (fs p) \<Longrightarrow> put_back digest item (fs' p)"
  unfolding confined_def by (auto simp: put_back_def split: if_splits dest!: spec [of _ p])

text \<open>Items with different keys are at different places.\<close>

lemma at_path_key:
  "at_path mg fs i p \<Longrightarrow> at_path mg fs j p \<Longrightarrow> wf_fs fs \<Longrightarrow> wf_manager mg \<Longrightarrow>
     cp_relative_path i = cp_relative_path j"
  unfolding at_path_def by (rule key_names_path)

lemma wf_fs_same_links: "same_links fs fs' \<Longrightarrow> wf_fs fs = wf_fs fs'"
  by (simp add: wf_fs_def same_links_def)

lemma others_keep:
  assumes "confined (may_change mg fs its) fs fs'" "at_path mg fs item p" "put_back digest item (fs p)"
    and "cp_relative_path item \<notin> (cp_relative_path \<circ> fst) ` set its" "wf_fs fs" "wf_manager mg"
  shows "put_back digest item (fs' p)"
proof (rule put_back_confined [OF assms(1) _ assms(3)])
  show "p \<notin> may_change mg fs its"
  proof
    assume "p \<in> may_change mg fs its"
    then obtain jc where "jc \<in> set its" "at_path mg fs (fst jc) p" by (auto simp: may_change_def)
    with at_path_key [OF assms(2) _ assms(5,6)] assms(4) show False by (auto simp: image_iff)
  qed
qed

definition already_back :: "(string \<Rightarrow> string) \<Rightarrow> manager \<Rightarrow> filesystem \<Rightarrow>
    checkpoint_path \<times> path_rollback_result \<Rightarrow> bool" where
  "already_back digest mg fs = (\<lambda>(item, checked). pr_status checked = ALREADY_ORIGINAL \<longrightarrow>
     (\<forall>p. at_path mg fs item p \<longrightarrow> put_back digest item (fs p)))"

lemma restore_one_back:
  assumes "restore_one digest mg blobs item checked fs = (r, fs')" "ready mg fs (item, checked)"
    "restored_ok r" "already_back digest mg fs (item, checked)"
  obtains p where "at_path mg fs item p" "put_back digest item (fs' p)"
proof -
  have nb: "\<not> blocked checked"
  proof
    assume "blocked checked"
    with assms(1,3) show False by (auto simp: restore_one_def blocked_def restored_ok_def)
  qed
  with assms(2) obtain p where p: "at_path mg fs item p" by (auto simp: ready_def)
  from assms(1,2) have "put_back digest item (fs' p)"
  proof (cases rule: restore_one_cases)
    case same
    with p assms(3,4) show ?thesis by (simp add: already_back_def)
  next
    case (put q)
    with at_path_unique [OF p] show ?thesis by blast
  qed
  with p show ?thesis by (rule that)
qed

lemma already_back_later:
  assumes "confined (may_change mg fs [jc]) fs fs'" "same_links fs fs'" "already_back digest mg fs ic"
    "cp_relative_path (fst ic) \<noteq> cp_relative_path (fst jc)" "wf_fs fs" "wf_manager mg"
  shows "already_back digest mg fs' ic"
proof -
  have "put_back digest (fst ic) (fs' p)" if "at_path mg fs (fst ic) p" "pr_status (snd ic) = ALREADY_ORIGINAL" for p
    using assms(1) that(1) _ _ assms(5,6)
  proof (rule others_keep)
    show "put_back digest (fst ic) (fs p)" using assms(3) that by (auto simp: already_back_def)
    show "cp_relative_path (fst ic) \<notin> (cp_relative_path \<circ> fst) ` set [jc]" using assms(4) by simp
  qed
  then show ?thesis by (auto simp: already_back_def at_path_same_links [OF assms(2)])
qed

lemma restore_all_back:
  assumes "restore_all digest mg blobs its fs = (rs, fs')" "list_all restored_ok rs"
    and "\<forall>ic \<in> set its. ready mg fs ic \<and> already_back digest mg fs ic"
    and "distinct (map (cp_relative_path \<circ> fst) its)" "wf_fs fs" "wf_manager mg" "ic \<in> set its"
  shows "\<exists>p. at_path mg fs (fst ic) p \<and> put_back digest (fst ic) (fs' p)"
  using assms
proof (induction its arbitrary: rs fs)
  case (Cons jc rest)
  obtain item checked where jc: "jc = (item, checked)" by (cases jc)
  from Cons.prems(1) obtain r fs1 rs' where one: "restore_one digest mg blobs item checked fs = (r, fs1)"
    and rest: "restore_all digest mg blobs rest fs1 = (rs', fs')" and rs: "rs = r # rs'"
    unfolding jc by (elim restore_all_Cons)
  have rd: "ready mg fs (item, checked)" and ab: "already_back digest mg fs (item, checked)"
    using Cons.prems(3) jc by auto
  note l = restore_one_links [OF one rd]
  have rd1: "\<forall>ic \<in> set rest. ready mg fs1 ic" using Cons.prems(3) ready_same_links [OF l] by simp
  show ?case
  proof (cases "ic = jc")
    case True
    from one rd _ ab obtain p where p: "at_path mg fs item p" "put_back digest item (fs1 p)"
      by (rule restore_one_back) (use Cons.prems(2) rs in simp)
    have "put_back digest item (fs' p)"
      using restore_all_confined [OF rest rd1, THEN conjunct2] _ p(2) _ _ Cons.prems(6)
      by (rule others_keep) (use p l Cons.prems(4,5) jc in \<open>auto simp: at_path_same_links [OF l] wf_fs_same_links\<close>)
    with p(1) True jc show ?thesis by auto
  next
    case False
    have "already_back digest mg fs1 kc" if "kc \<in> set rest" for kc
      using restore_one_confined [OF one rd, of "[]"] l _ _ Cons.prems(5,6)
      by (rule already_back_later) (use that Cons.prems(3,4) jc in \<open>auto simp: image_iff\<close>)
    with rd1 have "\<forall>ic \<in> set rest. ready mg fs1 ic \<and> already_back digest mg fs1 ic" by blast
    from Cons.IH [OF rest _ this] have "\<exists>p. at_path mg fs1 (fst ic) p \<and> put_back digest (fst ic) (fs' p)"
      using Cons.prems(2,4-7) rs False wf_fs_same_links [OF l] by simp
    then show ?thesis using at_path_same_links [OF l] by simp
  qed
qed simp

section \<open>The life of a checkpoint\<close>

text \<open>
  What may happen to a checkpoint and the workspace under it: the manager's operations, and
  any change at all of the workspace by the task or by somebody else.
\<close>

inductive checkpoint_step :: "(string \<Rightarrow> string) \<Rightarrow> manager \<Rightarrow> checkpoint \<times> store \<Rightarrow> checkpoint \<times> store \<Rightarrow> bool"
  for digest :: "string \<Rightarrow> string" and mg :: manager where
  captured: "capture digest mg raw ck st = Inr (ck', st') \<Longrightarrow> checkpoint_step digest mg (ck, st) (ck', st')"
| recorded: "record_mutation digest mg raw action m ck st = Inr (ck', st') \<Longrightarrow>
    checkpoint_step digest mg (ck, st) (ck', st')"
| worked: "checkpoint_step digest mg (ck, st) (ck, st\<lparr>st_fs := fs\<rparr>)"
| finalized: "finalize ck st = Inr (ck', st') \<Longrightarrow> checkpoint_step digest mg (ck, st) (ck', st')"
| rolled_back: "rollback digest mg b ck st = Inr (r, ck', st') \<Longrightarrow> checkpoint_step digest mg (ck, st) (ck', st')"

inductive task_history :: "(string \<Rightarrow> string) \<Rightarrow> manager \<Rightarrow> checkpoint \<times> store \<Rightarrow> bool"
  for digest :: "string \<Rightarrow> string" and mg :: manager where
  started: "begin_checkpoint uuid now task_id session_id st = Inr (ck, st') \<Longrightarrow> task_history digest mg (ck, st')"
| continued: "task_history digest mg s \<Longrightarrow> checkpoint_step digest mg s s' \<Longrightarrow> task_history digest mg s'"

definition item_ok :: "(string \<Rightarrow> string) \<Rightarrow> (string \<Rightarrow> string option) \<Rightarrow> string \<times> checkpoint_path \<Rightarrow> bool" where
  "item_ok digest blobs = (\<lambda>(key, item). cp_relative_path item = key \<and> hash_known item \<and>
     (cp_original_exists item \<longrightarrow> (\<exists>d. cp_original_hash item = Some (digest d) \<and>
       cp_blob_name item = Some (digest d @ ''.blob'') \<and>
       (\<exists>d'. blobs (digest d @ ''.blob'') = Some d' \<and> digest d' = digest d))))"

definition checkpoint_ok :: "(string \<Rightarrow> string) \<Rightarrow> checkpoint \<Rightarrow> store \<Rightarrow> bool" where
  "checkpoint_ok digest ck st \<longleftrightarrow> dict (ck_paths ck) \<and> st_saved st = Some ck \<and>
     (\<forall>ki \<in> set (ck_paths ck). item_ok digest (st_blobs st) ki) \<and>
     (\<forall>n d. st_blobs st n = Some d \<longrightarrow> n = digest d @ ''.blob'')"

lemma set_update: "ki \<in> set (AList.update k v d) \<Longrightarrow> ki = (k, v) \<or> ki \<in> set d"
  by (induction d) (auto split: if_splits)

lemma begin_ok: "begin_checkpoint uuid now t s st = Inr (ck, st') \<Longrightarrow> checkpoint_ok digest ck st'"
  by (auto simp: begin_checkpoint_def checkpoint_ok_def save_def Let_def split: if_splits)

lemma finalize_ok: "checkpoint_ok digest ck st \<Longrightarrow> finalize ck st = Inr (ck', st') \<Longrightarrow> checkpoint_ok digest ck' st'"
  by (auto simp: finalize_def checkpoint_ok_def save_def Let_def split: if_splits)

lemma rollback_ok:
  "checkpoint_ok digest ck st \<Longrightarrow> rollback digest' mg b ck st = Inr (r, ck', st') \<Longrightarrow> checkpoint_ok digest ck' st'"
  by (auto simp: rollback_def checkpoint_ok_def save_def Let_def raise_simps split: if_splits prod.splits)

lemma record_Inr:
  assumes "record_mutation digest mg raw a m ck st = Inr (ck', st')"
  obtains key item h mt where "map_of (ck_paths ck) key = Some item" "st' = save ck' st"
    "ck' = ck\<lparr>ck_paths := AList.update key (item\<lparr>cp_post_mutation_hash := h,
      cp_mutation_type := mt, cp_action_id := Some a\<rparr>) (ck_paths ck)\<rparr>"
proof -
  from assms obtain p key where t: "target mg (st_fs st) raw = Inr (p, key)"
    by (auto simp: record_mutation_def raise_simps split: if_splits)
  with assms obtain item where item: "map_of (ck_paths ck) key = Some item"
    by (cases "map_of (ck_paths ck) key") (auto simp: record_mutation_def split: if_splits)
  define h where "h = (if exists_at (st_fs st) p then Some (digest (read_bytes (st_fs st) p)) else None)"
  define mt where "mt = Some (case m of None \<Rightarrow> infer_mutation item (exists_at (st_fs st) p) | Some m \<Rightarrow> m)"
  from t item assms have "ck' = ck\<lparr>ck_paths := AList.update key (item\<lparr>cp_post_mutation_hash := h,
      cp_mutation_type := mt, cp_action_id := Some a\<rparr>) (ck_paths ck)\<rparr>" "st' = save ck' st"
    by (auto simp: record_mutation_def Let_def h_def mt_def split: if_splits)
  with item show ?thesis using that by blast
qed

lemma record_ok:
  assumes "checkpoint_ok digest ck st" "record_mutation digest' mg raw a m ck st = Inr (ck', st')"
  shows "checkpoint_ok digest ck' st'"
  using assms(2)
proof (rule record_Inr)
  fix key item h mt
  assume item: "map_of (ck_paths ck) key = Some item" and st': "st' = save ck' st"
    and ck': "ck' = ck\<lparr>ck_paths := AList.update key (item\<lparr>cp_post_mutation_hash := h, cp_mutation_type := mt,
      cp_action_id := Some a\<rparr>) (ck_paths ck)\<rparr>"
  from item have "item_ok digest (st_blobs st) (key, item)"
    using assms(1) by (auto simp: checkpoint_ok_def dest: map_of_SomeD)
  then have "item_ok digest (st_blobs st) (key, item\<lparr>cp_post_mutation_hash := h, cp_mutation_type := mt,
      cp_action_id := Some a\<rparr>)" by (simp add: item_ok_def hash_known_def)
  with assms(1) show ?thesis unfolding ck' st' checkpoint_ok_def by (auto simp: save_def dest!: set_update)
qed

lemma item_ok_more_blobs:
  "item_ok digest blobs ki \<Longrightarrow> blobs \<subseteq>\<^sub>m blobs' \<Longrightarrow> item_ok digest blobs' ki"
  by (auto simp: item_ok_def map_le_def dom_def)

text \<open>What a first capture of \<open>p\<close> records, and the blobs it leaves.\<close>

definition captured_item :: "(string \<Rightarrow> string) \<Rightarrow> filesystem \<Rightarrow> path \<Rightarrow> string \<Rightarrow> checkpoint_path" where
  "captured_item digest fs p key =
     (let there = exists_at fs p; h = digest (read_bytes fs p) in
      \<lparr>cp_relative_path = key, cp_original_exists = there,
       cp_original_hash = (if there then Some h else None),
       cp_blob_name = (if there then Some (h @ ''.blob'') else None),
       cp_original_mode = (if there then Some (mode_at fs p) else None),
       cp_post_mutation_hash = None, cp_mutation_type = None, cp_action_id = None\<rparr>)"

definition captured_blobs :: "(string \<Rightarrow> string) \<Rightarrow> filesystem \<Rightarrow> path \<Rightarrow> (string \<Rightarrow> string option) \<Rightarrow>
    string \<Rightarrow> string option" where
  "captured_blobs digest fs p blobs =
     (let name = digest (read_bytes fs p) @ ''.blob'' in
      if exists_at fs p \<and> blobs name = None then blobs(name \<mapsto> read_bytes fs p) else blobs)"

lemma capture_Inr:
  assumes "capture digest mg raw ck st = Inr (ck', st')"
  obtains (again) p key where "ck' = ck" "st' = st" "target mg (st_fs st) raw = Inr (p, key)" "has_key (ck_paths ck) key"
  | (first) p key where "target mg (st_fs st) raw = Inr (p, key)" "\<not> has_key (ck_paths ck) key"
      "ck' = ck\<lparr>ck_paths := AList.update key (captured_item digest (st_fs st) p key) (ck_paths ck)\<rparr>"
      "st' = save ck' (st\<lparr>st_blobs := captured_blobs digest (st_fs st) p (st_blobs st)\<rparr>)"
proof -
  from assms obtain p key where t: "target mg (st_fs st) raw = Inr (p, key)" "ck_status ck = CP_ACTIVE"
    by (auto simp: capture_def raise_simps split: if_splits)
  show ?thesis
  proof (cases "has_key (ck_paths ck) key")
    case True
    with assms t again show ?thesis by (simp add: capture_def)
  next
    case False
    with assms t have "(ck\<lparr>ck_paths := AList.update key (captured_item digest (st_fs st) p key) (ck_paths ck)\<rparr>,
        save (ck\<lparr>ck_paths := AList.update key (captured_item digest (st_fs st) p key) (ck_paths ck)\<rparr>)
          (st\<lparr>st_blobs := captured_blobs digest (st_fs st) p (st_blobs st)\<rparr>)) = (ck', st')"
      by (auto simp: capture_def captured_item_def captured_blobs_def Let_def simp del: fun_upd_apply split: if_splits)
    with t(1) False show ?thesis using first by auto
  qed
qed

lemma captured_blobs_named:
  "\<forall>n d. blobs n = Some d \<longrightarrow> n = digest d @ ''.blob'' \<Longrightarrow>
     \<forall>n d. captured_blobs digest fs p blobs n = Some d \<longrightarrow> n = digest d @ ''.blob''"
  by (simp add: captured_blobs_def Let_def)

lemma captured_blobs_more: "blobs \<subseteq>\<^sub>m captured_blobs digest fs p blobs"
  by (auto simp: captured_blobs_def Let_def map_le_def)

lemma captured_item_ok:
  assumes "\<forall>n d. blobs n = Some d \<longrightarrow> n = digest d @ ''.blob''"
  shows "item_ok digest (captured_blobs digest fs p blobs) (key, captured_item digest fs p key)"
proof (cases "exists_at fs p")
  case True
  then have "captured_blobs digest fs p blobs (digest (read_bytes fs p) @ ''.blob'') \<noteq> None"
    by (auto simp: captured_blobs_def Let_def)
  then obtain d where "captured_blobs digest fs p blobs (digest (read_bytes fs p) @ ''.blob'') = Some d" by blast
  moreover from this captured_blobs_named [OF assms, of fs p] have "digest d = digest (read_bytes fs p)" by fastforce
  ultimately show ?thesis using True by (simp add: item_ok_def hash_known_def captured_item_def Let_def) blast
qed (simp add: item_ok_def hash_known_def captured_item_def Let_def)

lemma capture_ok:
  assumes ok: "checkpoint_ok digest ck st" and c: "capture digest mg raw ck st = Inr (ck', st')"
  shows "checkpoint_ok digest ck' st'"
  using c
proof (cases rule: capture_Inr)
  case again
  with ok show ?thesis by simp
next
  case (first p key)
  from ok have named: "\<forall>n d. st_blobs st n = Some d \<longrightarrow> n = digest d @ ''.blob''" by (simp add: checkpoint_ok_def)
  have b: "st_blobs st' = captured_blobs digest (st_fs st) p (st_blobs st)" using first(4) by (simp add: save_def)
  show ?thesis unfolding checkpoint_ok_def
  proof (intro conjI ballI)
    show "dict (ck_paths ck')" using ok first(3) by (simp add: checkpoint_ok_def)
    show "st_saved st' = Some ck'" using first(4) by (simp add: save_def)
    show "\<forall>n d. st_blobs st' n = Some d \<longrightarrow> n = digest d @ ''.blob''"
      unfolding b by (rule captured_blobs_named [OF named])
    fix ki
    assume "ki \<in> set (ck_paths ck')"
    then consider "ki = (key, captured_item digest (st_fs st) p key)" | "ki \<in> set (ck_paths ck)"
      using first(3) by (auto dest: set_update)
    then show "item_ok digest (st_blobs st') ki"
    proof cases
      case 1
      then show ?thesis unfolding b using captured_item_ok [OF named] by simp
    next
      case 2
      with ok have "item_ok digest (st_blobs st) ki" by (simp add: checkpoint_ok_def)
      then show ?thesis unfolding b by (rule item_ok_more_blobs [OF _ captured_blobs_more])
    qed
  qed
qed

lemma checkpoint_ok_fs: "checkpoint_ok digest ck (st\<lparr>st_fs := fs\<rparr>) = checkpoint_ok digest ck st"
  by (simp add: checkpoint_ok_def)

lemma step_ok:
  "checkpoint_step digest mg s s' \<Longrightarrow> checkpoint_ok digest (fst s) (snd s) \<Longrightarrow> checkpoint_ok digest (fst s') (snd s')"
proof (induction rule: checkpoint_step.induct)
  case captured
  with capture_ok show ?case by fastforce
next
  case recorded
  with record_ok show ?case by fastforce
next
  case finalized
  with finalize_ok show ?case by fastforce
next
  case rolled_back
  with rollback_ok show ?case by fastforce
qed (simp add: checkpoint_ok_fs)

lemma history_ok: "task_history digest mg s \<Longrightarrow> checkpoint_ok digest (fst s) (snd s)"
proof (induction rule: task_history.induct)
  case started
  with begin_ok show ?case by fastforce
qed (rule step_ok)

lemma mutated_items:
  assumes "checkpoint_ok digest ck st"
  shows "distinct (map cp_relative_path (mutated ck)) \<and> (\<forall>item \<in> set (mutated ck). hash_known item)"
proof -
  from assms have "map cp_relative_path (dict_values (ck_paths ck)) = map fst (ck_paths ck)"
    by (auto simp: checkpoint_ok_def item_ok_def dict_values_def)
  moreover have "distinct (map fst (ck_paths ck))" using assms by (simp add: checkpoint_ok_def)
  ultimately have "distinct (map cp_relative_path (mutated ck))"
    unfolding mutated_def by (metis distinct_map_filter)
  with assms show ?thesis by (auto simp: checkpoint_ok_def item_ok_def mutated_def dict_values_def)
qed

section \<open>The whole rollback\<close>

lemma rollback_Inr:
  assumes "rollback digest mg b ck st = Inr (r, ck', st')"
  obtains (refused) checks where "b" "rr_status r = RB_CONFLICT" "st_fs st' = st_fs st"
      "mapE (preflight digest mg (st_fs st)) (mutated ck) = Inr checks" "list_ex blocked checks"
  | (ran) checks rs where "mapE (preflight digest mg (st_fs st)) (mutated ck) = Inr checks"
      "b \<longrightarrow> \<not> list_ex blocked checks"
      "restore_all digest mg (st_blobs st) (zip (mutated ck) checks) (st_fs st) = (rs, st_fs st')"
      "rr_paths r = rs" "rr_status r = overall rs"
proof -
  from assms obtain checks where c: "mapE (preflight digest mg (st_fs st)) (mutated ck) = Inr checks"
    and s: "ck_status ck \<in> {CP_ACTIVE, CP_CONFLICT}"
    by (auto simp: rollback_def raise_simps split: if_splits)
  obtain rs fs' where r: "restore_all digest mg (st_blobs st) (zip (mutated ck) checks) (st_fs st) = (rs, fs')"
    by (cases "restore_all digest mg (st_blobs st) (zip (mutated ck) checks) (st_fs st)")
  show ?thesis
  proof (cases "list_ex blocked checks \<and> b")
    case True
    with assms c s show ?thesis by (intro refused [of checks]) (auto simp: rollback_def save_def Let_def)
  next
    case False
    with assms c s r show ?thesis by (intro ran [of checks rs]) (auto simp: rollback_def save_def Let_def)
  qed
qed

lemma mapE_zip: "mapE f xs = Inr ys \<Longrightarrow> (x, y) \<in> set (zip xs ys) \<Longrightarrow> f x = Inr y"
  by (induction xs arbitrary: ys) (auto simp: raise_simps)

lemma checks_ready:
  "mapE (preflight digest mg fs) items = Inr checks \<Longrightarrow> \<forall>ic \<in> set (zip items checks). ready mg fs ic"
  by (auto dest!: mapE_zip intro: preflight_ready)

lemma checks_already_back:
  assumes "mapE (preflight digest mg fs) items = Inr checks" "\<forall>item \<in> set items. hash_known item"
  shows "\<forall>ic \<in> set (zip items checks). already_back digest mg fs ic"
  using assms by (auto simp: already_back_def dest!: mapE_zip dest: set_zip_leftD intro: preflight_already)

lemma restore_one_status:
  "restore_one digest mg blobs item checked fs = (r, fs') \<Longrightarrow> \<not> blocked checked \<Longrightarrow> ready mg fs (item, checked) \<Longrightarrow>
     pr_status r \<noteq> PATH_CONFLICT"
  by (auto simp: restore_one_def ready_def restored_ok_def split: sum.splits dest!: restore_path_Inr)

lemma restore_all_no_conflict:
  "restore_all digest mg blobs its fs = (rs, fs') \<Longrightarrow> \<forall>ic \<in> set its. ready mg fs ic \<and> \<not> blocked (snd ic) \<Longrightarrow>
     r \<in> set rs \<Longrightarrow> pr_status r \<noteq> PATH_CONFLICT"
proof (induction its arbitrary: rs fs)
  case (Cons ic rest)
  obtain item checked where ic: "ic = (item, checked)" by (cases ic)
  from Cons.prems(1) obtain r1 fs1 rs' where one: "restore_one digest mg blobs item checked fs = (r1, fs1)"
    and rest: "restore_all digest mg blobs rest fs1 = (rs', fs')" and rs: "rs = r1 # rs'"
    unfolding ic by (elim restore_all_Cons)
  have rd: "ready mg fs (item, checked)" "\<not> blocked checked" using Cons.prems(2) ic by auto
  note l = restore_one_links [OF one rd(1)]
  have "\<forall>ic \<in> set rest. ready mg fs1 ic \<and> \<not> blocked (snd ic)"
    using Cons.prems(2) ready_same_links [OF l] by simp
  with Cons.IH [OF rest] restore_one_status [OF one rd(2,1)] Cons.prems(3) rs show ?case by auto
qed simp

lemma overall_conflict: "overall rs = RB_CONFLICT \<Longrightarrow> \<exists>r \<in> set rs. pr_status r = PATH_CONFLICT"
  by (auto simp: overall_def list_ex_iff split: if_splits)

lemma overall_success: "overall rs = RB_SUCCESS \<Longrightarrow> list_all restored_ok rs"
  by (auto simp: overall_def split: if_splits)

lemma list_ex_zip: "\<not> list_ex P ys \<Longrightarrow> ic \<in> set (zip xs ys) \<Longrightarrow> \<not> P (snd ic)"
  by (cases ic) (auto simp: list_ex_iff dest: set_zip_rightD)

section \<open>What stays of a capture\<close>

definition same_original :: "checkpoint_path \<Rightarrow> checkpoint_path \<Rightarrow> bool" where
  "same_original i j \<longleftrightarrow> cp_original_exists j = cp_original_exists i \<and> cp_original_hash j = cp_original_hash i \<and>
     cp_blob_name j = cp_blob_name i"

definition kept :: "checkpoint \<times> store \<Rightarrow> checkpoint \<times> store \<Rightarrow> bool" where
  "kept s s' \<longleftrightarrow> ck_checkpoint_id (fst s') = ck_checkpoint_id (fst s) \<and> st_blobs (snd s) \<subseteq>\<^sub>m st_blobs (snd s') \<and>
     (\<forall>key i. map_of (ck_paths (fst s)) key = Some i \<longrightarrow>
       (\<exists>j. map_of (ck_paths (fst s')) key = Some j \<and> same_original i j))"

lemma same_original_refl [simp]: "same_original i i"
  by (simp add: same_original_def)

lemma kept_refl [simp]: "kept s s"
  by (simp add: kept_def)

lemma same_original_trans: "same_original i j \<Longrightarrow> same_original j k \<Longrightarrow> same_original i k"
  by (simp add: same_original_def)

lemma kept_trans: "kept a b \<Longrightarrow> kept b c \<Longrightarrow> kept a c"
  unfolding kept_def by (auto intro: map_le_trans) (blast intro: same_original_trans)

lemma kept_same_paths:
  "ck_checkpoint_id ck' = ck_checkpoint_id ck \<Longrightarrow> ck_paths ck' = ck_paths ck \<Longrightarrow> st_blobs st' = st_blobs st \<Longrightarrow>
     kept (ck, st) (ck', st')"
  by (simp add: kept_def)

lemma step_kept: "checkpoint_step digest mg s s' \<Longrightarrow> kept s s'"
proof (induction rule: checkpoint_step.induct)
  case (captured raw ck st ck' st')
  then show ?case
  proof (cases rule: capture_Inr)
    case (first p key)
    then show ?thesis
      by (auto simp: kept_def save_def captured_blobs_more map_of_update has_key_iff)
  qed simp
next
  case (recorded raw action m ck st ck' st')
  then show ?case
  proof (rule record_Inr)
    fix key item h mt
    assume "map_of (ck_paths ck) key = Some item" "st' = save ck' st"
      "ck' = ck\<lparr>ck_paths := AList.update key (item\<lparr>cp_post_mutation_hash := h,
        cp_mutation_type := mt, cp_action_id := Some action\<rparr>) (ck_paths ck)\<rparr>"
    then show ?thesis by (auto simp: kept_def save_def map_of_update same_original_def)
  qed
next
  case finalized
  then show ?case by (auto simp: finalize_def save_def Let_def split: if_splits intro: kept_same_paths)
next
  case rolled_back
  then show ?case
    by (auto simp: rollback_def raise_simps save_def Let_def split: if_splits prod.splits intro: kept_same_paths)
qed (simp add: kept_def)

lemma steps_kept: "(checkpoint_step digest mg)\<^sup>*\<^sup>* s s' \<Longrightarrow> kept s s'"
  by (induction rule: rtranclp_induct) (auto intro: kept_trans step_kept)

lemma steps_history:
  "(checkpoint_step digest mg)\<^sup>*\<^sup>* s s' \<Longrightarrow> task_history digest mg s \<Longrightarrow> task_history digest mg s'"
  by (induction rule: rtranclp_induct) (auto intro: continued)

lemma validate_saved: "st_saved st = Some ck \<Longrightarrow> valid_id (ck_checkpoint_id ck) \<Longrightarrow> validate_identity ck st = Inr ()"
  by (simp add: validate_identity_def load_def)

lemma original_bytes_known:
  assumes "checkpoint_ok digest ck st" "valid_id (ck_checkpoint_id ck)" "map_of (ck_paths ck) key = Some item"
    and "\<forall>d. valid_blob_name (digest d @ ''.blob'')"
  shows "if cp_original_exists item
    then \<exists>d. original_bytes digest key ck st = Inr (Some d) \<and> cp_original_hash item = Some (digest d)
    else original_bytes digest key ck st = Inr None"
proof -
  have v: "validate_identity ck st = Inr ()"
    using assms(1,2) by (intro validate_saved) (simp_all add: checkpoint_ok_def)
  have "item_ok digest (st_blobs st) (key, item)"
    using assms(1,3) by (auto simp: checkpoint_ok_def dest: map_of_SomeD)
  with v assms(3,4) show ?thesis by (auto simp: original_bytes_def item_ok_def)
qed

text \<open>
  A rollback that ends in a conflict, under the default policy, has left every file of
  the workspace as it was.
\<close>

theorem conflict_touches_nothing:
  assumes "rollback digest mg True ck st = Inr (r, ck', st')" "rr_status r = RB_CONFLICT"
  shows "st_fs st' = st_fs st"
  using assms(1)
proof (cases rule: rollback_Inr)
  case (ran checks rs)
  note ready = checks_ready [OF ran(1)]
  from ran(5) assms(2) overall_conflict [of rs] obtain x where x: "x \<in> set rs" "pr_status x = PATH_CONFLICT" by auto
  have "\<forall>ic \<in> set (zip (mutated ck) checks). ready mg (st_fs st) ic \<and> \<not> blocked (snd ic)"
    using ready ran(2) by (auto dest: list_ex_zip)
  from restore_all_no_conflict [OF ran(3) this x(1)] x(2) show ?thesis by simp
qed simp

text \<open>
  C8: after a rollback that reports success, every file the task is recorded to have changed
  is back: where a file was captured there is one with the captured content, where there was
  none there is none.
\<close>

theorem successful_rollback_restores:
  assumes "task_history digest mg (ck, st)" "rollback digest mg b ck st = Inr (r, ck', st')"
    and "rr_status r = RB_SUCCESS" "wf_fs (st_fs st)" "wf_manager mg" "item \<in> set (mutated ck)"
  shows "\<exists>p. at_path mg (st_fs st) item p \<and> put_back digest item (st_fs st' p)"
  using assms(2)
proof (cases rule: rollback_Inr)
  case (ran checks rs)
  note m = mutated_items [OF history_ok [OF assms(1), simplified]]
  have len: "length checks = length (mutated ck)" using ran(1) by (rule mapE_length)
  then have fst: "map fst (zip (mutated ck) checks) = mutated ck" by simp
  with assms(6) obtain c where c: "(item, c) \<in> set (zip (mutated ck) checks)" by (metis in_set_impl_in_set_zip1 len)
  have "\<exists>p. at_path mg (st_fs st) (fst (item, c)) p \<and> put_back digest (fst (item, c)) (st_fs st' p)"
    using ran(3) _ _ _ assms(4,5) c
  proof (rule restore_all_back)
    show "list_all restored_ok rs" using ran(5) assms(3) overall_success by simp
    show "\<forall>ic \<in> set (zip (mutated ck) checks). ready mg (st_fs st) ic \<and> already_back digest mg (st_fs st) ic"
      using checks_ready [OF ran(1)] checks_already_back [OF ran(1)] m by blast
    show "distinct (map (cp_relative_path \<circ> fst) (zip (mutated ck) checks))"
      using m fst by (metis map_map)
  qed
  then show ?thesis by simp
qed (use assms(3) in simp)

text \<open>
  C27: rollback writes nowhere else.  Whatever it reports, every place of the filesystem it
  changes is the place of a file the task changed, or a missing directory above one; and
  such a file lies under one of the manager's roots and outside the checkpoint store.
\<close>

theorem rollback_is_confined:
  assumes "rollback digest mg b ck st = Inr (r, ck', st')" "st_fs st' q \<noteq> st_fs st q"
  shows "\<exists>item \<in> set (mutated ck). \<exists>p. at_path mg (st_fs st) item p
    \<and> (q = p \<or> st_fs st q = None \<and> st_fs st' q = Some Dir \<and> q \<in> set (parents p))
    \<and> (\<exists>root \<in> set (mg_workspace mg # mg_extra_roots mg). under root p) \<and> \<not> under (mg_storage_root mg) p"
  using assms(1)
proof (cases rule: rollback_Inr)
  case (ran checks rs)
  let ?ps = "may_change mg (st_fs st) (zip (mutated ck) checks)"
  from restore_all_confined [OF ran(3) checks_ready [OF ran(1)]] assms(2)
  obtain p where p: "p \<in> ?ps" "q = p \<or> st_fs st q = None \<and> st_fs st' q = Some Dir \<and> q \<in> set (parents p)"
    unfolding confined_def by blast
  then obtain item where i: "item \<in> set (mutated ck)" "at_path mg (st_fs st) item p"
    by (auto simp: may_change_def dest: set_zip_leftD)
  have "(\<exists>root \<in> set (mg_workspace mg # mg_extra_roots mg). under root p) \<and> \<not> under (mg_storage_root mg) p"
    by (rule target_scope) (use i(2) in \<open>simp add: at_path_def\<close>)
  with i p(2) show ?thesis by blast
qed (use assms(2) in simp)

text \<open>
  The first capture of a path is the original for the whole life of the checkpoint.
  Whatever is captured, recorded, changed in the workspace or rolled back afterwards, the
  content the path had then, known by its digest, can still be read back.
\<close>

theorem capture_survives:
  assumes "task_history digest mg (ck, st)" "capture digest mg raw ck st = Inr (ck1, st1)"
    and "target mg (st_fs st) raw = Inr (p, key)" "\<not> has_key (ck_paths ck) key"
    and "(checkpoint_step digest mg)\<^sup>*\<^sup>* (ck1, st1) (ck2, st2)"
    and "valid_id (ck_checkpoint_id ck)" "\<forall>d. valid_blob_name (digest d @ ''.blob'')"
  shows "if exists_at (st_fs st) p
    then \<exists>d. original_bytes digest key ck2 st2 = Inr (Some d) \<and> digest d = digest (read_bytes (st_fs st) p)
    else original_bytes digest key ck2 st2 = Inr None"
proof -
  have h1: "task_history digest mg (ck1, st1)" using assms(1,2) by (blast intro: continued captured)
  have item: "map_of (ck_paths ck1) key = Some (captured_item digest (st_fs st) p key)"
    using assms(2)
  proof (cases rule: capture_Inr)
    case again
    with assms(3,4) show ?thesis by simp
  next
    case (first p' key')
    with assms(3) show ?thesis by (simp add: map_of_update)
  qed
  have k: "kept (ck1, st1) (ck2, st2)" by (rule steps_kept [OF assms(5)])
  with item obtain j where j: "map_of (ck_paths ck2) key = Some j"
    "same_original (captured_item digest (st_fs st) p key) j" by (auto simp: kept_def)
  have "ck_checkpoint_id ck2 = ck_checkpoint_id ck"
    using k step_kept [OF captured [OF assms(2)]] by (simp add: kept_def)
  with assms(6) have v: "valid_id (ck_checkpoint_id ck2)" by simp
  have ok: "checkpoint_ok digest ck2 st2" using history_ok [OF steps_history [OF assms(5) h1]] by simp
  from original_bytes_known [OF ok v j(1) assms(7)] j(2) show ?thesis
    by (auto simp: same_original_def captured_item_def Let_def split: if_splits)
qed

section \<open>Tasks played out\<close>

text \<open>A task as a list of what it does, run on a new checkpoint.\<close>

datatype task_action = Capture string | Record string string | Work filesystem

fun perform :: "(string \<Rightarrow> string) \<Rightarrow> manager \<Rightarrow> task_action list \<Rightarrow> checkpoint \<times> store \<Rightarrow>
    checkpoint_error + checkpoint \<times> store" where
  "perform digest mg [] s = Inr s"
| "perform digest mg (Capture raw # acts) (ck, st) = bindE (capture digest mg raw ck st) (perform digest mg acts)"
| "perform digest mg (Record raw a # acts) (ck, st) =
     bindE (record_mutation digest mg raw a None ck st) (perform digest mg acts)"
| "perform digest mg (Work fs # acts) (ck, st) = perform digest mg acts (ck, st\<lparr>st_fs := fs\<rparr>)"

definition play :: "(string \<Rightarrow> string) \<Rightarrow> manager \<Rightarrow> filesystem \<Rightarrow> task_action list \<Rightarrow>
    checkpoint_error + checkpoint \<times> store" where
  "play digest mg fs acts =
     bindE (begin_checkpoint ''00000000'' ''now'' ''task_001'' ''session_1''
       \<lparr>st_fs = fs, st_blobs = (\<lambda>_. None), st_saved = None\<rparr>) (perform digest mg acts)"

lemma perform_history:
  "perform digest mg acts s = Inr s' \<Longrightarrow> task_history digest mg s \<Longrightarrow> task_history digest mg s'"
proof (induction digest mg acts s rule: perform.induct)
  case (2 digest mg raw acts ck st)
  then show ?case by (auto simp: raise_simps dest: continued [OF _ captured])
next
  case (3 digest mg raw a acts ck st)
  then show ?case by (auto simp: raise_simps dest: continued [OF _ recorded])
qed (auto intro: continued worked)

lemma play_history: "play digest mg fs acts = Inr s \<Longrightarrow> task_history digest mg s"
  by (auto simp: play_def raise_simps intro: perform_history started)

definition demo_digest :: "string \<Rightarrow> string" where
  "demo_digest s = replicate 63 CHR ''0'' @ [if s = ''new'' then CHR ''1'' else CHR ''2'']"

definition demo_manager :: manager where
  "demo_manager = \<lparr>mg_storage_root = [''s''], mg_workspace = [''w''], mg_extra_roots = []\<rparr>"

definition demo_fs :: "(path \<times> fs_node) list \<Rightarrow> filesystem" where
  "demo_fs files p = (if p = [] \<or> p = [''w''] then Some Dir else map_of files p)"

lemma demo_digest_valid: "\<forall>d. valid_blob_name (demo_digest d @ ''.blob'')"
  by (simp add: valid_blob_name_def demo_digest_def hex_digit_def ascii_digit_def list_all_iff)

lemma demo_wf: "wf_manager demo_manager"
  by (simp add: wf_manager_def demo_manager_def plain_def)

lemma demo_fs_wf: "\<forall>n \<in> snd ` set files. \<not> (\<exists>a t. n = Symlink a t) \<Longrightarrow> wf_fs (demo_fs files)"
  by (fastforce simp: wf_fs_def demo_fs_def split: if_splits dest: map_of_SomeD)

text \<open>A task that changes one file.\<close>

definition demo_edit :: "checkpoint_error + checkpoint \<times> store" where
  "demo_edit = play demo_digest demo_manager (demo_fs [([''w'', ''a''], File ''old'' 420)])
     [Capture ''a'', Work (demo_fs [([''w'', ''a''], File ''new'' 420)]), Record ''a'' ''act_1'']"

text \<open>The same, and then the file is changed again by somebody else.\<close>

definition demo_raced :: "checkpoint_error + checkpoint \<times> store" where
  "demo_raced = play demo_digest demo_manager (demo_fs [([''w'', ''a''], File ''new'' 420)])
     [Capture ''a'', Work (demo_fs [([''w'', ''a''], File ''old'' 420)]), Record ''a'' ''act_1'',
      Work (demo_fs [([''w'', ''a''], Dir)])]"

text \<open>A task that replaces a directory, whose only file it deletes, by a file.\<close>

definition demo_replaced :: "checkpoint_error + checkpoint \<times> store" where
  "demo_replaced = play demo_digest demo_manager
     (demo_fs [([''w'', ''a''], Dir), ([''w'', ''a'', ''b''], File ''old'' 420)])
     [Capture ''a/b'', Work (demo_fs []), Capture ''a'', Work (demo_fs [([''w'', ''a''], File ''new'' 420)]),
      Record ''a/b'' ''act_1'', Record ''a'' ''act_2'']"

definition rolls_back_to :: "checkpoint_error + checkpoint \<times> store \<Rightarrow> rollback_status \<Rightarrow> path \<Rightarrow> fs_node option \<Rightarrow> bool" where
  "rolls_back_to s status p node =
     (case s of Inl _ \<Rightarrow> False
      | Inr (ck, st) \<Rightarrow> (case rollback demo_digest demo_manager True ck st of Inl _ \<Rightarrow> False
        | Inr (r, ck', st') \<Rightarrow> rr_status r = status \<and> st_fs st' p = node \<and> mutated ck \<noteq> []))"

lemma rolls_back_toD:
  assumes "rolls_back_to s status p node"
  obtains ck st r ck' st' where "s = Inr (ck, st)" "rollback demo_digest demo_manager True ck st = Inr (r, ck', st')"
    "rr_status r = status" "st_fs st' p = node" "mutated ck \<noteq> []"
proof -
  from assms obtain ck st where s: "s = Inr (ck, st)" by (auto simp: rolls_back_to_def split: sum.splits)
  show ?thesis
  proof (cases "rollback demo_digest demo_manager True ck st")
    case (Inr x)
    with s assms show ?thesis by (cases x) (auto simp: rolls_back_to_def intro: that)
  qed (use s assms in \<open>simp add: rolls_back_to_def\<close>)
qed

lemma demo_edit_rolls_back: "rolls_back_to demo_edit RB_SUCCESS [''w'', ''a''] (Some (File ''old'' 420))"
  by code_simp

lemma demo_raced_conflicts: "rolls_back_to demo_raced RB_CONFLICT [''w'', ''a''] (Some Dir)"
  by code_simp

lemma demo_replaced_partial: "rolls_back_to demo_replaced RB_PARTIAL [''w'', ''a''] None"
  by code_simp

lemma demo_replaced_fs: "demo_replaced = Inr (ck, st) \<Longrightarrow> st_fs st [''w'', ''a''] = Some (File ''new'' 420)"
  by (auto simp: demo_replaced_def play_def raise_simps save_def demo_fs_def elim!: record_Inr)

lemma demo_edit_wf: "demo_edit = Inr (ck, st) \<Longrightarrow> wf_fs (st_fs st)"
  by (auto simp: demo_edit_def play_def raise_simps save_def elim!: record_Inr intro!: demo_fs_wf)

theorem conflict_touches_nothing_witness:
  "\<exists>ck st r ck' st'. rollback demo_digest demo_manager True ck st = Inr (r, ck', st') \<and> rr_status r = RB_CONFLICT
     \<and> st_fs st' = st_fs st"
  using demo_raced_conflicts by (rule rolls_back_toD) (use conflict_touches_nothing in blast)

theorem successful_rollback_restores_witness:
  "\<exists>ck st r ck' st' item p. rollback demo_digest demo_manager True ck st = Inr (r, ck', st') \<and> rr_status r = RB_SUCCESS
     \<and> item \<in> set (mutated ck) \<and> at_path demo_manager (st_fs st) item p \<and> put_back demo_digest item (st_fs st' p)"
  using demo_edit_rolls_back
proof (rule rolls_back_toD)
  fix ck st r ck' st'
  assume s: "demo_edit = Inr (ck, st)" and r: "rollback demo_digest demo_manager True ck st = Inr (r, ck', st')"
    "rr_status r = RB_SUCCESS" and m: "mutated ck \<noteq> []"
  have h: "task_history demo_digest demo_manager (ck, st)" using s unfolding demo_edit_def by (rule play_history)
  from m have "hd (mutated ck) \<in> set (mutated ck)" by simp
  from successful_rollback_restores [OF h r demo_edit_wf [OF s] demo_wf this] r this show ?thesis by blast
qed

theorem rollback_is_confined_witness:
  "\<exists>ck st r ck' st'. rollback demo_digest demo_manager True ck st = Inr (r, ck', st') \<and>
     st_fs st' [''w'', ''a''] \<noteq> st_fs st [''w'', ''a''] \<and>
     (\<exists>item \<in> set (mutated ck). \<exists>p. at_path demo_manager (st_fs st) item p \<and> under [''w''] p)"
  using demo_replaced_partial
proof (rule rolls_back_toD)
  fix ck st r ck' st'
  assume s: "demo_replaced = Inr (ck, st)" and r: "rollback demo_digest demo_manager True ck st = Inr (r, ck', st')"
    and n: "st_fs st' [''w'', ''a''] = None"
  have d: "st_fs st' [''w'', ''a''] \<noteq> st_fs st [''w'', ''a'']" using n demo_replaced_fs [OF s] by simp
  have "\<exists>item \<in> set (mutated ck). \<exists>p. at_path demo_manager (st_fs st) item p \<and> under [''w''] p"
    using rollback_is_confined [OF r d] by (auto simp: demo_manager_def)
  with r d show ?thesis by blast
qed

theorem capture_survives_witness:
  "\<exists>ck st ck1 st1. capture demo_digest demo_manager ''a'' ck st = Inr (ck1, st1) \<and>
     (\<exists>d. original_bytes demo_digest ''a'' ck1 st1 = Inr (Some d) \<and> demo_digest d = demo_digest ''old'')"
proof -
  let ?fs = "demo_fs [([''w'', ''a''], File ''old'' 420)]"
  let ?st = "\<lparr>st_fs = ?fs, st_blobs = (\<lambda>_. None), st_saved = None\<rparr>"
  obtain ck st where b: "begin_checkpoint ''00000000'' ''now'' ''task_001'' ''session_1'' ?st = Inr (ck, st)"
    and ck: "ck_paths ck = []" "ck_checkpoint_id ck = ''checkpoint_00000000''" "ck_status ck = CP_ACTIVE"
    and st: "st_fs st = ?fs"
    by (auto simp: begin_checkpoint_def valid_id_def ascii_letter_def ascii_digit_def save_def Let_def)
  have t: "target demo_manager ?fs ''a'' = Inr ([''w'', ''a''], ''a'')" by code_simp
  have v: "valid_id (ck_checkpoint_id ck)" unfolding ck by code_simp
  have e: "exists_at ?fs [''w'', ''a'']" "read_bytes ?fs [''w'', ''a''] = ''old''"
    "is_file ?fs [''w'', ''a'']" "\<not> is_symlink ?fs [''w'', ''a'']" by code_simp+
  from t e ck st obtain ck1 st1 where c: "capture demo_digest demo_manager ''a'' ck st = Inr (ck1, st1)"
    by (auto simp: capture_def has_key_def Let_def)
  have "\<not> has_key (ck_paths ck) ''a''" by (simp add: ck has_key_def)
  from capture_survives [OF started [OF b] c _ this rtranclp.rtrancl_refl v demo_digest_valid] t e st
  have "\<exists>d. original_bytes demo_digest ''a'' ck1 st1 = Inr (Some d) \<and> demo_digest d = demo_digest ''old''" by simp
  with c show ?thesis by blast
qed

text \<open>
  The default policy does not make rollback all or nothing.  A task that deletes the only
  file of a directory and puts a file in the directory's place passes every check; the
  deleted file cannot be written back under a file, the new file is removed all the same,
  and the rollback ends half done.
\<close>

theorem all_or_nothing_can_stop_half_way:
  "\<exists>ck st r ck' st'. task_history demo_digest demo_manager (ck, st) \<and>
     rollback demo_digest demo_manager True ck st = Inr (r, ck', st') \<and> rr_status r = RB_PARTIAL \<and>
     st_fs st [''w'', ''a''] = Some (File ''new'' 420) \<and> st_fs st' [''w'', ''a''] = None"
  using demo_replaced_partial
proof (rule rolls_back_toD)
  fix ck st r ck' st'
  assume s: "demo_replaced = Inr (ck, st)" and r: "rollback demo_digest demo_manager True ck st = Inr (r, ck', st')"
    "rr_status r = RB_PARTIAL" "st_fs st' [''w'', ''a''] = None"
  have "task_history demo_digest demo_manager (ck, st)" using s unfolding demo_replaced_def by (rule play_history)
  with r demo_replaced_fs [OF s] show ?thesis by blast
qed

end
