(* ===== verification/Training_Jobs.thy ===== *)
theory Training_Jobs
  imports Spear_Prelude
begin

text \<open>
  Records of training runs (\<open>client/training/training_jobs.py\<close>): a job moves along a fixed
  table of statuses; each change is written to \<open>job.json\<close> and appended, with a snapshot of the
  whole job, to a journal from which a lost \<open>job.json\<close> is rebuilt.

  A file is modelled at the level of the JSON it holds: \<open>job.json\<close> is absent, text that is not
  JSON, bytes that are not UTF-8 or one object; the journal is its lines, each an object or
  unreadable, and perhaps a last piece without its newline, which is what a crash during an
  append leaves.  Only the store writes these files, in ASCII, so a readable one holds an
  object, and a journal is text even where a line of it is torn.  The check that the resolved directory is
  still inside the store concerns symbolic links and is left out.
\<close>

section \<open>Jobs\<close>

datatype job_error = TrainingJobError string | OtherError string

datatype training_method = SFT | KTO | DPO

datatype training_job_status =
    J_PREPARED | J_PREFLIGHT | J_STARTING | J_RUNNING | J_COMPLETED | J_FAILED | J_STOPPING | J_STOPPED | J_LOST

fun method_value :: "training_method \<Rightarrow> string" where
  "method_value SFT = ''SFT''"
| "method_value KTO = ''KTO''"
| "method_value DPO = ''DPO''"

fun job_status_value :: "training_job_status \<Rightarrow> string" where
  "job_status_value J_PREPARED = ''PREPARED''"
| "job_status_value J_PREFLIGHT = ''PREFLIGHT''"
| "job_status_value J_STARTING = ''STARTING''"
| "job_status_value J_RUNNING = ''RUNNING''"
| "job_status_value J_COMPLETED = ''COMPLETED''"
| "job_status_value J_FAILED = ''FAILED''"
| "job_status_value J_STOPPING = ''STOPPING''"
| "job_status_value J_STOPPED = ''STOPPED''"
| "job_status_value J_LOST = ''LOST''"

definition all_methods :: "training_method list" where
  "all_methods = [SFT, KTO, DPO]"

definition all_job_statuses :: "training_job_status list" where
  "all_job_statuses = [J_PREPARED, J_PREFLIGHT, J_STARTING, J_RUNNING, J_COMPLETED, J_FAILED, J_STOPPING,
     J_STOPPED, J_LOST]"

fun job_transitions :: "training_job_status \<Rightarrow> training_job_status set" where
  "job_transitions J_PREPARED = {J_PREFLIGHT, J_FAILED}"
| "job_transitions J_PREFLIGHT = {J_STARTING, J_FAILED}"
| "job_transitions J_STARTING = {J_RUNNING, J_FAILED}"
| "job_transitions J_RUNNING = {J_COMPLETED, J_FAILED, J_STOPPING, J_LOST}"
| "job_transitions J_STOPPING = {J_STOPPED, J_FAILED, J_LOST}"
| "job_transitions J_COMPLETED = {}"
| "job_transitions J_FAILED = {}"
| "job_transitions J_STOPPED = {}"
| "job_transitions J_LOST = {}"

text \<open>The attributes are not type-checked: each holds whatever JSON value was given.\<close>

record training_job =
  tj_job_id :: json
  tj_method :: json
  tj_bundle_id :: json
  tj_bundle_path :: json
  tj_bundle_checksum :: json
  tj_training_config_checksum :: json
  tj_source_model :: json
  tj_source_model_revision :: json
  tj_dataset_checksums :: json
  tj_launcher_type :: json
  tj_target_host :: json
  tj_remote_job_directory :: json
  tj_schema_version :: json
  tj_created_at :: json
  tj_status :: json
  tj_remote_process_identity :: json
  tj_start_time :: json
  tj_completion_time :: json
  tj_exit_code :: json
  tj_output_reference :: json
  tj_artifact_references :: json
  tj_logs_reference :: json
  tj_failure_summary :: json
  tj_training_library_metadata :: json
  tj_hardware_metadata :: json
  tj_progress_metrics :: json
  tj_readiness_override :: json
  tj_inference_handoff :: json

text \<open>\<open>_SAFE_JOB_ID\<close>: \<open>ftjob_[0-9a-f]{24}\<close>.\<close>

definition safe_job_id :: "string \<Rightarrow> bool" where
  "safe_job_id s \<longleftrightarrow> take 6 s = ''ftjob_'' \<and> length s = 30 \<and> list_all hex_digit (drop 6 s)"

definition validate_job_id :: "json \<Rightarrow> job_error + string" where
  "validate_job_id v =
     (case v of JStr s \<Rightarrow> if safe_job_id s then Inr s else Inl (TrainingJobError ''unsafe training job id'')
      | _ \<Rightarrow> Inl (TrainingJobError ''unsafe training job id''))"

text \<open>The identifier of a new job, from the SHA-256 of some bytes.\<close>

definition new_job_id :: "(string \<Rightarrow> string) \<Rightarrow> string \<Rightarrow> string" where
  "new_job_id digest material = ''ftjob_'' @ take 24 (digest material)"

text \<open>Python's equality of a JSON value with one.\<close>

definition equals_one :: "json \<Rightarrow> bool" where
  "equals_one v \<longleftrightarrow> v \<in> {JInt 1, JBool True, JFloat ''1.0''}"

definition post_init :: "training_job \<Rightarrow> job_error + training_job" where
  "post_init j =
     bindE (validate_job_id (tj_job_id j)) (\<lambda>_.
     if \<not> equals_one (tj_schema_version j) then Inl (TrainingJobError ''unsupported training job schema'')
     else if enum_of method_value all_methods (tj_method j) = None
     then Inl (TrainingJobError ''invalid training method'')
     else if enum_of job_status_value all_job_statuses (tj_status j) = None
     then Inl (TrainingJobError ''invalid training job status'')
     else if \<not> json_truthy (tj_bundle_id j) \<or> \<not> json_truthy (tj_bundle_checksum j) \<or> \<not> json_truthy (tj_training_config_checksum j)
     then Inl (TrainingJobError ''training job lineage is incomplete'')
     else Inr j)"

definition job_to_dict :: "training_job \<Rightarrow> json_object" where
  "job_to_dict j =
    [(''job_id'', tj_job_id j), (''method'', tj_method j), (''bundle_id'', tj_bundle_id j),
     (''bundle_path'', tj_bundle_path j), (''bundle_checksum'', tj_bundle_checksum j),
     (''training_config_checksum'', tj_training_config_checksum j), (''source_model'', tj_source_model j),
     (''source_model_revision'', tj_source_model_revision j), (''dataset_checksums'', tj_dataset_checksums j),
     (''launcher_type'', tj_launcher_type j), (''target_host'', tj_target_host j),
     (''remote_job_directory'', tj_remote_job_directory j), (''schema_version'', tj_schema_version j),
     (''created_at'', tj_created_at j), (''status'', tj_status j),
     (''remote_process_identity'', tj_remote_process_identity j), (''start_time'', tj_start_time j),
     (''completion_time'', tj_completion_time j), (''exit_code'', tj_exit_code j),
     (''output_reference'', tj_output_reference j), (''artifact_references'', tj_artifact_references j),
     (''logs_reference'', tj_logs_reference j), (''failure_summary'', tj_failure_summary j),
     (''training_library_metadata'', tj_training_library_metadata j), (''hardware_metadata'', tj_hardware_metadata j),
     (''progress_metrics'', tj_progress_metrics j), (''readiness_override'', tj_readiness_override j),
     (''inference_handoff'', tj_inference_handoff j)]"

definition required_fields :: "string list" where
  "required_fields = [''job_id'', ''method'', ''bundle_id'', ''bundle_path'', ''bundle_checksum'',
     ''training_config_checksum'', ''source_model'', ''source_model_revision'', ''dataset_checksums'',
     ''launcher_type'', ''target_host'', ''remote_job_directory'']"

definition optional_fields :: "string list" where
  "optional_fields = [''schema_version'', ''created_at'', ''status'', ''remote_process_identity'', ''start_time'',
     ''completion_time'', ''exit_code'', ''output_reference'', ''artifact_references'', ''logs_reference'',
     ''failure_summary'', ''training_library_metadata'', ''hardware_metadata'', ''progress_metrics'',
     ''readiness_override'', ''inference_handoff'']"

text \<open>\<open>tuple(v)\<close>; a tuple and a list are both a JSON array once written.\<close>

fun as_tuple :: "json \<Rightarrow> job_error + json" where
  "as_tuple (JList vs) = Inr (JList vs)"
| "as_tuple (JStr s) = Inr (JList (map (\<lambda>c. JStr [c]) s))"
| "as_tuple (JObj d) = Inr (JList (map (\<lambda>kv. JStr (fst kv)) d))"
| "as_tuple _ = Inl (OtherError ''TypeError'')"

definition job_from_dict :: "string \<Rightarrow> json_object \<Rightarrow> job_error + training_job" where
  "job_from_dict now d =
     (if \<not> list_all (\<lambda>k. k \<in> set (required_fields @ optional_fields)) (map fst d)
      then Inl (TrainingJobError ''unknown training job fields'')
      else bindE (as_tuple (get_default d ''artifact_references'' (JList []))) (\<lambda>refs.
        if \<not> list_all (has_key d) required_fields then Inl (TrainingJobError ''malformed training job'')
        else post_init
          \<lparr>tj_job_id = get d ''job_id'', tj_method = get d ''method'', tj_bundle_id = get d ''bundle_id'',
           tj_bundle_path = get d ''bundle_path'', tj_bundle_checksum = get d ''bundle_checksum'',
           tj_training_config_checksum = get d ''training_config_checksum'',
           tj_source_model = get d ''source_model'', tj_source_model_revision = get d ''source_model_revision'',
           tj_dataset_checksums = get d ''dataset_checksums'', tj_launcher_type = get d ''launcher_type'',
           tj_target_host = get d ''target_host'', tj_remote_job_directory = get d ''remote_job_directory'',
           tj_schema_version = get_default d ''schema_version'' (JInt 1),
           tj_created_at = get_default d ''created_at'' (JStr now),
           tj_status = get_default d ''status'' (JStr (job_status_value J_PREPARED)),
           tj_remote_process_identity = get_default d ''remote_process_identity'' (JObj []),
           tj_start_time = get d ''start_time'', tj_completion_time = get d ''completion_time'',
           tj_exit_code = get d ''exit_code'', tj_output_reference = get d ''output_reference'',
           tj_artifact_references = refs, tj_logs_reference = get d ''logs_reference'',
           tj_failure_summary = get d ''failure_summary'',
           tj_training_library_metadata = get_default d ''training_library_metadata'' (JObj []),
           tj_hardware_metadata = get_default d ''hardware_metadata'' (JObj []),
           tj_progress_metrics = get_default d ''progress_metrics'' (JObj []),
           tj_readiness_override = get_default d ''readiness_override'' (JBool False),
           tj_inference_handoff = get_default d ''inference_handoff'' (JObj [])\<rparr>))"

section \<open>The store\<close>

datatype file_content = Absent | Unreadable | Not_utf8 | Holds json_object

record job_directory =
  jd_job :: file_content
  jd_lines :: "json_object option list"
  jd_tail :: "json_object option option"
  jd_remote :: "json_object option"
  jd_logs :: "string option"

type_synonym job_store = "string \<Rightarrow> job_directory option"

definition empty_directory :: job_directory where
  "empty_directory = \<lparr>jd_job = Absent, jd_lines = [], jd_tail = None, jd_remote = None, jd_logs = None\<rparr>"

text \<open>\<open>_directory\<close>: the identifier is checked before it names a directory.\<close>

definition directory :: "training_job \<Rightarrow> job_error + string" where
  "directory j = validate_job_id (tj_job_id j)"

definition event_record :: "string \<Rightarrow> training_job \<Rightarrow> string \<Rightarrow> json_object \<Rightarrow> json_object" where
  "event_record now j event details =
    [(''schema_version'', JInt 1), (''timestamp'', JStr now), (''event'', JStr event),
     (''details'', JObj details), (''job_snapshot'', JObj (job_to_dict j))]"

text \<open>
  A record is written after whatever the file ends with.  Behind a piece without a newline
  it becomes part of that line, which is then unreadable.
\<close>

definition append_line :: "json_object \<Rightarrow> job_directory \<Rightarrow> job_directory" where
  "append_line r d =
     (case jd_tail d of
        None \<Rightarrow> d\<lparr>jd_lines := jd_lines d @ [Some r]\<rparr>
      | Some _ \<Rightarrow> d\<lparr>jd_lines := jd_lines d @ [None], jd_tail := None\<rparr>)"

definition append_event :: "string \<Rightarrow> training_job \<Rightarrow> string \<Rightarrow> json_object \<Rightarrow> job_store \<Rightarrow>
    job_error + job_store" where
  "append_event now j event details s =
     bindE (directory j) (\<lambda>job_id.
       let d = (case s job_id of None \<Rightarrow> empty_directory | Some d \<Rightarrow> d)
       in Inr (s(job_id \<mapsto> append_line (event_record now j event details) d)))"

text \<open>\<open>_atomic_write(directory / "job.json", \<dots>)\<close>.\<close>

definition write_job :: "string \<Rightarrow> training_job \<Rightarrow> job_store \<Rightarrow> job_store" where
  "write_job job_id j s =
     s(job_id \<mapsto> (case s job_id of None \<Rightarrow> empty_directory | Some d \<Rightarrow> d)\<lparr>jd_job := Holds (job_to_dict j)\<rparr>)"

definition create :: "string \<Rightarrow> training_job \<Rightarrow> job_store \<Rightarrow> job_error + training_job \<times> job_store" where
  "create now j s =
     bindE (directory j) (\<lambda>job_id.
       if s job_id \<noteq> None then Inl (OtherError ''FileExistsError'')
       else bindE (append_event now j ''finetune_job_prepared'' [] (write_job job_id j s)) (\<lambda>s'. Inr (j, s')))"

definition save_job :: "string \<Rightarrow> training_job \<Rightarrow> string \<Rightarrow> json_object \<Rightarrow> job_store \<Rightarrow>
    job_error + training_job \<times> job_store" where
  "save_job now j event details s =
     bindE (directory j) (\<lambda>job_id.
       if s job_id = None then Inl (TrainingJobError ''training job does not exist'')
       else bindE (append_event now j event details (write_job job_id j s)) (\<lambda>s'. Inr (j, s')))"

definition transition :: "string \<Rightarrow> training_job \<Rightarrow> training_job_status \<Rightarrow> string option \<Rightarrow> json_object \<Rightarrow>
    job_store \<Rightarrow> job_error + training_job \<times> job_store" where
  "transition now j status event updates s =
     (case enum_of job_status_value all_job_statuses (tj_status j) of
        None \<Rightarrow> Inl (OtherError ''ValueError'')
      | Some current \<Rightarrow>
        if status \<noteq> current \<and> status \<notin> job_transitions current
        then Inl (TrainingJobError ''invalid training job transition'')
        else bindE (job_from_dict now (AList.update ''status'' (JStr (job_status_value status))
                     (fold (\<lambda>(k, v). AList.update k v) updates (job_to_dict j)))) (\<lambda>changed.
          save_job now changed
            (case event of Some e \<Rightarrow> if e = [] then ''finetune_job_'' @ lower (job_status_value status) else e
             | None \<Rightarrow> ''finetune_job_'' @ lower (job_status_value status)) [] s))"

text \<open>\<open>TrainingJob.from_dict\<close> of a snapshot that need not be an object.\<close>

fun numeric :: "json \<Rightarrow> bool" where
  "numeric (JInt _) = True"
| "numeric (JFloat _) = True"
| "numeric (JBool _) = True"
| "numeric _ = False"

fun is_text :: "json \<Rightarrow> bool" where
  "is_text (JStr _) = True"
| "is_text _ = False"

definition unknown_fields :: "json list \<Rightarrow> json list" where
  "unknown_fields vs = dedup (filter (\<lambda>v. v \<notin> set (map JStr (required_fields @ optional_fields))) vs)"

fun from_snapshot :: "string \<Rightarrow> json \<Rightarrow> job_error + training_job" where
  "from_snapshot now (JObj d) = job_from_dict now d"
| "from_snapshot now (JStr s) =
     Inl (TrainingJobError (if s = [] then ''malformed training job'' else ''unknown training job fields''))"
| "from_snapshot now (JList vs) =
     (if vs = [] then Inl (TrainingJobError ''malformed training job'')
      else if \<not> list_all hashable vs then Inl (OtherError ''TypeError'')
      else if unknown_fields vs = [] then Inl (OtherError ''ValueError'')
      else if length (unknown_fields vs) \<le> 1 \<or> list_all numeric (unknown_fields vs) \<or> list_all is_text (unknown_fields vs)
      then Inl (TrainingJobError ''unknown training job fields'')
      else Inl (OtherError ''TypeError''))"
| "from_snapshot now _ = Inl (OtherError ''TypeError'')"

text \<open>The loop of \<open>_recover\<close> over the lines of the journal.\<close>

fun recover_lines :: "string \<Rightarrow> json_object option list \<Rightarrow> training_job option \<Rightarrow>
    job_error + training_job option" where
  "recover_lines now [] latest = Inr latest"
| "recover_lines now (None # ls) latest = recover_lines now ls latest"
| "recover_lines now (Some item # ls) latest =
     (if \<not> equals_one (get item ''schema_version'') then recover_lines now ls latest
      else case map_of item ''job_snapshot'' of
        None \<Rightarrow> recover_lines now ls latest
      | Some v \<Rightarrow> (case from_snapshot now v of
            Inr j \<Rightarrow> recover_lines now ls (Some j)
          | Inl (TrainingJobError _) \<Rightarrow> recover_lines now ls latest
          | Inl (OtherError e) \<Rightarrow> Inl (OtherError e)))"

definition journal :: "job_directory \<Rightarrow> json_object option list" where
  "journal d = jd_lines d @ (case jd_tail d of None \<Rightarrow> [] | Some t \<Rightarrow> [t])"

text \<open>A journal that was never written is a missing file: an \<open>OSError\<close>, reported as one of the job.\<close>

definition recover :: "string \<Rightarrow> string \<Rightarrow> job_store \<Rightarrow> job_error + training_job \<times> job_store" where
  "recover now job_id s =
     bindE (recover_lines now (case s job_id of None \<Rightarrow> [] | Some d \<Rightarrow> journal d) None) (\<lambda>latest.
       case latest of
         None \<Rightarrow> Inl (TrainingJobError ''training job is unrecoverable'')
       | Some j \<Rightarrow> Inr (j, write_job job_id j s))"

text \<open>
  \<open>load\<close>: a missing file and one that does not parse are rebuilt from the journal; the
  \<open>UnicodeDecodeError\<close> of one that is not UTF-8 is a \<open>ValueError\<close> that is not caught.
\<close>

definition load_job :: "string \<Rightarrow> json \<Rightarrow> job_store \<Rightarrow> job_error + training_job \<times> job_store" where
  "load_job now job_id s =
     bindE (validate_job_id job_id) (\<lambda>job_id.
       case s job_id of
         None \<Rightarrow> recover now job_id s
       | Some d \<Rightarrow>
         (case jd_job d of
            Holds v \<Rightarrow> (case job_from_dict now v of
                Inr j \<Rightarrow> Inr (j, s)
              | Inl (TrainingJobError _) \<Rightarrow> recover now job_id s
              | Inl (OtherError e) \<Rightarrow> Inl (OtherError e))
          | Not_utf8 \<Rightarrow> Inl (OtherError ''UnicodeDecodeError'')
          | _ \<Rightarrow> recover now job_id s))"

definition on_directory :: "json \<Rightarrow> (job_directory \<Rightarrow> job_directory) \<Rightarrow> job_store \<Rightarrow> job_error + job_store" where
  "on_directory job_id f s =
     bindE (validate_job_id job_id) (\<lambda>job_id.
       Inr (s(job_id \<mapsto> f (case s job_id of None \<Rightarrow> empty_directory | Some d \<Rightarrow> d))))"

definition write_remote :: "json \<Rightarrow> json_object \<Rightarrow> job_store \<Rightarrow> job_error + job_store" where
  "write_remote job_id v = on_directory job_id (jd_remote_update (\<lambda>_. Some v))"

text \<open>\<open>encoded[-maximum_bytes:]\<close>: with a maximum of zero the slice is the whole text.\<close>

definition tail_bytes :: "nat \<Rightarrow> string \<Rightarrow> string" where
  "tail_bytes n s = (if n = 0 then s else drop (length s - n) s)"

definition cache_logs :: "json \<Rightarrow> string \<Rightarrow> nat \<Rightarrow> job_store \<Rightarrow> job_error + job_store" where
  "cache_logs job_id content maximum = on_directory job_id (jd_logs_update (\<lambda>_. Some (tail_bytes maximum content)))"

end
