(* ===== verification/Training_Jobs_Props.thy ===== *)
theory Training_Jobs_Props
  imports Training_Jobs
begin

text \<open>
  What the job store guarantees: a job moves forward only and changes its status at most five
  times; a job that was created can always be loaded again, whatever crashes and losses of
  \<open>job.json\<close> happen; and what a torn journal line costs.
\<close>

section \<open>The table of statuses\<close>

fun job_rank :: "training_job_status \<Rightarrow> nat" where
  "job_rank J_PREPARED = 0"
| "job_rank J_PREFLIGHT = 1"
| "job_rank J_STARTING = 2"
| "job_rank J_RUNNING = 3"
| "job_rank J_STOPPING = 4"
| "job_rank _ = 5"

definition job_over :: "training_job_status \<Rightarrow> bool" where
  "job_over st \<longleftrightarrow> st \<in> {J_COMPLETED, J_FAILED, J_STOPPED, J_LOST}"

interpretation job_table: forward_table job_transitions job_over job_rank
proof
  fix a b
  show "job_over a = (job_transitions a = {})" by (cases a) (auto simp: job_over_def)
  show "b \<in> job_transitions a \<Longrightarrow> job_rank a < job_rank b" by (cases a) auto
qed

lemma job_rank_bound: "job_rank st \<le> 5"
  by (cases st) simp_all

section \<open>Jobs and their dictionaries\<close>

definition valid_job :: "training_job \<Rightarrow> bool" where
  "valid_job j \<longleftrightarrow> post_init j = Inr j \<and> (\<exists>vs. tj_artifact_references j = JList vs)"

definition job_status_of :: "training_job \<Rightarrow> training_job_status option" where
  "job_status_of j = enum_of job_status_value all_job_statuses (tj_status j)"

lemma job_status_value_inj: "inj job_status_value"
proof (rule injI)
  fix a b
  show "job_status_value a = job_status_value b \<Longrightarrow> a = b" by (cases a; cases b) simp_all
qed

lemma status_of_value [simp]: "enum_of job_status_value all_job_statuses (JStr (job_status_value st)) = Some st"
  by (rule enum_of_value [OF job_status_value_inj]) (cases st; simp add: all_job_statuses_def)

lemma as_tuple_list: "as_tuple v = Inr w \<Longrightarrow> \<exists>vs. w = JList vs"
  by (cases v) auto

lemma post_init_same: "post_init j = Inr k \<Longrightarrow> k = j"
  by (auto simp: post_init_def raise_simps split: if_splits)

lemma from_dict_valid: "job_from_dict now d = Inr j \<Longrightarrow> valid_job j"
proof -
  assume "job_from_dict now d = Inr j"
  then obtain refs k where "as_tuple (get_default d ''artifact_references'' (JList [])) = Inr refs"
    "post_init k = Inr j" "tj_artifact_references k = refs"
    by (auto simp: job_from_dict_def raise_simps split: if_splits)
  then show ?thesis using post_init_same [of k j] as_tuple_list by (auto simp: valid_job_def)
qed

lemma to_dict_keys: "map fst (job_to_dict j) = required_fields @ optional_fields"
  by (simp add: job_to_dict_def required_fields_def optional_fields_def)

lemma to_dict_dict: "dict (job_to_dict j)"
  unfolding to_dict_keys by code_simp

lemma map_of_to_dict [simp]:
  "map_of (job_to_dict j) ''job_id'' = Some (tj_job_id j)"
  "map_of (job_to_dict j) ''method'' = Some (tj_method j)"
  "map_of (job_to_dict j) ''bundle_id'' = Some (tj_bundle_id j)"
  "map_of (job_to_dict j) ''bundle_path'' = Some (tj_bundle_path j)"
  "map_of (job_to_dict j) ''bundle_checksum'' = Some (tj_bundle_checksum j)"
  "map_of (job_to_dict j) ''training_config_checksum'' = Some (tj_training_config_checksum j)"
  "map_of (job_to_dict j) ''source_model'' = Some (tj_source_model j)"
  "map_of (job_to_dict j) ''source_model_revision'' = Some (tj_source_model_revision j)"
  "map_of (job_to_dict j) ''dataset_checksums'' = Some (tj_dataset_checksums j)"
  "map_of (job_to_dict j) ''launcher_type'' = Some (tj_launcher_type j)"
  "map_of (job_to_dict j) ''target_host'' = Some (tj_target_host j)"
  "map_of (job_to_dict j) ''remote_job_directory'' = Some (tj_remote_job_directory j)"
  "map_of (job_to_dict j) ''schema_version'' = Some (tj_schema_version j)"
  "map_of (job_to_dict j) ''created_at'' = Some (tj_created_at j)"
  "map_of (job_to_dict j) ''status'' = Some (tj_status j)"
  "map_of (job_to_dict j) ''remote_process_identity'' = Some (tj_remote_process_identity j)"
  "map_of (job_to_dict j) ''start_time'' = Some (tj_start_time j)"
  "map_of (job_to_dict j) ''completion_time'' = Some (tj_completion_time j)"
  "map_of (job_to_dict j) ''exit_code'' = Some (tj_exit_code j)"
  "map_of (job_to_dict j) ''output_reference'' = Some (tj_output_reference j)"
  "map_of (job_to_dict j) ''artifact_references'' = Some (tj_artifact_references j)"
  "map_of (job_to_dict j) ''logs_reference'' = Some (tj_logs_reference j)"
  "map_of (job_to_dict j) ''failure_summary'' = Some (tj_failure_summary j)"
  "map_of (job_to_dict j) ''training_library_metadata'' = Some (tj_training_library_metadata j)"
  "map_of (job_to_dict j) ''hardware_metadata'' = Some (tj_hardware_metadata j)"
  "map_of (job_to_dict j) ''progress_metrics'' = Some (tj_progress_metrics j)"
  "map_of (job_to_dict j) ''readiness_override'' = Some (tj_readiness_override j)"
  "map_of (job_to_dict j) ''inference_handoff'' = Some (tj_inference_handoff j)"
  by (simp_all add: job_to_dict_def)

lemma from_to_dict: "valid_job j \<Longrightarrow> job_from_dict now (job_to_dict j) = Inr j"
proof -
  assume v: "valid_job j"
  then obtain vs where vs: "tj_artifact_references j = JList vs" by (auto simp: valid_job_def)
  have k: "list_all (has_key (job_to_dict j)) required_fields"
    using arg_cong [OF to_dict_keys [of j], of set] by (auto simp: has_key_def list_all_iff)
  have r: "as_tuple (get_default (job_to_dict j) ''artifact_references'' (JList [])) = Inr (tj_artifact_references j)"
    by (simp add: get_default_def vs)
  have "list_all (\<lambda>k. k \<in> set (required_fields @ optional_fields)) (map fst (job_to_dict j))"
    unfolding to_dict_keys by (simp add: list_all_iff)
  then have "job_from_dict now (job_to_dict j) = post_init j"
    unfolding job_from_dict_def using k r by (cases j) (simp add: get_def get_default_def)
  with v show ?thesis by (simp add: valid_job_def)
qed

section \<open>The life of a store\<close>

text \<open>
  A write cut short by a crash leaves a piece without a newline: unreadable, or the whole
  record when only the newline is missing.
\<close>

definition cut_append :: "json_object \<Rightarrow> bool \<Rightarrow> job_directory \<Rightarrow> job_directory" where
  "cut_append r whole d = d\<lparr>jd_tail := Some (if whole \<and> jd_tail d = None then Some r else None)\<rparr>"

definition lose_job :: "string \<Rightarrow> file_content \<Rightarrow> job_store \<Rightarrow> job_store" where
  "lose_job job_id c s = (case s job_id of None \<Rightarrow> s | Some d \<Rightarrow> s(job_id \<mapsto> d\<lparr>jd_job := c\<rparr>))"

text \<open>
  What may happen to a store: its operations on jobs that were constructed, the same cut
  short after any of their writes, and the loss of a \<open>job.json\<close> or its replacement by text
  that is not JSON.
\<close>

inductive store_step :: "job_store \<Rightarrow> job_store \<Rightarrow> bool" where
  created: "valid_job j \<Longrightarrow> create now j s = Inr (j', s') \<Longrightarrow> store_step s s'"
| saved: "valid_job j \<Longrightarrow> save_job now j event details s = Inr (j', s') \<Longrightarrow> store_step s s'"
| moved: "valid_job j \<Longrightarrow> transition now j status event updates s = Inr (j', s') \<Longrightarrow> store_step s s'"
| loaded: "load_job now v s = Inr (j, s') \<Longrightarrow> store_step s s'"
| remoted: "write_remote v x s = Inr s' \<Longrightarrow> store_step s s'"
| logged: "cache_logs v t n s = Inr s' \<Longrightarrow> store_step s s'"
| cut_mkdir: "safe_job_id k \<Longrightarrow> s k = None \<Longrightarrow> store_step s (s(k \<mapsto> empty_directory))"
| cut_written: "valid_job j \<Longrightarrow> tj_job_id j = JStr k \<Longrightarrow> store_step s (write_job k j s)"
| cut_appended: "valid_job j \<Longrightarrow> tj_job_id j = JStr k \<Longrightarrow> s k = Some d \<Longrightarrow>
    store_step s (s(k \<mapsto> cut_append (event_record now j event details) whole d))"
| lost: "c \<in> {Absent, Unreadable} \<Longrightarrow> store_step s (lose_job k c s)"

text \<open>Whatever is readable was written by the store.\<close>

definition line_ok :: "string \<Rightarrow> json_object option \<Rightarrow> bool" where
  "line_ok k l \<longleftrightarrow> (case l of None \<Rightarrow> True
     | Some r \<Rightarrow> \<exists>now j event details. r = event_record now j event details \<and> valid_job j \<and> tj_job_id j = JStr k)"

definition directory_ok :: "string \<Rightarrow> job_directory \<Rightarrow> bool" where
  "directory_ok k d \<longleftrightarrow> (\<forall>l \<in> set (journal d). line_ok k l) \<and> jd_job d \<noteq> Not_utf8 \<and>
     (\<forall>v. jd_job d = Holds v \<longrightarrow> (\<exists>j. v = job_to_dict j \<and> valid_job j \<and> tj_job_id j = JStr k))"

definition store_ok :: "job_store \<Rightarrow> bool" where
  "store_ok s \<longleftrightarrow> (\<forall>k d. s k = Some d \<longrightarrow> directory_ok k d)"

text \<open>A readable, finished line is there to stay.\<close>

definition lasting :: "job_directory \<Rightarrow> job_directory \<Rightarrow> bool" where
  "lasting d d' \<longleftrightarrow> (\<exists>ls. jd_lines d' = jd_lines d @ ls)"

definition store_lasting :: "job_store \<Rightarrow> job_store \<Rightarrow> bool" where
  "store_lasting s s' \<longleftrightarrow> (\<forall>k d. s k = Some d \<longrightarrow> (\<exists>d'. s' k = Some d' \<and> lasting d d'))"

lemma lasting_refl [simp]: "lasting d d"
  by (simp add: lasting_def)

lemma lasting_trans: "lasting a b \<Longrightarrow> lasting b c \<Longrightarrow> lasting a c"
  by (auto simp: lasting_def)

lemma store_lasting_refl [simp]: "store_lasting s s"
  by (simp add: store_lasting_def)

lemma store_lasting_trans: "store_lasting a b \<Longrightarrow> store_lasting b c \<Longrightarrow> store_lasting a c"
  unfolding store_lasting_def by (meson lasting_trans)

lemma valid_job_id: "valid_job j \<Longrightarrow> \<exists>k. tj_job_id j = JStr k \<and> directory j = Inr k \<and> safe_job_id k"
  by (auto simp: valid_job_def post_init_def directory_def validate_job_id_def raise_simps
      split: json.splits if_splits)

text \<open>Changing one directory.\<close>

definition at_directory :: "string \<Rightarrow> (job_directory \<Rightarrow> job_directory) \<Rightarrow> job_store \<Rightarrow> job_store" where
  "at_directory k f s = s(k \<mapsto> f (case s k of None \<Rightarrow> empty_directory | Some d \<Rightarrow> d))"

lemma empty_directory_ok [simp]: "directory_ok k empty_directory"
  by (simp add: directory_ok_def empty_directory_def journal_def)

lemma at_directory_step:
  assumes "\<And>d. directory_ok k d \<Longrightarrow> directory_ok k (f d) \<and> lasting d (f d)"
  shows "(store_ok s \<longrightarrow> store_ok (at_directory k f s) \<and> store_lasting s (at_directory k f s))"
  using assms by (auto simp: store_ok_def at_directory_def store_lasting_def split: option.splits)

definition keeps :: "job_store \<Rightarrow> job_store \<Rightarrow> bool" where
  "keeps s s' \<longleftrightarrow> (store_ok s \<longrightarrow> store_ok s' \<and> store_lasting s s')"

lemma keeps_refl [simp]: "keeps s s"
  by (simp add: keeps_def)

lemma keeps_trans: "keeps a b \<Longrightarrow> keeps b c \<Longrightarrow> keeps a c"
  by (auto simp: keeps_def intro: store_lasting_trans)

lemma write_job_at: "write_job k j s = at_directory k (jd_job_update (\<lambda>_. Holds (job_to_dict j))) s"
  by (simp add: write_job_def at_directory_def)

lemma keeps_write:
  assumes "valid_job j" "tj_job_id j = JStr k"
  shows "keeps s (write_job k j s)"
  unfolding keeps_def write_job_at
  by (rule at_directory_step) (use assms in \<open>auto simp: directory_ok_def journal_def lasting_def\<close>)

lemma append_line_ok:
  assumes "directory_ok k d" "line_ok k (Some r)"
  shows "directory_ok k (append_line r d)"
  using assms by (auto simp: directory_ok_def journal_def append_line_def line_ok_def split: option.splits)

lemma line_ok_record: "valid_job j \<Longrightarrow> tj_job_id j = JStr k \<Longrightarrow> line_ok k (Some (event_record now j event details))"
  by (auto simp: line_ok_def)

lemma append_line_lasting: "lasting d (append_line r d)"
  by (auto simp: lasting_def append_line_def split: option.splits)

lemma keeps_append:
  assumes "valid_job j" "tj_job_id j = JStr k"
  shows "keeps s (at_directory k (append_line (event_record now j event details)) s)"
  unfolding keeps_def
  by (rule at_directory_step) (auto intro: append_line_ok append_line_lasting line_ok_record assms)

lemma append_event_at:
  "valid_job j \<Longrightarrow> tj_job_id j = JStr k \<Longrightarrow>
     append_event now j event details s = Inr (at_directory k (append_line (event_record now j event details)) s)"
  using valid_job_id [of j] by (auto simp: append_event_def at_directory_def)

lemma save_job_at:
  assumes "valid_job j" "tj_job_id j = JStr k"
  shows "save_job now j event details s =
    (if s k = None then Inl (TrainingJobError ''training job does not exist'')
     else Inr (j, at_directory k (append_line (event_record now j event details)) (write_job k j s)))"
  using valid_job_id [OF assms(1)] assms by (auto simp: save_job_def append_event_at)

lemma create_at:
  assumes "valid_job j" "tj_job_id j = JStr k"
  shows "create now j s =
    (if s k \<noteq> None then Inl (OtherError ''FileExistsError'')
     else Inr (j, at_directory k (append_line (event_record now j ''finetune_job_prepared'' [])) (write_job k j s)))"
  using valid_job_id [OF assms(1)] assms by (auto simp: create_def append_event_at)

lemma transition_Inr:
  assumes "transition now j status event updates s = Inr (j', s')"
  obtains e current where "job_status_of j = Some current" "status = current \<or> status \<in> job_transitions current"
    "valid_job j'" "save_job now j' e [] s = Inr (j', s')" "job_status_of j' = Some status"
proof -
  from assms obtain current where c: "job_status_of j = Some current" "status = current \<or> status \<in> job_transitions current"
    by (auto simp: transition_def job_status_of_def split: option.splits if_splits)
  let ?d = "AList.update ''status'' (JStr (job_status_value status)) (fold (\<lambda>(k, v). AList.update k v) updates (job_to_dict j))"
  from assms c obtain e changed where f: "job_from_dict now ?d = Inr changed" and sv: "save_job now changed e [] s = Inr (j', s')"
    by (auto simp: transition_def job_status_of_def raise_simps)
  have v: "valid_job changed" by (rule from_dict_valid [OF f])
  have "tj_status changed = JStr (job_status_value status)"
    using f by (auto simp: job_from_dict_def raise_simps get_default_def map_of_update dest!: post_init_same split: if_splits)
  moreover have "j' = changed" using sv by (auto simp: save_job_def raise_simps split: if_splits)
  ultimately show ?thesis using that c v sv by (simp add: job_status_of_def)
qed

lemma recover_record:
  "valid_job j \<Longrightarrow> recover_lines now (Some (event_record n j e d) # ls) latest = recover_lines now ls (Some j)"
  by (simp add: event_record_def get_def equals_one_def from_to_dict)

lemma recover_lines_ok:
  assumes "\<forall>l \<in> set ls. line_ok k l" "case latest of None \<Rightarrow> True | Some j \<Rightarrow> valid_job j \<and> tj_job_id j = JStr k"
  shows "\<exists>r. recover_lines now ls latest = Inr r \<and> (r = None \<longleftrightarrow> latest = None \<and> set ls \<subseteq> {None})
    \<and> (case r of None \<Rightarrow> True | Some j \<Rightarrow> valid_job j \<and> tj_job_id j = JStr k)"
  using assms
proof (induction ls arbitrary: latest)
  case (Cons l ls)
  show ?case
  proof (cases l)
    case None
    with Cons show ?thesis by simp
  next
    case (Some r)
    with Cons.prems(1) obtain n j e d where r: "r = event_record n j e d" "valid_job j" "tj_job_id j = JStr k"
      by (auto simp: line_ok_def)
    with Cons.IH [of "Some j"] Cons.prems(1) show ?thesis unfolding Some r(1) by (simp add: recover_record del: recover_lines.simps(3))
  qed
qed (auto split: option.splits)

lemma recover_lines_last:
  assumes "\<forall>l \<in> set ls. line_ok k l" "valid_job j"
  shows "recover_lines now (ls @ [Some (event_record n j e d)]) latest = Inr (Some j)"
  using assms(1)
proof (induction ls arbitrary: latest)
  case (Cons l ls)
  then show ?case by (cases l) (auto simp: line_ok_def recover_record simp del: recover_lines.simps(3))
qed (simp add: recover_record assms(2) del: recover_lines.simps(3))

lemma recover_Inr:
  assumes "store_ok s" "recover now k s = Inr (j, s')"
  shows "valid_job j \<and> tj_job_id j = JStr k \<and> s' = write_job k j s"
proof -
  let ?ls = "case s k of None \<Rightarrow> [] | Some d \<Rightarrow> journal d"
  have "\<forall>l \<in> set ?ls. line_ok k l" using assms(1) by (cases "s k") (auto simp: store_ok_def directory_ok_def)
  from recover_lines_ok [OF this, of None now] assms(2) show ?thesis
    by (auto simp: recover_def raise_simps split: option.splits)
qed

lemma load_Inr:
  assumes "store_ok s" "load_job now v s = Inr (j, s')"
  shows "\<exists>k. v = JStr k \<and> valid_job j \<and> tj_job_id j = JStr k \<and> (s' = s \<or> s' = write_job k j s)"
proof -
  from assms(2) obtain k where k: "v = JStr k" "validate_job_id v = Inr k"
    by (auto simp: load_job_def validate_job_id_def raise_simps split: json.splits if_splits)
  show ?thesis
  proof (cases "\<exists>d w. s k = Some d \<and> jd_job d = Holds w")
    case False
    with assms(2) k have "recover now k s = Inr (j, s')"
      by (auto simp: load_job_def split: option.splits file_content.splits)
    from recover_Inr [OF assms(1) this] k show ?thesis by simp
  next
    case True
    then obtain d w where d: "s k = Some d" "jd_job d = Holds w" by blast
    with assms(1) obtain i where i: "w = job_to_dict i" "valid_job i" "tj_job_id i = JStr k"
      unfolding store_ok_def directory_ok_def by blast
    with assms(2) k d show ?thesis by (auto simp: load_job_def from_to_dict)
  qed
qed

lemma on_directory_Inr:
  "on_directory v f s = Inr s' \<Longrightarrow> \<exists>k. s' = at_directory k f s"
  by (auto simp: on_directory_def at_directory_def raise_simps)

lemma keeps_aside:
  assumes "on_directory v f s = Inr s'" "\<And>d. jd_job (f d) = jd_job d \<and> jd_lines (f d) = jd_lines d \<and> jd_tail (f d) = jd_tail d"
  shows "keeps s s'"
proof -
  from on_directory_Inr [OF assms(1)] obtain k where "s' = at_directory k f s" ..
  moreover have "directory_ok k d \<Longrightarrow> directory_ok k (f d) \<and> lasting d (f d)" for d
    using assms(2) [of d] by (simp add: directory_ok_def journal_def lasting_def)
  ultimately show ?thesis unfolding keeps_def using at_directory_step [of k f s] by blast
qed

lemma keeps_save: "valid_job j \<Longrightarrow> save_job now j event details s = Inr (j', s') \<Longrightarrow> keeps s s'"
  using valid_job_id [of j]
  by (auto simp: save_job_at split: if_splits intro: keeps_trans [OF keeps_write keeps_append])

lemma keeps_step: "store_step s s' \<Longrightarrow> keeps s s'"
proof (induction rule: store_step.induct)
  case (created j now s j' s')
  with valid_job_id [of j] show ?case
    by (auto simp: create_at split: if_splits intro: keeps_trans [OF keeps_write keeps_append])
next
  case (saved j)
  then show ?case by (rule keeps_save)
next
  case (moved j now status event updates s j' s')
  from moved(2) show ?case by (rule transition_Inr) (rule keeps_save)
next
  case (loaded now v s j s')
  then show ?case using load_Inr [of s now v j s'] keeps_write by (auto simp: keeps_def)
next
  case remoted
  then show ?case unfolding write_remote_def by (rule keeps_aside) simp
next
  case logged
  then show ?case unfolding cache_logs_def by (rule keeps_aside) simp
next
  case (cut_mkdir k s)
  then show ?case by (auto simp: keeps_def store_ok_def store_lasting_def)
next
  case cut_written
  then show ?case by (rule keeps_write)
next
  case (cut_appended j k s d now event details whole)
  have "directory_ok k (cut_append (event_record now j event details) whole d)" if "directory_ok k d"
    using that line_ok_record [OF cut_appended(1,2)]
    by (auto simp: directory_ok_def journal_def cut_append_def line_ok_def split: option.splits)
  with cut_appended(3) show ?case
    by (auto simp: keeps_def store_ok_def store_lasting_def lasting_def cut_append_def)
next
  case (lost c s k)
  then show ?case
    by (auto simp: keeps_def store_ok_def store_lasting_def lasting_def lose_job_def directory_ok_def journal_def
        split: option.splits)
qed

lemma keeps_steps: "store_step\<^sup>*\<^sup>* s s' \<Longrightarrow> keeps s s'"
  by (induction rule: rtranclp_induct) (auto intro: keeps_trans keeps_step)

section \<open>Loading\<close>

text \<open>A directory with one readable, finished line can be loaded.\<close>

lemma load_recorded:
  assumes "store_ok s" "safe_job_id k" "s k = Some d" "Some r \<in> set (jd_lines d)"
  shows "\<exists>j s'. load_job now (JStr k) s = Inr (j, s') \<and> valid_job j \<and> tj_job_id j = JStr k"
proof -
  have ok: "directory_ok k d" using assms(1,3) by (simp add: store_ok_def)
  have "\<forall>l \<in> set (journal d). line_ok k l" using ok by (simp add: directory_ok_def)
  moreover have "Some r \<in> set (journal d)" using assms(4) by (simp add: journal_def)
  ultimately obtain j where j: "recover_lines now (journal d) None = Inr (Some j)" "valid_job j" "tj_job_id j = JStr k"
    using recover_lines_ok [of "journal d" k None now] by (fastforce split: option.splits)
  show ?thesis
  proof (cases "jd_job d")
    case (Holds w)
    with ok obtain i where "w = job_to_dict i" "valid_job i" "tj_job_id i = JStr k" by (auto simp: directory_ok_def)
    with Holds assms(2,3) show ?thesis by (simp add: load_job_def validate_job_id_def from_to_dict)
  qed (use ok j assms(2,3) in \<open>simp_all add: load_job_def validate_job_id_def recover_def directory_ok_def\<close>)
qed

lemma create_records:
  assumes "valid_job j" "tj_job_id j = JStr k" "create now j s = Inr (j', s')"
  shows "\<exists>d r. s' k = Some d \<and> Some r \<in> set (jd_lines d)"
proof -
  have "s k = None" using assms by (auto simp: create_at split: if_splits)
  with assms show ?thesis
    by (auto simp: create_at at_directory_def write_job_at append_line_def empty_directory_def)
qed

lemma lasting_line: "lasting d d' \<Longrightarrow> Some r \<in> set (jd_lines d) \<Longrightarrow> Some r \<in> set (jd_lines d')"
  by (auto simp: lasting_def)

text \<open>
  C21: a job whose creation completed can be loaded for ever after.  Whatever is saved, moved,
  loaded, cut short by a crash at any of its writes, and however often \<open>job.json\<close> is lost or
  replaced by text that is not JSON, \<open>load\<close> returns a well-formed job with that identifier.
\<close>

theorem created_job_is_loadable:
  assumes "store_step\<^sup>*\<^sup>* (\<lambda>_. None) s0" "valid_job j" "tj_job_id j = JStr k"
    and "create now j s0 = Inr (j', s1)" "store_step\<^sup>*\<^sup>* s1 s2"
  shows "\<exists>i s3. load_job later (JStr k) s2 = Inr (i, s3) \<and> valid_job i \<and> tj_job_id i = JStr k"
proof -
  have "store_ok (\<lambda>_. None)" by (simp add: store_ok_def)
  with keeps_steps [OF assms(1)] have "store_ok s0" by (simp add: keeps_def)
  with keeps_step [OF created [OF assms(2,4)]] have ok1: "store_ok s1" by (simp add: keeps_def)
  with keeps_steps [OF assms(5)] have ok2: "store_ok s2" and l: "store_lasting s1 s2" by (simp_all add: keeps_def)
  from create_records [OF assms(2,3,4)] obtain d r where d: "s1 k = Some d" "Some r \<in> set (jd_lines d)" by blast
  with l obtain d' where d': "s2 k = Some d'" "Some r \<in> set (jd_lines d')"
    unfolding store_lasting_def by (blast dest: lasting_line)
  have "safe_job_id k" using valid_job_id [OF assms(2)] assms(3) by auto
  from load_recorded [OF ok2 this d'] show ?thesis by blast
qed

text \<open>
  What was saved is what is loaded, from \<open>job.json\<close> and, when that is lost afterwards and
  the journal had no torn line, from the journal; the rebuilt \<open>job.json\<close> then holds it.
\<close>

theorem saved_job_is_recovered:
  assumes "store_step\<^sup>*\<^sup>* (\<lambda>_. None) s" "valid_job j" "tj_job_id j = JStr k" "s k = Some d" "jd_tail d = None"
    and "save_job now j event details s = Inr (j', s')" "c \<in> {Absent, Unreadable}"
  shows "load_job later (JStr k) s' = Inr (j, s') \<and>
    load_job later (JStr k) (lose_job k c s') = Inr (j, write_job k j (lose_job k c s'))"
proof -
  have "store_ok (\<lambda>_. None)" by (simp add: store_ok_def)
  with keeps_steps [OF assms(1)] have "store_ok s" by (simp add: keeps_def)
  with assms(4) have ok: "\<forall>l \<in> set (jd_lines d). line_ok k l" by (auto simp: store_ok_def directory_ok_def journal_def)
  have v: "validate_job_id (JStr k) = Inr k"
    using valid_job_id [OF assms(2)] assms(3) by (simp add: validate_job_id_def)
  let ?d = "d\<lparr>jd_job := Holds (job_to_dict j), jd_lines := jd_lines d @ [Some (event_record now j event details)]\<rparr>"
  have s': "s' = s(k \<mapsto> ?d)"
    using assms(4-6) by (auto simp: save_job_at [OF assms(2,3)] at_directory_def write_job_at append_line_def)
  have "load_job later (JStr k) s' = Inr (j, s')"
    by (simp add: load_job_def v s' from_to_dict [OF assms(2)])
  moreover have "recover_lines later (jd_lines d @ [Some (event_record now j event details)]) None = Inr (Some j)"
    by (rule recover_lines_last [OF ok assms(2)])
  then have "load_job later (JStr k) (lose_job k c s') = Inr (j, write_job k j (lose_job k c s'))"
    using assms(5,7) by (auto simp: load_job_def v s' lose_job_def recover_def journal_def)
  ultimately show ?thesis ..
qed

section \<open>Moving through the statuses\<close>

text \<open>One accepted call of \<open>transition\<close>, on whatever store.\<close>

inductive moves :: "training_job \<Rightarrow> training_job \<Rightarrow> bool" where
  move: "transition now j status event updates s = Inr (j', s') \<Longrightarrow> moves j j'"

lemma moves_status:
  assumes "moves j j'"
  obtains a b where "job_status_of j = Some a" "job_status_of j' = Some b" "b = a \<or> b \<in> job_transitions a" "valid_job j'"
  using assms by (cases rule: moves.cases) (metis transition_Inr)

lemma moves_steps:
  "moves\<^sup>*\<^sup>* j j' \<Longrightarrow> job_status_of j = Some a \<Longrightarrow>
     \<exists>b. job_status_of j' = Some b \<and> (a, b) \<in> {(x, y). y \<in> job_transitions x}\<^sup>*"
proof (induction rule: rtranclp_induct)
  case (step y z)
  then obtain b where b: "job_status_of y = Some b" "(a, b) \<in> {(x, y). y \<in> job_transitions x}\<^sup>*" by blast
  from step(2) show ?case
  proof (rule moves_status)
    fix c d
    assume "job_status_of y = Some c" "job_status_of z = Some d" "d = c \<or> d \<in> job_transitions c"
    with b show ?thesis by (auto intro: rtrancl_into_rtrancl)
  qed
qed simp

text \<open>
  A training job that is over stays as it is, and one that left a status never returns to it.
\<close>

theorem finished_job_never_moves:
  assumes "moves\<^sup>*\<^sup>* j j'" "job_status_of j = Some a"
  shows "(job_over a \<longrightarrow> job_status_of j' = Some a)
    \<and> (\<forall>b i. job_status_of j' = Some b \<longrightarrow> b \<noteq> a \<longrightarrow> moves\<^sup>*\<^sup>* j' i \<longrightarrow> job_status_of i \<noteq> Some a)"
proof (intro conjI impI allI)
  assume "job_over a"
  with moves_steps [OF assms] show "job_status_of j' = Some a" by (auto dest: job_table.final_absorbing)
next
  fix b i
  assume b: "job_status_of j' = Some b" "b \<noteq> a" and m: "moves\<^sup>*\<^sup>* j' i"
  from moves_steps [OF assms] b have ab: "(a, b) \<in> {(x, y). y \<in> job_transitions x}\<^sup>*" by simp
  show "job_status_of i \<noteq> Some a"
  proof
    assume "job_status_of i = Some a"
    with moves_steps [OF m b(1)] have ba: "(b, a) \<in> {(x, y). y \<in> job_transitions x}\<^sup>*" by simp
    from ab b(2) obtain c where "c \<in> job_transitions a" "(c, b) \<in> {(x, y). y \<in> job_transitions x}\<^sup>*"
      by (auto elim: converse_rtranclE)
    with ba job_table.never_back show False by (meson rtrancl_trans)
  qed
qed

text \<open>A run: each job obtained from the one before by a transition that changes its status.\<close>

fun status_run :: "training_job list \<Rightarrow> bool" where
  "status_run (j # i # js) = (moves j i \<and> job_status_of i \<noteq> job_status_of j \<and> status_run (i # js))"
| "status_run _ = True"

lemma status_run_rank:
  "status_run (j # js) \<Longrightarrow> js \<noteq> [] \<Longrightarrow> \<exists>a. job_status_of j = Some a \<and> length js + job_rank a \<le> 5"
proof (induction js arbitrary: j)
  case (Cons i js)
  then have m: "moves j i" "job_status_of i \<noteq> job_status_of j" "status_run (i # js)" by auto
  from m(1) show ?case
  proof (rule moves_status)
    fix a b
    assume ab: "job_status_of j = Some a" "job_status_of i = Some b" "b = a \<or> b \<in> job_transitions a"
    with m(2) have "job_rank a < job_rank b" using job_table.rank_grows by auto
    moreover have "length js + job_rank b \<le> 5"
      using Cons.IH [OF m(3)] ab(2) job_rank_bound [of b] by (cases "js = []") auto
    ultimately show ?thesis using ab(1) by auto
  qed
qed simp

text \<open>
  C35: every run of a training job ends.  Along a chain of transitions that changed the status,
  each asked of the object the one before returned, with whatever updates, in whatever store,
  there are at most five.  The chain matters: a transition looks at the object it is given and
  not at the stored job (\<open>stale_object_revives\<close>).
\<close>

theorem job_runs_end:
  assumes "status_run (j # js)"
  shows "length js \<le> 5"
  using status_run_rank [OF assms] by (cases "js = []") auto

lemma fail_accepted:
  assumes "valid_job j" "tj_job_id j = JStr k" "s k \<noteq> None" "job_status_of j = Some a" "\<not> job_over a"
  shows "valid_job (j\<lparr>tj_status := JStr ''FAILED''\<rparr>) \<and> (\<exists>e. transition now j J_FAILED None [] s =
    Inr (j\<lparr>tj_status := JStr ''FAILED''\<rparr>, at_directory k (append_line (event_record now
      (j\<lparr>tj_status := JStr ''FAILED''\<rparr>) e [])) (write_job k (j\<lparr>tj_status := JStr ''FAILED''\<rparr>) s)))"
proof -
  let ?j = "j\<lparr>tj_status := JStr ''FAILED''\<rparr>"
  have t: "J_FAILED \<in> job_transitions a" using assms(5) by (cases a) (simp_all add: job_over_def)
  have u: "AList.update ''status'' (JStr ''FAILED'') (job_to_dict j) = job_to_dict ?j" by (simp add: job_to_dict_def)
  have v: "valid_job ?j" using assms(1) status_of_value [of J_FAILED]
    by (auto simp: valid_job_def post_init_def raise_simps split: if_splits)
  have id: "tj_job_id ?j = JStr k" using assms(2) by simp
  obtain e where "transition now j J_FAILED None [] s = save_job now ?j e [] s"
    using assms(4) t by (simp add: transition_def job_status_of_def u from_to_dict [OF v])
  with v assms(3) show ?thesis by (auto simp: save_job_at [OF v id])
qed

text \<open>
  A job that is not over can always be failed: whatever its status and its other fields,
  the transition is accepted, recorded, and leaves a failed job.
\<close>

theorem job_can_always_fail:
  assumes "valid_job j" "tj_job_id j = JStr k" "s k \<noteq> None" "job_status_of j = Some a" "\<not> job_over a"
  shows "\<exists>s'. transition now j J_FAILED None [] s = Inr (j\<lparr>tj_status := JStr ''FAILED''\<rparr>, s') \<and>
    load_job later (JStr k) s' = Inr (j\<lparr>tj_status := JStr ''FAILED''\<rparr>, s')"
proof -
  from fail_accepted [where s = s, OF assms] obtain e where v: "valid_job (j\<lparr>tj_status := JStr ''FAILED''\<rparr>)"
    and t: "transition now j J_FAILED None [] s = Inr (j\<lparr>tj_status := JStr ''FAILED''\<rparr>,
      at_directory k (append_line (event_record now (j\<lparr>tj_status := JStr ''FAILED''\<rparr>) e []))
        (write_job k (j\<lparr>tj_status := JStr ''FAILED''\<rparr>) s))" by blast
  have "validate_job_id (JStr k) = Inr k" using valid_job_id [OF assms(1)] assms(2) by (simp add: validate_job_id_def)
  then show ?thesis unfolding t
    by (auto simp: load_job_def at_directory_def write_job_at append_line_def from_to_dict [OF v] split: option.splits)
qed

lemma same_status_accepted:
  assumes "valid_job j" "tj_job_id j = JStr k" "s k \<noteq> None" "job_status_of j = Some a"
  shows "\<exists>s'. transition now j a None [] s = Inr (j, s') \<and> load_job later (JStr k) s' = Inr (j, s')"
proof -
  have st: "tj_status j = JStr (job_status_value a)" using assms(4) by (auto simp: job_status_of_def dest: enum_of_Some)
  have u: "AList.update ''status'' (JStr (job_status_value a)) (job_to_dict j) = job_to_dict j"
    using st by (simp add: job_to_dict_def)
  obtain e where t: "transition now j a None [] s = save_job now j e [] s"
    using assms(4) by (simp add: transition_def job_status_of_def u from_to_dict [OF assms(1)])
  have "validate_job_id (JStr k) = Inr k" using valid_job_id [OF assms(1)] assms(2) by (simp add: validate_job_id_def)
  then show ?thesis using assms(3) unfolding t save_job_at [OF assms(1,2)]
    by (auto simp: load_job_def at_directory_def write_job_at append_line_def from_to_dict [OF assms(1)] split: option.splits)
qed

text \<open>
  An object that was read before the job ended brings the job back: it is failed, and the
  older object, refreshed in its old status, is stored and loaded again.  So the stored
  status can change without bound although every transition is checked.
\<close>

theorem stale_object_revives:
  assumes "valid_job j" "tj_job_id j = JStr k" "s k \<noteq> None" "job_status_of j = Some a" "\<not> job_over a"
  shows "\<exists>s1 s2. transition now j J_FAILED None [] s = Inr (j\<lparr>tj_status := JStr ''FAILED''\<rparr>, s1)
    \<and> load_job now (JStr k) s1 = Inr (j\<lparr>tj_status := JStr ''FAILED''\<rparr>, s1)
    \<and> transition later j a None [] s1 = Inr (j, s2) \<and> load_job later (JStr k) s2 = Inr (j, s2)"
proof -
  from job_can_always_fail [where s = s, OF assms] obtain s1 where
    s1: "transition now j J_FAILED None [] s = Inr (j\<lparr>tj_status := JStr ''FAILED''\<rparr>, s1)"
    "load_job now (JStr k) s1 = Inr (j\<lparr>tj_status := JStr ''FAILED''\<rparr>, s1)" by blast
  have "s1 k \<noteq> None" using s1(1) fail_accepted [where s = s, OF assms, of now] by (auto simp: at_directory_def)
  from same_status_accepted [where s = s1, OF assms(1,2) this assms(4), of later] s1 show ?thesis by blast
qed

section \<open>Jobs played out\<close>

definition demo_id :: string where
  "demo_id = ''ftjob_000000000000000000000000''"

definition demo_job :: "training_job_status \<Rightarrow> training_job" where
  "demo_job st = \<lparr>tj_job_id = JStr demo_id, tj_method = JStr ''SFT'', tj_bundle_id = JStr ''b'',
     tj_bundle_path = JStr ''p'', tj_bundle_checksum = JStr ''c'', tj_training_config_checksum = JStr ''t'',
     tj_source_model = JStr ''m'', tj_source_model_revision = JNull, tj_dataset_checksums = JObj [],
     tj_launcher_type = JStr ''local'', tj_target_host = JStr ''host'', tj_remote_job_directory = JStr ''r'',
     tj_schema_version = JInt 1, tj_created_at = JStr ''now'', tj_status = JStr (job_status_value st),
     tj_remote_process_identity = JObj [], tj_start_time = JNull, tj_completion_time = JNull, tj_exit_code = JNull,
     tj_output_reference = JNull, tj_artifact_references = JList [], tj_logs_reference = JNull,
     tj_failure_summary = JNull, tj_training_library_metadata = JObj [], tj_hardware_metadata = JObj [],
     tj_progress_metrics = JObj [], tj_readiness_override = JBool False, tj_inference_handoff = JObj []\<rparr>"

lemma demo_job_id [simp]: "tj_job_id (demo_job st) = JStr demo_id"
  by (simp add: demo_job_def)

lemma demo_id_safe: "safe_job_id demo_id"
  by code_simp

lemma demo_job_valid: "valid_job (demo_job st)"
  using demo_id_safe
  by (simp add: valid_job_def post_init_def demo_job_def validate_job_id_def equals_one_def enum_of_def all_methods_def)
    (simp add: status_of_value [unfolded enum_of_def, simplified])

lemma demo_job_status: "job_status_of (demo_job st) = Some st"
  by (simp add: job_status_of_def demo_job_def)

definition demo_created :: job_store where
  "demo_created = at_directory demo_id (append_line (event_record ''t0'' (demo_job J_PREPARED) ''finetune_job_prepared'' []))
     (write_job demo_id (demo_job J_PREPARED) (\<lambda>_. None))"

lemma demo_create: "create ''t0'' (demo_job J_PREPARED) (\<lambda>_. None) = Inr (demo_job J_PREPARED, demo_created)"
  by (simp add: create_at [OF demo_job_valid demo_job_id] demo_created_def)

lemma demo_created_reachable: "store_step\<^sup>*\<^sup>* (\<lambda>_. None) demo_created"
  by (rule r_into_rtranclp [of store_step, OF created [OF demo_job_valid demo_create]])

text \<open>The directory after creation, and after a crash while a second record was appended.\<close>

definition demo_directory :: job_directory where
  "demo_directory = \<lparr>jd_job = Holds (job_to_dict (demo_job J_PREPARED)),
     jd_lines = [Some (event_record ''t0'' (demo_job J_PREPARED) ''finetune_job_prepared'' [])], jd_tail = None,
     jd_remote = None, jd_logs = None\<rparr>"

lemma demo_created_at: "demo_created demo_id = Some demo_directory"
  by (simp add: demo_created_def at_directory_def write_job_at append_line_def empty_directory_def demo_directory_def)

definition demo_torn :: job_store where
  "demo_torn = demo_created(demo_id \<mapsto> demo_directory\<lparr>jd_tail := Some None\<rparr>)"

lemma demo_torn_reachable: "store_step\<^sup>*\<^sup>* (\<lambda>_. None) demo_torn"
proof -
  have "store_step demo_created (demo_created(demo_id \<mapsto>
      cut_append (event_record ''t1'' (demo_job J_PREFLIGHT) ''e'' []) False demo_directory))"
    by (rule cut_appended [where j = "demo_job J_PREFLIGHT"]) (simp_all add: demo_job_valid demo_created_at)
  then have "store_step demo_created demo_torn" by (simp add: demo_torn_def cut_append_def)
  with demo_created_reachable show ?thesis by (rule rtranclp.rtrancl_into_rtrancl [of store_step])
qed

theorem created_job_is_loadable_witness:
  "\<exists>i s3. load_job ''t1'' (JStr demo_id) (lose_job demo_id Absent demo_created) = Inr (i, s3) \<and> valid_job i"
proof -
  have "store_step demo_created (lose_job demo_id Absent demo_created)" by (rule lost) simp
  then have "store_step\<^sup>*\<^sup>* demo_created (lose_job demo_id Absent demo_created)" by (rule r_into_rtranclp [of store_step])
  from created_job_is_loadable [OF rtranclp.rtrancl_refl demo_job_valid demo_job_id demo_create this]
  show ?thesis by blast
qed

theorem saved_job_is_recovered_witness:
  "\<exists>s'. save_job ''t1'' (demo_job J_PREFLIGHT) ''e'' [] demo_created = Inr (demo_job J_PREFLIGHT, s')
     \<and> load_job ''t2'' (JStr demo_id) s' = Inr (demo_job J_PREFLIGHT, s')"
proof -
  obtain s' where s': "save_job ''t1'' (demo_job J_PREFLIGHT) ''e'' [] demo_created = Inr (demo_job J_PREFLIGHT, s')"
    by (simp add: save_job_at [OF demo_job_valid demo_job_id] demo_created_at)
  have "jd_tail demo_directory = None" by (simp add: demo_directory_def)
  from saved_job_is_recovered [OF demo_created_reachable demo_job_valid demo_job_id demo_created_at this s', of Absent]
  show ?thesis using s' by blast
qed

lemma demo_moves: "moves (demo_job J_PREPARED) ((demo_job J_PREPARED)\<lparr>tj_status := JStr ''FAILED''\<rparr>)"
proof -
  have "demo_created demo_id \<noteq> None" "\<not> job_over J_PREPARED" by (simp_all add: demo_created_at job_over_def)
  from fail_accepted [where s = demo_created, OF demo_job_valid demo_job_id this(1) demo_job_status this(2)] show ?thesis by (blast intro: move)
qed

lemma demo_failed_status: "job_status_of ((demo_job J_PREPARED)\<lparr>tj_status := JStr ''FAILED''\<rparr>) = Some J_FAILED"
  using status_of_value [of J_FAILED] by (simp add: job_status_of_def)

theorem finished_job_never_moves_witness:
  "\<exists>j. moves\<^sup>*\<^sup>* (demo_job J_PREPARED) j \<and> job_status_of j = Some J_FAILED \<and> \<not> moves\<^sup>*\<^sup>* j (demo_job J_PREPARED)"
proof -
  have m: "moves\<^sup>*\<^sup>* (demo_job J_PREPARED) ((demo_job J_PREPARED)\<lparr>tj_status := JStr ''FAILED''\<rparr>)"
    by (rule r_into_rtranclp [of moves, OF demo_moves])
  from finished_job_never_moves [OF m demo_job_status] demo_failed_status demo_job_status
  have "\<not> moves\<^sup>*\<^sup>* ((demo_job J_PREPARED)\<lparr>tj_status := JStr ''FAILED''\<rparr>) (demo_job J_PREPARED)" by blast
  with m demo_failed_status show ?thesis by blast
qed

theorem job_runs_end_witness:
  "status_run [demo_job J_PREPARED, (demo_job J_PREPARED)\<lparr>tj_status := JStr ''FAILED''\<rparr>]
     \<and> length [(demo_job J_PREPARED)\<lparr>tj_status := JStr ''FAILED''\<rparr>] \<le> 5"
proof
  show run: "status_run [demo_job J_PREPARED, (demo_job J_PREPARED)\<lparr>tj_status := JStr ''FAILED''\<rparr>]"
    using demo_moves by (simp add: demo_failed_status demo_job_status)
  show "length [(demo_job J_PREPARED)\<lparr>tj_status := JStr ''FAILED''\<rparr>] \<le> 5" by (rule job_runs_end [OF run])
qed

theorem job_can_always_fail_witness:
  "\<exists>s'. transition ''t1'' (demo_job J_PREPARED) J_FAILED None [] demo_created
     = Inr ((demo_job J_PREPARED)\<lparr>tj_status := JStr ''FAILED''\<rparr>, s')"
proof -
  have "demo_created demo_id \<noteq> None" "\<not> job_over J_PREPARED" by (simp_all add: demo_created_at job_over_def)
  from job_can_always_fail [where s = demo_created, OF demo_job_valid demo_job_id this(1) demo_job_status this(2)] show ?thesis by blast
qed

theorem stale_object_revives_witness:
  "\<exists>s1 s2. load_job ''t1'' (JStr demo_id) s1 = Inr ((demo_job J_PREPARED)\<lparr>tj_status := JStr ''FAILED''\<rparr>, s1)
     \<and> transition ''t2'' (demo_job J_PREPARED) J_PREPARED None [] s1 = Inr (demo_job J_PREPARED, s2)
     \<and> load_job ''t2'' (JStr demo_id) s2 = Inr (demo_job J_PREPARED, s2)"
proof -
  have "demo_created demo_id \<noteq> None" "\<not> job_over J_PREPARED" by (simp_all add: demo_created_at job_over_def)
  from stale_object_revives [where s = demo_created, OF demo_job_valid demo_job_id this(1) demo_job_status this(2)] show ?thesis by blast
qed

text \<open>
  A torn line costs more than the event it was to hold.  The next record is written behind
  the torn piece and becomes part of it: a save that completed after the crash is not in
  the journal, and when \<open>job.json\<close> is lost afterwards the job comes back as it was before.
\<close>

theorem torn_line_loses_the_next_save:
  "\<exists>s s'. store_step\<^sup>*\<^sup>* (\<lambda>_. None) s \<and>
     save_job ''t2'' (demo_job J_STARTING) ''e'' [] s = Inr (demo_job J_STARTING, s') \<and>
     load_job ''t3'' (JStr demo_id) (lose_job demo_id Absent s') =
       Inr (demo_job J_PREPARED, write_job demo_id (demo_job J_PREPARED) (lose_job demo_id Absent s'))"
proof (intro exI conjI)
  let ?d = "demo_directory\<lparr>jd_job := Holds (job_to_dict (demo_job J_STARTING)), jd_lines := jd_lines demo_directory @ [None]\<rparr>"
  have v: "validate_job_id (JStr demo_id) = Inr demo_id" using demo_id_safe by (simp add: validate_job_id_def)
  have r: "recover_lines ''t3'' (jd_lines demo_directory @ [None]) None = Inr (Some (demo_job J_PREPARED))"
    by (simp add: demo_directory_def recover_record [OF demo_job_valid] del: recover_lines.simps(3))
  show "store_step\<^sup>*\<^sup>* (\<lambda>_. None) demo_torn" by (rule demo_torn_reachable)
  show "save_job ''t2'' (demo_job J_STARTING) ''e'' [] demo_torn = Inr (demo_job J_STARTING, demo_created(demo_id \<mapsto> ?d))"
    by (simp add: save_job_at [OF demo_job_valid demo_job_id] demo_torn_def at_directory_def write_job_at append_line_def
        demo_directory_def)
  show "load_job ''t3'' (JStr demo_id) (lose_job demo_id Absent (demo_created(demo_id \<mapsto> ?d))) =
      Inr (demo_job J_PREPARED, write_job demo_id (demo_job J_PREPARED)
        (lose_job demo_id Absent (demo_created(demo_id \<mapsto> ?d))))"
    using r by (simp add: load_job_def v lose_job_def recover_def journal_def) (simp add: demo_directory_def)
qed

end
