(* ===== verification/Text_Patterns.thy ===== *)
theory Text_Patterns
  imports Spear_Prelude
begin

text \<open>
  What the control plane uses of two modules of Python's standard library.

  \<^item> \<open>re\<close>: a regular expression is a value of \<open>rx\<close>; \<open>ends r s i\<close> lists where a match of \<open>r\<close>
    that starts at \<open>i\<close> may end, in the order a backtracking matcher tries them, so that the
    first is the match Python reports.
  \<^item> \<open>shlex\<close>: the POSIX tokenizer with \<open>whitespace_split\<close>, for given comment and punctuation
    characters.
\<close>

section \<open>Regular expressions\<close>

datatype rx =
    Cls "char \<Rightarrow> bool"
  | Seq rx rx
  | Alt rx rx
  | Star rx
  | Eps
  | Bol
  | Eol
  | Wordb
  | Behind "char \<Rightarrow> bool"
  | Not_behind "char \<Rightarrow> bool"
  | Not_ahead "char \<Rightarrow> bool"
  | Ahead rx
  | Not_ahead_rx rx

text \<open>The classes of digits and of word characters, on the first 256 code points.\<close>

definition rx_digit :: "char \<Rightarrow> bool" where
  "rx_digit c \<longleftrightarrow> (let n = (of_char c :: nat) in 48 \<le> n \<and> n \<le> 57)"

definition rx_word :: "char \<Rightarrow> bool" where
  "rx_word c \<longleftrightarrow> (let n = (of_char c :: nat) in
     48 \<le> n \<and> n \<le> 57 \<or> 65 \<le> n \<and> n \<le> 90 \<or> n = 95 \<or> 97 \<le> n \<and> n \<le> 122 \<or>
     n \<in> {170, 178, 179, 181, 185, 186, 188, 189, 190} \<or> 192 \<le> n \<and> n \<noteq> 215 \<and> n \<noteq> 247)"

text \<open>Every iteration of a star consumes something, so as many as there are characters are enough.\<close>

fun star_ends :: "(nat \<Rightarrow> nat list) \<Rightarrow> nat \<Rightarrow> nat \<Rightarrow> nat list" where
  "star_ends f 0 i = [i]"
| "star_ends f (Suc n) i = dedup (concat (map (star_ends f n) (filter (\<lambda>j. i < j) (f i))) @ [i])"

definition word_at :: "string \<Rightarrow> nat \<Rightarrow> bool" where
  "word_at s i \<longleftrightarrow> i < length s \<and> rx_word (s ! i)"

primrec ends :: "rx \<Rightarrow> string \<Rightarrow> nat \<Rightarrow> nat list" where
  "ends (Cls p) s i = (if i < length s \<and> p (s ! i) then [Suc i] else [])"
| "ends (Seq a b) s i = dedup (concat (map (ends b s) (ends a s i)))"
| "ends (Alt a b) s i = dedup (ends a s i @ ends b s i)"
| "ends (Star a) s i = star_ends (ends a s) (length s - i) i"
| "ends Eps s i = [i]"
| "ends Bol s i = (if i = 0 then [i] else [])"
| "ends Eol s i = (if i = length s \<or> Suc i = length s \<and> s ! i = CHR 0x0A then [i] else [])"
| "ends Wordb s i = (if (0 < i \<and> word_at s (i - 1)) \<noteq> word_at s i then [i] else [])"
| "ends (Behind p) s i = (if 0 < i \<and> i \<le> length s \<and> p (s ! (i - 1)) then [i] else [])"
| "ends (Not_behind p) s i = (if 0 < i \<and> i \<le> length s \<and> p (s ! (i - 1)) then [] else [i])"
| "ends (Not_ahead p) s i = (if i < length s \<and> p (s ! i) then [] else [i])"
| "ends (Ahead r) s i = (if ends r s i = [] then [] else [i])"
| "ends (Not_ahead_rx r) s i = (if ends r s i = [] then [i] else [])"

definition search :: "rx \<Rightarrow> string \<Rightarrow> bool" where
  "search r s \<longleftrightarrow> list_ex (\<lambda>i. ends r s i \<noteq> []) [0..<Suc (length s)]"

definition match_start :: "rx \<Rightarrow> string \<Rightarrow> bool" where
  "match_start r s \<longleftrightarrow> ends r s 0 \<noteq> []"

text \<open>\<open>r.sub(rep, s)\<close> for a pattern that matches no empty string.\<close>

function sub_from :: "rx \<Rightarrow> string \<Rightarrow> string \<Rightarrow> nat \<Rightarrow> string" where
  "sub_from r rep s i =
     (if length s \<le> i then []
      else case ends r s i of
        j # _ \<Rightarrow> if i < j then rep @ sub_from r rep s j else s ! i # sub_from r rep s (Suc i)
      | [] \<Rightarrow> s ! i # sub_from r rep s (Suc i))"
  by pat_completeness auto
termination by (relation "measure (\<lambda>(_, _, s, i). length s - i)") auto

declare sub_from.simps [simp del]

definition sub :: "rx \<Rightarrow> string \<Rightarrow> string \<Rightarrow> string" where
  "sub r rep s = sub_from r rep s 0"

text \<open>
  \<open>r.finditer(s)\<close> for such a pattern: where its matches start and end; and the text cut at the
  matches, each piece with the match behind it and the last with nothing.
\<close>

function finds :: "rx \<Rightarrow> string \<Rightarrow> nat \<Rightarrow> (nat \<times> nat) list" where
  "finds r s i =
     (if length s \<le> i then []
      else case ends r s i of
        j # _ \<Rightarrow> if i < j then (i, j) # finds r s j else finds r s (Suc i)
      | [] \<Rightarrow> finds r s (Suc i))"
  by pat_completeness auto
termination by (relation "measure (\<lambda>(_, s, i). length s - i)") auto

declare finds.simps [simp del]

definition slice :: "string \<Rightarrow> nat \<Rightarrow> nat \<Rightarrow> string" where
  "slice s i j = take (j - i) (drop i s)"

text \<open>\<open>r.findall(s)\<close> for a pattern without groups.\<close>

definition findall :: "rx \<Rightarrow> string \<Rightarrow> string list" where
  "findall r s = map (\<lambda>(i, j). slice s i j) (finds r s 0)"

fun cut_at :: "string \<Rightarrow> nat \<Rightarrow> (nat \<times> nat) list \<Rightarrow> (string \<times> string) list" where
  "cut_at s start [] = [(drop start s, [])]"
| "cut_at s start ((i, j) # ms) = (slice s start i, slice s i j) # cut_at s j ms"

definition pieces :: "rx \<Rightarrow> string \<Rightarrow> (string \<times> string) list" where
  "pieces r s = cut_at s 0 (finds r s 0)"

text \<open>How patterns are written.\<close>

definition ch :: "char \<Rightarrow> rx" where
  "ch c = Cls (\<lambda>d. d = c)"

definition one_of :: "string \<Rightarrow> rx" where
  "one_of cs = Cls (\<lambda>d. d \<in> set cs)"

fun lit :: "string \<Rightarrow> rx" where
  "lit [] = Eps"
| "lit [c] = ch c"
| "lit (c # d # cs) = Seq (ch c) (lit (d # cs))"

fun alts :: "rx list \<Rightarrow> rx" where
  "alts [] = Cls (\<lambda>_. False)"
| "alts [r] = r"
| "alts (r # q # rs) = Alt r (alts (q # rs))"

definition seqs :: "rx list \<Rightarrow> rx" where
  "seqs rs = foldr Seq rs Eps"

definition plus :: "rx \<Rightarrow> rx" where
  "plus r = Seq r (Star r)"

definition opt :: "rx \<Rightarrow> rx" where
  "opt r = Alt r Eps"

definition space :: rx where
  "space = Cls py_space"

section \<open>Tokens of a command line\<close>

datatype lex_state = Blank | InWord | InPunct | InQuote char | Escaped "char option"

text \<open>
  The state of the tokenizer between two characters: where it is, the token so far, and
  whether a part of the token was quoted.  \<open>Escaped None\<close> is a backslash outside quotes,
  \<open>Escaped (Some q)\<close> one inside the quotes \<open>q\<close>.  \<open>Inl\<close> is the \<open>ValueError\<close> of an open
  quotation or a last backslash.
\<close>

definition lex_space :: "char \<Rightarrow> bool" where
  "lex_space c \<longleftrightarrow> c \<in> {CHR 0x20, CHR 0x09, CHR 0x0D, CHR 0x0A}"

abbreviation lex_quote :: "char \<Rightarrow> bool" where
  "lex_quote c \<equiv> c = CHR 0x27 \<or> c = CHR 0x22"

definition emit :: "string \<Rightarrow> bool \<Rightarrow> string + string list \<Rightarrow> string + string list" where
  "emit token quoted rest = (if token = [] \<and> \<not> quoted then rest else map_sum id ((#) token) rest)"

function lex :: "string \<Rightarrow> string \<Rightarrow> lex_state \<Rightarrow> string \<Rightarrow> bool \<Rightarrow> string \<Rightarrow> string + string list" where
  "lex com pun st token quoted [] =
     (case st of
        InQuote _ \<Rightarrow> Inl ''No closing quotation''
      | Escaped _ \<Rightarrow> Inl ''No escaped character''
      | _ \<Rightarrow> emit token quoted (Inr []))"
| "lex com pun st token quoted (c # cs) =
     (case st of
        Blank \<Rightarrow>
          if lex_space c then lex com pun Blank token quoted cs
          else if c \<in> set com then lex com pun Blank token quoted (dropWhile (\<lambda>d. d \<noteq> CHR 0x0A) cs)
          else if c = CHR 0x5C then lex com pun (Escaped None) token quoted cs
          else if c \<in> set pun then lex com pun InPunct [c] quoted cs
          else if lex_quote c then lex com pun (InQuote c) token quoted cs
          else lex com pun InWord [c] quoted cs
      | InQuote q \<Rightarrow>
          if c = q then lex com pun InWord token True cs
          else if c = CHR 0x5C \<and> q = CHR 0x22 then lex com pun (Escaped (Some q)) token True cs
          else lex com pun (InQuote q) (token @ [c]) True cs
      | Escaped None \<Rightarrow> lex com pun InWord (token @ [c]) quoted cs
      | Escaped (Some q) \<Rightarrow>
          lex com pun (InQuote q) (token @ (if c \<noteq> CHR 0x5C \<and> c \<noteq> q then [CHR 0x5C] else []) @ [c]) quoted cs
      | InWord \<Rightarrow>
          if lex_space c then emit token quoted (lex com pun Blank [] False cs)
          else if c \<in> set com
          then emit token quoted (lex com pun Blank [] False (dropWhile (\<lambda>d. d \<noteq> CHR 0x0A) cs))
          else if lex_quote c then lex com pun (InQuote c) token quoted cs
          else if c = CHR 0x5C then lex com pun (Escaped None) token quoted cs
          else if c \<in> set pun then emit token quoted (lex com pun Blank [] False (c # cs))
          else lex com pun InWord (token @ [c]) quoted cs
      | InPunct \<Rightarrow>
          if lex_space c then emit token quoted (lex com pun Blank [] False cs)
          else if c \<in> set com
          then emit token quoted (lex com pun Blank [] False (dropWhile (\<lambda>d. d \<noteq> CHR 0x0A) cs))
          else if c \<in> set pun then lex com pun InPunct (token @ [c]) quoted cs
          else emit token quoted (lex com pun Blank [] False (c # cs)))"
  by pat_completeness auto
termination
  by (relation "measures [\<lambda>(_, _, _, _, _, s). length s, \<lambda>(_, _, st, _, _, _). if st = Blank then 0 else 1]")
    (auto simp: less_Suc_eq_le length_dropWhile_le)

declare lex.simps [simp del]

text \<open>\<open>shlex.split(s)\<close>: no comments and no punctuation.\<close>

definition shlex_split :: "string \<Rightarrow> string list option" where
  "shlex_split s = (case lex [] [] Blank [] False s of Inl _ \<Rightarrow> None | Inr ws \<Rightarrow> Some ws)"

section \<open>Facts about matches\<close>

lemma set_star_ends: "(\<And>j k. k \<in> set (f j) \<Longrightarrow> j \<le> k) \<Longrightarrow> k \<in> set (star_ends f n i) \<Longrightarrow> i \<le> k"
  by (induction n arbitrary: i) (fastforce)+

lemma ends_forward: "j \<in> set (ends r s i) \<Longrightarrow> i \<le> j"
proof (induction r arbitrary: i j)
  case (Seq a b)
  then show ?case by (fastforce dest: order_trans)
next
  case (Star a)
  then show ?case using set_star_ends [of "ends a s"] by simp
qed (auto split: if_splits)

text \<open>Cutting a text loses nothing.\<close>

lemma ends_in_text: "j \<in> set (ends r s i) \<Longrightarrow> i \<le> length s \<Longrightarrow> j \<le> length s"
proof (induction r arbitrary: i j)
  case (Star a)
  have "k \<in> set (star_ends (ends a s) n i) \<Longrightarrow> i \<le> length s \<Longrightarrow> k \<le> length s" for n k i
    by (induction n arbitrary: i k) (auto dest: Star.IH)
  with Star.prems show ?case by simp
qed (auto split: if_splits)

lemma finds_cases:
  obtains (none) "finds r s k = []"
    | (skip) "k < length s" "finds r s k = finds r s (Suc k)"
    | (hit) j where "k < length s" "j \<in> set (ends r s k)" "k < j" "finds r s k = (k, j) # finds r s j"
  using finds.simps [of r s k] by (cases "ends r s k") (auto split: if_splits)

lemma finds_order: "(i, j) \<in> set (finds r s k) \<Longrightarrow> k \<le> i \<and> i < j \<and> j \<le> length s"
proof (induction "length s - k" arbitrary: k rule: less_induct)
  case less
  show ?case
  proof (cases r s k rule: finds_cases)
    case skip
    then have "length s - Suc k < length s - k" by simp
    from less.hyps [OF this] less.prems skip show ?thesis by simp
  next
    case (hit m)
    then have "length s - m < length s - k" "m \<le> length s" using ends_in_text [OF hit(2)] by simp_all
    with less.hyps [of m] less.prems hit(3,4) show ?thesis by force
  qed (use less.prems in simp)
qed

lemma finds_sorted: "sorted_wrt (\<lambda>(_, j) (i, _). j \<le> i) (finds r s k)"
proof (induction "length s - k" arbitrary: k rule: less_induct)
  case less
  show ?case
  proof (cases r s k rule: finds_cases)
    case (hit m)
    with less [of m] show ?thesis by (auto dest: finds_order)
  qed (use less [of "Suc k"] in auto)
qed

lemma cut_at_concat:
  "sorted_wrt (\<lambda>(_, j) (i, _). j \<le> i) ms \<Longrightarrow> list_all (\<lambda>(i, j). start \<le> i \<and> i < j \<and> j \<le> length s) ms \<Longrightarrow>
   concat (map (\<lambda>(a, b). a @ b) (cut_at s start ms)) = drop start s"
proof (induction s start ms rule: cut_at.induct)
  case (2 s start i j ms)
  have "slice s start i @ slice s i j @ drop j s = drop start s"
    using "2.prems"(2) by (simp add: slice_def) (metis append_take_drop_id diff_is_0_eq' drop_drop le_add_diff_inverse2 less_imp_le_nat)
  moreover have "concat (map (\<lambda>(a, b). a @ b) (cut_at s j ms)) = drop j s"
    using "2.prems" by (intro "2.IH") (auto simp: list_all_iff)
  ultimately show ?case by simp
qed simp

lemma pieces_concat: "concat (map (\<lambda>(a, b). a @ b) (pieces r s)) = s"
proof -
  have "list_all (\<lambda>(i, j). 0 \<le> i \<and> i < j \<and> j \<le> length s) (finds r s 0)"
    using finds_order by (fastforce simp: list_all_iff)
  then show ?thesis using cut_at_concat [OF finds_sorted] by (simp add: pieces_def)
qed

end
