(* ===== verification/Verification_Policy.thy ===== *)
theory Verification_Policy
  imports Working_State Text_Patterns
begin

text \<open>
  The verification policy (\<open>client/evidence/verification.py\<close>): what an observed command says
  about the current change, and whether the changes of a task count as verified.

  Identifiers drawn from \<open>uuid\<close> are arguments; a command that is not a string has been turned
  into one by the caller.
\<close>

section \<open>Data\<close>

datatype verification_category =
    BUILD | UNIT_TEST | INTEGRATION_TEST | LINT | STATIC_ANALYSIS | EXECUTION
  | TARGETED_INSPECTION | GENERAL_INSPECTION | UNRELATED | VC_UNKNOWN

datatype verification_coverage = FULL | PARTIAL | VN_NONE | VN_UNKNOWN

datatype completion_status = NOT_REQUIRED | VERIFIED | PARTIALLY_VERIFIED | UNVERIFIED | CV_FAILED

fun category_value :: "verification_category \<Rightarrow> string" where
  "category_value BUILD = ''build''"
| "category_value UNIT_TEST = ''unit_test''"
| "category_value INTEGRATION_TEST = ''integration_test''"
| "category_value LINT = ''lint''"
| "category_value STATIC_ANALYSIS = ''static_analysis''"
| "category_value EXECUTION = ''execution''"
| "category_value TARGETED_INSPECTION = ''targeted_inspection''"
| "category_value GENERAL_INSPECTION = ''general_inspection''"
| "category_value UNRELATED = ''unrelated''"
| "category_value VC_UNKNOWN = ''unknown''"

fun coverage_value :: "verification_coverage \<Rightarrow> string" where
  "coverage_value FULL = ''full''"
| "coverage_value PARTIAL = ''partial''"
| "coverage_value VN_NONE = ''none''"
| "coverage_value VN_UNKNOWN = ''unknown''"

definition non_verifying_categories :: "verification_category list" where
  "non_verifying_categories = [GENERAL_INSPECTION, UNRELATED, VC_UNKNOWN]"

definition meaningful_coverage :: "verification_coverage list" where
  "meaningful_coverage = [FULL, PARTIAL]"

definition evidence_proves_change :: "string \<Rightarrow> string \<Rightarrow> bool" where
  "evidence_proves_change category coverage \<longleftrightarrow>
     category \<notin> set (map category_value non_verifying_categories) \<and>
     coverage \<in> set (map coverage_value meaningful_coverage)"

record verification_evidence =
  ve_verification_id :: string
  ve_category :: verification_category
  ve_coverage :: verification_coverage
  ve_executed :: bool
  ve_outcome :: verification_outcome
  ve_mutation_generation :: int
  ve_action_id :: "string option"
  ve_command :: "string option"
  ve_result_reference :: "string option"
  ve_affected_paths :: "string list"
  ve_project_bench :: bool
  ve_summary :: "string option"

definition proves_change :: "verification_evidence \<Rightarrow> bool" where
  "proves_change e \<longleftrightarrow> evidence_proves_change (category_value (ve_category e)) (coverage_value (ve_coverage e))"

record completion_evaluation =
  ce_status :: completion_status
  ce_mutation_generation :: int
  ce_evidence :: "verification_record list"
  ce_reason :: string

definition meaningfully_verified :: "completion_evaluation \<Rightarrow> bool" where
  "meaningfully_verified e \<longleftrightarrow> ce_status e = VERIFIED"

record verification_hints =
  vh_build_commands :: "string list"
  vh_test_commands :: "string list"
  vh_lint_commands :: "string list"
  vh_acceptance_commands :: "string list"

section \<open>The patterns\<close>

definition start_or :: "string \<Rightarrow> rx" where
  "start_or cs = Alt Bol (one_of cs)"

definition end_or_space :: rx where
  "end_or_space = Alt space Eol"

text \<open>\<open>(?:^|[/ ])(?:\<dots>)(?:\s|$)\<close>, the form of most of the patterns.\<close>

definition named_program :: "string list \<Rightarrow> rx" where
  "named_program names = seqs [start_or ''/ '', alts (map lit names), end_or_space]"

definition BACKGROUND_rx :: rx where
  "BACKGROUND_rx = seqs [Not_behind (\<lambda>c. c \<in> set ''&>|''), ch CHR ''&'', Not_ahead (\<lambda>c. c \<in> set ''&>'')]"

definition GENERAL :: "string list" where
  "GENERAL = [''pwd'', ''ls'', ''dir'', ''find'', ''tree'', ''stat'', ''du'', ''df'', ''git status'', ''git diff'',
     ''git log'', ''git show'']"

definition UNIT_rx :: rx where
  "UNIT_rx = named_program [''pytest'', ''unittest'', ''nosetests'', ''jest'', ''vitest'', ''rspec'', ''go test'',
     ''cargo test'', ''ctest'']"

definition INTEGRATION_rx :: rx where
  "INTEGRATION_rx = seqs [Wordb, alts [lit ''integration'', lit ''e2e'',
     seqs [lit ''end'', one_of ''-_ '', lit ''to'', one_of ''-_ '', lit ''end'']], Wordb]"

definition BUILD_TREE_rx :: rx where
  "BUILD_TREE_rx = named_program [''make'', ''ninja'', ''cmake --build'', ''cargo build'', ''go build'', ''mvn'',
     ''gradle'', ''npm run build'', ''pnpm build'', ''yarn build'']"

definition BUILD_PROGRAM_rx :: rx where
  "BUILD_PROGRAM_rx = seqs [alts [Bol, lit ''&&'', lit ''||'', one_of '';|''], Star space,
     opt (Seq (Star (Cls (\<lambda>c. \<not> py_space c))) (ch CHR ''/'')), alts [lit ''bitbake'', lit ''build.sh''], end_or_space]"

definition COMPILER_rx :: rx where
  "COMPILER_rx = named_program [''gcc'', ''g++'', ''cc'', ''c++'', ''clang'', ''clang++'']"

definition LINT_rx :: rx where
  "LINT_rx = named_program [''ruff'', ''flake8'', ''pylint'', ''eslint'', ''stylelint'', ''shellcheck'', ''golangci-lint'']"

definition STATIC_rx :: rx where
  "STATIC_rx = named_program [''mypy'', ''pyright'', ''tsc'', ''clang-tidy'', ''cppcheck'', ''cargo check'']"

definition EXECUTION_rx :: rx where
  "EXECUTION_rx = seqs [Alt Bol (Seq (one_of '';&|'') (Star space)),
     alts [Seq (lit ''python'') (Star (Cls rx_digit)), lit ''node'', lit ''ruby'', lit ''perl'', lit ''java'',
       lit ''dotnet run'', lit ''cargo run'', lit ''go run'', Seq (lit ''./'') (plus (Cls (\<lambda>c. c \<noteq> CHR '' '')))],
     end_or_space]"

definition QUOTED_rx :: rx where
  "QUOTED_rx = Alt
     (seqs [ch CHR 0x27, Star (Cls (\<lambda>c. c \<noteq> CHR 0x27)), ch CHR 0x27])
     (seqs [ch CHR 0x22, Star (Alt (Seq (ch CHR 0x5C) (Cls (\<lambda>c. c \<noteq> CHR 0x0A)))
        (Cls (\<lambda>c. c \<noteq> CHR 0x22 \<and> c \<noteq> CHR 0x5C))), ch CHR 0x22])"

definition TARGETED_rx :: rx where
  "TARGETED_rx = named_program [''diff'', ''cmp'', ''grep'', ''rg'']"

text \<open>The selectors that narrow a test run.\<close>

definition path_chars :: rx where
  "path_chars = plus (Cls (\<lambda>c. rx_word c \<or> c \<in> set ''./-''))"

definition SELECTOR_rx :: rx where
  "SELECTOR_rx = alts [lit ''::'', seqs [Wordb, lit ''-k'', space], Seq (lit ''--test'') space,
     Seq (lit ''test_'') path_chars, Seq path_chars (lit ''_test.'')]"

definition C_FAMILY :: "string list" where
  "C_FAMILY = [''.c'', ''.h'', ''.cc'', ''.cpp'', ''.cxx'', ''.hpp'', ''.hh'', ''.hxx'', ''.s'', ''.inc'', ''.mk'', ''.cmake'',
     ''makefile'', ''cmakelists.txt'']"

definition COMPILED :: "string list" where
  "COMPILED = C_FAMILY @ [''.rs'', ''.go'', ''.zig'', ''.d'', ''.m'', ''.mm'', ''.asm'']"

definition whole :: "rx \<Rightarrow> rx" where
  "whole r = seqs [Bol, r, Eol]"

definition INTERPRETER_LANGUAGES :: "(rx \<times> string list) list" where
  "INTERPRETER_LANGUAGES =
     [(whole (Seq (lit ''python'') (Star (Cls rx_digit))), [''.py'', ''.pyi'']),
      (whole (lit ''node''), [''.js'', ''.mjs'', ''.cjs'', ''.ts'', ''.tsx'', ''.jsx'']),
      (whole (lit ''ruby''), [''.rb'']),
      (whole (lit ''perl''), [''.pl'', ''.pm'']),
      (whole (lit ''java''), [''.java'']),
      (whole (lit ''cargo''), [''.rs'']),
      (whole (lit ''go''), [''.go'']),
      (whole (lit ''dotnet''), [''.cs'', ''.fs'', ''.vb''])]"

section \<open>Classifying a command\<close>

definition normalize :: "string \<Rightarrow> string" where
  "normalize command =
     lower (strip (join '' '' (case shlex_split command of Some ws \<Rightarrow> ws | None \<Rightarrow> words command)))"

definition matches_hint :: "string \<Rightarrow> string list \<Rightarrow> bool" where
  "matches_hint command hints =
     list_ex (\<lambda>hint. strip hint \<noteq> [] \<and> (command = normalize hint \<or> prefix (normalize hint @ '' '') command)) hints"

definition is_general :: "string \<Rightarrow> bool" where
  "is_general normalized \<longleftrightarrow> normalized \<in> set GENERAL \<or> list_ex (\<lambda>item. prefix (item @ '' '') normalized) GENERAL"

text \<open>\<open>s.lstrip("./")\<close> and \<open>s.rsplit("/", 1)[-1]\<close>.\<close>

definition lstrip_dots :: "string \<Rightarrow> string" where
  "lstrip_dots s = dropWhile (\<lambda>c. c \<in> set ''./'') s"

definition base_name :: "string \<Rightarrow> string" where
  "base_name s = last (split_on CHR ''/'' s)"

definition names_a_changed_path :: "string \<Rightarrow> string list \<Rightarrow> bool" where
  "names_a_changed_path normalized changed_paths =
     list_ex (\<lambda>path. let candidate = lstrip_dots (lower path); name = base_name candidate in
        list_ex (\<lambda>token. lstrip_dots token \<in> {candidate, name}) (words normalized)) changed_paths"

text \<open>\<open>name[name.rfind("."):]\<close>, and nothing without a dot.\<close>

definition suffix_of :: "string \<Rightarrow> string" where
  "suffix_of name = (if CHR ''.'' \<in> set name
     then CHR ''.'' # rev (takeWhile (\<lambda>c. c \<noteq> CHR ''.'') (rev name)) else [])"

definition touches_language :: "string list \<Rightarrow> string list \<Rightarrow> bool" where
  "touches_language changed_paths extensions =
     list_ex (\<lambda>path. let name = base_name (lower path); suffix = suffix_of name in
        name \<in> set extensions \<or> suffix \<noteq> [] \<and> suffix \<in> set extensions) changed_paths"

definition direct_invocation :: "verification_category \<Rightarrow> verification_coverage \<Rightarrow> string \<Rightarrow> string list \<Rightarrow>
    string list \<Rightarrow> verification_category \<times> verification_coverage" where
  "direct_invocation category best normalized changed_paths extensions =
     (if changed_paths = [] then (category, best)
      else if names_a_changed_path normalized changed_paths then (category, best)
      else if touches_language changed_paths extensions then (category, PARTIAL)
      else (UNRELATED, VN_NONE))"

fun languages_of :: "string list \<Rightarrow> string list" where
  "languages_of [] = COMPILED"
| "languages_of (token # tokens) =
     (if prefix ''./'' token then COMPILED
      else case find (\<lambda>(pattern, _). match_start pattern (base_name token)) INTERPRETER_LANGUAGES of
        Some (_, extensions) \<Rightarrow> extensions
      | None \<Rightarrow> languages_of tokens)"

definition execution_languages :: "string \<Rightarrow> string list" where
  "execution_languages normalized = languages_of (words normalized)"

definition classify_command :: "verification_hints \<Rightarrow> string \<Rightarrow> bool \<Rightarrow> string list \<Rightarrow>
    verification_category \<times> verification_coverage" where
  "classify_command hints command project_bench changed_paths =
     (let normalized = normalize command in
      if search BACKGROUND_rx command then (VC_UNKNOWN, VN_UNKNOWN)
      else if project_bench \<or> matches_hint normalized (vh_acceptance_commands hints) then (INTEGRATION_TEST, FULL)
      else if matches_hint normalized (vh_test_commands hints) then (UNIT_TEST, FULL)
      else if matches_hint normalized (vh_build_commands hints) then (BUILD, FULL)
      else if matches_hint normalized (vh_lint_commands hints) then (LINT, PARTIAL)
      else if is_general normalized then (GENERAL_INSPECTION, VN_NONE)
      else if search INTEGRATION_rx normalized \<and> search UNIT_rx normalized then (INTEGRATION_TEST, FULL)
      else if search UNIT_rx normalized
      then (UNIT_TEST, if search SELECTOR_rx normalized then PARTIAL else FULL)
      else if search BUILD_TREE_rx normalized \<or> search BUILD_PROGRAM_rx normalized then (BUILD, FULL)
      else if search COMPILER_rx normalized then direct_invocation BUILD FULL normalized changed_paths C_FAMILY
      else if search LINT_rx normalized then (LINT, PARTIAL)
      else if search STATIC_rx normalized then (STATIC_ANALYSIS, PARTIAL)
      else if search EXECUTION_rx (normalize (sub QUOTED_rx [CHR 0x27, CHR 0x27] command))
      then direct_invocation EXECUTION PARTIAL normalized changed_paths (execution_languages normalized)
      else if search TARGETED_rx normalized
      then (TARGETED_INSPECTION,
            if changed_paths \<noteq> [] \<and> names_a_changed_path normalized changed_paths then PARTIAL else VN_UNKNOWN)
      else (VC_UNKNOWN, VN_UNKNOWN))"

section \<open>Evidence\<close>

definition summary_of :: "verification_category \<Rightarrow> verification_coverage \<Rightarrow> verification_outcome \<Rightarrow> string" where
  "summary_of category coverage outcome =
     category_value category @ '' '' @ outcome_value outcome @ '' ('' @ coverage_value coverage @ '' coverage)''"

text \<open>What the policy reads of a \<open>ToolResultEnvelope\<close>.\<close>

record tool_envelope =
  te_tool_name :: string
  te_status :: string
  te_success :: bool
  te_action_id :: string
  te_result_reference :: "string option"
  te_affected_paths :: "string list"

definition command_tools :: "string list" where
  "command_tools = [''bash'', ''terminal'']"

definition changed_paths_of :: "working_state \<Rightarrow> string list" where
  "changed_paths_of s = sorted_list_of_set (ws_modified_files s \<union> ws_created_files s \<union> ws_deleted_files s)"

definition evidence_for_tool :: "verification_hints \<Rightarrow> string \<Rightarrow> tool_envelope \<Rightarrow> string \<Rightarrow> working_state \<Rightarrow> bool \<Rightarrow>
    verification_evidence option" where
  "evidence_for_tool hints uuid envelope command s project_bench =
     (if te_tool_name envelope \<notin> set command_tools \<and> \<not> project_bench then None
      else let (category, coverage) = classify_command hints command project_bench (changed_paths_of s);
               executed = te_status envelope \<notin> {''denied'', ''cancelled'', ''invalid_arguments'', ''unknown_tool''};
               outcome = (if executed \<and> te_success envelope then VO_PASSED
                          else if executed then VO_FAILED else VO_NOT_RUN)
           in if category = VC_UNKNOWN \<and> \<not> te_success envelope then None
              else Some \<lparr>ve_verification_id = ''verification_'' @ uuid, ve_category = category,
                ve_coverage = coverage, ve_executed = executed, ve_outcome = outcome,
                ve_mutation_generation = ws_mutation_generation s, ve_action_id = Some (te_action_id envelope),
                ve_command = (if command = [] then None else Some command),
                ve_result_reference = te_result_reference envelope, ve_affected_paths = te_affected_paths envelope,
                ve_project_bench = project_bench, ve_summary = Some (summary_of category coverage outcome)\<rparr>)"

definition project_bench_evidence :: "string \<Rightarrow> working_state \<Rightarrow> bool \<Rightarrow> bool \<Rightarrow> string option \<Rightarrow> string option \<Rightarrow>
    string option \<Rightarrow> verification_evidence" where
  "project_bench_evidence uuid s executed passed action_id result_reference summary =
     (let outcome = (if \<not> executed then VO_NOT_RUN else if passed then VO_PASSED else VO_FAILED) in
      \<lparr>ve_verification_id = ''verification_'' @ uuid, ve_category = INTEGRATION_TEST, ve_coverage = FULL,
       ve_executed = executed, ve_outcome = outcome, ve_mutation_generation = ws_mutation_generation s,
       ve_action_id = action_id, ve_command = None, ve_result_reference = result_reference, ve_affected_paths = [],
       ve_project_bench = True,
       ve_summary = Some (if summary = None \<or> summary = Some [] then summary_of INTEGRATION_TEST FULL outcome
                          else the summary)\<rparr>)"

section \<open>Completion\<close>

definition evaluation :: "completion_status \<Rightarrow> working_state \<Rightarrow> verification_record list \<Rightarrow> string \<Rightarrow>
    completion_evaluation" where
  "evaluation status s evidence reason =
     \<lparr>ce_status = status, ce_mutation_generation = ws_mutation_generation s, ce_evidence = evidence, ce_reason = reason\<rparr>"

definition current_verifications :: "working_state \<Rightarrow> verification_record list" where
  "current_verifications s =
     filter (\<lambda>v. vr_mutation_generation v = ws_mutation_generation s) (ws_verifications s)"

definition meaningful_verifications :: "working_state \<Rightarrow> verification_record list" where
  "meaningful_verifications s =
     filter (\<lambda>v. evidence_proves_change (vr_category v) (vr_coverage v)) (current_verifications s)"

definition evaluate_completion :: "working_state \<Rightarrow> completion_evaluation" where
  "evaluate_completion s =
     (if ws_mutation_generation s = 0 then evaluation NOT_REQUIRED s [] ''no grounded mutation''
      else
        let current = current_verifications s;
            meaningful = meaningful_verifications s;
            latest = last meaningful;
            later_pass = list_ex (\<lambda>v. vr_outcome v = VO_PASSED) (drop 1 (dropWhile (\<lambda>v. v \<noteq> latest) meaningful));
            passed = filter (\<lambda>v. vr_outcome v = VO_PASSED) meaningful
        in if list_ex (\<lambda>v. vr_outcome v = VO_FAILED) meaningful \<and> vr_outcome latest = VO_FAILED \<and> \<not> later_pass
           then evaluation CV_FAILED s meaningful ''latest meaningful verification failed''
           else if list_ex (\<lambda>v. vr_coverage v = coverage_value FULL) passed
           then evaluation VERIFIED s passed ''full current-generation evidence passed''
           else if passed \<noteq> []
           then evaluation PARTIALLY_VERIFIED s passed ''only partial current-generation evidence passed''
           else evaluation UNVERIFIED s current ''no meaningful current-generation evidence'')"

end
