(* ===== verification/Verification_Policy_Props.thy ===== *)
theory Verification_Policy_Props
  imports Verification_Policy Working_State_Laws
begin

text \<open>
  When the changes of a task count as verified: the evaluation against a short specification,
  its interplay with the event log of the task, what full coverage takes, and two ways in
  which the evaluation falls short of what the code says of it.
\<close>

section \<open>The evaluation, in one sentence per outcome\<close>

definition completion_spec :: "working_state \<Rightarrow> completion_status" where
  "completion_spec s =
     (let meaningful = meaningful_verifications s;
          passed = filter (\<lambda>v. vr_outcome v = VO_PASSED) meaningful
      in if ws_mutation_generation s = 0 then NOT_REQUIRED
         else if meaningful \<noteq> [] \<and> vr_outcome (last meaningful) = VO_FAILED then CV_FAILED
         else if \<exists>v \<in> set passed. vr_coverage v = ''full'' then VERIFIED
         else if passed \<noteq> [] then PARTIALLY_VERIFIED
         else UNVERIFIED)"

lemma after_last: "distinct xs \<Longrightarrow> xs \<noteq> [] \<Longrightarrow> drop 1 (dropWhile (\<lambda>v. v \<noteq> last xs) xs) = []"
proof -
  assume d: "distinct xs" "xs \<noteq> []"
  then obtain ys y where xs: "xs = ys @ [y]" by (metis rev_exhaust)
  with d have "dropWhile (\<lambda>v. v \<noteq> y) ys = []" by (auto simp: dropWhile_eq_Nil_conv)
  with xs show ?thesis by (simp add: dropWhile_append)
qed

lemma meaningful_distinct: "verifications_ok s \<Longrightarrow> distinct (meaningful_verifications s)"
  unfolding verifications_ok_def meaningful_verifications_def current_verifications_def
  by (simp add: distinct_map)

lemma completion_status:
  assumes "distinct (meaningful_verifications s)"
  shows "ce_status (evaluate_completion s) = completion_spec s"
proof (cases "meaningful_verifications s = []")
  case True
  then show ?thesis by (simp add: evaluate_completion_def completion_spec_def evaluation_def Let_def)
next
  case False
  have "vr_outcome (last (meaningful_verifications s)) = VO_FAILED \<Longrightarrow>
      list_ex (\<lambda>v. vr_outcome v = VO_FAILED) (meaningful_verifications s)"
    using False by (auto simp: list_ex_iff)
  with after_last [OF assms False] False show ?thesis
    by (auto simp: evaluate_completion_def completion_spec_def evaluation_def Let_def list_ex_iff)
qed

lemma reachable_completion: "ws_reachable task_id s \<Longrightarrow> ce_status (evaluate_completion s) = completion_spec s"
  using reachable_inv [of task_id s] by (auto simp: ws_inv_def intro: completion_status meaningful_distinct)

text \<open>
  What the comment in the code asks for: a failure stands unless something passed after it.
\<close>

definition failure_stands :: "verification_record list \<Rightarrow> bool" where
  "failure_stands vs \<longleftrightarrow> list_ex (\<lambda>v. vr_outcome v = VO_FAILED) (takeWhile (\<lambda>v. vr_outcome v \<noteq> VO_PASSED) (rev vs))"

lemma failure_stands_last:
  "vs \<noteq> [] \<Longrightarrow> vr_outcome (last vs) \<noteq> VO_NOT_RUN \<Longrightarrow> failure_stands vs \<longleftrightarrow> vr_outcome (last vs) = VO_FAILED"
  by (cases vs rule: rev_cases; cases "vr_outcome (last vs)") (auto simp: failure_stands_def)

lemma spec_failed:
  "completion_spec s = CV_FAILED \<longleftrightarrow> ws_mutation_generation s \<noteq> 0 \<and> meaningful_verifications s \<noteq> [] \<and>
     vr_outcome (last (meaningful_verifications s)) = VO_FAILED"
  by (simp add: completion_spec_def Let_def)

text \<open>
  C32: in every state a task can reach, the evaluation is what its specification says: nothing
  to verify without a change; failed when the latest meaningful check of the current
  generation failed; otherwise verified by a passed check of full coverage of that
  generation, partially by others, and unverified without any.  So, once something changed,
  a failure that stands is reported, and no other, when the latest meaningful check ran; but when
  the latest one is recorded as not run none is reported, although the comment in the code says
  that a failure stands unless something passed after it.
\<close>

theorem completion_meets_spec:
  assumes "ws_reachable task_id s"
  defines "status \<equiv> ce_status (evaluate_completion s)" and "checks \<equiv> meaningful_verifications s"
  shows "status = completion_spec s
    \<and> (ws_mutation_generation s \<noteq> 0 \<and> (checks = [] \<or> vr_outcome (last checks) \<noteq> VO_NOT_RUN) \<longrightarrow>
         (status = CV_FAILED \<longleftrightarrow> failure_stands checks))
    \<and> (checks \<noteq> [] \<and> vr_outcome (last checks) = VO_NOT_RUN \<longrightarrow> status \<noteq> CV_FAILED)"
proof -
  have "status = completion_spec s" using reachable_completion [OF assms(1)] by (simp add: status_def)
  moreover have "\<not> failure_stands []" by (simp add: failure_stands_def)
  ultimately show ?thesis
    using failure_stands_last [of checks] unfolding checks_def by (cases "meaningful_verifications s = []") (auto simp: spec_failed)
qed

section \<open>A change asks for a new check\<close>

lemma spec_verified:
  "completion_spec s = VERIFIED \<Longrightarrow> \<exists>v \<in> set (ws_verifications s). vr_outcome v = VO_PASSED \<and> vr_coverage v = ''full'' \<and>
     vr_mutation_generation v = ws_mutation_generation s \<and> evidence_proves_change (vr_category v) (vr_coverage v)"
  by (auto simp: completion_spec_def meaningful_verifications_def current_verifications_def Let_def split: if_splits)

text \<open>
  C24: verification does not outlive a change.  If what was verified before concerned the
  generations up to then, a state that has seen a change since is verified only by a check
  that was recorded after, was executed, covers everything and passed on the tree as it is.
\<close>

theorem verification_follows_the_change:
  assumes "ws_reachable task_id s" "replay_with apply_event evs s = Inr t"
    and "\<forall>v \<in> set (ws_verifications s). vr_mutation_generation v \<le> ws_mutation_generation s"
    and "ws_mutation_generation s < ws_mutation_generation t" "ce_status (evaluate_completion t) = VERIFIED"
  shows "\<exists>v \<in> set (drop (length (ws_verifications s)) (ws_verifications t)).
    vr_executed v \<and> vr_outcome v = VO_PASSED \<and> vr_coverage v = ''full'' \<and>
    vr_mutation_generation v = ws_mutation_generation t"
proof -
  have rt: "ws_reachable task_id t" using replay_reachable assms(1,2) by blast
  with assms(5) have "completion_spec t = VERIFIED" by (simp add: reachable_completion)
  then obtain v where v: "v \<in> set (ws_verifications t)" "vr_outcome v = VO_PASSED" "vr_coverage v = ''full''"
    "vr_mutation_generation v = ws_mutation_generation t" using spec_verified by blast
  from reachable_inv [OF rt] v(1,2) have x: "vr_executed v" by (auto simp: ws_inv_def verifications_ok_def)
  from replay_grows [OF assms(2)] obtain new where new: "ws_verifications t = ws_verifications s @ new"
    by (auto elim: prefixE)
  have "v \<notin> set (ws_verifications s)" using assms(3,4) v(4) by auto
  with v(1) new have "v \<in> set (drop (length (ws_verifications s)) (ws_verifications t))" by simp
  with v x show ?thesis by blast
qed

section \<open>What full coverage takes\<close>

text \<open>
  Without a hint of the project or its bench, a command stands as full evidence for a change
  only if it runs tests or builds the tree, or is a compiler run that names a changed file;
  and never if it is sent to the background.
\<close>

theorem full_coverage_is_earned:
  assumes "classify_command \<lparr>vh_build_commands = [], vh_test_commands = [], vh_lint_commands = [],
      vh_acceptance_commands = []\<rparr> command False changed = (category, FULL)"
  shows "\<not> search BACKGROUND_rx command \<and>
    (search UNIT_rx (normalize command) \<or> search BUILD_TREE_rx (normalize command) \<or>
     search BUILD_PROGRAM_rx (normalize command) \<or>
     category = BUILD \<and> search COMPILER_rx (normalize command) \<and>
       (changed = [] \<or> names_a_changed_path (normalize command) changed))"
  using assms
  by (auto simp: classify_command_def direct_invocation_def matches_hint_def Let_def split: if_splits)

section \<open>Tasks played out\<close>

definition played_event :: "state_event_type \<Rightarrow> state_source \<Rightarrow> string \<Rightarrow> json_object \<Rightarrow> state_event" where
  "played_event ty src i d = \<lparr>ev_type = ty, ev_task_id = ''task'', ev_source = src, ev_data = d,
     ev_id = i, ev_timestamp = ''2026-01-01T00:00:00'', ev_monotonic_ns = 1\<rparr>"

definition edit_events :: "string \<Rightarrow> state_event list" where
  "edit_events n =
    [played_event ACTION_SUCCEEDED TOOL_RUNTIME (''a'' @ n)
       [(''action_id'', JStr n), (''kind'', JStr ''tool''), (''name'', JStr ''edit_file''), (''observed_status'', JStr ''ok'')],
     played_event FILE_MODIFIED TOOL_RUNTIME (''f'' @ n) [(''path'', JStr ''x.c''), (''action_id'', JStr n)]]"

definition test_event :: "string \<Rightarrow> verification_outcome \<Rightarrow> json_object \<Rightarrow> state_event" where
  "test_event n outcome extra =
     played_event VERIFICATION_RECORDED TOOL_RUNTIME (''v'' @ n)
       ([(''verification_id'', JStr n), (''kind'', JStr ''unit_test''), (''category'', JStr ''unit_test''),
         (''coverage'', JStr ''full''), (''executed'', JBool (outcome \<noteq> VO_NOT_RUN)),
         (''outcome'', JStr (outcome_value outcome))] @ extra)"

definition started_event :: state_event where
  "started_event = played_event TASK_STARTED USER ''e0'' [(''objective'', JStr ''fix the parser'')]"

definition played :: "state_event list \<Rightarrow> working_state" where
  "played evs = (case replay_with apply_event evs (fresh_state ''task'') of Inr s \<Rightarrow> s | Inl _ \<Rightarrow> fresh_state ''task'')"

definition plays :: "state_event list \<Rightarrow> bool" where
  "plays evs \<longleftrightarrow> \<not> isl (replay_with apply_event evs (fresh_state ''task''))"

lemma plays_replay: "plays evs \<Longrightarrow> replay_with apply_event evs (fresh_state ''task'') = Inr (played evs)"
  by (auto simp: plays_def played_def split: sum.splits)

lemma played_reachable: "plays evs \<Longrightarrow> ws_reachable ''task'' (played evs)"
  using plays_replay replay_reachable ws_reachable.fresh by blast

lemma played_append: "plays xs \<Longrightarrow> plays (xs @ ys) \<Longrightarrow> replay_with apply_event ys (played xs) = Inr (played (xs @ ys))"
  using plays_replay [of xs] plays_replay [of "xs @ ys"] by (simp add: replay_with_append)

definition first_edit :: "state_event list" where
  "first_edit = started_event # edit_events ''1''"

definition second_edit :: "state_event list" where
  "second_edit = edit_events ''2'' @ [test_event ''2'' VO_PASSED []]"

theorem completion_meets_spec_witness:
  "ce_status (evaluate_completion (played (first_edit @ second_edit))) = VERIFIED
     \<and> completion_spec (played (first_edit @ second_edit)) = VERIFIED
     \<and> ce_status (evaluate_completion (played (first_edit @ [test_event ''1'' VO_PASSED [], test_event ''2'' VO_FAILED []]))) = CV_FAILED"
proof -
  let ?failed = "first_edit @ [test_event ''1'' VO_PASSED [], test_event ''2'' VO_FAILED []]"
  have "plays (first_edit @ second_edit)" by code_simp
  note first = completion_meets_spec [OF played_reachable [OF this]]
  have verified: "ce_status (evaluate_completion (played (first_edit @ second_edit))) = VERIFIED" by code_simp
  have "plays ?failed" by code_simp
  note second = completion_meets_spec [OF played_reachable [OF this]]
  have "ws_mutation_generation (played ?failed) \<noteq> 0" "vr_outcome (last (meaningful_verifications (played ?failed))) \<noteq> VO_NOT_RUN"
    "failure_stands (meaningful_verifications (played ?failed))" by code_simp+
  with second have "ce_status (evaluate_completion (played ?failed)) = CV_FAILED" by blast
  with first verified show ?thesis by simp
qed

theorem verification_follows_the_change_witness:
  "\<exists>v \<in> set (drop (length (ws_verifications (played first_edit))) (ws_verifications (played (first_edit @ second_edit)))).
     vr_outcome v = VO_PASSED \<and> vr_coverage v = ''full''"
proof -
  have p: "plays first_edit" "plays (first_edit @ second_edit)" by code_simp+
  have "list_all (\<lambda>v. vr_mutation_generation v \<le> ws_mutation_generation (played first_edit))
      (ws_verifications (played first_edit))" by code_simp
  then have g: "\<forall>v \<in> set (ws_verifications (played first_edit)).
      vr_mutation_generation v \<le> ws_mutation_generation (played first_edit)" by (simp add: list_all_iff)
  have m: "ws_mutation_generation (played first_edit) < ws_mutation_generation (played (first_edit @ second_edit))"
    by code_simp
  have e: "ce_status (evaluate_completion (played (first_edit @ second_edit))) = VERIFIED" by code_simp
  from verification_follows_the_change [OF played_reachable [OF p(1)] played_append [OF p] g m e] show ?thesis by blast
qed

theorem full_coverage_is_earned_witness:
  "search COMPILER_rx (normalize ''gcc -c src/add.c'') \<and> names_a_changed_path (normalize ''gcc -c src/add.c'') [''src/add.c'']"
proof -
  have "classify_command \<lparr>vh_build_commands = [], vh_test_commands = [], vh_lint_commands = [],
      vh_acceptance_commands = []\<rparr> ''gcc -c src/add.c'' False [''src/add.c''] = (BUILD, FULL)" by code_simp
  from full_coverage_is_earned [OF this] have "search UNIT_rx (normalize ''gcc -c src/add.c'') \<or>
      search BUILD_TREE_rx (normalize ''gcc -c src/add.c'') \<or> search BUILD_PROGRAM_rx (normalize ''gcc -c src/add.c'') \<or>
      search COMPILER_rx (normalize ''gcc -c src/add.c'') \<and> names_a_changed_path (normalize ''gcc -c src/add.c'') [''src/add.c'']"
    by blast
  moreover have "\<not> search UNIT_rx (normalize ''gcc -c src/add.c'')" "\<not> search BUILD_TREE_rx (normalize ''gcc -c src/add.c'')"
    "\<not> search BUILD_PROGRAM_rx (normalize ''gcc -c src/add.c'')" by code_simp+
  ultimately show ?thesis by blast
qed

section \<open>Where the evaluation falls short\<close>

definition masked_failure :: "state_event list" where
  "masked_failure = first_edit @
     [test_event ''1'' VO_PASSED [], test_event ''2'' VO_FAILED [], test_event ''3'' VO_NOT_RUN []]"

text \<open>
  A failure need not stand until something passes.  After a passed and then a failed run
  of all tests, a run that never started makes the task count as verified again.
\<close>

theorem refused_run_masks_a_failure:
  "\<exists>s. ws_reachable ''task'' s \<and> map vr_outcome (meaningful_verifications s) = [VO_PASSED, VO_FAILED, VO_NOT_RUN] \<and>
     ce_status (evaluate_completion s) = VERIFIED"
proof (intro exI conjI)
  have "plays masked_failure" by code_simp
  then show "ws_reachable ''task'' (played masked_failure)" by (rule played_reachable)
  show "map vr_outcome (meaningful_verifications (played masked_failure)) = [VO_PASSED, VO_FAILED, VO_NOT_RUN]"
    by code_simp
  show "ce_status (evaluate_completion (played masked_failure)) = VERIFIED" by code_simp
qed

text \<open>
  A verification may be recorded for a generation that does not exist yet, which a review
  may not; the change that reaches that generation then counts as verified at once.
\<close>

theorem early_verification_covers_a_later_change:
  "\<exists>s t. ws_reachable ''task'' s \<and> replay_with apply_event (edit_events ''1'') s = Inr t \<and>
     ws_mutation_generation s = 0 \<and> ws_mutation_generation t = 1 \<and> ws_verifications t = ws_verifications s \<and>
     ce_status (evaluate_completion t) = VERIFIED"
proof (intro exI conjI)
  let ?e = "started_event # [test_event ''1'' VO_PASSED [(''mutation_generation'', JInt 1)]]"
  have p: "plays ?e" "plays (?e @ edit_events ''1'')" by code_simp+
  show "ws_reachable ''task'' (played ?e)" by (rule played_reachable [OF p(1)])
  show "replay_with apply_event (edit_events ''1'') (played ?e) = Inr (played (?e @ edit_events ''1''))"
    by (rule played_append [OF p])
  show "ws_mutation_generation (played ?e) = 0" "ws_mutation_generation (played (?e @ edit_events ''1'')) = 1"
    "ws_verifications (played (?e @ edit_events ''1'')) = ws_verifications (played ?e)"
    "ce_status (evaluate_completion (played (?e @ edit_events ''1''))) = VERIFIED" by code_simp+
qed

end
