(* ===== verification/Capability_Gateway_Props.thy ===== *)
theory Capability_Gateway_Props
  imports Capability_Gateway
begin

text \<open>
  No external call without every consent: what stands between a command of the model and a
  call of a provider, for one command and over a whole turn.
\<close>

section \<open>What a command leaves alone\<close>

definition same_scope :: "gateway \<Rightarrow> gateway \<Rightarrow> bool" where
  "same_scope gw gw' \<longleftrightarrow> gw_configs gw' = gw_configs gw \<and> gw_providers gw' = gw_providers gw \<and>
     gw_read_only gw' = gw_read_only gw \<and> gw_items gw' = gw_items gw \<and> gw_mode gw' = gw_mode gw"

lemma same_scope_refl [simp]: "same_scope gw gw"
  by (simp add: same_scope_def)

text \<open>An answer without a call.\<close>

definition no_call :: "gateway \<Rightarrow> gateway \<Rightarrow> bool" where
  "no_call gw gw' \<longleftrightarrow> same_scope gw gw' \<and> gw_calls gw' = gw_calls gw \<and> gw_described gw' = gw_described gw \<and>
     prefix (gw_trace gw) (gw_trace gw')"

lemma no_call_refl [simp]: "no_call gw gw"
  by (simp add: no_call_def)

lemma refuse_no_call: "no_call gw (snd (refuse_with outcome t code item given gw))"
  by (simp add: refuse_with_def traced_def no_call_def same_scope_def)

lemma refuse_answer: "refuse_with outcome t code item given gw = (answer, gw') \<Longrightarrow> no_call gw gw'"
  using refuse_no_call by (metis snd_conv)

lemma unknown_no_call: "no_call gw (snd (unknown_capability su given gw))"
  by (simp add: unknown_capability_def Let_def refuse_no_call)

lemma unknown_answer: "unknown_capability su given gw = (answer, gw') \<Longrightarrow> no_call gw gw'"
  using unknown_no_call by (metis snd_conv)

lemma resolve_item: "resolve_capability gw given = Some item \<Longrightarrow> item \<in> set (dict_values (gw_items gw))"
  by (auto simp: resolve_capability_def filter_eq_Cons_iff split: option.splits list.splits dest: map_of_in_values)

text \<open>What \<open>_permit\<close> lets through.\<close>

definition consented :: "surroundings \<Rightarrow> gateway \<Rightarrow> capability \<Rightarrow> bool" where
  "consented su gw item \<longleftrightarrow> ca_provider item \<in> set (gw_providers gw) \<and>
     (ca_action item = WRITE \<longrightarrow> \<not> gw_read_only gw \<and> su_may_mutate su \<and>
        su_confirm su (''Run external WRITE capability '' @ ca_id item @ '' ?'') \<and>
        (\<exists>config. map_of (gw_configs gw) (ca_provider item) = Some config \<and> pc_write config \<noteq> WRITE_REFUSE))"

lemma permit_consented: "permit su gw item = Inr [] \<Longrightarrow> consented su gw item"
  by (cases "ca_action item")
    (auto simp: permit_def consented_def split: if_splits option.splits)

lemma call_provider_calls:
  "gw_calls (snd (call_provider su item args gw)) = gw_calls gw @ [(ca_provider item, ca_name item, args)]
   \<and> same_scope gw (snd (call_provider su item args gw))
   \<and> gw_described (snd (call_provider su item args gw)) = gw_described gw
   \<and> prefix (gw_trace gw) (gw_trace (snd (call_provider su item args gw)))"
  by (auto simp: call_provider_def refuse_with_def traced_def same_scope_def Let_def split: sum.splits)

lemma invoke_cases [consumes 1, case_names none called]:
  assumes "invoke su given raw gw = Inr (answer, gw')"
  obtains "no_call gw gw'"
  | item args where "resolve_capability gw given = Some item" "ca_id item \<in> set (gw_described gw)"
      "contract item (JObj args) = Fits" "consented su gw item" "gw' = snd (call_provider su item args gw)"
proof (cases "resolve_capability gw given")
  case None
  with assms have "gw' = snd (unknown_capability su given gw)" by (auto simp: invoke_def dest: sym)
  then show ?thesis using that(1) unknown_no_call by simp
next
  case (Some item)
  show ?thesis
  proof (cases "ca_id item \<in> set (gw_described gw)")
    case False
    with assms Some have "no_call gw gw'"
      by (auto simp: invoke_def Let_def intro: refuse_answer)
    then show ?thesis by (rule that(1))
  next
    case described: True
    consider (json) e where "su_loads su raw = Inl e" | (loaded) v where "su_loads su raw = Inr v"
      by (cases "su_loads su raw") auto
    then show ?thesis
    proof cases
      case json
      with assms Some described have "no_call gw gw'"
        by (auto simp: invoke_def Let_def intro: refuse_answer)
      then show ?thesis by (rule that(1))
    next
      case loaded
      show ?thesis
      proof (cases "contract item v")
        case (Raises e)
        with assms Some described loaded show ?thesis by (simp add: invoke_def)
      next
        case (Problem p)
        with assms Some described loaded have "no_call gw gw'"
          by (auto simp: invoke_def Let_def intro: refuse_answer)
        then show ?thesis by (rule that(1))
      next
        case Fits
        then obtain args where v: "v = JObj args" by (cases v) (auto simp: contract_def)
        from assms Some described loaded Fits obtain refusal where p: "permit su gw item = Inr refusal"
          by (auto simp: invoke_def raise_simps)
        show ?thesis
        proof (cases "refusal = []")
          case True
          with assms Some described loaded Fits p v have "gw' = snd (call_provider su item args gw)"
            by (auto simp: invoke_def split: if_splits dest: sym)
          with Some described Fits v p True show ?thesis using that(2) permit_consented by blast
        next
          case False
          with assms Some described loaded Fits p have "no_call gw gw'"
            by (auto simp: invoke_def Let_def intro: refuse_answer)
          then show ?thesis by (rule that(1))
        qed
      qed
    qed
  qed
qed

lemma describe_cases [consumes 1, case_names none told]:
  assumes "describe su given gw = (answer, gw')"
  obtains "no_call gw gw'"
  | item where "resolve_capability gw given = Some item"
      "gw' = traced (CapabilityDescribed (ca_provider item) (ca_id item) (action_value (ca_action item)))
           (gw\<lparr>gw_described := List.insert (ca_id item) (gw_described gw)\<rparr>)"
proof (cases "resolve_capability gw given")
  case None
  with assms have "no_call gw gw'" by (auto simp: describe_def intro: unknown_answer)
  then show ?thesis by (rule that(1))
next
  case (Some item)
  with assms show ?thesis by (intro that(2) [of item]) (auto simp: describe_def)
qed

lemma run_command_cases [consumes 1, case_names none told called]:
  assumes "run_command su command gw = Inr (answer, gw')"
  obtains "no_call gw gw'"
  | given item where "resolve_capability gw given = Some item"
      "gw' = traced (CapabilityDescribed (ca_provider item) (ca_id item) (action_value (ca_action item)))
           (gw\<lparr>gw_described := List.insert (ca_id item) (gw_described gw)\<rparr>)"
  | given item args where "resolve_capability gw given = Some item" "ca_id item \<in> set (gw_described gw)"
      "contract item (JObj args) = Fits" "consented su gw item" "gw' = snd (call_provider su item args gw)"
proof -
  consider (quiet) "no_call gw gw'"
    | (describe) given where "describe su given gw = (answer, gw')"
    | (invoke) given raw where "invoke su given raw gw = Inr (answer, gw')"
    using assms
    by (auto simp: run_command_def Let_def split: sum.splits if_splits dest: refuse_answer)
  then show ?thesis
  proof cases
    case quiet
    then show ?thesis by (rule that(1))
  next
    case describe
    then show ?thesis by (cases rule: describe_cases) (auto intro: that(1,2))
  next
    case invoke
    then show ?thesis
    proof (cases rule: invoke_cases)
      case none
      then show ?thesis by (rule that(1))
    next
      case (called item args)
      then show ?thesis by (rule that(3))
    qed
  qed
qed

text \<open>
  C11: one command makes at most one external call, and only of a capability that was admitted
  to the turn, has been described, and whose declared contract the arguments meet; and a
  capability that changes something only if the turn is not a question, the deployment does
  not refuse it, the task may change things and the operator confirmed this very call.
\<close>

theorem every_call_is_permitted:
  assumes "run_command su command gw = Inr (answer, gw')"
  shows "\<exists>made. gw_calls gw' = gw_calls gw @ made \<and> length made \<le> 1 \<and>
    (\<forall>(p, n, args) \<in> set made. \<exists>item \<in> set (dict_values (gw_items gw)). ca_provider item = p \<and> ca_name item = n \<and>
       ca_id item \<in> set (gw_described gw) \<and> contract item (JObj args) = Fits \<and> p \<in> set (gw_providers gw) \<and>
       (ca_action item = WRITE \<longrightarrow> \<not> gw_read_only gw \<and> su_may_mutate su \<and>
          su_confirm su (''Run external WRITE capability '' @ ca_id item @ '' ?'') \<and>
          (\<exists>config. map_of (gw_configs gw) p = Some config \<and> pc_write config \<noteq> WRITE_REFUSE)))"
  using assms
proof (cases rule: run_command_cases)
  case none
  then show ?thesis by (intro exI [of _ "[]"]) (simp add: no_call_def)
next
  case told
  then show ?thesis by (intro exI [of _ "[]"]) (simp add: traced_def)
next
  case (called given item args)
  have "item \<in> set (dict_values (gw_items gw))" by (rule resolve_item [OF called(1)])
  with called show ?thesis
    using call_provider_calls [of su item args gw]
    by (intro exI [of _ "[(ca_provider item, ca_name item, args)]"]) (auto simp: consented_def)
qed

section \<open>A whole turn\<close>

definition fresh_gateway :: "gateway \<Rightarrow> bool" where
  "fresh_gateway gw \<longleftrightarrow> gw_items gw = [] \<and> gw_described gw = [] \<and> gw_mode gw = DIRECT \<and> gw_failed gw = [] \<and>
     gw_trace gw = [] \<and> gw_calls gw = []"

text \<open>A turn: the index is prepared once, then commands come, each in surroundings of its own.\<close>

inductive gateway_turn :: "gateway \<Rightarrow> gateway \<Rightarrow> bool" where
  prepared: "fresh_gateway gw \<Longrightarrow> prepare su gw = Inr (shown, gw') \<Longrightarrow> gateway_turn gw gw'"
| ran: "gateway_turn gw gw' \<Longrightarrow> run_command su command gw' = Inr (answer, gw'') \<Longrightarrow> gateway_turn gw gw''"

definition told :: "gateway \<Rightarrow> string \<Rightarrow> bool" where
  "told gw k \<longleftrightarrow> gw_mode gw = DIRECT \<or> (\<exists>p a. CapabilityDescribed p k a \<in> set (gw_trace gw))"

definition turn_ok :: "gateway \<Rightarrow> bool" where
  "turn_ok gw \<longleftrightarrow> (\<forall>k \<in> set (gw_described gw). told gw k) \<and>
     (\<forall>(p, n, args) \<in> set (gw_calls gw). \<exists>item \<in> set (dict_values (gw_items gw)).
        ca_provider item = p \<and> ca_name item = n \<and> p \<in> set (gw_providers gw) \<and> told gw (ca_id item))"

lemma told_mono: "told gw k \<Longrightarrow> gw_mode gw' = gw_mode gw \<Longrightarrow> prefix (gw_trace gw) (gw_trace gw') \<Longrightarrow> told gw' k"
  by (auto simp: told_def dest: set_mono_prefix)

lemma turn_ok_more:
  assumes "turn_ok gw" "same_scope gw gw'" "prefix (gw_trace gw) (gw_trace gw')"
    and "\<forall>k \<in> set (gw_described gw'). k \<in> set (gw_described gw) \<or> told gw' k"
    and "\<forall>c \<in> set (gw_calls gw'). c \<in> set (gw_calls gw) \<or>
      (\<exists>item \<in> set (dict_values (gw_items gw)). ca_provider item = fst c \<and> ca_name item = fst (snd c) \<and>
         fst c \<in> set (gw_providers gw) \<and> told gw' (ca_id item))"
  shows "turn_ok gw'"
proof -
  have t: "told gw k \<Longrightarrow> told gw' k" for k using told_mono assms(2,3) by (simp add: same_scope_def)
  show ?thesis unfolding turn_ok_def
  proof (intro conjI ballI)
    fix k
    assume "k \<in> set (gw_described gw')"
    with assms(1,4) t show "told gw' k" by (auto simp: turn_ok_def)
  next
    fix c
    assume "c \<in> set (gw_calls gw')"
    with assms(5) consider "c \<in> set (gw_calls gw)" | "\<exists>item \<in> set (dict_values (gw_items gw)). ca_provider item = fst c \<and>
        ca_name item = fst (snd c) \<and> fst c \<in> set (gw_providers gw) \<and> told gw' (ca_id item)" by blast
    then have "\<exists>item \<in> set (dict_values (gw_items gw)). ca_provider item = fst c \<and> ca_name item = fst (snd c) \<and>
        fst c \<in> set (gw_providers gw) \<and> told gw' (ca_id item)"
    proof cases
      case 1
      with assms(1) have "\<exists>item \<in> set (dict_values (gw_items gw)). ca_provider item = fst c \<and>
          ca_name item = fst (snd c) \<and> fst c \<in> set (gw_providers gw) \<and> told gw (ca_id item)"
        unfolding turn_ok_def case_prod_unfold by (elim conjE bspec)
      with t show ?thesis by blast
    qed
    with assms(2) show "case c of (p, n, args) \<Rightarrow> \<exists>item \<in> set (dict_values (gw_items gw')).
        ca_provider item = p \<and> ca_name item = n \<and> p \<in> set (gw_providers gw') \<and> told gw' (ca_id item)"
      by (simp add: case_prod_unfold same_scope_def)
  qed
qed

lemma run_turn_ok:
  assumes "turn_ok gw" "run_command su command gw = Inr (answer, gw')"
  shows "turn_ok gw'"
  using assms(2)
proof (cases rule: run_command_cases)
  case none
  show ?thesis by (rule turn_ok_more [OF assms(1)]) (use none in \<open>auto simp: no_call_def\<close>)
next
  case told: (told given item)
  show ?thesis
    by (rule turn_ok_more [OF assms(1)]) (use told in \<open>auto simp: traced_def same_scope_def told_def\<close>)
next
  case (called given item args)
  note c = call_provider_calls [of su item args gw, folded called(5)]
  have "told gw (ca_id item)" using assms(1) called(2) by (simp add: turn_ok_def)
  then have "told gw' (ca_id item)" using told_mono c by (simp add: same_scope_def)
  with c called(4) resolve_item [OF called(1)] show ?thesis
    by (intro turn_ok_more [OF assms(1)]) (auto simp: consented_def)
qed

lemma list_provider_keeps:
  "list_provider su p gw = Inr gw' \<Longrightarrow> gw_described gw' = gw_described gw \<and> gw_calls gw' = gw_calls gw"
proof -
  have f: "gw_described (fold (\<lambda>problem. traced (DeclarationFailed p problem)) ps g) = gw_described g \<and>
      gw_calls (fold (\<lambda>problem. traced (DeclarationFailed p problem)) ps g) = gw_calls g" for ps g
    by (induction ps arbitrary: g) (simp_all add: traced_def)
  assume "list_provider su p gw = Inr gw'"
  then show ?thesis using f
    by (auto simp: list_provider_def traced_def split: if_splits sum.splits prod.splits)
qed

lemma list_providers_keeps:
  "list_providers su ps gw = Inr gw' \<Longrightarrow> gw_described gw' = gw_described gw \<and> gw_calls gw' = gw_calls gw"
  by (induction ps arbitrary: gw) (auto simp: raise_simps dest!: list_provider_keeps)

lemma prepare_turn_ok:
  assumes "fresh_gateway gw" "prepare su gw = Inr (shown, gw')"
  shows "turn_ok gw'"
proof -
  from assms(2) obtain g where g: "list_providers su (gw_providers gw) gw = Inr g"
    by (auto simp: prepare_def raise_simps)
  with list_providers_keeps [OF g] assms show ?thesis
    by (cases "gw_items g = []")
      (auto simp: prepare_def fresh_gateway_def turn_ok_def told_def traced_def Let_def split: if_splits)
qed

text \<open>
  Over a whole turn, every call that was made is of a capability of an admitted provider,
  and of one the model had been shown: all of a small family, or, of a large one, those it had
  asked to have described.
\<close>

theorem calls_follow_descriptions:
  assumes "gateway_turn start gw" "(p, n, args) \<in> set (gw_calls gw)"
  shows "\<exists>item \<in> set (dict_values (gw_items gw)). ca_provider item = p \<and> ca_name item = n \<and> p \<in> set (gw_providers gw) \<and>
    (gw_mode gw = DIRECT \<or> (\<exists>pr a. CapabilityDescribed pr (ca_id item) a \<in> set (gw_trace gw)))"
proof -
  from assms(1) have "turn_ok gw" by induction (auto intro: prepare_turn_ok run_turn_ok)
  with assms(2) show ?thesis by (fastforce simp: turn_ok_def told_def)
qed

section \<open>A turn played out\<close>

definition demo_capability :: capability where
  "demo_capability = \<lparr>ca_id = ''notes/add'', ca_provider = ''notes'', ca_name = ''add'', ca_title = ''add'',
     ca_summary = ''adds a note'', ca_description = ''adds a note'', ca_action = WRITE,
     ca_schema = [(''type'', JStr ''object'')], ca_family = ''EXTERNAL'', ca_provenance = []\<rparr>"

definition demo_surroundings :: surroundings where
  "demo_surroundings = \<lparr>su_list = (\<lambda>_. Inr ([demo_capability], [])), su_invoke = (\<lambda>_ _ _. Inr \<lparr>iv_text = ''done'', iv_is_error = False\<rparr>),
     su_confirm = (\<lambda>_. True), su_may_mutate = True, su_loads = (\<lambda>raw. if raw = ''{}'' then Inr (JObj []) else Inl ''bad''),
     su_near = (\<lambda>_ _. []), su_how = (\<lambda>_. ''how'')\<rparr>"

definition demo_start :: gateway where
  "demo_start = \<lparr>gw_configs = [(''notes'', \<lparr>pc_id = ''notes'', pc_read = [], pc_write = WRITE_CONFIRM\<rparr>)],
     gw_providers = [''notes''], gw_read_only = False, gw_items = [], gw_described = [], gw_mode = DIRECT,
     gw_failed = [], gw_trace = [], gw_calls = []\<rparr>"

definition demo_prepared :: gateway where
  "demo_prepared = (case prepare demo_surroundings demo_start of Inr (_, gw) \<Rightarrow> gw | Inl _ \<Rightarrow> demo_start)"

definition demo_command :: string where
  "demo_command = ''spear-capability invoke notes/add''"

lemma demo_turn:
  obtains answer gw where "gateway_turn demo_start demo_prepared"
    "run_command demo_surroundings demo_command demo_prepared = Inr (answer, gw)" "gw_calls gw = [(''notes'', ''add'', [])]"
    "gw_calls demo_prepared = []"
proof -
  have f: "fresh_gateway demo_start" by (simp add: fresh_gateway_def demo_start_def)
  have "\<not> isl (prepare demo_surroundings demo_start)" by code_simp
  then obtain t gw where "prepare demo_surroundings demo_start = Inr (t, gw)"
    by (cases "prepare demo_surroundings demo_start") auto
  with prepared [OF f this] have t: "gateway_turn demo_start demo_prepared" by (simp add: demo_prepared_def)
  have "case run_command demo_surroundings demo_command demo_prepared of
      Inl _ \<Rightarrow> False | Inr (_, gw) \<Rightarrow> gw_calls gw = [(''notes'', ''add'', [])]" by code_simp
  moreover have "gw_calls demo_prepared = []" by code_simp
  ultimately show ?thesis using that t by (auto split: sum.splits prod.splits)
qed

theorem every_call_is_permitted_witness:
  "\<exists>answer gw'. run_command demo_surroundings demo_command demo_prepared = Inr (answer, gw') \<and>
     gw_calls gw' = [(''notes'', ''add'', [])] \<and>
     (\<exists>item \<in> set (dict_values (gw_items demo_prepared)). ca_name item = ''add'' \<and> contract item (JObj []) = Fits)"
proof (rule demo_turn)
  fix answer gw
  assume r: "run_command demo_surroundings demo_command demo_prepared = Inr (answer, gw)"
    "gw_calls gw = [(''notes'', ''add'', [])]" "gw_calls demo_prepared = []"
  from every_call_is_permitted [OF r(1)] r(2,3)
  have "\<exists>item \<in> set (dict_values (gw_items demo_prepared)). ca_name item = ''add'' \<and> contract item (JObj []) = Fits" by auto
  with r show ?thesis by blast
qed

theorem calls_follow_descriptions_witness:
  "\<exists>gw. gateway_turn demo_start gw \<and> gw_calls gw = [(''notes'', ''add'', [])] \<and>
     (\<exists>item \<in> set (dict_values (gw_items gw)). ca_name item = ''add'')"
proof (rule demo_turn)
  fix answer gw
  assume t: "gateway_turn demo_start demo_prepared"
    and r: "run_command demo_surroundings demo_command demo_prepared = Inr (answer, gw)"
    and c: "gw_calls gw = [(''notes'', ''add'', [])]"
  have g: "gateway_turn demo_start gw" by (rule ran [OF t r])
  have "(''notes'', ''add'', []) \<in> set (gw_calls gw)" using c by simp
  from calls_follow_descriptions [OF g this] g c show ?thesis by blast
qed

end
