(* ===== verification/Refusal_Breaker.thy ===== *)
theory Refusal_Breaker
  imports Text_Patterns
begin

text \<open>
  The refusal breaker (\<open>client/harness/refusal_breaker.py\<close>) stops a turn that keeps asking for
  what was already refused.  Two calls are the same operation when they have the same
  signature.  \<open>pystr\<close> is \<open>str\<close> of an argument that is not a string.
\<close>

section \<open>Signatures\<close>

definition PATH_rx :: rx where
  "PATH_rx = Seq (plus (Seq (ch CHR ''/'') (plus (Cls (\<lambda>c. rx_word c \<or> c \<in> set ''.@+-''))))) (opt (ch CHR ''/''))"

definition NUMBER_rx :: rx where
  "NUMBER_rx = plus (Cls rx_digit)"

definition text_or_empty :: "(json \<Rightarrow> string) \<Rightarrow> json \<Rightarrow> string" where
  "text_or_empty pystr v = (if \<not> json_truthy v then [] else case v of JStr s \<Rightarrow> s | _ \<Rightarrow> pystr v)"

definition dot_slash_rx :: rx where
  "dot_slash_rx = seqs [Not_behind (\<lambda>c. rx_word c \<or> c = CHR ''.''), lit ''./'']"

definition trailing_slash_rx :: rx where
  "trailing_slash_rx = Seq (plus (ch CHR ''/'')) (Ahead (Alt space Eol))"

definition target_of :: "(json \<Rightarrow> string) \<Rightarrow> string \<Rightarrow> json \<Rightarrow> string" where
  "target_of pystr name arguments =
     (let args = (case arguments of JObj d \<Rightarrow> d | _ \<Rightarrow> []);
          given = (if name = ''terminal'' then text_or_empty pystr (get args ''command'')
                   else if json_truthy (get args ''path'') then text_or_empty pystr (get args ''path'')
                   else text_or_empty pystr (get args ''pattern''));
          unquoted = sub (one_of [CHR 0x22, CHR 0x27]) [] given;
          undotted = sub dot_slash_rx [] unquoted
      in squeeze (sub trailing_slash_rx [] undotted))"

text \<open>The characters at which \<open>splitlines\<close> ends a line.\<close>

definition line_end :: "char \<Rightarrow> bool" where
  "line_end c \<longleftrightarrow> (let n = (of_char c :: nat) in 10 \<le> n \<and> n \<le> 13 \<or> 28 \<le> n \<and> n \<le> 30 \<or> n = 133)"

definition reason_of :: "string \<Rightarrow> string" where
  "reason_of result = take 160 (sub NUMBER_rx ''#'' (sub PATH_rx ''<path>'' (takeWhile (\<lambda>c. \<not> line_end c) (strip result))))"

type_synonym refusal_signature = "string \<times> string \<times> string"

definition signature :: "(json \<Rightarrow> string) \<Rightarrow> string \<Rightarrow> json \<Rightarrow> string \<Rightarrow> refusal_signature" where
  "signature pystr name arguments result = (name, target_of pystr name arguments, reason_of result)"

section \<open>The breaker\<close>

record refusal_breaker =
  rb_limit :: int
  rb_counts :: "(refusal_signature \<times> int) list"
  rb_tripped :: "refusal_signature option"

definition new_breaker :: "int \<Rightarrow> refusal_breaker" where
  "new_breaker limit = \<lparr>rb_limit = max 1 limit, rb_counts = [], rb_tripped = None\<rparr>"

definition count_of :: "refusal_breaker \<Rightarrow> refusal_signature \<Rightarrow> int" where
  "count_of b k = (case map_of (rb_counts b) k of None \<Rightarrow> 0 | Some n \<Rightarrow> n)"

definition observe :: "(json \<Rightarrow> string) \<Rightarrow> string \<Rightarrow> json \<Rightarrow> string \<Rightarrow> bool \<Rightarrow> refusal_breaker \<Rightarrow> bool \<times> refusal_breaker" where
  "observe pystr name arguments result refused b =
     (if \<not> refused \<or> rb_tripped b \<noteq> None then (rb_tripped b \<noteq> None, b)
      else let key = signature pystr name arguments result;
               n = count_of b key + 1;
               b' = b\<lparr>rb_counts := AList.update key n (rb_counts b),
                      rb_tripped := (if rb_limit b \<le> n then Some key else None)\<rparr>
           in (rb_tripped b' \<noteq> None, b'))"

definition conclusion :: "refusal_breaker \<Rightarrow> string option" where
  "conclusion b =
     (case rb_tripped b of
        None \<Rightarrow> None
      | Some (name, tgt, why) \<Rightarrow> Some (''I stopped: the same '' @ name @ '' operation ('' @
          (if tgt = [] then ''no target'' else tgt) @ '') was refused '' @ int_str (count_of b (name, tgt, why)) @
          '' times, and repeating it cannot change that. The refusal was: '' @ why @
          ''. The changes made before this point, if any, are listed above; '' @
          ''the remaining step needs a different approach or an operator decision.''))"

section \<open>When it trips\<close>

text \<open>A turn: the calls it made, with their results and whether each was refused.\<close>

type_synonym observed_call = "string \<times> json \<times> string \<times> bool"

fun watch :: "(json \<Rightarrow> string) \<Rightarrow> observed_call list \<Rightarrow> refusal_breaker \<Rightarrow> refusal_breaker" where
  "watch pystr [] b = b"
| "watch pystr ((name, arguments, result, refused) # cs) b =
     watch pystr cs (snd (observe pystr name arguments result refused b))"

fun refusals :: "(json \<Rightarrow> string) \<Rightarrow> observed_call list \<Rightarrow> refusal_signature list" where
  "refusals pystr [] = []"
| "refusals pystr ((name, arguments, result, refused) # cs) =
     (if refused then [signature pystr name arguments result] else []) @ refusals pystr cs"

lemma watch_append: "watch pystr (xs @ ys) b = watch pystr ys (watch pystr xs b)"
  by (induction pystr xs b rule: watch.induct) simp_all

lemma refusals_append: "refusals pystr (xs @ ys) = refusals pystr xs @ refusals pystr ys"
  by (induction pystr xs rule: refusals.induct) simp_all

text \<open>
  Before it trips the breaker has counted every refusal and none has reached the limit; once
  it has tripped, the operation it names was refused exactly that many times.
\<close>

definition breaker_ok :: "int \<Rightarrow> refusal_signature list \<Rightarrow> refusal_breaker \<Rightarrow> bool" where
  "breaker_ok limit sigs b \<longleftrightarrow> rb_limit b = max 1 limit \<and>
     (case rb_tripped b of
        None \<Rightarrow> (\<forall>k. count_of b k = int (count_list sigs k) \<and> int (count_list sigs k) < max 1 limit)
      | Some k \<Rightarrow> count_of b k = max 1 limit \<and> max 1 limit \<le> int (count_list sigs k))"

lemma count_of_update:
  "count_of (b\<lparr>rb_counts := AList.update k n (rb_counts b), rb_tripped := t\<rparr>) j = (if j = k then n else count_of b j)"
  by (simp add: count_of_def map_of_update)

lemma observe_ok:
  assumes "breaker_ok limit sigs b"
  shows "breaker_ok limit (sigs @ (if refused then [signature pystr name arguments result] else []))
    (snd (observe pystr name arguments result refused b))"
proof (cases "rb_tripped b")
  case (Some k)
  with assms show ?thesis by (auto simp: breaker_ok_def observe_def)
next
  case None
  show ?thesis
  proof (cases refused)
    case True
    let ?k = "signature pystr name arguments result"
    from None assms have c: "count_of b j = int (count_list sigs j)" "int (count_list sigs j) < max 1 limit"
      "rb_limit b = max 1 limit" for j by (simp_all add: breaker_ok_def del: split_paired_All)
    have "max 1 limit \<le> count_of b ?k + 1 \<Longrightarrow> count_of b ?k + 1 = max 1 limit" using c(1,2) [of ?k] by linarith
    moreover have "int (count_list (sigs @ [?k]) j) = (if j = ?k then count_of b ?k + 1 else count_of b j)" for j
      using c(1) [of j] c(1) [of ?k] by simp
    ultimately show ?thesis using True None c
      by (auto simp: breaker_ok_def observe_def Let_def count_of_update simp del: split_paired_All)
  qed (use None assms in \<open>simp add: observe_def\<close>)
qed

lemma watch_ok: "breaker_ok limit (refusals pystr cs) (watch pystr cs (new_breaker limit))"
proof (induction cs rule: rev_induct)
  case Nil
  then show ?case by (auto simp: breaker_ok_def new_breaker_def count_of_def)
next
  case (snoc c cs)
  obtain name arguments result refused where c: "c = (name, arguments, result, refused)" by (cases c)
  from observe_ok [OF snoc, of refused pystr name arguments result] show ?case
    by (simp add: c watch_append refusals_append)
qed

text \<open>
  A turn is stopped exactly if some operation was refused as often as the limit says,
  never before, and whatever the calls in between; the operation it names was, by the count
  it reports, refused exactly that often.
\<close>

theorem breaker_trips_at_the_limit:
  "(rb_tripped (watch pystr calls (new_breaker limit)) \<noteq> None \<longleftrightarrow>
      (\<exists>k. max 1 limit \<le> int (count_list (refusals pystr calls) k)))
   \<and> (case rb_tripped (watch pystr calls (new_breaker limit)) of None \<Rightarrow> True
      | Some k \<Rightarrow> count_of (watch pystr calls (new_breaker limit)) k = max 1 limit)"
proof -
  note ok = watch_ok [of limit pystr calls]
  show ?thesis
  proof (cases "rb_tripped (watch pystr calls (new_breaker limit))")
    case None
    with ok have "\<forall>k. int (count_list (refusals pystr calls) k) < max 1 limit" by (simp add: breaker_ok_def del: split_paired_All)
    then have "\<not> (\<exists>k. max 1 limit \<le> int (count_list (refusals pystr calls) k))" by (meson not_le)
    with None show ?thesis by simp
  next
    case (Some k)
    with ok have "max 1 limit \<le> int (count_list (refusals pystr calls) k)"
      "count_of (watch pystr calls (new_breaker limit)) k = max 1 limit" by (simp_all add: breaker_ok_def)
    then have "\<exists>k. max 1 limit \<le> int (count_list (refusals pystr calls) k)"
      "count_of (watch pystr calls (new_breaker limit)) k = max 1 limit" by blast+
    with Some show ?thesis by (simp del: split_paired_Ex)
  qed
qed

end
