(* ===== verification/Resource_Control.thy ===== *)
theory Resource_Control
  imports Spear_Prelude
begin

text \<open>
  Resource control of sandboxed commands (\<open>client/harness/resource_control.py\<close>): the profile
  derived from granted capabilities, per-process limits, limits of the whole process tree,
  and the systemd scope that enforces the latter.  The host is a record of what the code reads
  of it: its binaries, runtime directory, user bus, delegated controllers and environment.
  Killing a scope and reading \<open>/proc\<close> are left out.
\<close>

section \<open>Execution profiles\<close>

datatype tool_capability =
    FILESYSTEM_READ | HOST_READ | WORKSPACE_WRITE | SHELL_COMPLEX | NETWORK | GPU | SSH | REMOTE_WRITE
  | CONTAINER_RUNTIME | SECRETS

datatype resource_error = ResourceValueError string

record execution_profile =
  ep_capabilities :: "tool_capability set"
  ep_workspace_read :: bool
  ep_workspace_write :: bool
  ep_shell_complex :: bool
  ep_network :: bool
  ep_gpu :: bool
  ep_ssh :: bool
  ep_container_runtime :: bool
  ep_secrets_allowed :: bool
  ep_host_read_paths :: "string list"

definition from_capabilities :: "tool_capability set \<Rightarrow> string list \<Rightarrow> resource_error + execution_profile" where
  "from_capabilities granted host_read_paths =
     (let workspace_read = FILESYSTEM_READ \<in> granted;
          workspace_write = WORKSPACE_WRITE \<in> granted;
          network = NETWORK \<in> granted;
          ssh = SSH \<in> granted
      in if workspace_write \<and> \<not> workspace_read
         then Inl (ResourceValueError ''workspace:write requires filesystem:read'')
         else if ssh \<and> \<not> network then Inl (ResourceValueError ''ssh requires network'')
         else if REMOTE_WRITE \<in> granted \<and> \<not> network
         then Inl (ResourceValueError ''remote:write requires network'')
         else if host_read_paths \<noteq> [] \<and> HOST_READ \<notin> granted
         then Inl (ResourceValueError ''outside paths require host:read'')
         else Inr \<lparr>ep_capabilities = granted, ep_workspace_read = workspace_read, ep_workspace_write = workspace_write,
           ep_shell_complex = (SHELL_COMPLEX \<in> granted), ep_network = network, ep_gpu = (GPU \<in> granted),
           ep_ssh = ssh, ep_container_runtime = (CONTAINER_RUNTIME \<in> granted),
           ep_secrets_allowed = (SECRETS \<in> granted), ep_host_read_paths = host_read_paths\<rparr>)"

definition audit_metadata :: "execution_profile \<Rightarrow> (string \<times> bool) list" where
  "audit_metadata p =
    [(''host_read'', ep_host_read_paths p \<noteq> []), (''workspace_read'', ep_workspace_read p),
     (''workspace_write'', ep_workspace_write p), (''shell_complex'', ep_shell_complex p), (''network'', ep_network p),
     (''gpu'', ep_gpu p), (''ssh'', ep_ssh p), (''container_runtime'', ep_container_runtime p),
     (''secrets_allowed'', ep_secrets_allowed p)]"

section \<open>Limits\<close>

text \<open>An attribute as it was given: nothing, an integer, or a value of another type.\<close>

datatype given_limit = NoLimit | IntLimit int | OtherLimit

definition limit_value :: "given_limit \<Rightarrow> int option" where
  "limit_value v = (case v of IntLimit n \<Rightarrow> Some n | _ \<Rightarrow> None)"

definition limit_ok :: "int \<Rightarrow> given_limit \<Rightarrow> bool" where
  "limit_ok minimum v = (case v of NoLimit \<Rightarrow> True | IntLimit n \<Rightarrow> minimum \<le> n | OtherLimit \<Rightarrow> False)"

record resource_limits =
  rl_nofile :: "int option"
  rl_core_bytes :: "int option"
  rl_cpu_seconds :: "int option"
  rl_file_size_bytes :: "int option"

definition new_resource_limits :: "given_limit \<Rightarrow> given_limit \<Rightarrow> given_limit \<Rightarrow> given_limit \<Rightarrow>
    resource_error + resource_limits" where
  "new_resource_limits nofile core cpu fsize =
     (case find (\<lambda>(name, v). \<not> limit_ok 0 v) [(''nofile'', nofile), (''core_bytes'', core), (''cpu_seconds'', cpu),
             (''file_size_bytes'', fsize)] of
        Some (name, _) \<Rightarrow> Inl (ResourceValueError (name @ '' must be a non-negative integer or None''))
      | None \<Rightarrow>
        if nofile = IntLimit 0 then Inl (ResourceValueError ''nofile must be greater than zero'')
        else Inr \<lparr>rl_nofile = limit_value nofile, rl_core_bytes = limit_value core, rl_cpu_seconds = limit_value cpu,
                  rl_file_size_bytes = limit_value fsize\<rparr>)"

definition rlimits_active :: "resource_limits \<Rightarrow> bool" where
  "rlimits_active l \<longleftrightarrow> list_ex (\<lambda>v. v \<noteq> None) [rl_nofile l, rl_core_bytes l, rl_cpu_seconds l, rl_file_size_bytes l]"

definition prlimit_options :: "resource_limits \<Rightarrow> string list" where
  "prlimit_options l = concat (map (\<lambda>(option, v). case v of None \<Rightarrow> []
       | Some n \<Rightarrow> [''--'' @ option @ ''='' @ int_str n @ '':'' @ int_str n])
     [(''nofile'', rl_nofile l), (''core'', rl_core_bytes l), (''cpu'', rl_cpu_seconds l), (''fsize'', rl_file_size_bytes l)])"

definition default_resource_limits :: resource_limits where
  "default_resource_limits = \<lparr>rl_nofile = Some 4096, rl_core_bytes = Some 0, rl_cpu_seconds = None, rl_file_size_bytes = None\<rparr>"

record cgroup_limits =
  cl_memory_max_bytes :: "int option"
  cl_memory_swap_max_bytes :: "int option"
  cl_tasks_max :: "int option"
  cl_cpu_quota_percent :: "int option"

definition new_cgroup_limits :: "given_limit \<Rightarrow> given_limit \<Rightarrow> given_limit \<Rightarrow> given_limit \<Rightarrow>
    resource_error + cgroup_limits" where
  "new_cgroup_limits memory swap tasks cpu =
     (case find (\<lambda>(name, v, minimum). \<not> limit_ok minimum v)
             [(''memory_max_bytes'', memory, 1), (''memory_swap_max_bytes'', swap, 0), (''tasks_max'', tasks, 1),
              (''cpu_quota_percent'', cpu, 1)] of
        Some (name, _, minimum) \<Rightarrow>
          Inl (ResourceValueError (name @ '' must be None or an integer >= '' @ int_str minimum))
      | None \<Rightarrow> Inr \<lparr>cl_memory_max_bytes = limit_value memory, cl_memory_swap_max_bytes = limit_value swap,
                      cl_tasks_max = limit_value tasks, cl_cpu_quota_percent = limit_value cpu\<rparr>)"

definition cgroup_active :: "cgroup_limits \<Rightarrow> bool" where
  "cgroup_active l \<longleftrightarrow> list_ex (\<lambda>v. v \<noteq> None)
     [cl_memory_max_bytes l, cl_memory_swap_max_bytes l, cl_tasks_max l, cl_cpu_quota_percent l]"

definition required_controllers :: "cgroup_limits \<Rightarrow> string list" where
  "required_controllers l =
     (if cl_memory_max_bytes l \<noteq> None \<or> cl_memory_swap_max_bytes l \<noteq> None then [''memory''] else []) @
     (if cl_tasks_max l \<noteq> None then [''pids''] else []) @
     (if cl_cpu_quota_percent l \<noteq> None then [''cpu''] else [])"

definition systemd_properties :: "cgroup_limits \<Rightarrow> string list" where
  "systemd_properties l =
     concat (map (\<lambda>(name, v). case v of None \<Rightarrow> [] | Some n \<Rightarrow> [name @ ''='' @ int_str n])
       [(''MemoryMax'', cl_memory_max_bytes l), (''MemorySwapMax'', cl_memory_swap_max_bytes l),
        (''TasksMax'', cl_tasks_max l)]) @
     (case cl_cpu_quota_percent l of None \<Rightarrow> [] | Some n \<Rightarrow> [''CPUQuota='' @ int_str n @ ''%''])"

definition default_cgroup_limits :: cgroup_limits where
  "default_cgroup_limits = \<lparr>cl_memory_max_bytes = Some (2 * 1024 * 1024 * 1024), cl_memory_swap_max_bytes = Some 0,
     cl_tasks_max = Some 256, cl_cpu_quota_percent = Some 800\<rparr>"

section \<open>The scope\<close>

datatype cgroup_availability =
    CG_UNKNOWN | CG_AVAILABLE | SYSTEMD_RUN_ABSENT | DELEGATED | SYSTEMCTL_ABSENT | USER_BUS_UNAVAILABLE
  | CONTROLLERS_UNAVAILABLE | CG_REFUSED

datatype bus_state = NoBus | BusSocket | BusOther

record host =
  ho_missing :: "string \<Rightarrow> bool"
  ho_runtime_dir_ok :: bool
  ho_bus :: bus_state
  ho_controllers :: "string list"
  ho_resource_control :: "string option"

record scope_runner =
  sr_systemd_run :: string
  sr_systemctl :: string
  sr_availability :: cgroup_availability

definition delegated :: "host \<Rightarrow> bool" where
  "delegated h \<longleftrightarrow> ho_resource_control h = Some ''delegated''"

definition unavailable :: "cgroup_availability \<Rightarrow> string \<Rightarrow> scope_runner \<Rightarrow> string option \<times> scope_runner" where
  "unavailable a why r = (Some (''resource control unavailable: '' @ why), r\<lparr>sr_availability := a\<rparr>)"

text \<open>The failure, if any, and the runner with what it found.\<close>

definition availability_for :: "host \<Rightarrow> cgroup_limits \<Rightarrow> scope_runner \<Rightarrow> string option \<times> scope_runner" where
  "availability_for h l r =
     (if \<not> cgroup_active l then (None, r)
      else if delegated h then (None, r\<lparr>sr_availability := DELEGATED\<rparr>)
      else if ho_missing h (sr_systemd_run r) then unavailable SYSTEMD_RUN_ABSENT ''systemd-run is absent'' r
      else if ho_missing h (sr_systemctl r) then unavailable SYSTEMCTL_ABSENT ''systemctl is absent'' r
      else if \<not> ho_runtime_dir_ok h then unavailable USER_BUS_UNAVAILABLE ''XDG_RUNTIME_DIR is invalid'' r
      else if ho_bus h = NoBus then unavailable USER_BUS_UNAVAILABLE ''user bus is absent'' r
      else if ho_bus h = BusOther then unavailable USER_BUS_UNAVAILABLE ''user bus is not a socket'' r
      else let lacking = filter (\<lambda>c. c \<notin> set (ho_controllers h)) (required_controllers l) in
           if lacking \<noteq> []
           then unavailable CONTROLLERS_UNAVAILABLE (''cgroup controllers not delegated: '' @ join '', '' (sort lacking)) r
           else (None, r\<lparr>sr_availability := CG_AVAILABLE\<rparr>))"

definition unit_name :: "string \<Rightarrow> string" where
  "unit_name uuid = ''spear-tool-'' @ uuid @ ''.scope''"

definition wrap :: "host \<Rightarrow> string list \<Rightarrow> cgroup_limits \<Rightarrow> string \<Rightarrow> scope_runner \<Rightarrow> resource_error + string list" where
  "wrap h argv l u r =
     (if argv = [] then Inl (ResourceValueError ''scoped argv is empty'')
      else if \<not> cgroup_active l \<or> delegated h then Inr argv
      else Inr ([sr_systemd_run r, ''--user'', ''--scope'', ''--quiet'', ''--collect'', ''--unit='' @ u] @
        concat (map (\<lambda>p. [''-p'', p]) (systemd_properties l)) @ [''--''] @ argv))"

section \<open>What holds\<close>

lemma property_listed:
  "cl_memory_max_bytes l = Some n \<Longrightarrow> ''MemoryMax='' @ int_str n \<in> set (systemd_properties l)"
  "cl_memory_swap_max_bytes l = Some n \<Longrightarrow> ''MemorySwapMax='' @ int_str n \<in> set (systemd_properties l)"
  "cl_tasks_max l = Some n \<Longrightarrow> ''TasksMax='' @ int_str n \<in> set (systemd_properties l)"
  "cl_cpu_quota_percent l = Some n \<Longrightarrow> ''CPUQuota='' @ int_str n @ ''%'' \<in> set (systemd_properties l)"
  by (simp_all add: systemd_properties_def)

text \<open>A property is passed when it stands right behind a \<open>-p\<close> among the options, which end at \<open>--\<close>.\<close>

definition passes :: "string list \<Rightarrow> string \<Rightarrow> bool" where
  "passes cmd p \<longleftrightarrow> sublist [''-p'', p] (takeWhile (\<lambda>w. w \<noteq> ''--'') (tl cmd))"

lemma passes_listed:
  assumes "p \<in> set ps" "''--'' \<notin> set flags" "''--'' \<notin> set ps"
  shows "passes (prog # flags @ concat (map (\<lambda>p. [''-p'', p]) ps) @ ''--'' # rest) p"
proof -
  from assms(1) obtain xs ys where ps: "ps = xs @ p # ys" by (meson split_list)
  let ?opts = "\<lambda>ps. concat (map (\<lambda>p. [''-p'', p]) ps)"
  have "takeWhile (\<lambda>w. w \<noteq> ''--'') (flags @ ?opts ps @ ''--'' # rest) = flags @ ?opts ps"
    using assms(2,3) by (subst append_assoc [symmetric], subst takeWhile_append2) (auto split: if_splits)
  then have "takeWhile (\<lambda>w. w \<noteq> ''--'') (flags @ ?opts ps @ ''--'' # rest) = (flags @ ?opts xs) @ [''-p'', p] @ ?opts ys"
    by (simp add: ps)
  then show ?thesis unfolding passes_def by (metis list.sel(3) sublist_appendI)
qed

lemma properties_no_dashes: "''--'' \<notin> set (systemd_properties l)"
  by (auto simp: systemd_properties_def split: option.splits)

text \<open>
  C37: the limits of a process tree are enforced or the command does not run.  When the check
  lets active limits through, either an outer runtime has taken them over, or the command is
  wrapped by the systemd-run that was found, on a host with every controller needed, each
  limit is passed as a property before the end of the options, and the command follows it
  unchanged.
\<close>

theorem active_limits_are_enforced:
  assumes "availability_for h l r = (None, r')" "cgroup_active l" "wrap h argv l u r' = Inr cmd"
  shows "delegated h \<and> cmd = argv \<or>
    hd cmd = sr_systemd_run r \<and> \<not> ho_missing h (sr_systemd_run r) \<and>
    set (required_controllers l) \<subseteq> set (ho_controllers h) \<and> suffix (''--'' # argv) cmd \<and>
    (\<forall>n. cl_memory_max_bytes l = Some n \<longrightarrow> passes cmd (''MemoryMax='' @ int_str n)) \<and>
    (\<forall>n. cl_memory_swap_max_bytes l = Some n \<longrightarrow> passes cmd (''MemorySwapMax='' @ int_str n)) \<and>
    (\<forall>n. cl_tasks_max l = Some n \<longrightarrow> passes cmd (''TasksMax='' @ int_str n)) \<and>
    (\<forall>n. cl_cpu_quota_percent l = Some n \<longrightarrow> passes cmd (''CPUQuota='' @ int_str n @ ''%''))"
proof (cases "delegated h")
  case True
  with assms show ?thesis by (auto simp: wrap_def split: if_splits)
next
  case False
  have r': "sr_systemd_run r' = sr_systemd_run r" "\<not> ho_missing h (sr_systemd_run r)"
    "set (required_controllers l) \<subseteq> set (ho_controllers h)"
    using assms(1,2) False
    by (auto simp: availability_for_def unavailable_def Let_def filter_empty_conv split: if_splits)
  let ?flags = "[sr_systemd_run r, ''--user'', ''--scope'', ''--quiet'', ''--collect'', ''--unit='' @ u]"
  have cmd: "cmd = ?flags @ concat (map (\<lambda>p. [''-p'', p]) (systemd_properties l)) @ [''--''] @ argv"
    using assms(2,3) False r'(1) by (simp add: wrap_def split: if_splits)
  have sfx: "suffix (''--'' # argv) cmd" unfolding cmd suffix_def by (rule exI [of _ "?flags @
      concat (map (\<lambda>p. [''-p'', p]) (systemd_properties l))"]) simp
  have "passes cmd p" if "p \<in> set (systemd_properties l)" for p
    using passes_listed [OF that _ properties_no_dashes,
        of "[''--user'', ''--scope'', ''--quiet'', ''--collect'', ''--unit='' @ u]" "sr_systemd_run r" argv]
    by (simp add: cmd)
  with r' sfx property_listed show ?thesis by (simp add: cmd)
qed

definition demo_host :: host where
  "demo_host = \<lparr>ho_missing = (\<lambda>b. False), ho_runtime_dir_ok = True, ho_bus = BusSocket,
     ho_controllers = [''memory'', ''pids'', ''cpu''], ho_resource_control = None\<rparr>"

definition demo_runner :: scope_runner where
  "demo_runner = \<lparr>sr_systemd_run = ''/usr/bin/systemd-run'', sr_systemctl = ''/usr/bin/systemctl'',
     sr_availability = CG_UNKNOWN\<rparr>"

definition demo_command :: "string list" where
  "demo_command = projr (wrap demo_host [''make''] default_cgroup_limits (unit_name ''ab12'') demo_runner)"

theorem active_limits_are_enforced_witness:
  "hd demo_command = ''/usr/bin/systemd-run'' \<and> last demo_command = ''make'' \<and>
   passes demo_command ''TasksMax=256''"
proof -
  have t: "int_str 256 = ''256''" by code_simp
  have a: "availability_for demo_host default_cgroup_limits demo_runner =
      (None, demo_runner\<lparr>sr_availability := CG_AVAILABLE\<rparr>)" by code_simp
  have b: "cgroup_active default_cgroup_limits" "\<not> delegated demo_host" by code_simp+
  have c: "wrap demo_host [''make''] default_cgroup_limits (unit_name ''ab12'')
      (demo_runner\<lparr>sr_availability := CG_AVAILABLE\<rparr>) = Inr demo_command"
    using b by (simp add: demo_command_def wrap_def)
  from active_limits_are_enforced [OF a b(1) c] b(2) t
  have "hd demo_command = ''/usr/bin/systemd-run''" "suffix [''--'', ''make''] demo_command"
    "passes demo_command ''TasksMax=256''"
    by (simp_all add: demo_runner_def default_cgroup_limits_def)
  moreover from this(2) have "last demo_command = ''make''" by (metis last_snoc suffixE append_Cons append_Nil append_assoc)
  ultimately show ?thesis by simp
qed

end
