(* ===== verification/Completion.thy ===== *)
theory Completion
  imports Verification_Policy
begin

text \<open>
  The evidence plane of a coding turn (\<open>client/evidence/completion.py\<close>): from the calls of a turn
  to the verdict on its answer, and the answer as it is handed over.  What a shell stage writes
  comes from \<open>client/context/request_scope.py\<close>, the commands of a project from
  \<open>client/evidence/project_build.py\<close>.  The JSON reader, \<open>str\<close> of a value that is no string and
  the labels of paths are arguments.  Texts are of the first 256 code points, so the two check
  marks \<open>qualify\<close> also looks for do not occur; the dash it writes is its UTF-8 bytes.  The text
  of a call for the transcript is left out.
\<close>

section \<open>Evidence of a call\<close>

record tool_record =
  tr_name :: string
  tr_result :: string
  tr_refused :: bool
  tr_changed_paths :: "string list"
  tr_command :: "string option"
  tr_exit_code :: "int option"
  tr_timed_out :: bool

record call_evidence =
  cv_name :: string
  cv_changed :: "string list"
  cv_command :: "string option"
  cv_exit_code :: "int option"
  cv_refused :: bool
  cv_timed_out :: bool
  cv_output :: string

definition WRITE_TOOLS :: "string list" where
  "WRITE_TOOLS = [''patch'', ''write_file'']"

definition evidence_of :: "(string \<Rightarrow> json option) \<Rightarrow> (json \<Rightarrow> string) \<Rightarrow> (string \<Rightarrow> string) \<Rightarrow> tool_record \<Rightarrow> call_evidence" where
  "evidence_of loads pystr label r =
     \<lparr>cv_name = tr_name r,
      cv_changed = (if tr_name r \<in> set (WRITE_TOOLS @ [''delete_file'']) \<and> \<not> tr_refused r
                    then map label (tr_changed_paths r) else []),
      cv_command = tr_command r, cv_exit_code = tr_exit_code r, cv_refused = tr_refused r,
      cv_timed_out = tr_timed_out r,
      cv_output = (if tr_name r = ''terminal''
                   then (case loads (tr_result r) of
                       Some (JObj d) \<Rightarrow> let v = get d ''output'' in
                         if \<not> json_truthy v then [] else last_chars 2000 (case v of JStr s \<Rightarrow> s | _ \<Rightarrow> pystr v)
                     | _ \<Rightarrow> [])
                   else [])\<rparr>"

definition changed_files :: "call_evidence list \<Rightarrow> string list" where
  "changed_files log = dedup (concat (map cv_changed log))"

section \<open>Stages of a command\<close>

definition GENERATED_rx :: rx where
  "GENERATED_rx = seqs [Alt Bol (ch CHR ''/''),
     alts (map lit [''build/tmp'', ''generated'', ''__pycache__'', ''node_modules'', ''.git'']), Alt (ch CHR ''/'') Eol]"

definition generated_path :: "string \<Rightarrow> bool" where
  "generated_path path = search GENERATED_rx path"

record check =
  ck_command :: string
  ck_kind :: string
  ck_passed :: bool
  ck_epoch :: int
  ck_index :: nat

definition SEPARATOR_rx :: rx where
  "SEPARATOR_rx = alts [lit ''&&'', lit ''||'',
     seqs [Not_behind (\<lambda>c. c \<in> set ''&>|''), ch CHR ''&'', Not_ahead (\<lambda>c. c \<in> set ''&>'')], one_of [CHR '';'', CHR ''|'', CHR 0x0A]]"

definition FAILURE_rx :: rx where
  "FAILURE_rx = alts [seqs [Wordb, lit ''ERROR'', Wordb], Seq Wordb (lit ''error:''), seqs [Wordb, lit ''FAILED'', Wordb],
     seqs [Wordb, lit ''failed'', Wordb], lit ''returned non-zero'', lit ''No rule to make target'',
     lit ''command not found'', lit ''Traceback'']"

definition CHECKERS :: "string list" where
  "CHECKERS = [''ls'', ''readlink'', ''test'', ''['', ''stat'', ''file'', ''realpath'']"

definition SHELL_KEYWORDS :: "string list" where
  "SHELL_KEYWORDS = [''do'', ''then'', ''else'', ''elif'', ''time'', ''!'', ''{'', ''('', ''exec'', ''nohup'', ''env'', ''sudo'',
     ''command'']"

definition assignment_rx :: rx where
  "assignment_rx = seqs [Cls (\<lambda>c. ascii_letter c \<or> c = CHR ''_''),
     Star (Cls (\<lambda>c. ascii_letter c \<or> ascii_digit c \<or> c = CHR ''_'')), ch CHR ''='']"

type_synonym stage = "string list \<times> string"

definition stage_words :: "string \<Rightarrow> string list" where
  "stage_words part =
     dropWhile (\<lambda>w. w \<in> set SHELL_KEYWORDS \<or> match_start assignment_rx w)
       (case shlex_split part of Some ws \<Rightarrow> ws | None \<Rightarrow> words part)"

definition stages :: "string \<Rightarrow> stage list" where
  "stages command =
     filter (\<lambda>(argv, _). argv \<noteq> [])
       (map (\<lambda>(part, after). (stage_words part, after))
         (pieces SEPARATOR_rx (sub (lit [CHR 0x5C, CHR '';'']) ''+'' command)))"

text \<open>For each stage whether it runs in the background; \<open>open\<close> stages wait for the end of their list.\<close>

fun backgrounded :: "nat \<Rightarrow> stage list \<Rightarrow> bool list" where
  "backgrounded open [] = replicate open False"
| "backgrounded open ((argv, after) # rest) =
     (if after \<in> {'';'', [CHR 0x0A], ''&'', []}
      then replicate (Suc open) (after = ''&'') @ backgrounded 0 rest
      else backgrounded (Suc open) rest)"

definition in_tree :: "string \<Rightarrow> string \<Rightarrow> string option" where
  "in_tree path root =
     (if \<not> prefix ''/'' path then Some path
      else if root \<noteq> [] \<and> (path = root \<or> prefix (rstrip_slash root @ ''/'') path)
      then Some (drop (length (rstrip_slash root) + 1) path)
      else None)"

text \<open>The word behind the first \<open>-c\<close>, without \<open>do_\<close>; nothing if there is none.\<close>

definition bitbake_task :: "string list \<Rightarrow> string" where
  "bitbake_task args =
     (case dropWhile (\<lambda>a. a \<noteq> ''-c'') args of
        _ # task # _ \<Rightarrow> if prefix ''do_'' task then drop 3 task else task
      | _ \<Rightarrow> [])"

definition kind_of :: "string list \<Rightarrow> string option" where
  "kind_of argv =
     (let binary = path_name (hd argv); args = tl argv in
      if binary = ''bitbake'' then
        if list_ex (\<lambda>flag. flag \<in> set args) [''-g'', ''-e'', ''-p'', ''-n'', ''-s'', ''-h'', ''--help'', ''--version'',
             ''--dry-run'', ''--show-versions''] then None
        else let task = bitbake_task args in
          if task \<in> {''clean'', ''cleanall'', ''cleansstate''} then Some ''clean''
          else Some (if task \<noteq> [] \<and> task \<notin> {''build'', ''compile''} then ''task'' else ''build'')
      else if binary = ''build.sh'' then
        if filter (\<lambda>a. \<not> prefix ''-'' a) args = [] \<or> ''-h'' \<in> set args \<or> ''-l'' \<in> set args then None
        else Some (if ''-c'' \<in> set args then ''clean+build'' else ''build'')
      else if binary \<in> {''make'', ''ninja''} then
        let targets = filter (\<lambda>a. \<not> prefix ''-'' a \<and> CHR ''='' \<notin> set a) args in
        if targets \<noteq> [] \<and> list_all (\<lambda>t. t \<in> {''clean'', ''distclean'', ''mrproper''}) targets then Some ''clean''
        else if list_ex (\<lambda>t. t \<in> {''test'', ''check''}) targets then Some ''test''
        else Some ''build''
      else if binary \<in> {''pytest'', ''ctest''} \<or> take 2 args = [''-m'', ''unittest''] \<or> take 2 args = [''-m'', ''pytest'']
      then Some ''test''
      else if binary \<in> {''bash'', ''sh''} \<and> ''-n'' \<in> set args \<or> ''py_compile'' \<in> set args then Some ''syntax''
      else if binary \<in> set CHECKERS then Some ''check''
      else None)"

section \<open>What a stage writes\<close>

definition LAST_OPERAND_WRITERS :: "string list" where
  "LAST_OPERAND_WRITERS = [''cp'', ''mv'', ''install'', ''ln'', ''rsync'']"

definition ALL_OPERAND_WRITERS :: "string list" where
  "ALL_OPERAND_WRITERS = [''rm'', ''rmdir'', ''touch'', ''mkdir'', ''truncate'', ''chmod'', ''chown'', ''tee'', ''unlink'', ''shred'']"

text \<open>The group of \<open>^\d*>{1,2}\|?(.*)$\<close>, which ends before a last line break and holds no other.\<close>

definition redirect_target :: "string \<Rightarrow> string option" where
  "redirect_target arg =
     (case dropWhile rx_digit arg of
        CHR ''>'' # r \<Rightarrow>
          (let r1 = (if prefix ''>'' r then tl r else r); r2 = (if prefix ''|'' r1 then tl r1 else r1) in
           if CHR 0x0A \<notin> set r2 then Some r2
           else if last r2 = CHR 0x0A \<and> CHR 0x0A \<notin> set (butlast r2) then Some (butlast r2)
           else None)
      | _ \<Rightarrow> None)"

fun redirects :: "string list \<Rightarrow> string list" where
  "redirects [] = []"
| "redirects (arg # rest) =
     (case redirect_target arg of
        None \<Rightarrow> []
      | Some given \<Rightarrow>
          let target = (if given \<noteq> [] then given else case rest of [] \<Rightarrow> [] | next # _ \<Rightarrow> next)
          in if target \<noteq> [] \<and> \<not> prefix ''&'' target then [target] else []) @ redirects rest"

definition shell_destinations :: "string list \<Rightarrow> string list" where
  "shell_destinations argv =
     (let binary = path_name (hd argv); args = tl argv;
          operands = filter (\<lambda>a. \<not> prefix ''-'' a) args;
          found = redirects args @
            (if binary \<in> set LAST_OPERAND_WRITERS \<and> 2 \<le> length operands
             then last operands # (if binary = ''mv'' then butlast operands else [])
             else if binary \<in> set ALL_OPERAND_WRITERS
             then (if binary \<in> {''chmod'', ''chown''} then drop 1 operands else operands)
             else if binary = ''sed'' \<and> list_ex (\<lambda>a. prefix ''-i'' a \<or> a = ''--in-place'') args then drop 1 operands
             else if binary = ''dd'' then map (drop 3) (filter (prefix ''of='') args)
             else [])
      in filter (\<lambda>item. item \<noteq> [] \<and> \<not> prefix ''/dev/'' item) found)"

section \<open>The timeline\<close>

definition VERIFYING :: "verification_category list" where
  "VERIFYING = [BUILD, UNIT_TEST, INTEGRATION_TEST, LINT, STATIC_ANALYSIS, EXECUTION]"

definition no_hints :: verification_hints where
  "no_hints = \<lparr>vh_build_commands = [], vh_test_commands = [], vh_lint_commands = [], vh_acceptance_commands = []\<rparr>"

record timeline_state =
  tl_epoch :: int
  tl_checks :: "check list"
  tl_changed :: "string list"

definition source_writes :: "(string \<Rightarrow> bool) \<Rightarrow> string \<Rightarrow> string list \<Rightarrow> string list" where
  "source_writes generated root argv =
     filter (\<lambda>path. path \<noteq> [] \<and> \<not> generated path) (List.map_filter (\<lambda>item. in_tree item root) (shell_destinations argv))"

definition change_source :: "string list \<Rightarrow> timeline_state \<Rightarrow> timeline_state" where
  "change_source paths st =
     (if paths = [] then st else st\<lparr>tl_epoch := tl_epoch st + 1, tl_changed := tl_changed st @ paths\<rparr>)"

definition ran :: "call_evidence \<Rightarrow> bool" where
  "ran item \<longleftrightarrow> \<not> cv_timed_out item \<and> cv_exit_code item = Some 0"

definition clean_output :: "call_evidence \<Rightarrow> bool \<Rightarrow> bool" where
  "clean_output item masked \<longleftrightarrow> \<not> (masked \<and> search FAILURE_rx (cv_output item))"

definition missing_rx :: rx where
  "missing_rx = Alt (lit ''No such file'') (lit ''cannot access'')"

fun run_stages :: "(string \<Rightarrow> bool) \<Rightarrow> string \<Rightarrow> nat \<Rightarrow> call_evidence \<Rightarrow> string \<Rightarrow> (stage \<times> bool) list \<Rightarrow> bool \<Rightarrow> timeline_state \<Rightarrow>
    bool \<times> timeline_state" where
  "run_stages generated root index item command [] masked st = (masked, st)"
| "run_stages generated root index item command (((argv, after), background) # rest) masked st =
     (let st1 = change_source (source_writes generated root argv) st in
      case (if background then None else kind_of argv) of
        None \<Rightarrow> run_stages generated root index item command rest masked st1
      | Some kind \<Rightarrow>
          let masked' = (masked \<or> after = ''|'' \<and> \<not> contains command ''pipefail'');
              passed = (ran item \<and> clean_output item masked' \<and>
                        (kind = ''check'' \<longrightarrow> \<not> search missing_rx (cv_output item)));
              c = \<lparr>ck_command = command, ck_kind = kind, ck_passed = passed, ck_epoch = tl_epoch st1, ck_index = index\<rparr>
          in run_stages generated root index item command rest masked' (st1\<lparr>tl_checks := tl_checks st1 @ [c]\<rparr>))"

definition run_item :: "(string \<Rightarrow> bool) \<Rightarrow> string \<Rightarrow> nat \<Rightarrow> call_evidence \<Rightarrow> string \<Rightarrow> timeline_state \<Rightarrow> timeline_state" where
  "run_item generated root index item command st =
     (let background = backgrounded 0 (stages command);
          (masked, st1) = run_stages generated root index item command (zip (stages command) background) False st
      in if list_ex id background \<or>
            list_ex (\<lambda>c. ck_index c = index \<and> ck_kind c \<noteq> ''check'') (tl_checks st1) then st1
         else if fst (classify_command no_hints command False (tl_changed st1)) \<in> set VERIFYING
         then st1\<lparr>tl_checks := tl_checks st1 @
                [\<lparr>ck_command = command, ck_kind = ''run'', ck_passed = (ran item \<and> clean_output item masked),
                  ck_epoch = tl_epoch st1, ck_index = index\<rparr>]\<rparr>
         else st1)"

definition timeline_step :: "(string \<Rightarrow> bool) \<Rightarrow> string \<Rightarrow> nat \<times> call_evidence \<Rightarrow> timeline_state \<Rightarrow> timeline_state" where
  "timeline_step generated root = (\<lambda>(index, item) st.
     if cv_refused item then st
     else let sources = filter (\<lambda>path. \<not> generated path) (cv_changed item) in
       if sources \<noteq> [] then change_source sources st
       else case cv_command item of
         None \<Rightarrow> st
       | Some command \<Rightarrow>
           if cv_name item \<noteq> ''terminal'' \<or> command = [] then st
           else run_item generated root index item command st)"

definition timeline :: "(string \<Rightarrow> bool) \<Rightarrow> string \<Rightarrow> call_evidence list \<Rightarrow> int \<times> check list \<times> string list" where
  "timeline generated root log =
     (let st = fold (timeline_step generated root) (enumerate 0 log) \<lparr>tl_epoch = 0, tl_checks = [], tl_changed = []\<rparr>
      in (tl_epoch st, tl_checks st, dedup (tl_changed st)))"

fun runs_from :: "verification_hints \<Rightarrow> string list \<Rightarrow> call_evidence list \<Rightarrow> bool \<Rightarrow> (string \<times> bool) list \<Rightarrow> (string \<times> bool) list" where
  "runs_from hints changed [] after_change runs = runs"
| "runs_from hints changed (item # log) after_change runs =
     (if cv_changed item \<noteq> [] then runs_from hints changed log True []
      else case cv_command item of
        Some command \<Rightarrow>
          if cv_name item = ''terminal'' \<and> after_change \<and> command \<noteq> [] \<and>
             fst (classify_command hints command False changed) \<in> set VERIFYING
          then runs_from hints changed log after_change (runs @ [(command, \<not> cv_refused item \<and> ran item)])
          else runs_from hints changed log after_change runs
      | None \<Rightarrow> runs_from hints changed log after_change runs)"

definition verification_runs :: "verification_hints \<Rightarrow> call_evidence list \<Rightarrow> (string \<times> bool) list" where
  "verification_runs hints log = runs_from hints (changed_files log) log False []"

section \<open>What an answer claims\<close>

definition SENTENCE_rx :: rx where
  "SENTENCE_rx = Alt (seqs [Behind (\<lambda>c. c \<in> set ''.!?''), plus space,
     Ahead (Cls (\<lambda>c. CHR ''A'' \<le> c \<and> c \<le> CHR ''Z'' \<or> ascii_digit c \<or> c \<in> {CHR 0x60, CHR ''*'', CHR ''('', CHR ''[''}))])
     (ch CHR 0x0A)"

definition ALWAYS_rx :: rx where
  "ALWAYS_rx = seqs [lit ''always '', opt (lit ''be ''), alts (map lit [''present'', ''there'', ''available'', ''recreated'', ''created''])]"

definition RECREATED_rx :: rx where
  "RECREATED_rx = Seq (lit ''recreated '') (alts (map lit [''automatically'', ''on every'', ''every'', ''each'', ''after'']))"

definition SURVIVES_rx :: rx where
  "SURVIVES_rx = alts [lit ''surviv'', lit ''persist'',
     seqs [lit ''after '', opt (alts (map lit [''a '', ''the '', ''each '', ''every ''])), lit ''clean''],
     seqs [lit ''clean'', alts (map lit [''/'', '' and '', '' + '', ''-and-'']), opt (lit ''re''), lit ''build''],
     ALWAYS_rx, RECREATED_rx]"

definition BUILDS_rx :: rx where
  "BUILDS_rx = alts [seqs [Wordb, lit ''build'', opt (Alt (ch CHR ''s'') (lit ''ing'')), ch CHR '' '',
       alts (map lit [''succeed'', ''pass'', ''work'', ''complete'', ''clean''])],
     Seq Wordb (lit ''built successfully''), seqs [Wordb, lit ''compiles'', Wordb]]"

definition TESTS_rx :: rx where
  "TESTS_rx = seqs [Wordb, lit ''test'', opt (ch CHR ''s''), ch CHR '' '', opt (lit ''now ''), lit ''pass'']"

type_synonym needs = "string list list"

definition CLAIMS :: "(string \<times> rx \<times> needs) list" where
  "CLAIMS =
     [(''survives a clean and rebuild'', SURVIVES_rx,
       [[''clean'', ''clean+build''], [''build'', ''clean+build''], [''check'']]),
      (''builds'', BUILDS_rx, [[''build'', ''clean+build'']]),
      (''tests pass'', TESTS_rx, [[''test'']])]"

definition HEDGE_rx :: rx where
  "HEDGE_rx = seqs [Wordb, alts (map lit [''not'', [CHR ''n'', CHR 0x27, CHR ''t''], ''unverified'', ''untested'', ''should'', ''may'',
     ''might'', ''could'', ''would'', ''expected'', ''if '', ''once '', ''assuming'', ''likely'', ''unless'', ''cannot'',
     ''could not'', ''unable'']), Wordb]"

text \<open>Patterns that ignore case are matched against the text in lower case.\<close>

definition hedged :: "string \<Rightarrow> bool" where
  "hedged sentence = search HEDGE_rx (lower sentence)"

definition claims :: "string \<Rightarrow> (string \<times> needs) list" where
  "claims answer =
     (let sentences = filter (\<lambda>part. strip part \<noteq> []) (map fst (pieces SENTENCE_rx answer)) in
      map (\<lambda>(name, _, needs). (name, needs))
        (filter (\<lambda>(_, pattern, _). list_ex (\<lambda>s. search pattern (lower s) \<and> \<not> hedged s) sentences) CLAIMS))"

fun shown_from :: "needs \<Rightarrow> nat \<Rightarrow> check list \<Rightarrow> nat" where
  "shown_from needs position [] = position"
| "shown_from needs position (c # cs) =
     shown_from needs
       (if position < length needs \<and> ck_passed c \<and> ck_kind c \<in> set (needs ! position)
        then position + (if ck_kind c = ''clean+build'' \<and> position + 1 < length needs \<and>
                            ''clean+build'' \<in> set (needs ! (position + 1)) then 2 else 1)
        else position) cs"

definition shown :: "check list \<Rightarrow> needs \<Rightarrow> bool" where
  "shown checks needs \<longleftrightarrow> length needs \<le> shown_from needs 0 checks"

section \<open>The project's own validation\<close>

definition configured_sources :: "string list" where
  "configured_sources = [''projects.json'', ''unittest'']"

record project_commands =
  pc_build :: string
  pc_test :: string
  pc_source :: string
  pc_build_source :: string
  pc_test_source :: string

definition verifies :: "project_commands \<Rightarrow> string list" where
  "verifies p = filter (\<lambda>item. item \<noteq> []) [pc_build p, pc_test p]"

definition command_origin :: "project_commands \<Rightarrow> string \<Rightarrow> string" where
  "command_origin p command =
     (let named = (\<lambda>own. if (if own = [] then pc_source p else own) \<in> set configured_sources then ''configured'' else ''probed'')
      in if command \<noteq> [] \<and> command = pc_build p then named (pc_build_source p)
         else if command \<noteq> [] \<and> command = pc_test p then named (pc_test_source p)
         else [])"

record project_validation =
  pv_status :: string
  pv_kind :: string
  pv_source_epoch :: int
  pv_command :: string
  pv_exit_code :: "int option"
  pv_evidence :: string
  pv_origin :: string

datatype project_run = Validation project_validation | Ran string string string

definition masked_command :: "string \<Rightarrow> bool" where
  "masked_command command \<longleftrightarrow>
     list_ex id (backgrounded 0 (stages command)) \<or>
     \<not> contains command ''pipefail'' \<and> list_ex (\<lambda>(_, after). after = ''|'') (stages command)"

definition run_status :: "string \<Rightarrow> string \<Rightarrow> string \<Rightarrow> string" where
  "run_status command status output =
     (if lower status = ''passed''
      then if \<not> masked_command command then ''PASSED''
           else if search FAILURE_rx output then ''FAILED'' else ''NOT_RUN''
      else if lower status = ''failed'' then ''FAILED'' else ''NOT_RUN'')"

definition project_evidence :: "project_run list \<Rightarrow> project_commands option \<Rightarrow> int \<Rightarrow> project_validation list" where
  "project_evidence runs commands epoch =
     map (\<lambda>run. case run of
         Validation v \<Rightarrow> v
       | Ran command status output \<Rightarrow>
           let outcome = run_status command status output in
           \<lparr>pv_status = outcome,
            pv_kind = (case commands of Some p \<Rightarrow> if pc_test p \<noteq> [] \<and> command = pc_test p then ''test'' else ''build''
                       | None \<Rightarrow> ''build''),
            pv_source_epoch = epoch, pv_command = command,
            pv_exit_code = (if outcome = ''PASSED'' then Some 0 else None), pv_evidence = last_chars 2000 output,
            pv_origin = (case commands of Some p \<Rightarrow> command_origin p command | None \<Rightarrow> [])\<rparr>) runs"

section \<open>The verdict\<close>

record verdict =
  vd_state :: string
  vd_changed :: "string list"
  vd_reason :: string

definition SYNTAX_ONLY_rx :: rx where
  "SYNTAX_ONLY_rx = seqs [Bol, Star space, opt (Seq (Star (Cls (\<lambda>c. \<not> py_space c))) (ch CHR ''/'')),
     alts [Seq (opt (ch CHR ''g'')) (lit ''cc''), lit ''clang'', lit ''c++'', lit ''g++'', lit ''clang++''], Wordb,
     Star (Cls (\<lambda>c. c \<notin> set ''|;&'')),
     Alt (seqs [space, lit ''-fsyntax-only'', Wordb]) (seqs [space, lit ''-c'', Wordb])]"

definition syntax_only_verification :: "(string \<times> bool) list \<Rightarrow> bool" where
  "syntax_only_verification runs \<longleftrightarrow> runs \<noteq> [] \<and> list_all (\<lambda>(command, _). search SYNTAX_ONLY_rx (lower command)) runs"

definition needed :: "string list \<Rightarrow> string list" where
  "needed unmet = map (\<lambda>name. if name = ''survives a clean and rebuild'' then ''clean, build and check''
     else if name = ''builds'' then ''build'' else ''test run'') unmet"

definition verdict_of :: "string \<Rightarrow> string list \<Rightarrow> string \<Rightarrow> verdict" where
  "verdict_of state changed reason = \<lparr>vd_state = state, vd_changed = changed, vd_reason = reason\<rparr>"

definition harness_checks :: "int \<Rightarrow> nat \<Rightarrow> project_validation list \<Rightarrow> check list" where
  "harness_checks epoch index fresh =
     map (\<lambda>run. \<lparr>ck_command = pv_command run, ck_kind = pv_kind run, ck_passed = True, ck_epoch = epoch, ck_index = index\<rparr>)
       (filter (\<lambda>run. pv_status run = ''PASSED'') fresh)"

definition decide_turn :: "(string \<Rightarrow> bool) \<Rightarrow> string \<Rightarrow> call_evidence list \<Rightarrow> project_run list \<Rightarrow> project_commands option \<Rightarrow> string \<Rightarrow> verdict" where
  "decide_turn generated root log project_runs commands answer =
     (let (epoch, checks, changed) = timeline generated root log in
      if changed = [] then verdict_of ''NO_CHANGE'' [] []
      else let
        files = join '', '' changed;
        project = project_evidence project_runs commands epoch;
        fresh = filter (\<lambda>run. pv_source_epoch run = epoch) project;
        unverified = verdict_of ''UNVERIFIED'' changed
      in case find (\<lambda>run. pv_status run = ''FAILED'') fresh of
        Some failed \<Rightarrow> unverified (files @ '' changed, and the project's own '' @ pv_kind failed @
          '' failed on the final source: `'' @ take 120 (pv_command failed) @
          ''`. The change above is not shown to work as written.'')
      | None \<Rightarrow> let
          harness = harness_checks epoch (length log) fresh;
          final = filter (\<lambda>c. ck_epoch c = epoch) checks @ harness;
          earlier = (list_ex (\<lambda>c. ck_epoch c < epoch \<and> ck_passed c) checks \<or>
                     list_ex (\<lambda>run. pv_source_epoch run < epoch \<and> pv_status run = ''PASSED'') project);
          runs = dedup (map (\<lambda>c. (ck_command c, ck_passed c))
                   (filter (\<lambda>c. ck_kind c \<notin> {''clean'', ''check''} \<and> c \<notin> set harness) final));
          declared = (case commands of Some p \<Rightarrow> verifies p | None \<Rightarrow> []);
          unmet = map fst (filter (\<lambda>(_, needs). \<not> shown final needs) (claims answer))
        in if runs = [] \<and> harness = []
           then if earlier
             then unverified (files @ '' changed, and the final change was not revalidated after the last source '' @
               ''modification: what passed ran on an earlier state of the tree.'')
             else unverified (files @ '' changed, and nothing was run afterwards that could show the change works '' @ dash @
               '' no build, no test, no lint. Treat the change above as unverified.'')
           else if harness = [] \<and> \<not> snd (last runs)
           then unverified (files @ '' changed, and the last verification to run did not pass: `'' @
             take 120 (fst (last runs)) @ ''`. The change above is not shown to work as written.'')
           else if harness = [] \<and> declared \<noteq> [] \<and> syntax_only_verification runs
           then unverified (files @ '' changed, and the only thing run afterwards compiled the files in isolation. '' @
             ''That is not the project's own verification: `'' @ take 120 (last declared) @
             ''` was never run, so the change above is unproven at the level the project tests itself.'')
           else if unmet \<noteq> []
           then unverified (files @ '' changed; what passed after the last change does not show that it '' @
             join '' or that it '' unmet @ '' -- no '' @ join '' and '' (needed unmet) @ '' ran on the final source state.'')
           else verdict_of ''VERIFIED'' changed [])"

section \<open>The answer as handed over\<close>

definition CLAIM_rx :: rx where
  "CLAIM_rx = seqs [Wordb, alts [lit ''verified'', lit ''verifies'', Seq (lit ''confirm'') (opt (Alt (lit ''ed'') (lit ''s''))),
       Seq (lit ''correct'') (opt (lit ''ly'')), Seq (lit ''complete'') (opt (one_of ''ds'')), Seq (lit ''work'') (opt (lit ''s'')),
       lit ''working'', Seq (lit ''successful'') (opt (lit ''ly'')), Seq (lit ''succeed'') (opt (Alt (lit ''ed'') (lit ''s''))),
       Seq (lit ''ensure'') (opt (lit ''s'')), Seq (lit ''guarantee'') (opt (lit ''s'')), ALWAYS_rx,
       seqs [lit ''will '', Alt (lit ''always'') (lit ''now''), ch CHR '' ''],
       Seq (lit ''surviv'') (alts [Seq (lit ''e'') (opt (lit ''s'')), lit ''ed'', lit ''ing'']),
       Seq (lit ''persist'') (opt (alts (map lit [''s'', ''ed'', ''ing'', ''ent'']))),
       seqs [Alt (lit ''automatically'') (lit ''always''), ch CHR '' '', opt (lit ''re''), lit ''created''], RECREATED_rx], Wordb]"

definition mark :: "string \<Rightarrow> string" where
  "mark sentence =
     (let stripped = strip sentence in
      if stripped \<noteq> [] \<and> search CLAIM_rx (lower stripped) \<and> \<not> hedged stripped \<and>
         \<not> list_ex (\<lambda>p. prefix p stripped) [''#'', ''|'', ''```'', ''-  '', ''    '']
      then sub (lit stripped) (rstrip stripped @ '' *(not verified)*'') sentence
      else sentence)"

definition qualify :: "string \<Rightarrow> verdict \<Rightarrow> string" where
  "qualify answer v =
     (if vd_state v \<noteq> ''UNVERIFIED'' then answer
      else ''**UNVERIFIED** '' @ dash @ '' '' @
        (if vd_reason v \<noteq> [] then vd_reason v
         else join '', '' (vd_changed v) @ '' changed, and nothing this turn ran shows that the change works.'') @
        [CHR 0x0A, CHR 0x0A] @
        concat (map (\<lambda>(sentence, gap). mark sentence @ gap) (pieces SENTENCE_rx answer)))"

end
