(* ===== verification/Completion_Props.thy ===== *)
theory Completion_Props
  imports Completion
begin

text \<open>
  What the verdict on a coding turn means: an answer counts as verified only by what ran after
  the last change of the source, the project's own failure is never outweighed, and every claim
  of the answer has its checks.  The invariant of the timeline carries the proof.
\<close>

section \<open>The timeline\<close>



text \<open>How a state of the timeline may go on: new checks in new epochs, never fewer of either.\<close>

definition advances :: "(check \<Rightarrow> bool) \<Rightarrow> timeline_state \<Rightarrow> timeline_state \<Rightarrow> bool" where
  "advances ok st st' \<longleftrightarrow>
     (\<exists>new paths. tl_checks st' = tl_checks st @ new \<and> tl_changed st' = tl_changed st @ paths \<and>
        tl_epoch st \<le> tl_epoch st' \<and> (paths = [] \<longleftrightarrow> tl_epoch st' = tl_epoch st) \<and>
        list_all (\<lambda>c. ok c \<and> tl_epoch st \<le> ck_epoch c \<and> ck_epoch c \<le> tl_epoch st') new)"

lemma advances_refl [simp, intro]: "advances ok st st"
  by (simp add: advances_def)







lemma stages_Nil [simp]: "stages [] = []"
  by code_simp







section \<open>The stages of a command\<close>












section \<open>What has been shown\<close>








section \<open>The verdict\<close>





definition demo_write :: "string \<Rightarrow> call_evidence" where
  "demo_write path = \<lparr>cv_name = ''write_file'', cv_changed = [path], cv_command = None, cv_exit_code = None,
     cv_refused = False, cv_timed_out = False, cv_output = []\<rparr>"

definition demo_run :: "string \<Rightarrow> call_evidence" where
  "demo_run command = \<lparr>cv_name = ''terminal'', cv_changed = [], cv_command = Some command, cv_exit_code = Some 0,
     cv_refused = False, cv_timed_out = False, cv_output = []\<rparr>"





text \<open>
  Compiling a file in isolation does not verify a project that declares its own checks, but
  the pattern that recognises such a compilation asks for a word character behind the name of
  the compiler, so one by \<open>g++\<close> passes for the project's verification.
\<close>

theorem isolated_compile_verifies:
  "vd_state (decide_turn generated_path [] [demo_write ''a.c'', demo_run ''gcc -fsyntax-only a.c''] []
     (Some \<lparr>pc_build = [], pc_test = ''ctest'', pc_source = ''projects.json'', pc_build_source = [], pc_test_source = []\<rparr>) [])
     = ''UNVERIFIED'' \<and>
   vd_state (decide_turn generated_path [] [demo_write ''a.cc'', demo_run ''g++ -fsyntax-only a.cc''] []
     (Some \<lparr>pc_build = [], pc_test = ''ctest'', pc_source = ''projects.json'', pc_build_source = [], pc_test_source = []\<rparr>) [])
     = ''VERIFIED''"
  by (rule conjI; code_simp)

end
