(* ===== verification/Workspace.thy ===== *)
theory Workspace
  imports Filesystem
begin

text \<open>
  The workspace boundary (\<open>client/harness/workspace.py\<close>): the roots file tools are confined to,
  where the sandbox exposes them, and the resolution of a path the model wrote.  What is read of
  the process is a record: the filesystem, the working directory, home directories and one
  variable.  Paths are lists of components; where the code compares texts, so does the model.
\<close>

section \<open>Mounts\<close>

record process_env =
  pe_fs :: filesystem
  pe_cwd :: path
  pe_home :: "string \<Rightarrow> path option"
  pe_identity_mount :: "string option"

datatype path_error = PathPolicyError string | PathNotFoundError string | HomeUnknown | LinkLoop | NotThere

definition RUNTIME_MOUNTS :: "string list" where
  "RUNTIME_MOUNTS = [''/usr'', ''/bin'', ''/lib'', ''/lib64'', ''/etc'', ''/proc'', ''/dev'', ''/sys'', ''/run'', ''/boot'']"

text \<open>\<open>os.path.realpath\<close>, which does not raise; a path whose links loop stays as it is.\<close>

definition real_text :: "filesystem \<Rightarrow> path \<Rightarrow> string" where
  "real_text fs p = as_posix True (case realpath link_limit fs [] p of Some q \<Rightarrow> q | None \<Rightarrow> p)"

definition identity_mount_for :: "filesystem \<Rightarrow> path \<Rightarrow> string list \<Rightarrow> string option" where
  "identity_mount_for fs root reserved =
     (let r = real_text fs root in
      if r = ''/'' then None
      else if list_ex (\<lambda>m. r = m \<or> prefix (m @ ''/'') r \<or> prefix (rstrip_slash r @ ''/'') m) RUNTIME_MOUNTS then None
      else if list_ex (\<lambda>res. r = res \<or> prefix (rstrip_slash r @ ''/'') res) reserved then None
      else Some r)"

record sandbox_spec =
  ss_workspace_mount :: string
  ss_home :: string
  ss_tmpdir :: string

definition default_spec :: sandbox_spec where
  "default_spec = \<lparr>ss_workspace_mount = ''/workspace'', ss_home = ''/home/sandbox'', ss_tmpdir = ''/tmp''\<rparr>"

definition effective_mount_root :: "process_env \<Rightarrow> path \<Rightarrow> string" where
  "effective_mount_root env root =
     (if pe_identity_mount env = Some ''0'' then ss_workspace_mount default_spec
      else case identity_mount_for (pe_fs env) root [ss_home default_spec, ss_tmpdir default_spec] of
        Some m \<Rightarrow> m
      | None \<Rightarrow> ss_workspace_mount default_spec)"

section \<open>Roots\<close>

record workspace =
  wk_root :: path
  wk_allow_absolute :: bool
  wk_extra_roots :: "path list"

definition roots :: "workspace \<Rightarrow> path list" where
  "roots w = wk_root w # wk_extra_roots w"

text \<open>\<open>Path(s).expanduser()\<close>: an initial \<open>~\<close> or \<open>~user\<close> of a relative path is replaced.\<close>

definition expanduser :: "process_env \<Rightarrow> bool \<times> path \<Rightarrow> path_error + bool \<times> path" where
  "expanduser env p =
     (case p of
        (False, (CHR 0x7E # user) # rest) \<Rightarrow>
          (case pe_home env user of None \<Rightarrow> Inl HomeUnknown | Some home \<Rightarrow> Inr (True, home @ rest))
      | _ \<Rightarrow> Inr p)"

definition absolute_in :: "path \<Rightarrow> bool \<times> path \<Rightarrow> path" where
  "absolute_in base p = (if fst p then snd p else base @ snd p)"

definition is_dir :: "filesystem \<Rightarrow> path \<Rightarrow> bool" where
  "is_dir fs p \<longleftrightarrow> fs p = Some Dir"

fun canonical_extra_roots :: "process_env \<Rightarrow> path \<Rightarrow> string list \<Rightarrow> path list \<Rightarrow> path_error + path list" where
  "canonical_extra_roots env root [] kept = Inr kept"
| "canonical_extra_roots env root (candidate # candidates) kept =
     bindE (expanduser env (parse_path candidate)) (\<lambda>p.
       case resolve_strict (pe_fs env) (absolute_in (pe_cwd env) p) of
         None \<Rightarrow> canonical_extra_roots env root candidates kept
       | Some resolved \<Rightarrow>
           if \<not> is_dir (pe_fs env) resolved \<or> under root resolved \<or> list_ex (\<lambda>seen. under seen resolved) kept
           then canonical_extra_roots env root candidates kept
           else canonical_extra_roots env root candidates (filter (\<lambda>seen. \<not> under resolved seen) kept @ [resolved]))"

definition from_path :: "process_env \<Rightarrow> string \<Rightarrow> bool \<Rightarrow> string list \<Rightarrow> path_error + workspace" where
  "from_path env path allow extra_roots =
     bindE (expanduser env (parse_path path)) (\<lambda>p.
       case resolve_strict (pe_fs env) (absolute_in (pe_cwd env) p) of
         None \<Rightarrow> Inl NotThere
       | Some root \<Rightarrow>
           if \<not> is_dir (pe_fs env) root
           then Inl (PathPolicyError (''workspace is not a directory: '' @ as_posix True root))
           else bindE (canonical_extra_roots env root extra_roots []) (\<lambda>extra.
             Inr \<lparr>wk_root = root, wk_allow_absolute = allow, wk_extra_roots = extra\<rparr>))"

definition boundary_hint :: "workspace \<Rightarrow> bool \<Rightarrow> string" where
  "boundary_hint w readable_elsewhere =
     (let shown = map (as_posix True) (take 3 (roots w)); more = length (roots w) - length shown;
          listed = join '', '' shown @ (if 0 < more then '' (+'' @ nat_str more @ '' more)'' else [])
      in '' Writable trees: '' @ listed @ ''.'' @
         (if readable_elsewhere
          then '' Anywhere else is READ-ONLY and reachable from bash by absolute path (cat/sed/ls/grep), '' @
            ''not from the file tools. To make a tree writable, declare it as a corpus.''
          else []))"

section \<open>Where the sandbox exposes the roots\<close>

definition dir_name :: "path \<Rightarrow> string" where
  "dir_name p = (if p = [] then [] else last p)"

text \<open>The loop that looks for a free name; it ends because only finitely many names are used.\<close>

definition suffixed :: "string \<Rightarrow> nat \<Rightarrow> string" where
  "suffixed name k = name @ ''-'' @ nat_str k"

lemma suffixed_inj: "inj (suffixed name)"
  by (auto simp: inj_def suffixed_def dest: nat_str_inject)

lemma finite_taken: "finite {j. k \<le> j \<and> suffixed name j \<in> set used}"
  by (rule finite_subset [OF _ finite_vimageI [OF finite_set [of used] suffixed_inj [of name]]]) auto

function free_name :: "string list \<Rightarrow> string \<Rightarrow> nat \<Rightarrow> string" where
  "free_name used name k =
     (if suffixed name k \<in> set used then free_name used name (Suc k) else suffixed name k)"
  by pat_completeness auto
termination
proof (relation "measure (\<lambda>(used, name, k). card {j. k \<le> j \<and> suffixed name j \<in> set used})", simp)
  fix used :: "string list" and name k
  assume "suffixed name k \<in> set used"
  then have "k \<in> {j. k \<le> j \<and> suffixed name j \<in> set used}" "k \<notin> {j. Suc k \<le> j \<and> suffixed name j \<in> set used}"
    by simp_all
  moreover have "{j. Suc k \<le> j \<and> suffixed name j \<in> set used} \<subseteq> {j. k \<le> j \<and> suffixed name j \<in> set used}" by auto
  ultimately have "{j. Suc k \<le> j \<and> suffixed name j \<in> set used} \<subset> {j. k \<le> j \<and> suffixed name j \<in> set used}" by blast
  then show "((used, name, Suc k), used, name, k) \<in>
      measure (\<lambda>(used, name, k). card {j. k \<le> j \<and> suffixed name j \<in> set used})"
    by (simp add: psubset_card_mono finite_taken)
qed

declare free_name.simps [simp del]

definition unique_name :: "string list \<Rightarrow> string \<Rightarrow> string" where
  "unique_name used name = (if name \<in> set used then free_name used name 2 else name)"

fun named_mounts :: "string \<Rightarrow> string list \<Rightarrow> path list \<Rightarrow> (string \<times> string) list \<Rightarrow> (string \<times> string) list" where
  "named_mounts primary used [] mounts = mounts"
| "named_mounts primary used (extra # extras) mounts =
     (let name = unique_name used (dir_name extra) in
      named_mounts primary (name # used) extras
        (AList.update (as_posix True extra) (primary @ ''s/'' @ name) mounts))"

definition mount_map :: "process_env \<Rightarrow> workspace \<Rightarrow> string \<Rightarrow> bool \<Rightarrow> (string \<times> string) list" where
  "mount_map env w primary_mount identity =
     (if identity
      then fold (\<lambda>extra. AList.update (as_posix True extra)
               (let mount = effective_mount_root env extra in
                if mount \<noteq> ss_workspace_mount default_spec then mount else primary_mount @ ''s/'' @ dir_name extra))
             (wk_extra_roots w) [(as_posix True (wk_root w), primary_mount)]
      else named_mounts primary_mount [] (wk_extra_roots w) [(as_posix True (wk_root w), primary_mount)])"

section \<open>Resolving a path\<close>

text \<open>The pairs of host root and mount that a written path is compared with, in order.\<close>

definition mount_pairs :: "process_env \<Rightarrow> workspace \<Rightarrow> (string \<times> string) list" where
  "mount_pairs env w =
     (let effective = effective_mount_root env (wk_root w) in
      mount_map env w ''/workspace'' False @
      (if effective \<noteq> ss_workspace_mount default_spec then mount_map env w effective True else []))"

definition from_mount_path :: "process_env \<Rightarrow> workspace \<Rightarrow> bool \<times> path \<Rightarrow> (bool \<times> path) \<times> bool" where
  "from_mount_path env w candidate =
     (if \<not> fst candidate then (candidate, False)
      else case find (\<lambda>(host, mount). under (snd (parse_path mount)) (snd candidate)) (mount_pairs env w) of
        None \<Rightarrow> (candidate, False)
      | Some (host, mount) \<Rightarrow>
          ((True, snd (parse_path host) @ drop (length (snd (parse_path mount))) (snd candidate)), True))"

definition containing_root :: "workspace \<Rightarrow> path \<Rightarrow> path option" where
  "containing_root w resolved = find (\<lambda>root. under root resolved) (roots w)"

text \<open>\<open>resolved.relative_to(root).as_posix() or "."\<close>.\<close>

definition label_under :: "path \<Rightarrow> path \<Rightarrow> string" where
  "label_under root p = (let rest = drop (length root) p in if rest = [] then ''.'' else as_posix False rest)"

definition resolve_path :: "process_env \<Rightarrow> workspace \<Rightarrow> string \<Rightarrow> bool \<Rightarrow> path_error + path" where
  "resolve_path env w raw must_exist =
     (let text = strip raw in
      if text = [] then Inl (PathPolicyError ''path is empty'')
      else bindE (expanduser env (parse_path text)) (\<lambda>written.
        let (candidate, from_mount) = from_mount_path env w written in
        case realpath link_limit (pe_fs env) [] (absolute_in (wk_root w) candidate) of
          None \<Rightarrow> Inl LinkLoop
        | Some resolved \<Rightarrow>
            let checked =
              (if fst candidate then
                 case containing_root w resolved of
                   None \<Rightarrow> Inl (PathPolicyError (''path escapes the workspace.'' @ boundary_hint w True))
                 | Some containing \<Rightarrow>
                     if containing = wk_root w \<and> \<not> wk_allow_absolute w \<and> \<not> from_mount
                     then Inl (PathPolicyError (''absolute paths are not allowed for the launch directory '' @ dash @
                       '' pass it relative to '' @ as_posix True (wk_root w) @ [CHR '','', CHR '' '', CHR ''e'', CHR ''.'', CHR ''g'',
                         CHR ''.'', CHR '' '', CHR 0x27] @ label_under (wk_root w) resolved @ [CHR 0x27]))
                     else Inr resolved
               else if \<not> under (wk_root w) resolved
               then Inl (PathPolicyError (''path escapes the workspace.'' @ boundary_hint w True))
               else Inr resolved)
            in bindE checked (\<lambda>p.
                 if must_exist \<and> p \<noteq> [] \<and> \<not> exists_at (pe_fs env) p
                 then Inl (PathNotFoundError (''path does not exist: '' @ text)) else Inr p)))"

definition relative :: "process_env \<Rightarrow> workspace \<Rightarrow> string \<Rightarrow> path_error + string" where
  "relative env w path =
     bindE (expanduser env (parse_path path)) (\<lambda>candidate.
       case realpath link_limit (pe_fs env) [] (absolute_in (wk_root w) candidate) of
         None \<Rightarrow> Inl LinkLoop
       | Some resolved \<Rightarrow>
           (case containing_root w resolved of
              None \<Rightarrow> Inl (PathPolicyError ''path escapes the workspace'')
            | Some containing \<Rightarrow>
                Inr (if containing = wk_root w then label_under containing resolved
                     else dir_name containing @ '':'' @ label_under containing resolved)))"

end
