(* ===== verification/Workspace_Props.thy ===== *)
theory Workspace_Props
  imports Workspace
begin

text \<open>
  What the workspace boundary promises: a path that is resolved lies under a root and names a
  file without passing a symbolic link, an opened workspace is well formed, and roots have
  different places in the sandbox as long as they are not exposed at their own paths.
\<close>

section \<open>Opening a workspace\<close>

text \<open>Roots are directories, canonical, and no extra root lies in the first or in another.\<close>

definition unnested :: "path list \<Rightarrow> bool" where
  "unnested ps = sorted_wrt (\<lambda>a b. \<not> under a b \<and> \<not> under b a) ps"

definition wf_workspace :: "filesystem \<Rightarrow> workspace \<Rightarrow> bool" where
  "wf_workspace fs w \<longleftrightarrow>
     list_all (\<lambda>r. is_dir fs r \<and> canonical fs r) (roots w) \<and>
     list_all (\<lambda>r. \<not> under (wk_root w) r) (wk_extra_roots w) \<and> unnested (wk_extra_roots w)"

lemma resolve_strict_canonical: "resolve_strict fs p = Some q \<Longrightarrow> canonical fs q"
  by (auto simp: resolve_strict_def split: option.splits if_splits dest: realpath_canonical)

lemma unnested_filter: "unnested ps \<Longrightarrow> unnested (filter P ps)"
  by (simp add: unnested_def sorted_wrt_filter)

lemma canonical_extra_roots_ok:
  assumes "canonical_extra_roots env root cands kept = Inr extra"
    "list_all (\<lambda>r. is_dir (pe_fs env) r \<and> canonical (pe_fs env) r \<and> \<not> under root r) kept" "unnested kept"
  shows "list_all (\<lambda>r. is_dir (pe_fs env) r \<and> canonical (pe_fs env) r \<and> \<not> under root r) extra \<and> unnested extra"
  using assms
proof (induction env root cands kept rule: canonical_extra_roots.induct)
  case (2 env root cand cands kept)
  from "2.prems"(1) obtain p where p: "expanduser env (parse_path cand) = Inr p"
    by (auto simp: raise_simps)
  show ?case
  proof (cases "resolve_strict (pe_fs env) (absolute_in (pe_cwd env) p)")
    case None
    with 2 p show ?thesis by simp
  next
    case (Some q)
    let ?drop = "\<not> is_dir (pe_fs env) q \<or> under root q \<or> list_ex (\<lambda>seen. under seen q) kept"
    show ?thesis
    proof (cases ?drop)
      case True
      with 2 p Some show ?thesis by simp
    next
      case False
      let ?kept = "filter (\<lambda>seen. \<not> under q seen) kept @ [q]"
      have r: "canonical_extra_roots env root cands ?kept = Inr extra" using "2.prems"(1) p Some False by simp
      have "list_all (\<lambda>r. is_dir (pe_fs env) r \<and> canonical (pe_fs env) r \<and> \<not> under root r) ?kept"
        using "2.prems"(2) False resolve_strict_canonical [OF Some] by (auto simp: list_all_iff)
      moreover have "unnested ?kept" using "2.prems"(3) False
        by (auto simp: unnested_def sorted_wrt_append sorted_wrt_filter list_ex_iff)
      ultimately show ?thesis by (rule "2.IH"(3) [OF Some False r])
    qed
  qed
qed simp

text \<open>
  C36: a workspace that could be opened is well formed: each of its roots is a directory named
  without symbolic links, and no extra root lies in the launch directory or in another one.
\<close>

theorem opened_workspace_wf:
  assumes "from_path env path allow extra = Inr w"
  shows "wf_workspace (pe_fs env) w"
proof -
  from assms obtain p root ex where "resolve_strict (pe_fs env) (absolute_in (pe_cwd env) p) = Some root"
    "is_dir (pe_fs env) root" "canonical_extra_roots env root extra [] = Inr ex"
    "w = \<lparr>wk_root = root, wk_allow_absolute = allow, wk_extra_roots = ex\<rparr>"
    by (auto simp: from_path_def raise_simps split: option.splits if_splits)
  with canonical_extra_roots_ok [of env root extra "[]" ex] resolve_strict_canonical show ?thesis
    by (auto simp: wf_workspace_def roots_def unnested_def list_all_iff)
qed

section \<open>Resolving\<close>

lemma resolve_Inr:
  assumes "resolve_path env w raw must_exist = Inr p"
  obtains written candidate from_mount where
    "expanduser env (parse_path (strip raw)) = Inr written" "from_mount_path env w written = (candidate, from_mount)"
    "realpath link_limit (pe_fs env) [] (absolute_in (wk_root w) candidate) = Some p"
    "fst candidate \<Longrightarrow> \<exists>r. containing_root w p = Some r \<and> (r = wk_root w \<longrightarrow> wk_allow_absolute w \<or> from_mount)"
    "\<not> fst candidate \<Longrightarrow> under (wk_root w) p"
    "must_exist \<Longrightarrow> p = [] \<or> exists_at (pe_fs env) p"
proof -
  from assms obtain written where w: "expanduser env (parse_path (strip raw)) = Inr written"
    unfolding resolve_path_def Let_def by (cases "expanduser env (parse_path (strip raw))") (simp_all split: if_splits)
  obtain candidate from_mount where m: "from_mount_path env w written = (candidate, from_mount)"
    by (cases "from_mount_path env w written")
  from assms w m obtain q where q: "realpath link_limit (pe_fs env) [] (absolute_in (wk_root w) candidate) = Some q"
    unfolding resolve_path_def Let_def
    by (cases "realpath link_limit (pe_fs env) [] (absolute_in (wk_root w) candidate)") (simp_all split: if_splits)
  show thesis
  proof (rule that [OF w m])
    show "realpath link_limit (pe_fs env) [] (absolute_in (wk_root w) candidate) = Some p"
      "fst candidate \<Longrightarrow> \<exists>r. containing_root w p = Some r \<and> (r = wk_root w \<longrightarrow> wk_allow_absolute w \<or> from_mount)"
      "\<not> fst candidate \<Longrightarrow> under (wk_root w) p" "must_exist \<Longrightarrow> p = [] \<or> exists_at (pe_fs env) p"
      using assms w m q unfolding resolve_path_def Let_def
      by (auto simp: raise_simps split: option.splits if_splits)
  qed
qed

lemma containing_root_Some: "containing_root w p = Some r \<Longrightarrow> r \<in> set (roots w) \<and> under r p"
  by (auto simp: containing_root_def find_Some_iff)

definition home_relative :: "path \<Rightarrow> bool" where
  "home_relative cs \<longleftrightarrow> cs \<noteq> [] \<and> prefix ''~'' (hd cs)"

lemma unexpanded: "\<not> home_relative cs \<Longrightarrow> expanduser env (False, cs) = Inr (False, cs)"
  by (auto simp: home_relative_def expanduser_def split: list.splits char.splits bool.splits)

text \<open>
  C13: a path the boundary lets through lies under one of the roots and no part of it is a
  symbolic link, whatever the model wrote: double dots, links, mounts of the sandbox, the home
  directory.  A path that was asked to exist exists, one relative to the workspace lies in the launch directory,
  and without permission an absolute one does so only if it was written as a mount.
\<close>

theorem resolved_path_is_confined:
  assumes "resolve_path env w raw must_exist = Inr p"
  shows "canonical (pe_fs env) p \<and> (\<exists>root. root \<in> set (roots w) \<and> under root p)
    \<and> (must_exist \<longrightarrow> p = [] \<or> exists_at (pe_fs env) p)
    \<and> (\<forall>cs. parse_path (strip raw) = (True, cs) \<longrightarrow> containing_root w p = Some (wk_root w) \<longrightarrow>
         wk_allow_absolute w \<or> snd (from_mount_path env w (True, cs)))
    \<and> (\<forall>cs. parse_path (strip raw) = (False, cs) \<longrightarrow> \<not> home_relative cs \<longrightarrow> under (wk_root w) p)"
  using assms
proof (rule resolve_Inr)
  fix written candidate from_mount
  assume a: "expanduser env (parse_path (strip raw)) = Inr written" "from_mount_path env w written = (candidate, from_mount)"
    "realpath link_limit (pe_fs env) [] (absolute_in (wk_root w) candidate) = Some p"
    "fst candidate \<Longrightarrow> \<exists>r. containing_root w p = Some r \<and> (r = wk_root w \<longrightarrow> wk_allow_absolute w \<or> from_mount)"
    "\<not> fst candidate \<Longrightarrow> under (wk_root w) p" "must_exist \<Longrightarrow> p = [] \<or> exists_at (pe_fs env) p"
  have "\<exists>root. root \<in> set (roots w) \<and> under root p"
  proof (cases "fst candidate")
    case True
    with a(4) containing_root_Some show ?thesis by blast
  qed (use a(5) in \<open>auto simp: roots_def\<close>)
  moreover have "canonical (pe_fs env) p" using realpath_canonical [OF a(3)] by simp
  moreover have "wk_allow_absolute w \<or> snd (from_mount_path env w (True, cs))"
    if "parse_path (strip raw) = (True, cs)" "containing_root w p = Some (wk_root w)" for cs
  proof -
    have "written = (True, cs)" using a(1) that(1) by (simp add: expanduser_def)
    moreover from this have "fst candidate" using a(2) by (auto simp: from_mount_path_def split: option.splits)
    ultimately show ?thesis using a(2,4) that(2) by auto
  qed
  moreover have "under (wk_root w) p"
    if "parse_path (strip raw) = (False, cs)" "\<not> home_relative cs" for cs
  proof -
    have "written = (False, cs)" using a(1) that unexpanded by simp
    then show ?thesis using a(2,5) by (auto simp: from_mount_path_def)
  qed
  ultimately show ?thesis using a(6) by blast
qed

section \<open>Mounts\<close>

lemma free_name_free: "free_name used name k \<notin> set used"
proof (induction used name k rule: free_name.induct)
  case (1 used name k)
  then show ?case using free_name.simps [of used name k] by auto
qed

lemma unique_name_free: "unique_name used name \<notin> set used"
  by (simp add: unique_name_def free_name_free)

lemma values_update: "set (map snd (AList.update k v d)) \<subseteq> insert v (set (map snd d))"
  by (induction d) auto

lemma distinct_values_update:
  "distinct (map snd d) \<Longrightarrow> v \<notin> set (map snd d) \<Longrightarrow> distinct (map snd (AList.update k v d))"
proof (induction d)
  case (Cons x d)
  then show ?case using values_update [of k v d] by (cases x) auto
qed simp

lemma named_mounts_distinct:
  "distinct (map snd mounts) \<Longrightarrow>
   set (map snd mounts) \<subseteq> insert primary ((\<lambda>n. primary @ ''s/'' @ n) ` set used) \<Longrightarrow>
   distinct (map snd (named_mounts primary used extras mounts))"
proof (induction primary used extras mounts rule: named_mounts.induct)
  case (2 primary used extra extras mounts)
  let ?n = "unique_name used (dir_name extra)"
  have "primary @ ''s/'' @ ?n \<notin> set (map snd mounts)"
    using "2.prems"(2) unique_name_free [of used "dir_name extra"] by fastforce
  then have "distinct (map snd (AList.update (as_posix True extra) (primary @ ''s/'' @ ?n) mounts))"
    using "2.prems"(1) by (rule distinct_values_update [rotated])
  moreover have "set (map snd (AList.update (as_posix True extra) (primary @ ''s/'' @ ?n) mounts)) \<subseteq>
      insert primary ((\<lambda>n. primary @ ''s/'' @ n) ` set (?n # used))"
    by (rule subset_trans [OF values_update]) (use "2.prems"(2) in auto)
  ultimately show ?case using "2.IH" [OF refl] by (simp add: Let_def)
qed simp

text \<open>
  Exposed under their names, no two roots of a workspace share a place in the sandbox.
\<close>

theorem named_mounts_are_distinct: "distinct (map snd (mount_map env w primary False))"
  unfolding mount_map_def by (simp add: named_mounts_distinct)

definition demo_tree :: filesystem where
  "demo_tree p = (if p \<in> {[], [''run''], [''run'', ''a''], [''run'', ''a'', ''x''], [''run'', ''b''], [''run'', ''b'', ''x''],
       [''home''], [''home'', ''u''], [''home'', ''u'', ''p'']} then Some Dir
     else if p = [''home'', ''u'', ''p'', ''out''] then Some (Symlink True [''etc''])
     else if p = [''home'', ''u'', ''p'', ''in''] then Some (Symlink False [''src''])
     else None)"

definition demo_env :: process_env where
  "demo_env = \<lparr>pe_fs = demo_tree, pe_cwd = [''home'', ''u''], pe_home = (\<lambda>_. None), pe_identity_mount = None\<rparr>"

definition demo_workspace :: workspace where
  "demo_workspace = \<lparr>wk_root = [''home'', ''u'', ''p''], wk_allow_absolute = False,
     wk_extra_roots = [[''run'', ''a'', ''x''], [''run'', ''b'', ''x'']]\<rparr>"

lemma demo_opened: "from_path demo_env ''p'' False [''/run/a/x'', ''/run/./b/x'', ''/home/u/p''] = Inr demo_workspace"
  by code_simp

theorem opened_workspace_wf_witness: "wf_workspace demo_tree demo_workspace"
  using opened_workspace_wf [OF demo_opened] by (simp add: demo_env_def)

text \<open>A link inside the workspace is followed, one that leaves it is refused.\<close>

lemma demo_resolved:
  "resolve_path demo_env demo_workspace ''in/../in/a.c'' False = Inr [''home'', ''u'', ''p'', ''src'', ''a.c'']"
  "resolve_path demo_env demo_workspace ''out/passwd'' False =
     Inl (PathPolicyError (''path escapes the workspace.'' @ boundary_hint demo_workspace True))"
  by code_simp+

theorem resolved_path_is_confined_witness:
  "canonical demo_tree [''home'', ''u'', ''p'', ''src'', ''a.c'']"
  using resolved_path_is_confined [OF demo_resolved(1)] by (simp add: demo_env_def)

text \<open>
  Exposed at their own paths they may: two roots whose own path the sandbox cannot use and
  that have the same last name are mounted at one place, so one of them hides the other.
\<close>

theorem identity_mounts_collide:
  "from_path demo_env ''p'' False [''/run/a/x'', ''/run/b/x''] = Inr demo_workspace \<and>
   mount_map demo_env demo_workspace (effective_mount_root demo_env (wk_root demo_workspace)) True =
     [(''/home/u/p'', ''/home/u/p''), (''/run/a/x'', ''/home/u/ps/x''), (''/run/b/x'', ''/home/u/ps/x'')]"
  by (rule conjI; code_simp)

end
