(* ===== verification/Command_Policy.thy ===== *)
theory Command_Policy
  imports Workspace Text_Patterns Resource_Control
begin

text \<open>
  Command classification and authorization (\<open>client/harness/command_policy.py\<close>) with the
  primitives it builds on (\<open>client/harness/tool_primitives.py\<close>): what a shell command needs, and
  whether the mode of the session grants it.  Sets of capabilities are sets; the filesystem the
  classifier looks at is that of \<open>Workspace\<close>; \<open>approve\<close> is the operator.
\<close>

section \<open>Primitives\<close>

datatype execution_mode = SAFE | ASK | AUTO

fun mode_value :: "execution_mode \<Rightarrow> string" where
  "mode_value SAFE = ''safe''"
| "mode_value ASK = ''ask''"
| "mode_value AUTO = ''auto''"

datatype command_classification = READ_ONLY | WORKSPACE_MUTATING | SHELL_SYNTAX | DANGEROUS

fun classification_value :: "command_classification \<Rightarrow> string" where
  "classification_value READ_ONLY = ''read_only''"
| "classification_value WORKSPACE_MUTATING = ''workspace_mutating''"
| "classification_value SHELL_SYNTAX = ''shell_complex''"
| "classification_value DANGEROUS = ''dangerous''"

fun capability_value :: "tool_capability \<Rightarrow> string" where
  "capability_value FILESYSTEM_READ = ''filesystem:read''"
| "capability_value HOST_READ = ''host:read''"
| "capability_value WORKSPACE_WRITE = ''workspace:write''"
| "capability_value SHELL_COMPLEX = ''shell:complex''"
| "capability_value NETWORK = ''network''"
| "capability_value GPU = ''gpu''"
| "capability_value SSH = ''ssh''"
| "capability_value REMOTE_WRITE = ''remote:write''"
| "capability_value CONTAINER_RUNTIME = ''container-runtime''"
| "capability_value SECRETS = ''secrets''"

record capability_policy =
  cap_safe :: "tool_capability set"
  cap_ask :: "tool_capability set"
  cap_auto :: "tool_capability set"

fun for_mode :: "capability_policy \<Rightarrow> execution_mode \<Rightarrow> tool_capability set" where
  "for_mode p SAFE = cap_safe p"
| "for_mode p ASK = cap_ask p"
| "for_mode p AUTO = cap_auto p"

definition without_network :: "capability_policy \<Rightarrow> capability_policy" where
  "without_network p = \<lparr>cap_safe = cap_safe p - {NETWORK}, cap_ask = cap_ask p - {NETWORK}, cap_auto = cap_auto p - {NETWORK}\<rparr>"

definition default_capability_policy :: capability_policy where
  "default_capability_policy =
     \<lparr>cap_safe = {FILESYSTEM_READ, HOST_READ, SHELL_COMPLEX},
      cap_ask = {FILESYSTEM_READ, HOST_READ, WORKSPACE_WRITE, SHELL_COMPLEX, NETWORK},
      cap_auto = {FILESYSTEM_READ, HOST_READ, WORKSPACE_WRITE, SHELL_COMPLEX, NETWORK}\<rparr>"

record tool_result =
  tx_status :: string
  tx_summary :: string
  tx_stdout :: string
  tx_stderr :: string
  tx_exit_code :: "int option"
  tx_changed_paths :: "string list"

definition tool_result_of :: "string \<Rightarrow> string \<Rightarrow> tool_result" where
  "tool_result_of status summary = \<lparr>tx_status = status, tx_summary = summary, tx_stdout = [], tx_stderr = [],
     tx_exit_code = None, tx_changed_paths = []\<rparr>"

definition to_legacy_text :: "tool_result \<Rightarrow> string" where
  "to_legacy_text r =
     (if tx_status r = ''cancelled'' then ''CANCELLED''
      else join [CHR 0x0A] ([(if tx_status r = ''ok'' then ''OK'' else ''ERROR'') @ '': '' @ tx_summary r] @
        (if tx_stdout r \<noteq> [] then [tx_stdout r] else []) @ (if tx_stderr r \<noteq> [] then [tx_stderr r] else []) @
        (case tx_exit_code r of None \<Rightarrow> [] | Some n \<Rightarrow> if n = 0 then [] else [''(exit '' @ int_str n @ '')''])))"

section \<open>Assessments and the policy\<close>

record command_assessment =
  cm_command :: string
  cm_argv :: "string list"
  cm_classification :: command_classification
  cm_reason :: string
  cm_required :: "tool_capability set"
  cm_host_reads :: "string list"

record authorization =
  au_result :: "tool_result option"
  au_granted :: "tool_capability set"

definition allowed :: "authorization \<Rightarrow> bool" where
  "allowed a \<longleftrightarrow> au_result a = None"

record command_policy =
  po_capabilities :: capability_policy
  po_mount_roots :: "string list"
  po_workspace :: "workspace option"

definition bind_workspace :: "process_env \<Rightarrow> workspace option \<Rightarrow> command_policy \<Rightarrow> command_policy" where
  "bind_workspace env ws po =
     (case ws of
        None \<Rightarrow> po\<lparr>po_mount_roots := [], po_workspace := None\<rparr>
      | Some w \<Rightarrow>
          let mount = effective_mount_root env (wk_root w);
              mounts = mount_map env w mount (mount \<noteq> ss_workspace_mount default_spec)
          in po\<lparr>po_mount_roots := sorted_list_of_set (set (dict_values mounts)), po_workspace := Some w\<rparr>)"

definition policy_hint :: "command_policy \<Rightarrow> string" where
  "policy_hint po =
     (case po_workspace po of
        Some w \<Rightarrow> boundary_hint w True
      | None \<Rightarrow> if po_mount_roots po = [] then []
                else '' Writable trees: '' @ join '', '' (take 3 (po_mount_roots po)) @ ''.'')"

section \<open>Programs\<close>

definition READ_ONLY_BINS :: "string list" where
  "READ_ONLY_BINS = [''cat'', ''ls'', ''rg'', ''grep'', ''egrep'', ''fgrep'', ''find'', ''head'', ''tail'', ''wc'', ''stat'', ''file'',
     ''pwd'', ''tree'', ''du'', ''df'', ''which'', ''type'', ''readlink'', ''basename'', ''dirname'', ''md5sum'', ''sha256sum'',
     ''diff'', ''sort'', ''uniq'', ''cut'', ''sed'']"

definition GIT_READ_ONLY :: "string list" where
  "GIT_READ_ONLY = [''status'', ''log'', ''diff'', ''show'', ''branch'', ''ls-files'', ''blame'', ''describe'', ''rev-parse'', ''reflog'']"

definition WORKSPACE_MUTATING_BINS :: "string list" where
  "WORKSPACE_MUTATING_BINS = [''make'', ''cmake'', ''ninja'', ''pytest'', ''tee'', ''gcc'', ''cc'', ''g++'', ''c++'', ''clang'', ''clang++'']"

definition PYTHON_BINS :: "string list" where
  "PYTHON_BINS = [''python'', ''python3'']"

definition PYTHON_TEST_MODULES :: "string list" where
  "PYTHON_TEST_MODULES = [''pytest'', ''unittest'']"

definition PYTHON_HINT :: string where
  "PYTHON_HINT = ''run tests with `python3 -m unittest discover -s tests` (or `python3 -m pytest` where pytest is installed). '' @
     ''`python3 -c` and running a script directly are refused: the interpreter runs arbitrary code, and the two '' @
     ''module forms above are the only ones that run here''"

definition DANGEROUS_BINS :: "string list" where
  "DANGEROUS_BINS = [''sudo'', ''su'', ''doas'', ''rm'', ''mv'', ''dd'', ''mkfs'', ''mount'', ''umount'', ''chmod'', ''chown'', ''kill'',
     ''pkill'', ''shutdown'', ''reboot'', ''rsync'', ''python'', ''python3'', ''bash'', ''sh'', ''zsh'', ''fish'', ''env'']"

definition SHELL_BUILTINS :: "string list" where
  "SHELL_BUILTINS = [''cd'', ''.'', ''source'', ''export'', ''set'', ''unset'', ''echo'', ''true'', ''false'', ''test'', ''['']"

definition NETWORK_BINS :: "string list" where "NETWORK_BINS = [''curl'', ''wget'']"
definition SSH_BINS :: "string list" where "SSH_BINS = [''ssh'', ''scp'', ''sftp'']"
definition CONTAINER_BINS :: "string list" where "CONTAINER_BINS = [''docker'', ''podman'']"
definition GPU_BINS :: "string list" where "GPU_BINS = [''nvidia-smi'']"
definition GIT_NETWORK_WRITE :: "string list" where "GIT_NETWORK_WRITE = [''clone'', ''fetch'', ''pull'']"
definition GIT_NETWORK_ONLY :: "string list" where "GIT_NETWORK_ONLY = [''push'']"

definition REMOVAL_BINS :: "string list" where
  "REMOVAL_BINS = [''rm'', ''rmdir'', ''unlink'', ''shred'', ''mv'', ''rename'']"

definition SED_IN_PLACE_rx :: rx where
  "SED_IN_PLACE_rx = Alt (lit ''--in-place'') (seqs [ch CHR ''-'', Star (Cls (\<lambda>c. ascii_letter c \<and> c \<noteq> CHR ''i'')), ch CHR ''i''])"

definition sed_in_place :: "string list \<Rightarrow> bool" where
  "sed_in_place args = list_ex (match_start SED_IN_PLACE_rx) args"

definition REDIRECT_SINKS :: "string list" where
  "REDIRECT_SINKS = [''/dev/null'', ''/dev/stdout'', ''/dev/stderr'']"

definition shell_syntax :: "string \<Rightarrow> bool" where
  "shell_syntax command = list_ex (\<lambda>c. c \<in> set ''|&;<>`$()'' \<or> c = CHR 0x0A) command"

definition SENSITIVE_CAPABILITIES :: "tool_capability set" where
  "SENSITIVE_CAPABILITIES = {HOST_READ, NETWORK, REMOTE_WRITE, SSH, GPU, CONTAINER_RUNTIME, SECRETS}"

definition is_module_test_run :: "string list \<Rightarrow> bool" where
  "is_module_test_run argv =
     (case argv of
        program # flag # module # _ \<Rightarrow>
          CHR ''/'' \<notin> set program \<and> program \<in> set PYTHON_BINS \<and> flag = ''-m'' \<and> module \<in> set PYTHON_TEST_MODULES
      | _ \<Rightarrow> False)"

definition is_known_binary :: "string \<Rightarrow> bool" where
  "is_known_binary binary \<longleftrightarrow>
     binary \<in> set (READ_ONLY_BINS @ WORKSPACE_MUTATING_BINS @ NETWORK_BINS @ SSH_BINS @ CONTAINER_BINS @ GPU_BINS @
       DANGEROUS_BINS @ SHELL_BUILTINS) \<or> binary = ''git''"

section \<open>Paths a command names\<close>

definition SECRET_PATHS_rx :: rx where
  "SECRET_PATHS_rx = seqs [Alt Bol (ch CHR ''/''),
     alts (map lit [''.ssh'', ''.gnupg'', ''.aws'', ''.docker'', ''.kube'', ''.netrc'', ''.pgpass'', ''.git-credentials''] @
       [Seq (lit ''id_'') (plus (Cls (\<lambda>c. ascii_digit c \<or> CHR ''a'' \<le> c \<and> c \<le> CHR ''z'')))] @
       map lit [''shadow'', ''gshadow'', ''sudoers'']),
     Alt (ch CHR ''/'') Eol]"

definition FIXED_SANDBOX_MOUNT_POINTS :: "string list" where
  "FIXED_SANDBOX_MOUNT_POINTS = [''/proc'', ''/dev'', ''/usr'', ''/bin'', ''/lib'', ''/lib64'', ''/etc'']"

definition glob_base :: "string \<Rightarrow> string" where
  "glob_base path =
     (let parts = split_on CHR ''/'' path;
          kept = takeWhile (\<lambda>part. \<not> list_ex (\<lambda>c. c \<in> set ''*?['') part) parts;
          base = join ''/'' kept
      in if length kept = length parts then path else if base = [] then ''/'' else base)"

text \<open>\<open>os.path.normpath\<close>.\<close>

fun norm_parts :: "bool \<Rightarrow> path \<Rightarrow> string list \<Rightarrow> path" where
  "norm_parts rooted acc [] = acc"
| "norm_parts rooted acc (c # cs) =
     norm_parts rooted
       (if c \<in> {[], ''.''} then acc
        else if c \<noteq> ''..'' \<or> \<not> rooted \<and> acc = [] \<or> acc \<noteq> [] \<and> last acc = ''..'' then acc @ [c]
        else butlast acc) cs"

definition normpath :: "string \<Rightarrow> string" where
  "normpath s =
     (let slashes = (if prefix ''//'' s \<and> \<not> prefix ''///'' s then ''//'' else if prefix ''/'' s then ''/'' else []);
          out = slashes @ join ''/'' (norm_parts (slashes \<noteq> []) [] (split_on CHR ''/'' s))
      in if out = [] then ''.'' else out)"

definition resolve_text :: "filesystem \<Rightarrow> string \<Rightarrow> path option" where
  "resolve_text fs s = realpath link_limit fs [] (snd (parse_path s))"

definition there :: "filesystem \<Rightarrow> string \<Rightarrow> bool" where
  "there fs s = (case resolve_text fs s of None \<Rightarrow> False | Some p \<Rightarrow> p = [] \<or> exists_at fs p)"

definition sandbox_mounts :: "string list" where
  "sandbox_mounts = FIXED_SANDBOX_MOUNT_POINTS @ [ss_home default_spec, ss_tmpdir default_spec, ss_workspace_mount default_spec]"

definition covers_mount :: "string \<Rightarrow> bool" where
  "covers_mount spelling = list_ex (\<lambda>mount. spelling = mount \<or> prefix (rstrip_slash spelling @ ''/'') mount) sandbox_mounts"

text \<open>The path to expose and the refusal; at most one of them says anything.\<close>

definition outside_read_target :: "filesystem \<Rightarrow> string \<Rightarrow> string option \<times> string" where
  "outside_read_target fs path =
     (let literal = normpath (glob_base path) in
      case resolve_text fs literal of
        None \<Rightarrow> (None, ''path cannot be resolved'')
      | Some p \<Rightarrow>
          let spellings = [literal, as_posix True p] in
          if list_ex (search SECRET_PATHS_rx) spellings then (None, literal @ '' holds credentials and is never read.'')
          else if list_ex covers_mount spellings
          then (None, literal @ '' contains the sandbox's own mounts and cannot be exposed '' @ dash @ '' name a subdirectory.'')
          else if \<not> there fs literal then (None, [])
          else (Some literal, []))"

definition inside_sandbox :: "command_policy \<Rightarrow> string \<Rightarrow> bool" where
  "inside_sandbox po path \<longleftrightarrow>
     ''..'' \<notin> set (split_on CHR ''/'' path) \<and>
     (path = ''/workspace'' \<or> prefix ''/workspace/'' path \<or> prefix ''/workspaces/'' path \<or>
      prefix (rstrip_slash (ss_tmpdir default_spec) @ ''/'') path \<or>
      list_ex (\<lambda>m. path = m \<or> prefix (rstrip_slash m @ ''/'') path) (po_mount_roots po))"

fun outside_reads :: "filesystem \<Rightarrow> command_policy \<Rightarrow> string list \<Rightarrow> string list \<Rightarrow> string list \<times> string" where
  "outside_reads fs po [] binds = (binds, [])"
| "outside_reads fs po (operand # operands) binds =
     (if \<not> prefix ''/'' operand \<or> inside_sandbox po operand then outside_reads fs po operands binds
      else case outside_read_target fs operand of
        (found, refusal) \<Rightarrow>
          if refusal \<noteq> [] then ([], refusal)
          else case found of
            Some p \<Rightarrow> outside_reads fs po operands (if p \<notin> set binds \<and> \<not> inside_sandbox po p then binds @ [p] else binds)
          | None \<Rightarrow> outside_reads fs po operands binds)"

definition is_workspace_program :: "command_policy \<Rightarrow> string \<Rightarrow> bool" where
  "is_workspace_program po program \<longleftrightarrow>
     ''..'' \<notin> set (split_on CHR ''/'' program) \<and>
     (prefix ''./'' program \<or> prefix ''/'' program \<and> inside_sandbox po program)"

text \<open>The arguments of \<open>sed\<close> that are files: not its scripts and options.\<close>

fun sed_operands :: "bool \<Rightarrow> bool \<Rightarrow> string list \<Rightarrow> string list" where
  "sed_operands expect seen [] = []"
| "sed_operands expect seen (arg # args) =
     (if expect then sed_operands False seen args
      else if arg \<in> {''-e'', ''--expression''} then sed_operands True True args
      else if prefix ''--expression='' arg then sed_operands False True args
      else if arg \<in> {''-f'', ''--file''} then sed_operands False True args
      else if prefix ''-'' arg \<and> arg \<noteq> ''-'' then sed_operands False seen args
      else if \<not> seen then sed_operands False True args
      else arg # sed_operands False seen args)"

definition path_operands :: "string list \<Rightarrow> string list" where
  "path_operands argv = (if path_name (hd argv) \<noteq> ''sed'' then tl argv else sed_operands False False (tl argv))"

section \<open>What a program needs\<close>

definition MUTATING_METHODS :: "string list" where
  "MUTATING_METHODS = [''POST'', ''PUT'', ''PATCH'', ''DELETE'']"

fun curl_remote_write :: "string list \<Rightarrow> bool" where
  "curl_remote_write [] = False"
| "curl_remote_write (arg # args) =
     (arg \<in> {''-d'', ''--data'', ''--data-raw'', ''--data-binary'', ''-F'', ''--form''} \<or>
      list_ex (\<lambda>p. prefix p arg) [''--data='', ''--data-raw='', ''--data-binary='', ''--form=''] \<or>
      prefix ''-d'' arg \<and> arg \<noteq> ''-d'' \<or> prefix ''-F'' arg \<and> arg \<noteq> ''-F'' \<or>
      arg \<in> {''-X'', ''--request''} \<and> args \<noteq> [] \<and> upper (hd args) \<in> set MUTATING_METHODS \<or>
      prefix ''-X'' arg \<and> upper (drop 2 arg) \<in> set MUTATING_METHODS \<or>
      prefix ''--request='' arg \<and> upper (drop 10 arg) \<in> set MUTATING_METHODS \<or>
      curl_remote_write args)"

definition scp_capabilities :: "string list \<Rightarrow> tool_capability set" where
  "scp_capabilities args =
     (let operands = filter (\<lambda>a. \<not> prefix ''-'' a) args;
          source_remote = list_ex (\<lambda>a. CHR '':'' \<in> set a) (butlast operands);
          destination_remote = (CHR '':'' \<in> set (last operands))
      in if 2 \<le> length operands \<and> destination_remote \<and> \<not> source_remote
         then {SSH, NETWORK, FILESYSTEM_READ, REMOTE_WRITE}
         else if 2 \<le> length operands \<and> source_remote \<and> \<not> destination_remote then {SSH, NETWORK, WORKSPACE_WRITE}
         else {FILESYSTEM_READ, WORKSPACE_WRITE, SSH, NETWORK, REMOTE_WRITE})"

definition simple_capabilities :: "string list \<Rightarrow> bool \<Rightarrow> tool_capability set" where
  "simple_capabilities argv stdin_from_pipeline =
     (if argv = [] then {}
      else let binary = path_name (hd argv); args = tl argv in
        if is_module_test_run argv then {FILESYSTEM_READ, WORKSPACE_WRITE}
        else if binary = ''wget'' then {NETWORK, WORKSPACE_WRITE}
        else if binary = ''curl'' then
          {NETWORK} \<union>
          (if list_ex (\<lambda>a. a \<in> {''-o'', ''--output'', ''-O'', ''--remote-name''} \<or> prefix ''--output='' a) args
           then {WORKSPACE_WRITE} else {}) \<union>
          (if curl_remote_write args then {REMOTE_WRITE} else {})
        else if binary \<in> set NETWORK_BINS then {NETWORK}
        else if binary = ''scp'' then scp_capabilities args
        else if binary \<in> set SSH_BINS then {SSH, NETWORK, REMOTE_WRITE}
        else if binary \<in> set CONTAINER_BINS then {CONTAINER_RUNTIME}
        else if binary \<in> set GPU_BINS then {GPU}
        else if binary \<in> set WORKSPACE_MUTATING_BINS then {FILESYSTEM_READ, WORKSPACE_WRITE}
        else if binary = ''git'' then
          (let subcommand = (if args = [] then [] else hd args) in
           if subcommand \<in> set GIT_NETWORK_WRITE then {FILESYSTEM_READ, WORKSPACE_WRITE, NETWORK}
           else if subcommand \<in> set GIT_NETWORK_ONLY then {FILESYSTEM_READ, NETWORK, REMOTE_WRITE}
           else if subcommand \<in> set GIT_READ_ONLY then {FILESYSTEM_READ}
           else {})
        else if binary \<in> set READ_ONLY_BINS then
          (if stdin_from_pipeline \<and> args = [] \<and> binary \<in> {''cat'', ''head'', ''tail'', ''wc'', ''sort'', ''uniq'', ''cut''}
           then {} else {FILESYSTEM_READ})
        else {})"

definition sensitive_classification :: "string list \<Rightarrow> command_classification" where
  "sensitive_classification argv =
     (let binary = path_name (hd argv) in
      if binary = ''wget'' \<or> binary \<in> {''curl'', ''scp''} \<and> WORKSPACE_WRITE \<in> simple_capabilities argv False
      then WORKSPACE_MUTATING else READ_ONLY)"

section \<open>Reading a shell command\<close>

text \<open>
  The words behind the redirections \<open>(?<![=])\d*>{1,2}\s*(\S*)\<close> finds; \<open>prev\<close> is the character
  in front of the place looked at.
\<close>

definition redirect_at :: "string \<Rightarrow> (string \<times> string) option" where
  "redirect_at s =
     (case dropWhile rx_digit s of
        CHR ''>'' # r \<Rightarrow>
          (let r' = dropWhile py_space (if prefix ''>'' r then tl r else r) in
           Some (takeWhile (\<lambda>c. \<not> py_space c) r', dropWhile (\<lambda>c. \<not> py_space c) r'))
      | _ \<Rightarrow> None)"

lemma redirect_at_shorter: "redirect_at s = Some (w, rest) \<Longrightarrow> length rest < length s"
proof -
  assume "redirect_at s = Some (w, rest)"
  then obtain r where r: "dropWhile rx_digit s = CHR ''>'' # r"
    "rest = dropWhile (\<lambda>c. \<not> py_space c) (dropWhile py_space (if prefix ''>'' r then tl r else r))"
    by (auto simp: redirect_at_def Let_def split: list.splits char.splits bool.splits)
  have "length rest \<le> length (if prefix ''>'' r then tl r else r)"
    unfolding r(2) by (meson length_dropWhile_le order_trans)
  also have "\<dots> \<le> length r" by simp
  also have "length r < length s" using r(1) length_dropWhile_le [of rx_digit s] by simp
  finally show ?thesis .
qed

function redirect_words :: "char option \<Rightarrow> string \<Rightarrow> string list" where
  "redirect_words prev [] = []"
| "redirect_words prev (c # cs) =
     (case (if prev = Some CHR ''='' then None else redirect_at (c # cs)) of
        None \<Rightarrow> redirect_words (Some c) cs
      | Some (w, rest) \<Rightarrow> w # redirect_words None rest)"
  by pat_completeness auto
termination
  by (relation "measure (\<lambda>(_, s). length s)") (auto dest: redirect_at_shorter split: if_splits)

declare redirect_words.simps [simp del]

definition writes_via_redirection :: "string \<Rightarrow> bool" where
  "writes_via_redirection command = list_ex (\<lambda>w. w \<notin> set REDIRECT_SINKS) (redirect_words None command)"

text \<open>Here-documents: \<open><<-?\s*(['"]?)([A-Za-z_][\w-]*)\1\<close> at the start of a text, and all in a line.\<close>

definition heredoc_at :: "string \<Rightarrow> (string \<times> string) option" where
  "heredoc_at s =
     (if \<not> prefix ''<<'' s then None
      else let r = drop 2 s; r1 = dropWhile py_space (if prefix ''-'' r then tl r else r);
               quote = (if r1 \<noteq> [] \<and> hd r1 \<in> {CHR 0x27, CHR 0x22} then [hd r1] else []);
               r2 = drop (length quote) r1;
               name = takeWhile (\<lambda>c. rx_word c \<or> c = CHR ''-'') r2;
               rest = drop (length name) r2
           in if name \<noteq> [] \<and> (ascii_letter (hd name) \<or> hd name = CHR ''_'') \<and> prefix quote rest
              then Some (name, drop (length quote) rest) else None)"

lemma heredoc_at_shorter: "heredoc_at s = Some (d, rest) \<Longrightarrow> length rest < length s"
proof -
  assume a: "heredoc_at s = Some (d, rest)"
  define r1 where "r1 = dropWhile py_space (if prefix ''-'' (drop 2 s) then tl (drop 2 s) else drop 2 s)"
  from a have "prefix ''<<'' s" "length rest \<le> length r1"
    by (auto simp: heredoc_at_def Let_def r1_def [symmetric] split: if_splits)
  moreover have "length r1 \<le> length s - 2"
  proof -
    have "length r1 \<le> length (if prefix ''-'' (drop 2 s) then tl (drop 2 s) else drop 2 s)"
      unfolding r1_def by (rule length_dropWhile_le)
    also have "\<dots> \<le> length s - 2" by (simp add: diff_le_mono2)
    finally show ?thesis .
  qed
  moreover have "2 \<le> length s" using \<open>prefix ''<<'' s\<close> by (auto simp: prefix_def)
  ultimately show ?thesis by linarith
qed

function heredocs :: "string \<Rightarrow> string list" where
  "heredocs [] = []"
| "heredocs (c # cs) =
     (case heredoc_at (c # cs) of None \<Rightarrow> heredocs cs | Some (d, rest) \<Rightarrow> d # heredocs rest)"
  by pat_completeness auto
termination by (relation "measure length") (auto dest: heredoc_at_shorter)

declare heredocs.simps [simp del]

definition HEREDOC_INTERPRETERS :: "string list" where
  "HEREDOC_INTERPRETERS = [''sh'', ''bash'', ''dash'', ''zsh'', ''ksh'', ''python'', ''python3'', ''perl'', ''ruby'', ''node'', ''eval'']"

definition mentions_interpreter :: "string \<Rightarrow> bool" where
  "mentions_interpreter line =
     (case shlex_split line of None \<Rightarrow> True
      | Some tokens \<Rightarrow> list_ex (\<lambda>t. path_name t \<in> set HEREDOC_INTERPRETERS) tokens)"

text \<open>For each delimiter the body goes and the closing line stays.\<close>

fun skip_bodies :: "string list \<Rightarrow> string list \<Rightarrow> string list \<times> string list" where
  "skip_bodies [] lines = ([], lines)"
| "skip_bodies (d # ds) lines =
     (case dropWhile (\<lambda>l. strip l \<noteq> d) lines of
        [] \<Rightarrow> skip_bodies ds []
      | closing # rest \<Rightarrow> (let (kept, rest') = skip_bodies ds rest in (closing # kept, rest')))"

lemma skip_bodies_shorter: "length (snd (skip_bodies ds lines)) \<le> length lines"
proof (induction ds lines rule: skip_bodies.induct)
  case (2 d ds lines)
  show ?case
  proof (cases "dropWhile (\<lambda>l. strip l \<noteq> d) lines")
    case Nil
    show ?thesis using "2.IH"(1) [OF Nil] unfolding skip_bodies.simps Nil by simp
  next
    case (Cons closing rest)
    have "length (snd (skip_bodies ds rest)) \<le> length rest" by (rule "2.IH"(2) [OF Cons])
    also have "length rest \<le> length lines"
      using Cons length_dropWhile_le [of "\<lambda>l. strip l \<noteq> d" lines] by simp
    finally show ?thesis using Cons by (simp add: split_beta Let_def)
  qed
qed simp

function keep_lines :: "string list \<Rightarrow> string list" where
  "keep_lines [] = []"
| "keep_lines (line # rest) =
     line # (if heredocs line = [] \<or> mentions_interpreter line then keep_lines rest
             else fst (skip_bodies (heredocs line) rest) @ keep_lines (snd (skip_bodies (heredocs line) rest)))"
  by pat_completeness auto
termination by (relation "measure length") (auto simp: less_Suc_eq_le skip_bodies_shorter)

declare keep_lines.simps [simp del]

definition strip_heredoc_bodies :: "string \<Rightarrow> string" where
  "strip_heredoc_bodies command = join [CHR 0x0A] (keep_lines (split_on CHR 0x0A command))"

text \<open>The parts of a command between shell operators that are not quoted, and the operators.\<close>

fun shell_parts :: "string \<Rightarrow> char option \<Rightarrow> string \<Rightarrow> string list" where
  "shell_parts current quote [] = [current]"
| "shell_parts current (Some q) (c # cs) = shell_parts (current @ [c]) (if c = q then None else Some q) cs"
| "shell_parts current None [c] =
     (if c \<in> {CHR 0x27, CHR 0x22} then shell_parts (current @ [c]) (Some c) []
      else if c \<in> set ''|;&()<>'' then current # [c] # shell_parts [] None []
      else shell_parts (current @ [c]) None [])"
| "shell_parts current None (c # d # cs) =
     (if c \<in> {CHR 0x27, CHR 0x22} then shell_parts (current @ [c]) (Some c) (d # cs)
      else if c = CHR 0x5C then shell_parts (current @ [c, d]) None cs
      else if [c, d] \<in> {''||'', ''&&''} then current # [c, d] # shell_parts [] None cs
      else if c \<in> set ''|;&()<>'' then current # [c] # shell_parts [] None (d # cs)
      else shell_parts (current @ [c]) None (d # cs))"

definition shell_stages :: "string \<Rightarrow> string list" where
  "shell_stages command = shell_parts [] None command"

section \<open>What a shell command needs\<close>

record shell_scan =
  sc_capabilities :: "tool_capability set"
  sc_danger :: string
  sc_outside :: "string list"
  sc_refusal :: string
  sc_stdin :: bool
  sc_redirect :: bool
  sc_reads :: bool

definition first_text :: "string \<Rightarrow> string \<Rightarrow> string" where
  "first_text a b = (if a \<noteq> [] then a else b)"

definition quoted :: "string \<Rightarrow> string" where
  "quoted s = [CHR 0x27] @ s @ [CHR 0x27]"

definition add_outside :: "filesystem \<Rightarrow> command_policy \<Rightarrow> string list \<Rightarrow> shell_scan \<Rightarrow> shell_scan" where
  "add_outside fs po operands st =
     (let (found, denied) = outside_reads fs po operands [] in
      st\<lparr>sc_refusal := first_text (sc_refusal st) denied,
         sc_outside := sc_outside st @ filter (\<lambda>p. p \<notin> set (sc_outside st)) found\<rparr>)"

definition escapes :: "command_policy \<Rightarrow> string \<Rightarrow> bool" where
  "escapes po tgt \<longleftrightarrow> tgt \<notin> set REDIRECT_SINKS \<and> \<not> inside_sandbox po tgt \<and>
     (prefix ''/'' tgt \<or> prefix ''../'' tgt \<or> contains tgt ''/../'' \<or> tgt = ''..'')"

definition scan_redirect :: "filesystem \<Rightarrow> command_policy \<Rightarrow> string \<Rightarrow> shell_scan \<Rightarrow> shell_scan" where
  "scan_redirect fs po tgt st =
     (let st1 = st\<lparr>sc_redirect := False\<rparr> in
      if \<not> escapes po tgt then st1
      else if sc_reads st \<and> prefix ''/'' tgt then add_outside fs po [tgt] st1
      else st1\<lparr>sc_danger := first_text (sc_danger st)
             (''a redirection would write outside the workspace: '' @ quoted tgt @ ''.'')\<rparr>)"

definition SED_REFUSAL :: string where
  "SED_REFUSAL = ''in-place sed edits outside the checkpoint, so it cannot be rolled back: use edit_file. To insert a '' @
     ''line, pass the existing surrounding line(s) as old_text and those same lines plus the new one as new_text.''"

definition unapproved :: "command_policy \<Rightarrow> string list \<Rightarrow> bool" where
  "unapproved po argv \<longleftrightarrow>
     path_name (hd argv) \<in> set DANGEROUS_BINS \<or> CHR ''/'' \<in> set (hd argv) \<and> \<not> is_workspace_program po (hd argv)"

definition scan_argv :: "filesystem \<Rightarrow> command_policy \<Rightarrow> string list \<Rightarrow> shell_scan \<Rightarrow> shell_scan" where
  "scan_argv fs po argv st =
     (let binary = path_name (hd argv);
          danger1 = (if binary = ''sed'' \<and> sed_in_place (tl argv) then first_text (sc_danger st) SED_REFUSAL else sc_danger st);
          danger2 = (if \<not> is_module_test_run argv \<and> unapproved po argv
                     then first_text danger1
                       (if binary \<in> set PYTHON_BINS then PYTHON_HINT @ '' '' @ dash @ '' so this command cannot run.''
                        else quoted (hd argv) @ '' is not allowlisted, so the pipeline that contains it cannot run.'')
                     else danger1);
          needs = (if is_known_binary binary then simple_capabilities argv (sc_stdin st) else {FILESYSTEM_READ, WORKSPACE_WRITE})
      in add_outside fs po (path_operands argv)
           (st\<lparr>sc_danger := danger2, sc_capabilities := sc_capabilities st \<union> needs\<rparr>)\<lparr>sc_stdin := False\<rparr>)"

definition ASSIGNMENT_rx :: rx where
  "ASSIGNMENT_rx = seqs [Cls (\<lambda>c. ascii_letter c \<or> c = CHR ''_''),
     Star (Cls (\<lambda>c. ascii_letter c \<or> ascii_digit c \<or> c = CHR ''_'')), ch CHR ''='']"

definition OPERATORS :: "string list" where
  "OPERATORS = [''|'', ''||'', ''&&'', '';'', ''&'', ''('', '')'', ''<'', ''>'']"

definition scan_words :: "filesystem \<Rightarrow> command_policy \<Rightarrow> string \<Rightarrow> shell_scan \<Rightarrow> shell_scan" where
  "scan_words fs po token st =
     (case shlex_split token of
        None \<Rightarrow> st
      | Some ws \<Rightarrow>
          let argv = dropWhile (match_start ASSIGNMENT_rx) ws in
          if argv = [] then st else scan_argv fs po argv st)"

definition scan_stage :: "filesystem \<Rightarrow> command_policy \<Rightarrow> string \<Rightarrow> shell_scan \<Rightarrow> shell_scan" where
  "scan_stage fs po stage st =
     (let token = strip stage in
      if token = [] then st
      else if token \<in> set OPERATORS
      then st\<lparr>sc_stdin := (token = ''|''), sc_redirect := (token \<in> {''<'', ''>''}), sc_reads := (token = ''<'')\<rparr>
      else if sc_redirect st then
        let tgt = hd (words token); rest = strip (drop (length tgt) token); st1 = scan_redirect fs po tgt st in
        if rest = [] then st1 else scan_words fs po rest st1
      else scan_words fs po token st)"

definition shell_capabilities :: "filesystem \<Rightarrow> command_policy \<Rightarrow> string \<Rightarrow> shell_scan" where
  "shell_capabilities fs po command =
     (let start = \<lparr>sc_capabilities = {SHELL_COMPLEX, FILESYSTEM_READ} \<union>
                     (if writes_via_redirection command then {FILESYSTEM_READ, WORKSPACE_WRITE} else {}),
                   sc_danger = [], sc_outside = [], sc_refusal = [], sc_stdin = False, sc_redirect = False, sc_reads = False\<rparr>;
          st = fold (scan_stage fs po) (shell_stages command) start
      in if sc_outside st \<noteq> [] then st\<lparr>sc_capabilities := sc_capabilities st \<union> {HOST_READ}\<rparr> else st)"

section \<open>Classification\<close>

definition assess :: "string \<Rightarrow> string list \<Rightarrow> command_classification \<Rightarrow> string \<Rightarrow> tool_capability set \<Rightarrow> string list \<Rightarrow>
    command_assessment" where
  "assess command argv kind reason needs reads =
     \<lparr>cm_command = command, cm_argv = argv, cm_classification = kind, cm_reason = reason, cm_required = needs,
      cm_host_reads = reads\<rparr>"

definition NO_DELETE_HINT :: string where
  "NO_DELETE_HINT = '' '' @ dash @ '' no tool can delete or rename a file. Nothing here can do it: say which file should go and '' @
     ''why, and leave it to the operator. Emptying it instead leaves a file behind.''"

definition classify_argv :: "command_policy \<Rightarrow> string \<Rightarrow> string list \<Rightarrow> command_assessment" where
  "classify_argv po command argv =
     (let binary = path_name (hd argv);
          refuse = (\<lambda>why. assess command argv DANGEROUS why {} []);
          accept = (\<lambda>kind. assess command argv kind [] (simple_capabilities argv False) [])
      in if is_module_test_run argv then accept WORKSPACE_MUTATING
         else if unapproved po argv then
           if binary \<in> set PYTHON_BINS
           then refuse (PYTHON_HINT @ '' '' @ dash @ '' so '' @ quoted (hd argv) @ '' as written is refused'')
           else refuse (''unapproved executable: '' @ quoted (hd argv) @
             (if binary \<in> set REMOVAL_BINS then NO_DELETE_HINT
              else if CHR ''/'' \<in> set (hd argv)
              then '' '' @ dash @ '' only a program built inside a declared tree may be run by path''
              else '' '' @ dash @ '' use edit_file/write_file to change files, and make/pytest to build and test''))
         else if CHR ''/'' \<in> set (hd argv)
         then assess command argv WORKSPACE_MUTATING [] {FILESYSTEM_READ, WORKSPACE_WRITE} []
         else if binary = ''git'' then
           if tl argv \<noteq> [] \<and> argv ! 1 \<in> set (GIT_READ_ONLY @ GIT_NETWORK_ONLY) then accept READ_ONLY
           else if tl argv \<noteq> [] \<and> argv ! 1 \<in> set GIT_NETWORK_WRITE then accept WORKSPACE_MUTATING
           else refuse ''non-read-only git command''
         else if binary \<in> set (NETWORK_BINS @ SSH_BINS @ CONTAINER_BINS @ GPU_BINS) then accept (sensitive_classification argv)
         else if binary \<in> set READ_ONLY_BINS then
           if binary = ''find'' \<and> list_ex (\<lambda>option. option \<in> set argv) [''-exec'', ''-execdir'', ''-delete'', ''-fprint'', ''-fprintf'']
           then refuse ''mutating find action''
           else if binary = ''sed'' \<and> sed_in_place (tl argv) then refuse SED_REFUSAL
           else accept READ_ONLY
         else if binary \<in> set WORKSPACE_MUTATING_BINS then accept WORKSPACE_MUTATING
         else if binary \<in> set REMOVAL_BINS then refuse (quoted binary @ '' is not allowlisted'' @ NO_DELETE_HINT)
         else refuse (''build and test with make, cmake, ninja, gcc, pytest or `python3 -m unittest discover -s tests`; read with '' @
           ''cat, ls, grep, find, sed -n, head, tail, wc, stat, diff and read-only git; change files with '' @
           ''edit_file/write_file. '' @ quoted binary @ '' is none of those, so it is not allowlisted.''))"

definition with_host_reads :: "command_assessment \<Rightarrow> string list \<Rightarrow> command_assessment" where
  "with_host_reads a reads =
     (if reads = [] \<or> cm_classification a = DANGEROUS then a
      else a\<lparr>cm_required := cm_required a \<union> {HOST_READ}, cm_host_reads := reads\<rparr>)"

definition traverses :: "string \<Rightarrow> bool" where
  "traverses arg \<longleftrightarrow> \<not> prefix ''/'' arg \<and> (arg = ''..'' \<or> contains arg ''/../'' \<or> prefix ''../'' arg)"

definition classify_simple :: "filesystem \<Rightarrow> command_policy \<Rightarrow> string \<Rightarrow> command_assessment" where
  "classify_simple fs po command =
     (case lex [] [] Blank [] False command of
        Inl e \<Rightarrow> assess command [] SHELL_SYNTAX e {SHELL_COMPLEX} []
      | Inr argv \<Rightarrow>
          if argv = [] then assess command [] DANGEROUS ''empty argv'' {} []
          else case find traverses (path_operands argv) of
            Some arg \<Rightarrow> assess command argv DANGEROUS (''relative path leaves the workspace: '' @ quoted arg @ '' '' @ dash @
              '' name it by absolute path instead.'' @ policy_hint po) {} []
          | None \<Rightarrow>
              let (reads, refusal) = outside_reads fs po (path_operands argv) [] in
              if refusal \<noteq> [] then assess command argv DANGEROUS (refusal @ policy_hint po) {} []
              else with_host_reads (classify_argv po command argv) reads)"

definition classify :: "filesystem \<Rightarrow> command_policy \<Rightarrow> string \<Rightarrow> command_assessment" where
  "classify fs po given =
     (if strip given = [] then assess given [] DANGEROUS ''empty command'' {} []
      else if CHR 0x00 \<in> set given then assess given [] DANGEROUS ''NUL byte'' {} []
      else let command = strip_heredoc_bodies given in
        if shell_syntax command then
          let sc = shell_capabilities fs po command in
          if sc_danger sc \<noteq> [] then assess command [] DANGEROUS (sc_danger sc @ policy_hint po) {} []
          else if sc_refusal sc \<noteq> [] then assess command [] DANGEROUS (sc_refusal sc @ policy_hint po) {} []
          else assess command [] SHELL_SYNTAX ''shell syntax'' (sc_capabilities sc) (sc_outside sc)
        else classify_simple fs po command)"

definition classify_script :: "filesystem \<Rightarrow> command_policy \<Rightarrow> string \<Rightarrow> command_assessment" where
  "classify_script fs po command =
     (let a = classify fs po command; sc = shell_capabilities fs po (strip_heredoc_bodies command) in
      if cm_classification a \<noteq> DANGEROUS \<or> strip command = [] \<or> CHR 0x00 \<in> set command \<or>
         shell_syntax (strip_heredoc_bodies command) then a
      else if sc_danger sc \<noteq> [] \<or> sc_refusal sc \<noteq> [] then a
      else assess command [] SHELL_SYNTAX ''session script'' (sc_capabilities sc) (sc_outside sc))"

section \<open>Authorization\<close>

definition capability_hint :: "command_policy \<Rightarrow> tool_capability set \<Rightarrow> execution_mode \<Rightarrow> string" where
  "capability_hint po missing mode =
     (let grants = filter (\<lambda>m. m \<noteq> mode \<and> missing \<subseteq> for_mode (po_capabilities po) m) [ASK, AUTO, SAFE] in
      if grants = []
      then '' No mode grants that combination here; say so rather than trying another spelling of the same command.''
      else '' Granted in '' @ join '' or '' (map (\<lambda>m. ''--'' @ mode_value m) grants) @
        '' mode, which is the user's call at launch '' @ dash @ '' say what you need it for instead of retrying.'' @
        (if NETWORK \<in> missing
         then '' To READ a web page or a document, use the fetch_url tool instead: it is a native tool, needs no '' @
           ''shell capability, and works in every mode.''
         else []))"

definition denied :: "string \<Rightarrow> string \<Rightarrow> authorization" where
  "denied status summary = \<lparr>au_result = Some (tool_result_of status summary), au_granted = {}\<rparr>"

definition grant :: "command_assessment \<Rightarrow> authorization" where
  "grant a = \<lparr>au_result = None, au_granted = cm_required a\<rparr>"

definition authorize :: "command_policy \<Rightarrow> command_assessment \<Rightarrow> execution_mode \<Rightarrow> (string \<Rightarrow> bool) option \<Rightarrow> authorization" where
  "authorize po a mode approve =
     (let kind = cm_classification a; unavailable = cm_required a - for_mode (po_capabilities po) mode in
      if kind = DANGEROUS then denied ''denied'' (''command denied: '' @ cm_reason a)
      else if mode = SAFE \<and> kind = WORKSPACE_MUTATING
      then denied ''denied'' (classification_value kind @ '' commands are disabled in safe mode'')
      else if unavailable \<noteq> {}
      then denied ''denied'' (''required capabilities are not allowed: '' @
        join '', '' (sorted_list_of_set (capability_value ` unavailable)) @
        (if HOST_READ \<in> unavailable then policy_hint po else []) @ capability_hint po unavailable mode)
      else if mode = SAFE then grant a
      else if mode = AUTO then grant a
      else if kind = READ_ONLY \<and> cm_required a \<inter> SENSITIVE_CAPABILITIES = {} then grant a
      else case approve of
        Some ask \<Rightarrow> if ask (''Run: '' @ cm_command a @ '' ?'') then grant a else denied ''cancelled'' ''command was not approved''
      | None \<Rightarrow> denied ''cancelled'' ''command was not approved'')"

definition authorize_mutation :: "execution_mode \<Rightarrow> (string \<Rightarrow> bool) option \<Rightarrow> string \<Rightarrow> tool_result option" where
  "authorize_mutation mode approve description =
     (case mode of
        SAFE \<Rightarrow> Some (tool_result_of ''denied'' ''mutations are disabled in safe mode'')
      | AUTO \<Rightarrow> None
      | ASK \<Rightarrow> (case approve of
          Some ask \<Rightarrow> if ask description then None else Some (tool_result_of ''cancelled'' ''mutation was not approved'')
        | None \<Rightarrow> Some (tool_result_of ''cancelled'' ''mutation was not approved'')))"

end
