(* ===== verification/Command_Run.thy ===== *)
theory Command_Run
  imports Command_Policy Capability_Gateway
begin

text \<open>
  How a command of the model gets to the sandbox (\<open>run_cmd_result\<close> in
  \<open>client/cli/session_workspace.py\<close>): classification, authorization, the execution profile made of
  what was granted, and the words that are run.  What the sandbox does with them is left out.
\<close>

datatype prepared =
    Answered tool_result
  | Raises resource_error
  | Runs "string list" execution_profile

definition PIPEFAIL_PRELUDE :: string where
  "PIPEFAIL_PRELUDE = ''if (set -o pipefail) 2>/dev/null; then set -o pipefail; fi; ''"

definition shell_argv :: "string \<Rightarrow> string \<Rightarrow> string list" where
  "shell_argv shell command = [shell, ''-lc'', PIPEFAIL_PRELUDE @ command]"

definition assess_command :: "filesystem \<Rightarrow> command_policy \<Rightarrow> string \<Rightarrow> string option \<Rightarrow> command_assessment" where
  "assess_command fs po cmd exec_cmd =
     (if exec_cmd = None \<or> exec_cmd = Some [] then classify fs po cmd else classify_script fs po cmd)"

text \<open>\<open>shell\<close> is the shell found, \<open>confirm\<close> the operator.\<close>

definition run_cmd_result :: "filesystem \<Rightarrow> command_policy \<Rightarrow> string \<Rightarrow> (string \<Rightarrow> bool) \<Rightarrow> execution_mode \<Rightarrow> string \<Rightarrow>
    string option \<Rightarrow> prepared" where
  "run_cmd_result fs po shell confirm mode cmd exec_cmd =
     (case recognised cmd of
        Some name \<Rightarrow> Answered (tool_result_of ''denied'' (name @ '' is not available on this runtime; nothing was run''))
      | None \<Rightarrow>
          let a = assess_command fs po cmd exec_cmd; authorization = authorize po a mode (Some confirm) in
          case au_result authorization of
            Some result \<Rightarrow> Answered result
          | None \<Rightarrow>
              let granted = au_granted authorization in
              case from_capabilities granted (if HOST_READ \<in> granted then cm_host_reads a else []) of
                Inl e \<Rightarrow> Raises e
              | Inr profile \<Rightarrow>
                  Runs (case exec_cmd of
                          Some (c # cs) \<Rightarrow> shell_argv shell (c # cs)
                        | _ \<Rightarrow> if cm_classification a \<noteq> SHELL_SYNTAX then cm_argv a else shell_argv shell cmd) profile)"

end
