(* ===== verification/Command_Policy_Props.thy ===== *)
theory Command_Policy_Props
  imports Command_Run
begin

text \<open>
  What the command policy guarantees: every command it can see in a shell line is vetted, what is
  read outside the workspace is vetted, and nothing runs with more than the mode grants.
\<close>

section \<open>Reading a shell command\<close>

lemma shell_parts_concat: "concat (shell_parts current quote s) = current @ s"
  by (induction current quote s rule: shell_parts.induct) auto

text \<open>
  Splitting a shell command into its stages loses nothing: the parts and the operators
  between them are together the command.
\<close>

theorem stages_make_the_command: "concat (shell_stages command) = command"
  by (simp add: shell_stages_def shell_parts_concat)

section \<open>Outside reads\<close>

text \<open>A path that may be exposed: absolute, there, no credentials, and not over a mount of the sandbox.\<close>

definition exposable :: "filesystem \<Rightarrow> command_policy \<Rightarrow> string \<Rightarrow> bool" where
  "exposable fs po p \<longleftrightarrow>
     there fs p \<and> \<not> inside_sandbox po p \<and>
     (\<exists>q. resolve_text fs p = Some q \<and>
        \<not> search SECRET_PATHS_rx p \<and> \<not> search SECRET_PATHS_rx (as_posix True q) \<and>
        \<not> covers_mount p \<and> \<not> covers_mount (as_posix True q))"

lemma outside_read_target_ok:
  "outside_read_target fs path = (Some p, []) \<Longrightarrow> \<not> inside_sandbox po p \<Longrightarrow> exposable fs po p"
  by (auto simp: outside_read_target_def exposable_def Let_def split: option.splits if_splits)

lemma outside_reads_ok:
  "outside_reads fs po operands binds = (found, refusal) \<Longrightarrow> list_all (exposable fs po) binds \<Longrightarrow>
   list_all (exposable fs po) found"
proof (induction fs po operands binds rule: outside_reads.induct)
  case (2 fs po operand operands binds)
  show ?case
  proof (cases "\<not> prefix ''/'' operand \<or> inside_sandbox po operand")
    case True
    with 2 show ?thesis by simp
  next
    case False
    obtain t r where t: "outside_read_target fs operand = (t, r)" by (cases "outside_read_target fs operand")
    show ?thesis
    proof (cases "r \<noteq> []")
      case True
      with "2.prems"(1) False t show ?thesis by auto
    next
      case r: False
      show ?thesis
      proof (cases t)
        case None
        with 2 False t r show ?thesis by auto
      next
        case (Some p)
        let ?b = "if p \<notin> set binds \<and> \<not> inside_sandbox po p then binds @ [p] else binds"
        have "list_all (exposable fs po) ?b" using "2.prems"(2) outside_read_target_ok [of fs operand p po] t r Some by auto
        moreover have "outside_reads fs po operands ?b = (found, refusal)" using "2.prems"(1) False t r Some by simp
        ultimately show ?thesis using "2.IH"(3) [OF False t [symmetric] r Some] by simp
      qed
    qed
  qed
qed simp

text \<open>Without a refusal every absolute operand outside the sandbox was looked at.\<close>

definition outside_ok :: "filesystem \<Rightarrow> command_policy \<Rightarrow> string \<Rightarrow> bool" where
  "outside_ok fs po operand \<longleftrightarrow>
     \<not> prefix ''/'' operand \<or> inside_sandbox po operand \<or> snd (outside_read_target fs operand) = []"

lemma outside_reads_all: "outside_reads fs po operands binds = (found, []) \<Longrightarrow> list_all (outside_ok fs po) operands"
  by (induction fs po operands binds rule: outside_reads.induct)
    (auto simp: outside_ok_def split: if_splits prod.splits option.splits)

section \<open>The stages of a shell command\<close>

definition command_words :: "string \<Rightarrow> string list" where
  "command_words text =
     (case shlex_split text of None \<Rightarrow> [] | Some ws \<Rightarrow> dropWhile (match_start ASSIGNMENT_rx) ws)"

text \<open>The commands among the stages: what is no operator, without the target of a redirection.\<close>

fun commands :: "bool \<Rightarrow> string list \<Rightarrow> string list list" where
  "commands redirect [] = []"
| "commands redirect (stage # rest) =
     (let token = strip stage in
      if token = [] then commands redirect rest
      else if token \<in> set OPERATORS then commands (token \<in> {''<'', ''>''}) rest
      else let argv = command_words (if redirect then strip (drop (length (hd (words token))) token) else token)
           in (if argv = [] then [] else [argv]) @ commands False rest)"

definition vetted :: "command_policy \<Rightarrow> string list \<Rightarrow> bool" where
  "vetted po argv \<longleftrightarrow>
     (is_module_test_run argv \<or> \<not> unapproved po argv) \<and> \<not> (path_name (hd argv) = ''sed'' \<and> sed_in_place (tl argv))"

definition needed_by :: "string list \<Rightarrow> tool_capability set" where
  "needed_by argv =
     (if is_known_binary (path_name (hd argv)) then simple_capabilities argv True else {FILESYSTEM_READ, WORKSPACE_WRITE})"

definition scan_ok :: "filesystem \<Rightarrow> command_policy \<Rightarrow> string list list \<Rightarrow> shell_scan \<Rightarrow> bool" where
  "scan_ok fs po cmds st \<longleftrightarrow>
     (sc_danger st = [] \<longrightarrow> list_all (vetted po) cmds) \<and> list_all (\<lambda>argv. needed_by argv \<subseteq> sc_capabilities st) cmds \<and>
     list_all (exposable fs po) (sc_outside st) \<and>
     (sc_refusal st = [] \<longrightarrow> list_all (\<lambda>argv. list_all (outside_ok fs po) (path_operands argv)) cmds)"

lemma first_text_empty [simp]: "first_text a b = [] \<longleftrightarrow> a = [] \<and> b = []"
  by (simp add: first_text_def)

lemma simple_capabilities_stdin: "simple_capabilities argv True \<subseteq> simple_capabilities argv b"
  by (cases b) (auto simp: simple_capabilities_def Let_def)

lemma add_outside_ok:
  assumes "scan_ok fs po cmds st"
  shows "scan_ok fs po cmds (add_outside fs po operands st)"
    "sc_refusal (add_outside fs po operands st) = [] \<Longrightarrow> list_all (outside_ok fs po) operands"
    "sc_redirect (add_outside fs po operands st) = sc_redirect st"
proof -
  obtain found denied where r: "outside_reads fs po operands [] = (found, denied)"
    by (cases "outside_reads fs po operands []")
  have f: "list_all (exposable fs po) found" using outside_reads_ok [OF r] by simp
  show "scan_ok fs po cmds (add_outside fs po operands st)" using assms f
    by (auto simp: scan_ok_def add_outside_def r list_all_iff)
  show "list_all (outside_ok fs po) operands" if "sc_refusal (add_outside fs po operands st) = []"
    using that outside_reads_all [of fs po operands "[]" found] by (simp add: add_outside_def r)
  show "sc_redirect (add_outside fs po operands st) = sc_redirect st" by (simp add: add_outside_def r)
qed

lemma scan_redirect_ok:
  assumes "scan_ok fs po cmds st"
  shows "scan_ok fs po cmds (scan_redirect fs po tgt st) \<and> \<not> sc_redirect (scan_redirect fs po tgt st)"
proof -
  have "scan_ok fs po cmds (st\<lparr>sc_redirect := False\<rparr>)" using assms by (simp add: scan_ok_def)
  from add_outside_ok [OF this] this show ?thesis
    by (auto simp: scan_redirect_def Let_def scan_ok_def first_text_def)
qed

lemma scan_argv_ok:
  assumes "scan_ok fs po cmds st"
  shows "scan_ok fs po (cmds @ [argv]) (scan_argv fs po argv st)" "sc_redirect (scan_argv fs po argv st) = sc_redirect st"
proof -
  define danger where "danger = (let binary = path_name (hd argv);
      danger1 = (if binary = ''sed'' \<and> sed_in_place (tl argv) then first_text (sc_danger st) SED_REFUSAL else sc_danger st)
    in (if \<not> is_module_test_run argv \<and> unapproved po argv
        then first_text danger1
          (if binary \<in> set PYTHON_BINS then PYTHON_HINT @ '' '' @ dash @ '' so this command cannot run.''
           else quoted (hd argv) @ '' is not allowlisted, so the pipeline that contains it cannot run.'')
        else danger1))"
  define caps where "caps = sc_capabilities st \<union>
    (if is_known_binary (path_name (hd argv)) then simple_capabilities argv (sc_stdin st) else {FILESYSTEM_READ, WORKSPACE_WRITE})"
  let ?st = "st\<lparr>sc_danger := danger, sc_capabilities := caps\<rparr>"
  have eq: "scan_argv fs po argv st = (add_outside fs po (path_operands argv) ?st)\<lparr>sc_stdin := False\<rparr>"
    by (simp add: scan_argv_def danger_def caps_def Let_def)
  have d: "danger = [] \<Longrightarrow> sc_danger st = [] \<and> vetted po argv"
    by (auto simp: danger_def vetted_def Let_def SED_REFUSAL_def quoted_def dash_def split: if_splits)
  have c: "sc_capabilities st \<subseteq> caps" "needed_by argv \<subseteq> caps"
    using simple_capabilities_stdin [of argv "sc_stdin st"] by (auto simp: caps_def needed_by_def)
  have s: "scan_ok fs po cmds ?st" using assms d c(1) by (auto simp: scan_ok_def list_all_iff)
  note a = add_outside_ok [OF s, of "path_operands argv"]
  have "sc_danger (add_outside fs po (path_operands argv) ?st) = danger"
    "sc_capabilities (add_outside fs po (path_operands argv) ?st) = caps"
    by (simp_all add: add_outside_def split_beta)
  with a(1,2) d c(2) show "scan_ok fs po (cmds @ [argv]) (scan_argv fs po argv st)"
    by (auto simp: eq scan_ok_def)
  show "sc_redirect (scan_argv fs po argv st) = sc_redirect st" using a(3) by (simp add: eq)
qed

lemma scan_words_ok:
  assumes "scan_ok fs po cmds st"
  shows "scan_ok fs po (cmds @ (if command_words token = [] then [] else [command_words token])) (scan_words fs po token st)"
    "sc_redirect (scan_words fs po token st) = sc_redirect st"
  using scan_argv_ok [OF assms] assms
  by (auto simp: scan_words_def command_words_def Let_def split: option.splits)

lemma scan_stage_ok:
  assumes "scan_ok fs po cmds st"
  shows "scan_ok fs po (cmds @ commands (sc_redirect st) stages) (fold (scan_stage fs po) stages st)"
  using assms
proof (induction stages arbitrary: cmds st)
  case (Cons stage stages)
  define token where "token = strip stage"
  consider "token = []" | "token \<noteq> []" "token \<in> set OPERATORS" | "token \<noteq> []" "token \<notin> set OPERATORS" by blast
  then show ?case
  proof cases
    case 1
    with Cons show ?thesis by (simp add: scan_stage_def token_def)
  next
    case 2
    let ?st = "st\<lparr>sc_stdin := (token = ''|''), sc_redirect := (token \<in> {''<'', ''>''}), sc_reads := (token = ''<'')\<rparr>"
    have "scan_ok fs po cmds ?st" using Cons.prems by (simp add: scan_ok_def)
    from Cons.IH [OF this] 2 show ?thesis by (simp add: scan_stage_def Let_def token_def [symmetric])
  next
    case 3
    define body where "body = (if sc_redirect st then strip (drop (length (hd (words token))) token) else token)"
    define st1 where "st1 = (if sc_redirect st then scan_redirect fs po (hd (words token)) st else st)"
    have s1: "scan_ok fs po cmds st1" "\<not> sc_redirect st1" using scan_redirect_ok [OF Cons.prems] Cons.prems by (auto simp: st1_def)
    have blank: "scan_words fs po [] st1 = st1" by (simp add: scan_words_def shlex_split_def lex.simps emit_def)
    have step: "scan_stage fs po stage st = scan_words fs po body st1"
      using 3 blank by (auto simp: scan_stage_def Let_def token_def [symmetric] body_def st1_def)
    note w = scan_words_ok [OF s1(1), of body]
    from Cons.IH [OF w(1)] w(2) s1(2) 3 show ?thesis
      by (simp add: step Let_def token_def [symmetric] body_def [symmetric])
  qed
qed simp

lemma shell_capabilities_ok:
  "scan_ok fs po (commands False (shell_stages command)) (shell_capabilities fs po command)"
proof -
  define start where "start = \<lparr>sc_capabilities = {SHELL_COMPLEX, FILESYSTEM_READ} \<union>
      (if writes_via_redirection command then {FILESYSTEM_READ, WORKSPACE_WRITE} else {}),
    sc_danger = [], sc_outside = [], sc_refusal = [], sc_stdin = False, sc_redirect = False, sc_reads = False\<rparr>"
  have "scan_ok fs po [] start" by (simp add: scan_ok_def start_def)
  from scan_stage_ok [OF this, of "shell_stages command"]
  have "scan_ok fs po (commands False (shell_stages command)) (fold (scan_stage fs po) (shell_stages command) start)"
    by (simp add: start_def)
  then show ?thesis unfolding shell_capabilities_def start_def [symmetric] Let_def
    by (auto simp: scan_ok_def list_all_iff)
qed

section \<open>What an assessment promises\<close>

text \<open>
  C25: a shell line is let through only if every command the analysis finds in it is allowed: it
  is no refused program and no in-place edit, what it needs is among the capabilities that will
  be asked for, and its absolute operands outside the workspace were vetted.
\<close>

theorem every_stage_is_vetted:
  assumes "cm_classification (classify fs po given) = SHELL_SYNTAX" "shell_syntax (strip_heredoc_bodies given)"
    "argv \<in> set (commands False (shell_stages (strip_heredoc_bodies given)))"
  shows "vetted po argv \<and> needed_by argv \<subseteq> cm_required (classify fs po given) \<and>
    list_all (outside_ok fs po) (path_operands argv)"
proof -
  let ?c = "strip_heredoc_bodies given"
  have "sc_danger (shell_capabilities fs po ?c) = []" "sc_refusal (shell_capabilities fs po ?c) = []"
    "cm_required (classify fs po given) = sc_capabilities (shell_capabilities fs po ?c)"
    using assms(1,2) by (auto simp: classify_def assess_def Let_def split: if_splits)
  with shell_capabilities_ok [of fs po ?c] assms(3) show ?thesis by (auto simp: scan_ok_def list_all_iff)
qed

lemma classify_argv_reads: "cm_host_reads (classify_argv po command argv) = []"
  by (simp add: classify_argv_def assess_def Let_def)

lemma classify_reads: "list_all (exposable fs po) (cm_host_reads (classify fs po given))"
proof -
  have "list_all (exposable fs po) (sc_outside (shell_capabilities fs po (strip_heredoc_bodies given)))"
    using shell_capabilities_ok [of fs po "strip_heredoc_bodies given"] by (simp add: scan_ok_def)
  moreover have "list_all (exposable fs po) (cm_host_reads (classify_simple fs po command))" for command
  proof (cases "lex [] [] Blank [] False command")
    case (Inr argv)
    obtain reads refusal where r: "outside_reads fs po (path_operands argv) [] = (reads, refusal)"
      by (cases "outside_reads fs po (path_operands argv) []")
    have "list_all (exposable fs po) reads" using outside_reads_ok [OF r] by simp
    with Inr r show ?thesis
      by (simp add: classify_simple_def assess_def with_host_reads_def classify_argv_reads split: option.split)
  qed (simp add: classify_simple_def assess_def)
  ultimately show ?thesis by (simp add: classify_def assess_def Let_def)
qed

lemma assess_command_reads: "list_all (exposable fs po) (cm_host_reads (assess_command fs po cmd exec_cmd))"
  using classify_reads [of fs po cmd] shell_capabilities_ok [of fs po "strip_heredoc_bodies cmd"]
  by (simp add: assess_command_def classify_script_def assess_def Let_def scan_ok_def)

section \<open>What runs\<close>

text \<open>
  A command of which the policy may say that it only looks: one of these programs by its bare name,
  without the options by which it writes, or git with one of these subcommands.
\<close>

definition viewer :: "string list \<Rightarrow> bool" where
  "viewer argv \<longleftrightarrow> argv \<noteq> [] \<and> CHR ''/'' \<notin> set (hd argv) \<and>
     (let program = path_name (hd argv) in
      program \<in> {''cat'', ''ls'', ''rg'', ''grep'', ''egrep'', ''fgrep'', ''find'', ''head'', ''tail'', ''wc'', ''stat'', ''file'', ''pwd'',
        ''tree'', ''du'', ''df'', ''which'', ''type'', ''readlink'', ''basename'', ''dirname'', ''md5sum'', ''sha256sum'', ''diff'',
        ''sort'', ''uniq'', ''cut'', ''sed''} \<and>
      (program = ''find'' \<longrightarrow> set argv \<inter> {''-exec'', ''-execdir'', ''-delete'', ''-fprint'', ''-fprintf''} = {}) \<and>
      (program = ''sed'' \<longrightarrow> \<not> sed_in_place (tl argv)) \<or>
      program = ''git'' \<and> tl argv \<noteq> [] \<and> argv ! 1 \<in> {''status'', ''log'', ''diff'', ''show'', ''branch'', ''ls-files'', ''blame'',
        ''describe'', ''rev-parse'', ''reflog''})"

lemmas program_lists = READ_ONLY_BINS_def GIT_READ_ONLY_def GIT_NETWORK_ONLY_def GIT_NETWORK_WRITE_def WORKSPACE_MUTATING_BINS_def
  NETWORK_BINS_def SSH_BINS_def CONTAINER_BINS_def GPU_BINS_def PYTHON_BINS_def

lemma viewers_apart:
  "set READ_ONLY_BINS \<inter> set ([''wget'', ''curl'', ''scp'', ''git''] @ NETWORK_BINS @ SSH_BINS @ CONTAINER_BINS @ GPU_BINS @
     WORKSPACE_MUTATING_BINS) = {}"
  "''git'' \<notin> set (NETWORK_BINS @ SSH_BINS @ CONTAINER_BINS @ GPU_BINS @ WORKSPACE_MUTATING_BINS)"
  "set GIT_READ_ONLY \<inter> set (GIT_NETWORK_WRITE @ GIT_NETWORK_ONLY) = {}" "set GIT_NETWORK_ONLY \<inter> set GIT_NETWORK_WRITE = {}"
  by code_simp+

lemma if_meets: "(P \<Longrightarrow> A \<inter> S \<noteq> {}) \<Longrightarrow> (\<not> P \<Longrightarrow> B \<inter> S \<noteq> {}) \<Longrightarrow> (if P then A else B) \<inter> S \<noteq> {}"
  by simp

lemma sensitive_needs:
  assumes "argv \<noteq> []" "\<not> is_module_test_run argv"
    and "path_name (hd argv) \<in> set (NETWORK_BINS @ SSH_BINS @ CONTAINER_BINS @ GPU_BINS)"
  shows "simple_capabilities argv b \<inter> SENSITIVE_CAPABILITIES \<noteq> {}"
proof -
  have "scp_capabilities args \<inter> SENSITIVE_CAPABILITIES \<noteq> {}" for args
    by (simp add: scp_capabilities_def SENSITIVE_CAPABILITIES_def Let_def)
  moreover have "{NETWORK, WORKSPACE_WRITE} \<inter> SENSITIVE_CAPABILITIES \<noteq> {}" "{NETWORK} \<inter> SENSITIVE_CAPABILITIES \<noteq> {}"
    "{SSH, NETWORK, REMOTE_WRITE} \<inter> SENSITIVE_CAPABILITIES \<noteq> {}" "{CONTAINER_RUNTIME} \<inter> SENSITIVE_CAPABILITIES \<noteq> {}"
    "{GPU} \<inter> SENSITIVE_CAPABILITIES \<noteq> {}" "({NETWORK} \<union> A \<union> B) \<inter> SENSITIVE_CAPABILITIES \<noteq> {}" for A B
    by (simp_all add: SENSITIVE_CAPABILITIES_def)
  moreover have "path_name (hd argv) \<in> set NETWORK_BINS \<or> path_name (hd argv) \<in> set SSH_BINS \<or> path_name (hd argv) \<in> set CONTAINER_BINS
      \<or> path_name (hd argv) \<in> set GPU_BINS" using assms(3) by (simp only: set_append Un_iff)
  ultimately show ?thesis
    unfolding simple_capabilities_def Let_def if_not_P [OF assms(1)] if_not_P [OF assms(2)]
    by (intro if_meets) (assumption | blast)+
qed

lemma git_needs:
  assumes "argv \<noteq> []" "\<not> is_module_test_run argv" "path_name (hd argv) = ''git''" "tl argv \<noteq> []"
  shows "argv ! 1 \<in> set GIT_READ_ONLY \<Longrightarrow> simple_capabilities argv b = {FILESYSTEM_READ}"
    "argv ! 1 \<in> set GIT_NETWORK_ONLY \<Longrightarrow> simple_capabilities argv b \<inter> SENSITIVE_CAPABILITIES \<noteq> {}"
proof -
  have "hd (tl argv) = argv ! 1" using assms(1,4) by (cases argv; cases "tl argv") auto
  with assms viewers_apart(2-4) show "argv ! 1 \<in> set GIT_READ_ONLY \<Longrightarrow> simple_capabilities argv b = {FILESYSTEM_READ}"
    "argv ! 1 \<in> set GIT_NETWORK_ONLY \<Longrightarrow> simple_capabilities argv b \<inter> SENSITIVE_CAPABILITIES \<noteq> {}"
    by (auto simp: simple_capabilities_def Let_def SENSITIVE_CAPABILITIES_def)
qed

lemma viewer_needs:
  assumes "argv \<noteq> []" "\<not> is_module_test_run argv" "path_name (hd argv) \<in> set READ_ONLY_BINS"
  shows "simple_capabilities argv False = {FILESYSTEM_READ}"
proof -
  let ?b = "path_name (hd argv)"
  have "?b \<notin> set ([''wget'', ''curl'', ''scp'', ''git''] @ NETWORK_BINS @ SSH_BINS @ CONTAINER_BINS @ GPU_BINS @ WORKSPACE_MUTATING_BINS)"
    using viewers_apart(1) assms(3) by blast
  then have "?b \<notin> {''wget'', ''curl'', ''scp'', ''git''}" "?b \<notin> set NETWORK_BINS" "?b \<notin> set SSH_BINS" "?b \<notin> set CONTAINER_BINS"
    "?b \<notin> set GPU_BINS" "?b \<notin> set WORKSPACE_MUTATING_BINS" by auto
  with assms show ?thesis by (simp add: simple_capabilities_def Let_def)
qed

lemma assess_fields [simp]:
  "cm_classification (assess c a k r n h) = k" "cm_required (assess c a k r n h) = n" "cm_argv (assess c a k r n h) = a"
  "cm_command (assess c a k r n h) = c" "cm_host_reads (assess c a k r n h) = h"
  by (simp_all add: assess_def)

lemma classify_argv_kind:
  "cm_classification (classify_argv po command argv) =
     (let binary = path_name (hd argv) in
      if is_module_test_run argv then WORKSPACE_MUTATING
      else if unapproved po argv then DANGEROUS
      else if CHR ''/'' \<in> set (hd argv) then WORKSPACE_MUTATING
      else if binary = ''git'' then
        if tl argv \<noteq> [] \<and> argv ! 1 \<in> set (GIT_READ_ONLY @ GIT_NETWORK_ONLY) then READ_ONLY
        else if tl argv \<noteq> [] \<and> argv ! 1 \<in> set GIT_NETWORK_WRITE then WORKSPACE_MUTATING else DANGEROUS
      else if binary \<in> set (NETWORK_BINS @ SSH_BINS @ CONTAINER_BINS @ GPU_BINS) then sensitive_classification argv
      else if binary \<in> set READ_ONLY_BINS then
        if binary = ''find'' \<and> list_ex (\<lambda>option. option \<in> set argv) [''-exec'', ''-execdir'', ''-delete'', ''-fprint'', ''-fprintf'']
        then DANGEROUS else if binary = ''sed'' \<and> sed_in_place (tl argv) then DANGEROUS else READ_ONLY
      else if binary \<in> set WORKSPACE_MUTATING_BINS then WORKSPACE_MUTATING else DANGEROUS)"
  by (simp only: classify_argv_def Let_def if_distrib [of cm_classification] assess_fields if_cancel)

lemma if_either: "P x \<Longrightarrow> P y \<Longrightarrow> P (if c then x else y)"
  by simp

lemma classify_argv_fields:
  "cm_argv (classify_argv po command argv) = argv \<and> cm_command (classify_argv po command argv) = command \<and>
   (cm_classification (classify_argv po command argv) = READ_ONLY \<longrightarrow>
    cm_required (classify_argv po command argv) = simple_capabilities argv False)"
  unfolding classify_argv_def Let_def
  by (intro if_either [where P = "\<lambda>a. cm_argv a = argv \<and> cm_command a = command \<and>
        (cm_classification a = READ_ONLY \<longrightarrow> cm_required a = simple_capabilities argv False)"])
    (simp_all only: assess_fields refl simp_thms command_classification.distinct)

lemma read_only_branch:
  "(if a then WORKSPACE_MUTATING else if b then DANGEROUS else if c then WORKSPACE_MUTATING
    else if g then if r then READ_ONLY else if w then WORKSPACE_MUTATING else DANGEROUS
    else if n then k
    else if v then if f then DANGEROUS else if s then DANGEROUS else READ_ONLY
    else if u then WORKSPACE_MUTATING else DANGEROUS) = READ_ONLY \<Longrightarrow>
   \<not> a \<and> \<not> c \<and> (g \<and> r \<or> n \<or> v \<and> \<not> f \<and> \<not> s)"
  by (simp split: if_splits)

lemma classify_argv_looks:
  assumes "cm_classification (classify_argv po command argv) = READ_ONLY" "argv \<noteq> []"
    and "cm_required (classify_argv po command argv) \<inter> SENSITIVE_CAPABILITIES = {}"
  shows "viewer argv \<and> cm_required (classify_argv po command argv) = {FILESYSTEM_READ}"
proof -
  let ?b = "path_name (hd argv)" and ?a = "classify_argv po command argv"
  have needs: "cm_required ?a = simple_capabilities argv False" using classify_argv_fields assms(1) by blast
  note kind = read_only_branch [OF assms(1) [unfolded classify_argv_kind Let_def]]
  have m: "\<not> is_module_test_run argv" and slash: "CHR ''/'' \<notin> set (hd argv)" using kind by blast+
  have "?b = ''git'' \<and> tl argv \<noteq> [] \<and> argv ! 1 \<in> set (GIT_READ_ONLY @ GIT_NETWORK_ONLY) \<or>
      ?b \<in> set (NETWORK_BINS @ SSH_BINS @ CONTAINER_BINS @ GPU_BINS) \<or>
      ?b \<in> set READ_ONLY_BINS \<and> \<not> (?b = ''find'' \<and> list_ex (\<lambda>option. option \<in> set argv) [''-exec'', ''-execdir'', ''-delete'', ''-fprint'', ''-fprintf'']) \<and>
        \<not> (?b = ''sed'' \<and> sed_in_place (tl argv))"
    using kind by blast
  then show ?thesis
  proof (elim disjE conjE)
    assume git: "?b = ''git''" "tl argv \<noteq> []" "argv ! 1 \<in> set (GIT_READ_ONLY @ GIT_NETWORK_ONLY)"
    have read: "argv ! 1 \<in> set GIT_READ_ONLY"
      using git(3) assms(3) git_needs(2) [OF assms(2) m git(1,2), of False] unfolding needs by auto
    have "argv ! 1 \<in> {''status'', ''log'', ''diff'', ''show'', ''branch'', ''ls-files'', ''blame'', ''describe'', ''rev-parse'', ''reflog''}"
      using read unfolding GIT_READ_ONLY_def by (simp only: list.set)
    then have "viewer argv" unfolding viewer_def Let_def using git(1,2) assms(2) slash by blast
    with git_needs(1) [OF assms(2) m git(1,2) read] needs show ?thesis by simp
  next
    assume "?b \<in> set (NETWORK_BINS @ SSH_BINS @ CONTAINER_BINS @ GPU_BINS)"
    with sensitive_needs [OF assms(2) m] assms(3) needs show ?thesis by simp
  next
    assume b: "?b \<in> set READ_ONLY_BINS" "\<not> (?b = ''find'' \<and> list_ex (\<lambda>option. option \<in> set argv) [''-exec'', ''-execdir'', ''-delete'', ''-fprint'', ''-fprintf''])"
      "\<not> (?b = ''sed'' \<and> sed_in_place (tl argv))"
    have listed: "?b \<in> {''cat'', ''ls'', ''rg'', ''grep'', ''egrep'', ''fgrep'', ''find'', ''head'', ''tail'', ''wc'', ''stat'', ''file'', ''pwd'',
        ''tree'', ''du'', ''df'', ''which'', ''type'', ''readlink'', ''basename'', ''dirname'', ''md5sum'', ''sha256sum'', ''diff'',
        ''sort'', ''uniq'', ''cut'', ''sed''}" using b(1) unfolding READ_ONLY_BINS_def by (simp only: list.set)
    have "?b = ''find'' \<longrightarrow> set argv \<inter> {''-exec'', ''-execdir'', ''-delete'', ''-fprint'', ''-fprintf''} = {}"
      using b(2) by auto
    then have "viewer argv" unfolding viewer_def Let_def using listed b(3) assms(2) slash by blast
    with viewer_needs [OF assms(2) m b(1)] needs show ?thesis by simp
  qed
qed

text \<open>What the operator is shown, and what runs without being asked for.\<close>

lemma with_host_reads_fields [simp]:
  "cm_argv (with_host_reads a rs) = cm_argv a" "cm_command (with_host_reads a rs) = cm_command a"
  "cm_classification (with_host_reads a rs) = cm_classification a" "cm_required a \<subseteq> cm_required (with_host_reads a rs)"
  "HOST_READ \<notin> cm_required (with_host_reads a rs) \<Longrightarrow> cm_required (with_host_reads a rs) = cm_required a"
  by (auto simp: with_host_reads_def)

lemma classify_looks:
  assumes "cm_classification (classify fs po given) = READ_ONLY" "cm_required (classify fs po given) \<inter> SENSITIVE_CAPABILITIES = {}"
  shows "viewer (cm_argv (classify fs po given)) \<and> cm_required (classify fs po given) = {FILESYSTEM_READ}"
proof -
  let ?c = "strip_heredoc_bodies given"
  from assms(1) have "classify fs po given = classify_simple fs po ?c"
    unfolding classify_def Let_def by (auto split: if_splits)
  moreover from this assms(1) obtain argv reads where "argv \<noteq> []" "classify_simple fs po ?c = with_host_reads (classify_argv po ?c argv) reads"
    unfolding classify_simple_def by (auto split: if_splits sum.splits option.splits prod.splits)
  ultimately have a: "classify fs po given = with_host_reads (classify_argv po ?c argv) reads" and argv: "argv \<noteq> []" by simp_all
  have "HOST_READ \<in> SENSITIVE_CAPABILITIES" by (simp add: SENSITIVE_CAPABILITIES_def)
  with assms(2) have "HOST_READ \<notin> cm_required (with_host_reads (classify_argv po ?c argv) reads)" unfolding a by blast
  from with_host_reads_fields(5) [OF this] have same: "cm_required (classify fs po given) = cm_required (classify_argv po ?c argv)"
    by (simp add: a)
  show ?thesis
    using classify_argv_looks [of po ?c argv, OF _ argv] assms classify_argv_fields [of po ?c argv] unfolding same by (simp add: a)
qed

lemma assess_command_looks:
  assumes "cm_classification (assess_command fs po cmd exec_cmd) = READ_ONLY"
    "cm_required (assess_command fs po cmd exec_cmd) \<inter> SENSITIVE_CAPABILITIES = {}"
  shows "viewer (cm_argv (assess_command fs po cmd exec_cmd)) \<and> cm_required (assess_command fs po cmd exec_cmd) = {FILESYSTEM_READ}"
proof -
  have "assess_command fs po cmd exec_cmd = classify fs po cmd"
    using assms(1) unfolding assess_command_def classify_script_def Let_def by (auto split: if_splits)
  with assms classify_looks show ?thesis by simp
qed

lemma classify_command: "cm_command (classify fs po given) \<in> {given, strip_heredoc_bodies given}"
  unfolding classify_def classify_simple_def Let_def
  using classify_argv_fields by (auto split: sum.split option.split prod.split)

lemma assess_command_shown: "cm_command (assess_command fs po cmd exec_cmd) \<in> {cmd, strip_heredoc_bodies cmd}"
  using classify_command [of fs po cmd] unfolding assess_command_def classify_script_def Let_def by auto

lemma authorize_allowed:
  assumes "au_result (authorize po a mode approve) = None"
  shows "au_granted (authorize po a mode approve) = cm_required a" "cm_classification a \<noteq> DANGEROUS"
    "cm_required a \<subseteq> for_mode (po_capabilities po) mode" "mode = SAFE \<Longrightarrow> cm_classification a \<noteq> WORKSPACE_MUTATING"
    "mode = ASK \<Longrightarrow> cm_classification a \<noteq> READ_ONLY \<or> cm_required a \<inter> SENSITIVE_CAPABILITIES \<noteq> {} \<Longrightarrow>
       \<exists>ask. approve = Some ask \<and> ask (''Run: '' @ cm_command a @ '' ?'')"
  using assms by (auto simp: authorize_def denied_def grant_def Let_def split: if_splits option.splits)

text \<open>
  C7: a command reaches the sandbox only with capabilities its mode grants, and never a refused one;
  under the standard policy safe mode gives it neither a writable tree nor the network.  In ask mode
  the operator agreed to the command as it is shown, without the bodies of its here-documents, or
  it is one of the listed viewers that asks for nothing but to read the workspace, and then neither
  the tree is writable nor the network there.  The trees exposed besides the workspace were vetted,
  and the sandbox can write or use the network exactly if that was granted.
\<close>

theorem what_runs_was_granted:
  assumes "run_cmd_result fs po shell confirm mode cmd exec_cmd = Runs argv profile"
  defines "a \<equiv> assess_command fs po cmd exec_cmd"
  shows "cm_classification a \<noteq> DANGEROUS
    \<and> ep_capabilities profile = cm_required a \<and> cm_required a \<subseteq> for_mode (po_capabilities po) mode
    \<and> (mode = SAFE \<and> po_capabilities po = default_capability_policy \<longrightarrow> \<not> ep_workspace_write profile \<and> \<not> ep_network profile)
    \<and> (mode = ASK \<longrightarrow>
         (\<exists>shown \<in> {cmd, strip_heredoc_bodies cmd}. confirm (''Run: '' @ shown @ '' ?'')) \<or>
         viewer (cm_argv a) \<and> (exec_cmd = None \<longrightarrow> argv = cm_argv a) \<and> cm_required a = {FILESYSTEM_READ} \<and>
           \<not> ep_workspace_write profile \<and> \<not> ep_network profile)
    \<and> list_all (exposable fs po) (ep_host_read_paths profile)
    \<and> (ep_workspace_write profile \<longleftrightarrow> WORKSPACE_WRITE \<in> cm_required a)
    \<and> (ep_network profile \<longleftrightarrow> NETWORK \<in> cm_required a)"
proof -
  let ?g = "authorize po a mode (Some confirm)"
  have g: "au_result ?g = None" using assms(1) unfolding a_def run_cmd_result_def Let_def
    by (auto split: option.splits)
  note ok = authorize_allowed [OF g]
  have runs: "from_capabilities (au_granted ?g) (if HOST_READ \<in> au_granted ?g then cm_host_reads a else []) = Inr profile"
    "argv = (case exec_cmd of Some (c # cs) \<Rightarrow> shell_argv shell (c # cs)
       | _ \<Rightarrow> if cm_classification a \<noteq> SHELL_SYNTAX then cm_argv a else shell_argv shell cmd)"
    using assms(1) g unfolding a_def run_cmd_result_def Let_def by (auto split: option.splits sum.splits)
  then have profile: "ep_capabilities profile = cm_required a" "ep_workspace_write profile \<longleftrightarrow> WORKSPACE_WRITE \<in> cm_required a"
    "ep_network profile \<longleftrightarrow> NETWORK \<in> cm_required a"
    "ep_host_read_paths profile = (if HOST_READ \<in> cm_required a then cm_host_reads a else [])"
    by (auto simp: from_capabilities_def ok(1) Let_def split: if_splits)
  have "\<not> ep_workspace_write profile \<and> \<not> ep_network profile" if "mode = SAFE" "po_capabilities po = default_capability_policy"
    using ok(3) profile(2,3) that by (auto simp: default_capability_policy_def)
  moreover have "(\<exists>shown \<in> {cmd, strip_heredoc_bodies cmd}. confirm (''Run: '' @ shown @ '' ?'')) \<or>
      viewer (cm_argv a) \<and> (exec_cmd = None \<longrightarrow> argv = cm_argv a) \<and> cm_required a = {FILESYSTEM_READ} \<and>
        \<not> ep_workspace_write profile \<and> \<not> ep_network profile" if "mode = ASK"
  proof (cases "cm_classification a \<noteq> READ_ONLY \<or> cm_required a \<inter> SENSITIVE_CAPABILITIES \<noteq> {}")
    case True
    with ok(5) that have "confirm (''Run: '' @ cm_command a @ '' ?'')" by auto
    then show ?thesis using assess_command_shown [of fs po cmd exec_cmd] unfolding a_def by blast
  next
    case False
    with assess_command_looks [of fs po cmd exec_cmd] have "viewer (cm_argv a)" "cm_required a = {FILESYSTEM_READ}" by (auto simp: a_def)
    moreover have "exec_cmd = None \<longrightarrow> argv = cm_argv a" using runs(2) False by auto
    ultimately show ?thesis using profile(2,3) by simp
  qed
  moreover have "list_all (exposable fs po) (ep_host_read_paths profile)"
    using assess_command_reads [of fs po cmd exec_cmd] by (simp add: profile(4) a_def)
  ultimately show ?thesis using ok(2,3) profile(1-3) by blast
qed

section \<open>Examples\<close>

definition demo_files :: filesystem where
  "demo_files p = (if p \<in> {[], [''home''], [''home'', ''u''], [''home'', ''u'', ''p''], [''opt''], [''opt'', ''notes'']} then Some Dir else None)"

definition demo_policy :: command_policy where
  "demo_policy = \<lparr>po_capabilities = default_capability_policy, po_mount_roots = [''/home/u/p''], po_workspace = None\<rparr>"

lemma demo_pipeline:
  "classify demo_files demo_policy ''grep -l x /opt/notes/*.md | head'' =
     \<lparr>cm_command = ''grep -l x /opt/notes/*.md | head'', cm_argv = [], cm_classification = SHELL_SYNTAX,
      cm_reason = ''shell syntax'', cm_required = {SHELL_COMPLEX, FILESYSTEM_READ, HOST_READ},
      cm_host_reads = [''/opt/notes'']\<rparr>"
  by code_simp

theorem every_stage_is_vetted_witness:
  "vetted demo_policy [''head''] \<and> needed_by [''grep'', ''-l'', ''x'', ''/opt/notes/*.md''] \<subseteq> {SHELL_COMPLEX, FILESYSTEM_READ, HOST_READ}"
proof -
  let ?c = "''grep -l x /opt/notes/*.md | head''"
  have k: "cm_classification (classify demo_files demo_policy ?c) = SHELL_SYNTAX" by (simp add: demo_pipeline)
  have y: "shell_syntax (strip_heredoc_bodies ?c)" by code_simp
  have m: "[''head''] \<in> set (commands False (shell_stages (strip_heredoc_bodies ?c)))"
    "[''grep'', ''-l'', ''x'', ''/opt/notes/*.md''] \<in> set (commands False (shell_stages (strip_heredoc_bodies ?c)))"
    by code_simp+
  from every_stage_is_vetted [OF k y m(1)] every_stage_is_vetted [OF k y m(2)] show ?thesis by (simp add: demo_pipeline)
qed

definition outcome :: "execution_mode \<Rightarrow> (string \<Rightarrow> bool) \<Rightarrow> string \<Rightarrow> prepared" where
  "outcome mode confirm cmd = run_cmd_result demo_files demo_policy ''/bin/bash'' confirm mode cmd None"

lemma demo_read:
  "outcome SAFE (\<lambda>_. False) ''ls /opt/notes'' =
     Runs [''ls'', ''/opt/notes''] \<lparr>ep_capabilities = {FILESYSTEM_READ, HOST_READ}, ep_workspace_read = True,
       ep_workspace_write = False, ep_shell_complex = False, ep_network = False, ep_gpu = False, ep_ssh = False,
       ep_container_runtime = False, ep_secrets_allowed = False, ep_host_read_paths = [''/opt/notes'']\<rparr>"
  by code_simp

theorem what_runs_was_granted_witness: "exposable demo_files demo_policy ''/opt/notes''"
  using what_runs_was_granted [OF demo_read [unfolded outcome_def]] by simp

section \<open>What the analysis does not see\<close>

fun answered :: "prepared \<Rightarrow> bool" where
  "answered (Answered _) = True"
| "answered _ = False"

fun runs_writing :: "prepared \<Rightarrow> bool" where
  "runs_writing (Runs _ profile) = ep_workspace_write profile"
| "runs_writing _ = False"

text \<open>
  \<open>rm\<close> is refused as a command and as a stage, but not on a line of its own behind another
  command, not in backquotes, and not with an apostrophe in a comment behind it: then it runs with
  the tree writable.
\<close>

theorem refused_commands_can_hide:
  "answered (outcome AUTO (\<lambda>_. False) ''rm -rf src'') \<and> answered (outcome AUTO (\<lambda>_. False) ''make; rm -rf src'') \<and>
   runs_writing (outcome AUTO (\<lambda>_. False) (''make'' @ [CHR 0x0A] @ ''rm -rf src'')) \<and>
   runs_writing (outcome AUTO (\<lambda>_. False) ''make `rm -rf src`'') \<and>
   runs_writing (outcome AUTO (\<lambda>_. False) (''make; rm -rf src # it'' @ [CHR 0x27] @ ''s''))"
  by (intro conjI; code_simp)

text \<open>
  A download is granted in auto mode, but what it is granted does not make an execution
  profile: preparing the sandbox raises instead of running the command or refusing it.
\<close>

theorem granted_download_raises:
  "outcome AUTO (\<lambda>_. False) ''wget http://host/file'' = Raises (ResourceValueError ''workspace:write requires filesystem:read'')"
  by code_simp

text \<open>
  In ask mode the operator is shown the command without the bodies of its here-documents, and
  what runs is the command with them.
\<close>

lemma operator_sees_no_body:
  fixes nl :: string
  defines "nl \<equiv> [CHR 0x0A]"
  shows "runs_writing (outcome ASK (\<lambda>q. q = ''Run: cat > run.sh <<EOF'' @ nl @ ''EOF ?'')
    (''cat > run.sh <<EOF'' @ nl @ ''rm -rf src'' @ nl @ ''EOF''))"
  unfolding nl_def by code_simp

end
