(* ===== verification/Planning.thy ===== *)
theory Planning
  imports Working_State_Laws Budgets Text_Patterns
begin

text \<open>
  The plan of a task (\<open>client/runtime/planning.py\<close>): when a task is planned, how a plan that the
  model proposes is validated and recorded in the working state, and how its steps are started
  and closed.  An event is recorded through \<open>AgentContext.apply_state_event\<close>; \<open>stamp\<close> stands for
  the identifier, the time and the clock the event gets.  Traces and the session log are left out.
\<close>

section \<open>Recording an event\<close>

definition apply_state_event :: "(working_state \<Rightarrow> string \<times> string \<times> int) \<Rightarrow> state_event_type \<Rightarrow> state_source \<Rightarrow>
    json_object \<Rightarrow> working_state \<Rightarrow> ws_error option \<times> working_state" where
  "apply_state_event stamp ty src data s =
     (let (event_id, timestamp, ns) = stamp s in
      case state_event_new ty (ws_task_id s) src data event_id timestamp ns of
        Inl e \<Rightarrow> (Some e, s)
      | Inr ev \<Rightarrow> apply_event ev s)"

section \<open>When to plan\<close>

record planning_decision =
  pd_should_plan :: bool
  pd_reason :: string

text \<open>The patterns ignore case: they are matched against the text in lower case.\<close>

definition COMPLEX_rx :: rx where
  "COMPLEX_rx = (let any = Star (Cls (\<lambda>_. True)) in
     seqs [Wordb, alts [lit ''architecture'', lit ''architectural'', lit ''migration'', lit ''migrate'',
       lit ''refactor'', lit ''rework'', seqs [lit ''multi'', opt (one_of '' -''), lit ''file''],
       seqs [lit ''across '', any, lit ''files''], seqs [lit ''build'', any, lit ''test''],
       seqs [lit ''test'', any, lit ''fix''], lit ''dependencies'', lit ''multiple steps'',
       seqs [lit ''implement '', any, lit '' and '', any, lit ''test'']], Wordb])"

fun up_to :: "nat \<Rightarrow> rx \<Rightarrow> rx" where
  "up_to 0 r = Eps"
| "up_to (Suc n) r = opt (Seq r (up_to n r))"

definition KNOWN_FILE_rx :: rx where
  "KNOWN_FILE_rx =
     (let alnum = Cls (\<lambda>c. ascii_letter c \<or> ascii_digit c) in
      seqs [Alt Bol space, plus (Cls (\<lambda>c. rx_word c \<or> c \<in> set ''./-'')), lit ''.'', alnum, up_to 7 alnum,
        Ahead (alts [space, Eol, one_of '':,''])])"

definition decide_planning :: "string \<Rightarrow> string list \<Rightarrow> bool \<Rightarrow> string list \<Rightarrow> planning_decision" where
  "decide_planning objective criteria exploration_required known_files =
     (let decided = (\<lambda>b r. \<lparr>pd_should_plan = b, pd_reason = r\<rparr>) in
      if exploration_required then decided True ''exploration-dependent task''
      else if 2 \<le> length criteria then decided True ''multiple acceptance criteria''
      else if search COMPLEX_rx (lower objective) then decided True ''ordered multi-step task''
      else if known_files \<noteq> [] \<or> search KNOWN_FILE_rx objective then decided False ''simple known-location task''
      else decided False ''no deterministic planning trigger'')"

section \<open>Validating and recording a plan\<close>

record plan_step_definition =
  sd_step_id :: string
  sd_objective :: string
  sd_dependencies :: "string list"
  sd_completion_criteria :: "string list"
  sd_requires_evidence :: bool

fun validate_plan :: "string set \<Rightarrow> string set \<Rightarrow> plan_step_definition list \<Rightarrow> ws_error option" where
  "validate_plan existing known [] = None"
| "validate_plan existing known (d # ds) =
     (if strip (sd_step_id d) = [] \<or> strip (sd_objective d) = [] \<or> sd_step_id d \<in> known \<or> sd_step_id d \<in> existing
      then Some (ValueError ''plan step identifiers must be unique'')
      else if \<not> set (sd_dependencies d) \<subseteq> known
      then Some (ValueError ''plan dependencies must refer to earlier steps'')
      else if list_ex (\<lambda>c. strip c = []) (sd_completion_criteria d)
      then Some (ValueError ''plan completion criteria cannot be empty'')
      else validate_plan existing (insert (sd_step_id d) known) ds)"

definition step_data :: "plan_step_definition \<Rightarrow> json_object" where
  "step_data d =
     [(''step_id'', JStr (sd_step_id d)), (''description'', JStr (sd_objective d)),
      (''dependencies'', JList (map JStr (sd_dependencies d))),
      (''completion_criteria'', JList (map JStr (sd_completion_criteria d))),
      (''requires_evidence'', JBool (sd_requires_evidence d))]"

fun record_steps :: "(working_state \<Rightarrow> string \<times> string \<times> int) \<Rightarrow> plan_step_definition list \<Rightarrow> working_state \<Rightarrow>
    ws_error option \<times> working_state" where
  "record_steps stamp [] s = (None, s)"
| "record_steps stamp (d # ds) s =
     (case apply_state_event stamp PLAN_STEP_ADDED HARNESS (step_data d) s of
        (Some e, s') \<Rightarrow> (Some e, s')
      | (None, s') \<Rightarrow> record_steps stamp ds s')"

definition apply_plan :: "(working_state \<Rightarrow> string \<times> string \<times> int) \<Rightarrow> plan_step_definition list \<Rightarrow> working_state \<Rightarrow>
    ws_error option \<times> working_state" where
  "apply_plan stamp steps s =
     (case validate_plan (fst ` set (ws_plan_steps s)) {} steps of
        Some e \<Rightarrow> (Some e, s)
      | None \<Rightarrow> record_steps stamp steps s)"

section \<open>Steps\<close>

definition start_step :: "(working_state \<Rightarrow> string \<times> string \<times> int) \<Rightarrow> string \<Rightarrow> working_state \<Rightarrow> ws_error option \<times> working_state" where
  "start_step stamp step_id = apply_state_event stamp PLAN_STEP_UPDATED HARNESS
     [(''step_id'', JStr step_id), (''status'', JStr (plan_status_value PS_ACTIVE))]"

definition complete_step :: "(working_state \<Rightarrow> string \<times> string \<times> int) \<Rightarrow> string \<Rightarrow> string list \<Rightarrow> working_state \<Rightarrow>
    ws_error option \<times> working_state" where
  "complete_step stamp step_id evidence = apply_state_event stamp PLAN_STEP_UPDATED HARNESS
     [(''step_id'', JStr step_id), (''status'', JStr (plan_status_value PS_COMPLETED)),
      (''evidence_action_ids'', JList (map JStr evidence))]"

definition revise_step :: "(working_state \<Rightarrow> string \<times> string \<times> int) \<Rightarrow> string \<Rightarrow> string \<Rightarrow> string \<Rightarrow> plan_step_status \<Rightarrow>
    working_state \<Rightarrow> ws_error option \<times> working_state" where
  "revise_step stamp step_id objective reason status = apply_state_event stamp PLAN_STEP_REVISED HARNESS
     [(''step_id'', JStr step_id), (''description'', JStr objective), (''reason'', JStr reason),
      (''status'', JStr (plan_status_value status))]"

definition ready :: "working_state \<Rightarrow> plan_step \<Rightarrow> bool" where
  "ready s p \<longleftrightarrow> ps_status p = PS_PENDING \<and> \<not> list_ex (step_open s) (ps_dependencies p)"

text \<open>The identifier of the step that was started.\<close>

definition start_next :: "(working_state \<Rightarrow> string \<times> string \<times> int) \<Rightarrow> working_state \<Rightarrow>
    (ws_error + string option) \<times> working_state" where
  "start_next stamp s =
     (case find (ready s) (dict_values (ws_plan_steps s)) of
        None \<Rightarrow> (Inr None, s)
      | Some p \<Rightarrow>
          (case start_step stamp (ps_step_id p) s of
             (Some e, s') \<Rightarrow> (Inl e, s')
           | (None, s') \<Rightarrow> (Inr (Some (ps_step_id p)), s')))"

datatype evidence_kind = EXPLORATION | MUTATION | VERIFICATION | REVIEW

fun evidence_rx :: "evidence_kind \<Rightarrow> rx" where
  "evidence_rx EXPLORATION = alts [lit ''locat'', lit ''explor'', lit ''inspect'', lit ''discover'',
     Seq (lit ''analy'') (one_of ''sz''), lit ''understand'']"
| "evidence_rx MUTATION = alts (map lit [''implement'', ''edit'', ''modify'', ''change'', ''fix'', ''refactor'', ''migrat'', ''write''])"
| "evidence_rx VERIFICATION = alts (map lit [''test'', ''verify'', ''build'', ''lint'', ''check''])"
| "evidence_rx REVIEW = alts (map lit [''review'', ''accept'', ''final''])"

text \<open>Whether the active step was closed.\<close>

definition advance :: "(working_state \<Rightarrow> string \<times> string \<times> int) \<Rightarrow> evidence_kind \<Rightarrow> string list \<Rightarrow> working_state \<Rightarrow>
    (ws_error + bool) \<times> working_state" where
  "advance stamp kind evidence s =
     (case current_step s of
        None \<Rightarrow> (Inr False, s)
      | Some step \<Rightarrow>
          if \<not> search (evidence_rx kind) (lower (ps_description step)) then (Inr False, s)
          else case complete_step stamp (ps_step_id step) evidence s of
            (Some e, s') \<Rightarrow> (Inl e, s')
          | (None, s') \<Rightarrow> (case start_next stamp s' of (Inl e, s'') \<Rightarrow> (Inl e, s'') | (Inr _, s'') \<Rightarrow> (Inr True, s'')))"

section \<open>A plan made by the model\<close>

text \<open>
  The answer of the planning call: an exception, or a turn with what \<open>json.loads\<close> makes of its
  text, the length of the text and the reported usage.
\<close>

record model_turn =
  mt_json :: "json option"
  mt_chars :: int
  mt_failed :: bool
  mt_error :: "string option"
  mt_usage :: json_object

datatype model_answer = Raised string | Turn model_turn

record plan_result =
  cr_created :: bool
  cr_steps :: "plan_step_definition list"
  cr_error :: "string option"

fun token_usage :: "json_object \<Rightarrow> string list \<Rightarrow> int option" where
  "token_usage u [] = None"
| "token_usage u (n # ns) = (case get u n of JInt v \<Rightarrow> Some v | _ \<Rightarrow> token_usage u ns)"

definition texts :: "(json \<Rightarrow> string) \<Rightarrow> json \<Rightarrow> string list option" where
  "texts text v = map_option (map (py_str text)) (py_iter v)"

definition parse_step :: "(json \<Rightarrow> string) \<Rightarrow> json \<Rightarrow> plan_step_definition option" where
  "parse_step text row =
     (case row of
        JObj d \<Rightarrow>
          (case (map_of d ''step_id'', map_of d ''objective'', texts text (get_default d ''dependencies'' (JList [])),
                 texts text (get_default d ''completion_criteria'' (JList []))) of
             (Some i, Some ob, Some ds, Some cs) \<Rightarrow>
               Some \<lparr>sd_step_id = py_str text i, sd_objective = py_str text ob, sd_dependencies = ds,
                 sd_completion_criteria = cs, sd_requires_evidence = py_bool (get_default d ''requires_evidence'' (JBool True))\<rparr>
           | _ \<Rightarrow> None)
      | _ \<Rightarrow> None)"

definition parse_plan :: "(json \<Rightarrow> string) \<Rightarrow> nat \<Rightarrow> json option \<Rightarrow> plan_step_definition list option" where
  "parse_plan text maximum_steps raw =
     (case raw of
        Some (JObj d) \<Rightarrow>
          (case map_of d ''steps'' of
             Some (JList rows) \<Rightarrow>
               if 1 < length rows \<and> length rows \<le> maximum_steps then those (map (parse_step text) rows) else None
           | _ \<Rightarrow> None)
      | _ \<Rightarrow> None)"

definition not_created :: "string \<Rightarrow> plan_result" where
  "not_created e = \<lparr>cr_created = False, cr_steps = [], cr_error = Some e\<rparr>"

text \<open>Two charges, the second only if the first was accepted; no manager, no charge.\<close>

definition charge_twice :: "(nat \<Rightarrow> int) \<Rightarrow> (nat \<Rightarrow> int) \<Rightarrow> budget_kind \<times> int \<times> bool \<Rightarrow> budget_kind \<times> int \<times> bool \<Rightarrow>
    ledger list option \<Rightarrow> budget_error option \<times> ledger list option" where
  "charge_twice clock1 clock2 first second budget =
     (case budget of
        None \<Rightarrow> (None, None)
      | Some b \<Rightarrow>
          (case first of (k, n, approx) \<Rightarrow>
             case consume clock1 k n approx b of
               (Some e, b') \<Rightarrow> (Some e, Some b')
             | (None, b') \<Rightarrow> (case second of (k', n', approx') \<Rightarrow>
                 case consume clock2 k' n' approx' b' of (r, b'') \<Rightarrow> (r, Some b''))))"

definition or_estimate :: "int option \<Rightarrow> int \<Rightarrow> int" where
  "or_estimate tokens chars = (case tokens of Some n \<Rightarrow> if n = 0 then chars div 4 + 1 else n | None \<Rightarrow> chars div 4 + 1)"

text \<open>
  \<open>shown\<close> is the text of an exception, \<open>prompt_chars\<close> the length of the prompt, \<open>clock i\<close> the clock
  of the \<open>i\<close>th charge.
\<close>

definition create_plan :: "(working_state \<Rightarrow> string \<times> string \<times> int) \<Rightarrow> (nat \<Rightarrow> nat \<Rightarrow> int) \<Rightarrow> (json \<Rightarrow> string) \<Rightarrow>
    (budget_error \<Rightarrow> string) \<Rightarrow> (ws_error \<Rightarrow> string) \<Rightarrow> int \<Rightarrow> model_answer \<Rightarrow> nat \<Rightarrow>
    ledger list option \<Rightarrow> working_state \<Rightarrow> plan_result \<times> ledger list option \<times> working_state" where
  "create_plan stamp clock text shown shown_ws prompt_chars answer maximum_steps budget s =
     (if ws_plan_steps s \<noteq> [] then (not_created ''plan already exists'', budget, s)
      else case charge_twice (clock 0) (clock 1) (PRIMARY_MODEL_CALLS, 1, False) (MODEL_TURNS, 1, False) budget of
        (Some e, budget1) \<Rightarrow> (not_created (shown e), budget1, s)
      | (None, budget1) \<Rightarrow>
          (case answer of
             Raised name \<Rightarrow> (not_created (''planning model failed: '' @ name), budget1, s)
           | Turn t \<Rightarrow>
               let input = token_usage (mt_usage t) [''input_tokens'', ''prompt_tokens''];
                   output = token_usage (mt_usage t) [''output_tokens'', ''completion_tokens''] in
               case charge_twice (clock 2) (clock 3) (INPUT_TOKENS, or_estimate input prompt_chars, input = None)
                      (OUTPUT_TOKENS, or_estimate output (mt_chars t), output = None) budget1 of
                 (Some e, budget2) \<Rightarrow> (not_created (shown e), budget2, s)
               | (None, budget2) \<Rightarrow>
                   if mt_failed t then (not_created (or_else (mt_error t) ''planning model failed''), budget2, s)
                   else case parse_plan text maximum_steps (mt_json t) of
                     None \<Rightarrow> (not_created ''malformed plan: '', budget2, s)
                   | Some steps \<Rightarrow>
                       (case apply_plan stamp steps s of
                          (Some e, s') \<Rightarrow> (not_created (''malformed plan: '' @ shown_ws e), budget2, s')
                        | (None, s') \<Rightarrow> (\<lparr>cr_created = True, cr_steps = steps, cr_error = None\<rparr>, budget2, s'))))"

end
