(* ===== verification/Planning_Props.thy ===== *)
theory Planning_Props
  imports Planning
begin

text \<open>
  What planning guarantees over the working state: a validated plan is recorded whole, and a plan
  without blocked steps never stops before its last step.
\<close>

section \<open>Stamps\<close>

text \<open>The identifiers of new events are new.\<close>

definition fresh_stamps :: "(working_state \<Rightarrow> string \<times> string \<times> int) \<Rightarrow> bool" where
  "fresh_stamps stamp \<longleftrightarrow> (\<forall>s. ws_inv s \<longrightarrow> fst (stamp s) \<noteq> [] \<and> fst (stamp s) \<notin> ws_applied_event_ids s)"

text \<open>A task that can take the next event.\<close>

definition live :: "working_state \<Rightarrow> bool" where
  "live s \<longleftrightarrow> ws_inv s \<and> ws_task_id s \<noteq> [] \<and> ws_terminal_status s = TS_RUNNING"

text \<open>A live task takes an event if the reducer does.\<close>

lemma apply_state_event_accepted:
  assumes "live s" "fresh_stamps stamp" "json_finite (JObj data)"
    and reduce: "\<forall>ev. ev_type ev = ty \<and> ev_source ev = src \<and> ev_data ev = data \<longrightarrow> reduce ev s = (None, u)"
  shows "\<exists>es ids. apply_state_event stamp ty src data s = (None, u\<lparr>ws_events := es, ws_applied_event_ids := ids\<rparr>)
    \<and> ws_inv (u\<lparr>ws_events := es, ws_applied_event_ids := ids\<rparr>)"
proof -
  obtain i ts ns where st: "stamp s = (i, ts, ns)" by (cases "stamp s")
  with assms have i: "i \<noteq> []" "i \<notin> ws_applied_event_ids s" by (auto simp: fresh_stamps_def live_def)
  define ev where "ev = \<lparr>ev_type = ty, ev_task_id = ws_task_id s, ev_source = src, ev_data = data, ev_id = i,
    ev_timestamp = ts, ev_monotonic_ns = ns\<rparr>"
  let ?es = "ws_events u @ [ev]" and ?ids = "insert (ev_id ev) (ws_applied_event_ids u)"
  have "reduce ev s = (None, u)" using reduce by (simp add: ev_def)
  with assms(1) i have ap: "apply_event ev s = (None, u\<lparr>ws_events := ?es, ws_applied_event_ids := ?ids\<rparr>)"
    by (simp add: apply_event_def live_def ev_def)
  moreover have "apply_state_event stamp ty src data s = apply_event ev s"
    using assms(1,3) i by (simp add: apply_state_event_def st state_event_new_def live_def ev_def)
  moreover have "ws_inv s" using assms(1) by (simp add: live_def)
  ultimately show ?thesis using apply_event_inv by metis
qed

section \<open>A plan is recorded whole\<close>

text \<open>The step a definition becomes.\<close>

definition planned :: "plan_step_definition \<Rightarrow> string \<times> plan_step" where
  "planned d = (sd_step_id d,
     \<lparr>ps_step_id = sd_step_id d, ps_description = strip (sd_objective d), ps_status = PS_PENDING,
      ps_evidence_action_ids = [], ps_dependencies = sd_dependencies d,
      ps_completion_criteria = sd_completion_criteria d, ps_requires_evidence = sd_requires_evidence d\<rparr>)"

lemma fst_planned [simp]: "fst (planned d) = sd_step_id d"
  by (simp add: planned_def)

text \<open>The identifier has no white space around it.\<close>

definition trimmed :: "plan_step_definition \<Rightarrow> bool" where
  "trimmed d \<longleftrightarrow> strip (sd_step_id d) = sd_step_id d"

lemma string_list_nonblank: "list_all nonblank_string (map JStr xs) \<longleftrightarrow> (\<forall>x \<in> set xs. strip x \<noteq> [])"
  by (auto simp: list_all_iff)

lemma json_strings [simp]: "map (json_string \<circ> JStr) xs = xs"
  by (induction xs) auto

lemma step_data_fields:
  assumes "trimmed d" "sd_step_id d \<noteq> []" "strip (sd_objective d) \<noteq> []"
    "\<forall>x \<in> set (sd_dependencies d). strip x \<noteq> []" "\<forall>x \<in> set (sd_completion_criteria d). strip x \<noteq> []"
  shows "required_text (step_data d) ''step_id'' = Inr (sd_step_id d)"
    "required_text (step_data d) ''description'' = Inr (strip (sd_objective d))"
    "string_tuple (step_data d) ''dependencies'' = Inr (sd_dependencies d)"
    "string_tuple (step_data d) ''completion_criteria'' = Inr (sd_completion_criteria d)"
    "bool_field (step_data d) ''requires_evidence'' m = Inr (sd_requires_evidence d)"
    "json_finite (JObj (step_data d))"
  using assms string_list_nonblank [of "sd_dependencies d"] string_list_nonblank [of "sd_completion_criteria d"]
  by (simp_all add: step_data_def required_text_def get_def get_default_def string_tuple_def bool_field_def
      trimmed_def list_all_iff)

lemma record_step:
  assumes live: "live s" and stamp: "fresh_stamps stamp" and d: "trimmed d" "strip (sd_step_id d) \<noteq> []" "strip (sd_objective d) \<noteq> []"
    and new: "sd_step_id d \<notin> fst ` set (ws_plan_steps s)" and deps: "set (sd_dependencies d) \<subseteq> fst ` set (ws_plan_steps s)"
    and crit: "\<forall>x \<in> set (sd_completion_criteria d). strip x \<noteq> []"
  obtains s' where "apply_state_event stamp PLAN_STEP_ADDED HARNESS (step_data d) s = (None, s')" "live s'"
    "ws_plan_steps s' = ws_plan_steps s @ [planned d]"
proof -
  have keys: "strip k \<noteq> []" if "k \<in> fst ` set (ws_plan_steps s)" for k
  proof -
    have "plan_ordered K steps \<Longrightarrow> k \<in> fst ` set steps \<Longrightarrow> strip k \<noteq> []" for K steps
      by (induction K steps rule: plan_ordered.induct) auto
    with live that show ?thesis by (auto simp: live_def ws_inv_def plan_ok_def)
  qed
  have "\<forall>x \<in> set (sd_dependencies d). strip x \<noteq> []" "sd_step_id d \<noteq> []" using d deps keys by (auto simp: trimmed_def)
  note fields = step_data_fields [OF d(1) this(2) d(3) this(1) crit]
  let ?u = "s\<lparr>ws_plan_steps := ws_plan_steps s @ [planned d]\<rparr>"
  have "reduce ev s = (None, ?u)" if "ev_type ev = PLAN_STEP_ADDED \<and> ev_source ev = HARNESS \<and> ev_data ev = step_data d" for ev
  proof -
    have "reduce_plan_step_added ev s = Inr ?u" using new deps fields
      by (auto simp: reduce_plan_step_added_def that has_key_def list_ex_iff planned_def update_new_key)
    then show ?thesis by (simp add: reduce_def that commit_def)
  qed
  then have "\<forall>ev. ev_type ev = PLAN_STEP_ADDED \<and> ev_source ev = HARNESS \<and> ev_data ev = step_data d \<longrightarrow> reduce ev s = (None, ?u)"
    by blast
  from apply_state_event_accepted [OF live stamp fields(6) this] live show thesis
    by (auto simp: live_def intro: that)
qed

lemma record_steps_whole:
  assumes "live s" "fresh_stamps stamp" "list_all trimmed steps"
    "validate_plan existing known steps = None" "fst ` set (ws_plan_steps s) = existing \<union> known"
  shows "\<exists>s'. record_steps stamp steps s = (None, s') \<and> live s' \<and> ws_plan_steps s' = ws_plan_steps s @ map planned steps"
  using assms
proof (induction existing known steps arbitrary: s rule: validate_plan.induct)
  case (2 existing known d ds)
  from "2.prems" obtain s' where s': "apply_state_event stamp PLAN_STEP_ADDED HARNESS (step_data d) s = (None, s')" "live s'"
    "ws_plan_steps s' = ws_plan_steps s @ [planned d]"
    by (elim record_step [of s stamp d]) (auto simp: list_ex_iff split: if_splits)
  have "\<exists>t. record_steps stamp ds s' = (None, t) \<and> live t \<and> ws_plan_steps t = ws_plan_steps s' @ map planned ds"
    by (rule "2.IH") (use "2.prems" s' in \<open>auto split: if_splits\<close>)
  with s' show ?case by auto
qed simp

text \<open>
  C31: a plan whose identifiers have no white space around them is recorded whole or not at all: a
  running task either keeps its state and the plan is refused, or has every step of it, in order,
  pending, behind the steps it had.
\<close>

theorem plan_is_recorded_whole:
  assumes "ws_reachable task_id s" "task_id \<noteq> []" "ws_terminal_status s = TS_RUNNING" "fresh_stamps stamp"
    "list_all trimmed steps"
  shows "(\<exists>m. apply_plan stamp steps s = (Some (ValueError m), s)) \<or>
    (\<exists>s'. apply_plan stamp steps s = (None, s') \<and> ws_plan_steps s' = ws_plan_steps s @ map planned steps)"
proof (cases "validate_plan (fst ` set (ws_plan_steps s)) {} steps")
  case None
  have "live s" using assms reachable_inv reachable_task_id by (auto simp: live_def)
  from record_steps_whole [OF this assms(4,5) None] None show ?thesis by (auto simp: apply_plan_def)
next
  case (Some e)
  have "validate_plan existing known steps = Some e \<Longrightarrow> \<exists>m. e = ValueError m" for existing known
    by (induction existing known steps rule: validate_plan.induct) (auto split: if_splits)
  with Some show ?thesis by (auto simp: apply_plan_def)
qed

section \<open>A plan goes on\<close>

lemma plan_ordered_split:
  "plan_ordered K (pre @ (k, p) # post) \<Longrightarrow>
   ps_step_id p = k \<and> k \<noteq> [] \<and> strip k = k \<and> set (ps_dependencies p) \<subseteq> K \<union> fst ` set pre"
  by (induction K pre rule: plan_ordered.induct) auto

lemma nothing_open:
  assumes "current_step s = None" "blocked_steps s = []" "q \<in> set (dict_values (ws_plan_steps s))"
  shows "ps_status q \<in> {PS_PENDING, PS_COMPLETED, PS_SKIPPED}"
  using assms by (cases "ps_status q") (auto simp: current_step_def blocked_steps_def find_None_iff filter_empty_conv)

text \<open>The first pending step has all its dependencies closed.\<close>

lemma first_pending_ready:
  assumes "plan_ordered {} (ws_plan_steps s)" "current_step s = None" "blocked_steps s = []" "pending_steps s = p # ps"
  shows "find (ready s) (dict_values (ws_plan_steps s)) = Some p \<and> map_of (ws_plan_steps s) (ps_step_id p) = Some p
    \<and> ps_step_id p \<noteq> [] \<and> strip (ps_step_id p) = ps_step_id p \<and> ready s p"
proof -
  from assms(4) obtain us vs where us: "map snd (ws_plan_steps s) = us @ p # vs" "\<forall>q \<in> set us. ps_status q \<noteq> PS_PENDING"
    "ps_status p = PS_PENDING"
    by (auto simp: pending_steps_def dict_values_def filter_eq_Cons_iff)
  then obtain pre k post where split: "ws_plan_steps s = pre @ (k, p) # post" "map snd pre = us"
    by (auto simp: map_eq_append_conv map_eq_Cons_conv)
  from assms(1) have dict: "dict (ws_plan_steps s)" using plan_ordered_keys by blast
  note key = plan_ordered_split [OF assms(1) [unfolded split]]
  have closed: "\<not> step_open s d" if "d \<in> fst ` set pre" for d
  proof -
    from that obtain q where q: "(d, q) \<in> set pre" by auto
    then have "(d, q) \<in> set (ws_plan_steps s)" by (simp add: split)
    then have "map_of (ws_plan_steps s) d = Some q" using dict dict_in_map_of by metis
    moreover have "ps_status q \<noteq> PS_PENDING" using q us(2) split(2) by force
    moreover have "q \<in> set (dict_values (ws_plan_steps s))" using q split by (force simp: dict_values_def)
    then have "ps_status q \<in> {PS_PENDING, PS_COMPLETED, PS_SKIPPED}" using nothing_open assms(2,3) by blast
    ultimately show ?thesis by (auto simp: step_open_def)
  qed
  then have "\<forall>d \<in> set (ps_dependencies p). \<not> step_open s d" using key by blast
  then have "ready s p" using us(3) by (auto simp: ready_def list_ex_iff)
  have "find (ready s) (us @ p # vs) = Some p" using us(2) \<open>ready s p\<close> by (induction us) (auto simp: ready_def)
  then have "find (ready s) (dict_values (ws_plan_steps s)) = Some p" by (simp add: dict_values_def us(1))
  moreover have "(k, p) \<in> set (ws_plan_steps s)" by (simp add: split)
  then have "map_of (ws_plan_steps s) k = Some p" using dict dict_in_map_of by metis
  ultimately show ?thesis using key \<open>ready s p\<close> by simp
qed

lemma start_step_accepted:
  assumes "live s" "fresh_stamps stamp" "map_of (ws_plan_steps s) k = Some p" "k \<noteq> []" "strip k = k" "ready s p"
    "current_step s = None"
  shows "\<exists>s'. start_step stamp k s = (None, s') \<and> ws_inv s' \<and>
    ws_plan_steps s' = AList.update k (p\<lparr>ps_status := PS_ACTIVE, ps_evidence_action_ids := []\<rparr>) (ws_plan_steps s)"
proof -
  let ?data = "[(''step_id'', JStr k), (''status'', JStr (plan_status_value PS_ACTIVE))]"
  let ?u = "s\<lparr>ws_plan_steps := AList.update k (p\<lparr>ps_status := PS_ACTIVE, ps_evidence_action_ids := []\<rparr>) (ws_plan_steps s)\<rparr>"
  have none: "\<not> another_active k s" using assms(7) by (auto simp: current_step_def find_None_iff another_active_def list_ex_iff)
  have "reduce ev s = (None, ?u)" if "ev_type ev = PLAN_STEP_UPDATED \<and> ev_source ev = HARNESS \<and> ev_data ev = ?data" for ev
  proof -
    have "update_plan_step ev s = Inr ?u" using assms(3-6) none that
      by (simp add: update_plan_step_def grounded_fact_sources_def required_text_def get_def get_default_def
          enum_of_def evidence_field_def ready_def)
    then show ?thesis by (simp add: reduce_def that commit_def)
  qed
  then have "\<forall>ev. ev_type ev = PLAN_STEP_UPDATED \<and> ev_source ev = HARNESS \<and> ev_data ev = ?data \<longrightarrow> reduce ev s = (None, ?u)"
    by blast
  from apply_state_event_accepted [OF assms(1,2) _ this] show ?thesis by (auto simp: start_step_def)
qed

text \<open>
  The plan of a running task with no step active or blocked is closed, or goes on with the
  first pending step: that step is started, whatever it depends on, and nothing else changes in
  the plan.
\<close>

theorem plan_goes_on:
  assumes "ws_reachable task_id s" "task_id \<noteq> []" "ws_terminal_status s = TS_RUNNING" "fresh_stamps stamp"
    "current_step s = None" "blocked_steps s = []"
  shows "case pending_steps s of
      [] \<Rightarrow> start_next stamp s = (Inr None, s) \<and> (\<forall>q \<in> set (dict_values (ws_plan_steps s)). ps_status q \<in> {PS_COMPLETED, PS_SKIPPED})
    | p # _ \<Rightarrow> \<exists>s'. start_next stamp s = (Inr (Some (ps_step_id p)), s') \<and> current_step s' \<noteq> None \<and>
        ws_plan_steps s' = AList.update (ps_step_id p) (p\<lparr>ps_status := PS_ACTIVE, ps_evidence_action_ids := []\<rparr>) (ws_plan_steps s)"
proof (cases "pending_steps s")
  case Nil
  then have "\<forall>q \<in> set (dict_values (ws_plan_steps s)). ps_status q \<noteq> PS_PENDING"
    by (auto simp: pending_steps_def filter_empty_conv)
  moreover from this have "find (ready s) (dict_values (ws_plan_steps s)) = None" by (auto simp: find_None_iff ready_def)
  ultimately show ?thesis using Nil nothing_open [OF assms(5,6)] by (auto simp: start_next_def)
next
  case (Cons p ps)
  have live: "live s" using assms reachable_inv reachable_task_id by (auto simp: live_def)
  then have "plan_ordered {} (ws_plan_steps s)" by (simp add: live_def ws_inv_def plan_ok_def)
  note first = first_pending_ready [OF this assms(5,6) Cons]
  then obtain s' where s': "start_step stamp (ps_step_id p) s = (None, s')"
    "ws_plan_steps s' = AList.update (ps_step_id p) (p\<lparr>ps_status := PS_ACTIVE, ps_evidence_action_ids := []\<rparr>) (ws_plan_steps s)"
    using start_step_accepted [OF live assms(4)] assms(5) by blast
  have "map_of (ws_plan_steps s') (ps_step_id p) = Some (p\<lparr>ps_status := PS_ACTIVE, ps_evidence_action_ids := []\<rparr>)"
    by (simp add: s'(2) dict_simps)
  from map_of_in_values [OF this] have "current_step s' \<noteq> None" by (auto simp: current_step_def find_None_iff intro!: bexI)
  with s' first Cons show ?thesis by (simp add: start_next_def)
qed

section \<open>Examples\<close>

text \<open>An identifier longer than every other one.\<close>

definition demo_stamp :: "working_state \<Rightarrow> string \<times> string \<times> int" where
  "demo_stamp s = (replicate (Suc (foldr max (map (length \<circ> ev_id) (ws_events s)) 0)) CHR ''e'', ''now'', 0)"

lemma demo_stamp_fresh: "fresh_stamps demo_stamp"
proof -
  have "length (ev_id ev) \<le> foldr max (map (length \<circ> ev_id) evs) 0" if "ev \<in> set evs" for ev :: state_event and evs
    using that by (induction evs) auto
  then have "replicate (Suc (foldr max (map (length \<circ> ev_id) evs) 0)) c \<noteq> ev_id ev" if "ev \<in> set evs"
    for ev :: state_event and evs c
    using that by (metis Suc_n_not_le_n length_replicate)
  then have "replicate (Suc (foldr max (map (length \<circ> ev_id) evs) 0)) c \<notin> ev_id ` set evs" for evs :: "state_event list" and c
    by blast
  then show ?thesis by (auto simp: fresh_stamps_def demo_stamp_def ws_inv_def log_ok_def)
qed

definition demo_step :: "string \<Rightarrow> string list \<Rightarrow> plan_step_definition" where
  "demo_step i ds = \<lparr>sd_step_id = i, sd_objective = ''edit the file'', sd_dependencies = ds,
     sd_completion_criteria = [], sd_requires_evidence = True\<rparr>"

definition demo_plan :: working_state where
  "demo_plan = snd (apply_plan demo_stamp [demo_step ''a'' [], demo_step ''b'' [''a'']] (fresh_state ''task''))"

lemma fresh_running: "ws_terminal_status (fresh_state t) = TS_RUNNING"
  by (simp add: fresh_state_def)

theorem plan_is_recorded_whole_witness:
  "map fst (ws_plan_steps (snd (apply_plan demo_stamp [demo_step ''a'' [], demo_step ''b'' [''a'']] (fresh_state ''task''))))
     = [''a'', ''b'']"
proof -
  let ?steps = "[demo_step ''a'' [], demo_step ''b'' [''a'']]"
  have "validate_plan (fst ` set (ws_plan_steps (fresh_state ''task''))) {} ?steps = None" by code_simp
  then have ok: "apply_plan demo_stamp ?steps (fresh_state ''task'') = record_steps demo_stamp ?steps (fresh_state ''task'')"
    by (simp add: apply_plan_def)
  have "list_all trimmed ?steps" by code_simp
  from plan_is_recorded_whole [OF ws_reachable.fresh _ fresh_running demo_stamp_fresh this, of "''task''"]
  have "(\<exists>m. apply_plan demo_stamp ?steps (fresh_state ''task'') = (Some (ValueError m), fresh_state ''task'')) \<or>
    (\<exists>s'. apply_plan demo_stamp ?steps (fresh_state ''task'') = (None, s') \<and>
       ws_plan_steps s' = ws_plan_steps (fresh_state ''task'') @ map planned ?steps)" by simp
  moreover have "fst (apply_plan demo_stamp ?steps (fresh_state ''task'')) = None" by code_simp
  ultimately show ?thesis by (auto simp: fresh_state_def demo_step_def)
qed

lemma record_steps_reachable:
  "ws_reachable t s \<Longrightarrow> ws_reachable t (snd (record_steps stamp steps s))"
  by (induction steps arbitrary: s)
     (auto simp: apply_state_event_def Let_def split: prod.splits option.splits sum.splits intro: ws_reachable.event)

lemma apply_plan_reachable: "ws_reachable t s \<Longrightarrow> ws_reachable t (snd (apply_plan stamp steps s))"
  using record_steps_reachable by (auto simp: apply_plan_def split: option.splits)

lemma demo_plan_reachable: "ws_reachable ''task'' demo_plan"
  unfolding demo_plan_def by (rule apply_plan_reachable [OF ws_reachable.fresh])

theorem plan_goes_on_witness: "\<exists>s'. start_next demo_stamp demo_plan = (Inr (Some ''a''), s') \<and> current_step s' \<noteq> None"
proof -
  have "ws_terminal_status demo_plan = TS_RUNNING" "current_step demo_plan = None" "blocked_steps demo_plan = []"
    by code_simp+
  note goes_on = plan_goes_on [OF demo_plan_reachable _ this(1) demo_stamp_fresh this(2,3)]
  have "map ps_step_id (pending_steps demo_plan) = [''a'', ''b'']" by code_simp
  then obtain p q where "pending_steps demo_plan = [p, q]" "ps_step_id p = ''a''" by auto
  with goes_on show ?thesis by auto
qed

text \<open>
  Validation compares identifiers as written, the working state without the white space around
  them: a plan whose steps are \<open>a\<close> and \<open>a\<close> with a blank behind passes validation, is refused at the
  second step, and leaves the first one in the working state.
\<close>

theorem plan_can_be_half_recorded:
  "apply_plan demo_stamp [demo_step ''a'' [], demo_step ''a '' []] (fresh_state ''task'') =
     (Some (StateTransitionError ''plan step already exists: a''),
      snd (apply_plan demo_stamp [demo_step ''a'' []] (fresh_state ''task''))) \<and>
   map fst (ws_plan_steps (snd (apply_plan demo_stamp [demo_step ''a'' [], demo_step ''a '' []] (fresh_state ''task'')))) = [''a'']"
  by (intro conjI; code_simp)

end
