(* ===== verification/Session_Log.thy ===== *)
theory Session_Log
  imports Working_State Budgets Text_Patterns
begin

text \<open>
  The append-only log of a resumable session (\<open>client/runtime/session_store.py\<close>): what is redacted
  before it is written (\<open>client/runtime/tracing.py\<close>), session events, and the file
  \<open>events.jsonl\<close> of the store.

  A file is modelled at the level of the JSON it holds, as for training jobs: the lines, each
  readable or not, and perhaps a last piece without its newline, readable or not, which is what
  a crash during an append leaves.  A crash ends the process, which forgets the sequence numbers
  it remembered.  \<open>text\<close> is what \<open>str()\<close> prints for a JSON value that is not a string.  A
  sequence number that is a float and a payload that is not an object, which the program never
  writes, are refused.
\<close>

section \<open>Redaction\<close>

text \<open>\<open>r.sub(f, s)\<close> for a pattern that ignores case: it is matched against the text in lower case.\<close>

definition sub_ignorecase :: "rx \<Rightarrow> (string \<Rightarrow> string) \<Rightarrow> string \<Rightarrow> string" where
  "sub_ignorecase r f s =
     concat (map (\<lambda>(gap, hit). gap @ (if hit = [] then [] else f hit)) (cut_at s 0 (finds r (lower s) 0)))"

definition SECRET_ASSIGNMENT_rx :: rx where
  "SECRET_ASSIGNMENT_rx = seqs
     [Wordb, alts [seqs [lit ''api'', opt (one_of ''_-''), lit ''key''], lit ''authorization'', lit ''cookie'',
        lit ''password'', lit ''secret'', lit ''token''],
      Star space, one_of '':='', Star space, plus (Cls (\<lambda>c. \<not> py_space c \<and> c \<notin> set '',;''))]"

definition BEARER_rx :: rx where
  "BEARER_rx = seqs
     [Wordb, lit ''bearer'', plus space,
      plus (Cls (\<lambda>c. ascii_letter c \<or> ascii_digit c \<or> c \<in> set ''._~+/-'')), opt (ch CHR ''=''), opt (ch CHR ''='')]"

text \<open>The first group of an assignment is the key: it ends at white space or at the sign.\<close>

definition assigned_key :: "string \<Rightarrow> string" where
  "assigned_key hit = takeWhile (\<lambda>c. \<not> py_space c \<and> c \<notin> set '':='') hit"

definition redact_string :: "string \<Rightarrow> string" where
  "redact_string s =
     sub_ignorecase BEARER_rx (\<lambda>_. ''Bearer [REDACTED]'')
       (sub_ignorecase SECRET_ASSIGNMENT_rx (\<lambda>hit. assigned_key hit @ ''=[REDACTED]'') s)"

text \<open>A text without white space, colon and equals sign has no credential to redact.\<close>

definition unmarked :: "char \<Rightarrow> bool" where
  "unmarked c \<longleftrightarrow> \<not> py_space c \<and> c \<notin> set '':=''"

lemma lower_unmarked: "unmarked c \<Longrightarrow> unmarked (lower_char c)"
proof -
  let ?n = "of_char c :: nat"
  assume c: "unmarked c"
  show ?thesis
  proof (cases "65 \<le> ?n \<and> ?n \<le> 90 \<or> 192 \<le> ?n \<and> ?n \<le> 222 \<and> ?n \<noteq> 215")
    case True
    then have n: "of_char (lower_char c) = ?n + 32" by (auto simp: lower_char_def Let_def)
    have "of_char d = (58 :: nat) \<or> of_char d = (61 :: nat)" if "d \<in> set '':=''" for d using that by auto
    with True n show ?thesis by (force simp: unmarked_def py_space_def Let_def)
  qed (use c in \<open>auto simp: lower_char_def Let_def\<close>)
qed

lemma ends_Seq_dead: "(\<And>j. ends b s j = []) \<Longrightarrow> ends (Seq a b) s i = []"
  by (simp add: dedup_def)

lemma ends_Seq_stuck: "ends a s i = [] \<Longrightarrow> ends (Seq a b) s i = []"
  by (simp add: dedup_def)

lemma finds_dead: "(\<And>i. ends r s i = []) \<Longrightarrow> finds r s k = []"
proof (induction "length s - k" arbitrary: k rule: less_induct)
  case less
  then show ?case by (cases r s k rule: finds_cases) auto
qed

lemma secret_dead:
  assumes "list_all unmarked s"
  shows "ends SECRET_ASSIGNMENT_rx s i = []"
proof -
  have "ends (one_of '':='') s j = []" for j
    using assms by (auto simp: one_of_def list_all_length unmarked_def)
  then have "ends (Seq (one_of '':='') r) s j = []" for r j by (rule ends_Seq_stuck)
  then show ?thesis by (simp add: SECRET_ASSIGNMENT_rx_def seqs_def ends_Seq_dead del: ends.simps)
qed

lemma bearer_dead:
  assumes "list_all unmarked s"
  shows "ends BEARER_rx s i = []"
proof -
  have "ends space s j = []" for j using assms by (auto simp: space_def list_all_length unmarked_def)
  then have "ends (Seq (plus space) r) s j = []" for r j by (simp add: ends_Seq_stuck plus_def del: ends.simps)
  then show ?thesis by (simp add: BEARER_rx_def seqs_def ends_Seq_dead del: ends.simps)
qed

lemma redact_unmarked:
  assumes "list_all unmarked s"
  shows "redact_string s = s"
proof -
  have "list_all unmarked (lower s)" using assms by (auto simp: lower_def list_all_iff lower_unmarked)
  then show ?thesis by (simp add: redact_string_def sub_ignorecase_def finds_dead secret_dead bearer_dead)
qed

text \<open>Most texts have no mark, so evaluation looks for one first.\<close>

lemma redact_string_code [code]:
  "redact_string s =
     (if list_all unmarked s then s
      else sub_ignorecase BEARER_rx (\<lambda>_. ''Bearer [REDACTED]'')
             (sub_ignorecase SECRET_ASSIGNMENT_rx (\<lambda>hit. assigned_key hit @ ''=[REDACTED]'') s))"
  by (simp add: redact_unmarked) (simp add: redact_string_def)

definition SESSION_SECRET_KEYS :: "string list" where
  "SESSION_SECRET_KEYS =
     [''api_key'', ''apikey'', ''authorization'', ''cookie'', ''credential'', ''passwd'', ''password'', ''secret'',
      ''token'', ''access_token'', ''refresh_token'']"

definition secret_key :: "string \<Rightarrow> bool" where
  "secret_key key \<longleftrightarrow> map (\<lambda>c. if c = CHR ''-'' then CHR ''_'' else c) (lower key) \<in> set SESSION_SECRET_KEYS"

fun session_safe :: "json \<Rightarrow> json" where
  "session_safe (JStr s) = JStr (redact_string s)"
| "session_safe (JObj d) = JObj (map (\<lambda>(k, v). (k, if secret_key k then JStr ''[REDACTED]'' else session_safe v)) d)"
| "session_safe (JList vs) = JList (map session_safe vs)"
| "session_safe v = v"

section \<open>Events\<close>

datatype session_error = SessionError string | SessionCompatibilityError string | OtherException string

datatype session_event_type =
    SE_SESSION_STARTED | SE_SESSION_RESUMED | SE_TASK_STARTED | SE_WORKING_STATE_TRANSITION
  | SE_MODEL_TURN_STARTED | SE_MODEL_TURN_COMPLETED | SE_TOOL_ACTION_STARTED | SE_TOOL_ACTION_COMPLETED
  | SE_COMPACTION_COMPLETED | SE_VERIFICATION_RECORDED | SE_CHECKPOINT_RECORDED | SE_ROLLBACK_RECORDED
  | SE_EXPLORATION_COMPLETED | SE_REVIEW_COMPLETED | SE_PLAN_RECORDED | SE_DELEGATION_COMPLETED
  | SE_BUDGET_UPDATED | SE_TASK_INTERRUPTED | SE_TASK_FAILED | SE_TASK_COMPLETED | SE_SESSION_CLOSED
  | SE_STANDARD_BINDING_SET | SE_STANDARD_BINDING_CLEARED | SE_STANDARD_SEARCH_COMPLETED
  | SE_STANDARD_SOURCE_FETCHED | SE_STANDARD_INDEX_CHANGED | SE_STANDARD_RETRIEVAL_CHANGED
  | SE_STANDARD_BINDING_MISMATCH

fun session_event_value :: "session_event_type \<Rightarrow> string" where
  "session_event_value SE_SESSION_STARTED = ''session_started''"
| "session_event_value SE_SESSION_RESUMED = ''session_resumed''"
| "session_event_value SE_TASK_STARTED = ''task_started''"
| "session_event_value SE_WORKING_STATE_TRANSITION = ''working_state_transition''"
| "session_event_value SE_MODEL_TURN_STARTED = ''model_turn_started''"
| "session_event_value SE_MODEL_TURN_COMPLETED = ''model_turn_completed''"
| "session_event_value SE_TOOL_ACTION_STARTED = ''tool_action_started''"
| "session_event_value SE_TOOL_ACTION_COMPLETED = ''tool_action_completed''"
| "session_event_value SE_COMPACTION_COMPLETED = ''compaction_completed''"
| "session_event_value SE_VERIFICATION_RECORDED = ''verification_recorded''"
| "session_event_value SE_CHECKPOINT_RECORDED = ''checkpoint_recorded''"
| "session_event_value SE_ROLLBACK_RECORDED = ''rollback_recorded''"
| "session_event_value SE_EXPLORATION_COMPLETED = ''exploration_completed''"
| "session_event_value SE_REVIEW_COMPLETED = ''review_completed''"
| "session_event_value SE_PLAN_RECORDED = ''plan_recorded''"
| "session_event_value SE_DELEGATION_COMPLETED = ''delegation_completed''"
| "session_event_value SE_BUDGET_UPDATED = ''budget_updated''"
| "session_event_value SE_TASK_INTERRUPTED = ''task_interrupted''"
| "session_event_value SE_TASK_FAILED = ''task_failed''"
| "session_event_value SE_TASK_COMPLETED = ''task_completed''"
| "session_event_value SE_SESSION_CLOSED = ''session_closed''"
| "session_event_value SE_STANDARD_BINDING_SET = ''standard_binding_set''"
| "session_event_value SE_STANDARD_BINDING_CLEARED = ''standard_binding_cleared''"
| "session_event_value SE_STANDARD_SEARCH_COMPLETED = ''standard_search_completed''"
| "session_event_value SE_STANDARD_SOURCE_FETCHED = ''standard_source_fetched''"
| "session_event_value SE_STANDARD_INDEX_CHANGED = ''standard_index_changed''"
| "session_event_value SE_STANDARD_RETRIEVAL_CHANGED = ''standard_retrieval_changed''"
| "session_event_value SE_STANDARD_BINDING_MISMATCH = ''standard_binding_mismatch''"

definition all_session_events :: "session_event_type list" where
  "all_session_events =
     [SE_SESSION_STARTED, SE_SESSION_RESUMED, SE_TASK_STARTED, SE_WORKING_STATE_TRANSITION,
      SE_MODEL_TURN_STARTED, SE_MODEL_TURN_COMPLETED, SE_TOOL_ACTION_STARTED, SE_TOOL_ACTION_COMPLETED,
      SE_COMPACTION_COMPLETED, SE_VERIFICATION_RECORDED, SE_CHECKPOINT_RECORDED, SE_ROLLBACK_RECORDED,
      SE_EXPLORATION_COMPLETED, SE_REVIEW_COMPLETED, SE_PLAN_RECORDED, SE_DELEGATION_COMPLETED,
      SE_BUDGET_UPDATED, SE_TASK_INTERRUPTED, SE_TASK_FAILED, SE_TASK_COMPLETED, SE_SESSION_CLOSED,
      SE_STANDARD_BINDING_SET, SE_STANDARD_BINDING_CLEARED, SE_STANDARD_SEARCH_COMPLETED,
      SE_STANDARD_SOURCE_FETCHED, SE_STANDARD_INDEX_CHANGED, SE_STANDARD_RETRIEVAL_CHANGED,
      SE_STANDARD_BINDING_MISMATCH]"

text \<open>\<open>[A-Za-z][A-Za-z0-9_-]{7,95}\<close>, the whole text.\<close>

definition id_ok :: "string \<Rightarrow> bool" where
  "id_ok s \<longleftrightarrow> 8 \<le> length s \<and> length s \<le> 96 \<and> ascii_letter (hd s) \<and>
     list_all (\<lambda>c. ascii_letter c \<or> ascii_digit c \<or> c \<in> set ''_-'') s"

definition validate_id :: "json \<Rightarrow> string \<Rightarrow> session_error + string" where
  "validate_id v name =
     (case v of JStr s \<Rightarrow> if id_ok s then Inr s else Inl (SessionError (''invalid '' @ name))
      | _ \<Rightarrow> Inl (SessionError (''invalid '' @ name)))"

record session_event =
  se_type :: session_event_type
  se_session_id :: string
  se_task_id :: string
  se_sequence :: int
  se_payload :: json_object
  se_event_id :: json
  se_timestamp :: json
  se_schema :: json

fun object_of :: "json \<Rightarrow> json_object" where
  "object_of (JObj d) = d"
| "object_of _ = []"

definition session_event_new :: "session_event_type \<Rightarrow> json \<Rightarrow> json \<Rightarrow> int \<Rightarrow> json_object \<Rightarrow> json \<Rightarrow> json \<Rightarrow> json \<Rightarrow>
    session_error + session_event" where
  "session_event_new ty session_id task_id sequence payload event_id timestamp schema =
     bindE (validate_id session_id ''session_id'') (\<lambda>sid.
     bindE (validate_id task_id ''task_id'') (\<lambda>tid.
     if sequence < 1 then Inl (SessionError ''event sequence must be positive'')
     else if \<not> json_finite (session_safe (JObj payload)) then Inl (SessionError ''session value is not JSON-compatible'')
     else Inr \<lparr>se_type = ty, se_session_id = sid, se_task_id = tid, se_sequence = sequence,
               se_payload = object_of (session_safe (JObj payload)), se_event_id = event_id,
               se_timestamp = timestamp, se_schema = schema\<rparr>))"

definition event_fields :: "session_event \<Rightarrow> json_object" where
  "event_fields e =
     [(''schema_version'', se_schema e), (''event_id'', se_event_id e),
      (''event_type'', JStr (session_event_value (se_type e))), (''session_id'', JStr (se_session_id e)),
      (''task_id'', JStr (se_task_id e)), (''sequence'', JInt (se_sequence e)),
      (''timestamp'', se_timestamp e), (''payload'', JObj (se_payload e))]"

definition session_event_to_dict :: "session_event \<Rightarrow> json" where
  "session_event_to_dict e = session_safe (JObj (event_fields e))"

fun sequence_of :: "json \<Rightarrow> int option" where
  "sequence_of (JInt n) = Some n"
| "sequence_of (JBool b) = Some (if b then 1 else 0)"
| "sequence_of _ = None"

definition bad_event :: session_error where
  "bad_event = SessionError ''malformed session event: ''"

definition session_event_from_dict :: "json \<Rightarrow> session_error + session_event" where
  "session_event_from_dict raw =
     (case raw of
        JObj d \<Rightarrow>
          (if \<not> py_is_one (get d ''schema_version'') then Inl (SessionError ''unsupported or malformed session event'')
           else case (enum_of session_event_value all_session_events (get d ''event_type''), map_of d ''session_id'',
                 map_of d ''task_id'', map_of d ''sequence'', map_of d ''event_id'', map_of d ''timestamp'') of
             (Some ty, Some sid, Some tid, Some sequence, Some event_id, Some timestamp) \<Rightarrow>
               (case (sequence_of sequence, get_default d ''payload'' (JObj [])) of
                  (Some n, JObj payload) \<Rightarrow>
                    session_event_new ty sid tid n payload event_id timestamp (get d ''schema_version'')
                | _ \<Rightarrow> Inl bad_event)
           | _ \<Rightarrow> Inl bad_event)
      | _ \<Rightarrow> Inl (SessionError ''unsupported or malformed session event''))"

section \<open>The store\<close>

datatype file_json = Missing | Damaged | Stored json

record session_directory =
  dr_lines :: "json option list"
  dr_tail :: "json option option"
  dr_snapshot :: file_json

record session_store =
  ss_dirs :: "(string \<times> session_directory) list"
  ss_last :: "(string \<times> int) list"

definition new_directory :: session_directory where
  "new_directory = \<lparr>dr_lines = [], dr_tail = None, dr_snapshot = Missing\<rparr>"

definition dir_of :: "session_store \<Rightarrow> string \<Rightarrow> session_directory" where
  "dir_of st sid = (case map_of (ss_dirs st) sid of None \<Rightarrow> new_directory | Some d \<Rightarrow> d)"

definition put_directory :: "string \<Rightarrow> session_directory \<Rightarrow> session_store \<Rightarrow> session_store" where
  "put_directory sid d st = st\<lparr>ss_dirs := AList.update sid d (ss_dirs st)\<rparr>"

text \<open>The checks on an event that was read, and the numbers of the lines that follow.\<close>

definition admit_event :: "string \<Rightarrow> int \<Rightarrow> session_event \<Rightarrow> session_error option" where
  "admit_event sid last_sequence e =
     (if se_session_id e \<noteq> sid then Some (SessionError ''cross-session event detected'')
      else if se_sequence e \<le> last_sequence then Some (SessionError ''session event sequence is not increasing'')
      else None)"

definition line_error :: "nat \<Rightarrow> session_error" where
  "line_error index = SessionError (''malformed session event at line '' @ nat_str (Suc index))"

definition read_line :: "json option \<Rightarrow> session_event option" where
  "read_line line = (case line of None \<Rightarrow> None | Some j \<Rightarrow>
     (case session_event_from_dict j of Inl _ \<Rightarrow> None | Inr e \<Rightarrow> Some e))"

fun read_lines :: "string \<Rightarrow> int \<Rightarrow> nat \<Rightarrow> json option list \<Rightarrow> json option option \<Rightarrow> session_error + session_event list" where
  "read_lines sid last_sequence index [] tail =
     (case tail of
        None \<Rightarrow> Inr []
      | Some line \<Rightarrow>
          (case read_line line of
             None \<Rightarrow> Inr []
           | Some e \<Rightarrow> (case admit_event sid last_sequence e of Some err \<Rightarrow> Inl err | None \<Rightarrow> Inr [e])))"
| "read_lines sid last_sequence index (line # lines) tail =
     (case read_line line of
        None \<Rightarrow> Inl (line_error index)
      | Some e \<Rightarrow>
          (case admit_event sid last_sequence e of
             Some err \<Rightarrow> Inl err
           | None \<Rightarrow> bindE (read_lines sid (se_sequence e) (Suc index) lines tail) (\<lambda>es. Inr (e # es))))"

definition events :: "session_store \<Rightarrow> string \<Rightarrow> int \<Rightarrow> session_error + session_event list" where
  "events st sid after_sequence =
     bindE (validate_id (JStr sid) ''session_id'') (\<lambda>_.
     let d = dir_of st sid in
     bindE (read_lines sid 0 0 (dr_lines d) (dr_tail d)) (\<lambda>es. Inr (filter (\<lambda>e. after_sequence < se_sequence e) es)))"

definition drop_tail :: "session_directory \<Rightarrow> session_directory" where
  "drop_tail d = d\<lparr>dr_tail := None\<rparr>"

text \<open>Up to the write: the directory exists, the torn last line is gone, and the sequence number increases.\<close>

definition prepare_append :: "session_event \<Rightarrow> session_store \<Rightarrow> session_error option \<times> session_store" where
  "prepare_append e st =
     (let sid = se_session_id e; st1 = put_directory sid (drop_tail (dir_of st sid)) st in
      case (case map_of (ss_last st1) sid of
              Some n \<Rightarrow> Inr n
            | None \<Rightarrow> bindE (events st1 sid 0) (\<lambda>es. Inr (if es = [] then 0 else se_sequence (last es)))) of
        Inl err \<Rightarrow> (Some err, st1)
      | Inr previous \<Rightarrow>
          if se_sequence e \<le> previous then (Some (SessionError ''session event sequence must increase''), st1)
          else (None, st1))"

definition write_line :: "session_event \<Rightarrow> session_store \<Rightarrow> session_store" where
  "write_line e st =
     (let sid = se_session_id e; d = dir_of st sid in
      put_directory sid (d\<lparr>dr_lines := dr_lines d @ [Some (session_event_to_dict e)]\<rparr>) st)"

definition append_session_event :: "session_event \<Rightarrow> session_store \<Rightarrow> session_error option \<times> session_store" where
  "append_session_event e st =
     (case prepare_append e st of
        (Some err, st1) \<Rightarrow> (Some err, st1)
      | (None, st1) \<Rightarrow>
          (None, (write_line e st1)\<lparr>ss_last := AList.update (se_session_id e) (se_sequence e) (ss_last st1)\<rparr>))"

text \<open>What a crash in the middle of an append leaves: nothing, a piece, or all but the newline.\<close>

datatype cut = Nothing | Piece | Unterminated | Whole

definition crash_append :: "cut \<Rightarrow> session_event \<Rightarrow> session_store \<Rightarrow> session_store" where
  "crash_append c e st =
     (case prepare_append e st of
        (Some _, st1) \<Rightarrow> st1\<lparr>ss_last := []\<rparr>
      | (None, st1) \<Rightarrow>
          let sid = se_session_id e; d = dir_of st1 sid in
          (case c of
             Nothing \<Rightarrow> st1
           | Piece \<Rightarrow> put_directory sid (d\<lparr>dr_tail := Some None\<rparr>) st1
           | Unterminated \<Rightarrow> put_directory sid (d\<lparr>dr_tail := Some (Some (session_event_to_dict e))\<rparr>) st1
           | Whole \<Rightarrow> write_line e st1)\<lparr>ss_last := []\<rparr>)"

end
