(* ===== verification/Session_Restore.thy ===== *)
theory Session_Restore
  imports Session_Log
begin

text \<open>
  Snapshots of a session and its restoration (\<open>client/runtime/session_store.py\<close>,
  \<open>StandardBinding\<close> in \<open>client/standard/standard_schema.py\<close>, messages in
  \<open>client/models/model_backend.py\<close>).  Of a snapshot the identity, the configuration, the working
  state, the conversation, the operation in flight and the binding to a standard are modelled;
  the other fields, which restoration hands on as they are, are kept as JSON and their checks
  are left out.  An operation in flight whose fields are not strings is refused.
\<close>

section \<open>Messages\<close>

datatype content_block =
    TextBlock string
  | ToolUseBlock string string json_object
  | ToolResultBlock string string bool

record conversation_message =
  cv_role :: json
  cv_content :: "content_block list"
  cv_authored_by :: json

fun is_tool_use :: "content_block \<Rightarrow> bool" where
  "is_tool_use (ToolUseBlock _ _ _) = True"
| "is_tool_use _ = False"

fun is_tool_result :: "content_block \<Rightarrow> bool" where
  "is_tool_result (ToolResultBlock _ _ _) = True"
| "is_tool_result _ = False"

definition message_new :: "json \<Rightarrow> content_block list \<Rightarrow> json \<Rightarrow> string + conversation_message" where
  "message_new role content authored_by =
     (if role = JStr ''assistant'' \<and> list_ex is_tool_result content
      then Inl ''assistant messages cannot contain tool results''
      else if role = JStr ''user'' \<and> list_ex is_tool_use content
      then Inl ''user messages cannot contain tool calls''
      else Inr \<lparr>cv_role = role, cv_content = content, cv_authored_by = authored_by\<rparr>)"

fun block_to_dict :: "content_block \<Rightarrow> json" where
  "block_to_dict (TextBlock t) = JObj [(''type'', JStr ''text''), (''text'', JStr t)]"
| "block_to_dict (ToolUseBlock i n args) =
     JObj [(''type'', JStr ''tool_use''), (''id'', JStr i), (''name'', JStr n), (''arguments'', JObj args)]"
| "block_to_dict (ToolResultBlock i c err) =
     JObj [(''type'', JStr ''tool_result''), (''tool_call_id'', JStr i), (''content'', JStr c), (''is_error'', JBool err)]"

definition message_to_dict :: "conversation_message \<Rightarrow> json" where
  "message_to_dict m =
     JObj [(''role'', cv_role m), (''authored_by'', cv_authored_by m), (''content'', JList (map block_to_dict (cv_content m)))]"

abbreviation malformed_snapshot :: session_error where
  "malformed_snapshot \<equiv> SessionError ''malformed session snapshot: ''"

definition block_from_dict :: "(json \<Rightarrow> string) \<Rightarrow> json \<Rightarrow> session_error + content_block" where
  "block_from_dict text item =
     (case item of
        JObj d \<Rightarrow>
          (if get d ''type'' = JStr ''text'' then Inr (TextBlock (py_str text (get_default d ''text'' (JStr []))))
           else if get d ''type'' = JStr ''tool_use''
           then case get_default d ''arguments'' (JObj []) of
                  JObj args \<Rightarrow>
                    (case (map_of d ''id'', map_of d ''name'') of
                       (Some i, Some n) \<Rightarrow> Inr (ToolUseBlock (py_str text i) (py_str text n) args)
                     | _ \<Rightarrow> Inl malformed_snapshot)
                | _ \<Rightarrow> Inl (SessionError ''tool arguments must be an object'')
           else if get d ''type'' = JStr ''tool_result''
           then case map_of d ''tool_call_id'' of
                  Some i \<Rightarrow> Inr (ToolResultBlock (py_str text i) (py_str text (get_default d ''content'' (JStr [])))
                                (py_bool (get_default d ''is_error'' (JBool False))))
                | None \<Rightarrow> Inl malformed_snapshot
           else Inl (SessionError ''unknown conversation block type''))
      | _ \<Rightarrow> Inl (SessionError ''malformed conversation block''))"

definition message_from_dict :: "(json \<Rightarrow> string) \<Rightarrow> json \<Rightarrow> session_error + conversation_message" where
  "message_from_dict text raw =
     (case raw of
        JObj d \<Rightarrow>
          (case py_iter (get_default d ''content'' (JList [])) of
             None \<Rightarrow> Inl malformed_snapshot
           | Some items \<Rightarrow>
               bindE (mapE (block_from_dict text) items) (\<lambda>blocks.
               case map_of d ''role'' of
                 None \<Rightarrow> Inl (SessionError ''malformed conversation message: '')
               | Some role \<Rightarrow>
                   (case message_new role blocks (get_default d ''authored_by'' (JStr ''operator'')) of
                      Inl _ \<Rightarrow> Inl (SessionError ''malformed conversation message: '')
                    | Inr m \<Rightarrow> Inr m)))
      | _ \<Rightarrow> Inl (OtherException ''AttributeError''))"

section \<open>Configuration, operations in flight and bindings\<close>

text \<open>The attributes of the configuration are not checked: each holds whatever JSON value was given.\<close>

record session_configuration =
  sf_workspace :: json
  sf_project :: json
  sf_execution_mode :: json
  sf_context_policy_version :: json
  sf_tool_registry_version :: json
  sf_provider :: json
  sf_model :: json

definition compatible_with :: "session_configuration \<Rightarrow> session_configuration \<Rightarrow> bool" where
  "compatible_with a b \<longleftrightarrow>
     sf_workspace a = sf_workspace b \<and> sf_project a = sf_project b \<and> sf_execution_mode a = sf_execution_mode b \<and>
     sf_context_policy_version a = sf_context_policy_version b \<and> sf_tool_registry_version a = sf_tool_registry_version b"

definition configuration_to_dict :: "session_configuration \<Rightarrow> json" where
  "configuration_to_dict c = JObj
     [(''workspace'', sf_workspace c), (''project'', sf_project c), (''execution_mode'', sf_execution_mode c),
      (''context_policy_version'', sf_context_policy_version c), (''tool_registry_version'', sf_tool_registry_version c),
      (''provider'', sf_provider c), (''model'', sf_model c)]"

definition configuration_from_dict :: "json \<Rightarrow> session_error + session_configuration" where
  "configuration_from_dict raw =
     (case raw of
        JObj d \<Rightarrow>
          (if \<not> list_all (\<lambda>k. k \<in> set [''workspace'', ''project'', ''execution_mode'', ''context_policy_version'',
                ''tool_registry_version'', ''provider'', ''model'']) (map fst d) then Inl malformed_snapshot
           else case (map_of d ''workspace'', map_of d ''project'', map_of d ''execution_mode'') of
             (Some w, Some p, Some m) \<Rightarrow>
               Inr \<lparr>sf_workspace = w, sf_project = p, sf_execution_mode = m,
                    sf_context_policy_version = get_default d ''context_policy_version'' (JStr ''context-v1''),
                    sf_tool_registry_version = get_default d ''tool_registry_version'' (JStr ''tools-v1''),
                    sf_provider = get d ''provider'', sf_model = get d ''model''\<rparr>
           | _ \<Rightarrow> Inl malformed_snapshot)
      | _ \<Rightarrow> Inl malformed_snapshot)"

record in_flight_operation =
  fl_kind :: string
  fl_operation_id :: string
  fl_name :: string
  fl_mutating :: json

definition in_flight_to_dict :: "in_flight_operation option \<Rightarrow> json" where
  "in_flight_to_dict f = (case f of None \<Rightarrow> JNull | Some i \<Rightarrow> JObj
     [(''kind'', JStr (fl_kind i)), (''operation_id'', JStr (fl_operation_id i)), (''name'', JStr (fl_name i)),
      (''mutating'', fl_mutating i)])"

definition in_flight_from_dict :: "json \<Rightarrow> session_error + in_flight_operation option" where
  "in_flight_from_dict raw =
     (if \<not> json_truthy raw then Inr None
      else case raw of
        JObj d \<Rightarrow>
          (if \<not> list_all (\<lambda>k. k \<in> set [''kind'', ''operation_id'', ''name'', ''mutating'']) (map fst d) then Inl malformed_snapshot
           else case (get d ''kind'', get d ''operation_id'', get d ''name'') of
             (JStr k, JStr i, JStr n) \<Rightarrow>
               Inr (Some \<lparr>fl_kind = k, fl_operation_id = i, fl_name = n, fl_mutating = get_default d ''mutating'' (JBool False)\<rparr>)
           | _ \<Rightarrow> Inl malformed_snapshot)
      | _ \<Rightarrow> Inl malformed_snapshot)"

text \<open>A binding to a standard, as the object \<open>to_dict\<close> writes: its fields in order, with their defaults.\<close>

definition binding_fields :: "(string \<times> json option) list" where
  "binding_fields =
     [(''standard_id'', None), (''revision'', None), (''pdf_sha256'', None), (''corpus_manifest_sha256'', None),
      (''index_fingerprint'', None), (''extractor_version'', None), (''corpus_schema_version'', Some (JInt 1)),
      (''bound_at'', Some JNull), (''data_origin'', Some (JStr ''LICENSED_STANDARD'')),
      (''vector_index_fingerprint'', Some JNull), (''cross_reference_index_fingerprint'', Some JNull),
      (''retrieval_fingerprint'', Some JNull)]"

fun sha256_ok :: "json \<Rightarrow> bool" where
  "sha256_ok (JStr s) = (length s = 64 \<and> list_all hex_digit s)"
| "sha256_ok _ = False"

fun field_or_default :: "json_object \<Rightarrow> string \<times> json option \<Rightarrow> (string \<times> json) option" where
  "field_or_default d (name, dflt) =
     (case map_of d name of Some v \<Rightarrow> Some (name, v) | None \<Rightarrow> map_option (Pair name) dflt)"

definition binding_from_dict :: "json_object \<Rightarrow> string + json_object" where
  "binding_from_dict raw =
     (case those (map (field_or_default raw) binding_fields) of
        None \<Rightarrow> Inl ''malformed standard binding: ''
      | Some b \<Rightarrow>
          if \<not> sha256_ok (get b ''pdf_sha256'') \<or> \<not> sha256_ok (get b ''corpus_manifest_sha256'')
             \<or> \<not> sha256_ok (get b ''index_fingerprint'')
          then Inl ''malformed standard binding: must be a lowercase SHA-256''
          else if list_ex (\<lambda>n. get b n \<noteq> JNull \<and> \<not> sha256_ok (get b n))
                    [''vector_index_fingerprint'', ''cross_reference_index_fingerprint'', ''retrieval_fingerprint'']
          then Inl ''malformed standard binding: must be a lowercase SHA-256''
          else if \<not> json_truthy (get b ''standard_id'') \<or> \<not> json_truthy (get b ''revision'') \<or> \<not> json_truthy (get b ''extractor_version'')
          then Inl ''malformed standard binding: binding identifiers must not be empty''
          else if get b ''corpus_schema_version'' \<notin> {JInt 1, JInt 2, JInt 3, JBool True, JFloat ''1.0'', JFloat ''2.0'', JFloat ''3.0''}
          then Inl ''malformed standard binding: unsupported corpus schema version''
          else Inr b)"

section \<open>Snapshots\<close>

record session_snapshot =
  sn_session_id :: string
  sn_task_id :: string
  sn_sequence :: int
  sn_configuration :: session_configuration
  sn_working_state :: working_state
  sn_conversation :: "conversation_message list"
  sn_in_flight :: "in_flight_operation option"
  sn_binding :: "json_object option"
  sn_cache_fingerprint :: json
  sn_carried :: json_object

definition carried_fields :: "string list" where
  "carried_fields = [''context_items'', ''compaction_artifact'', ''result_references'', ''tool_log'', ''trajectory'',
     ''progress_state'', ''checkpoint'', ''exploration_reports'', ''review_results'', ''budget_state'',
     ''delegation_results'', ''tool_exposure'', ''standard_source_ids_used'']"

definition snapshot_new :: "json \<Rightarrow> json \<Rightarrow> int \<Rightarrow> session_configuration \<Rightarrow> working_state \<Rightarrow> conversation_message list \<Rightarrow>
    in_flight_operation option \<Rightarrow> json_object option \<Rightarrow> json \<Rightarrow> json_object \<Rightarrow> session_error + session_snapshot" where
  "snapshot_new session_id task_id sequence configuration state conversation in_flight binding fingerprint carried =
     bindE (validate_id session_id ''session_id'') (\<lambda>sid.
     bindE (validate_id task_id ''task_id'') (\<lambda>tid.
     if ws_task_id state \<noteq> tid then Inl (SessionError ''snapshot WorkingState belongs to another task'')
     else Inr \<lparr>sn_session_id = sid, sn_task_id = tid, sn_sequence = sequence, sn_configuration = configuration,
               sn_working_state = state, sn_conversation = conversation, sn_in_flight = in_flight,
               sn_binding = binding, sn_cache_fingerprint = fingerprint, sn_carried = carried\<rparr>))"

definition snapshot_fields :: "session_snapshot \<Rightarrow> json_object" where
  "snapshot_fields sn =
     [(''schema_version'', JInt 1), (''session_id'', JStr (sn_session_id sn)), (''task_id'', JStr (sn_task_id sn)),
      (''sequence'', JInt (sn_sequence sn)), (''configuration'', configuration_to_dict (sn_configuration sn)),
      (''working_state'', to_dict (sn_working_state sn)),
      (''conversation'', JList (map message_to_dict (sn_conversation sn))),
      (''in_flight'', in_flight_to_dict (sn_in_flight sn)),
      (''standard_binding'', (case sn_binding sn of None \<Rightarrow> JNull | Some b \<Rightarrow> JObj b)),
      (''standard_retrieval_cache_fingerprint'', sn_cache_fingerprint sn)] @ sn_carried sn"

definition snapshot_to_dict :: "session_snapshot \<Rightarrow> json" where
  "snapshot_to_dict sn = session_safe (JObj (snapshot_fields sn))"

definition required :: "json_object \<Rightarrow> string \<Rightarrow> session_error + json" where
  "required d name = (case map_of d name of None \<Rightarrow> Inl malformed_snapshot | Some v \<Rightarrow> Inr v)"

definition state_or_malformed :: "ws_error + working_state \<Rightarrow> session_error + working_state" where
  "state_or_malformed r = (case r of Inl _ \<Rightarrow> Inl malformed_snapshot | Inr s \<Rightarrow> Inr s)"

definition binding_field :: "json \<Rightarrow> session_error + json_object option" where
  "binding_field v =
     (case v of
        JNull \<Rightarrow> Inr None
      | JObj b \<Rightarrow> (case binding_from_dict b of Inl _ \<Rightarrow> Inl malformed_snapshot | Inr b' \<Rightarrow> Inr (Some b'))
      | _ \<Rightarrow> Inl (SessionError ''malformed standard binding''))"

text \<open>\<open>num\<close> is how \<open>int()\<close> reads a value that is not an integer.\<close>

definition snapshot_from_dict :: "(json \<Rightarrow> string) \<Rightarrow> (json \<Rightarrow> int option) \<Rightarrow> json \<Rightarrow> session_error + session_snapshot" where
  "snapshot_from_dict text num raw =
     (case raw of
        JObj d \<Rightarrow>
          (if \<not> py_is_one (get d ''schema_version'') then Inl (SessionError ''unsupported or malformed session snapshot'')
           else
             bindE (required d ''task_id'') (\<lambda>task_id.
             bindE (bindE (required d ''configuration'') configuration_from_dict) (\<lambda>configuration.
             bindE (bindE (required d ''working_state'') (\<lambda>w. state_or_malformed (from_dict w))) (\<lambda>state.
             bindE (required d ''conversation'') (\<lambda>raw_conversation.
             bindE (case py_iter raw_conversation of
                      None \<Rightarrow> Inl malformed_snapshot
                    | Some items \<Rightarrow> mapE (message_from_dict text) items) (\<lambda>conversation.
             bindE (in_flight_from_dict (get d ''in_flight'')) (\<lambda>in_flight.
             bindE (binding_field (get d ''standard_binding'')) (\<lambda>binding.
             bindE (required d ''session_id'') (\<lambda>session_id.
             bindE (bindE (required d ''sequence'') (\<lambda>v. case py_int num v of None \<Rightarrow> Inl malformed_snapshot | Some n \<Rightarrow> Inr n))
               (\<lambda>sequence.
             snapshot_new session_id task_id sequence configuration state conversation in_flight binding
               (get d ''standard_retrieval_cache_fingerprint'') (filter (\<lambda>(k, _). k \<in> set carried_fields) d)))))))))))
      | _ \<Rightarrow> Inl (SessionError ''unsupported or malformed session snapshot''))"

definition save_snapshot :: "session_snapshot \<Rightarrow> session_store \<Rightarrow> session_store" where
  "save_snapshot sn st =
     put_directory (sn_session_id sn) ((dir_of st (sn_session_id sn))\<lparr>dr_snapshot := Stored (snapshot_to_dict sn)\<rparr>) st"

definition load_snapshot :: "(json \<Rightarrow> string) \<Rightarrow> (json \<Rightarrow> int option) \<Rightarrow> session_store \<Rightarrow> string \<Rightarrow> session_error + session_snapshot" where
  "load_snapshot text num st sid =
     bindE (validate_id (JStr sid) ''session_id'') (\<lambda>_.
     case dr_snapshot (dir_of st sid) of
       Missing \<Rightarrow> Inl (SessionError ''session snapshot not found'')
     | Damaged \<Rightarrow> Inl (SessionError ''malformed session snapshot: '')
     | Stored j \<Rightarrow>
         bindE (snapshot_from_dict text num j) (\<lambda>sn.
         if sn_session_id sn \<noteq> sid then Inl (SessionError ''snapshot session ID mismatch'') else Inr sn))"

section \<open>Handles\<close>

record session_handle =
  sh_session_id :: string
  sh_configuration :: session_configuration
  sh_sequence :: int

text \<open>\<open>mint\<close> gives the identifier and the time of the event with a sequence number.\<close>

definition handle_append :: "(int \<Rightarrow> json \<times> json) \<Rightarrow> session_event_type \<Rightarrow> json \<Rightarrow> json_object \<Rightarrow> session_handle \<times> session_store \<Rightarrow>
    session_error option \<times> session_handle \<times> session_store" where
  "handle_append mint ty task_id payload hs =
     (case hs of (h, st) \<Rightarrow>
      let n = sh_sequence h + 1; (event_id, timestamp) = mint n in
      case session_event_new ty (JStr (sh_session_id h)) task_id n payload event_id timestamp (JInt 1) of
        Inl err \<Rightarrow> (Some err, h\<lparr>sh_sequence := n\<rparr>, st)
      | Inr e \<Rightarrow>
          (case append_session_event e st of
             (Some err, st') \<Rightarrow> (Some err, h, st')
           | (None, st') \<Rightarrow> (None, h\<lparr>sh_sequence := n\<rparr>, st')))"

definition handle_save :: "session_snapshot \<Rightarrow> session_handle \<times> session_store \<Rightarrow> session_error option \<times> session_store" where
  "handle_save sn hs =
     (case hs of (h, st) \<Rightarrow>
      if sn_session_id sn \<noteq> sh_session_id h \<or> sn_sequence sn \<noteq> sh_sequence h
      then (Some (SessionError ''snapshot does not match session handle''), st)
      else (None, save_snapshot sn st))"

definition assert_compatible :: "session_configuration \<Rightarrow> session_handle \<Rightarrow> session_error option" where
  "assert_compatible stored h =
     (if compatible_with stored (sh_configuration h) then None
      else Some (SessionCompatibilityError ''workspace/project/runtime configuration mismatch''))"

text \<open>
  A live task records an event: first in the working state, then, if it was accepted, in the log
  (\<open>AgentContext.apply_state_event\<close> of a task with a session).
\<close>

definition transition_payload :: "state_event \<Rightarrow> json_object" where
  "transition_payload ev =
     [(''state_event_id'', JStr (ev_id ev)), (''state_event_type'', JStr (event_type_value (ev_type ev))),
      (''state_event'', event_to_dict ev)]"

definition record_transition :: "(int \<Rightarrow> json \<times> json) \<Rightarrow> state_event \<Rightarrow> working_state \<times> session_handle \<times> session_store \<Rightarrow>
    session_error option \<times> working_state \<times> session_handle \<times> session_store" where
  "record_transition mint ev x =
     (case x of (s, hs) \<Rightarrow>
      case apply_event ev s of
        (Some _, s') \<Rightarrow> (Some (OtherException ''WorkingStateError''), s', hs)
      | (None, s') \<Rightarrow>
          (case handle_append mint SE_WORKING_STATE_TRANSITION (JStr (ws_task_id s)) (transition_payload ev) hs of
             (r, hs') \<Rightarrow> (r, s', hs')))"

section \<open>Restoration\<close>

text \<open>
  The binding against the standard that is there now: what to go on with, and whether the index
  changed.  \<open>available\<close> is the lookup in the store of standards, none when there is no store.
\<close>

definition or_json :: "json \<Rightarrow> json \<Rightarrow> json" where
  "or_json a b = (if json_truthy a then a else b)"

definition retrieval_of :: "json_object \<Rightarrow> json" where
  "retrieval_of b = or_json (get b ''retrieval_fingerprint'') (get b ''index_fingerprint'')"

definition check_standard_binding :: "(json_object \<Rightarrow> string + json_object) option \<Rightarrow> json_object option \<Rightarrow>
    session_error + json_object option \<times> bool" where
  "check_standard_binding available stored =
     (case (stored, available) of
        (Some b, Some lookup) \<Rightarrow>
          (case lookup b of
             Inl _ \<Rightarrow> Inl (SessionCompatibilityError ''Resume blocked: bound canonical normative source is unavailable'')
           | Inr a \<Rightarrow>
               if get b ''pdf_sha256'' \<noteq> get a ''pdf_sha256'' \<or> get b ''corpus_manifest_sha256'' \<noteq> get a ''corpus_manifest_sha256''
                  \<or> get b ''revision'' \<noteq> get a ''revision''
               then Inl (SessionCompatibilityError ''Resume blocked: canonical normative source changed'')
               else if retrieval_of b \<noteq> retrieval_of a then Inr (Some a, True) else Inr (Some b, False))
      | _ \<Rightarrow> Inr (stored, False))"

text \<open>Replaying the durable events behind the snapshot.\<close>

definition ws_raise :: "ws_error option \<times> working_state \<Rightarrow> session_error + working_state" where
  "ws_raise r = (case r of (Some _, _) \<Rightarrow> Inl (OtherException ''WorkingStateError'') | (None, s) \<Rightarrow> Inr s)"

definition replay_event :: "(json \<Rightarrow> string) \<Rightarrow> session_event \<Rightarrow> working_state \<times> in_flight_operation option \<times> int \<Rightarrow>
    session_error + working_state \<times> in_flight_operation option \<times> int" where
  "replay_event text e acc =
     (case acc of (s, in_flight, _) \<Rightarrow>
      let n = se_sequence e; payload = se_payload e in
      if se_type e = SE_WORKING_STATE_TRANSITION
      then case get payload ''state_event'' of
             JObj raw \<Rightarrow>
               (case event_from_dict (JObj raw) of
                  Inl _ \<Rightarrow> Inl (OtherException ''WorkingStateError'')
                | Inr ev \<Rightarrow>
                    if ev_id ev \<in> ws_applied_event_ids s then Inr (s, in_flight, n)
                    else bindE (ws_raise (apply_event ev s)) (\<lambda>s'. Inr (s', in_flight, n)))
           | _ \<Rightarrow> Inr (s, in_flight, n)
      else if se_type e = SE_TOOL_ACTION_STARTED
      then Inr (s, Some \<lparr>fl_kind = ''tool'', fl_operation_id = py_str text (get_default payload ''tool_call_id'' (JStr ''unknown'')),
             fl_name = py_str text (get_default payload ''tool_name'' (JStr ''unknown'')),
             fl_mutating = JBool (py_bool (get_default payload ''mutating'' (JBool False)))\<rparr>, n)
      else if se_type e = SE_MODEL_TURN_STARTED
      then Inr (s, Some \<lparr>fl_kind = ''model'', fl_operation_id = py_str text (se_event_id e), fl_name = ''model_complete'',
             fl_mutating = JBool False\<rparr>, n)
      else if se_type e \<in> {SE_TOOL_ACTION_COMPLETED, SE_MODEL_TURN_COMPLETED} then Inr (s, None, n)
      else Inr (s, in_flight, n))"

fun replay_events :: "(json \<Rightarrow> string) \<Rightarrow> session_event list \<Rightarrow> working_state \<times> in_flight_operation option \<times> int \<Rightarrow>
    session_error + working_state \<times> in_flight_operation option \<times> int" where
  "replay_events text [] acc = Inr acc"
| "replay_events text (e # es) acc = bindE (replay_event text e acc) (replay_events text es)"

definition harness_event :: "(working_state \<Rightarrow> string \<times> string \<times> int) \<Rightarrow> state_event_type \<Rightarrow> json_object \<Rightarrow> working_state \<Rightarrow>
    session_error + working_state" where
  "harness_event stamp ty data s =
     (let (event_id, timestamp, ns) = stamp s in
      case state_event_new ty (ws_task_id s) HARNESS data event_id timestamp ns of
        Inl _ \<Rightarrow> Inl (OtherException ''WorkingStateError'')
      | Inr ev \<Rightarrow> ws_raise (apply_event ev s))"

definition resume_task :: "(working_state \<Rightarrow> string \<times> string \<times> int) \<Rightarrow> working_state \<Rightarrow> session_error + working_state" where
  "resume_task stamp s =
     (if ws_terminal_status s = TS_INTERRUPTED then harness_event stamp TASK_RESUMED [] s else Inr s)"

definition interrupted_action_id :: "string \<Rightarrow> string" where
  "interrupted_action_id operation_id = ''resume_interrupted_'' @
     map (\<lambda>c. if ascii_letter c \<or> ascii_digit c \<or> c \<in> set ''_-'' then c else CHR ''_'') operation_id"

definition cancelled_data :: "in_flight_operation \<Rightarrow> working_state \<Rightarrow> json_object" where
  "cancelled_data i s =
     [(''action_id'', JStr (interrupted_action_id (fl_operation_id i))), (''kind'', JStr (action_kind_value AK_TOOL)),
      (''name'', JStr (fl_name i)), (''observed_status'', JStr ''cancelled''), (''category'', JStr ''interrupted''),
      (''summary'', JStr ''tool outcome was not grounded before interruption''),
      (''round_number'', JInt (ws_current_round s))]"

definition harness_message :: "content_block list \<Rightarrow> conversation_message" where
  "harness_message blocks = \<lparr>cv_role = JStr ''user'', cv_content = blocks, cv_authored_by = JStr ''operator''\<rparr>"

text \<open>A tool that was running becomes a cancelled action and an error result; nothing is run again.\<close>

definition cancel_in_flight :: "(working_state \<Rightarrow> string \<times> string \<times> int) \<Rightarrow> in_flight_operation option \<Rightarrow> working_state \<Rightarrow>
    conversation_message list \<Rightarrow> session_error + working_state \<times> conversation_message list \<times> in_flight_operation option" where
  "cancel_in_flight stamp in_flight s conversation =
     (case in_flight of
        None \<Rightarrow> Inr (s, conversation, None)
      | Some i \<Rightarrow>
          if fl_kind i \<noteq> ''tool'' then Inr (s, conversation, Some i)
          else bindE (if list_ex (\<lambda>a. ar_action_id a = interrupted_action_id (fl_operation_id i)) (ws_actions s) then Inr s
                      else harness_event stamp ACTION_CANCELLED (cancelled_data i s) s) (\<lambda>s'.
               Inr (s', conversation @ [harness_message [ToolResultBlock (fl_operation_id i)
                 (''ERROR: the prior tool operation was interrupted; its outcome is unknown and '' @
                  ''it was not automatically repeated.'') True]], None)))"

fun call_id :: "content_block \<Rightarrow> string list" where
  "call_id (ToolUseBlock i _ _) = [i]"
| "call_id _ = []"

fun answer_id :: "content_block \<Rightarrow> string list" where
  "answer_id (ToolResultBlock i _ _) = [i]"
| "answer_id _ = []"

definition blocks :: "conversation_message list \<Rightarrow> content_block list" where
  "blocks conversation = concat (map cv_content conversation)"

definition missing :: "conversation_message list \<Rightarrow> string list" where
  "missing conversation =
     (let answered = concat (map answer_id (blocks conversation)) in
      filter (\<lambda>i. i \<notin> set answered) (concat (map call_id (blocks conversation))))"

definition close_calls :: "conversation_message list \<Rightarrow> conversation_message list" where
  "close_calls conversation =
     (if missing conversation = [] then conversation
      else conversation @ [harness_message (map (\<lambda>i. ToolResultBlock i
        ''ERROR: this tool operation was interrupted; it was not automatically repeated.'' True) (missing conversation))])"

definition changed_payload :: "json_object \<Rightarrow> json_object \<Rightarrow> json_object" where
  "changed_payload old b =
     [(''old_retrieval_fingerprint'', retrieval_of old), (''new_retrieval_fingerprint'', retrieval_of b),
      (''components'', JObj [(''lexical'', get b ''index_fingerprint''), (''vector'', get b ''vector_index_fingerprint''),
         (''cross_references'', get b ''cross_reference_index_fingerprint'')]),
      (''canonical_source_unchanged'', JBool True), (''cached_retrieval_invalidated'', JBool True)]"

definition index_payload :: "json_object \<Rightarrow> json_object \<Rightarrow> json_object" where
  "index_payload old b =
     [(''old_index_fingerprint'', get old ''index_fingerprint''), (''new_index_fingerprint'', get b ''index_fingerprint''),
      (''canonical_source_unchanged'', JBool True), (''cached_retrieval_invalidated'', JBool True)]"

text \<open>The lines a restoration adds to the log, in order.\<close>

definition resume_lines :: "json_object option \<Rightarrow> json_object option \<Rightarrow> bool \<Rightarrow> int \<Rightarrow> (session_event_type \<times> json_object) list" where
  "resume_lines old new index_changed from_sequence =
     (case (old, new, index_changed) of
        (Some o1, Some b, True) \<Rightarrow>
          [(SE_STANDARD_RETRIEVAL_CHANGED, changed_payload o1 b)] @
          (if get o1 ''index_fingerprint'' \<noteq> get b ''index_fingerprint'' then [(SE_STANDARD_INDEX_CHANGED, index_payload o1 b)] else [])
      | _ \<Rightarrow> []) @ [(SE_SESSION_RESUMED, [(''from_sequence'', JInt from_sequence)])]"

fun append_lines :: "(int \<Rightarrow> json \<times> json) \<Rightarrow> json \<Rightarrow> (session_event_type \<times> json_object) list \<Rightarrow> session_handle \<times> session_store \<Rightarrow>
    session_error option \<times> session_handle \<times> session_store" where
  "append_lines mint task_id [] hs = (None, hs)"
| "append_lines mint task_id ((ty, payload) # ls) hs =
     (case handle_append mint ty task_id payload hs of
        (Some err, hs') \<Rightarrow> (Some err, hs')
      | (None, hs') \<Rightarrow> append_lines mint task_id ls hs')"

definition restored_fingerprint :: "json_object option \<Rightarrow> bool \<Rightarrow> json \<Rightarrow> json" where
  "restored_fingerprint binding index_changed stored =
     (case (index_changed, binding) of (True, Some b) \<Rightarrow> retrieval_of b | _ \<Rightarrow> stored)"

text \<open>What is restored, before anything is written.\<close>

definition restored_snapshot :: "(json \<Rightarrow> string) \<Rightarrow> (json \<Rightarrow> int option) \<Rightarrow> (working_state \<Rightarrow> string \<times> string \<times> int) \<Rightarrow>
    (json_object \<Rightarrow> string + json_object) option \<Rightarrow> session_store \<Rightarrow> string \<Rightarrow> session_configuration \<Rightarrow>
    session_error + session_snapshot \<times> session_snapshot \<times> bool" where
  "restored_snapshot text num stamp available st sid current =
     bindE (load_snapshot text num st sid) (\<lambda>stored.
     if \<not> compatible_with (sn_configuration stored) current
     then Inl (SessionCompatibilityError ''workspace/project/runtime configuration mismatch'')
     else bindE (check_standard_binding available (sn_binding stored)) (\<lambda>(binding, index_changed).
     bindE (case from_dict (to_dict (sn_working_state stored)) of
              Inl _ \<Rightarrow> Inl (OtherException ''WorkingStateError'') | Inr s \<Rightarrow> Inr s) (\<lambda>state.
     bindE (events st sid (sn_sequence stored)) (\<lambda>es.
     bindE (replay_events text es (state, sn_in_flight stored, sn_sequence stored)) (\<lambda>(state1, in_flight, sequence).
     bindE (resume_task stamp state1) (\<lambda>state2.
     bindE (cancel_in_flight stamp in_flight state2 (sn_conversation stored)) (\<lambda>(state3, conversation, in_flight').
     bindE (snapshot_new (JStr sid) (JStr (sn_task_id stored)) sequence current state3 (close_calls conversation) in_flight'
              binding (restored_fingerprint binding index_changed (sn_cache_fingerprint stored)) (sn_carried stored))
       (\<lambda>restored. Inr (stored, restored, index_changed)))))))))"

definition restore_session :: "(json \<Rightarrow> string) \<Rightarrow> (json \<Rightarrow> int option) \<Rightarrow> (working_state \<Rightarrow> string \<times> string \<times> int) \<Rightarrow>
    (int \<Rightarrow> json \<times> json) \<Rightarrow> (json_object \<Rightarrow> string + json_object) option \<Rightarrow> string \<Rightarrow> session_configuration \<Rightarrow> session_store \<Rightarrow>
    (session_error + session_handle \<times> session_snapshot) \<times> session_store" where
  "restore_session text num stamp mint available sid current st =
     (case restored_snapshot text num stamp available st sid current of
        Inl err \<Rightarrow> (Inl err, st)
      | Inr (stored, restored, index_changed) \<Rightarrow>
          let h = \<lparr>sh_session_id = sid, sh_configuration = current, sh_sequence = sn_sequence restored\<rparr> in
          (case append_lines mint (JStr (sn_task_id restored))
                  (resume_lines (sn_binding stored) (sn_binding restored) index_changed (sn_sequence stored)) (h, st) of
             (Some err, _, st') \<Rightarrow> (Inl err, st')
           | (None, h', st') \<Rightarrow>
               let final = restored\<lparr>sn_sequence := sh_sequence h'\<rparr> in
               (case handle_save final (h', st') of
                  (Some err, st'') \<Rightarrow> (Inl err, st'')
                | (None, st'') \<Rightarrow> (Inr (h', final), st''))))"

end
