(* ===== verification/Session_Log_Props.thy ===== *)
theory Session_Log_Props
  imports Session_Restore
begin

text \<open>
  The log of a session through appends, saves and crashes: it stays readable and loses nothing
  that was acknowledged.
\<close>

section \<open>Lines\<close>

text \<open>An event whose line reads back as the event: nothing in it is redacted.\<close>

definition written :: "session_event \<Rightarrow> bool" where
  "written e \<longleftrightarrow> id_ok (se_session_id e) \<and> id_ok (se_task_id e) \<and> 1 \<le> se_sequence e \<and>
     json_finite (JObj (se_payload e)) \<and> py_is_one (se_schema e) \<and>
     session_safe (JObj (event_fields e)) = JObj (event_fields e)"

lemma session_event_value_roundtrip [simp]:
  "enum_of session_event_value all_session_events (JStr (session_event_value k)) = Some k"
  by (cases k) (simp_all add: enum_of_def all_session_events_def)

lemma not_secret_payload [simp]: "\<not> secret_key ''payload''"
  by code_simp

lemma written_line: "written e \<Longrightarrow> read_line (Some (session_event_to_dict e)) = Some e"
proof -
  assume w: "written e"
  then have d: "session_event_to_dict e = JObj (event_fields e)" by (simp add: session_event_to_dict_def written_def)
  from w have "(''payload'', session_safe (JObj (se_payload e))) = (''payload'', JObj (se_payload e))"
    by (simp add: written_def event_fields_def del: session_safe.simps(2)) (simp add: event_fields_def)
  then have "session_safe (JObj (se_payload e)) = JObj (se_payload e)" by simp
  with w show ?thesis unfolding d
    by (simp add: read_line_def session_event_from_dict_def event_fields_def get_def get_default_def
        session_event_new_def validate_id_def written_def del: session_safe.simps)
qed

definition last_seq :: "int \<Rightarrow> session_event list \<Rightarrow> int" where
  "last_seq n es = (if es = [] then n else se_sequence (last es))"

lemma last_seq_Cons [simp]: "last_seq n (e # es) = last_seq (se_sequence e) es"
  by (simp add: last_seq_def)

lemma last_seq_Nil [simp]: "last_seq n [] = n"
  by (simp add: last_seq_def)

text \<open>What is behind the terminated lines: nothing, a piece, or one more event.\<close>

lemma read_lines_tail:
  assumes "read_lines sid n i ls None = Inr es"
  shows "read_lines sid n i ls (Some None) = Inr es"
    "read_line l = Some e \<Longrightarrow> admit_event sid (last_seq n es) e = None \<Longrightarrow> read_lines sid n i ls (Some l) = Inr (es @ [e])"
    "read_line l = Some e \<Longrightarrow> admit_event sid (last_seq n es) e = None \<Longrightarrow> read_lines sid n i (ls @ [l]) None = Inr (es @ [e])"
  using assms
proof (induction ls arbitrary: n i es)
  case (Cons a ls)
  { case 1 then show ?case using Cons.IH(1) by (fastforce simp: raise_simps split: option.splits) }
  { case 2 then show ?case using Cons.IH(2) by (fastforce simp: raise_simps split: option.splits) }
  { case 3 then show ?case using Cons.IH(3) by (fastforce simp: raise_simps split: option.splits) }
qed (simp_all add: read_line_def)

lemma read_lines_sequences:
  "read_lines sid n i ls t = Inr es \<Longrightarrow>
   sorted_wrt (\<lambda>a b. se_sequence a < se_sequence b) es \<and> list_all (\<lambda>e. n < se_sequence e \<and> se_session_id e = sid) es"
proof (induction ls arbitrary: n i es)
  case Nil
  then show ?case by (auto simp: admit_event_def split: option.splits if_splits)
next
  case (Cons a ls)
  then obtain e es' where e: "admit_event sid n e = None" "read_lines sid (se_sequence e) (Suc i) ls t = Inr es'" "es = e # es'"
    by (auto simp: raise_simps split: option.splits)
  with Cons.IH [OF e(2)] show ?case by (fastforce simp: admit_event_def list_all_iff split: if_splits)
qed

section \<open>The store as an object\<close>

text \<open>What a session's log holds in terminated lines.\<close>

definition log_of :: "session_store \<Rightarrow> string \<Rightarrow> session_error + session_event list" where
  "log_of st sid = read_lines sid 0 0 (dr_lines (dir_of st sid)) None"

text \<open>
  The log is readable, what is remembered of it is true, and the torn end, if it can be read, is
  one more event of the session.
\<close>

definition tail_ok :: "string \<Rightarrow> session_event list \<Rightarrow> json option option \<Rightarrow> bool" where
  "tail_ok sid es tail \<longleftrightarrow>
     (case tail of Some line \<Rightarrow> (case read_line line of Some e \<Rightarrow> admit_event sid (last_seq 0 es) e = None | None \<Rightarrow> True) | None \<Rightarrow> True)"

definition log_ok_of :: "session_store \<Rightarrow> string \<Rightarrow> bool" where
  "log_ok_of st sid \<longleftrightarrow>
     (case log_of st sid of
        Inl _ \<Rightarrow> False
      | Inr es \<Rightarrow> map_of (ss_last st) sid \<in> {None, Some (last_seq 0 es)} \<and> tail_ok sid es (dr_tail (dir_of st sid)))"

definition store_inv :: "session_store \<Rightarrow> bool" where
  "store_inv st \<longleftrightarrow> (\<forall>sid. log_ok_of st sid)"

lemma dir_of_put [simp]: "dir_of (put_directory sid d st) sid' = (if sid' = sid then d else dir_of st sid')"
  by (simp add: dir_of_def put_directory_def dict_simps)

lemma ss_last_put [simp]: "ss_last (put_directory sid d st) = ss_last st"
  by (simp add: put_directory_def)

lemma dir_of_last [simp]: "dir_of (st\<lparr>ss_last := l\<rparr>) sid = dir_of st sid"
  by (simp add: dir_of_def)

lemma drop_tail_simps [simp]: "dr_lines (drop_tail d) = dr_lines d" "dr_tail (drop_tail d) = None"
  "dr_snapshot (drop_tail d) = dr_snapshot d"
  by (simp_all add: drop_tail_def)

lemma log_of_last [simp]: "log_of (st\<lparr>ss_last := l\<rparr>) sid = log_of st sid"
  by (simp add: log_of_def)

lemma log_of_put:
  "log_of (put_directory sid d st) sid' = (if sid' = sid then read_lines sid 0 0 (dr_lines d) None else log_of st sid')"
  by (simp add: log_of_def)

text \<open>Preparing an append keeps the log and removes the torn end.\<close>

lemma prepare_append_cases:
  assumes "prepare_append e st = (r, st1)"
  shows "st1 = put_directory (se_session_id e) (drop_tail (dir_of st (se_session_id e))) st"
  using assms by (auto simp: prepare_append_def Let_def split: sum.splits option.splits if_splits)

lemma prepared_log:
  "prepare_append e st = (r, st1) \<Longrightarrow> log_of st1 sid = log_of st sid \<and> ss_last st1 = ss_last st"
  by (drule prepare_append_cases) (simp add: log_of_put, simp add: log_of_def)

lemma prepared_tail:
  "prepare_append e st = (r, st1) \<Longrightarrow>
   dr_tail (dir_of st1 sid) = (if sid = se_session_id e then None else dr_tail (dir_of st sid))"
  by (drule prepare_append_cases) simp

text \<open>An append that was admitted has a greater number than every line.\<close>

lemma prepare_append_increases:
  assumes "prepare_append e st = (None, st1)" "store_inv st" "log_of st (se_session_id e) = Inr es" "id_ok (se_session_id e)"
  shows "admit_event (se_session_id e) (last_seq 0 es) e = None"
proof -
  let ?sid = "se_session_id e" and ?st1 = "put_directory (se_session_id e) (drop_tail (dir_of st (se_session_id e))) st"
  have inv: "map_of (ss_last st) ?sid \<in> {None, Some (last_seq 0 es)}"
    using assms(2,3) by (auto simp: store_inv_def log_ok_of_def split: sum.splits)
  have "read_lines ?sid 0 0 (dr_lines (dir_of st ?sid)) None = Inr es" using assms(3) by (simp add: log_of_def)
  moreover from read_lines_sequences [OF this] have "filter (\<lambda>e. 0 < se_sequence e) es = es" by (simp add: list_all_iff filter_id_conv)
  ultimately have "events ?st1 ?sid 0 = Inr es"
    using assms(4) by (simp add: events_def validate_id_def)
  with assms(1) inv have "last_seq 0 es < se_sequence e"
    by (auto simp: prepare_append_def Let_def last_seq_def split: option.splits if_splits)
  then show ?thesis by (simp add: admit_event_def)
qed

section \<open>Operations\<close>

datatype store_op = Append session_event | Crash cut session_event | Save session_snapshot

fun store_step :: "store_op \<Rightarrow> session_store \<Rightarrow> session_error option \<times> session_store" where
  "store_step (Append e) st = append_session_event e st"
| "store_step (Crash c e) st = (None, crash_append c e st)"
| "store_step (Save sn) st = (None, save_snapshot sn st)"

fun valid_op :: "store_op \<Rightarrow> bool" where
  "valid_op (Append e) = written e"
| "valid_op (Crash c e) = written e"
| "valid_op (Save sn) = True"

lemma store_invD:
  assumes "store_inv st"
  obtains es where "log_of st sid = Inr es" "map_of (ss_last st) sid \<in> {None, Some (last_seq 0 es)}"
    "tail_ok sid es (dr_tail (dir_of st sid))"
proof -
  have "log_ok_of st sid" using assms by (simp add: store_inv_def)
  then show thesis by (auto simp: log_ok_of_def split: sum.splits intro: that)
qed

text \<open>A line that was admitted, at each stage of its writing.\<close>

lemma write_line_log:
  assumes "prepare_append e st = (None, st1)" "store_inv st" "written e" "log_of st (se_session_id e) = Inr es"
  shows "log_of (write_line e st1) sid = (if sid = se_session_id e then Inr (es @ [e]) else log_of st sid)"
    "tail_ok (se_session_id e) es (Some (Some (session_event_to_dict e)))"
proof -
  have w: "read_line (Some (session_event_to_dict e)) = Some e" using assms(3) by (rule written_line)
  have a: "admit_event (se_session_id e) (last_seq 0 es) e = None"
    using assms by (intro prepare_append_increases) (auto simp: written_def)
  have "read_lines (se_session_id e) 0 0 (dr_lines (dir_of st1 (se_session_id e))) None = Inr es"
    using prepared_log [OF assms(1)] assms(4) by (simp add: log_of_def)
  from read_lines_tail(3) [OF this w a] prepared_log [OF assms(1)]
  show "log_of (write_line e st1) sid = (if sid = se_session_id e then Inr (es @ [e]) else log_of st sid)"
    by (simp add: write_line_def Let_def log_of_put)
  show "tail_ok (se_session_id e) es (Some (Some (session_event_to_dict e)))" by (simp add: tail_ok_def w a)
qed

lemma log_okI:
  "log_of st sid = Inr es \<Longrightarrow> map_of (ss_last st) sid \<in> {None, Some (last_seq 0 es)} \<Longrightarrow>
   tail_ok sid es (dr_tail (dir_of st sid)) \<Longrightarrow> log_ok_of st sid"
  by (simp add: log_ok_of_def)

lemma tail_ok_simps [simp]: "tail_ok sid es None" "tail_ok sid es (Some None)"
  by (simp_all add: tail_ok_def read_line_def)

lemma prepared_inv:
  assumes "prepare_append e st = (r, st1)" "store_inv st"
  shows "store_inv st1" "store_inv (st1\<lparr>ss_last := []\<rparr>)"
proof -
  have *: "log_ok_of (st1\<lparr>ss_last := l\<rparr>) sid" if "l = ss_last st \<or> l = []" for l sid
  proof (rule store_invD [OF assms(2), of sid])
    fix es assume "log_of st sid = Inr es" "map_of (ss_last st) sid \<in> {None, Some (last_seq 0 es)}"
      "tail_ok sid es (dr_tail (dir_of st sid))"
    with that show ?thesis using prepared_log [OF assms(1)] prepared_tail [OF assms(1)]
      by (intro log_okI [of _ _ es]) auto
  qed
  from * [of "[]"] show "store_inv (st1\<lparr>ss_last := []\<rparr>)" by (simp add: store_inv_def)
  have "ss_last st1 = ss_last st" using prepared_log [OF assms(1)] by simp
  then have "log_ok_of (st1\<lparr>ss_last := ss_last st1\<rparr>) sid" for sid by (intro *) simp
  then show "store_inv st1" by (simp add: store_inv_def)
qed

lemma written_inv:
  assumes "prepare_append e st = (None, st1)" "store_inv st" "written e"
    and l: "l = [] \<or> l = AList.update (se_session_id e) (se_sequence e) (ss_last st)"
  shows "store_inv ((write_line e st1)\<lparr>ss_last := l\<rparr>)"
  unfolding store_inv_def
proof
  fix sid
  obtain es where es: "log_of st (se_session_id e) = Inr es" using assms(2) by (rule store_invD)
  have tail: "dr_tail (dir_of (write_line e st1) sid) = dr_tail (dir_of st1 sid)"
    by (simp add: write_line_def Let_def)
  show "log_ok_of ((write_line e st1)\<lparr>ss_last := l\<rparr>) sid"
  proof (cases "sid = se_session_id e")
    case True
    then show ?thesis using write_line_log(1) [OF assms(1-3) es] prepared_tail [OF assms(1)] l tail
      by (intro log_okI [of _ _ "es @ [e]"]) (auto simp: dict_simps last_seq_def)
  next
    case False
    obtain fs where fs: "log_of st sid = Inr fs" "map_of (ss_last st) sid \<in> {None, Some (last_seq 0 fs)}"
      "tail_ok sid fs (dr_tail (dir_of st sid))" using assms(2) by (rule store_invD)
    with False write_line_log(1) [OF assms(1-3) es, of sid] prepared_tail [OF assms(1), of sid] l tail show ?thesis
      by (intro log_okI [of _ _ fs]) (auto simp: dict_simps)
  qed
qed

lemma unterminated_inv:
  assumes "prepare_append e st = (None, st1)" "store_inv st" "written e"
    and t: "t \<in> {None, Some (session_event_to_dict e)}"
  shows "store_inv ((put_directory (se_session_id e) ((dir_of st1 (se_session_id e))\<lparr>dr_tail := Some t\<rparr>) st1)\<lparr>ss_last := []\<rparr>)"
  unfolding store_inv_def
proof
  fix sid
  obtain es where es: "log_of st (se_session_id e) = Inr es" using assms(2) by (rule store_invD)
  obtain fs where fs: "log_of st sid = Inr fs" "tail_ok sid fs (dr_tail (dir_of st sid))" using assms(2) by (rule store_invD)
  show "log_ok_of ((put_directory (se_session_id e) ((dir_of st1 (se_session_id e))\<lparr>dr_tail := Some t\<rparr>) st1)\<lparr>ss_last := []\<rparr>) sid"
    using es fs t write_line_log(2) [OF assms(1-3) es] prepared_log [OF assms(1), of sid] prepared_tail [OF assms(1), of sid]
    by (intro log_okI [of _ _ fs]) (auto simp: log_of_put, simp_all add: log_of_def)
qed

lemma save_log: "log_of (save_snapshot sn st) sid = log_of st sid"
  "ss_last (save_snapshot sn st) = ss_last st" "dr_tail (dir_of (save_snapshot sn st) sid) = dr_tail (dir_of st sid)"
  by (auto simp: save_snapshot_def log_of_def)

interpretation sessions: robust_object store_step valid_op store_inv
proof
  fix c st assume c: "valid_op c" and inv: "store_inv st"
  show "store_inv (snd (store_step c st))"
  proof (cases c)
    case (Append e)
    obtain r st1 where "prepare_append e st = (r, st1)" by (cases "prepare_append e st")
    with Append c inv prepared_inv written_inv prepared_log show ?thesis
      by (cases r) (auto simp: append_session_event_def)
  next
    case (Crash k e)
    obtain r st1 where p: "prepare_append e st = (r, st1)" by (cases "prepare_append e st")
    show ?thesis
    proof (cases r)
      case None
      with p Crash c inv show ?thesis
        by (cases k) (auto simp: crash_append_def Let_def intro: prepared_inv written_inv unterminated_inv)
    qed (use p Crash inv prepared_inv in \<open>auto simp: crash_append_def\<close>)
  next
    case (Save sn)
    with inv show ?thesis by (auto simp: store_inv_def log_ok_of_def save_log split: sum.splits)
  qed
qed

section \<open>Nothing acknowledged is lost\<close>

lemma step_log:
  assumes "store_inv st" "valid_op c" "log_of st sid = Inr es"
  shows "\<exists>fs. log_of (snd (store_step c st)) sid = Inr (es @ fs)"
proof (cases c)
  case (Append e)
  obtain r st1 where p: "prepare_append e st = (r, st1)" by (cases "prepare_append e st")
  obtain gs where gs: "log_of st (se_session_id e) = Inr gs" using assms(1) by (rule store_invD)
  show ?thesis
  proof (cases r)
    case None
    with write_line_log(1) [OF _ assms(1) _ gs, of st1 sid] Append p assms(2,3) gs show ?thesis
      by (cases "sid = se_session_id e") (auto simp: append_session_event_def)
  qed (use Append p assms(3) prepared_log [OF p] in \<open>auto simp: append_session_event_def\<close>)
next
  case (Crash k e)
  obtain r st1 where p: "prepare_append e st = (r, st1)" by (cases "prepare_append e st")
  obtain gs where gs: "log_of st (se_session_id e) = Inr gs" using assms(1) by (rule store_invD)
  note same = prepared_log [OF p, of sid]
  show ?thesis
  proof (cases r)
    case None
    show ?thesis
    proof (cases k)
      case Whole
      with None write_line_log(1) [OF _ assms(1) _ gs, of st1 sid] Crash p assms(2,3) gs show ?thesis
        by (cases "sid = se_session_id e") (auto simp: crash_append_def Let_def)
    qed (use None Crash p assms(3) same in \<open>auto simp: crash_append_def Let_def log_of_put, auto simp: log_of_def\<close>)
  qed (use Crash p assms(3) same in \<open>auto simp: crash_append_def\<close>)
qed (use assms(3) in \<open>simp add: save_log\<close>)

lemma run_log:
  assumes "store_inv st" "\<forall>c \<in> set cs. valid_op c" "log_of st sid = Inr es"
  shows "\<exists>fs. log_of (run_all store_step cs st) sid = Inr (es @ fs)"
  using assms
proof (induction cs arbitrary: st es)
  case (Cons c cs)
  from Cons.prems obtain fs where "log_of (snd (store_step c st)) sid = Inr (es @ fs)" using step_log [of st c sid es] by auto
  moreover have "store_inv (snd (store_step c st))" using Cons.prems by (intro sessions.inv_step) auto
  ultimately obtain gs where "log_of (run_all store_step cs (snd (store_step c st))) sid = Inr ((es @ fs) @ gs)"
    using Cons.IH Cons.prems(2) by (meson list.set_intros(2))
  then show ?case by auto
qed simp

text \<open>What is read back is the terminated lines, and at most one event behind them.\<close>

lemma events_log:
  assumes "store_inv st" "id_ok sid" "log_of st sid = Inr es"
  shows "\<exists>fs. events st sid 0 = Inr (es @ fs) \<and> length fs \<le> 1"
proof -
  have r: "read_lines sid 0 0 (dr_lines (dir_of st sid)) None = Inr es" using assms(3) by (simp add: log_of_def)
  have t: "tail_ok sid es (dr_tail (dir_of st sid))" using assms(1,3) by (auto elim: store_invD [of st sid])
  have "\<exists>fs. read_lines sid 0 0 (dr_lines (dir_of st sid)) (dr_tail (dir_of st sid)) = Inr (es @ fs) \<and> length fs \<le> 1"
  proof (cases "dr_tail (dir_of st sid)")
    case (Some l)
    show ?thesis
    proof (cases "read_line l")
      case None
      have "read_lines sid n i ls (Some l) = read_lines sid n i ls (Some None)" for n i ls
        using None read_line_def [of None] by (induction ls arbitrary: n i) (auto split: option.splits)
      with Some read_lines_tail(1) [OF r] show ?thesis by simp
    next
      case e: (Some e)
      with Some t read_lines_tail(2) [OF r e] show ?thesis by (auto simp: tail_ok_def)
    qed
  qed (use r in simp)
  then obtain fs where fs: "read_lines sid 0 0 (dr_lines (dir_of st sid)) (dr_tail (dir_of st sid)) = Inr (es @ fs)" "length fs \<le> 1"
    by blast
  have "filter (\<lambda>e. 0 < se_sequence e) (es @ fs) = es @ fs"
    using read_lines_sequences [OF fs(1)] by (auto simp: list_all_iff filter_id_conv)
  with fs assms(2) show ?thesis by (auto simp: events_def validate_id_def Let_def)
qed

text \<open>
  C22: an event that was acknowledged is in the log for good: whatever is appended and saved
  afterwards, and wherever a crash cuts an append, the log can be read and the event is among
  what is read, in increasing order of the sequence numbers.
\<close>

theorem acknowledged_events_survive:
  assumes "store_inv st" "written e" "append_session_event e st = (None, st1)" "\<forall>c \<in> set ops. valid_op c"
  shows "\<exists>es. events (run_all store_step ops st1) (se_session_id e) 0 = Inr es \<and> e \<in> set es \<and>
    sorted_wrt (\<lambda>a b. se_sequence a < se_sequence b) es"
proof -
  let ?sid = "se_session_id e"
  obtain es where es: "log_of st ?sid = Inr es" using assms(1) by (rule store_invD)
  from assms(3) obtain st0 where p: "prepare_append e st = (None, st0)"
    and st1: "st1 = (write_line e st0)\<lparr>ss_last := AList.update ?sid (se_sequence e) (ss_last st0)\<rparr>"
    by (auto simp: append_session_event_def split: prod.splits option.splits)
  from write_line_log(1) [OF p assms(1,2) es, of ?sid] have log1: "log_of st1 ?sid = Inr (es @ [e])" by (simp add: st1)
  have inv1: "store_inv st1" using sessions.inv_step [of "Append e" st] assms(1-3) by simp
  from run_log [OF inv1 assms(4) log1] obtain fs where fs: "log_of (run_all store_step ops st1) ?sid = Inr ((es @ [e]) @ fs)" by blast
  have id: "id_ok ?sid" using assms(2) by (simp add: written_def)
  from events_log [OF sessions.run_all_inv [OF assms(4) inv1] id fs]
  obtain gs where gs: "events (run_all store_step ops st1) ?sid 0 = Inr (((es @ [e]) @ fs) @ gs)" by blast
  then obtain hs where hs: "read_lines ?sid 0 0 (dr_lines (dir_of (run_all store_step ops st1) ?sid))
      (dr_tail (dir_of (run_all store_step ops st1) ?sid)) = Inr hs" "((es @ [e]) @ fs) @ gs = filter (\<lambda>e. 0 < se_sequence e) hs"
    by (auto simp: events_def validate_id_def Let_def raise_simps split: if_splits)
  from read_lines_sequences [OF hs(1)] have "sorted_wrt (\<lambda>a b. se_sequence a < se_sequence b) (filter (\<lambda>e. 0 < se_sequence e) hs)"
    by (simp add: sorted_wrt_filter)
  with hs(2) have "sorted_wrt (\<lambda>a b. se_sequence a < se_sequence b) (((es @ [e]) @ fs) @ gs)" by simp
  moreover have "e \<in> set (((es @ [e]) @ fs) @ gs)" by simp
  ultimately show ?thesis using gs by blast
qed

section \<open>Examples\<close>

definition empty_store :: session_store where
  "empty_store = \<lparr>ss_dirs = [], ss_last = []\<rparr>"

lemma empty_store_inv: "store_inv empty_store"
  by (simp add: store_inv_def log_ok_of_def log_of_def empty_store_def dir_of_def new_directory_def)

definition demo_line :: "int \<Rightarrow> session_event" where
  "demo_line n = \<lparr>se_type = SE_MODEL_TURN_STARTED, se_session_id = ''session_a'', se_task_id = ''task_aaaa'', se_sequence = n,
     se_payload = [(''token_estimate'', JInt 7)], se_event_id = JStr ''e'', se_timestamp = JStr ''t'', se_schema = JInt 1\<rparr>"

lemma demo_written: "written (demo_line 1)" "written (demo_line 2)" "written (demo_line 3)"
  by code_simp+

theorem acknowledged_events_survive_witness:
  "\<exists>es. events (run_all store_step [Crash Piece (demo_line 2), Append (demo_line 3)] (snd (append_session_event (demo_line 1) empty_store)))
     ''session_a'' 0 = Inr es \<and> demo_line 1 \<in> set es"
proof -
  have "fst (append_session_event (demo_line 1) empty_store) = None" by code_simp
  then have "append_session_event (demo_line 1) empty_store = (None, snd (append_session_event (demo_line 1) empty_store))"
    by (metis prod.collapse)
  from acknowledged_events_survive [OF empty_store_inv demo_written(1) this, of "[Crash Piece (demo_line 2), Append (demo_line 3)]"]
  show ?thesis using demo_written by (auto simp: demo_line_def)
qed

text \<open>
  An event whose line lacks only its newline counts when the log is read, and is removed by
  the next append: a session restored between the two goes on from an event that its log no
  longer has.
\<close>

definition read_back :: "session_store \<Rightarrow> int list" where
  "read_back st = map se_sequence (projr (events st ''session_a'' 0))"

theorem unterminated_event_is_dropped:
  "read_back (crash_append Unterminated (demo_line 1) empty_store) = [1] \<and>
   read_back (snd (append_session_event (demo_line 2) (crash_append Unterminated (demo_line 1) empty_store))) = [2]"
  by (intro conjI; code_simp)

end
