(* ===== verification/Session_Restore_Props.thy ===== *)
theory Session_Restore_Props
  imports Session_Log_Props Working_State_Props
begin

text \<open>
  Restoring a session: what a live task recorded before its process died is what comes back, no
  call of a tool is left without an answer, and none is repeated.
\<close>

section \<open>States that were read\<close>

lemma event_from_dict_ok: "event_from_dict raw = Inr ev \<Longrightarrow> event_ok ev"
  by (auto simp: event_from_dict_def state_event_new_def event_ok_def
      split: json.splits option.splits if_splits sum.splits ws_error.splits)

lemma replay_raw_replays:
  "replay_raw raws s = Inr t \<Longrightarrow> \<exists>evs. list_all event_ok evs \<and> replay_with apply_event evs s = Inr t"
proof (induction raws arbitrary: s)
  case Nil
  then show ?case by (intro exI [of _ "[]"]) simp
next
  case (Cons raw raws)
  then obtain ev u where ev: "event_from_dict raw = Inr ev" "apply_event ev s = (None, u)" "replay_raw raws u = Inr t"
    by (auto split: sum.splits prod.splits option.splits)
  from Cons.IH [OF ev(3)] obtain evs where "list_all event_ok evs" "replay_with apply_event evs u = Inr t" by blast
  with ev event_from_dict_ok [OF ev(1)] show ?case by (intro exI [of _ "ev # evs"]) simp
qed

lemma from_dict_task: "from_dict raw = Inr s \<Longrightarrow> \<exists>t raws. t \<noteq> [] \<and> replay_raw raws (fresh_state t) = Inr s"
  by (auto simp: from_dict_def split: json.splits if_splits)

text \<open>A state that was read reads back as itself.\<close>

lemma read_state_roundtrip:
  assumes "from_dict raw = Inr s"
  shows "from_dict (to_dict s) = Inr s"
proof -
  from from_dict_task [OF assms] obtain t raws where t: "t \<noteq> []" "replay_raw raws (fresh_state t) = Inr s" by blast
  from replay_raw_replays [OF t(2)] obtain evs where evs: "\<forall>ev \<in> set evs. event_ok ev"
    "replay_with apply_event evs (fresh_state t) = Inr s" by (auto simp: list_all_iff)
  have "ws_events s = evs" using task_log.replay_start_log [OF evs(2)] .
  moreover have "ws_task_id s = t" using replay_reachable [OF evs(2) ws_reachable.fresh] by (rule reachable_task_id)
  ultimately show ?thesis using replay_raw_events [OF evs] t(1) by (simp add: from_dict_def to_dict_def get_def)
qed

lemma validate_id_Inr: "validate_id v name = Inr s \<longleftrightarrow> v = JStr s \<and> id_ok s"
  by (auto simp: validate_id_def split: json.splits)

lemma state_or_malformed_Inr: "state_or_malformed r = Inr s \<longleftrightarrow> r = Inr s"
  by (auto simp: state_or_malformed_def split: sum.splits)

lemma snapshot_new_Inr:
  "snapshot_new session_id task_id n c s conv f b fp carried = Inr sn \<longleftrightarrow>
     session_id = JStr (sn_session_id sn) \<and> id_ok (sn_session_id sn) \<and> task_id = JStr (sn_task_id sn) \<and>
     id_ok (sn_task_id sn) \<and> ws_task_id s = sn_task_id sn \<and>
     sn = \<lparr>sn_session_id = sn_session_id sn, sn_task_id = sn_task_id sn, sn_sequence = n, sn_configuration = c,
       sn_working_state = s, sn_conversation = conv, sn_in_flight = f, sn_binding = b, sn_cache_fingerprint = fp,
       sn_carried = carried\<rparr>"
  by (cases sn) (auto simp: snapshot_new_def raise_simps validate_id_Inr)

lemma snapshot_from_dict_Inr:
  assumes "snapshot_from_dict text num raw = Inr sn"
  obtains w where "from_dict w = Inr (sn_working_state sn)" "id_ok (sn_task_id sn)" "ws_task_id (sn_working_state sn) = sn_task_id sn"
proof -
  from assms obtain d where d: "raw = JObj d" by (auto simp: snapshot_from_dict_def split: json.splits)
  from assms obtain w s tid n c conv f b fp carried sess where w: "from_dict w = Inr s"
    and new: "snapshot_new sess tid n c s conv f b fp carried = Inr sn"
    unfolding d by (fastforce simp: snapshot_from_dict_def bindE_Inr state_or_malformed_Inr split: if_splits)
  from new have "sn_working_state sn = s" unfolding snapshot_new_Inr by (metis session_snapshot.select_convs(5))
  with w new show thesis by (intro that [of w]) (auto simp: snapshot_new_Inr)
qed

lemma loaded_snapshot:
  assumes "load_snapshot text num st sid = Inr sn"
  shows "id_ok sid" "sn_session_id sn = sid" "id_ok (sn_task_id sn)" "ws_task_id (sn_working_state sn) = sn_task_id sn"
    "from_dict (to_dict (sn_working_state sn)) = Inr (sn_working_state sn)"
proof -
  from assms obtain j where j: "id_ok sid" "snapshot_from_dict text num j = Inr sn" "sn_session_id sn = sid"
    by (auto simp: load_snapshot_def bindE_Inr validate_id_Inr split: file_json.splits if_splits)
  then show "id_ok sid" "sn_session_id sn = sid" by simp_all
  from j(2) obtain w where w: "from_dict w = Inr (sn_working_state sn)" "id_ok (sn_task_id sn)"
    "ws_task_id (sn_working_state sn) = sn_task_id sn" by (rule snapshot_from_dict_Inr)
  then show "id_ok (sn_task_id sn)" "ws_task_id (sn_working_state sn) = sn_task_id sn" by simp_all
  from w(1) show "from_dict (to_dict (sn_working_state sn)) = Inr (sn_working_state sn)" by (rule read_state_roundtrip)
qed

section \<open>A live session\<close>













section \<open>What a live session wrote is what is restored\<close>









section \<open>A restored session is settled\<close>

lemma close_calls_answers: "missing (close_calls conversation) = []"
proof -
  have "concat (map answer_id (map (\<lambda>i. ToolResultBlock i m True) xs)) = xs" for xs m by (induction xs) auto
  moreover have "concat (map call_id (map (\<lambda>i. ToolResultBlock i m True) xs)) = []" for xs m by (induction xs) auto
  ultimately show ?thesis
    by (auto simp: close_calls_def missing_def blocks_def harness_message_def Let_def filter_empty_conv)
qed

text \<open>
  C33: in a restored session every call of a tool has an answer and no tool is in flight: what was
  interrupted is answered with an error and not run again.  The handle stands at the last line of
  the log and the snapshot on disk is the one that is returned, with its credentials redacted.
\<close>

theorem restored_session_is_settled:
  assumes "restore_session text num stamp mint available sid current st = (Inr (h, sn), st')"
  shows "(\<forall>i. i \<in> set (concat (map call_id (blocks (sn_conversation sn)))) \<longrightarrow>
      i \<in> set (concat (map answer_id (blocks (sn_conversation sn)))))
    \<and> (\<forall>i. sn_in_flight sn = Some i \<longrightarrow> fl_kind i \<noteq> ''tool'')
    \<and> sn_session_id sn = sid \<and> sn_sequence sn = sh_sequence h \<and> sn_configuration sn = current
    \<and> dr_snapshot (dir_of st' sid) = Stored (snapshot_to_dict sn)"
proof -
  from assms obtain stored r changed h' st1 where r: "restored_snapshot text num stamp available st sid current = Inr (stored, r, changed)"
    and sn: "sn = r\<lparr>sn_sequence := sh_sequence h\<rparr>" and save: "handle_save sn (h, st1) = (None, st')"
    by (auto simp: restore_session_def Let_def split: sum.splits prod.splits option.splits)
  from r obtain s2 f conv0 s3 conv f' n b fp carried tid where
    cancel: "cancel_in_flight stamp f s2 conv0 = Inr (s3, conv, f')"
    and new: "snapshot_new (JStr sid) tid n current s3 (close_calls conv) f' b fp carried = Inr r"
    by (fastforce simp: restored_snapshot_def bindE_Inr split: if_splits prod.splits)
  from new have fields: "sn_conversation r = close_calls conv" "sn_in_flight r = f'" "sn_session_id r = sid" "sn_configuration r = current"
    by (auto simp: snapshot_new_def raise_simps validate_id_Inr)
  have "missing (sn_conversation sn) = []" using close_calls_answers by (simp add: sn fields)
  moreover have "f' = Some i \<Longrightarrow> fl_kind i \<noteq> ''tool''" for i
    using cancel by (auto simp: cancel_in_flight_def raise_simps split: option.splits if_splits)
  ultimately show ?thesis using save fields
    by (auto simp: sn missing_def Let_def filter_empty_conv handle_save_def save_snapshot_def split: if_splits)
qed

section \<open>Examples\<close>

definition demo_configuration :: session_configuration where
  "demo_configuration = \<lparr>sf_workspace = JStr ''w'', sf_project = JStr ''p'', sf_execution_mode = JStr ''ask'',
     sf_context_policy_version = JStr ''c'', sf_tool_registry_version = JStr ''t'', sf_provider = JNull, sf_model = JNull\<rparr>"

definition demo_snapshot :: session_snapshot where
  "demo_snapshot = \<lparr>sn_session_id = ''session_a'', sn_task_id = ''task_aaaa'', sn_sequence = 0, sn_configuration = demo_configuration,
     sn_working_state = fresh_state ''task_aaaa'',
     sn_conversation = [\<lparr>cv_role = JStr ''assistant'', cv_content = [ToolUseBlock ''c1'' ''read'' []], cv_authored_by = JStr ''operator''\<rparr>],
     sn_in_flight = None, sn_binding = None, sn_cache_fingerprint = JNull, sn_carried = []\<rparr>"

definition demo_store :: session_store where
  "demo_store = save_snapshot demo_snapshot empty_store"

definition demo_handle :: session_handle where
  "demo_handle = \<lparr>sh_session_id = ''session_a'', sh_configuration = demo_configuration, sh_sequence = 0\<rparr>"

definition demo_mint :: "int \<Rightarrow> json \<times> json" where
  "demo_mint n = (JStr ''e'', JStr ''t'')"

definition demo_num :: "json \<Rightarrow> int option" where
  "demo_num v = None"



lemma demo_loads: "load_snapshot (\<lambda>_. []) demo_num demo_store ''session_a'' = Inr demo_snapshot"
  by code_simp



lemma demo_log: "log_of demo_store ''session_a'' = Inr []" "events demo_store ''session_a'' 0 = Inr []"
  by code_simp+


lemma demo_resumes: "fst (handle_append demo_mint SE_SESSION_RESUMED (JStr ''task_aaaa'') [(''from_sequence'', JInt 0)] (demo_handle, demo_store)) = None"
  by code_simp

theorem restored_session_is_settled_witness:
  "\<exists>h sn st'. restore_session (\<lambda>_. []) demo_num undefined demo_mint None ''session_a'' demo_configuration demo_store = (Inr (h, sn), st') \<and>
     concat (map call_id (blocks (sn_conversation sn))) = [''c1''] \<and> ''c1'' \<in> set (concat (map answer_id (blocks (sn_conversation sn))))"
proof -
  note snap = loaded_snapshot [OF demo_loads]
  let ?conv = "close_calls (sn_conversation demo_snapshot)"
  obtain h st1 where app: "handle_append demo_mint SE_SESSION_RESUMED (JStr ''task_aaaa'') [(''from_sequence'', JInt 0)] (demo_handle, demo_store) = (None, h, st1)"
    using demo_resumes by (metis prod.collapse)
  then have h: "sh_session_id h = ''session_a''"
    by (auto simp: handle_append_def demo_handle_def Let_def split: prod.splits sum.splits option.splits)
  define r where "r = demo_snapshot\<lparr>sn_conversation := ?conv\<rparr>"
  have "restored_snapshot (\<lambda>_. []) demo_num undefined None demo_store ''session_a'' demo_configuration = Inr (demo_snapshot, r, False)"
    using snap demo_log(2) demo_loads
    by (simp add: restored_snapshot_def compatible_with_def check_standard_binding_def resume_task_def cancel_in_flight_def
        restored_fingerprint_def snapshot_new_def validate_id_def r_def)
       (simp add: demo_snapshot_def fresh_state_def)
  with app h have res: "restore_session (\<lambda>_. []) demo_num undefined demo_mint None ''session_a'' demo_configuration demo_store =
      (Inr (h, r\<lparr>sn_sequence := sh_sequence h\<rparr>), save_snapshot (r\<lparr>sn_sequence := sh_sequence h\<rparr>) st1)"
    by (simp add: restore_session_def r_def resume_lines_def handle_save_def demo_handle_def Let_def demo_snapshot_def)
  let ?sn = "r\<lparr>sn_sequence := sh_sequence h\<rparr>"
  have calls: "concat (map call_id (blocks (sn_conversation ?sn))) = [''c1'']"
    by (simp add: r_def close_calls_def missing_def blocks_def demo_snapshot_def harness_message_def)
  then have "''c1'' \<in> set (concat (map call_id (blocks (sn_conversation ?sn))))" by simp
  with restored_session_is_settled [OF res] have "''c1'' \<in> set (concat (map answer_id (blocks (sn_conversation ?sn))))" by blast
  with res calls show ?thesis by blast
qed

text \<open>
  A task that failed, completed or exhausted its budget while a tool was in flight cannot be
  restored: the cancelled action is refused by the finished state, and the exception is not one of
  the session's.
\<close>

theorem finished_task_with_a_tool_in_flight_is_stuck:
  assumes "ws_terminal_status s \<notin> {TS_RUNNING, TS_INTERRUPTED}" "fl_kind i = ''tool''"
    "\<not> list_ex (\<lambda>a. ar_action_id a = interrupted_action_id (fl_operation_id i)) (ws_actions s)"
  shows "bindE (resume_task stamp s) (\<lambda>s2. cancel_in_flight stamp (Some i) s2 conversation) = Inl (OtherException ''WorkingStateError'')"
proof -
  have "ws_raise (apply_event ev s) = Inl (OtherException ''WorkingStateError'')" if "ev_type ev = ACTION_CANCELLED" for ev
    using assms(1) that by (auto simp: apply_event_def ws_raise_def)
  then have "harness_event stamp ACTION_CANCELLED (cancelled_data i s) s = Inl (OtherException ''WorkingStateError'')"
    by (auto simp: harness_event_def state_event_new_def split: prod.splits sum.splits if_splits)
  with assms show ?thesis by (simp add: resume_task_def cancel_in_flight_def)
qed

theorem finished_task_with_a_tool_in_flight_is_stuck_witness:
  "bindE (resume_task undefined ((fresh_state ''t'')\<lparr>ws_terminal_status := TS_FAILED\<rparr>)) (\<lambda>s2. cancel_in_flight undefined
     (Some \<lparr>fl_kind = ''tool'', fl_operation_id = ''c1'', fl_name = ''run'', fl_mutating = JBool True\<rparr>) s2 [])
   = Inl (OtherException ''WorkingStateError'')"
  by (rule finished_task_with_a_tool_in_flight_is_stuck) (simp_all add: fresh_state_def)

end
