(* ===== verification/Request_Reading.thy ===== *)
theory Request_Reading
  imports Text_Patterns Budgets
begin

text \<open>
  What a request asks for, read from its words.

  \<^item> \<open>client/context/request_intent.py\<close>: whether a message asks for the code to change, asks
    about a change, or neither; what the model is asked when the words do not settle it.
  \<^item> \<open>client/runtime/agent_notes.py\<close>, \<open>wants_write\<close>: the answer for a turn, decided once.
  \<^item> \<open>client/context/answer_scope.py\<close>: whether the turn is about the bound document, about the
    project, or both, and what of the earlier conversation it may use.

  A pattern compiled with \<open>re.I\<close> is written in lower case and searched in the lower-cased
  text.  The model that classifies a message is a function from the question it is sent to its
  reply, none when the call raises or reports an error.
\<close>

section \<open>Sentences and what they ask\<close>

text \<open>A sentence that weighs a change.\<close>

definition ADVISORY_OPENER_rx :: rx where
  "ADVISORY_OPENER_rx =
    seqs [Bol, Star (Cls (\<lambda>c. \<not> rx_word c)), opt (seqs [alts [lit ''and'', lit ''so'',
     lit ''but'', lit ''then'', lit ''also'', lit ''ok'', lit ''okay'', lit ''hmm'', lit ''well''],
     plus (Cls (\<lambda>c. \<not> rx_word c))]), alts [seqs [alts [lit ''could'', lit ''can'',
     lit ''should'', lit ''shall'', lit ''may'', lit ''might'', lit ''would'', lit ''must''],
     plus space, alts [lit ''we'', ch CHR ''i'', lit ''one'', lit ''it'', lit ''this'',
     lit ''that'', lit ''these'', lit ''those'', lit ''there'', seqs [lit ''the'', Wordb]]],
     seqs [alts [lit ''would'', lit ''will'', lit ''is'', lit ''was''], plus space, lit ''it'',
     plus space, opt (seqs [lit ''be'', plus space]), alts [lit ''possible'', lit ''feasible'',
     lit ''better'', lit ''wise'', lit ''reasonable'', seqs [ch CHR ''a'', plus space,
     lit ''good'', plus space, lit ''idea''], seqs [lit ''make'', plus space, lit ''sense''],
     lit ''sensible'', lit ''worth'']], seqs [alts [lit ''does'', lit ''would'', lit ''will''],
     plus space, lit ''it'', plus space, lit ''make'', plus space, lit ''sense''],
     seqs [lit ''is'', plus space, lit ''there'', plus space, ch CHR ''a'', alts [Eps, lit ''ny''],
     plus space, alts [lit ''way'', lit ''reason'', lit ''chance'', lit ''option'']],
     seqs [lit ''how'', plus space, alts [lit ''could'', lit ''can'', lit ''would'',
     lit ''should'', lit ''might'', lit ''shall''], plus space, alts [lit ''we'', ch CHR ''i'',
     lit ''one'', lit ''this'', lit ''that'', lit ''it'', lit ''these'', lit ''those''], Wordb],
     seqs [lit ''how'', plus space, alts [lit ''hard'', lit ''difficult'', lit ''easy'',
     lit ''risky'', seqs [lit ''much'', plus space, lit ''work'']], Wordb], seqs [lit ''what'',
     plus space, alts [lit ''would'', lit ''could'', lit ''if'', lit ''about'',
     seqs [lit ''should'', plus space, lit ''we''], seqs [lit ''do'', plus space, lit ''we'',
     plus space, lit ''need''], seqs [alts [lit ''is'', lit ''are''], plus space,
     alts [lit ''needed'', lit ''required''], plus space, lit ''to''], seqs [alts [lit ''would'',
     lit ''does''], plus space, lit ''it'', plus space, lit ''take'']], Wordb], seqs [lit ''why'',
     plus space, alts [lit ''not'', seqs [lit ''don'', opt (ch (CHR 0x27)), ch CHR ''t'',
     plus space, lit ''we''], seqs [lit ''do'', plus space, lit ''we'']], Wordb],
     seqs [opt (seqs [ch CHR ''i'', plus space]), lit ''wonder'', opt (lit ''ing''), plus space,
     alts [lit ''if'', lit ''whether'']], seqs [alts [lit ''pourrait'', lit ''peut'',
     lit ''devrait'', lit ''faudrait''], Cls (\<lambda>c. py_space c \<or> c = CHR ''-''),
     alts [lit ''on'', lit ''il''], Wordb], seqs [alts [lit ''serait'', lit ''est''],
     Cls (\<lambda>c. py_space c \<or> c = CHR ''-''), lit ''il'', plus space,
     alts [lit ''possible'', lit ''envisageable'', lit ''faisable'', lit ''utile'']],
     seqs [lit ''est'', Cls (\<lambda>c. py_space c \<or> c = CHR ''-''), lit ''ce'', plus space,
     lit ''qu''], seqs [lit ''comment'', plus space, alts [lit ''pourrait'', lit ''peut'',
     lit ''faudrait'', lit ''faire'']], seqs [lit ''et'', plus space, lit ''si'', Wordb]]]"

text \<open>A sentence that accepts what the previous answer proposed.\<close>

definition FOLLOW_UP_rx :: rx where
  "FOLLOW_UP_rx =
    seqs [Bol, alts [seqs [Star (Cls (\<lambda>c. \<not> rx_word c)),
     Star (seqs [alts [lit ''yes'', lit ''yep'', lit ''yeah'', seqs [lit ''ok'', opt (lit ''ay'')],
     lit ''sure'', lit ''fine'', lit ''good'', lit ''great'', lit ''right'', lit ''oui'',
     lit (''d'' @ [CHR 0x27] @ ''accord''), lit ''parfait'', seqs [lit ''ok'', plus space,
     lit ''go'']], Wordb, Star (Cls (\<lambda>c. py_space c \<or> c \<in> {CHR '','', CHR ''.'',
     CHR ''!''}))]), opt (alts [seqs [lit ''please'', plus space],
     seqs [lit (''s'' @ [CHR 0x27] @ ''il''), plus space, lit ''te'', plus space, lit ''pla'',
     Cls (\<lambda>c. c \<in> {CHR ''i'', CHR 0xEE}), ch CHR ''t'', plus space]]),
     alts [seqs [alts [lit ''do'', lit ''apply'', lit ''make'', lit ''implement'',
     seqs [lit ''go'', plus space, alts [lit ''for'', lit ''with'']]], plus space,
     alts [lit ''it'', lit ''that'', lit ''this'', lit ''them'', lit ''those'', lit ''these'',
     lit ''so''], Wordb], seqs [lit ''go'', plus space, lit ''ahead''], lit ''proceed'',
     seqs [lit ''let'', opt (ch (CHR 0x27)), ch CHR ''s'', plus space, alts [lit ''do'',
     lit ''go'']], seqs [lit ''ship'', plus space, lit ''it''], seqs [lit ''make'', plus space,
     lit ''it'', plus space, lit ''so''], seqs [lit ''vas'',
     Cls (\<lambda>c. py_space c \<or> c = CHR ''-''), ch CHR ''y''], seqs [lit ''allez'',
     Cls (\<lambda>c. py_space c \<or> c = CHR ''-''), ch CHR ''y''], seqs [lit ''fais'',
     Cls (\<lambda>c. py_space c \<or> c = CHR ''-''), ch CHR ''l'', alts [ch CHR ''e'',
     ch CHR ''a'', lit ''es'']], seqs [lit ''applique'',
     Cls (\<lambda>c. py_space c \<or> c = CHR ''-''), ch CHR ''l'',
     Cls (\<lambda>c. c \<in> {CHR ''e'', CHR ''a''})], seqs [lit ''on'', plus space, ch CHR ''y'',
     plus space, lit ''va'']], Wordb], seqs [Star (Cls (\<lambda>c. \<not> rx_word c)),
     alts [lit ''yes'', lit ''yep'', lit ''yeah'', lit ''oui''], opt (alts [seqs [plus space,
     lit ''please''], seqs [plus space, lit (''s'' @ [CHR 0x27] @ ''il''), plus space, lit ''te'',
     plus space, lit ''pla'', Cls (\<lambda>c. c \<in> {CHR ''i'', CHR 0xEE}), ch CHR ''t'']]),
     Star (Cls (\<lambda>c. \<not> rx_word c)), Eol]]]"

text \<open>A polite imperative, and where a sentence ends.\<close>

definition POLITE_REQUEST_rx :: rx where
  "POLITE_REQUEST_rx =
    seqs [Bol, Star (Cls (\<lambda>c. \<not> rx_word c)), opt (seqs [lit ''please'', plus space]),
     alts [lit ''could'', lit ''can'', lit ''would'', lit ''will''], plus space, lit ''you'',
     plus space, opt (seqs [lit ''please'', plus space])]"

definition REQUEST_SENTENCE_rx :: rx where
  "REQUEST_SENTENCE_rx =
    seqs [plus (Cls (\<lambda>c. \<not> (c \<in> {CHR ''.'', CHR ''?'', CHR ''!'', CHR 0x0A}))),
     alts [plus (Cls (\<lambda>c. c \<in> {CHR ''.'', CHR ''?'', CHR ''!''})), Eol]]"

text \<open>\<open>_WRITE_REQUEST_RE\<close>: imperatives that name an edit.\<close>

definition WRITE_REQUEST_rx :: rx where
  "WRITE_REQUEST_rx =
    alts [seqs [Wordb, alts [lit ''do'', lit ''make'', lit ''apply'', seqs [lit ''carry'',
     plus space, lit ''out''], lit ''perform''], plus space, opt (alts [seqs [lit ''the'',
     plus space], seqs [lit ''these'', plus space], seqs [lit ''those'', plus space],
     seqs [lit ''all'', plus space, opt (seqs [lit ''the'', plus space])]]),
     opt (Seq (seqs [plus (Cls rx_word), plus space]) (opt (seqs [plus (Cls rx_word),
     plus space]))), alts [seqs [lit ''modification'', opt (ch CHR ''s'')], seqs [lit ''change'',
     opt (ch CHR ''s'')], seqs [lit ''edit'', opt (ch CHR ''s'')], lit ''task'', lit ''work'',
     seqs [lit ''fix'', opt (lit ''es'')]]], seqs [alts [Bol,
     seqs [Cls (\<lambda>c. c \<in> {CHR ''.'', CHR ''!'', CHR ''?'', CHR '';'', CHR '':''}),
     plus space]], opt (seqs [lit ''please'', plus space]), lit ''make'', plus space,
     opt (alts [seqs [lit ''the'', plus space], seqs [lit ''this'', plus space],
     seqs [lit ''that'', plus space], seqs [lit ''our'', plus space]]),
     alts [seqs [Cls (\<lambda>c. (CHR ''a'' \<le> c \<and> c \<le> CHR ''z'') \<or> c = CHR ''_''),
     Star (Cls rx_word), lit ''()''],
     seqs [seqs [Cls (\<lambda>c. rx_word c \<or> c \<in> {CHR ''/'', CHR ''-''}),
     Cls (\<lambda>c. rx_word c \<or> c \<in> {CHR ''/'', CHR ''-''}),
     Star (Cls (\<lambda>c. rx_word c \<or> c \<in> {CHR ''/'', CHR ''-''}))], ch CHR ''.'',
     alts [ch CHR ''c'', ch CHR ''h'', lit ''cc'', lit ''cpp'', lit ''hpp'', lit ''py'',
     lit ''rs'', lit ''go'', lit ''js'', lit ''ts'', lit ''java'', lit ''sh''], Wordb],
     seqs [alts [lit ''implementation'', lit ''code'', lit ''function'', lit ''method'',
     lit ''class'', lit ''module'', lit ''script'', lit ''program'', lit ''build'',
     seqs [lit ''test'', opt (ch CHR ''s'')], lit ''driver'', lit ''firmware'', lit ''encoder'',
     lit ''decoder'', lit ''parser'', lit ''header''], Wordb]]], seqs [Wordb,
     alts [lit ''implement'', lit ''write'', lit ''edit'', lit ''patch'', lit ''refactor'',
     lit ''rename'', lit ''add'', lit ''create'', lit ''update'', lit ''fix'', lit ''modify'',
     lit ''remove'', lit ''delete'', lit ''adapt'', lit ''adjust'', lit ''amend'', lit ''revise'',
     lit ''rework'', lit ''correct'', lit ''move'', lit ''relocate''], Wordb], seqs [Wordb,
     alts [lit ''fais'', lit ''faire'', lit ''applique'', lit (''impl'' @ [CHR 0xE9] @ ''mente''),
     lit ''implementer'', lit (''impl'' @ [CHR 0xE9] @ ''menter''), lit ''corrige'',
     lit ''modifie'', lit ''modifier'', lit ''adapte'', lit ''adapter'', lit ''ajuste'',
     lit ''ajuster'', lit ''ajoute'', lit ([CHR 0xE9] @ ''cris''), lit ''ecris''], Wordb]]"

text \<open>\<open>s.strip(chars)\<close>.\<close>

definition strip_chars :: "string \<Rightarrow> string \<Rightarrow> string" where
  "strip_chars cs s = rev (dropWhile (\<lambda>c. c \<in> set cs) (rev (dropWhile (\<lambda>c. c \<in> set cs) s)))"

definition sentences :: "string \<Rightarrow> string list" where
  "sentences t = map strip (filter (\<lambda>item. strip_chars ([CHR 0x20, CHR 0x09] @ ''.?!'') item \<noteq> [])
     (findall REQUEST_SENTENCE_rx t))"

definition advisory_sentence :: "string \<Rightarrow> bool" where
  "advisory_sentence sentence \<longleftrightarrow> search ADVISORY_OPENER_rx (lower sentence)"

definition accepts_proposal :: "string \<Rightarrow> bool" where
  "accepts_proposal sentence \<longleftrightarrow> search FOLLOW_UP_rx (lower sentence)"

definition follow_up :: "string \<Rightarrow> bool" where
  "follow_up t \<longleftrightarrow> list_ex accepts_proposal (sentences t)"

datatype intent = INTENT_WRITE | INTENT_ADVISORY | INTENT_UNKNOWN

text \<open>
  One sentence after another: the first that asks for the change decides.  \<open>weighed\<close> says
  that an earlier sentence deliberates about one.
\<close>

fun intent_of :: "bool \<Rightarrow> bool \<Rightarrow> string list \<Rightarrow> intent" where
  "intent_of answered weighed [] = (if weighed then INTENT_ADVISORY else INTENT_UNKNOWN)"
| "intent_of answered weighed (item # items) =
     (if answered \<and> accepts_proposal item then INTENT_WRITE
      else case ends POLITE_REQUEST_rx (lower item) 0 of
        j # _ \<Rightarrow>
          if search WRITE_REQUEST_rx (drop j (lower item)) then INTENT_WRITE
          else intent_of answered weighed items
      | [] \<Rightarrow>
          if advisory_sentence item then intent_of answered True items
          else if search WRITE_REQUEST_rx (lower item) then INTENT_WRITE
          else intent_of answered weighed items)"

definition mutation_intent :: "string \<Rightarrow> bool \<Rightarrow> intent" where
  "mutation_intent t answered = intent_of answered False (sentences t)"

definition advisory :: "string \<Rightarrow> bool" where
  "advisory t \<longleftrightarrow> mutation_intent t False = INTENT_ADVISORY"

definition is_write_request :: "string \<Rightarrow> bool" where
  "is_write_request question =
     (let intent = mutation_intent question False
      in if intent \<noteq> INTENT_UNKNOWN then intent = INTENT_WRITE
         else search WRITE_REQUEST_rx (lower question))"

text \<open>A message of a conversation, with the texts of its blocks.\<close>

record conv_message =
  cm_role :: string
  cm_authored_by :: string
  cm_blocks :: "string list"

definition operator_text :: "conv_message \<Rightarrow> bool" where
  "operator_text m \<longleftrightarrow> cm_role m = ''user'' \<and> cm_authored_by m = ''operator'' \<and>
     list_ex (\<lambda>t. t \<noteq> []) (cm_blocks m)"

fun answered_from :: "bool \<Rightarrow> conv_message list \<Rightarrow> bool" where
  "answered_from seen_operator [] = False"
| "answered_from seen_operator (m # ms) =
     (if operator_text m then (if seen_operator then False else answered_from True ms)
      else if cm_role m = ''assistant'' \<and> seen_operator then True
      else answered_from seen_operator ms)"

definition answered :: "conv_message list \<Rightarrow> bool" where
  "answered conversation = answered_from False (rev conversation)"

section \<open>The model's reading\<close>

definition verdict_word :: "string \<Rightarrow> bool option" where
  "verdict_word reply =
     (case words (strip reply) of
        [] \<Rightarrow> None
      | w # _ \<Rightarrow>
          let word = lower (strip_chars (''.,:;!?*_'' @ [CHR 0x60, CHR 0x22, CHR 0x27]) w)
          in if word = ''write'' then Some True else if word = ''ask'' then Some False else None)"

text \<open>
  \<open>judge\<close> with the ledgers of its budget manager: a spent budget is an unknown answer.  The
  third component counts the calls of the model.
\<close>

definition judge :: "(nat \<Rightarrow> int) \<Rightarrow> (string \<Rightarrow> string option) option \<Rightarrow> string \<Rightarrow> ledger list option \<Rightarrow>
    bool option \<times> ledger list option \<times> nat" where
  "judge clock backend question budget =
     (case backend of
        None \<Rightarrow> (None, budget, 0)
      | Some ask \<Rightarrow>
        if strip question = [] then (None, budget, 0)
        else
          let reading = Option.bind (ask (take 2000 question)) verdict_word
          in case budget of
               None \<Rightarrow> (reading, None, 1)
             | Some ls \<Rightarrow>
                 (case consume clock AUXILIARY_MODEL_CALLS 1 False ls of
                    (Some _, ls') \<Rightarrow> (None, Some ls', 0)
                  | (None, ls') \<Rightarrow> (reading, Some ls', 1)))"

definition resolve_write :: "bool \<Rightarrow> bool option \<Rightarrow> bool" where
  "resolve_write pattern_says model_says \<longleftrightarrow> pattern_says \<or> model_says = Some True"

section \<open>What a turn was asked, decided once\<close>

record write_context =
  wc_read_only :: bool
  wc_write_request :: "bool option"
  wc_judge_intent :: bool
  wc_conversation :: "conv_message list"
  wc_backend :: "(string \<Rightarrow> string option) option"
  wc_budget :: "ledger list option"
  wc_notices :: "(bool \<times> string) list"
  wc_model_calls :: nat

definition wants_write :: "(nat \<Rightarrow> int) \<Rightarrow> string \<Rightarrow> write_context \<Rightarrow> bool \<times> write_context" where
  "wants_write clock question c =
     (if wc_read_only c then (False, c\<lparr>wc_write_request := Some False\<rparr>)
      else case wc_write_request c of
        Some cached \<Rightarrow> (cached, c)
      | None \<Rightarrow>
        if advisory question then (False, c\<lparr>wc_write_request := Some False\<rparr>)
        else
          let pattern = is_write_request question \<or>
                mutation_intent question (answered (wc_conversation c)) = INTENT_WRITE;
              (model, c1) =
                (if \<not> pattern \<and> wc_judge_intent c
                 then case judge clock (wc_backend c) question (wc_budget c) of
                   (m, budget, calls) \<Rightarrow>
                     (m, c\<lparr>wc_budget := budget, wc_model_calls := wc_model_calls c + calls,
                           wc_notices := (case m of None \<Rightarrow> wc_notices c
                              | Some w \<Rightarrow> wc_notices c @ [(w, take 80 question)])\<rparr>)
                 else (None, c));
              answer = resolve_write pattern model
          in (answer, c1\<lparr>wc_write_request := Some answer\<rparr>))"

section \<open>What a turn is about\<close>

datatype answer_scope = NORMATIVE | IMPLEMENTATION | MIXED | GENERAL

definition LOCAL_SUBJECT_rx :: rx where
  "LOCAL_SUBJECT_rx =
    seqs [Wordb, alts [lit ''implementation'', lit ''implementations'', lit ''code'',
     lit ''codebase'', lit ''source'', lit ''sources'', lit ''repository'', lit ''repositories'',
     lit ''repo'', lit ''file'', lit ''files'', lit ''module'', lit ''modules'', lit ''function'',
     lit ''functions'', lit ''method'', lit ''methods'', lit ''class'', lit ''classes'',
     lit ''script'', lit ''scripts'', lit ''program'', lit ''build'', seqs [lit ''test'',
     opt (ch CHR ''s'')], lit ''driver'', lit ''firmware'', lit ''encoder'', lit ''decoder'',
     lit ''parser'', lit (''impl'' @ [CHR 0xE9] @ ''mentation''), seqs [lit ''impl'',
     Cls (\<lambda>c. c \<in> {CHR 0xE9, CHR ''e''}), lit ''menter''], seqs [lit ''fichier'',
     opt (ch CHR ''s'')], seqs [lit ''fonction'', opt (ch CHR ''s'')], seqs [lit ''our'',
     plus space, plus (Cls rx_word)], seqs [lit ''this'', plus space, lit ''project''],
     seqs [lit ''the'', plus space, lit ''project'']], Wordb]"

definition CODE_SHAPED_rx :: rx where
  "CODE_SHAPED_rx =
    alts [seqs [Not_behind (\<lambda>c. rx_word c \<or> c = CHR ''.''),
     seqs [Cls (\<lambda>c. rx_word c \<or> c \<in> {CHR ''/'', CHR ''-''}),
     Cls (\<lambda>c. rx_word c \<or> c \<in> {CHR ''/'', CHR ''-''}),
     Star (Cls (\<lambda>c. rx_word c \<or> c \<in> {CHR ''/'', CHR ''-''}))], ch CHR ''.'',
     alts [ch CHR ''c'', ch CHR ''h'', lit ''cc'', lit ''cpp'', lit ''cxx'', lit ''hh'',
     lit ''hpp'', lit ''py'', lit ''rs'', lit ''go'', lit ''js'', lit ''ts'', lit ''java'',
     lit ''kt'', lit ''sh'', ch CHR ''S'', ch CHR ''s'', lit ''ld'', lit ''lds'', lit ''dts'',
     lit ''dtsi'', lit ''cmake'', lit ''mk'', lit ''bb'', lit ''bbappend'', lit ''bbclass'',
     lit ''conf'', seqs [ch CHR ''y'', opt (ch CHR ''a''), lit ''ml''], lit ''json'', lit ''toml'',
     lit ''ini''], Wordb], seqs [Wordb,
     Cls (\<lambda>c. (CHR ''A'' \<le> c \<and> c \<le> CHR ''Z'') \<or> (CHR ''a'' \<le> c \<and> c \<le> CHR ''z'') \<or> c = CHR ''_''),
     Star (Cls rx_word), lit ''()''], seqs [Wordb, alts [lit ''Makefile'', lit ''CMakeLists.txt'',
     lit ''Kconfig'', lit ''Dockerfile''], Wordb]]"

definition DOCUMENT_SUBJECT_rx :: rx where
  "DOCUMENT_SUBJECT_rx =
    seqs [Wordb, alts [lit ''standard'', lit ''specification'', lit ''spec'', lit ''clause'',
     lit ''rule'', lit ''rules'', lit ''provision'', lit ''provisions'', lit ''requirement'',
     lit ''requirements'', lit ''normative'', lit ''norme'', seqs [lit ''exigence'',
     opt (ch CHR ''s'')], seqs [lit ''compl'', alts [ch CHR ''y'', lit ''ies'', lit ''iant'',
     lit ''iance'']], seqs [lit ''conform'', opt (alts [ch CHR ''s'', lit ''ant'', lit ''ance'',
     ch CHR ''e''])]], Wordb, Not_ahead_rx (seqs [ch CHR ''.'', Cls rx_word])]"

definition REFERENT_rx :: rx where
  "REFERENT_rx =
    seqs [Bol, Star space, opt (alts [seqs [lit ''and'', plus space], seqs [lit ''but'',
     plus space], seqs [lit ''so'', plus space], seqs [lit ''then'', plus space]]),
     alts [seqs [lit ''what'', plus space, lit ''about''], seqs [lit ''how'', plus space,
     lit ''about''], seqs [lit ''does'', plus space, alts [lit ''that'', lit ''it'',
     lit ''this'']], seqs [lit ''is'', plus space, alts [lit ''that'', lit ''it'', lit ''this'']],
     seqs [lit ''are'', plus space, lit ''th'', alts [lit ''ose'', lit ''ese'']],
     seqs [alts [lit ''that'', lit ''it'', lit ''this'', lit ''these'', lit ''those'', lit ''its'',
     lit ''their''], Wordb]]]"

definition CHANGE_rx :: rx where
  "CHANGE_rx =
    seqs [Wordb, alts [lit ''implement'', seqs [lit ''implement'', opt (ch CHR ''s'')],
     lit ''add'', lit ''change'', lit ''fix'', lit ''modify'', lit ''update'', lit ''refactor'',
     lit ''rewrite'', lit ''patch'', lit ''correct'', lit ''migrate'', lit ''rename'',
     lit ''delete'', lit ''remove''], Wordb]"

definition refers_back :: "string \<Rightarrow> bool" where
  "refers_back t \<longleftrightarrow> match_start REFERENT_rx (lower t)"

definition scope_of :: "string \<Rightarrow> answer_scope option \<Rightarrow> bool \<Rightarrow> answer_scope" where
  "scope_of message prior standard_bound =
     (let t = strip message;
          local = search LOCAL_SUBJECT_rx (lower t) \<or> search CHANGE_rx (lower t) \<or> search CODE_SHAPED_rx t;
          document = search DOCUMENT_SUBJECT_rx (lower t);
          back = prior \<noteq> None \<and> refers_back t
      in if back \<and> the prior \<in> {IMPLEMENTATION, MIXED} then (if document then MIXED else the prior)
         else if local \<and> document then MIXED
         else if local then IMPLEMENTATION
         else if document then NORMATIVE
         else if back then the prior
         else if standard_bound then NORMATIVE else GENERAL)"

definition self_contained :: "string \<Rightarrow> bool" where
  "self_contained message \<longleftrightarrow> \<not> refers_back (strip message)"

definition withholds_local_tools :: "answer_scope \<Rightarrow> bool \<Rightarrow> bool" where
  "withholds_local_tools scope standard_bound \<longleftrightarrow> standard_bound \<and> scope = NORMATIVE"

definition withholds_history_payload :: "answer_scope \<Rightarrow> bool \<Rightarrow> bool \<Rightarrow> bool" where
  "withholds_history_payload scope standard_bound stands_alone \<longleftrightarrow>
     standard_bound \<and> scope = NORMATIVE \<and> stands_alone"

section \<open>What of the conversation a turn may use\<close>

definition TOOL_TRANSCRIPT_rx :: rx where
  "TOOL_TRANSCRIPT_rx =
    seqs [lit ([CHR 0x0A] @ [CHR 0x0A] @ ''[Tools executed during this turn''),
     Star (Cls (\<lambda>_. True))]"

definition spoken_part :: "string \<Rightarrow> string" where
  "spoken_part t = sub TOOL_TRANSCRIPT_rx [] t"

definition ELIDED_ASK :: string where
  "ELIDED_ASK = ''[an earlier turn about this project'' @ [CHR 0x27] @ ''s own code]''"

definition ELIDED_REPLY :: string where
  "ELIDED_REPLY = ''[the answer to it, not repeated here: it described this project'' @ [CHR 0x27] @
     ''s code and is not evidence about the document]''"

text \<open>An exchange as it is carried forward: a role and a content, which may be missing.\<close>

type_synonym history = "(string \<times> string option) list"

definition content_text :: "string option \<Rightarrow> string" where
  "content_text c = (case c of None \<Rightarrow> [] | Some t \<Rightarrow> t)"

definition local_exchange :: "bool \<Rightarrow> string \<Rightarrow> bool" where
  "local_exchange standard_bound said \<longleftrightarrow> scope_of said None standard_bound \<in> {IMPLEMENTATION, MIXED}"

fun carried_from :: "bool \<Rightarrow> bool \<Rightarrow> history \<Rightarrow> history" where
  "carried_from standard_bound local [] = []"
| "carried_from standard_bound local ((role, content) # rest) =
     (if role = ''user''
      then let said = spoken_part (content_text content);
               local' = local_exchange standard_bound said
           in (role, Some (if local' then ELIDED_ASK else said)) # carried_from standard_bound local' rest
      else (role, Some (if local then ELIDED_REPLY else content_text content))
             # carried_from standard_bound local rest)"

definition carried :: "history \<Rightarrow> answer_scope \<Rightarrow> bool \<Rightarrow> bool \<Rightarrow> history" where
  "carried history scope standard_bound stands_alone =
     (if \<not> withholds_history_payload scope standard_bound stands_alone then history
      else carried_from standard_bound False history)"

definition operator_messages :: "conv_message list \<Rightarrow> string list" where
  "operator_messages conversation =
     map (\<lambda>m. join [CHR 0x0A] (filter (\<lambda>t. t \<noteq> []) (cm_blocks m))) (filter operator_text conversation)"

definition prior_scope :: "conv_message list \<Rightarrow> bool \<Rightarrow> answer_scope option" where
  "prior_scope conversation standard_bound =
     (let said = operator_messages conversation
      in if length said < 2 then None
         else Some (scope_of (said ! (length said - 2)) None standard_bound))"

end
