(* ===== verification/Request_Reading_Props.thy ===== *)
theory Request_Reading_Props
  imports Request_Reading
begin

text \<open>
  What the reading of a request guarantees: the words settle what they settle whatever the
  model answers, a turn has one answer, and a question about the document is answered without
  what earlier turns said of the project.
\<close>

section \<open>One answer for a turn\<close>

lemma wants_write_read_only: "wc_read_only c \<Longrightarrow> fst (wants_write clock question c) = False"
  by (simp add: wants_write_def)

lemma wants_write_cached:
  "\<not> wc_read_only c \<Longrightarrow> wc_write_request c = Some a \<Longrightarrow> wants_write clock question c = (a, c)"
  by (simp add: wants_write_def)

lemma wants_write_leaves:
  assumes "wants_write clock question c = (a, c')"
  shows "wc_write_request c' = Some a" "wc_read_only c' = wc_read_only c"
  using assms by (auto simp: wants_write_def Let_def split: if_splits option.splits prod.splits)

lemma wants_write_repeated:
  "wants_write clock' question' (snd (wants_write clock question c)) = wants_write clock question c"
proof (cases "wants_write clock question c")
  case (Pair a c')
  note left = wants_write_leaves [OF Pair]
  show ?thesis
  proof (cases "wc_read_only c'")
    case True
    then have "a = False" using wants_write_read_only [of c clock question] left Pair by simp
    then show ?thesis using True left Pair by (simp add: wants_write_def)
  next
    case False
    then show ?thesis using left Pair by (simp add: wants_write_cached)
  qed
qed

text \<open>
  The words decide before the model: on a turn that has no answer yet, a prohibition or a
  question about a change is not a request to write, and a request the pattern recognises, or
  an acceptance of the previous answer, is one; in none of these cases is the model called or
  a budget charged, whatever model, budget and setting the context has.
\<close>

theorem words_settle_before_the_model:
  assumes "wc_write_request c = None"
    and settled: "wc_read_only c \<or> advisory question \<or> is_write_request question \<or>
      mutation_intent question (answered (wc_conversation c)) = INTENT_WRITE"
  shows "wants_write clock question c =
     (\<not> wc_read_only c \<and> \<not> advisory question,
      c\<lparr>wc_write_request := Some (\<not> wc_read_only c \<and> \<not> advisory question)\<rparr>)"
  using assms by (auto simp: wants_write_def Let_def resolve_write_def)

lemma why_not_is_advisory: "advisory ''Why not?''"
  by code_simp

definition plain_context :: "conv_message list \<Rightarrow> write_context" where
  "plain_context conversation = \<lparr>wc_read_only = False, wc_write_request = None, wc_judge_intent = True,
     wc_conversation = conversation, wc_backend = Some (\<lambda>_. Some ''WRITE''), wc_budget = None,
     wc_notices = [], wc_model_calls = 0\<rparr>"

theorem words_settle_before_the_model_witness:
  "wants_write (\<lambda>_. 0) ''Why not?'' (plain_context [])
     = (False, (plain_context [])\<lparr>wc_write_request := Some False\<rparr>)"
  using words_settle_before_the_model [of "plain_context []" "''Why not?''" "\<lambda>_. 0"] why_not_is_advisory
  by (simp add: plain_context_def)

text \<open>
  An acceptance is lost when a question follows it.  In a conversation with an answer to
  accept, ``Do it. Why not?'' asks for the change by the module's own reading, yet the turn is
  settled as a question about a change, whatever the context, because the test for one does
  not know that there is an answer.
\<close>

theorem acceptance_before_a_question_is_lost:
  "mutation_intent ''Do it. Why not?'' True = INTENT_WRITE \<and>
   \<not> fst (wants_write clock ''Do it. Why not?'' (c\<lparr>wc_write_request := None\<rparr>))"
proof
  show "mutation_intent ''Do it. Why not?'' True = INTENT_WRITE" by code_simp
  have "advisory ''Do it. Why not?''" by code_simp
  then show "\<not> fst (wants_write clock ''Do it. Why not?'' (c\<lparr>wc_write_request := None\<rparr>))"
    by (simp add: wants_write_def)
qed

text \<open>
  \<open>is_write_request\<close> alone does not read an acceptance as a request, although its description
  says so; only the caller that knows the conversation does.
\<close>

lemma acceptance_needs_the_conversation:
  "\<not> is_write_request ''do it''" "mutation_intent ''do it'' True = INTENT_WRITE"
  by code_simp+

section \<open>What the model may add\<close>

lemma judge_calls_at_most_once: "snd (snd (judge clock backend question budget)) \<le> 1"
  by (auto simp: judge_def Let_def split: option.splits prod.splits)

lemma wants_write_calls:
  "wc_model_calls (snd (wants_write clock question c)) \<le> Suc (wc_model_calls c)"
  using judge_calls_at_most_once [of clock "wc_backend c" question "wc_budget c"]
  by (auto simp: wants_write_def Let_def split: option.splits prod.splits)

section \<open>What is carried of a conversation\<close>

text \<open>
  Whether the message at a position belongs to an exchange about the project's code: the
  latest question at or before it is about one.
\<close>

definition asked_locally :: "bool \<Rightarrow> bool \<Rightarrow> history \<Rightarrow> bool" where
  "asked_locally standard_bound start past =
     (case find (\<lambda>m. fst m = ''user'') (rev past) of
        None \<Rightarrow> start
      | Some m \<Rightarrow> local_exchange standard_bound (spoken_part (content_text (snd m))))"

definition about_the_project :: "bool \<Rightarrow> history \<Rightarrow> nat \<Rightarrow> bool" where
  "about_the_project standard_bound h i = asked_locally standard_bound False (take (Suc i) h)"

definition carried_entry :: "bool \<Rightarrow> string \<times> string option \<Rightarrow> string \<times> string option" where
  "carried_entry project m =
     (fst m, Some (if project then (if fst m = ''user'' then ELIDED_ASK else ELIDED_REPLY)
                   else if fst m = ''user'' then spoken_part (content_text (snd m))
                   else content_text (snd m)))"

lemma find_append: "find P (xs @ ys) = (case find P xs of None \<Rightarrow> find P ys | Some x \<Rightarrow> Some x)"
  by (induction xs) auto

lemma asked_locally_Cons:
  "asked_locally b start (m # past) =
     asked_locally b (if fst m = ''user'' then local_exchange b (spoken_part (content_text (snd m))) else start) past"
  by (auto simp: asked_locally_def find_append split: option.splits)

lemma asked_locally_Nil [simp]: "asked_locally b start [] = start"
  by (simp add: asked_locally_def)

lemma length_carried_from [simp]: "length (carried_from b l h) = length h"
  by (induction b l h rule: carried_from.induct) (auto simp: Let_def)

lemma carried_from_nth:
  "i < length h \<Longrightarrow> carried_from b start h ! i = carried_entry (asked_locally b start (take (Suc i) h)) (h ! i)"
proof (induction b start h arbitrary: i rule: carried_from.induct)
  case (2 b start role content rest)
  show ?case
  proof (cases i)
    case 0
    then show ?thesis by (simp add: carried_entry_def asked_locally_Cons Let_def)
  next
    case (Suc k)
    with "2.prems" have "k < length rest" by simp
    with Suc "2.IH" show ?thesis by (simp add: asked_locally_Cons Let_def)
  qed
qed simp

lemma carried_nth:
  "withholds_history_payload scope b alone \<Longrightarrow> i < length h \<Longrightarrow>
     carried h scope b alone ! i = carried_entry (about_the_project b h i) (h ! i)"
  by (simp add: carried_def carried_from_nth about_the_project_def)

lemma length_carried [simp]: "length (carried h scope b alone) = length h"
  by (simp add: carried_def)

text \<open>
  C26: A turn that stands on its own words and asks about the bound document is told nothing of
  the project: two conversations with the same roles that differ only inside exchanges about
  the project's code are carried forward as the same text, so nothing said in such an exchange
  can reach the answer.
\<close>

theorem carried_tells_nothing_of_the_project:
  assumes withheld: "withholds_history_payload scope standard_bound alone"
    and len: "length h = length h'"
    and same: "\<And>i. i < length h \<Longrightarrow> fst (h ! i) = fst (h' ! i) \<and>
      about_the_project standard_bound h i = about_the_project standard_bound h' i \<and>
      (\<not> about_the_project standard_bound h i \<longrightarrow> snd (h ! i) = snd (h' ! i))"
  shows "carried h scope standard_bound alone = carried h' scope standard_bound alone"
proof (rule nth_equalityI)
  show "length (carried h scope standard_bound alone) = length (carried h' scope standard_bound alone)"
    using len by simp
next
  fix i assume "i < length (carried h scope standard_bound alone)"
  then have "i < length h" "i < length h'" using len by simp_all
  then show "carried h scope standard_bound alone ! i = carried h' scope standard_bound alone ! i"
    using same [of i] withheld by (auto simp: carried_nth carried_entry_def)
qed

lemma fix_is_local: "about_the_project True [(''user'', Some ''fix''), (''assistant'', c)] 0"
    "about_the_project True [(''user'', Some ''fix''), (''assistant'', c)] (Suc 0)"
proof -
  have "local_exchange True (spoken_part ''fix'')" by code_simp
  then show "about_the_project True [(''user'', Some ''fix''), (''assistant'', c)] 0"
    "about_the_project True [(''user'', Some ''fix''), (''assistant'', c)] (Suc 0)"
    by (simp_all add: about_the_project_def asked_locally_def content_text_def)
qed

theorem carried_tells_nothing_of_the_project_witness:
  "carried [(''user'', Some ''fix''), (''assistant'', Some ''in a.c'')] NORMATIVE True True
     = carried [(''user'', Some ''fix''), (''assistant'', Some ''in b.c'')] NORMATIVE True True"
  by (rule carried_tells_nothing_of_the_project)
    (auto simp: withholds_history_payload_def less_Suc_eq fix_is_local)

end
