(* ===== verification/Tool_Registry.thy ===== *)
theory Tool_Registry
  imports Text_Patterns
begin

text \<open>
  The tools of the harness (\<open>client/harness/tool_registry.py\<close>): what a tool declares, the
  checks a declaration passes when it is built, the registry that holds the declarations
  with their handlers, and the declarations of the production tools.

  \<^item> A \<open>ToolSpec\<close> is a value of \<open>tool_spec\<close>; \<open>tool_spec_new\<close> is \<open>__post_init__\<close>, so a value the
    program can hold is one that \<open>tool_spec_new\<close> returns.
  \<^item> A handler is a value of any type: the registry stores it and never calls it.
  \<^item> The texts shown to the model are prose and no check reads more of them than whether they
    are blank: \<open>prose\<close> gives the description of each tool and of each described argument.
    The schemas of the coding tools are read from \<open>agent/tool_schemas.json\<close> and are an
    argument as well.
\<close>

named_theorems registry_simps \<open>how checks of declarations decompose\<close>

datatype tool_category =
    CAT_COMMAND | CAT_FILE_READ | CAT_FILE_WRITE | CAT_RETRIEVAL | CAT_MEMORY | CAT_WEB | CAT_OTHER

datatype tool_mutability = READ_ONLY | MUTATING | CONDITIONAL

text \<open>
  The \<open>ValueError\<close>s of the module, three of them by what they name rather than by their text;
  the \<open>TypeError\<close> of a value that cannot be hashed; the \<open>KeyError\<close> of an unknown name.
\<close>

datatype registry_error =
    RegistryError string
  | UnknownExecutionModes "string list" string
  | MutatingWithoutModes string
  | MutatingInSafeMode string
  | UnhashableSchemaType
  | UnknownTool string

record tool_result_policy =
  model_context_chars :: int
  store_large_results :: bool
  preview_chars :: int

definition result_policy_new :: "int \<Rightarrow> bool \<Rightarrow> int \<Rightarrow> registry_error + tool_result_policy" where
  "result_policy_new context_chars store preview =
     (if context_chars < 1 \<or> preview < 1 then Inl (RegistryError ''tool result limits must be positive'')
      else if preview > context_chars
      then Inl (RegistryError ''preview_chars cannot exceed model_context_chars'')
      else Inr \<lparr>model_context_chars = context_chars, store_large_results = store, preview_chars = preview\<rparr>)"

definition default_result_policy :: tool_result_policy where
  "default_result_policy = \<lparr>model_context_chars = 6000, store_large_results = True, preview_chars = 2000\<rparr>"

record tool_spec =
  ts_name :: string
  ts_description :: string
  ts_input_schema :: json
  ts_category :: tool_category
  ts_mutability :: tool_mutability
  ts_required_capabilities :: "string list"
  ts_execution_modes :: "string list"
  ts_result_policy :: tool_result_policy
  ts_roles :: "string list"
  ts_model_visible :: bool
  ts_handler_key :: "string option"

section \<open>The checks of a declaration\<close>

definition valid_execution_modes :: "string list" where
  "valid_execution_modes = [''safe'', ''ask'', ''auto'']"

definition schema_types :: "string list" where
  "schema_types = [''string'', ''integer'', ''number'', ''boolean'', ''array'', ''object'']"

definition is_string :: "json \<Rightarrow> bool" where
  "is_string v = (case v of JStr _ \<Rightarrow> True | _ \<Rightarrow> False)"

definition str_of :: "json \<Rightarrow> string" where
  "str_of v = (case v of JStr s \<Rightarrow> s | _ \<Rightarrow> [])"

text \<open>
  One property of a schema.  Membership in the set of the known types hashes the value, which
  raises \<open>TypeError\<close> for a list or an object.
\<close>

definition check_property :: "string \<times> json \<Rightarrow> registry_error + unit" where
  "check_property kv =
     (case snd kv of
        JObj v \<Rightarrow>
          if \<not> hashable (get v ''type'') then Inl UnhashableSchemaType
          else if get v ''type'' \<in> JStr ` set schema_types then Inr ()
          else Inl (RegistryError (''unsupported schema type for '' @ fst kv))
      | _ \<Rightarrow> Inl (RegistryError ''tool properties must be named schemas''))"

definition validate_schema :: "json \<Rightarrow> registry_error + unit" where
  "validate_schema schema =
     (case schema of
        JObj d \<Rightarrow>
          if get d ''type'' \<noteq> JStr ''object''
          then Inl (RegistryError ''tool input schema must be an object schema'')
          else (case get_default d ''properties'' (JObj []) of
            JObj properties \<Rightarrow>
              (case get_default d ''required'' (JList []) of
                 JList required \<Rightarrow>
                   if \<not> list_all is_string required
                   then Inl (RegistryError ''tool schema required must be a string list'')
                   else if list_ex (\<lambda>n. \<not> has_key properties (str_of n)) required
                   then Inl (RegistryError ''required tool arguments must exist in properties'')
                   else bindE (mapE check_property properties) (\<lambda>_. Inr ())
               | _ \<Rightarrow> Inl (RegistryError ''tool schema required must be a string list''))
          | _ \<Rightarrow> Inl (RegistryError ''tool schema properties must be a mapping''))
      | _ \<Rightarrow> Inl (RegistryError ''tool input schema must be an object schema''))"

text \<open>\<open>[A-Za-z0-9_]+(?:\.[A-Za-z0-9_]+)?\<close>, matched against the whole name.\<close>

definition name_char :: rx where
  "name_char = Cls (\<lambda>c. ascii_letter c \<or> ascii_digit c \<or> c = CHR ''_'')"

definition tool_name_rx :: rx where
  "tool_name_rx = Seq (plus name_char) (opt (Seq (ch CHR ''.'') (plus name_char)))"

definition tool_name_ok :: "string \<Rightarrow> bool" where
  "tool_name_ok name \<longleftrightarrow> length name \<in> set (ends tool_name_rx name 0)"

definition tool_spec_new :: "tool_spec \<Rightarrow> registry_error + tool_spec" where
  "tool_spec_new spec =
     (if \<not> tool_name_ok (ts_name spec)
      then Inl (RegistryError ''tool name must be a simple name or one-level dotted namespace'')
      else if strip (ts_description spec) = []
      then Inl (RegistryError ''tool description cannot be empty'')
      else bindE (validate_schema (ts_input_schema spec)) (\<lambda>_.
        if ts_roles spec = [] then Inl (RegistryError ''tool roles cannot be empty'')
        else
          let unknown = filter (\<lambda>m. m \<notin> set valid_execution_modes) (ts_execution_modes spec)
          in if unknown \<noteq> [] then Inl (UnknownExecutionModes unknown (ts_name spec))
          else if ts_mutability spec = MUTATING \<and> ts_execution_modes spec = []
          then Inl (MutatingWithoutModes (ts_name spec))
          else if ts_mutability spec = MUTATING \<and> ''safe'' \<in> set (ts_execution_modes spec)
          then Inl (MutatingInSafeMode (ts_name spec))
          else Inr spec))"

section \<open>The registry\<close>

type_synonym 'h tool_registry = "(string \<times> tool_spec \<times> 'h option) list"

definition register_tool :: "tool_spec \<Rightarrow> 'h option \<Rightarrow> 'h tool_registry \<Rightarrow> registry_error + 'h tool_registry" where
  "register_tool spec handler entries =
     (if has_key entries (ts_name spec)
      then Inl (RegistryError (''duplicate tool: '' @ ts_name spec))
      else if ts_category spec \<noteq> CAT_COMMAND \<and> handler = None
      then Inl (RegistryError (''tool '' @ ts_name spec @ '' requires a handler''))
      else Inr (AList.update (ts_name spec) (spec, handler) entries))"

definition get_tool :: "'h tool_registry \<Rightarrow> string \<Rightarrow> registry_error + tool_spec" where
  "get_tool entries name =
     (case map_of entries name of None \<Rightarrow> Inl (UnknownTool name) | Some e \<Rightarrow> Inr (fst e))"

definition tool_handler :: "'h tool_registry \<Rightarrow> string \<Rightarrow> registry_error + 'h option" where
  "tool_handler entries name =
     (case map_of entries name of None \<Rightarrow> Inl (UnknownTool name) | Some e \<Rightarrow> Inr (snd e))"

definition list_specs :: "string option \<Rightarrow> bool option \<Rightarrow> string list option \<Rightarrow> 'h tool_registry \<Rightarrow>
    tool_spec list" where
  "list_specs role visible names entries =
     map (\<lambda>e. fst (snd e)) (filter (\<lambda>(name, spec, _).
       (case role of None \<Rightarrow> True | Some r \<Rightarrow> r \<in> set (ts_roles spec)) \<and>
       (case visible of None \<Rightarrow> True | Some v \<Rightarrow> ts_model_visible spec = v) \<and>
       (case names of None \<Rightarrow> True | Some ns \<Rightarrow> name \<in> set ns)) entries)"

record tool_definition =
  td_name :: string
  td_description :: string
  td_input_schema :: json

definition definitions_for_model :: "string \<Rightarrow> string list option \<Rightarrow> 'h tool_registry \<Rightarrow> tool_definition list" where
  "definitions_for_model role names entries =
     map (\<lambda>spec. \<lparr>td_name = ts_name spec, td_description = ts_description spec,
                  td_input_schema = ts_input_schema spec\<rparr>)
       (list_specs (Some role) (Some True) names entries)"

definition openai_definitions_for_model :: "string \<Rightarrow> string list option \<Rightarrow> 'h tool_registry \<Rightarrow> json list" where
  "openai_definitions_for_model role names entries =
     map (\<lambda>d. JObj [(''type'', JStr ''function''), (''function'', JObj
         [(''name'', JStr (td_name d)), (''description'', JStr (td_description d)),
          (''parameters'', td_input_schema d)])])
       (definitions_for_model role names entries)"

section \<open>The production tools\<close>

definition coding_tool_names :: "string list" where
  "coding_tool_names = [''read_file'', ''search_files'', ''patch'', ''terminal'']"

definition reading_roles :: "string list" where
  "reading_roles = [''main'', ''explorer'', ''reviewer'', ''planning'']"

definition coding_shape :: "(string \<times> tool_category \<times> tool_mutability \<times> string list \<times> string list \<times> string list) list" where
  "coding_shape =
     [(''read_file'', CAT_FILE_READ, READ_ONLY, [''workspace_read''], [''safe'', ''ask'', ''auto''], reading_roles),
      (''search_files'', CAT_FILE_READ, READ_ONLY, [''workspace_read''], [''safe'', ''ask'', ''auto''], reading_roles),
      (''patch'', CAT_FILE_WRITE, MUTATING, [''workspace_write''], [''ask'', ''auto''], [''main'']),
      (''terminal'', CAT_COMMAND, CONDITIONAL, [''dynamic_command_policy''], [''safe'', ''ask'', ''auto''],
         reading_roles)]"

text \<open>
  \<open>schemas\<close> holds the description and the parameters of each coding tool; a tool it lacks is a
  \<open>KeyError\<close>.
\<close>

definition coding_tool_specs :: "(string \<times> string \<times> json) list \<Rightarrow> registry_error + tool_spec list" where
  "coding_tool_specs schemas =
     mapE (\<lambda>(name, category, mutability, capabilities, modes, roles).
       case map_of schemas name of
         None \<Rightarrow> Inl (UnknownTool name)
       | Some (description, parameters) \<Rightarrow> tool_spec_new
           \<lparr>ts_name = name, ts_description = description, ts_input_schema = parameters,
            ts_category = category, ts_mutability = mutability,
            ts_required_capabilities = capabilities, ts_execution_modes = modes,
            ts_result_policy = default_result_policy, ts_roles = roles, ts_model_visible = True,
            ts_handler_key = Some name\<rparr>) coding_shape"

definition string_schema :: "(string \<Rightarrow> string) \<Rightarrow> string \<Rightarrow> string \<times> bool \<Rightarrow> string \<times> json" where
  "string_schema prose tool arg =
     (fst arg, JObj ((''type'', JStr ''string'') #
       (if snd arg \<and> prose (tool @ ''.'' @ fst arg) \<noteq> []
        then [(''description'', JStr (prose (tool @ ''.'' @ fst arg)))] else [])))"

text \<open>A tool whose arguments are strings; the flag of an argument says that it is described.\<close>

definition native_spec :: "(string \<Rightarrow> string) \<Rightarrow> string \<Rightarrow> (string \<times> bool) list \<Rightarrow> string list \<Rightarrow>
    tool_category \<Rightarrow> tool_mutability \<Rightarrow> string list \<Rightarrow> string list \<Rightarrow> string list \<Rightarrow> tool_spec" where
  "native_spec prose name args required category mutability capabilities modes roles =
     \<lparr>ts_name = name, ts_description = prose name,
      ts_input_schema = JObj [(''type'', JStr ''object''),
        (''properties'', JObj (map (string_schema prose name) args)),
        (''required'', JList (map JStr required))],
      ts_category = category, ts_mutability = mutability, ts_required_capabilities = capabilities,
      ts_execution_modes = modes, ts_result_policy = default_result_policy, ts_roles = roles,
      ts_model_visible = True, ts_handler_key = Some name\<rparr>"

definition native_declarations :: "(string \<Rightarrow> string) \<Rightarrow> tool_spec list" where
  "native_declarations prose =
     [native_spec prose ''bash'' [(''command'', True)] [''command''] CAT_COMMAND CONDITIONAL
        [''dynamic_command_policy''] [''safe'', ''ask'', ''auto''] reading_roles,
      native_spec prose ''edit_file''
        [(''path'', False), (''old_text'', False), (''new_text'', False), (''scope_reason'', True)]
        [''path'', ''old_text'', ''new_text''] CAT_FILE_WRITE MUTATING
        [''workspace_write''] [''ask'', ''auto''] [''main''],
      native_spec prose ''write_file'' [(''path'', False), (''content'', False), (''scope_reason'', True)]
        [''path'', ''content''] CAT_FILE_WRITE MUTATING [''workspace_write''] [''ask'', ''auto''] [''main''],
      native_spec prose ''append_file'' [(''path'', False), (''content'', False)] [''path'', ''content'']
        CAT_FILE_WRITE MUTATING [''workspace_write''] [''ask'', ''auto''] [''main''],
      native_spec prose ''delete_file'' [(''path'', False), (''reason'', True)] [''path'', ''reason'']
        CAT_FILE_WRITE MUTATING [''workspace_write''] [''ask'', ''auto''] [''main''],
      native_spec prose ''remember'' [(''note'', True)] [''note'']
        CAT_MEMORY MUTATING [''persistent_memory_write''] [''ask'', ''auto''] [''main''],
      native_spec prose ''plan_change''
        [(''requirement'', True), (''requirement_evidence'', True), (''current_behaviour'', True),
         (''implementation_evidence'', True), (''gap'', True), (''correction'', True),
         (''validation'', True), (''disposition'', True), (''supersedes'', True), (''reason'', True),
         (''new_evidence'', True)]
        [''requirement'', ''requirement_evidence'', ''current_behaviour'', ''implementation_evidence'',
         ''gap'', ''correction'', ''validation''] CAT_OTHER READ_ONLY [] [] [''main''],
      native_spec prose ''search_corpus'' [(''query'', False)] [''query'']
        CAT_RETRIEVAL READ_ONLY [] [] reading_roles,
      native_spec prose ''search_internet'' [(''query'', False)] [''query'']
        CAT_WEB READ_ONLY [''network''] [] [''main''],
      native_spec prose ''fetch_url'' [(''url'', False), (''pages'', True), (''save_as'', True)] [''url'']
        CAT_WEB READ_ONLY [''network''] [] [''main'']]"

definition native_tool_specs :: "(string \<Rightarrow> string) \<Rightarrow> registry_error + tool_spec list" where
  "native_tool_specs prose = mapE tool_spec_new (native_declarations prose)"

text \<open>
  The registry of a session (\<open>client/cli/tool_routing.py\<close>): the production tools, three that the
  model does not see, and the tools of the bound standard, each with the handler of its name.
\<close>

definition hidden_spec :: "string \<Rightarrow> string \<Rightarrow> string list \<Rightarrow> string list \<Rightarrow> tool_category \<Rightarrow> tool_mutability \<Rightarrow>
    string list \<Rightarrow> string list \<Rightarrow> tool_spec" where
  "hidden_spec name description args required category mutability capabilities modes =
     \<lparr>ts_name = name, ts_description = description,
      ts_input_schema = JObj [(''type'', JStr ''object''),
        (''properties'', JObj (map (\<lambda>a. (a, JObj [(''type'', JStr ''string'')])) args)),
        (''required'', JList (map JStr required))],
      ts_category = category, ts_mutability = mutability, ts_required_capabilities = capabilities,
      ts_execution_modes = modes, ts_result_policy = default_result_policy, ts_roles = [''main''],
      ts_model_visible = False, ts_handler_key = Some name\<rparr>"

definition hidden_declarations :: "tool_spec list" where
  "hidden_declarations =
     [hidden_spec ''save_skill'' ''Save a reusable skill.'' [''name'', ''content'', ''description'']
        [''name'', ''content''] CAT_MEMORY MUTATING [''persistent_memory_write''] [''ask'', ''auto''],
      hidden_spec ''search_history'' ''Search conversation history.'' [''query''] [''query'']
        CAT_RETRIEVAL READ_ONLY [] [],
      hidden_spec ''web_search'' ''Compatibility alias for internet search.'' [''query''] [''query'']
        CAT_WEB READ_ONLY [] []]"

fun register_all :: "(tool_spec \<times> 'h option) list \<Rightarrow> 'h tool_registry \<Rightarrow> registry_error + 'h tool_registry" where
  "register_all [] entries = Inr entries"
| "register_all ((spec, handler) # rest) entries =
     bindE (register_tool spec handler entries) (register_all rest)"

definition build_tool_registry :: "(string \<Rightarrow> string) \<Rightarrow> (string \<times> string \<times> json) list \<Rightarrow> (string \<Rightarrow> 'h option) \<Rightarrow>
    tool_spec list \<Rightarrow> registry_error + 'h tool_registry" where
  "build_tool_registry prose schemas handlers standard_tools =
     bindE (native_tool_specs prose) (\<lambda>native.
     bindE (coding_tool_specs schemas) (\<lambda>coding.
     bindE (mapE tool_spec_new hidden_declarations) (\<lambda>hidden.
     bindE (mapE tool_spec_new standard_tools) (\<lambda>standard.
       register_all (map (\<lambda>t. (t, handlers (ts_name t))) (native @ coding @ hidden @ standard)) []))))"

section \<open>What a registry holds\<close>

text \<open>
  \<open>spec_ok\<close> is what the router and the exposure policy rely on in a declaration; a registry is
  well formed when its keys are the names of its declarations, each declaration was accepted,
  and only a command has no handler.
\<close>

definition spec_ok :: "tool_spec \<Rightarrow> bool" where
  "spec_ok spec \<longleftrightarrow> tool_spec_new spec = Inr spec"

definition registry_ok :: "'h tool_registry \<Rightarrow> bool" where
  "registry_ok entries \<longleftrightarrow> dict entries \<and>
     list_all (\<lambda>(name, spec, handler). name = ts_name spec \<and> spec_ok spec \<and>
       (ts_category spec \<noteq> CAT_COMMAND \<longrightarrow> handler \<noteq> None)) entries"

lemma tool_spec_new_same: "tool_spec_new spec = Inr spec' \<Longrightarrow> spec' = spec"
  by (auto simp: tool_spec_new_def Let_def bindE_Inr split: if_splits)

lemma tool_spec_new_ok: "tool_spec_new spec = Inr spec' \<Longrightarrow> spec_ok spec'"
  using tool_spec_new_same by (fastforce simp: spec_ok_def)

lemma spec_ok_modes: "spec_ok spec \<Longrightarrow> set (ts_execution_modes spec) \<subseteq> set valid_execution_modes"
  by (auto simp: spec_ok_def tool_spec_new_def Let_def bindE_Inr filter_empty_conv split: if_splits)

lemma spec_ok_mutating:
  "spec_ok spec \<Longrightarrow> ts_mutability spec = MUTATING \<Longrightarrow>
     ts_execution_modes spec \<noteq> [] \<and> ''safe'' \<notin> set (ts_execution_modes spec)"
  by (auto simp: spec_ok_def tool_spec_new_def Let_def bindE_Inr split: if_splits)

lemma registry_ok_Nil [simp]: "registry_ok []"
  by (simp add: registry_ok_def)

lemma registry_ok_entry:
  "registry_ok entries \<Longrightarrow> (name, spec, handler) \<in> set entries \<Longrightarrow>
     name = ts_name spec \<and> spec_ok spec \<and> (ts_category spec \<noteq> CAT_COMMAND \<longrightarrow> handler \<noteq> None)"
  unfolding registry_ok_def list_all_iff by blast

lemma registry_ok_lookup:
  "registry_ok entries \<Longrightarrow> map_of entries name = Some (spec, handler) \<Longrightarrow>
     name = ts_name spec \<and> spec_ok spec \<and> (ts_category spec \<noteq> CAT_COMMAND \<longrightarrow> handler \<noteq> None)"
  using registry_ok_entry map_of_SomeD by metis

lemma register_tool_Inr:
  "register_tool spec handler entries = Inr entries' \<longleftrightarrow>
     \<not> has_key entries (ts_name spec) \<and> (ts_category spec \<noteq> CAT_COMMAND \<longrightarrow> handler \<noteq> None) \<and>
     entries' = entries @ [(ts_name spec, spec, handler)]"
  by (auto simp: register_tool_def update_new_key)

lemma register_tool_ok:
  assumes "registry_ok entries" "spec_ok spec" "register_tool spec handler entries = Inr entries'"
  shows "registry_ok entries'"
  using assms by (auto simp: registry_ok_def register_tool_Inr has_key_def)

lemma register_all_ok:
  assumes "registry_ok entries" "\<And>spec handler. (spec, handler) \<in> set batch \<Longrightarrow> spec_ok spec"
    "register_all batch entries = Inr entries'"
  shows "registry_ok entries'"
  using assms
proof (induction batch entries arbitrary: entries' rule: register_all.induct)
  case (2 spec handler rest entries)
  from "2.prems"(3) obtain mid where mid: "register_tool spec handler entries = Inr mid"
    and rest: "register_all rest mid = Inr entries'" by (auto simp: bindE_Inr)
  from register_tool_ok [OF "2.prems"(1) _ mid] "2.prems"(2) have "registry_ok mid" by auto
  then show ?case using "2.IH" [of mid entries'] "2.prems"(2) rest by auto
qed simp

text \<open>Registration only appends: what a name meant stays what it means.\<close>

lemma register_all_keeps:
  assumes "register_all batch entries = Inr entries'" "map_of entries name = Some e"
  shows "map_of entries' name = Some e"
  using assms
  by (induction batch entries arbitrary: entries' rule: register_all.induct)
    (fastforce simp: bindE_Inr register_tool_Inr)+

lemma register_all_has:
  assumes "register_all batch entries = Inr entries'" "(spec, handler) \<in> set batch"
  shows "map_of entries' (ts_name spec) = Some (spec, handler)"
  using assms
proof (induction batch entries arbitrary: entries' rule: register_all.induct)
  case (2 t h rest entries)
  from "2.prems"(1) obtain mid where mid: "register_tool t h entries = Inr mid"
    and rest: "register_all rest mid = Inr entries'" by (auto simp: bindE_Inr)
  have "map_of mid (ts_name t) = Some (t, h)"
    using mid by (cases "map_of entries (ts_name t)") (auto simp: register_tool_Inr has_key_iff map_add_def)
  with rest have "map_of entries' (ts_name t) = Some (t, h)" by (rule register_all_keeps)
  with "2.IH" [OF rest] "2.prems"(2) show ?case by auto
qed simp

lemma register_all_succeeds:
  assumes "distinct (map (\<lambda>b. ts_name (fst b)) batch)" "\<forall>b \<in> set batch. snd b \<noteq> None"
    "\<forall>b \<in> set batch. \<not> has_key entries (ts_name (fst b))"
  shows "\<exists>entries'. register_all batch entries = Inr entries'"
  using assms
proof (induction batch entries rule: register_all.induct)
  case (2 spec handler rest entries)
  have "register_tool spec handler entries = Inr (entries @ [(ts_name spec, spec, handler)])"
    using "2.prems" by (simp add: register_tool_Inr)
  moreover have "\<forall>b \<in> set rest. \<not> has_key (entries @ [(ts_name spec, spec, handler)]) (ts_name (fst b))"
  proof
    fix b assume b: "b \<in> set rest"
    have "ts_name (fst b) \<in> (\<lambda>b. ts_name (fst b)) ` set rest" using b by (rule imageI)
    moreover have "ts_name spec \<notin> (\<lambda>b. ts_name (fst b)) ` set rest" using "2.prems"(1) by simp
    ultimately have "ts_name (fst b) \<noteq> ts_name spec" by metis
    moreover have "\<not> has_key entries (ts_name (fst b))" using "2.prems"(3) b by simp
    ultimately show "\<not> has_key (entries @ [(ts_name spec, spec, handler)]) (ts_name (fst b))"
      by (simp add: has_key_def)
  qed
  ultimately show ?case using "2.IH" "2.prems" by simp
qed simp

lemma mapE_tool_spec_new:
  "mapE tool_spec_new ds = Inr specs \<Longrightarrow> specs = ds \<and> (\<forall>spec \<in> set specs. spec_ok spec)"
  by (induction ds arbitrary: specs) (auto simp: bindE_Inr dest: tool_spec_new_same tool_spec_new_ok)

lemma list_specs_in:
  "spec \<in> set (list_specs role visible names entries) \<longleftrightarrow>
     (\<exists>name handler. (name, spec, handler) \<in> set entries \<and>
       (case role of None \<Rightarrow> True | Some r \<Rightarrow> r \<in> set (ts_roles spec)) \<and>
       (case visible of None \<Rightarrow> True | Some v \<Rightarrow> ts_model_visible spec = v) \<and>
       (case names of None \<Rightarrow> True | Some ns \<Rightarrow> name \<in> set ns))"
proof -
  have "spec \<in> (\<lambda>e. fst (snd e)) ` S \<longleftrightarrow> (\<exists>name handler. (name, spec, handler) \<in> S)"
    for S :: "(string \<times> tool_spec \<times> 'a option) set" by force
  then show ?thesis by (simp add: list_specs_def)
qed

lemma list_specs_registered:
  assumes "spec \<in> set (list_specs role visible names entries)" "registry_ok entries"
  shows "\<exists>handler. map_of entries (ts_name spec) = Some (spec, handler)"
proof -
  from assms(1) obtain name handler where entry: "(name, spec, handler) \<in> set entries"
    unfolding list_specs_in by blast
  with assms(2) have "dict entries" "name = ts_name spec"
    using registry_ok_entry registry_ok_def by blast+
  with entry show ?thesis using dict_in_map_of by metis
qed

section \<open>The production tools are accepted\<close>

text \<open>A name without a dot is accepted when its characters are.\<close>

abbreviation name_ch :: "char \<Rightarrow> bool" where
  "name_ch c \<equiv> ascii_letter c \<or> ascii_digit c \<or> c = CHR ''_''"

lemma star_to_end:
  "i \<le> length s \<Longrightarrow> (\<And>k. i \<le> k \<Longrightarrow> k < length s \<Longrightarrow> p (s ! k)) \<Longrightarrow>
     length s \<in> set (star_ends (ends (Cls p) s) (length s - i) i)"
proof (induction "length s - i" arbitrary: i)
  case (Suc n)
  then have i: "i < length s" "length s - i = Suc n" by auto
  have "length s \<in> set (star_ends (ends (Cls p) s) (length s - Suc i) (Suc i))"
    using Suc.hyps(1) [of "Suc i"] Suc.hyps(2) Suc.prems by auto
  moreover have "length s - Suc i = n" using i by simp
  ultimately show ?case using i Suc.prems(2) by simp
qed simp

lemma simple_name_ok:
  assumes "s \<noteq> []" "list_all name_ch s"
  shows "tool_name_ok s"
proof -
  have ch: "name_ch (s ! k)" if "k < length s" for k using assms(2) that by (simp add: list_all_length)
  have "length s \<in> set (star_ends (ends (Cls name_ch) s) (length s - 1) 1)"
    by (rule star_to_end) (use assms(1) ch in \<open>auto simp: Suc_le_eq\<close>)
  then have "length s \<in> set (ends (plus name_char) s 0)"
    using assms(1) ch [of 0] by (simp add: plus_def name_char_def)
  then show ?thesis by (auto simp: tool_name_ok_def tool_name_rx_def opt_def)
qed

lemma native_names_ok:
  "list_all tool_name_ok [''bash'', ''edit_file'', ''write_file'', ''append_file'', ''delete_file'',
     ''remember'', ''plan_change'', ''search_corpus'', ''search_internet'', ''fetch_url'']"
  by (simp add: simple_name_ok ascii_letter_def)

lemma check_string_schema: "check_property (string_schema prose tool arg) = Inr ()"
  by (simp add: check_property_def string_schema_def get_def schema_types_def)

lemma mapE_const: "(\<And>x. x \<in> set xs \<Longrightarrow> f x = Inr (g x)) \<Longrightarrow> mapE f xs = Inr (map g xs)"
  by (induction xs) auto

lemma validate_native_schema:
  assumes "set required \<subseteq> fst ` set args"
  shows "validate_schema (ts_input_schema (native_spec prose name args required c m caps modes roles)) = Inr ()"
proof -
  have "mapE check_property (map (string_schema prose name) args)
      = Inr (map (\<lambda>_. ()) (map (string_schema prose name) args))"
    by (rule mapE_const) (auto simp: check_string_schema)
  moreover have "has_key (map (string_schema prose name) args) n" if "n \<in> set required" for n
    using that assms unfolding has_key_def string_schema_def by (auto simp: image_image)
  ultimately show ?thesis
    by (auto simp: native_spec_def validate_schema_def get_def get_default_def is_string_def str_of_def
        list_all_iff list_ex_iff)
qed

lemma native_spec_accepted:
  assumes "tool_name_ok name" "strip (prose name) \<noteq> []" "set required \<subseteq> fst ` set args" "roles \<noteq> []"
    "set modes \<subseteq> set valid_execution_modes" "m = MUTATING \<Longrightarrow> modes \<noteq> [] \<and> ''safe'' \<notin> set modes"
  shows "tool_spec_new (native_spec prose name args required c m caps modes roles)
       = Inr (native_spec prose name args required c m caps modes roles)"
proof -
  have unknown: "filter (\<lambda>m. m \<notin> set valid_execution_modes) modes = []"
    using assms(5) by (auto simp: filter_empty_conv)
  have schema: "validate_schema (ts_input_schema (native_spec prose name args required c m caps modes roles)) = Inr ()"
    using assms(3) by (rule validate_native_schema)
  then show ?thesis unfolding tool_spec_new_def schema
    by (simp add: native_spec_def assms(1,2,4,6) unknown)
qed

lemma native_tool_specs_accepted:
  assumes "\<And>name. strip (prose name) \<noteq> []"
  shows "native_tool_specs prose = Inr (native_declarations prose)"
proof -
  have "tool_spec_new spec = Inr spec" if "spec \<in> set (native_declarations prose)" for spec
    using that native_names_ok assms unfolding native_declarations_def
    by (auto simp: reading_roles_def valid_execution_modes_def intro!: native_spec_accepted)
  then show ?thesis using mapE_const [of "native_declarations prose" tool_spec_new id]
    by (simp add: native_tool_specs_def)
qed

section \<open>The registry of a session\<close>

lemma mapE_pointwise: "mapE f xs = Inr ys \<Longrightarrow> y \<in> set ys \<Longrightarrow> \<exists>x \<in> set xs. f x = Inr y"
  by (induction xs arbitrary: ys) (auto simp: bindE_Inr)

lemma coding_tool_in:
  assumes "coding_tool_specs schemas = Inr coding" "spec \<in> set coding"
  shows "spec_ok spec" "\<exists>caps modes roles. (ts_name spec, ts_category spec, ts_mutability spec, caps, modes, roles) \<in> set coding_shape"
proof -
  from mapE_pointwise [OF assms(1) [unfolded coding_tool_specs_def] assms(2)]
  obtain n c m caps modes roles d ps where row: "(n, c, m, caps, modes, roles) \<in> set coding_shape"
    and new: "tool_spec_new \<lparr>ts_name = n, ts_description = d, ts_input_schema = ps,
            ts_category = c, ts_mutability = m, ts_required_capabilities = caps, ts_execution_modes = modes,
            ts_result_policy = default_result_policy, ts_roles = roles, ts_model_visible = True,
            ts_handler_key = Some n\<rparr> = Inr spec"
    by (force split: option.splits)
  from new show "spec_ok spec" by (rule tool_spec_new_ok)
  from tool_spec_new_same [OF new] row
  show "\<exists>caps modes roles. (ts_name spec, ts_category spec, ts_mutability spec, caps, modes, roles) \<in> set coding_shape"
    by auto
qed

lemma built_registry:
  assumes "build_tool_registry prose schemas handlers standard_tools = Inr entries"
  shows "registry_ok entries"
    and "t \<in> set (native_declarations prose) \<Longrightarrow> map_of entries (ts_name t) = Some (t, handlers (ts_name t))"
    and "\<exists>coding. coding_tool_specs schemas = Inr coding \<and>
      (\<forall>t \<in> set coding. map_of entries (ts_name t) = Some (t, handlers (ts_name t)))"
proof -
  from assms obtain native coding hidden standard where
    parts: "native_tool_specs prose = Inr native" "coding_tool_specs schemas = Inr coding"
      "mapE tool_spec_new hidden_declarations = Inr hidden" "mapE tool_spec_new standard_tools = Inr standard"
    and reg: "register_all (map (\<lambda>t. (t, handlers (ts_name t))) (native @ coding @ hidden @ standard)) [] = Inr entries"
    by (auto simp: build_tool_registry_def bindE_Inr)
  have native: "native = native_declarations prose" "\<forall>t \<in> set native. spec_ok t"
    using parts(1) mapE_tool_spec_new unfolding native_tool_specs_def by blast+
  have ok: "spec_ok t" if "t \<in> set (native @ coding @ hidden @ standard)" for t
    using that native(2) coding_tool_in(1) [OF parts(2)] mapE_tool_spec_new [OF parts(3)] mapE_tool_spec_new [OF parts(4)]
    by auto
  show registry: "registry_ok entries" by (rule register_all_ok [OF registry_ok_Nil _ reg]) (use ok in auto)
  have has: "map_of entries (ts_name t) = Some (t, handlers (ts_name t))" if "t \<in> set (native @ coding @ hidden @ standard)" for t
    by (rule register_all_has [OF reg]) (use that in auto)
  from has native(1) show "map_of entries (ts_name t) = Some (t, handlers (ts_name t))"
    if "t \<in> set (native_declarations prose)" using that by simp
  from has parts(2) show "\<exists>coding. coding_tool_specs schemas = Inr coding \<and>
      (\<forall>t \<in> set coding. map_of entries (ts_name t) = Some (t, handlers (ts_name t)))" by auto
qed

end
