(* ===== verification/Agent_Roles.thy ===== *)
theory Agent_Roles
  imports Tool_Registry
begin

text \<open>
  The roles of specialised agents (\<open>client/runtime/agent_roles.py\<close>): what a role may use, the
  checks a role passes when it is built, the trusted roles, and the check that a registry
  offers a role exactly what the role declares.  The instructions of a role are prose and an
  argument.
\<close>

datatype agent_role = ROLE_MAIN | ROLE_EXPLORER | ROLE_REVIEWER | ROLE_PLANNING

fun role_value :: "agent_role \<Rightarrow> string" where
  "role_value ROLE_MAIN = ''main''"
| "role_value ROLE_EXPLORER = ''explorer''"
| "role_value ROLE_REVIEWER = ''reviewer''"
| "role_value ROLE_PLANNING = ''planning''"

abbreviation specialised :: "agent_role \<Rightarrow> bool" where
  "specialised r \<equiv> r \<in> {ROLE_EXPLORER, ROLE_REVIEWER, ROLE_PLANNING}"

record agent_role_spec =
  ar_role :: agent_role
  ar_prompt_addition :: string
  ar_allowed_tool_names :: "string list"
  ar_execution_mode :: string
  ar_max_model_turns :: int
  ar_max_tool_calls :: int
  ar_context_limit :: int
  ar_can_write_memory :: bool
  ar_web_access :: bool
  ar_checkpoint_access :: bool
  ar_recursive_delegation :: bool
  ar_model_override :: "string option"

datatype role_error =
    RoleError string
  | RoleToolsMissing "string list"

definition role_spec_new :: "agent_role_spec \<Rightarrow> role_error + agent_role_spec" where
  "role_spec_new spec =
     (if min (ar_max_model_turns spec) (min (ar_max_tool_calls spec) (ar_context_limit spec)) < 1
      then Inl (RoleError ''role budgets must be positive'')
      else if specialised (ar_role spec) \<and> ar_execution_mode spec \<noteq> ''safe''
      then Inl (RoleError (role_value (ar_role spec) @ '' must use safe execution mode''))
      else if specialised (ar_role spec) \<and>
        (ar_can_write_memory spec \<or> ar_web_access spec \<or> ar_checkpoint_access spec)
      then Inl (RoleError (role_value (ar_role spec) @ '' cannot receive write, web, or checkpoint access''))
      else if specialised (ar_role spec) \<and> ar_recursive_delegation spec
      then Inl (RoleError (role_value (ar_role spec) @ '' cannot recursively delegate''))
      else Inr spec)"

text \<open>The tools a role is handed, one after another.\<close>

fun check_role_tools :: "agent_role_spec \<Rightarrow> tool_spec list \<Rightarrow> role_error + unit" where
  "check_role_tools role [] = Inr ()"
| "check_role_tools role (spec # specs) =
     (if ts_mutability spec = MUTATING
      then Inl (RoleError (''role exposes mutating tool: '' @ ts_name spec))
      else if ts_category spec = CAT_WEB \<and> \<not> ar_web_access role
      then Inl (RoleError (''role exposes web tool: '' @ ts_name spec))
      else if ts_category spec = CAT_MEMORY \<and> \<not> ar_can_write_memory role
      then Inl (RoleError (''role exposes memory-write tool: '' @ ts_name spec))
      else check_role_tools role specs)"

definition validate_registry :: "agent_role_spec \<Rightarrow> 'h tool_registry \<Rightarrow> role_error + unit" where
  "validate_registry role entries =
     (let specs = list_specs (Some (role_value (ar_role role))) None (Some (ar_allowed_tool_names role)) entries;
          exposed = map ts_name specs;
          missing = sort (remdups (filter (\<lambda>n. n \<notin> set exposed) (ar_allowed_tool_names role)))
      in if set exposed \<noteq> set (ar_allowed_tool_names role) then Inl (RoleToolsMissing missing)
         else check_role_tools role specs)"

definition read_only_role :: "agent_role \<Rightarrow> string \<Rightarrow> int \<Rightarrow> int \<Rightarrow> int \<Rightarrow> string option \<Rightarrow>
    role_error + agent_role_spec" where
  "read_only_role role instructions turns calls context model = role_spec_new
     \<lparr>ar_role = role, ar_prompt_addition = instructions,
      ar_allowed_tool_names = [''bash'', ''search_corpus''], ar_execution_mode = ''safe'',
      ar_max_model_turns = turns, ar_max_tool_calls = calls, ar_context_limit = context,
      ar_can_write_memory = False, ar_web_access = False, ar_checkpoint_access = False,
      ar_recursive_delegation = False, ar_model_override = model\<rparr>"

definition explorer_role :: "string \<Rightarrow> role_error + agent_role_spec" where
  "explorer_role instructions = read_only_role ROLE_EXPLORER instructions 8 16 32768 None"

definition reviewer_role :: "string \<Rightarrow> role_error + agent_role_spec" where
  "reviewer_role instructions = read_only_role ROLE_REVIEWER instructions 8 16 32768 None"

definition planning_role :: "string \<Rightarrow> role_error + agent_role_spec" where
  "planning_role instructions = read_only_role ROLE_PLANNING instructions 2 6 16384 None"

section \<open>Facts about roles\<close>

lemma role_value_inject [simp]: "role_value r = role_value r' \<longleftrightarrow> r = r'"
  by (cases r; cases r') simp_all

lemma role_spec_new_Inr:
  "role_spec_new spec = Inr spec' \<Longrightarrow> spec' = spec \<and> 1 \<le> ar_max_model_turns spec \<and>
     1 \<le> ar_max_tool_calls spec \<and> 1 \<le> ar_context_limit spec \<and>
     (specialised (ar_role spec) \<longrightarrow> ar_execution_mode spec = ''safe'' \<and> \<not> ar_can_write_memory spec \<and>
        \<not> ar_web_access spec \<and> \<not> ar_checkpoint_access spec \<and> \<not> ar_recursive_delegation spec)"
  by (auto simp: role_spec_new_def split: if_splits)

lemma check_role_tools_Inr:
  "check_role_tools role specs = Inr () \<longleftrightarrow>
     (\<forall>spec \<in> set specs. ts_mutability spec \<noteq> MUTATING \<and>
        (ts_category spec = CAT_WEB \<longrightarrow> ar_web_access role) \<and>
        (ts_category spec = CAT_MEMORY \<longrightarrow> ar_can_write_memory role))"
  by (induction specs) auto

text \<open>A role that passed the check is handed exactly its tools, and none that writes.\<close>

lemma validate_registry_Inr:
  assumes "validate_registry role entries = Inr ()"
  shows "ts_name ` set (list_specs (Some (role_value (ar_role role))) None
           (Some (ar_allowed_tool_names role)) entries) = set (ar_allowed_tool_names role)"
    and "spec \<in> set (list_specs (Some (role_value (ar_role role))) None
           (Some (ar_allowed_tool_names role)) entries) \<Longrightarrow> ts_mutability spec \<noteq> MUTATING"
  using assms by (auto simp: validate_registry_def Let_def check_role_tools_Inr split: if_splits)

end
