(* ===== verification/Tool_Exposure.thy ===== *)
theory Tool_Exposure
  imports Agent_Roles Request_Reading Capability_Gateway
begin

text \<open>
  Which tools a turn is shown (\<open>client/harness/tool_exposure.py\<close>, and the choice of a family of
  tools in \<open>client/harness/tool_selection.py\<close>).  The view follows the role, the words of the
  request and what the session has; a floor of tools is kept whatever the words, and a turn
  that may not write keeps none that writes.  \<open>schemas\<close> holds the schemas of the coding tools,
  as in \<open>Tool_Registry\<close>.
\<close>

definition MUTATION_rx :: rx where
  "MUTATION_rx =
    seqs [Wordb, alts [lit ''add'', lit ''append'', lit ''change'', lit ''correct'',
     lit ''create'', lit ''delete'', lit ''edit'', lit ''fix'', lit ''implement'', lit ''improve'',
     lit ''migrate'', lit ''modify'', lit ''patch'', lit ''refactor'', lit ''remove'',
     lit ''rename'', lit ''repair'', lit ''replace'', lit ''rework'', lit ''update'',
     lit ''write''], opt (alts [ch CHR ''s'', lit ''es'', ch CHR ''d'', lit ''ed'', lit ''ing'']),
     Wordb]"

definition MEMORY_rx :: rx where
  "MEMORY_rx =
    alts [seqs [Wordb, lit ''remember''], lit ''durable memory'', seqs [lit ''save '',
     Star (Cls (\<lambda>c. c \<noteq> CHR 0x0A)), lit ''memory'', Wordb]]"

definition NETWORK_INTENT_rx :: rx where
  "NETWORK_INTENT_rx =
    alts [seqs [lit ''http'', opt (ch CHR ''s''), lit ''://''], lit ''www.'', seqs [Wordb,
     alts [lit ''url'', lit ''urls'', lit ''link'', lit ''links'', lit ''website'', lit ''web'',
     lit ''webpage'', lit ''online'', lit ''internet'', lit ''download'', lit ''downloaded'',
     lit ''fetch'', lit ''fetching'', lit ''curl'', lit ''wget'', lit ''http'', lit ''https'',
     lit ''browse'', lit ''page'', lit ''pdf'', lit ''datasheet'', lit ''upstream'',
     lit ''changelog'', lit ''release notes''], Wordb]]"

text \<open>An explicit prohibition, of anything and not of one named file.\<close>

definition READ_ONLY_INTENT_rx :: rx where
  "READ_ONLY_INTENT_rx =
    seqs [Wordb, alts [seqs [lit ''read'', Cls (\<lambda>c. py_space c \<or> c = CHR ''-''),
     lit ''only'', Wordb], seqs [lit ''without'', plus space, alts [lit ''editing'',
     lit ''modifying'', lit ''changing'', lit ''writing'', lit ''touching''],
     opt (seqs [plus space, opt (seqs [lit ''any'', plus space]), alts [seqs [lit ''file'',
     opt (ch CHR ''s'')], lit ''anything'', seqs [lit ''the'', plus space, alts [lit ''code'',
     seqs [lit ''file'', opt (ch CHR ''s'')], lit ''repository'', lit ''repo'', lit ''tree'',
     lit ''workspace'', lit ''project'']]]]), Star space,
     alts [Cls (\<lambda>c. c \<in> {CHR ''.'', CHR '','', CHR '';'', CHR ''!''}), Eol]],
     seqs [alts [seqs [lit ''do'', plus space, lit ''not''], seqs [lit ''don'',
     opt (ch (CHR 0x27)), ch CHR ''t''], lit ''never''], plus space, alts [lit ''edit'',
     lit ''modify'', lit ''change'', seqs [lit ''write'', opt (seqs [plus space, lit ''to''])],
     lit ''touch''], opt (seqs [plus space, opt (seqs [lit ''any'', plus space]),
     alts [seqs [lit ''file'', opt (ch CHR ''s'')], lit ''anything'', seqs [lit ''the'',
     plus space, alts [lit ''code'', seqs [lit ''file'', opt (ch CHR ''s'')], lit ''repository'',
     lit ''repo'', lit ''tree'', lit ''workspace'', lit ''project'']]]]), Star space,
     alts [Cls (\<lambda>c. c \<in> {CHR ''.'', CHR '','', CHR '';'', CHR ''!''}), Eol]]]]"

record tool_view =
  tv_role :: agent_role
  tv_names :: "string list"
  tv_definitions :: "tool_definition list"
  tv_schema_token_estimate :: int
  tv_approximate :: bool
  tv_reason :: string
  tv_read_only :: bool
  tv_advisory :: bool

definition READ_FLOOR :: "string list" where
  "READ_FLOOR = [''bash'', ''search_corpus'']"

definition WRITE_FLOOR :: "string list" where
  "WRITE_FLOOR = [''edit_file'', ''write_file'']"

definition CODING_READ :: "string list" where
  "CODING_READ = [''read_file'', ''search_files'', ''terminal'']"

definition CODING_WRITE :: "string list" where
  "CODING_WRITE = [''patch'', ''write_file'', ''delete_file'']"

definition prohibits :: "string \<Rightarrow> bool" where
  "prohibits objective \<longleftrightarrow> search READ_ONLY_INTENT_rx (lower objective)"

definition advisory_intent :: "string \<Rightarrow> bool" where
  "advisory_intent objective \<longleftrightarrow> \<not> prohibits objective \<and> advisory objective"

definition read_only_intent :: "string \<Rightarrow> bool" where
  "read_only_intent objective \<longleftrightarrow> prohibits objective \<or> advisory_intent objective"

definition tool_floor :: "agent_role \<Rightarrow> bool \<Rightarrow> bool \<Rightarrow> string list" where
  "tool_floor role read_only coding =
     (if coding
      then if role = ROLE_MAIN \<and> \<not> read_only then CODING_READ @ CODING_WRITE else CODING_READ
      else if role = ROLE_MAIN \<and> \<not> read_only then READ_FLOOR @ WRITE_FLOOR else READ_FLOOR)"

text \<open>What a call of \<open>select\<close> is told besides the registry and the role.\<close>

record exposure_request =
  er_objective :: string
  er_mutation_expected :: "bool option"
  er_web_enabled :: bool
  er_memory_write_enabled :: bool
  er_standard_bound :: bool
  er_prior_scope :: "answer_scope option"
  er_toolset :: "string option"
  er_retrieval_available :: bool

abbreviation coding_turn :: "exposure_request \<Rightarrow> bool" where
  "coding_turn req \<equiv> er_toolset req = Some ''coding''"

definition candidate_tools :: "'h tool_registry \<Rightarrow> agent_role + agent_role_spec \<Rightarrow> bool \<Rightarrow> tool_spec list" where
  "candidate_tools entries role coding =
     (let role_name = (case role of Inl r \<Rightarrow> r | Inr spec \<Rightarrow> ar_role spec);
          allowed = (case role of Inl _ \<Rightarrow> None | Inr spec \<Rightarrow> Some (ar_allowed_tool_names spec))
      in filter (\<lambda>tool. if coding then ts_name tool \<in> set (CODING_READ @ CODING_WRITE)
                        else ts_name tool \<notin> set coding_tool_names)
           (list_specs (Some (role_value role_name)) (Some True) allowed entries))"

text \<open>The conditions under which one candidate is shown, floor aside.\<close>

definition tool_selected :: "agent_role \<Rightarrow> exposure_request \<Rightarrow> bool \<Rightarrow> bool \<Rightarrow> tool_spec \<Rightarrow> bool" where
  "tool_selected role req read_only mutation tool \<longleftrightarrow>
     \<not> (prefix ''standard.'' (ts_name tool) \<and> \<not> er_standard_bound req) \<and>
     (if specialised role
      then ts_mutability tool \<noteq> MUTATING \<and> ts_category tool \<notin> {CAT_WEB, CAT_MEMORY}
      else \<not> (ts_mutability tool = MUTATING \<and>
              (read_only \<or> ts_category tool \<noteq> CAT_MEMORY \<and> \<not> mutation))) \<and>
     \<not> (ts_name tool = ''plan_change'' \<and> \<not> (er_standard_bound req \<and> mutation)) \<and>
     \<not> (ts_category tool = CAT_WEB \<and> \<not> er_web_enabled req) \<and>
     \<not> (ts_name tool = ''search_corpus'' \<and> \<not> er_retrieval_available req) \<and>
     \<not> (ts_name tool = ''fetch_url'' \<and> \<not> search NETWORK_INTENT_rx (lower (er_objective req))) \<and>
     \<not> (ts_category tool = CAT_MEMORY \<and>
        \<not> (er_memory_write_enabled req \<and> search MEMORY_rx (lower (er_objective req))))"

definition LOCAL_CATEGORIES :: "tool_category list" where
  "LOCAL_CATEGORIES = [CAT_COMMAND, CAT_FILE_READ, CAT_FILE_WRITE]"

definition offered :: "tool_spec list \<Rightarrow> answer_scope \<Rightarrow> bool \<Rightarrow> tool_spec list" where
  "offered tools scope standard_bound =
     (if \<not> withholds_local_tools scope standard_bound then tools
      else filter (\<lambda>tool. ts_category tool \<notin> set LOCAL_CATEGORIES) tools)"

definition shown_tools :: "'h tool_registry \<Rightarrow> agent_role + agent_role_spec \<Rightarrow> exposure_request \<Rightarrow> tool_spec list" where
  "shown_tools entries role req =
     (let role_name = (case role of Inl r \<Rightarrow> r | Inr spec \<Rightarrow> ar_role spec);
          candidates = candidate_tools entries role (coding_turn req);
          read_only = read_only_intent (er_objective req);
          scope = scope_of (er_objective req) (er_prior_scope req) (er_standard_bound req);
          mutation = (if read_only then False
                      else case er_mutation_expected req of
                        None \<Rightarrow> search MUTATION_rx (lower (er_objective req))
                      | Some b \<Rightarrow> b);
          picked = filter (tool_selected role_name req read_only mutation) candidates;
          kept = map ts_name picked @
            filter (\<lambda>n. n \<in> set (tool_floor role_name read_only (coding_turn req))) (map ts_name candidates)
      in offered (filter (\<lambda>tool. ts_name tool \<in> set kept) candidates) scope (er_standard_bound req))"

text \<open>\<open>json.dumps(value, sort_keys=True)\<close>: as \<open>dumps_sorted\<close>, with every character outside printable ASCII escaped.\<close>

definition escape_ascii :: "char \<Rightarrow> string" where
  "escape_ascii c =
     (let n = (of_char c :: nat)
      in if n > 126 then [CHR 0x5C] @ ''u00'' @ [hex_digit_of (n div 16), hex_digit_of (n mod 16)]
         else escape_char c)"

definition quote_ascii :: "string \<Rightarrow> string" where
  "quote_ascii s = [CHR 0x22] @ concat (map escape_ascii s) @ [CHR 0x22]"

fun dumps_ascii :: "json \<Rightarrow> string" where
  "dumps_ascii (JStr s) = quote_ascii s"
| "dumps_ascii (JList vs) = ''['' @ join '', '' (map dumps_ascii vs) @ '']''"
| "dumps_ascii (JObj d) = ''{'' @ join '', '' (map snd (sort_key fst
     (map (\<lambda>kv. (fst kv, quote_ascii (fst kv) @ '': '' @ dumps_ascii (snd kv))) d))) @ ''}''"
| "dumps_ascii v = dumps_sorted v"

definition shown_definition :: "(string \<times> string \<times> json) list \<Rightarrow> bool \<Rightarrow> tool_spec \<Rightarrow> tool_definition" where
  "shown_definition schemas coding tool =
     (case (if coding then map_of schemas (ts_name tool) else None) of
        None \<Rightarrow> \<lparr>td_name = ts_name tool, td_description = ts_description tool,
                 td_input_schema = ts_input_schema tool\<rparr>
      | Some (description, parameters) \<Rightarrow>
          \<lparr>td_name = ts_name tool, td_description = description, td_input_schema = parameters\<rparr>)"

definition select_tools :: "(string \<times> string \<times> json) list \<Rightarrow> 'h tool_registry \<Rightarrow>
    agent_role + agent_role_spec \<Rightarrow> exposure_request \<Rightarrow> tool_view" where
  "select_tools schemas entries role req =
     (let definitions = map (shown_definition schemas (coding_turn req)) (shown_tools entries role req);
          chars = int (sum_list (map (\<lambda>d. length (td_name d) + length (td_description d) +
                    length (dumps_ascii (td_input_schema d))) definitions));
          read_only = read_only_intent (er_objective req);
          advisory = read_only \<and> advisory_intent (er_objective req)
      in \<lparr>tv_role = (case role of Inl r \<Rightarrow> r | Inr spec \<Rightarrow> ar_role spec),
          tv_names = map td_name definitions, tv_definitions = definitions,
          tv_schema_token_estimate = chars div 4 + (if chars \<noteq> 0 then 1 else 0), tv_approximate = True,
          tv_reason = (if advisory then ''advisory question''
                       else if read_only then ''explicit read-only request''
                       else ''deterministic role/task category exposure''),
          tv_read_only = read_only, tv_advisory = advisory\<rparr>)"

section \<open>The family of a phase\<close>

datatype selection_phase =
    PHASE_IMPLEMENTATION | PHASE_GENERAL | PHASE_NORMATIVE | PHASE_MIXED_QUESTION
  | PHASE_MIXED_PREPASS | PHASE_MIXED_IMPLEMENTATION | PHASE_MIXED_POSTCHECK

datatype tool_family = CODING_FAMILY | NORMATIVE_FAMILY | GENERAL_FAMILY | EXTERNAL_FAMILY | EVIDENCE_PROVIDERS

datatype contract_error = StrayTools selection_phase "string list" | ContractUnmet "string list"

record tool_selection =
  sel_phase :: selection_phase
  sel_family :: tool_family
  sel_tools :: "string list"
  sel_families :: "tool_family list"
  sel_external :: "string list"

definition CODING_TOOLS :: "string list" where
  "CODING_TOOLS = [''read_file'', ''search_files'', ''patch'', ''write_file'', ''delete_file'', ''terminal'']"

definition own_family :: "selection_phase \<Rightarrow> string list \<Rightarrow> bool \<Rightarrow> contract_error + tool_family \<times> string list" where
  "own_family phase names coding =
     (if phase = PHASE_MIXED_POSTCHECK then Inr (EVIDENCE_PROVIDERS, [])
      else if coding
      then let stray = sort (remdups (filter (\<lambda>n. n \<notin> set CODING_TOOLS) names))
           in if stray \<noteq> [] then Inl (StrayTools phase stray)
              else Inr (if phase = PHASE_GENERAL then GENERAL_FAMILY else CODING_FAMILY, names)
      else if phase \<in> {PHASE_NORMATIVE, PHASE_MIXED_PREPASS} then Inr (NORMATIVE_FAMILY, names)
      else Inr (if phase = PHASE_MIXED_QUESTION then NORMATIVE_FAMILY else GENERAL_FAMILY, names))"

definition select_family :: "selection_phase \<Rightarrow> string list \<Rightarrow> bool \<Rightarrow> string list \<Rightarrow>
    contract_error + tool_selection" where
  "select_family phase names coding external =
     bindE (own_family phase names coding) (\<lambda>(family, tools).
       let outside = (if phase \<in> {PHASE_IMPLEMENTATION, PHASE_GENERAL, PHASE_MIXED_IMPLEMENTATION} \<and> coding
                      then external else [])
       in Inr \<lparr>sel_phase = phase, sel_family = family, sel_tools = tools,
               sel_families = family # (if outside \<noteq> [] then [EXTERNAL_FAMILY] else []),
               sel_external = outside\<rparr>)"

text \<open>The contract of a view outside the coding core: every tool it shows is registered.\<close>

definition check_contract :: "tool_definition list \<Rightarrow> 'h tool_registry option \<Rightarrow> contract_error + unit" where
  "check_contract definitions entries =
     (case entries of
        None \<Rightarrow> Inr ()
      | Some reg \<Rightarrow>
          let missing = filter (\<lambda>n. \<not> has_key reg n) (map td_name definitions)
          in if missing \<noteq> [] then Inl (ContractUnmet missing) else Inr ())"

definition phase_of :: "string \<Rightarrow> selection_phase option \<Rightarrow> selection_phase" where
  "phase_of task_class mixed_phase =
     (case mixed_phase of
        Some p \<Rightarrow> p
      | None \<Rightarrow>
          if task_class = ''IMPLEMENTATION'' then PHASE_IMPLEMENTATION
          else if task_class = ''NORMATIVE'' then PHASE_NORMATIVE
          else if task_class = ''MIXED'' then PHASE_MIXED_QUESTION else PHASE_GENERAL)"

end
