(* ===== verification/Tool_Router.thy ===== *)
theory Tool_Router
  imports Tool_Exposure
begin

text \<open>
  The execution of a tool call (\<open>client/harness/tool_router.py\<close>): the gates a call passes
  before anything runs, the ledger of repeated calls, the run itself, the result the model is
  shown, and what is traced.

  \<^item> A handler and the executor of commands are functions of the call; what they return, raise
    or report is a value of \<open>raw_result\<close>; the executor converts its argument to text itself.  A result given as bytes is left out, and so are
    durations and the metadata of events.
  \<^item> The trace, the hooks and the runs of handlers are one log, in the order they happen.
    Hooks observe and cannot interfere (\<open>runtime/hooks.py\<close>).
  \<^item> The cancellation token is read three times, before the gates and around the run;
    \<open>rc_cancelled i\<close> is the reason found at the \<open>i\<close>-th reading, none when there is none.
  \<^item> What the scope of the request refuses (\<open>context/request_scope.py\<close>,
    \<open>harness/target_policy.py\<close>) and the gate of the turn's lifecycle are functions of the
    context, as they are in the code; an empty text is no refusal.
\<close>

datatype tool_result_status =
    ST_OK | ST_FAILED | ST_CANCELLED | ST_DENIED | ST_INVALID_ARGUMENTS | ST_UNKNOWN_TOOL | ST_TIMEOUT | ST_CACHED

fun result_status_value :: "tool_result_status \<Rightarrow> string" where
  "result_status_value ST_OK = ''ok''"
| "result_status_value ST_FAILED = ''failed''"
| "result_status_value ST_CANCELLED = ''cancelled''"
| "result_status_value ST_DENIED = ''denied''"
| "result_status_value ST_INVALID_ARGUMENTS = ''invalid_arguments''"
| "result_status_value ST_UNKNOWN_TOOL = ''unknown_tool''"
| "result_status_value ST_TIMEOUT = ''timeout''"
| "result_status_value ST_CACHED = ''cached''"

record tool_handler_result =
  hr_text :: string
  hr_status :: tool_result_status
  hr_exit_code :: "int option"
  hr_stdout :: "string option"
  hr_stderr :: "string option"
  hr_metadata :: json_object
  hr_mutation :: bool
  hr_affected_paths :: "string list"
  hr_read_paths :: "string list"
  hr_error_category :: "string option"
  hr_error_summary :: "string option"
  hr_model_text :: "string option"

record tool_result_envelope =
  te_tool_call_id :: string
  te_tool_name :: string
  te_success :: bool
  te_status :: tool_result_status
  te_text :: string
  te_model_content :: string
  te_category :: string
  te_output_bytes :: nat
  te_exit_code :: "int option"
  te_stdout :: "string option"
  te_stderr :: "string option"
  te_metadata :: json_object
  te_truncated_for_model :: bool
  te_mutation :: bool
  te_affected_paths :: "string list"
  te_read_paths :: "string list"
  te_error_category :: "string option"
  te_error_summary :: "string option"
  te_result_reference :: "string option"

datatype raw_result =
    Structured tool_handler_result
  | Legacy string
  | OtherValue
  | RaisedCancelled string
  | Raised string string

record gate_decision =
  gd_allowed :: bool
  gd_reason :: string
  gd_message :: string

record scope_policy =
  sp_sibling_write_refusal :: "string \<Rightarrow> string"
  sp_outside_project_refusal :: "string \<Rightarrow> string"
  sp_shell_write_refusal :: "string \<Rightarrow> string"
  sp_shell_write_targets :: "string \<Rightarrow> string list"
  sp_target_refusal :: "string \<Rightarrow> string"

record router_context =
  rc_cancelled :: "nat \<Rightarrow> string option"
  rc_command_executor :: "(json \<Rightarrow> raw_result) option"
  rc_result_store :: "(string \<Rightarrow> string) option"
  rc_role :: string
  rc_evidence_available :: "(string \<Rightarrow> bool option) option"
  rc_read_only :: bool
  rc_advisory :: bool
  rc_scope :: "scope_policy option"
  rc_write_gate :: "(string \<Rightarrow> gate_decision option) option"
  rc_execution_mode :: string

text \<open>The log: started and closed calls, repetitions, touched files, hooks, and runs.\<close>

datatype router_event =
    CallStarted string "string list"
  | CallFinished string
  | CallFailed string string
  | RepeatedAction string string nat bool
  | FileRead string
  | FileModified string
  | BeforeTool string
  | AfterTool string
  | OnToolFailure string
  | HandlerRun string json

record evidence_record =
  ev_tool_call_id :: string
  ev_content :: string
  ev_result_reference :: "string option"

record router_state =
  rs_failed :: "(string \<times> nat) list"
  rs_cached :: "(string \<times> nat) list"
  rs_evidence :: "(string \<times> evidence_record) list"
  rs_generation :: nat
  rs_scope_reasons :: "(string \<times> string) list"
  rs_log :: "router_event list"

definition fresh_router_state :: router_state where
  "fresh_router_state = \<lparr>rs_failed = [], rs_cached = [], rs_evidence = [], rs_generation = 0,
     rs_scope_reasons = [], rs_log = []\<rparr>"

type_synonym handlers = "(json \<Rightarrow> raw_result) tool_registry"

definition emit_events :: "router_event list \<Rightarrow> router_state \<Rightarrow> router_state" where
  "emit_events es s = s\<lparr>rs_log := rs_log s @ es\<rparr>"

definition MAX_FAILED_REPEATS :: nat where
  "MAX_FAILED_REPEATS = 2"

definition MAX_CACHED_REPEATS :: nat where
  "MAX_CACHED_REPEATS = 1"

section \<open>Which outcomes make reads stale\<close>

definition NOT_EXECUTED :: "tool_result_status list" where
  "NOT_EXECUTED = [ST_DENIED, ST_CANCELLED, ST_INVALID_ARGUMENTS, ST_UNKNOWN_TOOL]"

text \<open>\<open>isinstance(count, int)\<close>, where a Boolean is an integer.\<close>

definition int_count :: "json \<Rightarrow> int option" where
  "int_count v = (case v of JInt n \<Rightarrow> Some n | JBool b \<Rightarrow> Some (if b then 1 else 0) | _ \<Rightarrow> None)"

definition invalidates_reads :: "tool_result_status \<Rightarrow> bool \<Rightarrow> json_object \<Rightarrow> bool" where
  "invalidates_reads status mutation metadata =
     (if status \<in> set NOT_EXECUTED then False
      else case int_count (get metadata ''mutation_count'') of
        Some n \<Rightarrow> mutation \<or> n > 0
      | None \<Rightarrow> mutation \<or> json_truthy (get metadata ''potentially_mutating''))"

definition action_signature :: "string \<Rightarrow> json \<Rightarrow> nat \<Rightarrow> string" where
  "action_signature name arguments generation =
     nat_str generation @ '':'' @ name @ '':'' @ dumps_ascii arguments"

section \<open>Arguments\<close>

definition fits_type :: "json \<Rightarrow> string \<Rightarrow> bool" where
  "fits_type v t =
     (if t = ''string'' then (case v of JStr _ \<Rightarrow> True | _ \<Rightarrow> False)
      else if t = ''integer'' then (case v of JInt _ \<Rightarrow> True | _ \<Rightarrow> False)
      else if t = ''number'' then (case v of JInt _ \<Rightarrow> True | JFloat _ \<Rightarrow> True | _ \<Rightarrow> False)
      else if t = ''boolean'' then (case v of JBool _ \<Rightarrow> True | _ \<Rightarrow> False)
      else if t = ''array'' then (case v of JList _ \<Rightarrow> True | _ \<Rightarrow> False)
      else if t = ''object'' then (case v of JObj _ \<Rightarrow> True | _ \<Rightarrow> False)
      else True)"

definition in_quotes :: "string \<Rightarrow> string" where
  "in_quotes s = [CHR 0x27] @ s @ [CHR 0x27]"

definition members_of :: "json \<Rightarrow> json_object" where
  "members_of v = (case v of JObj d \<Rightarrow> d | _ \<Rightarrow> [])"

definition required_names :: "json \<Rightarrow> string list" where
  "required_names schema =
     (case get_default (members_of schema) ''required'' (JList []) of JList ns \<Rightarrow> map str_of ns | _ \<Rightarrow> [])"

definition declared_type :: "json \<Rightarrow> string \<Rightarrow> string option" where
  "declared_type schema name =
     (case map_of (members_of (get_default (members_of schema) ''properties'' (JObj []))) name of
        None \<Rightarrow> None
      | Some p \<Rightarrow> (case get (members_of p) ''type'' of JStr t \<Rightarrow> Some t | _ \<Rightarrow> None))"

definition validate_arguments :: "tool_spec \<Rightarrow> json \<Rightarrow> string option" where
  "validate_arguments spec arguments =
     (case arguments of
        JObj d \<Rightarrow>
          (case find (\<lambda>n. \<not> has_key d n) (required_names (ts_input_schema spec)) of
             Some n \<Rightarrow> Some (''missing required argument '' @ in_quotes n)
           | None \<Rightarrow>
             (case find (\<lambda>(n, v). case declared_type (ts_input_schema spec) n of
                    None \<Rightarrow> False | Some t \<Rightarrow> \<not> fits_type v t) d of
                Some (n, v) \<Rightarrow> Some (''argument '' @ in_quotes n @ '' must be '' @
                  the (declared_type (ts_input_schema spec) n))
              | None \<Rightarrow> None))
      | _ \<Rightarrow> Some ''arguments must be an object'')"

section \<open>The gates before a run\<close>

fun tool_category_value :: "tool_category \<Rightarrow> string" where
  "tool_category_value CAT_COMMAND = ''command''"
| "tool_category_value CAT_FILE_READ = ''file_read''"
| "tool_category_value CAT_FILE_WRITE = ''file_write''"
| "tool_category_value CAT_RETRIEVAL = ''retrieval''"
| "tool_category_value CAT_MEMORY = ''memory''"
| "tool_category_value CAT_WEB = ''web''"
| "tool_category_value CAT_OTHER = ''other''"

text \<open>The number of bytes of a text in UTF-8.\<close>

definition utf8_length :: "string \<Rightarrow> nat" where
  "utf8_length s = sum_list (map (\<lambda>c. if (of_char c :: nat) < 128 then 1 else 2) s)"

definition early_failure :: "string \<Rightarrow> string \<Rightarrow> tool_result_status \<Rightarrow> string \<Rightarrow> string \<Rightarrow> string \<Rightarrow>
    string list \<Rightarrow> router_state \<Rightarrow> tool_result_envelope \<times> router_state" where
  "early_failure call_id name status category message tool_category keys s =
     (\<lparr>te_tool_call_id = call_id, te_tool_name = name, te_success = False, te_status = status,
       te_text = message, te_model_content = message, te_category = tool_category,
       te_output_bytes = utf8_length message, te_exit_code = None, te_stdout = None, te_stderr = None,
       te_metadata = [], te_truncated_for_model = False, te_mutation = False, te_affected_paths = [],
       te_read_paths = [], te_error_category = Some category, te_error_summary = Some message,
       te_result_reference = None\<rparr>,
      emit_events [CallStarted name keys, CallFailed name category, OnToolFailure name] s)"

text \<open>The first of the arguments \<open>path\<close>, \<open>file_path\<close> and \<open>file\<close> that is a text.\<close>

definition write_target :: "json \<Rightarrow> string" where
  "write_target arguments =
     (case find (\<lambda>k. is_string (get (members_of arguments) k)) [''path'', ''file_path'', ''file''] of
        None \<Rightarrow> []
      | Some k \<Rightarrow> str_of (get (members_of arguments) k))"

definition drop_scope_reason :: "json \<Rightarrow> json" where
  "drop_scope_reason arguments =
     (case arguments of JObj d \<Rightarrow> JObj (filter (\<lambda>(k, _). k \<noteq> ''scope_reason'') d) | v \<Rightarrow> v)"

definition command_refusal :: "scope_policy \<Rightarrow> string \<Rightarrow> (string \<times> string) option" where
  "command_refusal scope command =
     (if sp_outside_project_refusal scope command \<noteq> []
      then Some (''outside_project'', sp_outside_project_refusal scope command)
      else if sp_shell_write_refusal scope command \<noteq> []
      then Some (''outside_requested_scope'', sp_shell_write_refusal scope command)
      else case find (\<lambda>t. sp_target_refusal scope t \<noteq> []) (sp_shell_write_targets scope command) of
        None \<Rightarrow> None
      | Some t \<Rightarrow> Some (''protected_target'', sp_target_refusal scope t @
          ''. A shell command is not a way around this: the same file is refused to every tool.''))"

text \<open>
  One gate after another, each a refusal (status, category, message, and whether the names of
  the arguments are traced) or none.
\<close>

type_synonym refusal = "tool_result_status \<times> string \<times> string \<times> bool"

definition read_only_refusal :: "router_context \<Rightarrow> tool_spec \<Rightarrow> refusal option" where
  "read_only_refusal c spec =
     (if rc_read_only c \<and> ts_mutability spec = MUTATING
      then Some (ST_DENIED, ''read_only_task'',
        if rc_advisory c
        then ''ERROR: this task is read-only -- the user asked whether or how something could change, not for the change, so ''
             @ in_quotes (ts_name spec) @ '' is refused. Nothing in this turn can write: answer with what would have to change, where, and why.''
        else ''ERROR: this task is read-only -- you were asked not to change anything, so ''
             @ in_quotes (ts_name spec) @ '' is refused. Nothing in this turn can write: answer from what you have read.'', False)
      else None)"

definition role_refusal :: "router_context \<Rightarrow> tool_spec \<Rightarrow> refusal option" where
  "role_refusal c spec =
     (if rc_role c \<notin> set (ts_roles spec)
      then Some (ST_DENIED, ''permission_denied'', ''ERROR: tool '' @ in_quotes (ts_name spec) @
        '' is unavailable to role '' @ in_quotes (rc_role c), False)
      else None)"

definition sibling_refusal :: "router_context \<Rightarrow> tool_spec \<Rightarrow> json \<Rightarrow> string option" where
  "sibling_refusal c spec arguments =
     (case (rc_scope c, arguments) of
        (Some scope, JObj d) \<Rightarrow>
          if ts_mutability spec = MUTATING \<and> sp_sibling_write_refusal scope (write_target arguments) \<noteq> []
          then Some (sp_sibling_write_refusal scope (write_target arguments)) else None
      | _ \<Rightarrow> None)"

definition scope_reason :: "json \<Rightarrow> string" where
  "scope_reason arguments = strip (str_of (get (members_of arguments) ''scope_reason''))"

definition scope_refusal :: "router_context \<Rightarrow> tool_spec \<Rightarrow> json \<Rightarrow> refusal option" where
  "scope_refusal c spec arguments =
     (case sibling_refusal c spec arguments of
        None \<Rightarrow> None
      | Some r \<Rightarrow>
          if scope_reason arguments = []
          then Some (ST_DENIED, ''outside_requested_scope'',
            ''ERROR: '' @ in_quotes (ts_name spec) @ '' refused: '' @ r, False)
          else None)"

definition shell_refusal :: "router_context \<Rightarrow> tool_spec \<Rightarrow> json \<Rightarrow> refusal option" where
  "shell_refusal c spec arguments =
     (case (rc_scope c, arguments) of
        (Some scope, JObj d) \<Rightarrow>
          (if ts_category spec = CAT_COMMAND \<and> is_string (get d ''command'')
           then case command_refusal scope (str_of (get d ''command'')) of
             None \<Rightarrow> None
           | Some (category, r) \<Rightarrow> Some (ST_DENIED, category, ''ERROR: command refused: '' @ r, False)
           else None)
      | _ \<Rightarrow> None)"

definition gate_refusal :: "router_context \<Rightarrow> tool_spec \<Rightarrow> json \<Rightarrow> refusal option" where
  "gate_refusal c spec arguments =
     (case rc_write_gate c of
        None \<Rightarrow> None
      | Some gate \<Rightarrow>
        if ts_mutability spec \<noteq> MUTATING then None
        else case gate (write_target arguments) of
          None \<Rightarrow> None
        | Some d \<Rightarrow>
            if gd_allowed d then None
            else Some (ST_DENIED, if gd_reason d = [] then ''investigation_incomplete'' else gd_reason d,
              ''ERROR: '' @ (if gd_message d = [] then ''investigation incomplete'' else gd_message d), False))"

definition mode_refusal :: "router_context \<Rightarrow> tool_spec \<Rightarrow> refusal option" where
  "mode_refusal c spec =
     (if ts_execution_modes spec \<noteq> [] \<and> rc_execution_mode c \<noteq> [] \<and>
         rc_execution_mode c \<notin> set (ts_execution_modes spec)
      then Some (ST_DENIED, ''execution_mode_denied'', ''ERROR: '' @ in_quotes (ts_name spec) @
        '' is unavailable in '' @ rc_execution_mode c @ '' mode.'', False)
      else None)"

definition argument_refusal :: "tool_spec \<Rightarrow> json \<Rightarrow> refusal option" where
  "argument_refusal spec arguments =
     map_option (\<lambda>e. (ST_INVALID_ARGUMENTS, ''invalid_arguments'',
       ''ERROR: invalid arguments for '' @ ts_name spec @ '': '' @ e, True)) (validate_arguments spec arguments)"

fun first_refusal :: "refusal option list \<Rightarrow> refusal option" where
  "first_refusal [] = None"
| "first_refusal (Some r # rs) = Some r"
| "first_refusal (None # rs) = first_refusal rs"

definition argument_keys :: "json \<Rightarrow> string list" where
  "argument_keys arguments = sort (map fst (members_of arguments))"

text \<open>
  The reason given for a write outside the scope is kept as soon as that gate is passed, even
  if a later gate refuses the call.
\<close>

definition keep_reason :: "router_context \<Rightarrow> tool_spec \<Rightarrow> json \<Rightarrow> router_state \<Rightarrow> router_state" where
  "keep_reason c spec arguments s =
     (if sibling_refusal c spec arguments \<noteq> None
      then s\<lparr>rs_scope_reasons := rs_scope_reasons s @ [(write_target arguments, take 500 (scope_reason arguments))]\<rparr>
      else s)"

definition policy_gate :: "router_context \<Rightarrow> handlers \<Rightarrow> string \<Rightarrow> string \<Rightarrow> json \<Rightarrow> router_state \<Rightarrow>
    (tool_result_envelope + tool_spec \<times> json) \<times> router_state" where
  "policy_gate c entries call_id name arguments s =
     (if rc_cancelled c 0 \<noteq> None
      then case early_failure call_id name ST_CANCELLED ''interrupted''
             ''ERROR: tool execution cancelled before start'' ''other'' [] s of (e, s') \<Rightarrow> (Inl e, s')
      else case get_tool entries name of
        Inl _ \<Rightarrow>
          (case early_failure call_id name ST_UNKNOWN_TOOL ''unknown_tool''
             (''ERROR: unknown tool: '' @ name) ''other'' [] s of (e, s') \<Rightarrow> (Inl e, s'))
      | Inr spec \<Rightarrow>
          let early = first_refusal [role_refusal c spec, read_only_refusal c spec, scope_refusal c spec arguments];
              s1 = (if early = None then keep_reason c spec arguments s else s);
              arguments' = drop_scope_reason arguments;
              late = first_refusal [shell_refusal c spec arguments', gate_refusal c spec arguments',
                mode_refusal c spec, argument_refusal spec arguments']
          in case first_refusal [early, late] of
               Some (status, category, message, with_keys) \<Rightarrow>
                 (case early_failure call_id name status category message (tool_category_value (ts_category spec))
                    (if with_keys then argument_keys arguments' else []) s1 of (e, s') \<Rightarrow> (Inl e, s'))
             | None \<Rightarrow> (Inr (spec, arguments'), s1))"

definition authorize_call :: "router_context \<Rightarrow> handlers \<Rightarrow> string \<Rightarrow> json \<Rightarrow> router_state \<Rightarrow>
    string option \<times> router_state" where
  "authorize_call c entries name arguments s =
     (case policy_gate c entries ''authorize'' name arguments s of
        (Inl e, s') \<Rightarrow> (Some (te_text e), s')
      | (Inr _, s') \<Rightarrow> (None, s'))"

section \<open>The result of a run\<close>

definition EXIT_rx :: rx where
  "EXIT_rx = seqs [lit ''(exit'', plus space, opt (ch CHR ''-''), plus (Cls rx_digit), lit '')'']"

definition digits_int :: "string \<Rightarrow> int" where
  "digits_int ds = fold (\<lambda>c n. 10 * n + (int (of_char c :: nat) - 48)) ds 0"

definition signed_int :: "string \<Rightarrow> int" where
  "signed_int s = (case s of c # ds \<Rightarrow> if c = CHR ''-'' then - digits_int ds else digits_int s | [] \<Rightarrow> 0)"

definition exit_code_of :: "string \<Rightarrow> int option" where
  "exit_code_of t =
     (case finds EXIT_rx t 0 of
        [] \<Rightarrow> None
      | (i, j) # _ \<Rightarrow> Some (signed_int (strip (slice t (i + 5) (j - 1)))))"

text \<open>\<open>t.splitlines()[0]\<close> of a text that is not empty.\<close>

definition ends_line :: "char \<Rightarrow> bool" where
  "ends_line c \<longleftrightarrow> (let n = (of_char c :: nat) in n \<in> {10, 11, 12, 13, 28, 29, 30, 133})"

definition first_line :: "string \<Rightarrow> string" where
  "first_line t = takeWhile (\<lambda>c. \<not> ends_line c) t"

abbreviation succeeded :: "tool_result_status \<Rightarrow> bool" where
  "succeeded st \<equiv> st \<in> {ST_OK, ST_CACHED}"

definition legacy_status :: "string \<Rightarrow> tool_result_status" where
  "legacy_status t =
     (if prefix ''CANCELLED'' t then ST_CANCELLED
      else if prefix ''ERROR'' t then (if contains (lower t) ''timed out'' then ST_TIMEOUT else ST_FAILED)
      else if exit_code_of t \<notin> {None, Some 0} then ST_FAILED
      else if prefix ''(ALREADY EXECUTED'' t then ST_CACHED
      else ST_OK)"

definition plain_result :: "string \<Rightarrow> tool_result_status \<Rightarrow> int option \<Rightarrow> string option \<Rightarrow> string option \<Rightarrow>
    tool_handler_result" where
  "plain_result t status code category summary =
     \<lparr>hr_text = t, hr_status = status, hr_exit_code = code, hr_stdout = None, hr_stderr = None,
      hr_metadata = [], hr_mutation = False, hr_affected_paths = [], hr_read_paths = [],
      hr_error_category = category, hr_error_summary = summary, hr_model_text = None\<rparr>"

definition failed_result :: "string \<Rightarrow> string \<Rightarrow> string \<Rightarrow> tool_handler_result" where
  "failed_result name class message =
     plain_result (''ERROR: tool '' @ in_quotes name @ '' failed: '' @ message) ST_FAILED None (Some class)
       (Some (if take 240 message = [] then class else take 240 message))"

definition cancelled_result :: "string \<Rightarrow> tool_handler_result" where
  "cancelled_result reason =
     plain_result (''ERROR: '' @ reason) ST_CANCELLED None (Some ''interrupted'') (Some reason)"

definition normalize_handler_result :: "string \<Rightarrow> raw_result \<Rightarrow> tool_handler_result" where
  "normalize_handler_result name raw =
     (case raw of
        Structured r \<Rightarrow> r
      | Legacy t \<Rightarrow>
          let status = legacy_status t
          in plain_result t status (exit_code_of t)
               (if succeeded status then None else Some (result_status_value status))
               (if succeeded status then None else Some (take 240 (first_line t)))
      | OtherValue \<Rightarrow> failed_result name ''TypeError'' ''tool handler must return ToolHandlerResult, str, or bytes''
      | RaisedCancelled reason \<Rightarrow> cancelled_result reason
      | Raised class message \<Rightarrow> failed_result name class message)"

text \<open>
  The run inside its exception handler: the token is read before it and after it.  The flag
  says whether the handler or the executor was called.
\<close>

definition run_tool :: "router_context \<Rightarrow> handlers \<Rightarrow> tool_spec \<Rightarrow> json \<Rightarrow> tool_handler_result \<times> bool" where
  "run_tool c entries spec arguments =
     (case rc_cancelled c 1 of
        Some reason \<Rightarrow> (cancelled_result reason, False)
      | None \<Rightarrow>
        let (raw, ran) =
              (if ts_category spec = CAT_COMMAND
               then case rc_command_executor c of
                 None \<Rightarrow> (Structured (plain_result ''ERROR: command execution boundary unavailable'' ST_DENIED None
                    (Some ''security_boundary_unavailable'') (Some ''command execution boundary unavailable'')), False)
               | Some exec \<Rightarrow>
                   (case map_of (members_of arguments) ''command'' of
                      None \<Rightarrow> (Raised ''KeyError'' (in_quotes ''command''), False)
                    | Some v \<Rightarrow> (exec v, True))
               else case tool_handler entries (ts_name spec) of
                 Inr (Some h) \<Rightarrow> (h arguments, True)
               | Inr None \<Rightarrow> (Raised ''RuntimeError'' ''registered tool has no handler'', False)
               | Inl _ \<Rightarrow> (Raised ''KeyError'' (''unknown tool: '' @ ts_name spec), False))
        in case raw of
             RaisedCancelled reason \<Rightarrow> (cancelled_result reason, ran)
           | Raised class message \<Rightarrow> (failed_result (ts_name spec) class message, ran)
           | _ \<Rightarrow>
             (case rc_cancelled c 2 of
                Some reason \<Rightarrow> (cancelled_result reason, ran)
              | None \<Rightarrow> (normalize_handler_result (ts_name spec) raw, ran)))"

definition limited_suffix :: "nat \<Rightarrow> string option \<Rightarrow> string" where
  "limited_suffix bytes reference =
     [CHR 0x0A, CHR 0x0A] @ ''[tool output limited for model context: '' @ nat_str bytes @ '' bytes; '' @
     (case reference of Some r \<Rightarrow> ''full result reference '' @ r @ '']'' | None \<Rightarrow> ''no result store configured]'')"

definition envelope_of :: "router_context \<Rightarrow> tool_spec \<Rightarrow> string \<Rightarrow> tool_handler_result \<Rightarrow> tool_result_envelope" where
  "envelope_of c spec call_id r =
     (let policy = ts_result_policy spec;
          t = hr_text r;
          shown = (case hr_model_text r of None \<Rightarrow> t | Some m \<Rightarrow> m);
          oversize = int (length t) > model_context_chars policy;
          truncated = int (length shown) > model_context_chars policy;
          reference = (if oversize \<and> store_large_results policy
                       then map_option (\<lambda>put. put t) (rc_result_store c) else None)
      in \<lparr>te_tool_call_id = call_id, te_tool_name = ts_name spec, te_success = succeeded (hr_status r),
          te_status = hr_status r, te_text = t,
          te_model_content = (if truncated
            then take (nat (preview_chars policy)) shown @ limited_suffix (utf8_length t) reference else shown),
          te_category = tool_category_value (ts_category spec), te_output_bytes = utf8_length t,
          te_exit_code = hr_exit_code r, te_stdout = hr_stdout r, te_stderr = hr_stderr r,
          te_metadata = hr_metadata r, te_truncated_for_model = truncated, te_mutation = hr_mutation r,
          te_affected_paths = hr_affected_paths r, te_read_paths = hr_read_paths r,
          te_error_category = hr_error_category r, te_error_summary = hr_error_summary r,
          te_result_reference = reference\<rparr>)"

section \<open>The ledger of repeated calls\<close>

definition tally :: "(string \<times> nat) list \<Rightarrow> string \<Rightarrow> nat" where
  "tally d k = (case map_of d k of None \<Rightarrow> 0 | Some n \<Rightarrow> n)"

definition bump :: "string \<Rightarrow> (string \<times> nat) list \<Rightarrow> (string \<times> nat) list" where
  "bump k d = AList.update k (Suc (tally d k)) d"

definition evidence_visible :: "router_context \<Rightarrow> router_state \<Rightarrow> string \<Rightarrow> bool" where
  "evidence_visible c s fingerprint =
     (case (map_of (rs_evidence s) fingerprint, rc_evidence_available c) of
        (Some e, Some available) \<Rightarrow>
          (case available (ev_tool_call_id e) of None \<Rightarrow> True | Some b \<Rightarrow> b)
      | _ \<Rightarrow> True)"

definition rehydrated :: "tool_result_envelope \<Rightarrow> router_state \<Rightarrow> string \<Rightarrow> tool_result_envelope" where
  "rehydrated e s fingerprint =
     (case map_of (rs_evidence s) fingerprint of
        None \<Rightarrow> e
      | Some r \<Rightarrow>
          if ev_content r = [] then e
          else e\<lparr>te_text := ev_content r, te_model_content := ev_content r,
                 te_result_reference := ev_result_reference r,
                 te_metadata := AList.update ''rehydrated_evidence'' (JBool True) (te_metadata e)\<rparr>)"

definition suppressed_repeat :: "string \<Rightarrow> string \<Rightarrow> tool_spec \<Rightarrow> json \<Rightarrow> nat \<Rightarrow> string \<Rightarrow> string \<Rightarrow> bool \<Rightarrow>
    router_state \<Rightarrow> tool_result_envelope \<times> router_state" where
  "suppressed_repeat call_id name spec arguments count kind message terminal s =
     (let (e, s') = early_failure call_id name ST_DENIED kind message (tool_category_value (ts_category spec))
            (argument_keys arguments) (emit_events [RepeatedAction name kind count terminal] s)
      in (e\<lparr>te_metadata := [(''suppressed_repeat'', JBool True), (''repeat_count'', JInt (int count)),
             (''repeat_kind'', JStr kind), (''terminal_repeat'', JBool terminal),
             (''category'', JStr (tool_category_value (ts_category spec)))]\<rparr>, s'))"

definition repeat_refusal_text :: "nat \<Rightarrow> string" where
  "repeat_refusal_text count =
     ''ERROR: this exact call has already failed '' @ nat_str count @
     '' times and was not run again. Repeating it will not change the result. Take a different route: use the tools that act on this workspace (bash, edit_file, write_file, search_corpus), or say what is blocking you and stop.''"

definition cached_refusal_text :: string where
  "cached_refusal_text =
     ''ERROR: this exact observation is already present in the context and no state has changed. Use the existing evidence and answer the user, or choose an action that obtains genuinely new information.''"

text \<open>What an outcome does to the ledger, and the envelope the caller gets.\<close>

definition account :: "router_context \<Rightarrow> string \<Rightarrow> string \<Rightarrow> string \<Rightarrow> string \<Rightarrow> tool_result_envelope \<Rightarrow> router_state \<Rightarrow>
    tool_result_envelope \<times> router_state" where
  "account c name call_id fingerprint failure_key e s =
     (if te_status e = ST_CACHED
      then let s1 = s\<lparr>rs_cached := bump fingerprint (rs_cached s)\<rparr>
           in (if evidence_visible c s1 fingerprint then e else rehydrated e s1 fingerprint, s1)
      else if te_success e
      then let seen = has_key (rs_evidence s) fingerprint;
               s1 = s\<lparr>rs_failed := AList.delete failure_key (rs_failed s),
                      rs_evidence := AList.update fingerprint
                        \<lparr>ev_tool_call_id = call_id, ev_content = te_model_content e,
                         ev_result_reference = te_result_reference e\<rparr> (rs_evidence s)\<rparr>
           in (e, if seen
                  then emit_events [RepeatedAction name ''observation_repeated'' (Suc (tally (rs_cached s) fingerprint)) False]
                         (s1\<lparr>rs_cached := bump fingerprint (rs_cached s)\<rparr>)
                  else s1)
      else (e, s\<lparr>rs_failed := bump failure_key (rs_failed s)\<rparr>))"

definition advance_generation :: "tool_result_envelope \<Rightarrow> router_state \<Rightarrow> router_state" where
  "advance_generation e s =
     (if invalidates_reads (te_status e) (te_mutation e) (te_metadata e)
      then s\<lparr>rs_generation := Suc (rs_generation s)\<rparr> else s)"

text \<open>The call is closed in the trace; a failure without a summary and without a text has no first line.\<close>

definition unsummarised :: "tool_result_envelope \<Rightarrow> bool" where
  "unsummarised e \<longleftrightarrow> \<not> te_success e \<and> te_error_summary e \<in> {None, Some []} \<and> te_text e = []"

definition closing_events :: "string \<Rightarrow> tool_result_envelope \<Rightarrow> router_event list" where
  "closing_events name e =
     (if te_success e then [CallFinished name, AfterTool name]
      else [CallFailed name (case te_error_category e of
              Some k \<Rightarrow> if k = [] then result_status_value (te_status e) else k
            | None \<Rightarrow> result_status_value (te_status e)), OnToolFailure name]) @
     (if te_status e = ST_CACHED then [RepeatedAction name ''cached_tool_call'' 0 False] else []) @
     map FileRead (te_read_paths e) @ map FileModified (te_affected_paths e)"

datatype router_exception = IndexError

definition execute :: "router_context \<Rightarrow> handlers \<Rightarrow> string \<Rightarrow> string \<Rightarrow> json \<Rightarrow> router_state \<Rightarrow>
    (router_exception + tool_result_envelope) \<times> router_state" where
  "execute c entries call_id name arguments s =
     (case policy_gate c entries call_id name arguments s of
        (Inl e, s1) \<Rightarrow> (Inr e, s1)
      | (Inr (spec, args), s1) \<Rightarrow>
        let fingerprint = action_signature name args (rs_generation s1);
            failure_key = action_signature name args 0
        in if tally (rs_failed s1) failure_key \<ge> MAX_FAILED_REPEATS
           then let s2 = s1\<lparr>rs_failed := bump failure_key (rs_failed s1)\<rparr>;
                    count = tally (rs_failed s2) failure_key
                in map_prod Inr id (suppressed_repeat call_id name spec args count ''failed_action_repeated''
                     (repeat_refusal_text count) (count > MAX_FAILED_REPEATS + 1) s2)
           else if tally (rs_cached s1) fingerprint \<ge> MAX_CACHED_REPEATS \<and> evidence_visible c s1 fingerprint
           then let s2 = s1\<lparr>rs_cached := bump fingerprint (rs_cached s1)\<rparr>;
                    count = tally (rs_cached s2) fingerprint
                in map_prod Inr id (suppressed_repeat call_id name spec args count ''cached_action_repeated''
                     cached_refusal_text (count > MAX_CACHED_REPEATS + 1) s2)
           else
             let (r, ran) = run_tool c entries spec args;
                 s2 = emit_events ([CallStarted name (argument_keys args), BeforeTool name] @
                        (if ran then [HandlerRun name args] else [])) s1;
                 (e, s3) = account c name call_id fingerprint failure_key (envelope_of c spec call_id r) s2;
                 s4 = advance_generation e s3
             in if unsummarised e then (Inl IndexError, s4)
                else (Inr e, emit_events (closing_events name e) s4))"

end
