(* ===== verification/Tool_Router_Props.thy ===== *)
theory Tool_Router_Props
  imports Tool_Router
begin

text \<open>
  What the router guarantees of a call: what runs passed every gate, what is answered is traced
  once, and the same call does not run for ever.  The last section puts the router behind the
  view of tools a turn is shown.
\<close>

named_theorems router_simps \<open>what the steps of the router leave of a state\<close>

section \<open>The log of runs\<close>

fun runs_in :: "router_event list \<Rightarrow> (string \<times> json) list" where
  "runs_in [] = []"
| "runs_in (HandlerRun n a # es) = (n, a) # runs_in es"
| "runs_in (_ # es) = runs_in es"

definition starts :: "router_event list \<Rightarrow> nat" where
  "starts es = length (filter (\<lambda>e. case e of CallStarted _ _ \<Rightarrow> True | _ \<Rightarrow> False) es)"

definition closings :: "router_event list \<Rightarrow> nat" where
  "closings es = length (filter (\<lambda>e. case e of CallFinished _ \<Rightarrow> True | CallFailed _ _ \<Rightarrow> True | _ \<Rightarrow> False) es)"

lemma runs_in_append [simp]: "runs_in (xs @ ys) = runs_in xs @ runs_in ys"
  by (induction xs rule: runs_in.induct) simp_all

lemma runs_in_files [simp]: "runs_in (map FileRead ps) = []" "runs_in (map FileModified ps) = []"
  by (induction ps) simp_all

lemma counts_append [simp]: "starts (xs @ ys) = starts xs + starts ys" "closings (xs @ ys) = closings xs + closings ys"
  by (simp_all add: starts_def closings_def)

lemma starts_Cons [simp]:
  "starts [] = 0" "starts (e # es) = (case e of CallStarted _ _ \<Rightarrow> Suc (starts es) | _ \<Rightarrow> starts es)"
  by (auto simp: starts_def split: router_event.split)

lemma closings_Cons [simp]:
  "closings [] = 0"
  "closings (e # es) = (case e of CallFinished _ \<Rightarrow> Suc (closings es) | CallFailed _ _ \<Rightarrow> Suc (closings es) | _ \<Rightarrow> closings es)"
  by (auto simp: closings_def split: router_event.split)

lemma counts_files [simp]:
  "starts (map FileRead ps) = 0" "starts (map FileModified ps) = 0"
  "closings (map FileRead ps) = 0" "closings (map FileModified ps) = 0"
  by (induction ps) simp_all

lemma closing_events_counts [simp]:
  "runs_in (closing_events name e) = []" "starts (closing_events name e) = 0" "closings (closing_events name e) = 1"
  by (simp_all add: closing_events_def)

section \<open>What each step leaves\<close>

lemma emit_events_simps [router_simps]:
  "rs_failed (emit_events es s) = rs_failed s" "rs_cached (emit_events es s) = rs_cached s"
  "rs_evidence (emit_events es s) = rs_evidence s" "rs_generation (emit_events es s) = rs_generation s"
  "rs_log (emit_events es s) = rs_log s @ es"
  by (simp_all add: emit_events_def)

lemma keep_reason_simps [router_simps]:
  "rs_failed (keep_reason c spec a s) = rs_failed s" "rs_cached (keep_reason c spec a s) = rs_cached s"
  "rs_evidence (keep_reason c spec a s) = rs_evidence s" "rs_generation (keep_reason c spec a s) = rs_generation s"
  "rs_log (keep_reason c spec a s) = rs_log s"
  by (simp_all add: keep_reason_def)

lemma advance_generation_simps [router_simps]:
  "rs_failed (advance_generation e s) = rs_failed s" "rs_cached (advance_generation e s) = rs_cached s"
  "rs_evidence (advance_generation e s) = rs_evidence s" "rs_log (advance_generation e s) = rs_log s"
  "rs_generation s \<le> rs_generation (advance_generation e s)"
  by (simp_all add: advance_generation_def)

lemma tally_bump [simp]: "tally (bump k d) k' = (if k' = k then Suc (tally d k) else tally d k')"
  by (simp add: tally_def bump_def map_of_update)

lemma tally_delete [simp]: "tally (AList.delete k d) k' = (if k' = k then 0 else tally d k')"
  by (simp add: tally_def delete_conv')

lemma first_refusal_None: "first_refusal rs = None \<longleftrightarrow> list_all (\<lambda>r. r = None) rs"
  by (induction rs rule: first_refusal.induct) auto

section \<open>The gates\<close>

lemma policy_gate_refused:
  assumes "policy_gate c entries call_id name arguments s = (Inl e, s1)"
  shows "rs_failed s1 = rs_failed s" "rs_cached s1 = rs_cached s" "rs_evidence s1 = rs_evidence s"
    "rs_generation s1 = rs_generation s" "\<exists>keys cat. rs_log s1 = rs_log s @ [CallStarted name keys, CallFailed name cat, OnToolFailure name]"
    "\<not> te_success e"
  using assms
  by (auto simp: policy_gate_def Let_def early_failure_def router_simps split: if_splits sum.splits option.splits)

lemma policy_gate_admits:
  assumes "policy_gate c entries call_id name arguments s = (Inr (spec, args), s1)"
  shows "rc_cancelled c 0 = None" "get_tool entries name = Inr spec" "role_refusal c spec = None"
    "read_only_refusal c spec = None" "scope_refusal c spec arguments = None"
    "args = drop_scope_reason arguments" "shell_refusal c spec args = None" "gate_refusal c spec args = None"
    "mode_refusal c spec = None" "argument_refusal spec args = None" "s1 = keep_reason c spec arguments s"
  using assms
  by (auto simp: policy_gate_def Let_def early_failure_def first_refusal_None split: if_splits sum.splits option.splits)

section \<open>The three ways a call ends\<close>

text \<open>
  A call is refused at a gate, refused as a repetition, or goes through \<open>run_tool\<close>; the ledger
  changes at the keys of the call only.
\<close>

lemma suppressed_repeat_log:
  assumes "suppressed_repeat call_id name spec args count kind message terminal s = (e, s')"
  shows "rs_failed s' = rs_failed s" "rs_cached s' = rs_cached s" "rs_evidence s' = rs_evidence s"
    "rs_generation s' = rs_generation s"
    "\<exists>keys. rs_log s' = rs_log s @ [RepeatedAction name kind count terminal, CallStarted name keys,
       CallFailed name kind, OnToolFailure name]"
  using assms by (auto simp: suppressed_repeat_def early_failure_def router_simps)

lemma execute_cases:
  assumes exec: "execute c entries call_id name arguments s = (r, s')"
  obtains (refused) e where "r = Inr e" "policy_gate c entries call_id name arguments s = (Inl e, s')"
  | (suppressed) spec args s1 s2 e count kind message terminal where
      "policy_gate c entries call_id name arguments s = (Inr (spec, args), s1)"
      "s2 = s1\<lparr>rs_failed := bump (action_signature name args 0) (rs_failed s1)\<rparr> \<and>
         tally (rs_failed s1) (action_signature name args 0) \<ge> 2 \<or>
       s2 = s1\<lparr>rs_cached := bump (action_signature name args (rs_generation s1)) (rs_cached s1)\<rparr>"
      "suppressed_repeat call_id name spec args count kind message terminal s2 = (e, s')" "r = Inr e"
  | (ran) spec args s1 out called e s3 where
      "policy_gate c entries call_id name arguments s = (Inr (spec, args), s1)"
      "tally (rs_failed s1) (action_signature name args 0) < 2"
      "tally (rs_cached s1) (action_signature name args (rs_generation s1)) = 0 \<or>
         \<not> evidence_visible c s1 (action_signature name args (rs_generation s1))"
      "run_tool c entries spec args = (out, called)"
      "account c name call_id (action_signature name args (rs_generation s1)) (action_signature name args 0)
         (envelope_of c spec call_id out)
         (emit_events ([CallStarted name (argument_keys args), BeforeTool name] @
            (if called then [HandlerRun name args] else [])) s1) = (e, s3)"
      "(r, s') = (if unsummarised e then (Inl IndexError, advance_generation e s3)
         else (Inr e, emit_events (closing_events name e) (advance_generation e s3)))"
proof (cases "policy_gate c entries call_id name arguments s")
  case (Pair g s1)
  show thesis
  proof (cases g)
    case (Inl e)
    with Pair exec have "r = Inr e" "s' = s1" by (simp_all add: execute_def)
    with Inl Pair show thesis using refused by simp
  next
    case (Inr sa)
    obtain spec args where sa: "sa = (spec, args)" by fastforce
    let ?key = "action_signature name args 0"
    let ?fp = "action_signature name args (rs_generation s1)"
    have gate: "policy_gate c entries call_id name arguments s = (Inr (spec, args), s1)"
      using Pair Inr sa by simp
    consider (failed) "tally (rs_failed s1) ?key \<ge> 2"
      | (cached) "tally (rs_failed s1) ?key < 2" "tally (rs_cached s1) ?fp \<ge> 1" "evidence_visible c s1 ?fp"
      | (run) "tally (rs_failed s1) ?key < 2" "tally (rs_cached s1) ?fp = 0 \<or> \<not> evidence_visible c s1 ?fp"
      by linarith
    then show thesis
    proof cases
      case failed
      with gate exec show thesis
        using suppressed [of spec args s1 "s1\<lparr>rs_failed := bump ?key (rs_failed s1)\<rparr>"]
        by (auto simp: execute_def Let_def MAX_FAILED_REPEATS_def map_prod_def split: prod.splits)
    next
      case cached
      with gate exec show thesis
        using suppressed [of spec args s1 "s1\<lparr>rs_cached := bump ?fp (rs_cached s1)\<rparr>"]
        by (auto simp: execute_def Let_def MAX_FAILED_REPEATS_def MAX_CACHED_REPEATS_def map_prod_def split: prod.splits)
    next
      case run
      obtain out called where out: "run_tool c entries spec args = (out, called)" by fastforce
      obtain e s3 where acc: "account c name call_id ?fp ?key (envelope_of c spec call_id out)
         (emit_events ([CallStarted name (argument_keys args), BeforeTool name] @
            (if called then [HandlerRun name args] else [])) s1) = (e, s3)" by fastforce
      have "(r, s') = (if unsummarised e then (Inl IndexError, advance_generation e s3)
         else (Inr e, emit_events (closing_events name e) (advance_generation e s3)))"
        using exec gate run out acc
        by (auto simp: execute_def Let_def MAX_FAILED_REPEATS_def MAX_CACHED_REPEATS_def)
      with gate run out acc show thesis using ran by blast
    qed
  qed
qed

lemma account_log:
  assumes "account c name call_id fp key e s = (e', s')"
  shows "rs_generation s' = rs_generation s" "te_success e' = te_success e" "te_status e' = te_status e"
    "\<exists>new. rs_log s' = rs_log s @ new \<and> runs_in new = [] \<and> starts new = 0 \<and> closings new = 0"
  using assms
  by (auto simp: account_def Let_def router_simps rehydrated_def
      split: if_splits option.splits)

lemma execute_run_log:
  assumes "account c name call_id fp key e0
       (emit_events ([CallStarted name keys, BeforeTool name] @ (if called then [HandlerRun name args] else [])) s1) = (e, s3)"
    and "(r, s') = (if unsummarised e then (Inl IndexError, advance_generation e s3)
         else (Inr e, emit_events (closing_events name e) (advance_generation e s3)))"
    and "rs_log s1 = rs_log s"
  shows "\<exists>new. rs_log s' = rs_log s @ new \<and> runs_in new = (if called then [(name, args)] else []) \<and>
    starts new = 1 \<and> closings new = (case r of Inl _ \<Rightarrow> 0 | Inr _ \<Rightarrow> 1)"
proof -
  from account_log(4) [OF assms(1)] obtain mid where "rs_log s3 = rs_log s @ [CallStarted name keys, BeforeTool name] @
      (if called then [HandlerRun name args] else []) @ mid" "runs_in mid = []" "starts mid = 0" "closings mid = 0"
    using assms(3) by (auto simp: router_simps)
  with assms(2) show ?thesis
    by (auto simp: router_simps split: if_splits)
qed

lemma policy_gate_admits_log:
  "policy_gate c entries call_id name arguments s = (Inr (spec, args), s1) \<Longrightarrow>
     rs_failed s1 = rs_failed s \<and> rs_cached s1 = rs_cached s \<and> rs_evidence s1 = rs_evidence s \<and>
     rs_generation s1 = rs_generation s \<and> rs_log s1 = rs_log s"
  by (drule policy_gate_admits(11)) (simp add: router_simps)

lemma execute_log:
  assumes exec: "execute c entries call_id name arguments s = (r, s')"
  shows "\<exists>new. rs_log s' = rs_log s @ new \<and> starts new = 1 \<and>
    closings new = (case r of Inl _ \<Rightarrow> 0 | Inr _ \<Rightarrow> 1) \<and>
    (runs_in new = [] \<or> runs_in new = [(name, drop_scope_reason arguments)])"
  using exec
proof (cases rule: execute_cases)
  case (refused e)
  then show ?thesis using policy_gate_refused(5) by fastforce
next
  case (suppressed spec args s1 s2 e count kind message terminal)
  have "rs_log s2 = rs_log s"
    using suppressed(2) policy_gate_admits_log [OF suppressed(1)] by auto
  then show ?thesis using suppressed_repeat_log(5) [OF suppressed(3)] suppressed(4) by fastforce
next
  case (ran spec args s1 out called e s3)
  then show ?thesis
    using execute_run_log [OF ran(5,6), of s] policy_gate_admits_log [OF ran(1)]
      policy_gate_admits(6) [OF ran(1)] by (auto split: if_splits)
qed

lemma run_tool_called:
  assumes "run_tool c entries spec args = (out, True)"
  shows "rc_cancelled c 1 = None"
    "ts_category spec = CAT_COMMAND \<Longrightarrow> rc_command_executor c \<noteq> None"
  using assms by (auto simp: run_tool_def Let_def split: option.splits sum.splits prod.splits if_splits raw_result.splits)

lemma execute_ran:
  assumes exec: "execute c entries call_id name arguments s = (r, s')"
    and more: "runs_in (rs_log s') \<noteq> runs_in (rs_log s)"
  obtains spec s1 out where
    "policy_gate c entries call_id name arguments s = (Inr (spec, drop_scope_reason arguments), s1)"
    "run_tool c entries spec (drop_scope_reason arguments) = (out, True)"
    "runs_in (rs_log s') = runs_in (rs_log s) @ [(name, drop_scope_reason arguments)]"
  using exec
proof (cases rule: execute_cases)
  case (refused e)
  then show thesis using policy_gate_refused(5) more by fastforce
next
  case (suppressed spec args s1 s2 e count kind message terminal)
  have "rs_log s2 = rs_log s"
    using suppressed(2) policy_gate_admits_log [OF suppressed(1)] by auto
  then show thesis using suppressed_repeat_log(5) [OF suppressed(3)] more by fastforce
next
  case (ran spec args s1 out called e s3)
  note admitted = policy_gate_admits(6) [OF ran(1)]
  obtain new where new: "rs_log s' = rs_log s @ new" "runs_in new = (if called then [(name, args)] else [])"
    using execute_run_log [OF ran(5,6), of s] policy_gate_admits_log [OF ran(1)] by blast
  with more have "called" by (cases called) auto
  then show thesis using that ran(1,4) new admitted by simp
qed

section \<open>A small registry\<close>

definition one_tool :: "raw_result \<Rightarrow> handlers" where
  "one_tool outcome = (let spec = native_spec (\<lambda>_. ''d'') ''remember'' [(''note'', True)] [''note'']
        CAT_MEMORY MUTATING [''persistent_memory_write''] [''ask'', ''auto''] [''main'']
     in [(''remember'', spec, Some (\<lambda>_. outcome))])"

definition auto_context :: router_context where
  "auto_context = \<lparr>rc_cancelled = (\<lambda>_. None), rc_command_executor = None, rc_result_store = None,
     rc_role = ''main'', rc_evidence_available = None, rc_read_only = False, rc_advisory = False,
     rc_scope = None, rc_write_gate = None, rc_execution_mode = ''auto''\<rparr>"

definition note_arguments :: json where
  "note_arguments = JObj [(''note'', JStr ''n'')]"

lemma one_tool_ok: "registry_ok (one_tool outcome)"
proof -
  have "spec_ok (fst (snd (hd (one_tool OtherValue))))" by code_simp
  then show ?thesis by (simp add: one_tool_def Let_def registry_ok_def) (simp add: native_spec_def)
qed

section \<open>What runs passed every gate\<close>

text \<open>
  C5: A handler or a command runs only when the tool is registered and open to the role of the
  caller, the call was not cancelled, the tool does not write in a read-only turn or in safe
  mode, the mode is one the tool declares, a write outside the requested scope gives a reason,
  a command passes the scope of the request, the lifecycle of the turn lets the write through,
  and the arguments fit the schema.  It then runs once, with the arguments as given but for
  the reason.
\<close>

theorem what_runs_passed_every_gate:
  assumes ok: "registry_ok entries"
    and exec: "execute c entries call_id name arguments s = (r, s')"
    and ran: "runs_in (rs_log s') \<noteq> runs_in (rs_log s)"
  shows "runs_in (rs_log s') = runs_in (rs_log s) @ [(name, drop_scope_reason arguments)] \<and>
    (\<exists>spec handler. map_of entries name = Some (spec, handler) \<and> rc_role c \<in> set (ts_roles spec) \<and>
       rc_cancelled c 0 = None \<and> rc_cancelled c 1 = None \<and>
       (ts_mutability spec = MUTATING \<longrightarrow> \<not> rc_read_only c \<and> rc_execution_mode c \<noteq> ''safe'' \<and>
          gate_refusal c spec (drop_scope_reason arguments) = None \<and>
          (sibling_refusal c spec arguments \<noteq> None \<longrightarrow> scope_reason arguments \<noteq> [])) \<and>
       (ts_execution_modes spec \<noteq> [] \<and> rc_execution_mode c \<noteq> [] \<longrightarrow>
          rc_execution_mode c \<in> set (ts_execution_modes spec)) \<and>
       (ts_category spec = CAT_COMMAND \<longrightarrow> rc_command_executor c \<noteq> None \<and>
          shell_refusal c spec (drop_scope_reason arguments) = None) \<and>
       validate_arguments spec (drop_scope_reason arguments) = None)"
proof -
  from execute_ran [OF exec ran] obtain spec s1 out where
    gate: "policy_gate c entries call_id name arguments s = (Inr (spec, drop_scope_reason arguments), s1)"
    and called: "run_tool c entries spec (drop_scope_reason arguments) = (out, True)"
    and runs: "runs_in (rs_log s') = runs_in (rs_log s) @ [(name, drop_scope_reason arguments)]" .
  note passed = policy_gate_admits [OF gate]
  from passed(2) obtain handler where entry: "map_of entries name = Some (spec, handler)"
    by (auto simp: get_tool_def split: option.splits)
  then have "spec_ok spec" using ok registry_ok_lookup by blast
  then have modes: "ts_mutability spec = MUTATING \<Longrightarrow> ts_execution_modes spec \<noteq> [] \<and> ''safe'' \<notin> set (ts_execution_modes spec)"
    by (rule spec_ok_mutating)
  have mode: "ts_execution_modes spec \<noteq> [] \<and> rc_execution_mode c \<noteq> [] \<longrightarrow>
      rc_execution_mode c \<in> set (ts_execution_modes spec)"
    using passed(9) by (auto simp: mode_refusal_def split: if_splits)
  have role: "rc_role c \<in> set (ts_roles spec)" using passed(3) by (auto simp: role_refusal_def split: if_splits)
  have writes: "ts_mutability spec = MUTATING \<longrightarrow> \<not> rc_read_only c \<and>
      (sibling_refusal c spec arguments \<noteq> None \<longrightarrow> scope_reason arguments \<noteq> [])"
    using passed(4,5) by (auto simp: read_only_refusal_def scope_refusal_def split: if_splits)
  have "validate_arguments spec (drop_scope_reason arguments) = None"
    using passed(10) by (simp add: argument_refusal_def)
  then show ?thesis
    using runs entry role passed(1,7,8) run_tool_called [OF called] writes mode modes by auto
qed

theorem what_runs_passed_every_gate_witness:
  "\<exists>spec handler. map_of (one_tool (Legacy ''ok'')) ''remember'' = Some (spec, handler) \<and>
     ts_mutability spec = MUTATING \<and> validate_arguments spec note_arguments = None"
proof -
  let ?x = "execute auto_context (one_tool (Legacy ''ok'')) ''c'' ''remember'' note_arguments fresh_router_state"
  have "runs_in (rs_log (snd ?x)) \<noteq> runs_in (rs_log fresh_router_state)" by code_simp
  from what_runs_passed_every_gate [OF one_tool_ok prod.collapse [symmetric] this]
  have "\<exists>spec handler. map_of (one_tool (Legacy ''ok'')) ''remember'' = Some (spec, handler) \<and>
     validate_arguments spec note_arguments = None"
    by (auto simp: drop_scope_reason_def note_arguments_def)
  then show ?thesis by (auto simp: one_tool_def Let_def native_spec_def)
qed

section \<open>Every call is traced\<close>

text \<open>
  A call is started in the trace exactly once, whatever becomes of it, and closed exactly
  once when the router answers; the router does not answer, and leaves the call open, only
  when a handler reports a failure that has neither a text nor a summary.
\<close>

theorem call_is_traced_once:
  "\<exists>new. rs_log (snd (execute c entries call_id name arguments s)) = rs_log s @ new \<and> starts new = 1 \<and>
     (case fst (execute c entries call_id name arguments s) of
        Inr e \<Rightarrow> closings new = 1
      | Inl _ \<Rightarrow> closings new = 0 \<and>
          (\<exists>spec args out called. run_tool c entries spec args = (out, called) \<and> \<not> succeeded (hr_status out) \<and>
             hr_error_summary out \<in> {None, Some []} \<and> hr_text out = []))"
proof (cases "execute c entries call_id name arguments s")
  case (Pair r s')
  obtain new where new: "rs_log s' = rs_log s @ new" "starts new = 1"
      "closings new = (case r of Inl _ \<Rightarrow> 0 | Inr _ \<Rightarrow> 1)"
    using execute_log [OF Pair] by blast
  have "\<exists>spec args out called. run_tool c entries spec args = (out, called) \<and> \<not> succeeded (hr_status out) \<and>
      hr_error_summary out \<in> {None, Some []} \<and> hr_text out = []" if "r = Inl x" for x
    using Pair
  proof (cases rule: execute_cases)
    case (ran spec args s1 out called e s3)
    have silent: "unsummarised e" using ran(6) that by (auto split: if_splits)
    have "\<not> te_success (envelope_of c spec call_id out)"
      using silent account_log(2) [OF ran(5)] by (simp add: unsummarised_def)
    then have "te_status (envelope_of c spec call_id out) \<noteq> ST_CACHED" by (auto simp: envelope_of_def Let_def)
    with \<open>\<not> te_success (envelope_of c spec call_id out)\<close> have "e = envelope_of c spec call_id out"
      using ran(5) by (simp add: account_def)
    with silent ran(4) show ?thesis by (auto simp: unsummarised_def envelope_of_def Let_def)
  qed (use that in auto)
  with new Pair show ?thesis by (cases r) auto
qed

section \<open>The same call does not run for ever\<close>

record router_call =
  rk_context :: router_context
  rk_registry :: handlers
  rk_call_id :: string
  rk_name :: string
  rk_arguments :: json

definition execute_call :: "router_call \<Rightarrow> router_state \<Rightarrow> router_state" where
  "execute_call k s = snd (execute (rk_context k) (rk_registry k) (rk_call_id k) (rk_name k) (rk_arguments k) s)"

abbreviation execute_all :: "router_call list \<Rightarrow> router_state \<Rightarrow> router_state" where
  "execute_all \<equiv> fold execute_call"

definition run_count :: "string \<Rightarrow> router_state \<Rightarrow> nat" where
  "run_count key s = length (filter (\<lambda>(n, a). action_signature n a 0 = key) (runs_in (rs_log s)))"

text \<open>What the model was shown is still in front of it, as far as the caller can say.\<close>

definition evidence_kept :: "router_context \<Rightarrow> bool" where
  "evidence_kept c \<longleftrightarrow> (\<forall>available i. rc_evidence_available c = Some available \<longrightarrow> available i \<noteq> Some False)"

lemma evidence_kept_visible: "evidence_kept c \<Longrightarrow> evidence_visible c s f"
  by (auto simp: evidence_kept_def evidence_visible_def split: option.splits) (metis (full_types))

lemma action_signature_same:
  "action_signature n a g = action_signature n' a' g \<longleftrightarrow> action_signature n a 0 = action_signature n' a' 0"
  by (simp add: action_signature_def)

lemma account_tallies:
  assumes "account c name call_id fp key e s = (e', s')"
  shows "tally (rs_failed s') k = (if k \<noteq> key \<or> te_status e = ST_CACHED then tally (rs_failed s) k
           else if te_success e then 0 else Suc (tally (rs_failed s) k))"
    and "tally (rs_cached s') f = (if f = fp \<and> (te_status e = ST_CACHED \<or> te_success e \<and> has_key (rs_evidence s) fp)
           then Suc (tally (rs_cached s) f) else tally (rs_cached s) f)"
    and "has_key (rs_evidence s') f \<longleftrightarrow> has_key (rs_evidence s) f \<or> f = fp \<and> te_status e \<noteq> ST_CACHED \<and> te_success e"
  using assms
  by (auto simp: account_def Let_def router_simps has_key_iff map_of_update split: if_splits)

text \<open>
  How far a call has come between two writes: not yet observed, observed once, or answered
  again from what is known.
\<close>

definition repeat_stage :: "string \<Rightarrow> router_state \<Rightarrow> nat" where
  "repeat_stage f s = (if tally (rs_cached s) f \<ge> 1 then 2 else if has_key (rs_evidence s) f then 1 else 0)"

definition within_bound :: "string \<Rightarrow> string \<Rightarrow> nat \<Rightarrow> router_state \<Rightarrow> bool" where
  "within_bound key f r s \<longleftrightarrow> r \<le> 4 \<and>
     (repeat_stage f s = 0 \<longrightarrow> r \<le> tally (rs_failed s) key) \<and> (repeat_stage f s = 1 \<longrightarrow> r \<le> 2 + tally (rs_failed s) key)"

lemma within_bound_weaken:
  assumes "within_bound key f r s" "tally (rs_failed s) key \<le> tally (rs_failed s') key"
    "tally (rs_cached s) f \<le> tally (rs_cached s') f" "has_key (rs_evidence s') f = has_key (rs_evidence s) f"
  shows "within_bound key f r s'"
  using assms by (auto simp: within_bound_def repeat_stage_def split: if_splits)

lemma execute_generation:
  assumes "execute c entries i name arguments s = (r, s')"
  shows "rs_generation s \<le> rs_generation s'"
  using assms
proof (cases rule: execute_cases)
  case (refused e)
  then show ?thesis using policy_gate_refused(4) by simp
next
  case (suppressed spec args s1 s2 e count kind message terminal)
  then show ?thesis
    using suppressed_repeat_log(4) [OF suppressed(3)] policy_gate_admits_log [OF suppressed(1)] by auto
next
  case (ran spec args s1 out called e s3)
  have "rs_generation s3 = rs_generation s"
    using account_log(1) [OF ran(5)] policy_gate_admits_log [OF ran(1)] by (simp add: router_simps)
  with ran(6) show ?thesis
    using advance_generation_simps(5) [of s3 e] by (auto simp: router_simps split: if_splits)
qed

lemma execute_all_generation: "rs_generation s \<le> rs_generation (execute_all ks s)"
proof (induction ks arbitrary: s)
  case (Cons k ks)
  have "rs_generation s \<le> rs_generation (execute_call k s)"
    unfolding execute_call_def by (rule execute_generation [OF prod.collapse [symmetric]])
  also have "\<dots> \<le> rs_generation (execute_all ks (execute_call k s))" by (rule Cons.IH)
  finally show ?case by simp
qed simp

lemma run_count_append:
  "rs_log s' = rs_log s @ new \<Longrightarrow>
     run_count key s' = run_count key s + length (filter (\<lambda>(n, a). action_signature n a 0 = key) (runs_in new))"
  by (simp add: run_count_def)

text \<open>One call, as it affects the ledger entries of a given one.\<close>

lemma execute_bounded:
  assumes exec: "execute c entries i name arguments s = (r, s')"
    and seen: "evidence_kept c"
    and key: "key = action_signature n0 a0 0" and f: "f = action_signature n0 a0 (rs_generation s)"
    and bound: "within_bound key f (run_count key s - k) s" "k \<le> run_count key s"
  shows "within_bound key f (run_count key s' - k) s'" "k \<le> run_count key s'"
proof -
  have "within_bound key f (run_count key s' - k) s' \<and> k \<le> run_count key s'"
    using exec
  proof (cases rule: execute_cases)
    case (refused e)
    note same = policy_gate_refused [OF refused(2)]
    then have "run_count key s' = run_count key s" by (auto simp: run_count_def)
    then show ?thesis using bound same by (auto intro: within_bound_weaken)
  next
    case (suppressed spec args s1 s2 e count kind message terminal)
    note g = policy_gate_admits_log [OF suppressed(1)] and log = suppressed_repeat_log [OF suppressed(3)]
    have "rs_log s2 = rs_log s" using suppressed(2) g by auto
    then have "run_count key s' = run_count key s" using log(5) by (auto simp: run_count_def)
    moreover have "within_bound key f (run_count key s - k) s'"
      by (rule within_bound_weaken [OF bound(1)]) (use suppressed(2) g log in auto)
    ultimately show ?thesis using bound by simp
  next
    case (ran spec args s1 out called e s3)
    note g = policy_gate_admits_log [OF ran(1)]
    let ?key = "action_signature name args 0" and ?f = "action_signature name args (rs_generation s1)"
    have s': "rs_failed s' = rs_failed s3" "rs_cached s' = rs_cached s3" "rs_evidence s' = rs_evidence s3"
      using ran(6) by (auto simp: router_simps split: if_splits)
    obtain new where new: "rs_log s' = rs_log s @ new" "runs_in new = (if called then [(name, args)] else [])"
      using execute_run_log [OF ran(5,6), of s] g by blast
    note tallies = account_tallies [OF ran(5)]
    have visible: "evidence_visible c s1 ?f" using seen by (rule evidence_kept_visible)
    show ?thesis
    proof (cases "?key = key")
      case False
      then have "?f \<noteq> f" using key f g action_signature_same by metis
      with False have "within_bound key f (run_count key s - k) s'"
        by (intro within_bound_weaken [OF bound(1)]) (simp_all add: s' tallies g router_simps)
      moreover have "run_count key s' = run_count key s"
        using run_count_append [OF new(1)] new(2) False by simp
      ultimately show ?thesis using bound by simp
    next
      case True
      then have same: "?f = f" using key f g action_signature_same by metis
      have le: "run_count key s \<le> run_count key s'" "run_count key s' \<le> Suc (run_count key s)"
        using run_count_append [OF new(1), of key] new(2) by auto
      have fresh: "tally (rs_failed s) key < 2" "tally (rs_cached s) f = 0"
        using ran(2,3) visible g True same by auto
      have "within_bound key f (run_count key s' - k) s'"
        using bound fresh le same True
        by (auto simp: within_bound_def repeat_stage_def s' tallies g router_simps envelope_of_def Let_def split: if_splits)
      then show ?thesis using bound le by simp
    qed
  qed
  then show "within_bound key f (run_count key s' - k) s'" "k \<le> run_count key s'" by blast+
qed

lemma execute_call_bounded:
  assumes "evidence_kept (rk_context call)" "key = action_signature n0 a0 0"
    "f = action_signature n0 a0 (rs_generation s)"
    "within_bound key f (run_count key s - k) s" "k \<le> run_count key s"
  shows "within_bound key f (run_count key (execute_call call s) - k) (execute_call call s)"
    "k \<le> run_count key (execute_call call s)"
  using execute_bounded [OF prod.collapse [symmetric] assms] unfolding execute_call_def by blast+

lemma execute_all_bounded:
  assumes "\<And>call. call \<in> set calls \<Longrightarrow> evidence_kept (rk_context call)" "key = action_signature n0 a0 0"
    "rs_generation (execute_all calls s) = rs_generation s"
    "within_bound key (action_signature n0 a0 (rs_generation s)) (run_count key s - k) s" "k \<le> run_count key s"
  shows "run_count key (execute_all calls s) \<le> k + 4"
  using assms
proof (induction calls arbitrary: s)
  case Nil
  then show ?case by (auto simp: within_bound_def)
next
  case (Cons call calls)
  let ?s = "execute_call call s"
  have "rs_generation s \<le> rs_generation ?s"
    unfolding execute_call_def by (rule execute_generation [OF prod.collapse [symmetric]])
  moreover have "rs_generation ?s \<le> rs_generation s"
    using execute_all_generation [of ?s calls] Cons.prems(3) by simp
  ultimately have gen: "rs_generation ?s = rs_generation s" by simp
  from execute_call_bounded [OF _ Cons.prems(2) refl Cons.prems(4,5)] Cons.prems(1)
  have "within_bound key (action_signature n0 a0 (rs_generation ?s)) (run_count key ?s - k) ?s" "k \<le> run_count key ?s"
    using gen by simp_all
  then show ?case using Cons.IH [of ?s] Cons.prems(1-3) gen by simp
qed

text \<open>
  C28: Between two writes a call runs at most four times, whatever its runs return, whatever
  other calls come between and whichever tools and contexts they have, as long as what the
  model was shown stays in front of it.  (Two failures in a row, or two observations, stop it.)
\<close>

theorem call_runs_at_most_four_times:
  assumes kept: "\<And>call. call \<in> set calls \<Longrightarrow> evidence_kept (rk_context call)"
    and no_write: "rs_generation (execute_all calls s) = rs_generation s"
  shows "run_count (action_signature name arguments 0) (execute_all calls s)
     \<le> run_count (action_signature name arguments 0) s + 4"
  by (rule execute_all_bounded [OF kept refl no_write, of name arguments]) (simp_all add: within_bound_def)

definition note_call :: "raw_result \<Rightarrow> router_call" where
  "note_call outcome = \<lparr>rk_context = auto_context, rk_registry = one_tool outcome, rk_call_id = ''c'',
     rk_name = ''remember'', rk_arguments = note_arguments\<rparr>"

theorem call_runs_at_most_four_times_witness:
  "run_count (action_signature ''remember'' note_arguments 0)
     (execute_all [note_call (Legacy ''ok''), note_call (Legacy ''ok''), note_call (Legacy ''ok'')] fresh_router_state) \<le> 4"
proof -
  let ?calls = "[note_call (Legacy ''ok''), note_call (Legacy ''ok''), note_call (Legacy ''ok'')]"
  have "rs_generation (execute_all ?calls fresh_router_state) = rs_generation fresh_router_state" by code_simp
  moreover have "evidence_kept (rk_context call)" if "call \<in> set ?calls" for call
    using that by (auto simp: note_call_def auto_context_def evidence_kept_def)
  ultimately show ?thesis
    using call_runs_at_most_four_times [of ?calls fresh_router_state "''remember''" note_arguments]
    by (simp add: run_count_def fresh_router_state_def)
qed

text \<open>A call that failed twice in a row is not run again, and its count never falls.\<close>

lemma execute_blocked:
  assumes exec: "execute c entries i name arguments s = (r, s')"
    and blocked: "tally (rs_failed s) key \<ge> 2"
  shows "run_count key s' = run_count key s \<and> tally (rs_failed s') key \<ge> 2"
  using exec
proof (cases rule: execute_cases)
  case (refused e)
  then show ?thesis using policy_gate_refused [OF refused(2)] blocked by (auto simp: run_count_def)
next
  case (suppressed spec args s1 s2 e count kind message terminal)
  note g = policy_gate_admits_log [OF suppressed(1)] and log = suppressed_repeat_log [OF suppressed(3)]
  have "rs_log s2 = rs_log s" using suppressed(2) g by auto
  then have "run_count key s' = run_count key s" using log(5) by (auto simp: run_count_def)
  moreover have "tally (rs_failed s') key \<ge> 2" using suppressed(2) g log(1) blocked by auto
  ultimately show ?thesis by simp
next
  case (ran spec args s1 out called e s3)
  note g = policy_gate_admits_log [OF ran(1)]
  have other: "action_signature name args 0 \<noteq> key" using ran(2) blocked g by auto
  obtain new where new: "rs_log s' = rs_log s @ new" "runs_in new = (if called then [(name, args)] else [])"
    using execute_run_log [OF ran(5,6), of s] g by blast
  have "run_count key s' = run_count key s" using run_count_append [OF new(1)] new(2) other by simp
  moreover have "rs_failed s' = rs_failed s3" using ran(6) by (auto simp: router_simps split: if_splits)
  ultimately show ?thesis using account_tallies(1) [OF ran(5), of key] other blocked g by (simp add: router_simps)
qed

text \<open>
  Once a call has failed twice in a row it never runs again in the task: not after other
  calls, not after writes, and not when its own cause has gone.
\<close>

theorem twice_failed_never_runs_again:
  assumes "tally (rs_failed s) (action_signature name arguments 0) \<ge> MAX_FAILED_REPEATS"
  shows "run_count (action_signature name arguments 0) (execute_all calls s)
     = run_count (action_signature name arguments 0) s"
  using assms
proof (induction calls arbitrary: s)
  case (Cons call calls)
  have "run_count (action_signature name arguments 0) (execute_call call s) = run_count (action_signature name arguments 0) s \<and>
      tally (rs_failed (execute_call call s)) (action_signature name arguments 0) \<ge> 2"
    unfolding execute_call_def
    by (rule execute_blocked [OF prod.collapse [symmetric]]) (use Cons.prems in \<open>simp add: MAX_FAILED_REPEATS_def\<close>)
  then show ?case using Cons.IH [of "execute_call call s"] by (simp add: MAX_FAILED_REPEATS_def)
qed simp

theorem twice_failed_never_runs_again_witness:
  "run_count (action_signature ''remember'' note_arguments 0)
     (execute_all [note_call (Legacy ''ok'')]
       (execute_all [note_call (Legacy ''ERROR''), note_call (Legacy ''ERROR'')] fresh_router_state))
   = run_count (action_signature ''remember'' note_arguments 0)
       (execute_all [note_call (Legacy ''ERROR''), note_call (Legacy ''ERROR'')] fresh_router_state)"
proof (rule twice_failed_never_runs_again)
  show "MAX_FAILED_REPEATS \<le> tally (rs_failed (execute_all [note_call (Legacy ''ERROR''), note_call (Legacy ''ERROR'')]
      fresh_router_state)) (action_signature ''remember'' note_arguments 0)"
    by code_simp
qed

text \<open>A handler that reports a failure with neither a text nor a summary makes the router raise.\<close>

lemma silent_failure_raises:
  "fst (execute auto_context (one_tool (Structured (plain_result [] ST_FAILED None None None))) ''c'' ''remember''
     note_arguments fresh_router_state) = Inl IndexError"
  by code_simp

end
