(* ===== verification/Tool_View_Props.thy ===== *)
theory Tool_View_Props
  imports Tool_Router_Props
begin

text \<open>
  The view of tools and the router together, for the registry of a session: what a turn is
  shown is what the router lets it call, a turn that may not write is shown nothing that is
  declared to write, and where that declaration falls short.
\<close>

section \<open>The floor writes nothing\<close>

lemma native_by_name:
  assumes "t \<in> set (native_declarations prose)" "ts_name t \<in> set READ_FLOOR"
  shows "ts_mutability t \<noteq> MUTATING" "ts_category t \<notin> {CAT_WEB, CAT_MEMORY}"
  using assms by (auto simp: native_declarations_def native_spec_def READ_FLOOR_def)

lemma coding_by_name:
  assumes "(n, c, m, rest) \<in> set coding_shape" "n \<in> set CODING_READ"
  shows "m \<noteq> MUTATING" "c \<notin> {CAT_WEB, CAT_MEMORY}"
  using assms by (auto simp: coding_shape_def CODING_READ_def)

lemma native_names:
  "n \<in> set READ_FLOOR \<Longrightarrow> \<exists>t \<in> set (native_declarations prose). ts_name t = n"
  by (auto simp: READ_FLOOR_def native_declarations_def native_spec_def)

lemma coding_names:
  assumes "coding_tool_specs schemas = Inr coding" "n \<in> set CODING_READ"
  shows "\<exists>t \<in> set coding. ts_name t = n"
  using assms
  by (auto simp: coding_tool_specs_def coding_shape_def CODING_READ_def bindE_Inr split: option.splits
      dest!: tool_spec_new_same)

lemma floor_writes_nothing:
  assumes built: "build_tool_registry prose schemas handlers standard_tools = Inr entries"
    and n: "n \<in> set READ_FLOOR \<or> n \<in> set CODING_READ" and entry: "map_of entries n = Some (t, h)"
  shows "ts_mutability t \<noteq> MUTATING \<and> ts_category t \<notin> {CAT_WEB, CAT_MEMORY}"
  using n
proof
  assume "n \<in> set READ_FLOOR"
  then obtain d where "d \<in> set (native_declarations prose)" "ts_name d = n" using native_names by blast
  with built_registry(2) [OF built] entry have "t \<in> set (native_declarations prose)" "ts_name t = n" by auto
  with \<open>n \<in> set READ_FLOOR\<close> show ?thesis using native_by_name by blast
next
  assume "n \<in> set CODING_READ"
  from built_registry(3) [OF built] obtain coding where coding: "coding_tool_specs schemas = Inr coding"
    "\<forall>t \<in> set coding. map_of entries (ts_name t) = Some (t, handlers (ts_name t))" by blast
  with coding_names [OF coding(1) \<open>n \<in> set CODING_READ\<close>] entry have "t \<in> set coding" "ts_name t = n" by auto
  with coding_tool_in(2) [OF coding(1)] \<open>n \<in> set CODING_READ\<close> show ?thesis using coding_by_name by blast
qed

section \<open>What a turn is shown\<close>

abbreviation role_of :: "agent_role + agent_role_spec \<Rightarrow> agent_role" where
  "role_of role \<equiv> (case role of Inl r \<Rightarrow> r | Inr spec \<Rightarrow> ar_role spec)"

lemma td_name_shown_definition [simp]: "td_name (shown_definition schemas coding tool) = ts_name tool"
  by (auto simp: shown_definition_def split: option.splits)

lemma tv_names_select: "tv_names (select_tools schemas entries role req) = map ts_name (shown_tools entries role req)"
  by (simp add: select_tools_def Let_def comp_def)

lemma offered_subset: "set (offered tools scope bound) \<subseteq> set tools"
  by (auto simp: offered_def)

lemma candidate_registered:
  assumes "tool \<in> set (candidate_tools entries role coding)" "registry_ok entries"
  shows "\<exists>h. map_of entries (ts_name tool) = Some (tool, h)" "role_value (role_of role) \<in> set (ts_roles tool)"
proof -
  have listed: "tool \<in> set (list_specs (Some (role_value (role_of role))) (Some True)
      (case role of Inl _ \<Rightarrow> None | Inr spec \<Rightarrow> Some (ar_allowed_tool_names spec)) entries)"
    using assms(1) by (auto simp: candidate_tools_def Let_def)
  then show "\<exists>h. map_of entries (ts_name tool) = Some (tool, h)" using assms(2) by (rule list_specs_registered)
  show "role_value (role_of role) \<in> set (ts_roles tool)" using listed unfolding list_specs_in by auto
qed

lemma shown_tool_cases:
  assumes "tool \<in> set (shown_tools entries role req)"
  obtains (candidate) "tool \<in> set (candidate_tools entries role (coding_turn req))"
    "(\<exists>n \<in> set (candidate_tools entries role (coding_turn req)). ts_name n = ts_name tool \<and>
       (\<exists>mutation. (read_only_intent (er_objective req) \<longrightarrow> \<not> mutation) \<and>
          tool_selected (role_of role) req (read_only_intent (er_objective req)) mutation n)) \<or>
     ts_name tool \<in> set (tool_floor (role_of role) (read_only_intent (er_objective req)) (coding_turn req))"
proof -
  let ?ro = "read_only_intent (er_objective req)"
  define mutation where "mutation = (if ?ro then False else case er_mutation_expected req of
      None \<Rightarrow> search MUTATION_rx (lower (er_objective req)) | Some b \<Rightarrow> b)"
  have "tool \<in> set (candidate_tools entries role (coding_turn req)) \<and>
    ((\<exists>n \<in> set (candidate_tools entries role (coding_turn req)). ts_name n = ts_name tool \<and>
        tool_selected (role_of role) req ?ro mutation n) \<or>
     ts_name tool \<in> set (tool_floor (role_of role) ?ro (coding_turn req)))"
    using assms offered_subset
    unfolding shown_tools_def Let_def mutation_def [symmetric] by fastforce
  moreover have "?ro \<longrightarrow> \<not> mutation" by (simp add: mutation_def)
  ultimately show thesis using candidate by blast
qed

lemma selected_writes_nothing:
  assumes "tool_selected role req ro mutation tool" "specialised role \<or> ro" "ro \<longrightarrow> \<not> mutation"
  shows "ts_mutability tool \<noteq> MUTATING" "specialised role \<Longrightarrow> ts_category tool \<notin> {CAT_WEB, CAT_MEMORY}"
  using assms by (auto simp: tool_selected_def split: if_splits)

lemma read_floor:
  "specialised role \<or> ro \<Longrightarrow> n \<in> set (tool_floor role ro coding) \<Longrightarrow> n \<in> set READ_FLOOR \<or> n \<in> set CODING_READ"
  by (auto simp: tool_floor_def split: if_splits)

lemma shown_writes_nothing:
  assumes built: "build_tool_registry prose schemas handlers standard_tools = Inr entries"
    and shown: "tool \<in> set (shown_tools entries role req)"
    and quiet: "specialised (role_of role) \<or> read_only_intent (er_objective req)"
  shows "ts_mutability tool \<noteq> MUTATING \<and> (specialised (role_of role) \<longrightarrow> ts_category tool \<notin> {CAT_WEB, CAT_MEMORY})"
  using shown
proof (cases rule: shown_tool_cases)
  case candidate
  note ok = built_registry(1) [OF built]
  obtain h where entry: "map_of entries (ts_name tool) = Some (tool, h)"
    using candidate_registered(1) [OF candidate(1) ok] by blast
  from candidate(2) show ?thesis
  proof
    assume "ts_name tool \<in> set (tool_floor (role_of role) (read_only_intent (er_objective req)) (coding_turn req))"
    then have "ts_name tool \<in> set READ_FLOOR \<or> ts_name tool \<in> set CODING_READ" using read_floor quiet by blast
    then show ?thesis using floor_writes_nothing [OF built _ entry] by blast
  next
    assume "\<exists>n \<in> set (candidate_tools entries role (coding_turn req)). ts_name n = ts_name tool \<and>
       (\<exists>mutation. (read_only_intent (er_objective req) \<longrightarrow> \<not> mutation) \<and>
          tool_selected (role_of role) req (read_only_intent (er_objective req)) mutation n)"
    then obtain n mutation where n: "n \<in> set (candidate_tools entries role (coding_turn req))" "ts_name n = ts_name tool"
      "read_only_intent (er_objective req) \<longrightarrow> \<not> mutation"
      "tool_selected (role_of role) req (read_only_intent (er_objective req)) mutation n" by blast
    have "n = tool" using candidate_registered(1) [OF n(1) ok] n(2) entry by auto
    with n quiet show ?thesis using selected_writes_nothing by blast
  qed
qed

text \<open>
  C19: What a turn is shown is what it may call.  In the registry of a session, whatever tools a
  standard adds, every tool in the view of a turn is registered and passes the router's gates of
  role and of read-only turns; and the view of a specialised role, or of a request that
  prohibits changes or only asks about one, holds no tool declared to write, and for a
  specialised role none that reaches the web or the memory.
\<close>

theorem shown_tools_are_allowed:
  assumes built: "build_tool_registry prose schemas handlers standard_tools = Inr entries"
    and view: "view = select_tools texts entries role req"
    and name: "n \<in> set (tv_names view)"
    and ctx: "rc_role c = role_value (tv_role view)" "rc_read_only c = tv_read_only view"
  shows "\<exists>spec. get_tool entries n = Inr spec \<and> role_refusal c spec = None \<and> read_only_refusal c spec = None \<and>
    (specialised (tv_role view) \<or> tv_read_only view \<longrightarrow> ts_mutability spec \<noteq> MUTATING) \<and>
    (specialised (tv_role view) \<longrightarrow> ts_category spec \<notin> {CAT_WEB, CAT_MEMORY})"
proof -
  have fields: "tv_role view = role_of role" "tv_read_only view = read_only_intent (er_objective req)"
    using view by (simp_all add: select_tools_def Let_def)
  obtain tool where tool: "tool \<in> set (shown_tools entries role req)" "ts_name tool = n"
    using name view by (auto simp: tv_names_select)
  from tool(1) have candidate: "tool \<in> set (candidate_tools entries role (coding_turn req))"
    by (cases rule: shown_tool_cases)
  note registered = candidate_registered [OF candidate built_registry(1) [OF built]]
  have quiet: "specialised (role_of role) \<or> read_only_intent (er_objective req) \<longrightarrow> ts_mutability tool \<noteq> MUTATING"
    "specialised (role_of role) \<longrightarrow> ts_category tool \<notin> {CAT_WEB, CAT_MEMORY}"
    using shown_writes_nothing [OF built tool(1)] by blast+
  have "get_tool entries n = Inr tool" using registered(1) tool(2) by (auto simp: get_tool_def)
  moreover have "role_refusal c tool = None" using registered(2) ctx(1) fields(1) by (simp add: role_refusal_def)
  moreover have "read_only_refusal c tool = None" using quiet(1) ctx(2) fields(2) by (auto simp: read_only_refusal_def)
  ultimately show ?thesis using quiet fields by metis
qed

section \<open>A concrete session\<close>

definition demo_schemas :: "(string \<times> string \<times> json) list" where
  "demo_schemas = map (\<lambda>n. (n, ''d'', JObj [(''type'', JStr ''object'')])) coding_tool_names"

definition demo_build :: "registry_error + handlers" where
  "demo_build = build_tool_registry (\<lambda>_. ''d'') demo_schemas (\<lambda>_. Some (\<lambda>_. Legacy ''ok'')) []"

definition demo_registry :: handlers where
  "demo_registry = (case demo_build of Inr entries \<Rightarrow> entries | Inl _ \<Rightarrow> [])"

definition demo_context :: router_context where
  "demo_context = \<lparr>rc_cancelled = (\<lambda>_. None), rc_command_executor = None, rc_result_store = None,
     rc_role = ''main'', rc_evidence_available = None, rc_read_only = True, rc_advisory = False,
     rc_scope = None, rc_write_gate = None, rc_execution_mode = ''auto''\<rparr>"

definition demo_request :: exposure_request where
  "demo_request = \<lparr>er_objective = ''read-only url'', er_mutation_expected = None, er_web_enabled = True,
     er_memory_write_enabled = False, er_standard_bound = False, er_prior_scope = None, er_toolset = None,
     er_retrieval_available = True\<rparr>"

lemma demo_coding: "\<exists>coding. coding_tool_specs demo_schemas = Inr coding \<and> map ts_name coding = coding_tool_names"
  by (simp add: coding_tool_specs_def coding_shape_def demo_schemas_def coding_tool_names_def tool_spec_new_def
      simple_name_ok ascii_letter_def strip_def lstrip_def rstrip_def py_space_def validate_schema_def get_def
      get_default_def reading_roles_def valid_execution_modes_def)

lemma demo_hidden: "mapE tool_spec_new hidden_declarations = Inr hidden_declarations"
  by (simp add: hidden_declarations_def hidden_spec_def tool_spec_new_def simple_name_ok ascii_letter_def strip_def
      lstrip_def rstrip_def py_space_def validate_schema_def get_def get_default_def valid_execution_modes_def
      check_property_def schema_types_def is_string_def str_of_def has_key_def)

lemma demo_built: "demo_build = Inr demo_registry"
proof -
  let ?h = "\<lambda>_ :: string. Some (\<lambda>_. Legacy ''ok'') :: (json \<Rightarrow> raw_result) option"
  obtain coding where coding: "coding_tool_specs demo_schemas = Inr coding" "map ts_name coding = coding_tool_names"
    using demo_coding by blast
  let ?all = "native_declarations (\<lambda>_. ''d'') @ coding @ hidden_declarations @ []"
  have native: "native_tool_specs (\<lambda>_. ''d'') = Inr (native_declarations (\<lambda>_. ''d''))"
    by (rule native_tool_specs_accepted) (simp add: strip_def lstrip_def rstrip_def py_space_def)
  have "distinct (map ts_name (native_declarations (\<lambda>_. ''d'')) @ coding_tool_names @ map ts_name hidden_declarations)"
    by (simp add: native_declarations_def native_spec_def coding_tool_names_def hidden_declarations_def hidden_spec_def)
  then have "distinct (map (\<lambda>b. ts_name (fst b)) (map (\<lambda>t. (t, ?h (ts_name t))) ?all))"
    by (simp add: comp_def coding(2) [symmetric] Int_Un_distrib)
  then have "\<exists>entries. register_all (map (\<lambda>t. (t, ?h (ts_name t))) ?all) [] = Inr entries"
    by (rule register_all_succeeds) (auto simp: has_key_def)
  then obtain entries where built: "demo_build = Inr entries"
    using native coding(1) demo_hidden by (auto simp: demo_build_def build_tool_registry_def)
  show ?thesis unfolding demo_registry_def built by simp
qed

lemma demo_reading: "prohibits ''read-only url''" "search NETWORK_INTENT_rx (lower ''read-only url'')"
  by code_simp+

section \<open>Where the declaration falls short\<close>

definition save_arguments :: "string \<Rightarrow> string \<Rightarrow> json" where
  "save_arguments url file = JObj [(''url'', JStr url), (''save_as'', JStr file)]"

lemma fetch_url_declared:
  "\<exists>spec \<in> set (native_declarations prose). ts_name spec = ''fetch_url'' \<and> ts_mutability spec = READ_ONLY \<and>
     ts_category spec = CAT_WEB \<and> ts_execution_modes spec = [] \<and> ts_roles spec = [''main''] \<and>
     ts_model_visible spec \<and> (\<forall>url file. validate_arguments spec (save_arguments url file) = None)"
  by (rule bexI [of _ "native_spec prose ''fetch_url'' [(''url'', False), (''pages'', True), (''save_as'', True)] [''url'']
        CAT_WEB READ_ONLY [''network''] [] [''main'']"])
    (simp_all add: native_declarations_def native_spec_def validate_arguments_def save_arguments_def required_names_def
      members_of_def get_default_def str_of_def has_key_def declared_type_def string_schema_def get_def fits_type_def)

lemma fetch_url_shown:
  assumes built: "build_tool_registry prose schemas handlers standard_tools = Inr entries"
    and req: "read_only_intent (er_objective req)" "search NETWORK_INTENT_rx (lower (er_objective req))" "er_web_enabled req"
      "\<not> coding_turn req"
  shows "tv_read_only (select_tools texts entries (Inl ROLE_MAIN) req)"
    and "''fetch_url'' \<in> set (tv_names (select_tools texts entries (Inl ROLE_MAIN) req))"
proof -
  obtain spec where spec: "spec \<in> set (native_declarations prose)" "ts_name spec = ''fetch_url''"
    "ts_mutability spec = READ_ONLY" "ts_category spec = CAT_WEB" "ts_roles spec = [''main'']" "ts_model_visible spec"
    using fetch_url_declared by blast
  have entry: "map_of entries ''fetch_url'' = Some (spec, handlers ''fetch_url'')"
    using built_registry(2) [OF built spec(1)] spec(2) by simp
  show "tv_read_only (select_tools texts entries (Inl ROLE_MAIN) req)"
    using req(1) by (simp add: select_tools_def Let_def)
  have "spec \<in> set (list_specs (Some ''main'') (Some True) None entries)"
    using map_of_SomeD [OF entry] spec(5,6) unfolding list_specs_in by auto
  then have candidate: "spec \<in> set (candidate_tools entries (Inl ROLE_MAIN) (coding_turn req))"
    using spec(2) req(4) by (simp add: candidate_tools_def coding_tool_names_def)
  have selected: "tool_selected ROLE_MAIN req True False spec"
    using spec req by (simp add: tool_selected_def)
  have "spec \<in> set (shown_tools entries (Inl ROLE_MAIN) req)"
    using candidate selected req(1) spec(4)
    by (simp add: shown_tools_def Let_def offered_def LOCAL_CATEGORIES_def)
  then show "''fetch_url'' \<in> set (tv_names (select_tools texts entries (Inl ROLE_MAIN) req))"
    using spec(2) by (force simp: tv_names_select)
qed

lemma demo_reads: "read_only_intent (er_objective demo_request)" "search NETWORK_INTENT_rx (lower (er_objective demo_request))"
  "er_web_enabled demo_request" "\<not> coding_turn demo_request"
  using demo_reading by (simp_all add: demo_request_def read_only_intent_def)

text \<open>
  C38: A read-only turn can still be made to write a file.  For every request that asks for no change and
  speaks of the network, with web access and outside the coding toolset, the view of the main role
  holds \<open>fetch_url\<close>, which is declared to read only; and in every context of the main role that is not
  cancelled, read-only or not, with any scope, mode and gate on writes, the router admits its call with
  any address and any file to save to.
\<close>

theorem read_only_turn_can_save_a_file:
  assumes built: "build_tool_registry prose schemas handlers standard_tools = Inr entries"
    and req: "read_only_intent (er_objective req)" "search NETWORK_INTENT_rx (lower (er_objective req))" "er_web_enabled req"
      "\<not> coding_turn req"
    and ctx: "rc_role c = ''main''" "rc_cancelled c 0 = None"
  shows "tv_read_only (select_tools texts entries (Inl ROLE_MAIN) req) \<and>
    ''fetch_url'' \<in> set (tv_names (select_tools texts entries (Inl ROLE_MAIN) req)) \<and>
    (\<exists>spec s1. policy_gate c entries call_id ''fetch_url'' (save_arguments url file) s = (Inr (spec, save_arguments url file), s1))"
proof -
  obtain spec where spec: "spec \<in> set (native_declarations prose)" "ts_name spec = ''fetch_url''"
    "ts_mutability spec = READ_ONLY" "ts_category spec = CAT_WEB" "ts_execution_modes spec = []"
    "ts_roles spec = [''main'']" "validate_arguments spec (save_arguments url file) = None"
    using fetch_url_declared by blast
  have entry: "map_of entries ''fetch_url'' = Some (spec, handlers ''fetch_url'')"
    using built_registry(2) [OF built spec(1)] spec(2) by simp
  have args: "drop_scope_reason (save_arguments url file) = save_arguments url file"
    by (simp add: drop_scope_reason_def save_arguments_def)
  have "sibling_refusal c spec (save_arguments url file) = None"
    using spec(3) by (simp add: sibling_refusal_def save_arguments_def split: option.splits)
  moreover have "shell_refusal c spec (save_arguments url file) = None"
    using spec(4) by (simp add: shell_refusal_def save_arguments_def split: option.splits)
  moreover have "gate_refusal c spec (save_arguments url file) = None"
    using spec(3) by (simp add: gate_refusal_def split: option.splits)
  ultimately have "policy_gate c entries call_id ''fetch_url'' (save_arguments url file) s = (Inr (spec, save_arguments url file), s)"
    using entry spec ctx args
    by (simp add: policy_gate_def get_tool_def role_refusal_def read_only_refusal_def scope_refusal_def
        mode_refusal_def argument_refusal_def keep_reason_def)
  then show ?thesis using fetch_url_shown [OF built req] by blast
qed

theorem read_only_turn_can_save_a_file_witness:
  "''fetch_url'' \<in> set (tv_names (select_tools [] demo_registry (Inl ROLE_MAIN) demo_request)) \<and>
   (\<exists>spec s1. policy_gate demo_context demo_registry ''c'' ''fetch_url'' (save_arguments ''u'' ''main.py'') fresh_router_state
      = (Inr (spec, save_arguments ''u'' ''main.py''), s1))"
  using read_only_turn_can_save_a_file [OF demo_built [unfolded demo_build_def] demo_reads, of demo_context "[]" "''c''" "''u''" "''main.py''"
      fresh_router_state]
  by (simp add: demo_context_def)

theorem shown_tools_are_allowed_witness:
  "\<exists>spec. get_tool demo_registry ''fetch_url'' = Inr spec \<and> role_refusal demo_context spec = None \<and>
     read_only_refusal demo_context spec = None \<and> ts_mutability spec \<noteq> MUTATING"
proof -
  note built = demo_built [unfolded demo_build_def]
  let ?view = "select_tools [] demo_registry (Inl ROLE_MAIN) demo_request"
  have ro: "tv_read_only ?view" using fetch_url_shown(1) [OF built demo_reads] .
  have "rc_role demo_context = role_value (tv_role ?view)" by (simp add: select_tools_def Let_def demo_context_def)
  moreover have "rc_read_only demo_context = tv_read_only ?view" using ro by (simp add: demo_context_def)
  ultimately show ?thesis
    using shown_tools_are_allowed [OF built refl fetch_url_shown(2) [OF built demo_reads]] ro by blast
qed

end
