(* ===== verification/Delegation.thy ===== *)
theory Delegation
  imports Agent_Roles Budgets
begin

text \<open>
  Delegation to a trusted role (\<open>client/runtime/orchestration.py\<close>, \<open>DelegationManager\<close>): a
  request, the roles that trusted code owns, the allocation of a child's budget, the run of the
  child, and what the parent keeps of it.

  \<^item> The parent's budget is a manager in a tree, given by the tree and the way to the manager.
  \<^item> A handler gets the request and the tree with the way to the child's manager in it; it
    returns a result or raises, and leaves the tree as its charges made it.
  \<^item> The trace is the list of the kinds of its events; their metadata hold no content and are
    left out.  A line of the session is appended for each record.
\<close>

datatype delegation_status =
    DS_COMPLETED | DS_PARTIAL | DS_FAILED | DS_CANCELLED | DS_BLOCKED | DS_BUDGET_EXHAUSTED

fun delegation_status_value :: "delegation_status \<Rightarrow> string" where
  "delegation_status_value DS_COMPLETED = ''completed''"
| "delegation_status_value DS_PARTIAL = ''partial''"
| "delegation_status_value DS_FAILED = ''failed''"
| "delegation_status_value DS_CANCELLED = ''cancelled''"
| "delegation_status_value DS_BLOCKED = ''blocked''"
| "delegation_status_value DS_BUDGET_EXHAUSTED = ''budget_exhausted''"

record delegation_request =
  dq_parent_task_id :: string
  dq_role :: agent_role
  dq_objective :: string
  dq_scope :: "string list"
  dq_context_manifest :: "string list"
  dq_expected_deliverable_type :: string
  dq_tool_policy :: string
  dq_execution_mode :: string
  dq_model_override :: "string option"
  dq_context_budget :: int
  dq_model_turn_budget :: int
  dq_tool_call_budget :: int
  dq_wall_time_ms :: "int option"
  dq_cancellation_relationship :: string
  dq_recursion_allowed :: bool
  dq_delegation_id :: string

datatype delegation_error =
    DelegationError string
  | RoleRefused role_error
  | BudgetRefused budget_error

definition delegation_request_new :: "delegation_request \<Rightarrow> delegation_error + delegation_request" where
  "delegation_request_new req =
     (if dq_role req \<notin> {ROLE_EXPLORER, ROLE_REVIEWER}
      then Inl (DelegationError ''delegation role is not trusted/supported'')
      else if dq_execution_mode req \<noteq> ''safe'' \<or> dq_recursion_allowed req
      then Inl (DelegationError ''delegated roles must be safe and non-recursive'')
      else if min (dq_context_budget req) (min (dq_model_turn_budget req) (dq_tool_call_budget req)) < 1
      then Inl (DelegationError ''delegation budgets must be positive'')
      else Inr req)"

record delegation_usage =
  du_model_turns :: int
  du_tool_calls :: int
  du_input_tokens :: int
  du_output_tokens :: int

definition no_usage :: delegation_usage where
  "no_usage = \<lparr>du_model_turns = 0, du_tool_calls = 0, du_input_tokens = 0, du_output_tokens = 0\<rparr>"

text \<open>A deliverable, with the identifiers by which a report or a review can be referred to.\<close>

record deliverable =
  dl_exploration_id :: "string option"
  dl_review_id :: "string option"
  dl_content :: json

record delegation_result =
  dr_delegation_id :: string
  dr_role :: agent_role
  dr_status :: delegation_status
  dr_deliverable :: "deliverable option"
  dr_evidence_references :: "string list"
  dr_usage :: delegation_usage
  dr_terminal_reason :: string
  dr_uncertainties :: "string list"
  dr_errors :: "string list"

definition deliverable_reference :: "deliverable \<Rightarrow> json" where
  "deliverable_reference d =
     (case dl_exploration_id d of
        Some (c # cs) \<Rightarrow> JStr (c # cs)
      | _ \<Rightarrow> (case dl_review_id d of Some r \<Rightarrow> JStr r | None \<Rightarrow> JNull))"

definition usage_dict :: "delegation_usage \<Rightarrow> json" where
  "usage_dict u = JObj [(''model_turns'', JInt (du_model_turns u)), (''tool_calls'', JInt (du_tool_calls u)),
     (''input_tokens'', JInt (du_input_tokens u)), (''output_tokens'', JInt (du_output_tokens u))]"

definition persistence_record :: "delegation_result \<Rightarrow> json" where
  "persistence_record r = JObj
     [(''delegation_id'', JStr (dr_delegation_id r)), (''role'', JStr (role_value (dr_role r))),
      (''status'', JStr (delegation_status_value (dr_status r))),
      (''deliverable_reference'', (case dr_deliverable r of None \<Rightarrow> JNull | Some d \<Rightarrow> deliverable_reference d)),
      (''evidence_references'', JList (map JStr (dr_evidence_references r))),
      (''usage'', usage_dict (dr_usage r)), (''terminal_reason'', JStr (dr_terminal_reason r)),
      (''uncertainty_count'', JInt (int (length (dr_uncertainties r)))),
      (''error_count'', JInt (int (length (dr_errors r))))]"

text \<open>\<open>TrustedRoleRegistry\<close>: the roles with the instructions of the code, built anew for each request.\<close>

definition resolve_role :: "(agent_role \<Rightarrow> string) \<Rightarrow> agent_role \<Rightarrow> delegation_error + agent_role_spec" where
  "resolve_role instructions role =
     (case role of
        ROLE_EXPLORER \<Rightarrow> map_sum RoleRefused id (explorer_role (instructions role))
      | ROLE_REVIEWER \<Rightarrow> map_sum RoleRefused id (reviewer_role (instructions role))
      | _ \<Rightarrow> Inl (DelegationError ''untrusted delegation role''))"

datatype handler_outcome =
    Returned delegation_result
  | OutOfBudget budget_kind string
  | HandlerRaised string string

type_synonym delegation_handler =
  "delegation_request \<Rightarrow> string list \<Rightarrow> budget_manager \<Rightarrow> handler_outcome \<times> budget_manager"

type_synonym delegation_handlers = "(agent_role \<times> delegation_handler) list"

definition register_handler :: "(agent_role \<Rightarrow> string) \<Rightarrow> agent_role \<Rightarrow> delegation_handler \<Rightarrow> delegation_handlers \<Rightarrow>
    delegation_error + delegation_handlers" where
  "register_handler instructions role handler hs =
     bindE (resolve_role instructions role) (\<lambda>_.
       if has_key hs role then Inl (DelegationError ''delegation handler already registered'')
       else Inr (AList.update role handler hs))"

datatype delegation_event =
    EV_BUDGET_ALLOCATED | EV_BUDGET_EXHAUSTED | EV_DELEGATION_STARTED | EV_DELEGATION_FINISHED bool

record parent_context =
  pc_task_id :: string
  pc_budget :: "(budget_manager \<times> string list) option"
  pc_max_model_rounds :: int
  pc_max_tool_actions :: int
  pc_delegation_results :: "json list"
  pc_session :: "json list"
  pc_trace :: "delegation_event list"

definition traced_as :: "delegation_event list \<Rightarrow> parent_context \<Rightarrow> parent_context" where
  "traced_as es p = p\<lparr>pc_trace := pc_trace p @ es\<rparr>"

definition keep_record :: "delegation_result \<Rightarrow> parent_context \<Rightarrow> parent_context" where
  "keep_record r p = p\<lparr>pc_delegation_results := pc_delegation_results p @ [persistence_record r],
     pc_session := pc_session p @ [persistence_record r]\<rparr>"

text \<open>The checks that a request stays within what the trusted role allows.\<close>

definition check_request :: "agent_role_spec \<Rightarrow> delegation_request \<Rightarrow> delegation_error + unit" where
  "check_request role req =
     (if ar_execution_mode role \<noteq> dq_execution_mode req \<or> ar_recursive_delegation role
      then Inl (DelegationError ''delegation cannot override trusted role policy'')
      else if dq_tool_policy req \<noteq> ''trusted_role_default''
      then Inl (DelegationError ''delegation cannot override trusted tool policy'')
      else if dq_cancellation_relationship req \<noteq> ''parent_to_child''
      then Inl (DelegationError ''delegation cannot override cancellation relationship'')
      else if dq_model_turn_budget req > ar_max_model_turns role \<or> dq_tool_call_budget req > ar_max_tool_calls role \<or>
        dq_context_budget req > ar_context_limit role
      then Inl (DelegationError ''delegation allocation exceeds trusted role limits'')
      else if dq_model_override req \<notin> {None, Some []} \<and> dq_model_override req \<noteq> ar_model_override role
      then Inl (DelegationError ''delegation cannot select an unconfigured model'')
      else Inr ())"

definition child_limits :: "delegation_request \<Rightarrow> budget_error + (budget_kind \<times> budget_limit) list" where
  "child_limits req =
     bindE (budget_limit_new (dq_model_turn_budget req) False) (\<lambda>turns.
     bindE (budget_limit_new (dq_tool_call_budget req) False) (\<lambda>calls.
     bindE (budget_limit_new (dq_context_budget req) True) (\<lambda>tokens.
     let base = [(MODEL_TURNS, turns), (PRIMARY_MODEL_CALLS, turns), (TOOL_CALLS, calls), (INPUT_TOKENS, tokens)] in
     case dq_wall_time_ms req of
       None \<Rightarrow> Inr base
     | Some ms \<Rightarrow> bindE (budget_limit_new ms False) (\<lambda>wall. Inr (AList.update WALL_TIME_MS wall base)))))"

definition exhausted_text :: "budget_kind \<Rightarrow> string \<Rightarrow> string" where
  "exhausted_text k component = component @ '' '' @ kind_value k @ '' budget exhausted''"

definition plain_delegation :: "delegation_request \<Rightarrow> delegation_status \<Rightarrow> delegation_usage \<Rightarrow> string \<Rightarrow> string \<Rightarrow>
    delegation_result" where
  "plain_delegation req status usage reason error =
     \<lparr>dr_delegation_id = dq_delegation_id req, dr_role = dq_role req, dr_status = status, dr_deliverable = None,
      dr_evidence_references = [], dr_usage = usage, dr_terminal_reason = reason, dr_uncertainties = [],
      dr_errors = [error]\<rparr>"

definition usage_of_child :: "string list \<Rightarrow> budget_manager \<Rightarrow> delegation_usage" where
  "usage_of_child p tree =
     (case manager_at p tree of
        None \<Rightarrow> no_usage
      | Some m \<Rightarrow>
          \<lparr>du_model_turns = consumed_of (ledger_of m) MODEL_TURNS, du_tool_calls = consumed_of (ledger_of m) TOOL_CALLS,
           du_input_tokens = consumed_of (ledger_of m) INPUT_TOKENS,
           du_output_tokens = consumed_of (ledger_of m) OUTPUT_TOKENS\<rparr>)"

definition result_of_outcome :: "delegation_request \<Rightarrow> string list \<Rightarrow> handler_outcome \<Rightarrow> budget_manager \<Rightarrow> delegation_result" where
  "result_of_outcome req child outcome tree =
     (case outcome of
        Returned r \<Rightarrow> r
      | OutOfBudget k component \<Rightarrow>
          plain_delegation req DS_BUDGET_EXHAUSTED (usage_of_child child tree) (kind_value k) (exhausted_text k component)
      | HandlerRaised class message \<Rightarrow> plain_delegation req DS_FAILED no_usage class (take 240 message))"

text \<open>The budget of the parent, made from its limits when it has none.\<close>

definition parent_budget :: "int \<Rightarrow> parent_context \<Rightarrow> budget_error + budget_manager \<times> string list" where
  "parent_budget now p =
     (case pc_budget p of
        Some b \<Rightarrow> Inr b
      | None \<Rightarrow> bindE (from_legacy ''main'' (pc_max_model_rounds p) (pc_max_tool_actions p) None now) (\<lambda>m. Inr (m, [])))"

definition delegate :: "(agent_role \<Rightarrow> string) \<Rightarrow> delegation_handlers \<Rightarrow> (nat \<Rightarrow> int) \<Rightarrow> int \<Rightarrow> delegation_request \<Rightarrow>
    parent_context \<Rightarrow> (delegation_error + delegation_result) \<times> parent_context" where
  "delegate instructions hs clock now req p =
     (if dq_parent_task_id req \<noteq> pc_task_id p
      then (Inl (DelegationError ''delegation parent task does not match runtime context''), p)
      else case bindE (resolve_role instructions (dq_role req)) (\<lambda>role. check_request role req) of
        Inl e \<Rightarrow> (Inl e, p)
      | Inr _ \<Rightarrow>
        (case map_of hs (dq_role req) of
           None \<Rightarrow> (Inl (DelegationError ''no trusted handler for delegation role''), p)
         | Some handler \<Rightarrow>
           (case parent_budget now p of
              Inl e \<Rightarrow> (Inl (BudgetRefused e), p)
            | Inr (tree, way) \<Rightarrow>
              let p1 = p\<lparr>pc_budget := Some (tree, way)\<rparr> in
              (case child_limits req of
                 Inl e \<Rightarrow> (Inl (BudgetRefused e), p1)
               | Inr limits \<Rightarrow>
                 let p2 = traced_as [EV_BUDGET_ALLOCATED] p1 in
                 (case allocate_child clock now way (dq_delegation_id req) (role_value (dq_role req))
                         (map (\<lambda>(k, l). (k, Inr l)) limits) tree of
                    (Some (BudgetExceeded k component), tree') \<Rightarrow>
                      let r = plain_delegation req DS_BUDGET_EXHAUSTED no_usage (kind_value k) (exhausted_text k component)
                      in (Inr r, traced_as [EV_BUDGET_EXHAUSTED, EV_DELEGATION_FINISHED False]
                           (keep_record r (p2\<lparr>pc_budget := Some (tree', way)\<rparr>)))
                  | (Some e, tree') \<Rightarrow> (Inl (BudgetRefused e), p2\<lparr>pc_budget := Some (tree', way)\<rparr>)
                  | (None, tree') \<Rightarrow>
                      let child = way @ [dq_delegation_id req];
                          (outcome, tree'') = handler req child tree';
                          r = result_of_outcome req child outcome tree''
                      in (Inr r, traced_as [EV_DELEGATION_FINISHED (dr_status r = DS_COMPLETED)]
                           (keep_record r ((traced_as [EV_DELEGATION_STARTED] p2)\<lparr>pc_budget := Some (tree'', way)\<rparr>))))))))"

end
