(* ===== verification/Delegation_Props.thy ===== *)
theory Delegation_Props
  imports Delegation Budgets_Props
begin

text \<open>
  What a delegation guarantees: a child runs only within the limits of its trusted role and
  within what its parent has left, and the parent keeps exactly one record of it, which holds
  nothing of what the child produced but a reference.
\<close>

section \<open>Roles and requests\<close>





section \<open>The child's allocation\<close>



section \<open>The ways a delegation ends\<close>

lemma delegate_cases:
  assumes d: "delegate instructions hs clock now req p = (res, p')"
  obtains (raised) e where "res = Inl e" "pc_delegation_results p' = pc_delegation_results p" "pc_session p' = pc_session p"
      "pc_trace p' = pc_trace p \<or> pc_trace p' = pc_trace p @ [EV_BUDGET_ALLOCATED]"
  | (exhausted) r where "res = Inr r" "dr_status r = DS_BUDGET_EXHAUSTED"
      "pc_delegation_results p' = pc_delegation_results p @ [persistence_record r]"
      "pc_session p' = pc_session p @ [persistence_record r]"
      "pc_trace p' = pc_trace p @ [EV_BUDGET_ALLOCATED, EV_BUDGET_EXHAUSTED, EV_DELEGATION_FINISHED False]"
  | (ran) role handler tree way limits tree' outcome tree'' where
      "dq_parent_task_id req = pc_task_id p" "resolve_role instructions (dq_role req) = Inr role"
      "check_request role req = Inr ()" "map_of hs (dq_role req) = Some handler"
      "parent_budget now p = Inr (tree, way)" "child_limits req = Inr limits"
      "allocate_child clock now way (dq_delegation_id req) (role_value (dq_role req))
         (map (\<lambda>(k, l). (k, Inr l)) limits) tree = (None, tree')"
      "handler req (way @ [dq_delegation_id req]) tree' = (outcome, tree'')"
      "res = Inr (result_of_outcome req (way @ [dq_delegation_id req]) outcome tree'')"
      "pc_delegation_results p' = pc_delegation_results p @ [persistence_record (result_of_outcome req (way @ [dq_delegation_id req]) outcome tree'')]"
      "pc_session p' = pc_session p @ [persistence_record (result_of_outcome req (way @ [dq_delegation_id req]) outcome tree'')]"
      "pc_trace p' = pc_trace p @ [EV_BUDGET_ALLOCATED, EV_DELEGATION_STARTED, EV_DELEGATION_FINISHED
         (dr_status (result_of_outcome req (way @ [dq_delegation_id req]) outcome tree'') = DS_COMPLETED)]"
  using d
  by (auto simp: delegate_def Let_def traced_as_def keep_record_def bindE_Inr plain_delegation_def
      split: if_splits sum.splits option.splits prod.splits budget_error.splits)

section \<open>What a child may do\<close>




text \<open>
  A delegation that returns is recorded exactly once, in the parent and in its session, and
  closed in the trace last; one that raises records nothing and starts nothing.  What is
  recorded does not depend on the content of the deliverable.
\<close>

theorem delegation_is_recorded_once:
  "case delegate instructions hs clock now req p of
     (Inr r, p') \<Rightarrow>
       pc_delegation_results p' = pc_delegation_results p @ [persistence_record r] \<and>
       pc_session p' = pc_session p @ [persistence_record r] \<and>
       last (pc_trace p') = EV_DELEGATION_FINISHED (dr_status r = DS_COMPLETED) \<and>
       (case dr_deliverable r of
          None \<Rightarrow> True
        | Some d \<Rightarrow> \<forall>content. persistence_record (r\<lparr>dr_deliverable := Some (d\<lparr>dl_content := content\<rparr>)\<rparr>)
            = persistence_record r)
   | (Inl e, p') \<Rightarrow>
       pc_delegation_results p' = pc_delegation_results p \<and> pc_session p' = pc_session p \<and>
       pc_trace p' \<in> {pc_trace p, pc_trace p @ [EV_BUDGET_ALLOCATED]}"
proof -
  have reference: "persistence_record (r\<lparr>dr_deliverable := Some (d\<lparr>dl_content := content\<rparr>)\<rparr>) = persistence_record r"
    if "dr_deliverable r = Some d" for r d content
    using that by (simp add: persistence_record_def deliverable_reference_def split: option.split list.split)
  obtain res p' where d: "delegate instructions hs clock now req p = (res, p')" by fastforce
  then show ?thesis by (cases rule: delegate_cases) (auto simp: d reference split: option.split)
qed

section \<open>A concrete delegation\<close>

definition demo_delegation :: delegation_request where
  "demo_delegation = \<lparr>dq_parent_task_id = ''t'', dq_role = ROLE_EXPLORER, dq_objective = ''look'', dq_scope = [],
     dq_context_manifest = [], dq_expected_deliverable_type = ''ExplorationReport'',
     dq_tool_policy = ''trusted_role_default'', dq_execution_mode = ''safe'', dq_model_override = None,
     dq_context_budget = 100, dq_model_turn_budget = 2, dq_tool_call_budget = 4, dq_wall_time_ms = None,
     dq_cancellation_relationship = ''parent_to_child'', dq_recursion_allowed = False, dq_delegation_id = ''d''\<rparr>"

definition demo_parent :: parent_context where
  "demo_parent = \<lparr>pc_task_id = ''t'', pc_budget = None, pc_max_model_rounds = 10, pc_max_tool_actions = 20,
     pc_delegation_results = [], pc_session = [], pc_trace = []\<rparr>"

definition demo_handlers :: delegation_handlers where
  "demo_handlers = [(ROLE_EXPLORER, \<lambda>req way tree. (HandlerRaised ''ValueError'' ''x'', tree))]"


text \<open>
  A delegation whose identifier the parent has used before raises, after the trace has reported
  the allocation, instead of giving the parent a result.
\<close>

lemma repeated_delegation_raises:
  "fst (delegate (\<lambda>_. ''i'') demo_handlers (\<lambda>_. 0) 0 demo_delegation
     (snd (delegate (\<lambda>_. ''i'') demo_handlers (\<lambda>_. 0) 0 demo_delegation demo_parent)))
   = Inl (BudgetRefused (BudgetError ''child allocation identifier must be unique''))"
  by code_simp

end
