(* ===== verification/Progress_Monitor.thy ===== *)
theory Progress_Monitor
  imports Budgets Capability_Gateway Text_Patterns
begin

text \<open>
  How the harness tells a turn that is getting somewhere from one that is not.

  \<^item> \<open>client/runtime/progress_monitor.py\<close>: \<open>action_fingerprint\<close>, the identity of an action, under
    which two spellings of one command are one action and every look at a file is one action;
    \<open>read_evidence\<close>, the blocks of a file a windowed read shows; \<open>ProgressMonitor\<close>, which counts
    consecutive actions that brought nothing new, with its saved form.
  \<^item> \<open>client/cli/tool_handlers.py\<close>: \<open>_already_in_evidence\<close>, which answers a windowed read with a
    note in place of the lines when every block of it is on record for the turn.
\<close>

section \<open>Words of a command line, quoted\<close>

text \<open>\<open>shlex.quote\<close> and \<open>shlex.join\<close>.\<close>

definition shell_safe :: "char \<Rightarrow> bool" where
  "shell_safe c \<longleftrightarrow> ascii_letter c \<or> ascii_digit c \<or> c \<in> set ''_@%+=:,./-''"

definition escape_quote :: "string \<Rightarrow> string" where
  "escape_quote s = concat (map (\<lambda>c. if c = CHR 0x27 then [CHR 0x27, CHR 0x22, CHR 0x27, CHR 0x22, CHR 0x27] else [c]) s)"

definition shlex_quote :: "string \<Rightarrow> string" where
  "shlex_quote s =
     (if s = [] then [CHR 0x27, CHR 0x27]
      else if list_all shell_safe s then s
      else [CHR 0x27] @ escape_quote s @ [CHR 0x27])"

definition shlex_join :: "string list \<Rightarrow> string" where
  "shlex_join ws = join '' '' (map shlex_quote ws)"

section \<open>The identity of an action\<close>

definition COMMAND_TOOLS :: "string list" where
  "COMMAND_TOOLS = [''bash'', ''terminal'']"

definition normalise_command :: "string \<Rightarrow> string" where
  "normalise_command command =
     (case shlex_split command of Some ws \<Rightarrow> shlex_join ws | None \<Rightarrow> squeeze command)"

definition INSPECTION_BINARIES :: "string list" where
  "INSPECTION_BINARIES =
     [''cat'', ''head'', ''tail'', ''od'', ''hexdump'', ''xxd'', ''strings'', ''nl'', ''less'',
      ''more'', ''bat'', ''wc'', ''stat'', ''file'', ''sed'', ''cut'', ''tr'', ''fold'', ''rev'',
      ''column'']"

text \<open>\<open>s.rsplit("/", 1)[-1]\<close>.\<close>

definition after_slash :: "string \<Rightarrow> string" where
  "after_slash s = last (split_on CHR ''/'' s)"

definition names_a_path :: "string \<Rightarrow> bool" where
  "names_a_path w \<longleftrightarrow> \<not> prefix ''-'' w \<and> (contains w ''/'' \<or> contains w ''.'')"

definition path_of_words :: "string list \<Rightarrow> string option" where
  "path_of_words argv =
     (if argv = [] \<or> after_slash (hd argv) \<notin> set INSPECTION_BINARIES then None
      else find names_a_path (tl argv))"

definition inspected_path :: "string \<Rightarrow> string option" where
  "inspected_path command = (case shlex_split command of None \<Rightarrow> None | Some argv \<Rightarrow> path_of_words argv)"

text \<open>
  \<open>json.dumps(value, sort_keys=True, ensure_ascii=False, separators=(",", ":"))\<close>.  The arguments
  of a call come from JSON, so \<open>default\<close> is never asked.
\<close>

fun dumps_compact :: "json \<Rightarrow> string" where
  "dumps_compact (JList vs) = ''['' @ join '','' (map dumps_compact vs) @ '']''"
| "dumps_compact (JObj d) = ''{'' @ join '','' (map snd (sort_key fst
     (map (\<lambda>kv. (fst kv, quote_json (fst kv) @ '':'' @ dumps_compact (snd kv))) d))) @ ''}''"
| "dumps_compact v = dumps_sorted v"

definition action_fingerprint :: "string \<Rightarrow> json_object \<Rightarrow> string" where
  "action_fingerprint tool_name arguments =
     (case (tool_name \<in> set COMMAND_TOOLS, get arguments ''command'') of
        (True, JStr command) \<Rightarrow>
          (case inspected_path command of
             Some looked_at \<Rightarrow> ''bash:read:'' @ looked_at
           | None \<Rightarrow> tool_name @ '':'' @ dumps_compact
               (JObj (AList.update ''command'' (JStr (normalise_command command)) arguments)))
      | _ \<Rightarrow> tool_name @ '':'' @ dumps_compact (JObj arguments))"

section \<open>The blocks a windowed read shows\<close>

text \<open>
  \<open>int\<close> of a run of digits.  Python refuses to read more than 4300 of them; \<open>Inl\<close> is that
  \<open>ValueError\<close>.
\<close>

definition MAX_DIGITS :: nat where
  "MAX_DIGITS = 4300"

definition digits_int :: "string \<Rightarrow> string + int" where
  "digits_int s =
     (if MAX_DIGITS < length s then Inl ''ValueError''
      else Inr (foldl (\<lambda>a c. 10 * a + (int (of_char c) - 48)) 0 s))"

text \<open>\<open>_SED_RANGE\<close>: the first line and, after a comma, the last line or \<open>$\<close>.\<close>

definition p_ends :: "string \<Rightarrow> bool" where
  "p_ends s \<longleftrightarrow> s = ''p'' \<or> s = [CHR ''p'', CHR 0x0A]"

definition sed_range :: "string \<Rightarrow> (string \<times> string option) option" where
  "sed_range item =
     (let first = takeWhile rx_digit item; rest = dropWhile rx_digit item in
      if first = [] then None
      else if p_ends rest then Some (first, None)
      else case rest of
        c # tail \<Rightarrow>
          (let final = takeWhile rx_digit tail in
           if c \<noteq> CHR '','' then None
           else if final \<noteq> [] \<and> p_ends (dropWhile rx_digit tail) then Some (first, Some final)
           else if tail \<noteq> [] \<and> hd tail = CHR ''$'' \<and> p_ends (tl tail) then Some (first, Some ''$'')
           else None)
      | [] \<Rightarrow> None)"

text \<open>The patterns \<open>[+-]?\d+\<close> and \<open>-n?[+-]?\d+\<close>, each on the whole of a word.\<close>

definition unsigned :: "string \<Rightarrow> string" where
  "unsigned s = (if s \<noteq> [] \<and> hd s \<in> {CHR ''+'', CHR ''-''} then tl s else s)"

definition signed_digits :: "string \<Rightarrow> bool" where
  "signed_digits s \<longleftrightarrow> unsigned s \<noteq> [] \<and> list_all rx_digit (unsigned s)"

definition count_flag :: "string \<Rightarrow> bool" where
  "count_flag item \<longleftrightarrow> item \<noteq> [] \<and> hd item = CHR ''-'' \<and>
     signed_digits (if tl item \<noteq> [] \<and> hd (tl item) = CHR ''n'' then tl (tl item) else tl item)"

fun count_arg :: "string option \<Rightarrow> string list \<Rightarrow> string option" where
  "count_arg count [] = count"
| "count_arg count (item # rest) =
     count_arg (if item = ''-n'' \<and> rest \<noteq> [] then Some (hd rest)
                else if count_flag item then Some (dropWhile (\<lambda>c. c \<in> {CHR ''-'', CHR ''n''}) item)
                else count) rest"

definition BLOCK :: int where
  "BLOCK = 100"

definition block_name :: "string \<Rightarrow> int \<Rightarrow> string" where
  "block_name path b = path @ ''#L'' @ int_str (b * BLOCK)"

definition window_blocks :: "string \<Rightarrow> int \<Rightarrow> int option \<Rightarrow> string list" where
  "window_blocks path start final =
     (let last_line = (case final of Some n \<Rightarrow> n | None \<Rightarrow> start + BLOCK) in
      map (block_name path) [(start - 1) div BLOCK .. (max last_line start - 1) div BLOCK])"

definition sed_blocks :: "string \<Rightarrow> string list \<Rightarrow> string + string list" where
  "sed_blocks path args =
     (case List.map_filter sed_range args of
        [] \<Rightarrow> Inr []
      | (first, final) # _ \<Rightarrow>
          bindE (digits_int first) (\<lambda>start.
            case final of
              None \<Rightarrow> Inr (window_blocks path start (Some start))
            | Some f \<Rightarrow> if f = ''$'' then Inr (window_blocks path start None)
                else bindE (digits_int f) (\<lambda>n. Inr (window_blocks path start (Some n)))))"

definition count_blocks :: "string \<Rightarrow> string \<Rightarrow> string list \<Rightarrow> string + string list" where
  "count_blocks binary path args =
     (case count_arg None args of
        None \<Rightarrow> Inr []
      | Some count \<Rightarrow>
          if \<not> signed_digits count then Inr []
          else bindE (digits_int (unsigned count)) (\<lambda>n.
            Inr (if binary = ''head'' then window_blocks path 1 (Some n)
                 else if hd count = CHR ''+'' then window_blocks path n None
                 else [path @ ''#tail'' @ int_str n])))"

definition evidence_of_words :: "string list \<Rightarrow> string + string list" where
  "evidence_of_words argv =
     (case path_of_words argv of
        None \<Rightarrow> Inr []
      | Some path \<Rightarrow>
          (let binary = after_slash (hd argv) in
           if binary = ''sed'' then sed_blocks path (tl argv)
           else if binary \<in> {''head'', ''tail''} then count_blocks binary path (tl argv)
           else Inr []))"

definition read_evidence :: "string \<Rightarrow> string + string list" where
  "read_evidence command = (case shlex_split command of None \<Rightarrow> Inr [] | Some argv \<Rightarrow> evidence_of_words argv)"

section \<open>The monitor\<close>

record progress_observation =
  po_fingerprint :: string
  po_repeated :: bool
  po_without_progress :: int
  po_stalled :: bool

record progress_monitor =
  pm_stall_threshold :: int
  pm_last_fingerprint :: "string option"
  pm_without_progress :: int
  pm_evidence :: "string set"

definition new_monitor :: "int \<Rightarrow> string + progress_monitor" where
  "new_monitor threshold =
     (if threshold < 2 then Inl ''stall_threshold must be at least 2''
      else Inr \<lparr>pm_stall_threshold = threshold, pm_last_fingerprint = None, pm_without_progress = 0,
                pm_evidence = {}\<rparr>)"

text \<open>What one call of \<open>observe_action\<close> is told.\<close>

record observed_action =
  oa_tool :: string
  oa_arguments :: json_object
  oa_evidence :: "string list"
  oa_mutation :: bool
  oa_verification :: bool
  oa_fruitless :: bool

definition action_evidence :: "observed_action \<Rightarrow> string + string list" where
  "action_evidence a =
     (case (oa_tool a \<in> set COMMAND_TOOLS, get (oa_arguments a) ''command'') of
        (True, JStr command) \<Rightarrow> bindE (read_evidence command) (\<lambda>es. Inr (oa_evidence a @ es))
      | _ \<Rightarrow> Inr (oa_evidence a))"

definition observe_action :: "observed_action \<Rightarrow> progress_monitor \<Rightarrow> string + (progress_observation \<times> progress_monitor)" where
  "observe_action a m =
     (let fingerprint = action_fingerprint (oa_tool a) (oa_arguments a) in
      bindE (action_evidence a) (\<lambda>evidence.
        let items = set (filter (\<lambda>item. item \<noteq> []) evidence);
            new_evidence = \<not> items \<subseteq> pm_evidence m;
            progress = (oa_mutation a \<or> oa_verification a \<or> new_evidence);
            repeated = (Some fingerprint = pm_last_fingerprint m \<and> \<not> progress);
            count = (if progress then 0 else if repeated \<or> oa_fruitless a then pm_without_progress m + 1 else 0)
        in Inr (\<lparr>po_fingerprint = fingerprint, po_repeated = repeated, po_without_progress = count,
                 po_stalled = (pm_stall_threshold m - 1 \<le> count)\<rparr>,
                m\<lparr>pm_evidence := pm_evidence m \<union> items, pm_without_progress := count,
                  pm_last_fingerprint := Some fingerprint\<rparr>)))"

definition record_progress :: "string \<Rightarrow> progress_monitor \<Rightarrow> progress_monitor" where
  "record_progress evidence m =
     m\<lparr>pm_evidence := (if evidence \<noteq> [] then insert evidence (pm_evidence m) else pm_evidence m),
       pm_without_progress := 0\<rparr>"

definition monitor_to_dict :: "progress_monitor \<Rightarrow> json" where
  "monitor_to_dict m = JObj
     [(''schema_version'', JInt 1),
      (''stall_threshold'', JInt (pm_stall_threshold m)),
      (''last_fingerprint'', case pm_last_fingerprint m of None \<Rightarrow> JNull | Some f \<Rightarrow> JStr f),
      (''without_progress'', JInt (pm_without_progress m)),
      (''evidence'', JList (map JStr (sorted_list_of_set (pm_evidence m))))]"

text \<open>\<open>num\<close> is how \<open>int()\<close> reads a string or a float, \<open>None\<close> when it raises.\<close>

definition saved_fingerprint :: "json \<Rightarrow> string + string option" where
  "saved_fingerprint v =
     (case v of JNull \<Rightarrow> Inr None | JStr s \<Rightarrow> Inr (Some s) | _ \<Rightarrow> Inl ''invalid last action fingerprint'')"

definition saved_count :: "json \<Rightarrow> string + int" where
  "saved_count v =
     (case v of JInt n \<Rightarrow> if n < 0 then Inl ''invalid progress count'' else Inr n
      | JBool b \<Rightarrow> Inr (if b then 1 else 0)
      | _ \<Rightarrow> Inl ''invalid progress count'')"

definition saved_evidence :: "json \<Rightarrow> string + string set" where
  "saved_evidence v =
     (case v of
        JList vs \<Rightarrow> if list_all (\<lambda>i. case i of JStr _ \<Rightarrow> True | _ \<Rightarrow> False) vs
                   then Inr (set (List.map_filter (\<lambda>i. case i of JStr s \<Rightarrow> Some s | _ \<Rightarrow> None) vs))
                   else Inl ''invalid progress evidence''
      | _ \<Rightarrow> Inl ''invalid progress evidence'')"

definition monitor_from_dict :: "(json \<Rightarrow> int option) \<Rightarrow> json \<Rightarrow> string + progress_monitor" where
  "monitor_from_dict num raw =
     (case raw of
        JObj d \<Rightarrow>
          if \<not> py_is_one (get d ''schema_version'') then Inl ''unsupported progress monitor state''
          else bindE (case py_int num (get_default d ''stall_threshold'' (JInt 4)) of
                        None \<Rightarrow> Inl ''int()'' | Some n \<Rightarrow> new_monitor n) (\<lambda>monitor.
               bindE (saved_fingerprint (get d ''last_fingerprint'')) (\<lambda>last.
               bindE (saved_count (get_default d ''without_progress'' (JInt 0))) (\<lambda>count.
               bindE (saved_evidence (get_default d ''evidence'' (JList []))) (\<lambda>evidence.
                 Inr (monitor\<lparr>pm_last_fingerprint := last, pm_without_progress := count,
                              pm_evidence := evidence\<rparr>)))))
      | _ \<Rightarrow> Inl ''unsupported progress monitor state'')"

section \<open>Lines already in evidence\<close>

text \<open>
  The part of a tool context \<open>_already_in_evidence\<close> reads: the blocks on record with the mutation
  generation and the call each was recorded at, the router's generation, whether a call's result is
  still in what the model is sent (\<open>None\<close> where the context has no such function; its value \<open>None\<close>
  where it raises), and the identity of the current call.
\<close>

record evidence_context =
  ec_regions :: "(string \<times> (int \<times> string option)) list"
  ec_generation :: int
  ec_available :: "(string \<Rightarrow> bool option) option"
  ec_call_id :: "string option"

definition still_shown :: "evidence_context \<Rightarrow> string \<Rightarrow> bool" where
  "still_shown c block =
     (case map_of (ec_regions c) block of
        None \<Rightarrow> False
      | Some (generation, shown_by) \<Rightarrow>
          generation = ec_generation c \<and>
          (case (shown_by, ec_available c) of
             (Some call, Some available) \<Rightarrow> (case available call of Some b \<Rightarrow> b | None \<Rightarrow> True)
           | _ \<Rightarrow> True))"

definition before_hash :: "string \<Rightarrow> string" where
  "before_hash s = takeWhile (\<lambda>c. c \<noteq> CHR ''#'') s"

definition evidence_note :: "string list \<Rightarrow> string" where
  "evidence_note blocks =
     ''(ALREADY IN EVIDENCE this turn '' @ dash @ '' these lines of ''
     @ join '', '' (sorted_list_of_set (before_hash ` set blocks))
     @ '' are already above in this conversation, and nothing has been written since. Read them there. ''
     @ ''Widen the range, open a different file, or move on.)'' @ [CHR 0x0A]"

definition already_in_evidence :: "evidence_context \<Rightarrow> string \<Rightarrow> string + (string \<times> evidence_context)" where
  "already_in_evidence c command =
     bindE (read_evidence command) (\<lambda>blocks.
       if blocks = [] then Inr ([], c)
       else if list_ex (\<lambda>block. \<not> still_shown c block) blocks
       then Inr ([], c\<lparr>ec_regions :=
              fold (\<lambda>block. AList.update block (ec_generation c, ec_call_id c)) blocks (ec_regions c)\<rparr>)
       else Inr (evidence_note blocks, c))"

end
