(* ===== verification/Progress_Monitor_Props.thy ===== *)
theory Progress_Monitor_Props
  imports Progress_Monitor
begin

text \<open>
  What the fingerprints of commands identify, when the monitor calls a turn stalled, that its saved
  form loses nothing, and which lines the note of \<open>_already_in_evidence\<close> stands for.
\<close>

section \<open>Quoted words are read back\<close>

lemma lex_plain:
  "list_all (\<lambda>c. \<not> lex_space c \<and> \<not> lex_quote c \<and> c \<noteq> CHR 0x5C) s \<Longrightarrow>
   lex [] [] InWord token quoted (s @ rest) = lex [] [] InWord (token @ s) quoted rest"
  by (induction s arbitrary: token) (auto simp: lex.simps)

lemma lex_quoted:
  "lex [] [] (InQuote CHR 0x27) token quoted (escape_quote s @ CHR 0x27 # rest)
     = lex [] [] InWord (token @ s) True rest"
proof (induction s arbitrary: token quoted)
  case (Cons c s)
  then show ?case by (cases "c = CHR 0x27") (simp_all add: escape_quote_def lex.simps lex_space_def)
qed (simp add: escape_quote_def lex.simps)

lemma shell_safe_plain: "shell_safe c \<Longrightarrow> \<not> lex_space c \<and> \<not> lex_quote c \<and> c \<noteq> CHR 0x5C"
  by (auto simp: shell_safe_def lex_space_def ascii_letter_def ascii_digit_def)

lemma lex_word:
  obtains quoted where "w \<noteq> [] \<or> quoted"
    "lex [] [] Blank [] False (shlex_quote w @ rest) = lex [] [] InWord w quoted rest"
proof (cases "w \<noteq> [] \<and> list_all shell_safe w")
  case True
  then obtain c s where w: "w = c # s" by (cases w) auto
  with True have c: "\<not> lex_space c \<and> \<not> lex_quote c \<and> c \<noteq> CHR 0x5C"
    and s: "list_all (\<lambda>c. \<not> lex_space c \<and> \<not> lex_quote c \<and> c \<noteq> CHR 0x5C) s"
    by (auto dest: shell_safe_plain elim: list.pred_mono_strong)
  have "lex [] [] Blank [] False (shlex_quote w @ rest) = lex [] [] InWord w False rest"
    using lex_plain [OF s, of "[c]"] True c by (simp add: w shlex_quote_def lex.simps)
  with True show ?thesis by (intro that [of False]) auto
next
  case False
  have "lex [] [] Blank [] False (shlex_quote w @ rest) = lex [] [] InWord w True rest"
    using False lex_quoted [of "[]" False w rest]
    by (auto simp: shlex_quote_def lex.simps lex_space_def)
  then show ?thesis by (intro that [of True]) auto
qed

lemma lex_join: "lex [] [] Blank [] False (shlex_join ws) = Inr ws"
  unfolding shlex_join_def
proof (induction ws rule: induct_list012)
  case 1
  then show ?case by (simp add: lex.simps emit_def)
next
  case (2 w)
  obtain q where "w \<noteq> [] \<or> q" "lex [] [] Blank [] False (shlex_quote w @ []) = lex [] [] InWord w q []"
    by (rule lex_word)
  then show ?case by (auto simp: lex.simps emit_def)
next
  case (3 w v ws)
  let ?rest = "join '' '' (map shlex_quote (v # ws))"
  obtain q where "w \<noteq> [] \<or> q"
    "lex [] [] Blank [] False (shlex_quote w @ '' '' @ ?rest) = lex [] [] InWord w q ('' '' @ ?rest)"
    by (rule lex_word)
  with 3 show ?case by (auto simp: lex.simps emit_def lex_space_def)
qed

lemma split_join [simp]: "shlex_split (shlex_join ws) = Some ws"
  by (simp add: shlex_split_def lex_join)

lemma normalise_same_words:
  "shlex_split a = Some ws \<Longrightarrow> shlex_split b = Some vs \<Longrightarrow>
   normalise_command a = normalise_command b \<longleftrightarrow> ws = vs"
  by (simp add: normalise_command_def) (metis option.inject split_join)

section \<open>Which commands are one action\<close>

lemma hex_digit_of_inject: "m < 16 \<Longrightarrow> n < 16 \<Longrightarrow> hex_digit_of m = hex_digit_of n \<Longrightarrow> m = n"
  by (auto simp: hex_digit_of_def char_of_eq_iff take_bit_eq_mod split: if_splits)

lemma escape_char_prefix: "escape_char c @ xs = escape_char d @ ys \<Longrightarrow> c = d \<and> xs = ys"
proof -
  assume eq: "escape_char c @ xs = escape_char d @ ys"
  let ?m = "of_char c :: nat" and ?n = "of_char d :: nat"
  have hex: "?m = ?n" if "?m < 32" "?n < 32" "hex_digit_of (?m div 16) = hex_digit_of (?n div 16)"
      "hex_digit_of (?m mod 16) = hex_digit_of (?n mod 16)"
  proof -
    have "?m div 16 < 16" "?n div 16 < 16" using that(1,2) by (simp_all add: less_mult_imp_div_less)
    with that(3,4) have "?m div 16 = ?n div 16" "?m mod 16 = ?n mod 16" by (auto intro: hex_digit_of_inject)
    then show ?thesis by (metis div_mult_mod_eq)
  qed
  from eq hex show ?thesis
    by (auto simp: escape_char_def Let_def of_char_eq_iff split: if_splits)
qed

lemma escape_char_not_Nil: "escape_char c \<noteq> []"
  by (simp add: escape_char_def Let_def)

lemma escape_chars_inject: "concat (map escape_char s) = concat (map escape_char t) \<Longrightarrow> s = t"
proof (induction s arbitrary: t)
  case Nil
  then show ?case by (cases t) (simp_all add: escape_char_not_Nil)
next
  case (Cons c s)
  then show ?case
    by (cases t) (auto simp: escape_char_not_Nil dest!: escape_char_prefix)
qed

lemma quote_json_inject [simp]: "quote_json s = quote_json t \<longleftrightarrow> s = t"
  by (auto simp: quote_json_def dest: escape_chars_inject)

lemma sort_key_map: "sort_key f (map g xs) = map g (sort_key (\<lambda>x. f (g x)) xs)"
proof (induction xs)
  case (Cons x xs)
  have "insort_key f (g x) (map g ys) = map g (insort_key (\<lambda>x. f (g x)) x ys)" for ys
    by (induction ys) auto
  with Cons show ?case by simp
qed simp

lemma join_middle: "join sep (xs @ u # ys) = join sep (xs @ v # ys) \<longleftrightarrow> u = v"
proof (induction xs rule: induct_list012)
  case 1
  then show ?case by (cases ys) auto
next
  case (2 x)
  then show ?case by (cases ys) auto
qed simp

definition put :: "string \<Rightarrow> json \<Rightarrow> string \<times> json \<Rightarrow> string \<times> json" where
  "put k v kv = (if fst kv = k then (k, v) else kv)"

lemma update_twice: "dict d \<Longrightarrow> AList.update k v d = map (put k v) (AList.update k JNull d)"
proof (induction d)
  case (Cons kv d)
  then have "fst kv = k \<Longrightarrow> map (put k v) d = d"
    by (intro map_idI) (auto simp: put_def intro: rev_image_eqI)
  with Cons show ?case by (cases kv) (simp_all add: put_def [of _ _ "(_, _)"])
qed (simp add: put_def)

lemma dumps_compact_put:
  assumes "dict d"
  shows "dumps_compact (JObj (AList.update k (JStr a) d)) = dumps_compact (JObj (AList.update k (JStr b) d)) \<longleftrightarrow> a = b"
proof -
  define e where "e = (\<lambda>kv. quote_json (fst kv) @ '':'' @ dumps_compact (snd kv))"
  define s where "s = sort_key fst (AList.update k JNull d)"
  have printed: "dumps_compact (JObj (AList.update k v d)) = ''{'' @ join '','' (map (e \<circ> put k v) s) @ ''}''" for v
  proof -
    have "sort_key fst (map (\<lambda>kv. (fst kv, e kv)) (AList.update k v d))
        = map (\<lambda>kv. (fst kv, e (put k v kv))) s"
      unfolding update_twice [OF assms, of k v] s_def
      by (simp add: sort_key_map comp_def put_def if_distrib cong: if_cong)
    from this [unfolded e_def] show ?thesis by (simp add: e_def comp_def)
  qed
  have "k \<in> fst ` set s" "dict s"
    using assms by (simp_all add: s_def update_keys sort_key_map [of "\<lambda>x. x" fst, symmetric] flip: set_map)
  then obtain xs v ys where s: "s = xs @ (k, v) # ys" and k: "k \<notin> fst ` set xs" "k \<notin> fst ` set ys"
    by (auto dest!: split_list)
  have same: "map (e \<circ> put k v) zs = map e zs" if "k \<notin> fst ` set zs" for zs v
    using that by (auto simp: put_def)
  show ?thesis
    unfolding printed by (simp add: s same k join_middle, simp add: put_def e_def)
qed

text \<open>The value of \<open>command\<close> alone tells two commands of the same tool apart, and only its words.\<close>

lemma command_fingerprint:
  assumes "tool \<in> set COMMAND_TOOLS" "get d ''command'' = JStr a" "inspected_path a = None"
  shows "action_fingerprint tool d
    = tool @ '':'' @ dumps_compact (JObj (AList.update ''command'' (JStr (normalise_command a)) d))"
  using assms by (simp add: action_fingerprint_def)

lemma get_update [simp]: "get (AList.update k v d) k = v"
  by (simp add: get_def map_of_update)

lemma update_update [simp]: "AList.update k v (AList.update k u d) = AList.update k v d"
  by (induction d) auto

text \<open>
  Two commands that are no mere looks at a file, given to the same command tool with the same
  other arguments, are one action exactly if they have the same words: spelling and quoting do not
  count, and no two different lists of words are taken for one.
\<close>

theorem same_words_same_action:
  assumes "tool \<in> set COMMAND_TOOLS" "dict d"
    and "shlex_split a = Some ws" "shlex_split b = Some vs"
    and "path_of_words ws = None" "path_of_words vs = None"
  shows "action_fingerprint tool (AList.update ''command'' (JStr a) d)
           = action_fingerprint tool (AList.update ''command'' (JStr b) d) \<longleftrightarrow> ws = vs"
proof -
  have "action_fingerprint tool (AList.update ''command'' (JStr c) d) = tool @ '':''
      @ dumps_compact (JObj (AList.update ''command'' (JStr (normalise_command c)) d))"
    if "c = a \<or> c = b" for c
    using that assms by (subst command_fingerprint) (auto simp: inspected_path_def)
  then show ?thesis
    using dumps_compact_put [OF assms(2)] normalise_same_words [OF assms(3,4)] by simp
qed

theorem same_words_same_action_witness:
  "action_fingerprint ''bash'' [(''command'', JStr ''make   test''), (''timeout'', JInt 5)]
     = action_fingerprint ''bash'' [(''command'', JStr ''make test''), (''timeout'', JInt 5)]
   \<and> action_fingerprint ''bash'' [(''command'', JStr ''make test''), (''timeout'', JInt 5)]
     \<noteq> action_fingerprint ''bash'' [(''command'', JStr ''make check''), (''timeout'', JInt 5)]"
proof -
  let ?d = "[(''command'', JNull), (''timeout'', JInt 5)]"
  have split: "shlex_split ''make   test'' = Some [''make'', ''test'']"
    "shlex_split ''make test'' = Some [''make'', ''test'']"
    "shlex_split ''make check'' = Some [''make'', ''check'']" by code_simp+
  have none: "path_of_words [''make'', ''test''] = None" "path_of_words [''make'', ''check''] = None"
    by code_simp+
  have tool: "''bash'' \<in> set COMMAND_TOOLS" by (simp add: COMMAND_TOOLS_def)
  show ?thesis
    using same_words_same_action [of "''bash''" ?d, OF tool _ split(1,2) none(1,1)]
      same_words_same_action [of "''bash''" ?d, OF tool _ split(2,3) none] by simp
qed

text \<open>
  The script of \<open>sed\<close> is taken for the file when it has a slash or a dot: what is fingerprinted is
  the script, whichever file it is applied to.
\<close>

theorem sed_script_taken_for_the_file:
  assumes "tool \<in> set COMMAND_TOOLS" "names_a_path script"
  shows "action_fingerprint tool [(''command'', JStr (shlex_join [''sed'', script, file]))] = ''bash:read:'' @ script"
  using assms by (simp add: action_fingerprint_def inspected_path_def path_of_words_def get_def
      INSPECTION_BINARIES_def after_slash_def)

section \<open>When a turn is stalled\<close>

text \<open>
  The reference: an action is idle after a history if it changed, checked and showed nothing new and
  either repeats the last action or is reported fruitless; a turn is stalled when its last
  \<open>threshold - 1\<close> calls of the monitor were idle actions.
\<close>

datatype progress_call = Observed observed_action | Recorded string

definition shown_items :: "observed_action \<Rightarrow> string set" where
  "shown_items a = set (filter (\<lambda>item. item \<noteq> []) (projr (action_evidence a)))"

definition call_items :: "progress_call \<Rightarrow> string set" where
  "call_items call = (case call of Observed a \<Rightarrow> shown_items a | Recorded e \<Rightarrow> {e} - {[]})"

definition fingerprint_of :: "observed_action \<Rightarrow> string" where
  "fingerprint_of a = action_fingerprint (oa_tool a) (oa_arguments a)"

definition last_action :: "progress_call list \<Rightarrow> string option" where
  "last_action calls =
     fold (\<lambda>call f. case call of Observed a \<Rightarrow> Some (fingerprint_of a) | Recorded _ \<Rightarrow> f) calls None"

definition idle :: "progress_call list \<Rightarrow> progress_call \<Rightarrow> bool" where
  "idle past call =
     (case call of
        Recorded _ \<Rightarrow> False
      | Observed a \<Rightarrow> \<not> oa_mutation a \<and> \<not> oa_verification a \<and> shown_items a \<subseteq> \<Union> (call_items ` set past)
          \<and> (last_action past = Some (fingerprint_of a) \<or> oa_fruitless a))"

definition last_idle :: "nat \<Rightarrow> progress_call list \<Rightarrow> bool" where
  "last_idle n calls \<longleftrightarrow> n \<le> length calls \<and> (\<forall>k \<in> {length calls - n..<length calls}. idle (take k calls) (calls ! k))"

definition progress_step :: "progress_call \<Rightarrow> progress_monitor \<Rightarrow> string option \<times> progress_monitor" where
  "progress_step call m =
     (case call of
        Recorded e \<Rightarrow> (None, record_progress e m)
      | Observed a \<Rightarrow> commit m (map_sum id snd (observe_action a m)))"

definition follows :: "int \<Rightarrow> progress_call list \<Rightarrow> progress_monitor \<Rightarrow> bool" where
  "follows n calls m \<longleftrightarrow> pm_stall_threshold m = n \<and> pm_last_fingerprint m = last_action calls
     \<and> pm_evidence m = \<Union> (call_items ` set calls) \<and> 0 \<le> pm_without_progress m
     \<and> (\<forall>k. int k \<le> pm_without_progress m \<longleftrightarrow> last_idle k calls)"

lemma last_idle_0 [simp]: "last_idle 0 calls"
  by (simp add: last_idle_def)

lemma last_idle_Nil: "last_idle k [] \<longleftrightarrow> k = 0"
  by (simp add: last_idle_def)

lemma last_idle_snoc: "last_idle (Suc k) (calls @ [c]) \<longleftrightarrow> last_idle k calls \<and> idle calls c"
proof -
  have "{length calls - k..<Suc (length calls)} = insert (length calls) {length calls - k..<length calls}" by auto
  then show ?thesis by (auto simp: last_idle_def nth_append)
qed

lemma last_action_snoc:
  "last_action (calls @ [c]) = (case c of Observed a \<Rightarrow> Some (fingerprint_of a) | Recorded _ \<Rightarrow> last_action calls)"
  by (cases c) (simp_all add: last_action_def)

lemma observe_follows:
  assumes "follows n calls m" "observe_action a m = Inr (ob, m')"
  shows "follows n (calls @ [Observed a]) m'" "po_stalled ob \<longleftrightarrow> n - 1 \<le> pm_without_progress m'"
proof -
  let ?i = "idle calls (Observed a)"
  obtain es where es: "action_evidence a = Inr es"
    using assms(2) by (auto simp: observe_action_def raise_simps Let_def)
  have items: "set (filter (\<lambda>item. item \<noteq> []) es) = shown_items a" by (simp add: shown_items_def es)
  have i: "?i \<longleftrightarrow> \<not> oa_mutation a \<and> \<not> oa_verification a \<and> shown_items a \<subseteq> pm_evidence m
      \<and> (Some (fingerprint_of a) = pm_last_fingerprint m \<or> oa_fruitless a)"
    using assms(1) by (auto simp: idle_def follows_def)
  let ?progress = "oa_mutation a \<or> oa_verification a \<or> \<not> shown_items a \<subseteq> pm_evidence m"
  have count: "(if ?progress then 0
      else if Some (fingerprint_of a) = pm_last_fingerprint m \<and> \<not> ?progress \<or> oa_fruitless a
      then pm_without_progress m + 1 else 0) = (if ?i then pm_without_progress m + 1 else 0)"
    unfolding i by auto
  from assms(1) have n: "pm_stall_threshold m = n" by (simp add: follows_def)
  from assms(2) have m': "m' = m\<lparr>pm_evidence := pm_evidence m \<union> shown_items a,
        pm_without_progress := (if ?i then pm_without_progress m + 1 else 0),
        pm_last_fingerprint := Some (fingerprint_of a)\<rparr>"
    and ob: "po_stalled ob \<longleftrightarrow> n - 1 \<le> (if ?i then pm_without_progress m + 1 else 0)"
    unfolding observe_action_def es Let_def fingerprint_of_def [symmetric] bindE.simps items count n by auto
  have "int k \<le> pm_without_progress m' \<longleftrightarrow> last_idle k (calls @ [Observed a])" for k
    using assms(1) by (cases k) (auto simp: m' last_idle_snoc follows_def)
  with assms(1) show "follows n (calls @ [Observed a]) m'"
    by (auto simp: follows_def m' last_action_snoc call_items_def)
  from ob show "po_stalled ob \<longleftrightarrow> n - 1 \<le> pm_without_progress m'" by (simp add: m')
qed

lemma record_follows: "follows n calls m \<Longrightarrow> follows n (calls @ [Recorded e]) (record_progress e m)"
proof -
  assume f: "follows n calls m"
  have "int k \<le> 0 \<longleftrightarrow> last_idle k (calls @ [Recorded e])" for k
    by (cases k) (auto simp: last_idle_snoc idle_def)
  with f show ?thesis by (auto simp: follows_def record_progress_def last_action_snoc call_items_def)
qed

lemma step_follows: "follows n calls m \<Longrightarrow> progress_step c m = (None, m') \<Longrightarrow> follows n (calls @ [c]) m'"
  by (cases c) (auto simp: progress_step_def raise_simps map_sum_def split: sum.splits
      dest: observe_follows(1) record_follows)

lemma replay_follows:
  "replay_with progress_step calls m = Inr m' \<Longrightarrow> follows n past m \<Longrightarrow> follows n (past @ calls) m'"
proof (induction calls arbitrary: m past)
  case (Cons c calls)
  then obtain k where "progress_step c m = (None, k)" "replay_with progress_step calls k = Inr m'"
    by (auto split: prod.splits option.splits)
  with Cons.IH [of k "past @ [c]"] step_follows [OF Cons.prems(2)] show ?case by simp
qed simp

lemma new_follows: "new_monitor n = Inr m \<Longrightarrow> follows n [] m"
  by (auto simp: new_monitor_def follows_def last_action_def last_idle_Nil split: if_splits)

text \<open>
  C29: Whatever was observed and recorded before, an action is reported as stalled exactly if it
  and the \<open>threshold - 2\<close> calls before it were all idle: nothing changed, nothing was checked,
  nothing was shown that the history had not shown, and each repeated the action before it or was
  reported fruitless.
\<close>

theorem stalled_iff_last_actions_idle:
  assumes "new_monitor n = Inr start" "replay_with progress_step calls start = Inr m"
    and "observe_action a m = Inr (ob, m')"
  shows "po_stalled ob \<longleftrightarrow> last_idle (nat (n - 1)) (calls @ [Observed a])"
proof -
  from replay_follows [OF assms(2) new_follows [OF assms(1)]] have "follows n calls m" by simp
  note f = observe_follows [OF this assms(3)]
  from assms(1) have "2 \<le> n" by (simp add: new_monitor_def split: if_splits)
  with f show ?thesis by (metis follows_def int_nat_eq diff_ge_0_iff_ge one_le_numeral order_trans)
qed

definition demo_look :: observed_action where
  "demo_look = \<lparr>oa_tool = ''read_file'', oa_arguments = [(''path'', JStr ''a.c'')], oa_evidence = [''a.c''],
     oa_mutation = False, oa_verification = False, oa_fruitless = False\<rparr>"

theorem stalled_iff_last_actions_idle_witness:
  "\<exists>start m ob m'. new_monitor 3 = Inr start
     \<and> replay_with progress_step [Observed demo_look, Observed demo_look] start = Inr m
     \<and> observe_action demo_look m = Inr (ob, m') \<and> po_stalled ob
     \<and> last_idle 2 [Observed demo_look, Observed demo_look, Observed demo_look]"
proof -
  let ?f = "action_fingerprint ''read_file'' [(''path'', JStr ''a.c'')]"
  let ?start = "\<lparr>pm_stall_threshold = 3, pm_last_fingerprint = None, pm_without_progress = 0, pm_evidence = {}\<rparr>"
  let ?m = "?start\<lparr>pm_last_fingerprint := Some ?f, pm_without_progress := 1, pm_evidence := {''a.c''}\<rparr>"
  let ?ob = "\<lparr>po_fingerprint = ?f, po_repeated = True, po_without_progress = 2, po_stalled = True\<rparr>"
  have start: "new_monitor 3 = Inr ?start" by (simp add: new_monitor_def)
  have seen: "action_evidence demo_look = Inr [''a.c'']"
    by (simp add: action_evidence_def demo_look_def COMMAND_TOOLS_def)
  have item: "{x. x = ''a.c'' \<and> x \<noteq> []} = {''a.c''}" by auto
  have run: "replay_with progress_step [Observed demo_look, Observed demo_look] ?start = Inr ?m"
    by (simp add: progress_step_def observe_action_def seen commit_def Let_def item) (simp add: demo_look_def)
  have last: "observe_action demo_look ?m = Inr (?ob, ?m\<lparr>pm_without_progress := 2\<rparr>)"
    by (simp add: observe_action_def seen Let_def item) (simp add: demo_look_def)
  from stalled_iff_last_actions_idle [OF start run last]
  have "last_idle 2 [Observed demo_look, Observed demo_look, Observed demo_look]" by simp
  with start run last show ?thesis by force
qed

section \<open>The saved monitor\<close>

lemma finite_step: "finite (pm_evidence m) \<Longrightarrow> progress_step c m = (None, m') \<Longrightarrow> finite (pm_evidence m')"
  by (cases c) (auto simp: progress_step_def raise_simps map_sum_def observe_action_def record_progress_def Let_def
      split: sum.splits)

lemma strings_back [simp]: "List.map_filter (\<lambda>i. case i of JStr s \<Rightarrow> Some s | _ \<Rightarrow> None) (map JStr xs) = xs"
  by (induction xs) (simp_all add: List.map_filter_def)

text \<open>A monitor that ran is restored as it was, however \<open>int()\<close> reads texts.\<close>

theorem monitor_restored:
  assumes "new_monitor n = Inr start" "replay_with progress_step calls start = Inr m"
  shows "monitor_from_dict num (monitor_to_dict m) = Inr m"
proof -
  have "finite (pm_evidence s) \<Longrightarrow> replay_with progress_step cs s = Inr m \<Longrightarrow> finite (pm_evidence m)" for cs s
    by (induction cs arbitrary: s) (auto split: prod.splits option.splits dest: finite_step)
  moreover from assms(1) have n: "2 \<le> n" "finite (pm_evidence start)"
    by (auto simp: new_monitor_def split: if_splits)
  ultimately have fin: "finite (pm_evidence m)" using assms(2) by blast
  from replay_follows [OF assms(2) new_follows [OF assms(1)]]
  have m: "pm_stall_threshold m = n" "0 \<le> pm_without_progress m" by (auto simp: follows_def)
  have "saved_evidence (JList (map JStr (sorted_list_of_set (pm_evidence m)))) = Inr (pm_evidence m)"
    using fin by (simp add: saved_evidence_def list_all_iff)
  with n m show ?thesis
    by (cases "pm_last_fingerprint m")
      (simp_all add: monitor_from_dict_def monitor_to_dict_def get_def get_default_def py_int_def
        new_monitor_def saved_fingerprint_def saved_count_def)
qed

section \<open>The lines a note stands for\<close>

text \<open>The blocks of a window are those of its lines.\<close>

lemma window_blocks_lines:
  "start \<le> final \<Longrightarrow> set (window_blocks path start (Some final))
     = (\<lambda>line. block_name path ((line - 1) div BLOCK)) ` {start..final}"
proof -
  assume "start \<le> final"
  have "b \<in> (\<lambda>line. (line - 1) div BLOCK) ` {start..final}"
    if "(start - 1) div BLOCK \<le> b" "b \<le> (final - 1) div BLOCK" for b
  proof (rule image_eqI [where x = "max start (b * BLOCK + 1)"])
    show "b = (max start (b * BLOCK + 1) - 1) div BLOCK" using that by (auto simp: BLOCK_def max_def)
    show "max start (b * BLOCK + 1) \<in> {start..final}" using that \<open>start \<le> final\<close> by (auto simp: BLOCK_def)
  qed
  then have "{(start - 1) div BLOCK..(final - 1) div BLOCK} = (\<lambda>line. (line - 1) div BLOCK) ` {start..final}"
    by (auto intro: zdiv_mono1 simp: BLOCK_def)
  with \<open>start \<le> final\<close> show ?thesis by (simp add: window_blocks_def Let_def max_def image_image)
qed

text \<open>How many blocks a window names does not depend on the file.\<close>

lemma window_blocks_length:
  "start \<le> final \<Longrightarrow> length (window_blocks path start (Some final))
     = nat ((final - 1) div BLOCK - (start - 1) div BLOCK + 1)"
  by (simp add: window_blocks_def max_def)

lemma nat_str_digits: "list_all rx_digit (nat_str n)"
proof (induction n rule: nat_str.induct)
  case (1 n)
  have "rx_digit (char_of (48 + k))" if "k < 10" for k :: nat
    using that by (simp add: rx_digit_def Let_def)
  with 1 show ?case by (subst nat_str.simps) auto
qed

lemma nat_str_value: "foldl (\<lambda>a c. 10 * a + (int (of_char c) - 48)) 0 (nat_str n) = int n"
proof (induction n rule: nat_str.induct)
  case (1 n)
  then show ?case by (subst nat_str.simps) (auto simp: of_char_of zdiv_int zmod_int)
qed

lemma nat_str_length: "n < 10 ^ Suc k \<Longrightarrow> length (nat_str n) \<le> Suc k"
proof (induction k arbitrary: n)
  case 0
  then show ?case by (simp add: nat_str.simps [of n])
next
  case (Suc k)
  then have "n div 10 < 10 ^ Suc k" by (simp add: less_mult_imp_div_less)
  from Suc.IH [OF this] show ?case by (simp add: nat_str.simps [of n])
qed

lemma digits_int_nat_str: "n < 10 ^ MAX_DIGITS \<Longrightarrow> digits_int (nat_str n) = Inr (int n)"
proof -
  have "Suc (MAX_DIGITS - 1) = MAX_DIGITS" by (simp add: MAX_DIGITS_def)
  then show "n < 10 ^ MAX_DIGITS \<Longrightarrow> ?thesis"
    using nat_str_length [of n "MAX_DIGITS - 1"] by (simp add: digits_int_def nat_str_value)
qed

text \<open>\<open>sed -n 'a,bp' path\<close>.\<close>

definition window_arg :: "nat \<Rightarrow> nat \<Rightarrow> string" where
  "window_arg a b = nat_str a @ '','' @ nat_str b @ ''p''"

definition window_read :: "nat \<Rightarrow> nat \<Rightarrow> string \<Rightarrow> string" where
  "window_read a b path = shlex_join [''sed'', ''-n'', window_arg a b, path]"

lemma digits_then: "\<not> rx_digit c \<Longrightarrow> takeWhile rx_digit (nat_str n @ c # r) = nat_str n
     \<and> dropWhile rx_digit (nat_str n @ c # r) = c # r"
  using nat_str_digits [of n] by (simp add: list_all_iff takeWhile_append2 dropWhile_append2)

lemma sed_range_window: "sed_range (window_arg a b) = Some (nat_str a, Some (nat_str b))"
  using digits_then [of "CHR '',''" a "nat_str b @ ''p''"] digits_then [of "CHR ''p''" b "[]"]
  by (simp add: sed_range_def window_arg_def rx_digit_def p_ends_def)

lemma window_arg_no_path: "\<not> names_a_path (window_arg a b)"
proof -
  have "\<not> rx_digit CHR ''/''" "\<not> rx_digit CHR ''.''" by (simp_all add: rx_digit_def)
  then have "CHR ''/'' \<notin> set (nat_str n)" "CHR ''.'' \<notin> set (nat_str n)" for n
    using nat_str_digits [of n] by (auto simp: list_all_iff)
  then have "CHR ''/'' \<notin> set (window_arg a b)" "CHR ''.'' \<notin> set (window_arg a b)"
    by (auto simp: window_arg_def)
  then show ?thesis by (auto simp: names_a_path_def contains_def sublist_def)
qed

lemma read_evidence_window:
  assumes "a < 10 ^ MAX_DIGITS" "b < 10 ^ MAX_DIGITS" "names_a_path path"
  shows "read_evidence (window_read a b path) = Inr (window_blocks path (int a) (Some (int b)))"
proof -
  have "path_of_words [''sed'', ''-n'', window_arg a b, path] = Some path"
    using assms(3) window_arg_no_path
    by (simp add: path_of_words_def after_slash_def INSPECTION_BINARIES_def) (simp add: names_a_path_def)
  moreover have "nat_str b \<noteq> ''$''" using nat_str_digits [of b] by (auto simp: rx_digit_def)
  moreover have "sed_range ''-n'' = None" by (simp add: sed_range_def rx_digit_def)
  ultimately show ?thesis
    using assms by (simp add: window_read_def read_evidence_def evidence_of_words_def after_slash_def
        sed_blocks_def List.map_filter_def sed_range_window digits_int_nat_str)
qed

text \<open>
  The evidence of a windowed read grows with the last line it names, not with the file: one entry
  for every hundred lines asked for, all of them built before the command is run.
\<close>

theorem evidence_grows_with_the_address:
  assumes "1 \<le> b" "b < 10 ^ MAX_DIGITS" "names_a_path path"
  shows "\<exists>blocks. read_evidence (window_read 1 b path) = Inr blocks \<and> length blocks = (b - 1) div 100 + 1"
proof -
  have "1 < (10 :: nat) ^ MAX_DIGITS" by (rule one_less_power) (simp_all add: MAX_DIGITS_def)
  from read_evidence_window [OF this assms(2,3)] window_blocks_length [of 1 "int b" path] assms(1)
  show ?thesis by (simp add: BLOCK_def nat_add_distrib nat_div_distrib nat_diff_distrib)
qed

lemma map_of_fold_update:
  "map_of (fold (\<lambda>b. AList.update b v) bs d) x = (if x \<in> set bs then Some v else map_of d x)"
  by (induction bs arbitrary: d) (auto simp: map_of_update)

lemma evidence_note_not_Nil: "evidence_note blocks \<noteq> []"
  by (simp add: evidence_note_def)

text \<open>
  Lines that were never asked for are answered with the note that they are above: it is enough that
  another window into the same hundred lines was asked for before, at the same generation, whatever
  came of that command.
\<close>

theorem unseen_lines_are_called_seen:
  assumes "names_a_path path" "a \<le> b" "x \<le> y" "b < 10 ^ MAX_DIGITS" "y < 10 ^ MAX_DIGITS"
    and "(int a - 1) div BLOCK = (int y - 1) div BLOCK" "(int b - 1) div BLOCK = (int x - 1) div BLOCK"
    and "ec_available c = None"
    and "already_in_evidence c (window_read a b path) = Inr ([], c1)"
  shows "already_in_evidence c1 (window_read x y path)
    = Inr (evidence_note (window_blocks path (int x) (Some (int y))), c1)"
proof -
  let ?blocks = "\<lambda>i j. window_blocks path (int i) (Some (int j))"
  have one: "(int a - 1) div BLOCK = (int x - 1) div BLOCK" "(int a - 1) div BLOCK = (int b - 1) div BLOCK"
    using zdiv_mono1 [of "int a - 1" "int b - 1" BLOCK] zdiv_mono1 [of "int x - 1" "int y - 1" BLOCK] assms(2,3,6,7)
    by (auto simp: BLOCK_def)
  then have same: "?blocks x y = ?blocks a b" "?blocks a b \<noteq> []"
    using assms(2,3,6,7) by (auto simp: window_blocks_def Let_def max_def)
  have ev: "read_evidence (window_read a b path) = Inr (?blocks a b)"
    "read_evidence (window_read x y path) = Inr (?blocks a b)"
    using read_evidence_window assms(1-5) same(1) by (simp_all add: le_less_trans)
  with assms(9) same have c1: "c1 = c\<lparr>ec_regions :=
      fold (\<lambda>b. AList.update b (ec_generation c, ec_call_id c)) (?blocks a b) (ec_regions c)\<rparr>"
    by (auto simp: already_in_evidence_def evidence_note_not_Nil split: if_splits)
  have "list_all (still_shown c1) (?blocks a b)"
    using assms(8) by (auto simp: list_all_iff still_shown_def c1 map_of_fold_update split: option.splits)
  then show ?thesis
    using ev same by (simp add: already_in_evidence_def list_ex_iff list_all_iff)
qed

end
