(* ===== verification/Result_Store.thy ===== *)
theory Result_Store
  imports Spear_Prelude
begin

text \<open>
  The store of tool results that are kept out of the model's context
  (\<open>client/runtime/result_store.py\<close>): a result is named by a digest of its task and its bytes, and
  read back only by its task and only if its bytes still have their digest.

  A file of bytes is a \<open>string\<close>.  A metadata file holds a JSON value, or cannot be read or parsed, or
  is no text in UTF-8, which raises \<open>UnicodeDecodeError\<close>.  \<open>rf_resolve\<close> is where an entry of the directory leads when links are followed:
  the name of an entry, or \<open>None\<close> outside the directory.  \<open>sha\<close> is \<open>hashlib.sha256(\<dots>).hexdigest()\<close>.
\<close>

section \<open>The store\<close>

datatype store_error = ResultStoreError string | KeyError string | UnicodeDecodeError

record result_reference =
  rr_reference :: string
  rr_byte_count :: nat
  rr_sha256 :: string
  rr_task_id :: "string option"

datatype metadata_file = Json json | Not_json | Not_text

record result_files =
  rf_bins :: "(string \<times> string) list"
  rf_records :: "(string \<times> metadata_file) list"
  rf_resolve :: "string \<Rightarrow> string option"

datatype result_content = Text string | Bytes string

text \<open>\<open>str.encode("utf-8")\<close> on the first 256 code points.\<close>

definition utf8_char :: "char \<Rightarrow> string" where
  "utf8_char c = (let n = (of_char c :: nat) in
     if n < 128 then [c] else [char_of (192 + n div 64), char_of (128 + n mod 64)])"

definition utf8 :: "string \<Rightarrow> string" where
  "utf8 s = concat (map utf8_char s)"

fun payload_of :: "result_content \<Rightarrow> string" where
  "payload_of (Text s) = utf8 s"
| "payload_of (Bytes b) = b"

definition reference_ok :: "string \<Rightarrow> bool" where
  "reference_ok s \<longleftrightarrow> prefix ''result_'' s \<and> length s = 71 \<and> list_all hex_digit (drop 7 s)"

text \<open>\<open>_path\<close>: the entry a reference names, for the payload or for the record.\<close>

definition entry_path :: "result_files \<Rightarrow> string \<Rightarrow> string \<Rightarrow> store_error + string" where
  "entry_path f reference extension =
     (if \<not> reference_ok reference then Inl (ResultStoreError ''malformed result reference'')
      else case rf_resolve f (reference @ extension) of
        None \<Rightarrow> Inl (ResultStoreError ''result reference escapes store'')
      | Some name \<Rightarrow> Inr name)"

definition task_key :: "string option \<Rightarrow> string \<Rightarrow> string" where
  "task_key task payload = utf8 (case task of None \<Rightarrow> [] | Some t \<Rightarrow> t) @ [CHR 0x00] @ payload"

definition reference_of :: "(string \<Rightarrow> string) \<Rightarrow> string option \<Rightarrow> string \<Rightarrow> string" where
  "reference_of sha task payload = ''result_'' @ sha (task_key task payload)"

definition task_json :: "string option \<Rightarrow> json" where
  "task_json task = (case task of None \<Rightarrow> JNull | Some t \<Rightarrow> JStr t)"

definition result_record :: "(string \<Rightarrow> string) \<Rightarrow> string option \<Rightarrow> string \<Rightarrow> json_object \<Rightarrow> json_object" where
  "result_record sha task payload metadata =
     [(''schema_version'', JInt 1), (''reference'', JStr (reference_of sha task payload)),
      (''sha256'', JStr (sha payload)), (''byte_count'', JInt (int (length payload))),
      (''task_id'', task_json task), (''metadata'', JObj metadata)]"

text \<open>\<open>put\<close> writes the payload and then the record, each in one step; \<open>put_begun\<close> is where it is in between.\<close>

definition put_begun :: "(string \<Rightarrow> string) \<Rightarrow> string option \<Rightarrow> result_content \<Rightarrow> result_files \<Rightarrow> store_error + result_files" where
  "put_begun sha task content f =
     (let payload = payload_of content in
      bindE (entry_path f (reference_of sha task payload) ''.bin'') (\<lambda>name.
        Inr (f\<lparr>rf_bins := AList.update name payload (rf_bins f)\<rparr>)))"

definition put_result :: "(string \<Rightarrow> string) \<Rightarrow> string option \<Rightarrow> json_object \<Rightarrow> result_content \<Rightarrow> result_files
    \<Rightarrow> store_error + (result_reference \<times> result_files)" where
  "put_result sha task metadata content f =
     (let payload = payload_of content; reference = reference_of sha task payload in
      bindE (put_begun sha task content f) (\<lambda>f1.
      bindE (entry_path f1 reference ''.json'') (\<lambda>name.
        Inr (\<lparr>rr_reference = reference, rr_byte_count = length payload, rr_sha256 = sha payload,
              rr_task_id = task\<rparr>,
             f1\<lparr>rf_records := AList.update name (Json (JObj (result_record sha task payload metadata)))
                  (rf_records f1)\<rparr>))))"

definition result_metadata :: "result_files \<Rightarrow> string \<Rightarrow> store_error + json_object" where
  "result_metadata f reference =
     bindE (entry_path f reference ''.json'') (\<lambda>name.
       case map_of (rf_records f) name of
         None \<Rightarrow> Inl (KeyError reference)
       | Some Not_text \<Rightarrow> Inl UnicodeDecodeError
       | Some (Json (JObj d)) \<Rightarrow>
           if get d ''reference'' \<noteq> JStr reference then Inl (ResultStoreError ''malformed result metadata'') else Inr d
       | Some _ \<Rightarrow> Inl (ResultStoreError ''malformed result metadata''))"

definition get_result :: "(string \<Rightarrow> string) \<Rightarrow> result_files \<Rightarrow> string \<Rightarrow> string option \<Rightarrow> store_error + string" where
  "get_result sha f reference task =
     bindE (result_metadata f reference) (\<lambda>metadata.
       if task \<noteq> None \<and> get metadata ''task_id'' \<notin> {JNull, task_json task}
       then Inl (ResultStoreError ''result reference belongs to another task'')
       else bindE (entry_path f reference ''.bin'') (\<lambda>name.
         case map_of (rf_bins f) name of
           None \<Rightarrow> Inl (KeyError reference)
         | Some payload \<Rightarrow>
             (case map_of metadata ''sha256'' of
                None \<Rightarrow> Inl (KeyError ''sha256'')
              | Some recorded \<Rightarrow>
                  if JStr (sha payload) \<noteq> recorded then Inl (ResultStoreError ''stored result checksum mismatch'')
                  else Inr payload)))"

definition result_exists :: "result_files \<Rightarrow> string \<Rightarrow> bool" where
  "result_exists f reference =
     (case (entry_path f reference ''.bin'', entry_path f reference ''.json'') of
        (Inr b, Inr r) \<Rightarrow> has_key (rf_bins f) b \<and> has_key (rf_records f) r
      | _ \<Rightarrow> False)"

section \<open>What happens to a store\<close>

text \<open>
  Results are put, by any task; a process dies between the two writes of a \<open>put\<close>; and the bytes of an
  entry are changed or lost behind the store's back.
\<close>

datatype store_event =
    Put "string option" json_object result_content
  | Put_dies "string option" result_content
  | Bytes_change string string
  | Bytes_lost string

definition store_step :: "(string \<Rightarrow> string) \<Rightarrow> store_event \<Rightarrow> result_files \<Rightarrow> store_error option \<times> result_files" where
  "store_step sha e f =
     (case e of
        Put task metadata content \<Rightarrow>
          (case put_begun sha task content f of
             Inl x \<Rightarrow> (Some x, f)
           | Inr f1 \<Rightarrow> commit f1 (map_sum id snd (put_result sha task metadata content f)))
      | Put_dies task content \<Rightarrow> commit f (put_begun sha task content f)
      | Bytes_change name bytes \<Rightarrow> (None, f\<lparr>rf_bins := AList.update name bytes (rf_bins f)\<rparr>)
      | Bytes_lost name \<Rightarrow> (None, f\<lparr>rf_bins := AList.delete name (rf_bins f)\<rparr>))"

definition harmless :: "store_event \<Rightarrow> bool" where
  "harmless e = (case e of Bytes_change _ _ \<Rightarrow> False | Bytes_lost _ \<Rightarrow> False | _ \<Rightarrow> True)"

text \<open>Each entry of the directory is a file of its own.\<close>

definition plain_store :: "result_files \<Rightarrow> bool" where
  "plain_store f \<longleftrightarrow> rf_resolve f = Some"

text \<open>A task named as tasks are: not by the empty text, and without the separator.\<close>

definition task_named :: "string option \<Rightarrow> bool" where
  "task_named task = (case task of None \<Rightarrow> True | Some t \<Rightarrow> t \<noteq> [] \<and> CHR 0x00 \<notin> set t)"

definition written_by :: "store_event \<Rightarrow> (string option \<times> string) option" where
  "written_by e = (case e of Put task _ content \<Rightarrow> Some (task, payload_of content)
     | Put_dies task content \<Rightarrow> Some (task, payload_of content) | _ \<Rightarrow> None)"

text \<open>The task of a put, if the event is one, is named so.\<close>

definition puts_named :: "store_event \<Rightarrow> bool" where
  "puts_named e = (case written_by e of Some (t, _) \<Rightarrow> task_named t | None \<Rightarrow> True)"

text \<open>The digest is sixty-four hexadecimal digits, and none of the events gives it a collision with the entry.\<close>

definition sha_shape :: "(string \<Rightarrow> string) \<Rightarrow> bool" where
  "sha_shape sha \<longleftrightarrow> (\<forall>x. length (sha x) = 64 \<and> list_all hex_digit (sha x))"

definition no_collision :: "(string \<Rightarrow> string) \<Rightarrow> string option \<Rightarrow> string \<Rightarrow> store_event \<Rightarrow> bool" where
  "no_collision sha task payload e =
     (case e of
        Bytes_change _ bytes \<Rightarrow> sha bytes = sha payload \<longrightarrow> bytes = payload
      | Bytes_lost _ \<Rightarrow> True
      | _ \<Rightarrow> (case written_by e of
                Some (t, p) \<Rightarrow> sha (task_key t p) = sha (task_key task payload) \<longrightarrow> task_key t p = task_key task payload
              | None \<Rightarrow> True))"

section \<open>References tell results apart\<close>

lemma utf8_char_bytes:
  "map of_char (utf8_char c) = (let n = (of_char c :: nat) in if n < 128 then [n] else [192 + n div 64, 128 + n mod 64])"
proof -
  have "(of_char c :: nat) < 4 * 64" by simp
  then have "(of_char c :: nat) div 64 < 4" by (rule less_mult_imp_div_less)
  then have "192 + (of_char c :: nat) div 64 < 256" "128 + (of_char c :: nat) mod 64 < 256" by auto
  then show ?thesis by (simp add: utf8_char_def Let_def)
qed

lemma utf8_char_prefix: "utf8_char c @ xs = utf8_char d @ ys \<Longrightarrow> c = d \<and> xs = ys"
proof -
  let ?m = "of_char c :: nat" and ?n = "of_char d :: nat"
  assume eq: "utf8_char c @ xs = utf8_char d @ ys"
  then have "map of_char (utf8_char c) @ map of_char xs = map (of_char :: char \<Rightarrow> nat) (utf8_char d) @ map of_char ys"
    by (metis map_append)
  then have "?m = ?n"
    unfolding utf8_char_bytes Let_def by (auto split: if_splits simp del: of_char_eq_iff) (metis div_mult_mod_eq)
  then have "c = d" by simp
  with eq show ?thesis by simp
qed

lemma utf8_char_not_Nil: "utf8_char c \<noteq> []"
  by (simp add: utf8_char_def Let_def)

lemma utf8_inject: "utf8 s = utf8 t \<Longrightarrow> s = t"
  unfolding utf8_def
proof (induction s arbitrary: t)
  case Nil
  then show ?case by (cases t) (simp_all add: utf8_char_not_Nil)
next
  case (Cons c s)
  then show ?case by (cases t) (auto simp: utf8_char_not_Nil dest!: utf8_char_prefix)
qed

lemma utf8_no_separator: "CHR 0x00 \<notin> set t \<Longrightarrow> CHR 0x00 \<notin> set (utf8 t)"
proof -
  have "CHR 0x00 \<notin> set (utf8_char c)" if "c \<noteq> CHR 0x00" for c
  proof
    assume "CHR 0x00 \<in> set (utf8_char c)"
    then have "0 \<in> set (map (of_char :: char \<Rightarrow> nat) (utf8_char c))" by force
    then have "(of_char c :: nat) = of_char CHR 0x00" unfolding utf8_char_bytes Let_def by (auto split: if_splits)
    with that show False by (simp only: of_char_eq_iff)
  qed
  note free = this
  show "CHR 0x00 \<notin> set t \<Longrightarrow> ?thesis"
  proof (induction t)
    case (Cons c t)
    then show ?case using free [of c] by (auto simp: utf8_def)
  qed (simp add: utf8_def)
qed

lemma append_separator:
  "c \<notin> set xs \<Longrightarrow> c \<notin> set ys \<Longrightarrow> xs @ c # p = ys @ c # q \<Longrightarrow> xs = ys \<and> p = q"
  by (induction xs arbitrary: ys) (case_tac ys; auto)+

lemma task_key_inject:
  "task_named t \<Longrightarrow> task_named u \<Longrightarrow> task_key t p = task_key u q \<Longrightarrow> t = u \<and> p = q"
proof -
  assume named: "task_named t" "task_named u" and eq: "task_key t p = task_key u q"
  let ?n = "\<lambda>t. case t of None \<Rightarrow> [] | Some s \<Rightarrow> s"
  have "CHR 0x00 \<notin> set (utf8 (?n t))" "CHR 0x00 \<notin> set (utf8 (?n u))"
    using named by (auto simp: task_named_def intro!: utf8_no_separator split: option.splits)
  from append_separator [OF this] eq have "utf8 (?n t) = utf8 (?n u)" "p = q" by (simp_all add: task_key_def)
  with named show ?thesis by (auto simp: task_named_def dest!: utf8_inject split: option.splits)
qed

lemma reference_ok_of: "sha_shape sha \<Longrightarrow> reference_ok (reference_of sha t p)"
  by (simp add: reference_ok_def reference_of_def sha_shape_def)

lemma entry_path_plain:
  "plain_store f \<Longrightarrow> reference_ok r \<Longrightarrow> entry_path f r extension = Inr (r @ extension)"
  by (simp add: entry_path_def plain_store_def)

section \<open>An entry and what it keeps\<close>

definition keeps :: "(string \<Rightarrow> string) \<Rightarrow> string option \<Rightarrow> string \<Rightarrow> result_files \<Rightarrow> bool" where
  "keeps sha task payload f \<longleftrightarrow> plain_store f
     \<and> (\<exists>md. map_of (rf_records f) (reference_of sha task payload @ ''.json'')
          = Some (Json (JObj (result_record sha task payload md))))
     \<and> (\<forall>q. map_of (rf_bins f) (reference_of sha task payload @ ''.bin'') = Some q \<longrightarrow>
          sha q = sha payload \<longrightarrow> q = payload)"

definition holds :: "(string \<Rightarrow> string) \<Rightarrow> string option \<Rightarrow> string \<Rightarrow> result_files \<Rightarrow> bool" where
  "holds sha task payload f \<longleftrightarrow> keeps sha task payload f
     \<and> map_of (rf_bins f) (reference_of sha task payload @ ''.bin'') = Some payload"

lemma put_begun_plain:
  "sha_shape sha \<Longrightarrow> plain_store f \<Longrightarrow> put_begun sha t c f
     = Inr (f\<lparr>rf_bins := AList.update (reference_of sha t (payload_of c) @ ''.bin'') (payload_of c) (rf_bins f)\<rparr>)"
  by (simp add: put_begun_def Let_def entry_path_plain reference_ok_of)

lemma put_result_plain:
  assumes "sha_shape sha" "plain_store f"
  shows "put_result sha t md c f = Inr
     (\<lparr>rr_reference = reference_of sha t (payload_of c), rr_byte_count = length (payload_of c),
       rr_sha256 = sha (payload_of c), rr_task_id = t\<rparr>,
      f\<lparr>rf_bins := AList.update (reference_of sha t (payload_of c) @ ''.bin'') (payload_of c) (rf_bins f),
        rf_records := AList.update (reference_of sha t (payload_of c) @ ''.json'')
          (Json (JObj (result_record sha t (payload_of c) md))) (rf_records f)\<rparr>)"
  using assms entry_path_plain [of "f\<lparr>rf_bins := b\<rparr>" for b]
  by (simp add: put_result_def Let_def put_begun_plain reference_ok_of plain_store_def)

lemma same_reference:
  assumes "task_named task" "no_collision sha task payload e \<and> puts_named e" "written_by e = Some (t, p)"
    and "reference_of sha t p = reference_of sha task payload"
  shows "t = task \<and> p = payload"
  using assms by (cases e) (auto simp: no_collision_def puts_named_def written_by_def reference_of_def dest: task_key_inject)

lemma plain_update [simp]:
  "plain_store (f\<lparr>rf_bins := b\<rparr>) = plain_store f" "plain_store (f\<lparr>rf_records := r\<rparr>) = plain_store f"
  by (simp_all add: plain_store_def)

lemma step_keeps:
  assumes sha: "sha_shape sha" and task: "task_named task"
    and e: "no_collision sha task payload e \<and> puts_named e" and k: "keeps sha task payload f"
  shows "keeps sha task payload (snd (store_step sha e f))"
proof -
  from k have plain: "plain_store f" by (simp add: keeps_def)
  note same = same_reference [OF task e]
  show ?thesis
  proof (cases e)
    case (Put t md c)
    show ?thesis
    proof (cases "reference_of sha t (payload_of c) = reference_of sha task payload")
      case True
      with same [of t "payload_of c"] Put have "t = task" "payload_of c = payload" by (simp_all add: written_by_def)
      with Put plain show ?thesis
        by (auto simp: store_step_def put_begun_plain put_result_plain sha commit_def keeps_def map_of_update)
    next
      case False
      with Put k plain show ?thesis
        by (simp add: store_step_def put_begun_plain put_result_plain sha commit_def keeps_def map_of_update)
    qed
  next
    case (Put_dies t c)
    show ?thesis
    proof (cases "reference_of sha t (payload_of c) = reference_of sha task payload")
      case True
      with same [of t "payload_of c"] Put_dies have "t = task" "payload_of c = payload" by (simp_all add: written_by_def)
      with Put_dies plain k show ?thesis
        by (simp add: store_step_def put_begun_plain sha commit_def keeps_def map_of_update)
    next
      case False
      with Put_dies k plain show ?thesis
        by (simp add: store_step_def put_begun_plain sha commit_def keeps_def map_of_update)
    qed
  next
    case (Bytes_change name bytes)
    then show ?thesis using k e by (auto simp: store_step_def keeps_def no_collision_def map_of_update)
  next
    case (Bytes_lost name)
    then show ?thesis using k by (auto simp: store_step_def keeps_def delete_conv')
  qed
qed

lemma step_holds:
  assumes sha: "sha_shape sha" and task: "task_named task"
    and e: "(no_collision sha task payload e \<and> puts_named e) \<and> harmless e" and h: "holds sha task payload f"
  shows "holds sha task payload (snd (store_step sha e f))"
proof -
  from h have k: "keeps sha task payload f" and plain: "plain_store f" by (simp_all add: holds_def keeps_def)
  have "map_of (rf_bins (snd (store_step sha e f))) (reference_of sha task payload @ ''.bin'') = Some payload"
    using h e same_reference [OF task, of sha payload e]
    by (cases e) (auto simp: store_step_def put_begun_plain put_result_plain sha plain commit_def holds_def
        written_by_def harmless_def map_of_update)
  with step_keeps [OF sha task _ k] e show ?thesis by (simp add: holds_def)
qed

text \<open>Both are kept by every sequence of events that the contract of an object with raising methods covers.\<close>

lemma run_keeps:
  assumes "sha_shape sha" "task_named task"
  shows "robust_object (store_step sha) (\<lambda>e. no_collision sha task payload e \<and> puts_named e) (keeps sha task payload)"
    "robust_object (store_step sha) (\<lambda>e. (no_collision sha task payload e \<and> puts_named e) \<and> harmless e) (holds sha task payload)"
  using step_keeps [OF assms] step_holds [OF assms] by (simp_all add: robust_object_def)

lemma read_kept:
  assumes "sha_shape sha" "keeps sha task payload f"
    and "get_result sha f (reference_of sha task payload) reader = Inr q"
  shows "q = payload \<and> (task = None \<or> reader = None \<or> reader = task)"
  using assms
  by (auto simp: get_result_def result_metadata_def keeps_def raise_simps entry_path_plain reference_ok_of
      result_record_def get_def task_json_def split: option.splits if_splits)

lemma read_held:
  assumes "sha_shape sha" "holds sha task payload f" "task = None \<or> reader = None \<or> reader = task"
  shows "get_result sha f (reference_of sha task payload) reader = Inr payload"
  using assms
  by (auto simp: get_result_def result_metadata_def holds_def keeps_def entry_path_plain reference_ok_of
      result_record_def get_def task_json_def)

section \<open>What is read is what was stored\<close>

text \<open>
  C30: A result is put, and after it results of any tasks whose names, like its own, are not empty and
  hold no NUL character (or of no task), with deaths in the middle of a put and changes and losses of stored
  bytes; the digest collides with none of them.  Then the reference is read as the result it
  was given for or not at all, and by a reader of that task, or one that names none, or by any if
  it belongs to no task; as long as nobody else touches the bytes, these readers do get it.
\<close>

theorem stored_result_is_read_back:
  assumes "sha_shape sha" "plain_store f" "task_named task"
    and "put_result sha task metadata content f = Inr (r, f1)"
    and "list_all (no_collision sha task (payload_of content)) events" "list_all puts_named events"
  defines "now \<equiv> run_all (store_step sha) events f1"
  shows "(\<forall>q. get_result sha now (rr_reference r) reader = Inr q \<longrightarrow>
            q = payload_of content \<and> (task = None \<or> reader = None \<or> reader = task))
    \<and> (list_all harmless events \<and> (task = None \<or> reader = None \<or> reader = task) \<longrightarrow>
        get_result sha now (rr_reference r) reader = Inr (payload_of content))"
proof -
  let ?p = "payload_of content"
  from assms(4) have r: "rr_reference r = reference_of sha task ?p" and start: "holds sha task ?p f1"
    using assms(2) by (auto simp: put_result_plain assms(1,2) holds_def keeps_def map_of_update)
  have "keeps sha task ?p now"
    unfolding now_def using start assms(5,6)
    by (intro robust_object.run_all_inv [OF run_keeps(1) [OF assms(1,3)]]) (auto simp: holds_def list_all_iff)
  moreover have "list_all harmless events \<Longrightarrow> holds sha task ?p now"
    unfolding now_def using start assms(5,6)
    by (intro robust_object.run_all_inv [OF run_keeps(2) [OF assms(1,3)]]) (auto simp: list_all_iff)
  ultimately show ?thesis
    unfolding r using read_kept [OF assms(1)] read_held [OF assms(1)] by blast
qed

definition demo_sha :: "string \<Rightarrow> string" where
  "demo_sha s = (if s = ''ok'' then replicate 64 CHR ''a''
     else if prefix ''one'' s then replicate 64 CHR ''b'' else if prefix ''two'' s then replicate 64 CHR ''c''
     else replicate 64 CHR ''0'')"

theorem stored_result_is_read_back_witness:
  "\<exists>r f1. put_result demo_sha (Some ''one'') [] (Text ''ok'') \<lparr>rf_bins = [], rf_records = [], rf_resolve = Some\<rparr> = Inr (r, f1)
     \<and> get_result demo_sha (run_all (store_step demo_sha) [Put (Some ''two'') [] (Text ''ok''), Put_dies (Some ''one'') (Text ''ok'')] f1)
         (rr_reference r) (Some ''one'') = Inr ''ok''
     \<and> (\<forall>q. get_result demo_sha (run_all (store_step demo_sha) [Bytes_change (rr_reference r @ ''.bin'') ''no''] f1)
         (rr_reference r) (Some ''one'') = Inr q \<longrightarrow> q = ''ok'')"
proof -
  let ?f = "\<lparr>rf_bins = [], rf_records = [], rf_resolve = Some\<rparr>"
  have sha: "sha_shape demo_sha" by (auto simp: sha_shape_def demo_sha_def list_all_iff hex_digit_def ascii_digit_def)
  have plain: "plain_store ?f" by (simp add: plain_store_def)
  have named: "task_named (Some ''one'')" by (simp add: task_named_def)
  obtain r f1 where put: "put_result demo_sha (Some ''one'') [] (Text ''ok'') ?f = Inr (r, f1)"
    using put_result_plain [OF sha plain] by blast
  have ok: "payload_of (Text ''ok'') = ''ok''" by (simp add: utf8_def utf8_char_def)
  have keys: "task_key (Some ''one'') ''ok'' = ''one'' @ CHR 0x00 # ''ok''" "task_key (Some ''two'') ''ok'' = ''two'' @ CHR 0x00 # ''ok''"
    by (simp_all add: task_key_def utf8_def utf8_char_def)
  have a: "list_all (no_collision demo_sha (Some ''one'') (payload_of (Text ''ok'')))
      [Put (Some ''two'') [] (Text ''ok''), Put_dies (Some ''one'') (Text ''ok'')]"
    unfolding ok by (simp add: no_collision_def written_by_def ok keys demo_sha_def del: payload_of.simps)
  have b: "list_all (no_collision demo_sha (Some ''one'') (payload_of (Text ''ok''))) [Bytes_change (rr_reference r @ ''.bin'') ''no'']"
    unfolding ok by (simp add: no_collision_def demo_sha_def)
  have names: "list_all puts_named [Put (Some ''two'') [] (Text ''ok''), Put_dies (Some ''one'') (Text ''ok'')]"
    "list_all puts_named [Bytes_change (rr_reference r @ ''.bin'') ''no'']"
    by (simp_all add: puts_named_def written_by_def task_named_def)
  from stored_result_is_read_back [OF sha plain named put a names(1), of "Some ''one''"]
    stored_result_is_read_back [OF sha plain named put b names(2), of "Some ''one''"] put
  show ?thesis unfolding ok by (auto simp: harmless_def)
qed

text \<open>
  A result of no task and a result of the task with the empty name have one reference: the second
  takes the first over, and a reader for whom the first was open is refused.
\<close>

theorem unnamed_task_takes_over:
  assumes "sha_shape sha" "plain_store f" "t \<noteq> []"
    and "put_result sha None md c f = Inr (r, f1)" "put_result sha (Some []) md c f1 = Inr (r', f2)"
  shows "rr_reference r' = rr_reference r \<and> get_result sha f1 (rr_reference r) (Some t) = Inr (payload_of c)
    \<and> get_result sha f2 (rr_reference r) (Some t) = Inl (ResultStoreError ''result reference belongs to another task'')"
proof -
  have one: "reference_of sha (Some []) p = reference_of sha None p" for p
    by (simp add: reference_of_def task_key_def)
  from assms(4) have r: "rr_reference r = reference_of sha None (payload_of c)" and f1: "holds sha None (payload_of c) f1"
    using assms(2) by (auto simp: put_result_plain assms(1,2) holds_def keeps_def map_of_update)
  then have "plain_store f1" by (simp add: holds_def keeps_def)
  with assms(5) have r': "rr_reference r' = rr_reference r" "plain_store f2"
    and f2: "map_of (rf_records f2) (rr_reference r @ ''.json'')
      = Some (Json (JObj (result_record sha (Some []) (payload_of c) md)))"
    by (auto simp: r put_result_plain one assms(1) map_of_update)
  then have "get_result sha f2 (rr_reference r) (Some t) = Inl (ResultStoreError ''result reference belongs to another task'')"
    using assms(3) by (simp add: get_result_def result_metadata_def r entry_path_plain reference_ok_of assms(1)
        result_record_def one get_def task_json_def)
  with r' read_held [OF assms(1) f1] show ?thesis by (simp add: r)
qed

end
