(* ===== verification/Requirement_Set.thy ===== *)
theory Requirement_Set
  imports Text_Patterns "HOL-Library.Product_Lexorder"
begin

text \<open>
  The requirements one grounded turn hands to the next (\<open>client/normative/requirement_set.py\<close>): which
  provisions are carried, how a citation is resolved to one of them, and what became of each.

  A pattern compiled with \<open>re.I\<close> is written in lower case and searched in the lower-cased text.  A
  provision record of the evidence ledger is what \<open>publish\<close> reads of it: its printed key, its
  section, the unit that carried it, its text, and its effective force, \<open>None\<close> when reading the
  property raised.  Serialisation and the table of a review are left out.
\<close>

section \<open>Patterns\<close>

primrec upto :: "nat \<Rightarrow> rx \<Rightarrow> rx" where
  "upto 0 r = Eps"
| "upto (Suc n) r = opt (Seq r (upto n r))"

definition digit :: rx where
  "digit = Cls rx_digit"

definition letter :: rx where
  "letter = Cls (\<lambda>c. CHR ''A'' \<le> c \<and> c \<le> CHR ''Z'' \<or> CHR ''a'' \<le> c \<and> c \<le> CHR ''z'')"

definition word_or_dash :: rx where
  "word_or_dash = Cls (\<lambda>c. rx_word c \<or> c = CHR ''-'')"

text \<open>\<open>r.search(s).group(0)\<close>.\<close>

definition found_first :: "rx \<Rightarrow> string \<Rightarrow> string option" where
  "found_first r s = (case findall r s of [] \<Rightarrow> None | m # _ \<Rightarrow> Some m)"

definition CITED_rx :: rx where
  "CITED_rx =
    seqs [alts [seqs [Wordb, alts [lit ''rule'', lit ''observation'', lit ''recommendation'',
     lit ''permission'', lit ''definition'', lit ''requirement'', lit ''table'', lit ''figure'',
     lit ''section'', lit ''clause''], Star space], seqs [ch (CHR 0xA7), Star space]],
     seqs [plus (digit), Star (seqs [ch CHR ''.'', plus (digit)]), opt (seqs [ch CHR ''-'',
     plus (digit)])]]"

definition HANDLE_rx :: rx where
  "HANDLE_rx =
    (let low = Cls (\<lambda>c. CHR ''a'' \<le> c \<and> c \<le> CHR ''z''); hex = Cls hex_digit in
     seqs ([Wordb, low, low, opt (Seq low (opt low)), ch CHR ''-''] @ replicate 8 hex @ [Star hex, Wordb]))"

definition BARE_rx :: rx where
  "BARE_rx =
    seqs [Wordb, seqs [plus (digit), plus (seqs [ch CHR ''.'', plus (digit)]),
     opt (seqs [ch CHR ''-'', plus (digit)])], Wordb]"

definition TRIGGER_rx :: rx where
  "TRIGGER_rx =
    seqs [Wordb, alts [lit ''when'', lit ''whenever'', lit ''after'', lit ''before'',
     seqs [lit ''prior'', plus space, lit ''to''], lit ''upon'', lit ''once'', lit ''while'',
     lit ''during'', lit ''if'', lit ''unless'', seqs [lit ''in'', plus space, lit ''response'',
     plus space, lit ''to''], seqs [lit ''as'', plus space, ch CHR ''a'', plus space,
     lit ''result'', plus space, lit ''of''], lit ''following''], Wordb,
     upto 200 (Cls (\<lambda>c. \<not> (c \<in> {CHR ''.'', CHR '';''})))]"

definition FAMILY_rx :: rx where
  "FAMILY_rx =
    seqs [Wordb, letter, alts [seqs [seqs [word_or_dash, upto 30 (word_or_dash)], Wordb,
     plus (seqs [Star space, ch CHR '','', Star space, Wordb, letter, seqs [word_or_dash,
     upto 30 (word_or_dash)], Wordb]), Star space, opt (ch CHR '',''), plus space,
     alts [lit ''or'', lit ''and''], plus space, Wordb, letter, seqs [word_or_dash,
     upto 30 (word_or_dash)], Wordb], seqs [seqs [word_or_dash, upto 30 (word_or_dash)], Wordb,
     Star space, ch CHR '','', Star space, Wordb, letter, seqs [word_or_dash,
     upto 30 (word_or_dash)], Wordb, Star space, ch CHR '','', Star space, Wordb, letter,
     seqs [word_or_dash, upto 30 (word_or_dash)], Wordb]]]"

definition MEMBER_rx :: rx where
  "MEMBER_rx =
    seqs [Wordb, letter, seqs [word_or_dash, upto 30 (word_or_dash)], Wordb]"

definition REFERS_BACK_rx :: rx where
  "REFERS_BACK_rx =
    seqs [Wordb, alts [seqs [alts [lit ''with'', lit ''to'', lit ''against'', lit ''for'',
     lit ''per'', lit ''following'', lit ''using''], plus space, alts [lit ''this'', lit ''that'',
     lit ''these'', lit ''those'', lit ''it''], Wordb], seqs [lit ''th'', alts [lit ''is'',
     lit ''at'', lit ''ese'', lit ''ose''], plus space, alts [lit ''requirement'',
     lit ''requirements'', lit ''rule'', lit ''rules'', lit ''clause'', lit ''clauses'',
     lit ''provision'', lit ''provisions'', lit ''spec'', lit ''specification'', lit ''standard'',
     lit ''answer'', lit ''finding'', lit ''findings'', lit ''analysis''], Wordb],
     seqs [alts [lit ''implement'', lit ''apply'', lit ''do'', lit ''make'', lit ''bring''],
     plus space, alts [lit ''it'', lit ''this'', lit ''that'', lit ''these'', lit ''those''],
     Wordb], seqs [lit ''comply'', plus space, lit ''with'', plus space, alts [lit ''this'',
     lit ''that'', lit ''these'', lit ''those'', lit ''it''], Wordb], seqs [alts [lit ''as'',
     lit ''like''], plus space, alts [lit ''described'', lit ''stated'', lit ''explained'',
     lit ''said''], plus space, lit ''above'', Wordb], seqs [opt (seqs [lit ''the'', plus space]),
     lit ''above'', Wordb]]]"

section \<open>What a text names\<close>

text \<open>The group of \<open>_CITED\<close> starts at the first digit of the match.\<close>

definition citations_in :: "string \<Rightarrow> string set" where
  "citations_in text = set (map (dropWhile (\<lambda>c. \<not> rx_digit c)) (findall CITED_rx (lower text)))"

definition trigger_of :: "string \<Rightarrow> string" where
  "trigger_of text =
     (let low = lower text in
      case finds TRIGGER_rx low 0 of
        [] \<Rightarrow> []
      | (i, j) # _ \<Rightarrow> take 200 (squeeze (slice text i j)))"

definition NOT_A_MEMBER :: "string list" where
  "NOT_A_MEMBER =
     [''the'', ''a'', ''an'', ''and'', ''or'', ''of'', ''to'', ''in'', ''for'', ''with'', ''by'',
      ''is'', ''are'', ''be'', ''shall'', ''should'', ''may'', ''must'', ''will'', ''not'',
      ''one'', ''each'', ''any'', ''all'', ''more'', ''than'', ''when'', ''that'', ''this'',
      ''packet'', ''packets'', ''bit'', ''bits'', ''field'', ''fields'', ''set'', ''sent'']"

definition family_of :: "string \<Rightarrow> string list" where
  "family_of text =
     (case found_first FAMILY_rx text of
        None \<Rightarrow> []
      | Some found \<Rightarrow>
          (let members = dedup (filter (\<lambda>t. lower t \<notin> set NOT_A_MEMBER) (findall MEMBER_rx found)) in
           if 1 < length members then members else []))"

section \<open>Requirements\<close>

datatype disposition = SATISFIED_ALREADY | CHANGE_PLANNED | CODE_CHANGED_AWAITING_VALIDATION
  | CHANGE_IMPLEMENTED | EXPLICITLY_OUT_OF_SCOPE | UNDETERMINED

definition UNFINISHED :: "disposition list" where
  "UNFINISHED = [CHANGE_PLANNED, CODE_CHANGED_AWAITING_VALIDATION, UNDETERMINED]"

definition STATED :: "disposition list" where
  "STATED = [SATISFIED_ALREADY, CHANGE_PLANNED, EXPLICITLY_OUT_OF_SCOPE, UNDETERMINED]"

fun disposition_value :: "disposition \<Rightarrow> string" where
  "disposition_value SATISFIED_ALREADY = ''satisfied_already''"
| "disposition_value CHANGE_PLANNED = ''change_planned''"
| "disposition_value CODE_CHANGED_AWAITING_VALIDATION = ''code_changed_awaiting_validation''"
| "disposition_value CHANGE_IMPLEMENTED = ''change_implemented''"
| "disposition_value EXPLICITLY_OUT_OF_SCOPE = ''explicitly_out_of_scope''"
| "disposition_value UNDETERMINED = ''undetermined''"

definition CARRY_LIMIT :: nat where
  "CARRY_LIMIT = 12"

datatype said_by = By_model | By_harness

record disposal =
  di_disposition :: disposition
  di_note :: string
  di_by :: said_by

record requirement =
  rq_key :: string
  rq_section :: string
  rq_source_id :: string
  rq_force :: string
  rq_statement :: string
  rq_members :: "string list"
  rq_trigger :: string
  rq_origin :: string
  rq_disposition :: disposition
  rq_note :: string
  rq_stated :: bool
  rq_history :: "disposal list"

definition rq_required :: "requirement \<Rightarrow> bool" where
  "rq_required r \<longleftrightarrow> \<not> prefix ''retrieved,'' (rq_origin r)"

definition rq_open :: "requirement \<Rightarrow> bool" where
  "rq_open r \<longleftrightarrow> rq_required r \<and> rq_disposition r \<in> set UNFINISHED"

record requirement_set =
  rs_items :: "requirement list"
  rs_origin :: string

definition empty_requirements :: requirement_set where
  "empty_requirements = \<lparr>rs_items = [], rs_origin = []\<rparr>"

definition required_items :: "requirement_set \<Rightarrow> requirement list" where
  "required_items rs = filter rq_required (rs_items rs)"

definition open_items :: "requirement_set \<Rightarrow> requirement list" where
  "open_items rs = filter rq_open (rs_items rs)"

definition excluded_items :: "requirement_set \<Rightarrow> requirement list" where
  "excluded_items rs = filter (\<lambda>r. \<not> rq_required r) (rs_items rs)"

definition unstated_items :: "requirement_set \<Rightarrow> requirement list" where
  "unstated_items rs = filter (\<lambda>r. rq_required r \<and> \<not> rq_stated r) (rs_items rs)"

text \<open>The position of the first item a test accepts; the code keeps the item and looks it up again.\<close>

definition position :: "(requirement \<Rightarrow> bool) \<Rightarrow> requirement list \<Rightarrow> nat option" where
  "position p rs = find (\<lambda>i. p (rs ! i)) [0..<length rs]"

definition get_at :: "requirement_set \<Rightarrow> string \<Rightarrow> nat option" where
  "get_at rs key = (let wanted = lower (strip key) in position (\<lambda>r. lower (rq_key r) = wanted) (rs_items rs))"

text \<open>\<open>key.lower().split()[-1]\<close>, for keys, which are never blank, and what stands before the last dash.\<close>

definition bare_key :: "requirement \<Rightarrow> string" where
  "bare_key r = (let ws = words (lower (rq_key r)) in if ws = [] then [] else last ws)"

definition before_dash :: "string \<Rightarrow> string" where
  "before_dash s =
     (if CHR ''-'' \<in> set s then rev (tl (dropWhile (\<lambda>c. c \<noteq> CHR ''-'') (rev s))) else s)"

fun first_some :: "'a option list \<Rightarrow> 'a option" where
  "first_some [] = None"
| "first_some (Some x # xs) = Some x"
| "first_some (None # xs) = first_some xs"

definition wanted_in :: "string \<Rightarrow> string set" where
  "wanted_in citation = citations_in citation \<union> set (map lower (findall BARE_rx citation))"

definition handles_in :: "string \<Rightarrow> string set" where
  "handles_in citation = set (map lower (findall HANDLE_rx citation))"

definition match_at :: "requirement_set \<Rightarrow> string \<Rightarrow> nat option" where
  "match_at rs citation =
     (let items = rs_items rs; wanted = wanted_in citation; handles = handles_in citation in
      first_some
        ([position (\<lambda>r. rq_source_id r \<noteq> [] \<and> lower (rq_source_id r) \<in> handles) items] @
         (if wanted = {} then []
          else [position (\<lambda>r. lower (rq_key r) \<in> wanted) items,
                position (\<lambda>r. bare_key r \<noteq> [] \<and> bare_key r \<in> wanted
                            \<or> rq_section r \<noteq> [] \<and> lower (rq_section r) \<in> wanted) items,
                position (\<lambda>r. before_dash (bare_key r) \<noteq> [] \<and> before_dash (bare_key r) \<in> wanted
                            \<or> rq_section r \<noteq> [] \<and> lower (rq_section r) \<in> wanted) items,
                position (\<lambda>r. let under = (if rq_section r \<noteq> [] then lower (rq_section r) else before_dash (bare_key r))
                            in under \<noteq> [] \<and> (\<exists>c \<in> wanted. prefix (c @ ''.'') under)) items])))"

definition get_requirement :: "requirement_set \<Rightarrow> string \<Rightarrow> requirement option" where
  "get_requirement rs key = map_option (nth (rs_items rs)) (get_at rs key)"

definition match_requirement :: "requirement_set \<Rightarrow> string \<Rightarrow> requirement option" where
  "match_requirement rs citation = map_option (nth (rs_items rs)) (match_at rs citation)"

text \<open>\<open>items.index(found)\<close> is the first item equal to the one found.\<close>

definition disposed :: "disposition \<Rightarrow> string \<Rightarrow> said_by \<Rightarrow> requirement \<Rightarrow> requirement" where
  "disposed d note by r =
     r\<lparr>rq_disposition := d, rq_note := (if note \<noteq> [] then note else rq_note r), rq_stated := True,
       rq_history := rq_history r @ [\<lparr>di_disposition = d, di_note = take 200 note, di_by = by\<rparr>]\<rparr>"

definition dispose :: "string \<Rightarrow> disposition \<Rightarrow> string \<Rightarrow> said_by \<Rightarrow> requirement_set \<Rightarrow> requirement_set" where
  "dispose key d note by rs =
     (case first_some [get_at rs key, match_at rs key] of
        None \<Rightarrow> rs
      | Some i \<Rightarrow>
          (case position (\<lambda>r. r = rs_items rs ! i) (rs_items rs) of
             None \<Rightarrow> rs
           | Some j \<Rightarrow> rs\<lparr>rs_items := (rs_items rs)[j := disposed d note by (rs_items rs ! i)]\<rparr>))"

section \<open>What a turn hands on\<close>

record carried_record =
  er_key :: string
  er_section :: string
  er_source_id :: string
  er_text :: string
  er_force :: "int option"

definition REQUIREMENT_FORCE :: int where
  "REQUIREMENT_FORCE = 3"

definition requirement_of :: "carried_record \<Rightarrow> requirement" where
  "requirement_of e =
     (let text = squeeze (er_text e) in
      \<lparr>rq_key = er_key e, rq_section = er_section e, rq_source_id = er_source_id e,
       rq_force = ''requirement'', rq_statement = take 400 text, rq_members = family_of text,
       rq_trigger = trigger_of text, rq_origin = ''cited'', rq_disposition = UNDETERMINED,
       rq_note = [], rq_stated = False, rq_history = []\<rparr>)"

definition digits_nat :: "string \<Rightarrow> nat" where
  "digits_nat s = foldl (\<lambda>n c. 10 * n + (of_char c - 48)) 0 s"

definition section_parts :: "string \<Rightarrow> nat list" where
  "section_parts s = map digits_nat (findall (plus digit) s)"

definition ordered :: "requirement list \<Rightarrow> requirement list" where
  "ordered rs = sort_key (\<lambda>r. (section_parts (rq_section r), rq_key r)) rs"

definition cited_requirement :: "string set \<Rightarrow> requirement \<Rightarrow> bool" where
  "cited_requirement named r \<longleftrightarrow> lower (rq_key r) \<in> named \<or> bare_key r \<in> named"

definition binding_requirements :: "carried_record list \<Rightarrow> requirement list" where
  "binding_requirements records =
     map requirement_of (filter (\<lambda>e. case er_force e of Some f \<Rightarrow> REQUIREMENT_FORCE \<le> f | None \<Rightarrow> False) records)"

definition publish :: "carried_record list \<Rightarrow> string \<Rightarrow> string \<Rightarrow> nat \<Rightarrow> requirement_set" where
  "publish records answer origin limit =
     (let bound = binding_requirements records; named = citations_in answer;
          chosen = filter (cited_requirement named) bound in
      if bound = [] then empty_requirements
      else if named \<noteq> {} \<and> chosen \<noteq> []
      then \<lparr>rs_items = ordered chosen @ take limit (ordered
              (map (\<lambda>r. r\<lparr>rq_origin := ''retrieved, not named in the answer''\<rparr>)
                (filter (\<lambda>r. \<not> cited_requirement named r) bound))), rs_origin = origin\<rparr>
      else \<lparr>rs_items = take limit (ordered bound), rs_origin = origin\<rparr>)"

definition refers_back_to :: "string \<Rightarrow> bool" where
  "refers_back_to question = search REFERS_BACK_rx (lower question)"

end
