(* ===== verification/Work_Phase.thy ===== *)
theory Work_Phase
  imports Requirement_Set Budgets
begin

text \<open>
  The lifecycle of a turn that changes code to meet an authoritative source
  (\<open>client/runtime/work_phase.py\<close>): what the turn was shown on either side of the gap, the plan items
  it may record, the work items that group them by code, the gate every write passes, and when the
  contract the turn inherited is closed.

  The texts that tell the model why something was refused are values of \<open>item_reason\<close> and
  \<open>write_refusal\<close>, with what the text quotes.  A plan item arrives as JSON; \<open>text\<close> is what \<open>str()\<close>
  prints for a value that is not a string.  Diagnostics (\<open>to_dict\<close>, \<open>summary\<close>) are left out.
\<close>

section \<open>Patterns\<close>

definition SECTION_rx :: rx where
  "SECTION_rx =
    seqs [Wordb, seqs [plus (digit), plus (seqs [ch CHR ''.'', plus (digit)])],
     opt (seqs [ch CHR ''-'', plus (digit)]), Wordb]"

definition FILE_rx :: rx where
  "FILE_rx =
    (let tail = Cls (\<lambda>c. ascii_letter c \<or> ascii_digit c \<or> c \<in> {CHR ''_'', CHR ''+''}) in
     seqs [Star (Cls (\<lambda>c. rx_word c \<or> c \<in> {CHR ''.'', CHR ''-'', CHR ''/''})), Cls rx_word, ch CHR ''.'',
       tail, upto 7 tail, Wordb])"

definition CALL_rx :: rx where
  "CALL_rx =
    seqs [Wordb, plus (Cls rx_word), lit ''()'']"

definition NAMES_A_PATH_rx :: rx where
  "NAMES_A_PATH_rx = alts [FILE_rx, CALL_rx]"

definition TEST_PATH_rx :: rx where
  "TEST_PATH_rx =
    alts [seqs [alts [Bol, ch CHR ''/''], lit ''test'', opt (ch CHR ''s''), ch CHR ''/''],
     seqs [alts [Bol, ch CHR ''/''], lit ''test'', Cls (\<lambda>c. c \<in> {CHR ''_'',
     CHR ''-''}), plus (Cls (\<lambda>c. rx_word c \<or> c \<in> {CHR ''.'', CHR ''-''})), Eol],
     seqs [alts [Bol, ch CHR ''/''], plus (Cls (\<lambda>c. rx_word c \<or> c \<in> {CHR ''.'',
     CHR ''-''})), Cls (\<lambda>c. c \<in> {CHR ''_'', CHR ''-''}), lit ''test'',
     opt (ch CHR ''s''), ch CHR ''.'', plus (Cls rx_word), Eol]]"

definition SYMBOL_CALL_rx :: rx where
  "SYMBOL_CALL_rx =
    seqs [Wordb, Cls (\<lambda>c. ascii_letter c \<or> c = CHR ''_''), Cls rx_word, Cls rx_word, Star (Cls rx_word), Star space, lit ''()'']"

definition SYMBOL_CONST_rx :: rx where
  "SYMBOL_CONST_rx =
    (let capital = Cls (\<lambda>c. CHR ''A'' \<le> c \<and> c \<le> CHR ''Z'');
         tail = Cls (\<lambda>c. CHR ''A'' \<le> c \<and> c \<le> CHR ''Z'' \<or> ascii_digit c \<or> c = CHR ''_'') in
     seqs [Wordb, capital, Star (Cls (\<lambda>c. ascii_letter c \<or> ascii_digit c)), ch CHR ''_'', tail, tail,
       Star tail, Wordb])"

definition LONG_WORD_rx :: rx where
  "LONG_WORD_rx =
    seqs [Wordb, Cls (\<lambda>c. ascii_letter c \<or> c = CHR ''_''), Cls rx_word, Cls rx_word, Cls rx_word, Star (Cls rx_word), Wordb]"

definition ABBREVIATION_rx :: rx where
  "ABBREVIATION_rx =
    seqs [alts [lit ''e.g'', lit ''i.e'', lit ''etc''], opt (ch CHR ''.'')]"

definition NEGATIVE_BRANCH_rx :: rx where
  "NEGATIVE_BRANCH_rx =
    seqs [Wordb, alts [seqs [lit ''and'', plus space, lit ''when'', plus space, lit ''not''],
     seqs [lit ''when'', plus space, opt (seqs [lit ''it'', plus space, lit ''is'', plus space]),
     lit ''not''], seqs [lit ''if'', plus space, lit ''not''], lit ''otherwise'', lit ''unless'',
     seqs [lit ''but'', plus space, lit ''not''], lit ''neither'', seqs [lit ''no'', plus space,
     plus (Cls rx_word), plus space, lit ''is''], seqs [lit ''nothing'', plus space, lit ''is''],
     seqs [lit ''does'', plus space, lit ''not''], seqs [lit ''is'', plus space, lit ''not''],
     seqs [lit ''only'', plus space, alts [lit ''when'', lit ''if'']], seqs [lit ''exactly'',
     plus space, lit ''one''], lit ''absent'', lit ''omitted'', lit ''cleared'', lit ''rejected'',
     lit ''refused'', seqs [lit ''fail'', opt (ch CHR ''s'')], lit ''failure'', lit ''negative'',
     lit ''opposite'', lit ''conversely'', lit ''whereas'', seqs [lit ''while'', plus space,
     lit ''the'', plus space, lit ''other'']], Wordb]"

definition MOVES_A_CALL_rx :: rx where
  "MOVES_A_CALL_rx =
    seqs [Wordb, alts [lit ''call'', lit ''calling'', lit ''invoke'', lit ''invoking'',
     lit ''move'', lit ''moving'', lit ''relocate'', lit ''hoist'', lit ''reuse'',
     lit ''trigger''], Wordb, upto 80 (Cls (\<lambda>c. \<not> (c \<in> {CHR ''.'', CHR '';''}))),
     Wordb, alts [lit ''from'', lit ''into'', lit ''in'', lit ''at'', lit ''inside'',
     lit ''within'', lit ''to''], Wordb]"

definition SCENARIO_rx :: rx where
  "SCENARIO_rx =
    seqs [Wordb, alts [lit ''when'', lit ''if'', lit ''after'', lit ''before'', lit ''given'',
     lit ''upon'', lit ''once'', lit ''with'', seqs [lit ''for'', plus space, ch CHR ''a''],
     seqs [lit ''in'', plus space, lit ''the'', plus space, lit ''case''], seqs [lit ''send'',
     opt (alts [ch CHR ''s'', lit ''ing''])], seqs [lit ''request'', opt (alts [ch CHR ''s'',
     lit ''ing''])], seqs [lit ''set'', opt (alts [ch CHR ''s'', lit ''ting''])],
     seqs [lit ''call'', opt (alts [ch CHR ''s'', lit ''ing''])], seqs [lit ''provid'',
     alts [ch CHR ''e'', lit ''es'', lit ''ing'']], seqs [lit ''construct'', opt (ch CHR ''s'')],
     seqs [lit ''build'', opt (alts [ch CHR ''s'', lit ''ing''])]], Wordb]"

definition OUTCOME_rx :: rx where
  "OUTCOME_rx =
    seqs [Wordb, alts [seqs [lit ''expect'', opt (alts [ch CHR ''s'', lit ''ed'', lit ''ing''])],
     seqs [lit ''assert'', opt (alts [ch CHR ''s'', lit ''ion'', lit ''ed'', lit ''ing''])],
     seqs [lit ''check'', opt (alts [ch CHR ''s'', lit ''ed'', lit ''ing'']), plus space,
     lit ''that''], seqs [lit ''verif'', alts [ch CHR ''y'', lit ''ies'', lit ''ied'',
     lit ''ying''], plus space, lit ''that''], seqs [lit ''should'', plus space, alts [lit ''be'',
     lit ''contain'', lit ''carry'', lit ''return'', lit ''produce'', lit ''emit'', lit ''send'',
     lit ''set'', lit ''equal'', lit ''have'', lit ''fail'', lit ''reject'']], seqs [lit ''must'',
     plus space, alts [lit ''be'', lit ''contain'', lit ''return'', lit ''produce'',
     lit ''equal'']], seqs [lit ''result'', opt (alts [ch CHR ''s'', lit ''ing'']), plus space,
     lit ''in''], seqs [lit ''return'', opt (ch CHR ''s''), plus space], seqs [lit ''produce'',
     opt (ch CHR ''s''), plus space], seqs [lit ''emit'', opt (ch CHR ''s''), plus space],
     seqs [lit ''yield'', opt (ch CHR ''s''), plus space], seqs [lit ''is'', plus space,
     alts [lit ''set'', lit ''cleared'', lit ''present'', lit ''absent'', lit ''rejected'']],
     seqs [lit ''exactly'', plus space, lit ''one''], seqs [lit ''no'', plus space,
     plus (Cls rx_word), plus space, lit ''is'', plus space, lit ''sent'']], Wordb]"

definition RUN_THE_SUITE_rx :: rx where
  "RUN_THE_SUITE_rx =
    seqs [Bol, Star (Cls (\<lambda>c. \<not> rx_word c)), Star (alts [seqs [lit ''the'',
     plus space], seqs [lit ''existing'', plus space], seqs [lit ''project'', opt (ch (CHR 0x27)),
     opt (ch CHR ''s''), plus space], seqs [lit ''current'', plus space]]), opt (seqs [lit ''fix'',
     plus space, lit ''will'', plus space, lit ''be'', plus space, lit ''validated'', plus space,
     lit ''by'', plus space]), opt (alts [seqs [lit ''run'', opt (lit ''ning'')],
     seqs [lit ''execut'', alts [ch CHR ''e'', lit ''ing'']], lit ''use'', lit ''using'',
     seqs [lit ''extend'', opt (lit ''ing'')], seqs [lit ''add'', opt (lit ''ing'')]]), Star space,
     opt (seqs [lit ''the'', plus space]), Star (alts [seqs [lit ''existing'', plus space],
     seqs [lit ''project'', opt (ch (CHR 0x27)), opt (ch CHR ''s''), plus space],
     seqs [lit ''current'', plus space], seqs [lit ''full'', plus space]]),
     opt (seqs [lit ''unit'', plus space]), alts [seqs [lit ''test'', plus space, lit ''suite''],
     seqs [lit ''test'', opt (ch CHR ''s'')], lit ''ctest'', seqs [lit ''make'', plus space,
     lit ''test''], lit ''suite'', seqs [lit ''test'', plus space, lit ''case'',
     opt (ch CHR ''s'')]], Wordb, upto 60 (Cls (\<lambda>c. c \<noteq> CHR ''.'')), Eol]"

definition PLANS_NEW_TEST_rx :: rx where
  "PLANS_NEW_TEST_rx =
    seqs [Wordb, alts [lit ''add'', lit ''adding'', lit ''write'', lit ''writing'', lit ''new'',
     lit ''extend'', lit ''extending'', lit ''create'', lit ''creating''], Wordb]"

definition NO_TEST_POSSIBLE_rx :: rx where
  "NO_TEST_POSSIBLE_rx =
    seqs [Wordb, alts [seqs [lit ''no'', plus space, opt (alts [seqs [lit ''automated'',
     plus space], seqs [lit ''executable'', plus space]]), lit ''test'', Wordb],
     seqs [lit ''cannot'', plus space, lit ''be'', plus space, opt (seqs [lit ''automatically'',
     plus space]), lit ''tested'', Wordb], seqs [lit ''not'', plus space, lit ''testable'', Wordb],
     seqs [lit ''untestable'', Wordb], seqs [lit ''require'', opt (ch CHR ''s''), plus space,
     opt (seqs [lit ''real'', plus space]), lit ''hardware'', Wordb]]]"

section \<open>What a text names\<close>

definition basename :: "string \<Rightarrow> string" where
  "basename path = last (split_on CHR ''/'' (rstrip_slash path))"

definition looks_like_a_test :: "string \<Rightarrow> bool" where
  "looks_like_a_test path = search TEST_PATH_rx (lower (map (\<lambda>c. if c = CHR 0x5C then CHR ''/'' else c) path))"

text \<open>The group of \<open>_SECTION\<close> ends before the dash of the ordinal.\<close>

definition sections :: "string \<Rightarrow> string set" where
  "sections s = set (map (takeWhile (\<lambda>c. c \<noteq> CHR ''-'')) (findall SECTION_rx s))"

definition named_files :: "string \<Rightarrow> string set" where
  "named_files s = basename ` set (findall FILE_rx s)"

definition symbols_in :: "string \<Rightarrow> string set" where
  "symbols_in s =
     set (map (\<lambda>f. rev (dropWhile (\<lambda>c. c \<in> {CHR ''('', CHR '')''}) (rev f))) (findall SYMBOL_CALL_rx s))
     \<union> set (findall SYMBOL_CONST_rx s)"

definition paths_in :: "string \<Rightarrow> string set" where
  "paths_in s = {p \<in> named_files s. CHR ''.'' \<in> set p \<and> length p \<notin> set (ends ABBREVIATION_rx (lower p) 0)}"

datatype validation_kind = FOCUSED_PLANNED | EXISTING_PROVEN | NOT_PRACTICAL

definition validation_design :: "string \<Rightarrow> string set \<Rightarrow> validation_kind option" where
  "validation_design statement read_files =
     (let t = strip statement; low = lower t in
      if t = [] then None
      else if search NO_TEST_POSSIBLE_rx low
      then (if search SCENARIO_rx low \<or> contains low '' because '' then Some NOT_PRACTICAL else None)
      else if \<not> (search SCENARIO_rx low \<and> search OUTCOME_rx low) then None
      else if named_files t \<inter> basename ` read_files \<noteq> {} \<and> \<not> search PLANS_NEW_TEST_rx low
      then Some EXISTING_PROVEN
      else Some FOCUSED_PLANNED)"

section \<open>What the turn was shown\<close>

record evidence_state =
  ev_authority_keys :: "string set"
  ev_authority_units :: int
  ev_implementation_files :: "string set"
  ev_root :: string

definition observe_authority :: "string list \<Rightarrow> int \<Rightarrow> evidence_state \<Rightarrow> evidence_state" where
  "observe_authority keys units e =
     e\<lparr>ev_authority_keys := ev_authority_keys e \<union> lower ` set (filter (\<lambda>k. k \<noteq> []) keys),
       ev_authority_units := ev_authority_units e + max 0 units\<rparr>"

definition inside :: "evidence_state \<Rightarrow> string \<Rightarrow> bool" where
  "inside e path =
     (if ev_root e = [] \<or> \<not> prefix ''/'' path then True
      else let root = rstrip_slash (ev_root e) in path = root \<or> prefix (root @ ''/'') path)"

definition observe_implementation :: "string list \<Rightarrow> evidence_state \<Rightarrow> evidence_state" where
  "observe_implementation paths e =
     e\<lparr>ev_implementation_files := ev_implementation_files e
         \<union> set (filter (inside e) (filter (\<lambda>p. p \<noteq> []) paths))\<rparr>"

definition has_authority :: "evidence_state \<Rightarrow> bool" where
  "has_authority e \<longleftrightarrow> ev_authority_keys e \<noteq> {} \<or> 0 < ev_authority_units e"

definition has_implementation :: "evidence_state \<Rightarrow> bool" where
  "has_implementation e \<longleftrightarrow> ev_implementation_files e \<noteq> {}"

text \<open>\<open>str.isdigit\<close> of the first character, on the first 256 code points.\<close>

definition starts_digit :: "string \<Rightarrow> bool" where
  "starts_digit k \<longleftrightarrow> k \<noteq> [] \<and> (rx_digit (hd k) \<or> (of_char (hd k) :: nat) \<in> {178, 179, 185})"

definition backs_requirement :: "evidence_state \<Rightarrow> string \<Rightarrow> bool" where
  "backs_requirement e citation \<longleftrightarrow>
     handles_in citation \<inter> ev_authority_keys e \<noteq> {} \<or>
     (let read = {k \<in> ev_authority_keys e. starts_digit k} in
      \<exists>s \<in> sections citation. s \<in> read \<or> (\<exists>deeper \<in> read. prefix (s @ ''.'') deeper))"

definition backs_implementation :: "evidence_state \<Rightarrow> string \<Rightarrow> bool" where
  "backs_implementation e citation \<longleftrightarrow>
     named_files citation \<inter> (basename ` ev_implementation_files e - {[]}) \<noteq> {}"

section \<open>Plan items and work items\<close>

record gap_item =
  gi_requirement :: string
  gi_requirement_evidence :: string
  gi_current_behaviour :: string
  gi_implementation_evidence :: string
  gi_gap :: string
  gi_correction :: string
  gi_validation :: string
  gi_disposition :: disposition
  gi_bound_to :: string
  gi_branch_gap :: string
  gi_testability :: "validation_kind option"

text \<open>\<open>str(raw.get(name) or "").strip()\<close>.\<close>

definition field_text :: "(json \<Rightarrow> string) \<Rightarrow> json_object \<Rightarrow> string \<Rightarrow> string" where
  "field_text text raw name =
     (let v = get raw name in strip (if json_truthy v then py_str text v else []))"

definition gap_item_from :: "(json \<Rightarrow> string) \<Rightarrow> json \<Rightarrow> gap_item" where
  "gap_item_from text v =
     (let raw = (case v of JObj d \<Rightarrow> d | _ \<Rightarrow> []); f = field_text text raw in
      \<lparr>gi_requirement = f ''requirement'', gi_requirement_evidence = f ''requirement_evidence'',
       gi_current_behaviour = f ''current_behaviour'', gi_implementation_evidence = f ''implementation_evidence'',
       gi_gap = f ''gap'', gi_correction = f ''correction'', gi_validation = f ''validation'',
       gi_disposition = (case find (\<lambda>d. disposition_value d = lower (f ''disposition'')) STATED of
                           Some d \<Rightarrow> d | None \<Rightarrow> CHANGE_PLANNED),
       gi_bound_to = [], gi_branch_gap = [], gi_testability = None\<rparr>)"

definition missing_fields :: "gap_item \<Rightarrow> string list" where
  "missing_fields i = map fst (filter (\<lambda>f. snd f = [])
     [(''requirement'', gi_requirement i), (''requirement_evidence'', gi_requirement_evidence i),
      (''current_behaviour'', gi_current_behaviour i), (''implementation_evidence'', gi_implementation_evidence i),
      (''gap'', gi_gap i), (''correction'', gi_correction i), (''validation'', gi_validation i)])"

definition settled_disposition :: "gap_item \<Rightarrow> disposition" where
  "settled_disposition i =
     (if gi_disposition i \<noteq> UNDETERMINED then gi_disposition i
      else if (search FILE_rx (gi_correction i) \<or> search CALL_rx (gi_correction i)) \<and> gi_gap i \<noteq> []
      then CHANGE_PLANNED else gi_disposition i)"

definition identity :: "gap_item \<Rightarrow> string" where
  "identity i = (if gi_bound_to i \<noteq> [] then gi_bound_to i else take 120 (squeeze (lower (gi_requirement_evidence i))))"

record work_item =
  wi_key :: string
  wi_requirements :: "string set"
  wi_paths :: "string set"
  wi_symbols :: "string set"
  wi_coupled :: "string set"
  wi_depends_on :: "string set"
  wi_closed :: bool
  wi_reopened :: nat

definition covers_path :: "work_item \<Rightarrow> string \<Rightarrow> bool" where
  "covers_path w path \<longleftrightarrow> basename path \<in> wi_paths w"

datatype item_reason =
    Finished string
  | Already_stands
  | Nothing_new
  | Missing "string list"
  | Not_held string
  | No_point string
  | One_end
  | Other_case string
  | No_design string bool
  | Not_read string

record item_verdict =
  iv_item :: gap_item
  iv_reason :: "item_reason option"

definition accepted :: "item_verdict \<Rightarrow> bool" where
  "accepted v \<longleftrightarrow> iv_reason v = None"

datatype write_refusal = NO_AUTHORITY | NO_IMPLEMENTATION | NO_PLAN | OUTSIDE_WORK_ITEM | PLAN_INCOMPLETE
  | REVIEW_IS_READ_ONLY

record replan =
  rp_reason :: string
  rp_invalidated :: string
  rp_evidence :: string

record revision =
  rv_requirement :: string
  rv_from :: disposition
  rv_to :: disposition
  rv_new_evidence :: bool

record validation_run =
  va_command :: string
  va_status :: string
  va_covers :: "string list"
  va_generation :: nat

section \<open>The ledger of a turn\<close>

datatype phase = INVESTIGATE | PLAN | EDIT | TEST | REVIEW | DONE

type_synonym evidence_count = "nat \<times> int \<times> nat \<times> nat"

record phase_ledger =
  le_engaged :: bool
  le_phase :: phase
  le_evidence :: evidence_state
  le_requirements :: requirement_set
  le_items :: "gap_item list"
  le_rejected :: "item_verdict list"
  le_replans :: "replan list"
  le_revised :: "revision list"
  le_idle_revisions :: nat
  le_replan_pending :: bool
  le_planned_at :: "(string \<times> evidence_count) list"
  le_work_items :: "work_item list"
  le_branch_asked :: "string set"
  le_context_asked :: "string set"
  le_point_asked :: "string set"
  le_first_write_phase :: "phase option"
  le_writes :: nat
  le_refusals :: nat
  le_validations :: "validation_run list"
  le_failed_validations :: "(string \<times> nat) list"
  le_written :: "string set"
  le_without_evidence :: nat
  le_syntheses_forced :: nat
  le_calls_since_investigated :: nat
  le_plan_demands :: nat

definition new_ledger :: phase_ledger where
  "new_ledger =
     \<lparr>le_engaged = False, le_phase = INVESTIGATE,
      le_evidence = \<lparr>ev_authority_keys = {}, ev_authority_units = 0, ev_implementation_files = {}, ev_root = []\<rparr>,
      le_requirements = empty_requirements, le_items = [], le_rejected = [], le_replans = [], le_revised = [],
      le_idle_revisions = 0, le_replan_pending = False, le_planned_at = [], le_work_items = [],
      le_branch_asked = {}, le_context_asked = {}, le_point_asked = {}, le_first_write_phase = None,
      le_writes = 0, le_refusals = 0, le_validations = [], le_failed_validations = [], le_written = {},
      le_without_evidence = 0, le_syntheses_forced = 0, le_calls_since_investigated = 0, le_plan_demands = 0\<rparr>"

text \<open>The keys a carried requirement brings as authority: its citations, its section, its unit, and these without an ordinal.\<close>

definition carried_keys :: "requirement_set \<Rightarrow> string set" where
  "carried_keys rs =
     (let keys = (\<Union>r \<in> set (rs_items rs). citations_in (rq_key r) \<union> ({rq_section r, rq_source_id r} - {[]})) in
      keys \<union> before_dash ` {k \<in> keys. CHR ''-'' \<in> set k})"

definition engage :: "bool \<Rightarrow> bool \<Rightarrow> string \<Rightarrow> string list \<Rightarrow> requirement_set option \<Rightarrow> phase_ledger \<Rightarrow> phase_ledger" where
  "engage authority_bound write_requested root prior_authority requirements l =
     (let l1 = l\<lparr>le_engaged := authority_bound \<and> write_requested,
                 le_evidence := observe_authority prior_authority 0 ((le_evidence l)\<lparr>ev_root := root\<rparr>)\<rparr> in
      case requirements of
        Some rs \<Rightarrow>
          if le_engaged l1
          then l1\<lparr>le_requirements := rs,
                  le_evidence := (le_evidence l1)\<lparr>ev_authority_keys :=
                    ev_authority_keys (le_evidence l1) \<union> lower ` (carried_keys rs - {[]})\<rparr>\<rparr>
          else l1
      | None \<Rightarrow> l1)"

definition evidence_counts :: "phase_ledger \<Rightarrow> nat \<times> int \<times> nat" where
  "evidence_counts l = (card (ev_authority_keys (le_evidence l)), ev_authority_units (le_evidence l),
     card (ev_implementation_files (le_evidence l)))"

definition open_plan :: "phase_ledger \<Rightarrow> phase_ledger" where
  "open_plan l =
     (if le_engaged l \<and> le_phase l = INVESTIGATE \<and> has_authority (le_evidence l) \<and> has_implementation (le_evidence l)
      then l\<lparr>le_phase := PLAN\<rparr> else l)"

definition count_progress :: "bool \<Rightarrow> phase_ledger \<Rightarrow> phase_ledger" where
  "count_progress gained l = l\<lparr>le_without_evidence := (if gained then 0 else le_without_evidence l + 1)\<rparr>"

definition observe_call :: "string list \<Rightarrow> int \<Rightarrow> string list \<Rightarrow> phase_ledger \<Rightarrow> phase_ledger" where
  "observe_call authority_keys authority_units implementation_paths l =
     (let e1 = observe_authority authority_keys 0 (le_evidence l);
          e2 = e1\<lparr>ev_authority_units := max (ev_authority_units e1) authority_units\<rparr>;
          l1 = l\<lparr>le_evidence := observe_implementation implementation_paths e2\<rparr>;
          l2 = open_plan (count_progress (evidence_counts l \<noteq> evidence_counts l1) l1)
      in if le_phase l = PLAN then l2\<lparr>le_calls_since_investigated := le_calls_since_investigated l2 + 1\<rparr> else l2)"

definition investigation_gaps :: "phase_ledger \<Rightarrow> write_refusal list" where
  "investigation_gaps l =
     (if has_authority (le_evidence l) then [] else [NO_AUTHORITY]) @
     (if has_implementation (le_evidence l) then [] else [NO_IMPLEMENTATION])"

section \<open>Recording a plan\<close>

definition evidence_mark :: "phase_ledger \<Rightarrow> evidence_count" where
  "evidence_mark l =
     (case evidence_counts l of (k, u, f) \<Rightarrow> (k, u, f, length (le_validations l)))"

definition bound_item :: "phase_ledger \<Rightarrow> gap_item \<Rightarrow> gap_item" where
  "bound_item l i =
     (let i1 = i\<lparr>gi_testability := validation_design (gi_validation i) (ev_implementation_files (le_evidence l))\<rparr> in
      case match_requirement (le_requirements l) (gi_requirement_evidence i) of
        None \<Rightarrow> i1 | Some r \<Rightarrow> i1\<lparr>gi_bound_to := rq_key r\<rparr>)"

definition standing_item :: "phase_ledger \<Rightarrow> gap_item \<Rightarrow> gap_item option" where
  "standing_item l i = find (\<lambda>known. identity known = identity i) (le_items l)"

definition answers_for :: "gap_item \<Rightarrow> string" where
  "answers_for i = (if gi_bound_to i \<noteq> [] then gi_bound_to i else identity i)"

text \<open>A revision of an item that stands, when the turn names no new evidence: what speaks against it.\<close>

definition idle_revision :: "phase_ledger \<Rightarrow> gap_item \<Rightarrow> item_reason option" where
  "idle_revision l i =
     (case standing_item l i of
        None \<Rightarrow> None
      | Some standing \<Rightarrow>
          (case find (\<lambda>w. wi_closed w \<and> answers_for i \<in> wi_requirements w) (le_work_items l) of
             Some done_item \<Rightarrow> Some (Finished (wi_key done_item))
           | None \<Rightarrow>
               if map_of (le_planned_at l) (identity i) \<noteq> Some (evidence_mark l) then None
               else if (gi_disposition standing, gi_correction standing, gi_validation standing)
                       = (gi_disposition i, gi_correction i, gi_validation i)
               then Some Already_stands else Some Nothing_new))"

definition condition_of :: "phase_ledger \<Rightarrow> gap_item \<Rightarrow> string" where
  "condition_of l i =
     (case match_requirement (le_requirements l) (gi_requirement_evidence i) of
        None \<Rightarrow> [] | Some r \<Rightarrow> rq_trigger r)"

definition refused :: "gap_item \<Rightarrow> item_reason \<Rightarrow> item_verdict" where
  "refused i reason = \<lparr>iv_item = i, iv_reason = Some reason\<rparr>"

text \<open>The three questions asked once, about the wording of an item, and what is checked of its validation.\<close>

definition judge_read :: "gap_item \<Rightarrow> phase_ledger \<Rightarrow> item_verdict \<times> phase_ledger" where
  "judge_read i l =
     (if \<not> backs_implementation (le_evidence l) (gi_implementation_evidence i)
      then (refused i (Not_read (gi_implementation_evidence i)), l)
      else (\<lparr>iv_item = i, iv_reason = None\<rparr>, l))"

definition judge_validation :: "gap_item \<Rightarrow> phase_ledger \<Rightarrow> item_verdict \<times> phase_ledger" where
  "judge_validation i l =
     (if gi_disposition i \<noteq> CHANGE_PLANNED then judge_read i l
      else
        let design = validation_design (gi_validation i) (ev_implementation_files (le_evidence l));
            condition = condition_of l i;
            one_sided = (design = Some FOCUSED_PLANNED \<and> condition \<noteq> []
                         \<and> \<not> search NEGATIVE_BRANCH_rx (lower (gi_validation i)))
        in if one_sided \<and> identity i \<notin> le_branch_asked l
           then (refused i (Other_case (take 80 condition)), l\<lparr>le_branch_asked := insert (identity i) (le_branch_asked l)\<rparr>)
           else let i1 = (if one_sided
                          then i\<lparr>gi_branch_gap := ''tests only the case where the condition holds ('' @ take 60 condition @ '')''\<rparr>
                          else i)
                in if design = None
                   then (refused i1 (No_design (take 70 (gi_validation i)) (search RUN_THE_SUITE_rx (lower (gi_validation i)))), l)
                   else judge_read i1 l)"

definition judge_sites :: "gap_item \<Rightarrow> phase_ledger \<Rightarrow> item_verdict \<times> phase_ledger" where
  "judge_sites i l =
     (if \<not> search MOVES_A_CALL_rx (lower (gi_correction i)) \<or> 2 \<le> card (named_files (gi_implementation_evidence i))
      then judge_validation i l
      else if identity i \<notin> le_context_asked l
      then (refused i One_end, l\<lparr>le_context_asked := insert (identity i) (le_context_asked l)\<rparr>)
      else judge_validation (i\<lparr>gi_branch_gap := (if gi_branch_gap i \<noteq> [] then gi_branch_gap i @ ''; '' else [])
             @ ''moves a call without evidence from the site it is called from today''\<rparr>) l)"

definition judge_point :: "gap_item \<Rightarrow> phase_ledger \<Rightarrow> item_verdict \<times> phase_ledger" where
  "judge_point i l =
     (if condition_of l i \<noteq> [] \<and> \<not> search NAMES_A_PATH_rx (gi_correction i) \<and> identity i \<notin> le_point_asked l
      then (refused i (No_point (condition_of l i)), l\<lparr>le_point_asked := insert (identity i) (le_point_asked l)\<rparr>)
      else judge_sites i l)"

definition judge_item :: "bool \<Rightarrow> gap_item \<Rightarrow> phase_ledger \<Rightarrow> item_verdict \<times> phase_ledger" where
  "judge_item declared i l =
     (case (if declared then None else idle_revision l i) of
        Some reason \<Rightarrow> (refused i reason, l)
      | None \<Rightarrow>
          if missing_fields i \<noteq> [] then (refused i (Missing (missing_fields i)), l)
          else if gi_bound_to i = [] \<and> \<not> backs_requirement (le_evidence l) (gi_requirement_evidence i)
          then (refused i (Not_held (gi_requirement_evidence i)), l)
          else judge_point i l)"

fun judge_all :: "(json \<Rightarrow> string) \<Rightarrow> bool \<Rightarrow> json list \<Rightarrow> phase_ledger \<Rightarrow> item_verdict list \<times> phase_ledger" where
  "judge_all text declared [] l = ([], l)"
| "judge_all text declared (raw # raws) l =
     (case judge_item declared (bound_item l (gap_item_from text raw)) l of
        (v, l1) \<Rightarrow> (case judge_all text declared raws l1 of (vs, l2) \<Rightarrow> (v # vs, l2)))"

section \<open>Work items\<close>

definition item_paths :: "gap_item \<Rightarrow> string set" where
  "item_paths i = {p \<in> paths_in (gi_implementation_evidence i) \<union> paths_in (gi_correction i). \<not> looks_like_a_test p}"

definition item_symbols :: "gap_item \<Rightarrow> string set" where
  "item_symbols i = symbols_in (gi_correction i) \<union> symbols_in (gi_current_behaviour i)"

text \<open>The place of the item's work item, which is opened at the end if there is none.\<close>

definition work_index :: "gap_item \<Rightarrow> work_item list \<Rightarrow> nat" where
  "work_index i ws =
     (case find (\<lambda>k. item_paths i \<inter> wi_paths (ws ! k) \<noteq> {} \<or> item_symbols i \<inter> wi_symbols (ws ! k) \<noteq> {}) [0..<length ws] of
        Some k \<Rightarrow> k | None \<Rightarrow> length ws)"

definition joined :: "gap_item \<Rightarrow> work_item \<Rightarrow> work_item" where
  "joined i w = w\<lparr>wi_requirements := insert (answers_for i) (wi_requirements w),
     wi_paths := wi_paths w \<union> item_paths i, wi_symbols := wi_symbols w \<union> item_symbols i\<rparr>"

definition opened :: "nat \<Rightarrow> gap_item \<Rightarrow> work_item" where
  "opened n i = \<lparr>wi_key = ''work-'' @ nat_str (n + 1), wi_requirements = {answers_for i}, wi_paths = item_paths i,
     wi_symbols = item_symbols i, wi_coupled = {}, wi_depends_on = {}, wi_closed = False, wi_reopened = 0\<rparr>"

definition place :: "gap_item \<Rightarrow> work_item list \<Rightarrow> work_item list" where
  "place i ws =
     (let k = work_index i ws in if k < length ws then ws[k := joined i (ws ! k)] else ws @ [opened k i])"

definition coupled_by :: "work_item \<Rightarrow> requirement \<Rightarrow> bool" where
  "coupled_by w r \<longleftrightarrow> rq_key r \<notin> wi_requirements w \<and>
     (let t = rq_statement r @ '' '' @ rq_trigger r in wi_symbols w \<inter> (symbols_in t \<union> set (findall LONG_WORD_rx t)) \<noteq> {})"

definition couple :: "requirement_set \<Rightarrow> work_item \<Rightarrow> work_item" where
  "couple rs w =
     fold (\<lambda>r w. if coupled_by w r
                 then w\<lparr>wi_requirements := insert (rq_key r) (wi_requirements w), wi_coupled := insert (rq_key r) (wi_coupled w)\<rparr>
                 else w) (required_items rs) w"

definition couple_at :: "nat \<Rightarrow> phase_ledger \<Rightarrow> phase_ledger" where
  "couple_at k l = l\<lparr>le_work_items := (le_work_items l)[k := couple (le_requirements l) (le_work_items l ! k)]\<rparr>"

definition place_item :: "gap_item \<Rightarrow> phase_ledger \<Rightarrow> phase_ledger" where
  "place_item i l = couple_at (work_index i (le_work_items l)) (l\<lparr>le_work_items := place i (le_work_items l)\<rparr>)"

text \<open>An accepted item takes the place of the last item of the same identity, or is new.\<close>

definition enter_item :: "gap_item \<Rightarrow> phase_ledger \<Rightarrow> phase_ledger" where
  "enter_item i l =
     (let mark = evidence_mark l in
      case find (\<lambda>k. identity (le_items l ! k) = identity i) (rev [0..<length (le_items l)]) of
        None \<Rightarrow> place_item i (l\<lparr>le_items := le_items l @ [i],
                  le_planned_at := AList.update (identity i) mark (le_planned_at l)\<rparr>)
      | Some k \<Rightarrow>
          (let fresh = (map_of (le_planned_at l) (identity i) \<noteq> Some mark) in
           place_item i (l\<lparr>le_revised := le_revised l @ [\<lparr>rv_requirement = identity i,
                  rv_from = gi_disposition (le_items l ! k), rv_to = gi_disposition i, rv_new_evidence = fresh\<rparr>],
                le_idle_revisions := (if fresh then le_idle_revisions l else le_idle_revisions l + 1),
                le_items := (le_items l)[k := i],
                le_planned_at := AList.update (identity i) mark (le_planned_at l)\<rparr>)))"

definition dispose_item :: "gap_item \<Rightarrow> phase_ledger \<Rightarrow> phase_ledger" where
  "dispose_item i l = l\<lparr>le_requirements := dispose (gi_requirement_evidence i) (settled_disposition i)
     (take 200 (gi_correction i)) By_model (le_requirements l)\<rparr>"

definition record_plan :: "(json \<Rightarrow> string) \<Rightarrow> json list \<Rightarrow> string \<Rightarrow> string \<Rightarrow> string \<Rightarrow> phase_ledger
    \<Rightarrow> (item_verdict list \<times> item_verdict list) \<times> phase_ledger" where
  "record_plan text raw_items supersedes reason new_evidence l =
     (case judge_all text (supersedes \<noteq> [] \<or> new_evidence \<noteq> []) raw_items l of
        (verdicts, l1) \<Rightarrow>
          (let ok = filter accepted verdicts; bad = filter (\<lambda>v. \<not> accepted v) verdicts;
               l2 = (if supersedes \<noteq> [] \<or> reason \<noteq> []
                     then l1\<lparr>le_replans := le_replans l1 @ [\<lparr>rp_reason = (if reason \<noteq> [] then reason else ''replanned''),
                            rp_invalidated = supersedes, rp_evidence = new_evidence\<rparr>]\<rparr> else l1);
               l3 = (if supersedes \<noteq> [] \<and> ok \<noteq> []
                     then l2\<lparr>le_items := filter (\<lambda>i. gi_requirement i \<noteq> supersedes) (le_items l2)\<rparr> else l2);
               l4 = fold (\<lambda>v. enter_item (iv_item v)) ok l3;
               l5 = l4\<lparr>le_rejected := le_rejected l4 @ bad,
                       le_replan_pending := (if ok \<noteq> [] then False else le_replan_pending l4)\<rparr>;
               l6 = fold (\<lambda>v. dispose_item (iv_item v)) ok l5;
               l7 = (if le_items l6 \<noteq> [] \<and> le_phase l6 \<in> {INVESTIGATE, PLAN, REVIEW} then l6\<lparr>le_phase := EDIT\<rparr> else l6)
           in ((ok, bad), l7\<lparr>le_without_evidence := 0\<rparr>)))"

definition work_item_for :: "phase_ledger \<Rightarrow> string \<Rightarrow> nat option" where
  "work_item_for l path = find (\<lambda>k. covers_path (le_work_items l ! k) path) [0..<length (le_work_items l)]"

datatype owed = No_disposition | No_validation_design

definition local_gaps :: "phase_ledger \<Rightarrow> work_item \<Rightarrow> (string \<times> owed) list" where
  "local_gaps l w =
     List.map_filter (\<lambda>key.
       case get_requirement (le_requirements l) key of
         None \<Rightarrow> None
       | Some found \<Rightarrow>
           if \<not> rq_stated found then Some (key, No_disposition)
           else if rq_disposition found \<noteq> CHANGE_PLANNED then None
           else (case find (\<lambda>i. answers_for i = key) (le_items l) of
                   Some planned \<Rightarrow> if gi_testability planned = None then Some (key, No_validation_design) else None
                 | None \<Rightarrow> Some (key, No_validation_design)))
       (sorted_list_of_set (wi_requirements w))"

definition open_work_items :: "phase_ledger \<Rightarrow> nat list" where
  "open_work_items l = filter (\<lambda>k. \<not> wi_closed (le_work_items l ! k)) [0..<length (le_work_items l)]"

definition blocked_work_items :: "phase_ledger \<Rightarrow> (string \<times> string set) list" where
  "blocked_work_items l =
     (let closed = wi_key ` set (filter wi_closed (le_work_items l)) in
      fold (\<lambda>k d. let w = le_work_items l ! k in
        fold (\<lambda>key d. AList.update key ((case map_of d key of None \<Rightarrow> {} | Some ws \<Rightarrow> ws) \<union> {wi_key w}) d)
          (sorted_list_of_set (wi_depends_on w - closed)) d) (open_work_items l) [])"

definition invalidate :: "string \<Rightarrow> string \<Rightarrow> string \<Rightarrow> phase_ledger \<Rightarrow> phase_ledger" where
  "invalidate reason invalidated evidence l =
     l\<lparr>le_replans := le_replans l @ [\<lparr>rp_reason = reason, rp_invalidated = invalidated, rp_evidence = evidence\<rparr>],
       le_replan_pending := True,
       le_work_items := map (\<lambda>w. w\<lparr>wi_closed := False, wi_reopened := wi_reopened w + 1\<rparr>) (le_work_items l),
       le_items := (if invalidated \<noteq> [] then filter (\<lambda>i. gi_requirement i \<noteq> invalidated) (le_items l) else le_items l),
       le_phase := PLAN, le_without_evidence := 0\<rparr>"

section \<open>The write gate\<close>

text \<open>The candidates are coupled and asked one after the other, until one owes nothing.\<close>

fun ask_candidates :: "nat list \<Rightarrow> phase_ledger \<Rightarrow> bool \<times> phase_ledger" where
  "ask_candidates [] l = (False, l)"
| "ask_candidates (k # ks) l =
     (let l1 = couple_at k l in
      if local_gaps l1 (le_work_items l1 ! k) = [] then (True, l1) else ask_candidates ks l1)"

definition may_write :: "string \<Rightarrow> phase_ledger \<Rightarrow> write_refusal option \<times> phase_ledger" where
  "may_write path l =
     (if \<not> le_engaged l then (None, l)
      else if le_phase l = REVIEW then (Some REVIEW_IS_READ_ONLY, l)
      else if investigation_gaps l \<noteq> [] then (Some (hd (investigation_gaps l)), l)
      else if le_replan_pending l then (Some NO_PLAN, l)
      else if le_work_items l = [] then (Some NO_PLAN, l)
      else if path \<noteq> [] \<and> work_item_for l path = None then (Some OUTSIDE_WORK_ITEM, l)
      else
        let candidates = (case (if path \<noteq> [] then work_item_for l path else None) of
                            Some k \<Rightarrow> [k] | None \<Rightarrow> open_work_items l)
        in case ask_candidates candidates l of
             (True, l1) \<Rightarrow> (None, l1)
           | (False, l1) \<Rightarrow> (Some (if candidates = [] then OUTSIDE_WORK_ITEM else PLAN_INCOMPLETE), l1))"

definition refuse_write :: "phase_ledger \<Rightarrow> phase_ledger" where
  "refuse_write l = l\<lparr>le_refusals := le_refusals l + 1\<rparr>"

definition promote_written :: "string set \<Rightarrow> gap_item \<Rightarrow> requirement_set \<Rightarrow> requirement_set" where
  "promote_written touched i rs =
     (if named_files (gi_implementation_evidence i @ '' '' @ gi_correction i) \<inter> touched = {} then rs
      else case match_requirement rs (gi_requirement_evidence i) of
        None \<Rightarrow> rs
      | Some carried \<Rightarrow>
          if rq_disposition carried \<in> {CHANGE_PLANNED, UNDETERMINED}
          then dispose (rq_key carried) CODE_CHANGED_AWAITING_VALIDATION (rq_note carried) By_harness rs
          else rs)"

definition note_write :: "string list \<Rightarrow> phase_ledger \<Rightarrow> phase_ledger" where
  "note_write paths l =
     (let ps = filter (\<lambda>p. p \<noteq> []) paths;
          l1 = l\<lparr>le_writes := le_writes l + 1,
                 le_first_write_phase := (case le_first_write_phase l of None \<Rightarrow> Some (le_phase l) | p \<Rightarrow> p),
                 le_written := le_written l \<union> set ps\<rparr>
      in l1\<lparr>le_requirements := (if ps = [] then le_requirements l1
             else fold (promote_written (basename ` set ps)) (le_items l1) (le_requirements l1))\<rparr>)"

section \<open>Validation and the end of the turn\<close>

definition FAILED_VALIDATION_LIMIT :: nat where
  "FAILED_VALIDATION_LIMIT = 2"

definition already_validated :: "phase_ledger \<Rightarrow> string \<Rightarrow> bool" where
  "already_validated l command \<longleftrightarrow>
     (\<exists>run \<in> set (le_validations l). va_command run = command \<and> va_status run = ''passed'' \<and> va_generation run = le_writes l)"

definition validated :: "phase_ledger \<Rightarrow> bool" where
  "validated l \<longleftrightarrow> (\<exists>run \<in> set (le_validations l). va_status run = ''passed'')"

definition proven_keys :: "phase_ledger \<Rightarrow> string set" where
  "proven_keys l =
     (let wrote_a_test = (\<exists>p \<in> le_written l. looks_like_a_test p) in
      answers_for ` set (filter (\<lambda>i. gi_testability i = Some NOT_PRACTICAL
          \<or> gi_testability i = Some EXISTING_PROVEN \<and> validated l
          \<or> gi_testability i = Some FOCUSED_PLANNED \<and> validated l \<and> wrote_a_test) (le_items l)))"

definition unvalidated_requirements :: "phase_ledger \<Rightarrow> requirement list" where
  "unvalidated_requirements l =
     (if \<not> le_engaged l \<or> required_items (le_requirements l) = [] then []
      else
        let items = rs_items (le_requirements l);
            awaiting = rq_key ` set (filter (\<lambda>r. rq_disposition r \<in> {CHANGE_IMPLEMENTED, CODE_CHANGED_AWAITING_VALIDATION}) items)
        in filter (\<lambda>r. rq_key r \<in> awaiting - proven_keys l) items)"

text \<open>The loop runs over the list it changes; each step reads the item that stands at its index.\<close>

definition settle_at :: "string set \<Rightarrow> nat \<Rightarrow> requirement_set \<Rightarrow> requirement_set" where
  "settle_at unproven k rs =
     (let found = rs_items rs ! k in
      if rq_disposition found = CODE_CHANGED_AWAITING_VALIDATION \<and> rq_key found \<notin> unproven
      then dispose (rq_key found) CHANGE_IMPLEMENTED (rq_note found) By_harness rs else rs)"

definition settle_validated :: "phase_ledger \<Rightarrow> phase_ledger" where
  "settle_validated l =
     (if \<not> le_engaged l \<or> required_items (le_requirements l) = [] then l
      else l\<lparr>le_requirements := fold (settle_at (rq_key ` set (unvalidated_requirements l)))
              [0..<length (rs_items (le_requirements l))] (le_requirements l)\<rparr>)"

definition settled_work :: "requirement_set \<Rightarrow> string set \<Rightarrow> work_item \<Rightarrow> bool" where
  "settled_work rs unproven w \<longleftrightarrow> wi_requirements w \<inter> unproven = {} \<and>
     (\<forall>key \<in> wi_requirements w. case get_requirement rs key of None \<Rightarrow> True | Some r \<Rightarrow> rq_stated r \<and> \<not> rq_open r)"

definition close_settled :: "phase_ledger \<Rightarrow> phase_ledger" where
  "close_settled l =
     (let unproven = rq_key ` set (unvalidated_requirements l) in
      l\<lparr>le_work_items := map (\<lambda>w. if \<not> wi_closed w \<and> settled_work (le_requirements l) unproven w
                                 then w\<lparr>wi_closed := True\<rparr> else w) (le_work_items l)\<rparr>)"

definition note_validation :: "string \<Rightarrow> string \<Rightarrow> string list \<Rightarrow> phase_ledger \<Rightarrow> phase_ledger" where
  "note_validation command status cov l =
     (let l1 = l\<lparr>le_validations := le_validations l @ [\<lparr>va_command = command, va_status = status, va_covers = cov,
                                                       va_generation = le_writes l\<rparr>]\<rparr>;
          failed = le_failed_validations l;
          l2 = l1\<lparr>le_failed_validations :=
                 (if status \<noteq> ''passed''
                  then AList.update command ((case map_of failed command of None \<Rightarrow> 0 | Some n \<Rightarrow> n) + 1) failed
                  else AList.delete command failed)\<rparr>;
          l3 = (if status = ''passed'' then close_settled (settle_validated l2) else l2);
          l4 = (if le_phase l3 = EDIT then l3\<lparr>le_phase := TEST\<rparr> else l3)
      in l4\<lparr>le_without_evidence := 0\<rparr>)"

definition validation_exhausted :: "phase_ledger \<Rightarrow> string \<Rightarrow> bool" where
  "validation_exhausted l command \<longleftrightarrow>
     FAILED_VALIDATION_LIMIT \<le> (case map_of (le_failed_validations l) command of None \<Rightarrow> 0 | Some n \<Rightarrow> n)"

text \<open>\<open>re.split(r"\W+", s)\<close> without empty pieces.\<close>

definition word_runs :: "string \<Rightarrow> string list" where
  "word_runs s = findall (plus (Cls rx_word)) s"

definition unresolved_items :: "phase_ledger \<Rightarrow> gap_item list" where
  "unresolved_items l =
     (let covered = (\<Union>run \<in> set (le_validations l). set (va_covers run));
          ran = (\<Union>run \<in> set (filter (\<lambda>r. va_status r = ''passed'') (le_validations l)). set (word_runs (lower (va_command run))))
      in filter (\<lambda>i. \<not> (gi_requirement i \<in> covered
           \<or> set (filter (\<lambda>w. 4 \<le> length w) (word_runs (lower (gi_validation i)))) \<inter> ran \<noteq> {})) (le_items l))"

definition REPETITION_LIMIT :: nat where
  "REPETITION_LIMIT = 2"

definition MAX_SYNTHESES :: nat where
  "MAX_SYNTHESES = 2"

definition PLAN_PATIENCE :: nat where
  "PLAN_PATIENCE = 8"

definition MAX_PLAN_DEMANDS :: nat where
  "MAX_PLAN_DEMANDS = 2"

definition repeating :: "phase_ledger \<Rightarrow> bool" where
  "repeating l \<longleftrightarrow> REPETITION_LIMIT \<le> le_without_evidence l \<and> le_syntheses_forced l < MAX_SYNTHESES"

definition owes_a_plan :: "nat \<Rightarrow> phase_ledger \<Rightarrow> bool \<times> phase_ledger" where
  "owes_a_plan after l =
     (if \<not> le_engaged l \<or> le_phase l \<noteq> PLAN \<or> MAX_PLAN_DEMANDS \<le> le_plan_demands l
         \<or> le_calls_since_investigated l < after then (False, l)
      else (True, l\<lparr>le_plan_demands := le_plan_demands l + 1, le_calls_since_investigated := 0\<rparr>))"

definition plan_demand_ignored :: "phase_ledger \<Rightarrow> bool" where
  "plan_demand_ignored l \<longleftrightarrow> le_engaged l \<and> MAX_PLAN_DEMANDS \<le> le_plan_demands l \<and> le_phase l = PLAN"

definition branch_gaps :: "phase_ledger \<Rightarrow> (string \<times> string) list" where
  "branch_gaps l =
     fold (\<lambda>i. AList.update (answers_for i) (gi_branch_gap i)) (filter (\<lambda>i. gi_branch_gap i \<noteq> []) (le_items l)) []"

definition awaiting_validation :: "phase_ledger \<Rightarrow> requirement list" where
  "awaiting_validation l =
     filter (\<lambda>r. rq_disposition r = CODE_CHANGED_AWAITING_VALIDATION) (rs_items (le_requirements l))"

definition build_broken_for :: "phase_ledger \<Rightarrow> requirement list" where
  "build_broken_for l = (if le_failed_validations l = [] then [] else awaiting_validation l)"

definition next_open_requirements :: "phase_ledger \<Rightarrow> requirement list" where
  "next_open_requirements l =
     (let taken = (\<Union>w \<in> set (le_work_items l). wi_requirements w) in
      filter (\<lambda>r. rq_key r \<notin> taken \<and> rq_open r) (required_items (le_requirements l)))"

definition contract_closed :: "phase_ledger \<Rightarrow> bool" where
  "contract_closed l \<longleftrightarrow> le_engaged l \<and> required_items (le_requirements l) \<noteq> []
     \<and> open_items (le_requirements l) = [] \<and> unstated_items (le_requirements l) = []
     \<and> unvalidated_requirements l = [] \<and> le_failed_validations l = []"

definition force_synthesis :: "phase_ledger \<Rightarrow> phase_ledger" where
  "force_synthesis l = l\<lparr>le_syntheses_forced := le_syntheses_forced l + 1, le_without_evidence := 0\<rparr>"

definition begin_review :: "phase_ledger \<Rightarrow> phase_ledger" where
  "begin_review l = (if le_engaged l \<and> le_phase l \<in> {EDIT, TEST} then l\<lparr>le_phase := REVIEW\<rparr> else l)"

definition finish :: "phase_ledger \<Rightarrow> phase_ledger" where
  "finish l = (if le_engaged l then l\<lparr>le_phase := DONE\<rparr> else l)"

end
