(* ===== verification/Work_Phase_Props.thy ===== *)
theory Work_Phase_Props
  imports Work_Phase
begin

text \<open>
  What a turn may write: over every sequence of
  calls of the ledger, a write needs an accepted plan item that names the file.
\<close>

section \<open>The calls of a turn\<close>

datatype turn_call =
    Call "string list" int "string list"
  | Plan "json list" string string string
  | Invalidate string string string
  | Ask_write string
  | Refuse
  | Wrote "string list"
  | Ran string string "string list"
  | Remind nat
  | Synthesise
  | Review
  | Finish

definition turn_step :: "(json \<Rightarrow> string) \<Rightarrow> turn_call \<Rightarrow> phase_ledger \<Rightarrow> phase_ledger" where
  "turn_step text c l =
     (case c of
        Call keys units paths \<Rightarrow> observe_call keys units paths l
      | Plan raws supersedes reason evidence \<Rightarrow> snd (record_plan text raws supersedes reason evidence l)
      | Invalidate reason invalidated evidence \<Rightarrow> invalidate reason invalidated evidence l
      | Ask_write path \<Rightarrow> snd (may_write path l)
      | Refuse \<Rightarrow> refuse_write l
      | Wrote paths \<Rightarrow> note_write paths l
      | Ran command status cov \<Rightarrow> note_validation command status cov l
      | Remind after \<Rightarrow> snd (owes_a_plan after l)
      | Synthesise \<Rightarrow> force_synthesis l
      | Review \<Rightarrow> begin_review l
      | Finish \<Rightarrow> finish l)"

definition turn :: "(json \<Rightarrow> string) \<Rightarrow> turn_call list \<Rightarrow> phase_ledger \<Rightarrow> phase_ledger" where
  "turn text calls l = fold (turn_step text) calls l"

text \<open>The items a call of the plan tool had accepted, and all those of a turn.\<close>

definition accepted_by :: "(json \<Rightarrow> string) \<Rightarrow> turn_call \<Rightarrow> phase_ledger \<Rightarrow> gap_item set" where
  "accepted_by text c l =
     (case c of
        Plan raws supersedes reason evidence \<Rightarrow>
          iv_item ` set (fst (fst (record_plan text raws supersedes reason evidence l)))
      | _ \<Rightarrow> {})"

fun accepted_in :: "(json \<Rightarrow> string) \<Rightarrow> turn_call list \<Rightarrow> phase_ledger \<Rightarrow> gap_item set" where
  "accepted_in text [] l = {}"
| "accepted_in text (c # cs) l = accepted_by text c l \<union> accepted_in text cs (turn_step text c l)"

section \<open>Evidence only grows\<close>

definition holds_more :: "evidence_state \<Rightarrow> evidence_state \<Rightarrow> bool" where
  "holds_more e e' \<longleftrightarrow> ev_authority_keys e \<subseteq> ev_authority_keys e' \<and> ev_authority_units e \<le> ev_authority_units e'
     \<and> ev_implementation_files e \<subseteq> ev_implementation_files e'"

lemma holds_more_refl [simp]: "holds_more e e"
  by (simp add: holds_more_def)

lemma holds_more_trans: "holds_more e f \<Longrightarrow> holds_more f g \<Longrightarrow> holds_more e g"
  by (auto simp: holds_more_def)

lemma backs_requirement_mono: "holds_more e e' \<Longrightarrow> backs_requirement e c \<Longrightarrow> backs_requirement e' c"
  unfolding backs_requirement_def holds_more_def Let_def by blast

lemma backs_implementation_mono: "holds_more e e' \<Longrightarrow> backs_implementation e c \<Longrightarrow> backs_implementation e' c"
  unfolding backs_implementation_def holds_more_def by blast

section \<open>What an accepted item has\<close>

definition plan_backed :: "evidence_state \<Rightarrow> gap_item \<Rightarrow> bool" where
  "plan_backed e i \<longleftrightarrow> missing_fields i = [] \<and> backs_implementation e (gi_implementation_evidence i)
     \<and> (gi_bound_to i \<noteq> [] \<or> backs_requirement e (gi_requirement_evidence i))
     \<and> (gi_disposition i = CHANGE_PLANNED \<longrightarrow> gi_testability i \<noteq> None) \<and> gi_disposition i \<in> set STATED"

lemma plan_backed_mono: "holds_more e e' \<Longrightarrow> plan_backed e i \<Longrightarrow> plan_backed e' i"
  by (auto simp: plan_backed_def intro: backs_requirement_mono backs_implementation_mono)

text \<open>Judging an item changes nothing but what was asked.\<close>

definition unasked :: "phase_ledger \<Rightarrow> phase_ledger" where
  "unasked l = l\<lparr>le_branch_asked := {}, le_context_asked := {}, le_point_asked := {}\<rparr>"

definition only_asked :: "phase_ledger \<Rightarrow> phase_ledger \<Rightarrow> bool" where
  "only_asked l l' \<longleftrightarrow> unasked l' = unasked l"

lemma only_asked_refl [simp]: "only_asked l l"
  by (simp add: only_asked_def)

lemma only_asked_trans: "only_asked l m \<Longrightarrow> only_asked m n \<Longrightarrow> only_asked l n"
  by (simp add: only_asked_def)

lemma only_asked_asks [simp]:
  "only_asked l (l\<lparr>le_branch_asked := a\<rparr>)" "only_asked l (l\<lparr>le_context_asked := a\<rparr>)"
  "only_asked l (l\<lparr>le_point_asked := a\<rparr>)"
  by (simp_all add: only_asked_def unasked_def)

lemma only_asked_same:
  "only_asked l l' \<Longrightarrow> le_evidence l' = le_evidence l \<and> le_items l' = le_items l \<and> le_work_items l' = le_work_items l
    \<and> le_requirements l' = le_requirements l \<and> le_engaged l' = le_engaged l \<and> le_phase l' = le_phase l
    \<and> le_validations l' = le_validations l \<and> le_writes l' = le_writes l \<and> le_written l' = le_written l"
  by (cases l; cases l') (simp add: only_asked_def unasked_def)

definition judged :: "phase_ledger \<Rightarrow> gap_item \<Rightarrow> item_verdict \<times> phase_ledger \<Rightarrow> bool" where
  "judged l i r \<longleftrightarrow> only_asked l (snd r) \<and> (accepted (fst r) \<longrightarrow>
     (\<exists>g. iv_item (fst r) = i\<lparr>gi_branch_gap := g\<rparr>) \<and> backs_implementation (le_evidence l) (gi_implementation_evidence i)
     \<and> (gi_disposition i = CHANGE_PLANNED \<longrightarrow>
          validation_design (gi_validation i) (ev_implementation_files (le_evidence l)) \<noteq> None))"

lemma not_accepted_refused [simp]: "\<not> accepted (refused i r)"
  by (simp add: accepted_def refused_def)

lemma judged_refused: "only_asked l l' \<Longrightarrow> judged l i (refused j r, l')"
  by (simp add: judged_def)

lemma judge_read_judged:
  "gi_disposition i \<noteq> CHANGE_PLANNED \<or> validation_design (gi_validation i) (ev_implementation_files (le_evidence l)) \<noteq> None
   \<Longrightarrow> judged l i (judge_read i l)"
  by (auto simp: judge_read_def judged_def intro: exI [of _ "gi_branch_gap i"])

lemma judged_gap: "judged l (i\<lparr>gi_branch_gap := g\<rparr>) r \<Longrightarrow> judged l i r"
  by (auto simp: judged_def)

lemma judge_validation_judged: "judged l i (judge_validation i l)"
  unfolding judge_validation_def Let_def
  by (auto intro!: judge_read_judged judged_refused judged_gap [OF judge_read_judged])

lemma judge_sites_judged: "judged l i (judge_sites i l)"
  unfolding judge_sites_def
  by (auto intro!: judge_validation_judged judged_refused judged_gap [OF judge_validation_judged])

lemma judge_point_judged: "judged l i (judge_point i l)"
  unfolding judge_point_def by (auto intro!: judge_sites_judged judged_refused)

lemma judge_cases:
  assumes "judge_item declared i l = (v, l')"
  obtains (refused) "\<not> accepted v" "l' = l"
    | (judged) "judge_point i l = (v, l')" "missing_fields i = []"
        "gi_bound_to i \<noteq> [] \<or> backs_requirement (le_evidence l) (gi_requirement_evidence i)"
  using assms by (auto simp: judge_item_def split: option.splits if_splits)

lemma plan_backed_gap [simp]: "plan_backed e (i\<lparr>gi_branch_gap := g\<rparr>) = plan_backed e i"
  by (simp add: plan_backed_def missing_fields_def)

lemma judge_backed:
  assumes "gi_testability i = validation_design (gi_validation i) (ev_implementation_files (le_evidence l))"
    and "gi_disposition i \<in> set STATED" and "judge_item declared i l = (v, l')"
  shows "only_asked l l' \<and> (accepted v \<longrightarrow> plan_backed (le_evidence l) (iv_item v))"
  using assms(3)
proof (cases rule: judge_cases)
  case judged
  have "judged l i (v, l')" using judge_point_judged [of l i] judged(1) by simp
  with judged(2,3) assms(1,2) show ?thesis by (auto simp: judged_def plan_backed_def [of _ i])
qed simp

lemma gap_item_stated: "gi_disposition (gap_item_from text raw) \<in> set STATED"
  by (auto simp: gap_item_from_def Let_def find_Some_iff STATED_def split: option.splits)

lemma bound_item_fields:
  "gi_testability (bound_item l i) = validation_design (gi_validation (bound_item l i)) (ev_implementation_files (le_evidence l))"
  "gi_disposition (bound_item l i) = gi_disposition i"
  by (simp_all add: bound_item_def Let_def split: option.splits)

lemma judge_all_backed:
  "judge_all text declared raws l = (vs, l') \<Longrightarrow>
   only_asked l l' \<and> (\<forall>v \<in> set vs. accepted v \<longrightarrow> plan_backed (le_evidence l) (iv_item v))"
proof (induction raws arbitrary: l vs l')
  case (Cons raw raws)
  obtain v l1 where v: "judge_item declared (bound_item l (gap_item_from text raw)) l = (v, l1)" by fastforce
  obtain ws l2 where ws: "judge_all text declared raws l1 = (ws, l2)" by fastforce
  have one: "only_asked l l1 \<and> (accepted v \<longrightarrow> plan_backed (le_evidence l) (iv_item v))"
    by (rule judge_backed [OF _ _ v]) (simp_all add: bound_item_fields gap_item_stated)
  then have "le_evidence l1 = le_evidence l" by (blast dest: only_asked_same)
  with one Cons.IH [OF ws] Cons.prems v ws show ?case by (auto intro: only_asked_trans)
qed simp

section \<open>Every write has a plan\<close>

definition all_paths :: "phase_ledger \<Rightarrow> string set" where
  "all_paths l = \<Union> (wi_paths ` set (le_work_items l))"

lemma couple_fields [simp]:
  "wi_paths (couple rs w) = wi_paths w" "wi_closed (couple rs w) = wi_closed w" "wi_symbols (couple rs w) = wi_symbols w"
proof -
  have "wi_paths (fold f rs w) = wi_paths w \<and> wi_closed (fold f rs w) = wi_closed w \<and> wi_symbols (fold f rs w) = wi_symbols w"
    if "\<And>r w. wi_paths (f r w) = wi_paths w \<and> wi_closed (f r w) = wi_closed w \<and> wi_symbols (f r w) = wi_symbols w"
    for f and rs :: "requirement list" using that by (induction rs arbitrary: w) simp_all
  then show "wi_paths (couple rs w) = wi_paths w" "wi_closed (couple rs w) = wi_closed w"
    "wi_symbols (couple rs w) = wi_symbols w" by (auto simp: couple_def)
qed

text \<open>Coupling changes the requirements of work items and nothing else.\<close>

definition same_but_coupled :: "phase_ledger \<Rightarrow> phase_ledger \<Rightarrow> bool" where
  "same_but_coupled l l' \<longleftrightarrow> l'\<lparr>le_work_items := []\<rparr> = l\<lparr>le_work_items := []\<rparr>
     \<and> map wi_paths (le_work_items l') = map wi_paths (le_work_items l)
     \<and> map wi_closed (le_work_items l') = map wi_closed (le_work_items l)"

lemma map_update_same: "f y = f (xs ! k) \<Longrightarrow> map f (xs[k := y]) = map f xs"
  by (metis list_update_id map_update)

lemma couple_at_same: "same_but_coupled l (couple_at k l)"
  by (simp add: same_but_coupled_def couple_at_def map_update_same)

lemma same_but_coupled_trans: "same_but_coupled l m \<Longrightarrow> same_but_coupled m n \<Longrightarrow> same_but_coupled l n"
  by (simp add: same_but_coupled_def)

lemma same_but_coupled_fields:
  "same_but_coupled l l' \<Longrightarrow> le_evidence l' = le_evidence l \<and> le_items l' = le_items l
    \<and> le_requirements l' = le_requirements l \<and> le_engaged l' = le_engaged l \<and> le_phase l' = le_phase l
    \<and> le_validations l' = le_validations l \<and> le_writes l' = le_writes l \<and> le_written l' = le_written l
    \<and> all_paths l' = all_paths l"
  by (cases l; cases l') (auto simp: same_but_coupled_def all_paths_def simp flip: set_map)

lemma ask_candidates_same: "same_but_coupled l (snd (ask_candidates ks l))"
proof (induction ks arbitrary: l)
  case (Cons k ks)
  show ?case
    using couple_at_same [of l k] Cons [of "couple_at k l"] by (auto simp: Let_def intro: same_but_coupled_trans)
qed (simp add: same_but_coupled_def)

lemma same_but_coupled_refl: "same_but_coupled l l"
  by (simp add: same_but_coupled_def)

lemma snd_asked: "snd (case r of (True, l) \<Rightarrow> (a, l) | (False, l) \<Rightarrow> (b, l)) = snd r"
  by (cases r) (simp split: bool.split)

lemma may_write_same: "same_but_coupled l (snd (may_write path l))"
  by (simp add: may_write_def Let_def snd_asked same_but_coupled_refl ask_candidates_same)

lemma place_item_fields [simp]:
  "le_evidence (place_item i l) = le_evidence l" "le_items (place_item i l) = le_items l"
  "le_requirements (place_item i l) = le_requirements l" "le_engaged (place_item i l) = le_engaged l"
  "le_validations (place_item i l) = le_validations l" "le_writes (place_item i l) = le_writes l"
  by (simp_all add: place_item_def couple_at_def)

lemma place_item_paths: "all_paths (place_item i l) \<subseteq> all_paths l \<union> item_paths i"
proof -
  let ?m = "l\<lparr>le_work_items := place i (le_work_items l)\<rparr>"
  have "all_paths (place_item i l) = all_paths ?m"
    using same_but_coupled_fields [OF couple_at_same [of ?m]] by (simp add: place_item_def)
  also have "\<dots> \<subseteq> all_paths l \<union> item_paths i"
    by (auto simp: all_paths_def place_def Let_def joined_def opened_def dest!: set_update_subset_insert [THEN subsetD])
      (metis nth_mem)
  finally show ?thesis .
qed

lemma enter_item_fields [simp]:
  "le_evidence (enter_item i l) = le_evidence l" "le_requirements (enter_item i l) = le_requirements l"
  "le_engaged (enter_item i l) = le_engaged l" "le_validations (enter_item i l) = le_validations l"
  "le_writes (enter_item i l) = le_writes l"
  by (simp_all add: enter_item_def Let_def split: option.splits)

lemma all_paths_cong: "le_work_items l = le_work_items l' \<Longrightarrow> all_paths l = all_paths l'"
  by (simp add: all_paths_def)

lemma enter_item_place:
  obtains m where "enter_item i l = place_item i m" "le_work_items m = le_work_items l"
    "le_requirements m = le_requirements l" "set (le_items m) \<subseteq> insert i (set (le_items l))"
proof (cases "find (\<lambda>k. identity (le_items l ! k) = identity i) (rev [0..<length (le_items l)])")
  case None
  show thesis by (rule that) (unfold enter_item_def Let_def None, rule option.case(1), auto)
next
  case (Some k)
  show thesis
    by (rule that) (unfold enter_item_def Let_def Some, rule option.case(2),
        auto dest!: set_update_subset_insert [THEN subsetD])
qed

lemma enter_item_paths: "all_paths (enter_item i l) \<subseteq> all_paths l \<union> item_paths i"
proof -
  obtain m where "enter_item i l = place_item i m" "le_work_items m = le_work_items l" by (rule enter_item_place)
  then show ?thesis using place_item_paths [of i m] all_paths_cong [of m l] by simp
qed

lemma enter_item_items: "set (le_items (enter_item i l)) \<subseteq> insert i (set (le_items l))"
  by (rule enter_item_place [of i l]) simp

lemma enter_all:
  defines "enter vs \<equiv> fold (\<lambda>v. enter_item (iv_item v)) vs"
  shows "le_evidence (enter vs l) = le_evidence l \<and> le_requirements (enter vs l) = le_requirements l
    \<and> le_engaged (enter vs l) = le_engaged l \<and> le_validations (enter vs l) = le_validations l
    \<and> le_writes (enter vs l) = le_writes l
    \<and> set (le_items (enter vs l)) \<subseteq> set (le_items l) \<union> iv_item ` set vs
    \<and> all_paths (enter vs l) \<subseteq> all_paths l \<union> \<Union> (item_paths ` iv_item ` set vs)"
proof (induction vs arbitrary: l)
  case (Cons v vs)
  from Cons [of "enter_item (iv_item v) l"] enter_item_items [of "iv_item v" l] enter_item_paths [of "iv_item v" l]
  show ?case by (auto simp: enter_def)
qed (simp add: enter_def)

lemma dispose_all:
  "fold (\<lambda>v. dispose_item (iv_item v)) vs l = l\<lparr>le_requirements :=
     fold (\<lambda>v. dispose (gi_requirement_evidence (iv_item v)) (settled_disposition (iv_item v))
       (take 200 (gi_correction (iv_item v))) By_model) vs (le_requirements l)\<rparr>"
  by (induction vs arbitrary: l) (simp_all add: dispose_item_def)

text \<open>What a call of the plan tool does to the parts the properties speak of.\<close>

lemma record_plan_parts:
  assumes "record_plan text raws supersedes reason evidence l = ((ok, bad), l')"
  obtains vs l1 l3 where "judge_all text (supersedes \<noteq> [] \<or> evidence \<noteq> []) raws l = (vs, l1)" "ok = filter accepted vs"
    "only_asked l l1" "le_evidence l3 = le_evidence l" "le_work_items l3 = le_work_items l"
    "le_requirements l3 = le_requirements l" "le_engaged l3 = le_engaged l" "le_validations l3 = le_validations l"
    "le_writes l3 = le_writes l" "set (le_items l3) \<subseteq> set (le_items l)"
    "le_evidence l' = le_evidence l" "le_engaged l' = le_engaged l" "le_validations l' = le_validations l"
    "le_writes l' = le_writes l"
    "le_items l' = le_items (fold (\<lambda>v. enter_item (iv_item v)) ok l3)"
    "le_work_items l' = le_work_items (fold (\<lambda>v. enter_item (iv_item v)) ok l3)"
    "le_requirements l' = fold (\<lambda>v. dispose (gi_requirement_evidence (iv_item v)) (settled_disposition (iv_item v))
       (take 200 (gi_correction (iv_item v))) By_model) ok (le_requirements l)"
proof -
  obtain vs l1 where j: "judge_all text (supersedes \<noteq> [] \<or> evidence \<noteq> []) raws l = (vs, l1)" by fastforce
  note asked = judge_all_backed [OF j, THEN conjunct1]
  define l2 where "l2 = (if supersedes \<noteq> [] \<or> reason \<noteq> []
     then l1\<lparr>le_replans := le_replans l1 @ [\<lparr>rp_reason = (if reason \<noteq> [] then reason else ''replanned''),
            rp_invalidated = supersedes, rp_evidence = evidence\<rparr>]\<rparr> else l1)"
  define l3 where "l3 = (if supersedes \<noteq> [] \<and> filter accepted vs \<noteq> []
     then l2\<lparr>le_items := filter (\<lambda>i. gi_requirement i \<noteq> supersedes) (le_items l2)\<rparr> else l2)"
  have l3: "le_evidence l3 = le_evidence l" "le_work_items l3 = le_work_items l"
    "le_requirements l3 = le_requirements l" "le_engaged l3 = le_engaged l" "le_validations l3 = le_validations l"
    "le_writes l3 = le_writes l" "set (le_items l3) \<subseteq> set (le_items l)"
    using only_asked_same [OF asked] by (auto simp: l3_def l2_def)
  define l4 where "l4 = fold (\<lambda>v. enter_item (iv_item v)) (filter accepted vs) l3"
  define l6 where "l6 = fold (\<lambda>v. dispose_item (iv_item v)) (filter accepted vs)
     (l4\<lparr>le_rejected := le_rejected l4 @ filter (\<lambda>v. \<not> accepted v) vs,
         le_replan_pending := (if filter accepted vs \<noteq> [] then False else le_replan_pending l4)\<rparr>)"
  have l4: "le_evidence l4 = le_evidence l3" "le_requirements l4 = le_requirements l3" "le_engaged l4 = le_engaged l3"
    "le_validations l4 = le_validations l3" "le_writes l4 = le_writes l3"
    using enter_all [of "filter accepted vs" l3] by (simp_all add: l4_def)
  have ok: "ok = filter accepted vs"
    and l': "l' = (if le_items l6 \<noteq> [] \<and> le_phase l6 \<in> {INVESTIGATE, PLAN, REVIEW} then l6\<lparr>le_phase := EDIT\<rparr> else l6)
        \<lparr>le_without_evidence := 0\<rparr>"
    using assms unfolding record_plan_def j prod.case Let_def l2_def [symmetric] l3_def [symmetric]
      l4_def [symmetric] l6_def [symmetric] by (simp_all only: prod.inject)
  have "le_evidence l' = le_evidence l" "le_engaged l' = le_engaged l" "le_validations l' = le_validations l"
    "le_writes l' = le_writes l" "le_items l' = le_items l4" "le_work_items l' = le_work_items l4"
    "le_requirements l' = fold (\<lambda>v. dispose (gi_requirement_evidence (iv_item v)) (settled_disposition (iv_item v))
       (take 200 (gi_correction (iv_item v))) By_model) ok (le_requirements l)"
    using l3 l4 by (simp_all add: l' l6_def dispose_all ok)
  then show thesis using that [OF j ok asked l3] by (simp add: l4_def ok)
qed

definition planned_inv :: "gap_item set \<Rightarrow> phase_ledger \<Rightarrow> bool" where
  "planned_inv acc l \<longleftrightarrow> set (le_items l) \<subseteq> acc \<and> (\<forall>i \<in> acc. plan_backed (le_evidence l) i)
     \<and> all_paths l \<subseteq> \<Union> (item_paths ` acc)"

lemma planned_inv_same:
  "planned_inv acc l \<Longrightarrow> set (le_items l') \<subseteq> set (le_items l) \<Longrightarrow> holds_more (le_evidence l) (le_evidence l') \<Longrightarrow>
   all_paths l' \<subseteq> all_paths l \<Longrightarrow> planned_inv acc l'"
  by (auto simp: planned_inv_def intro: plan_backed_mono)

lemma observe_call_fields:
  "holds_more (le_evidence l) (le_evidence (observe_call keys units paths l))"
  "le_items (observe_call keys units paths l) = le_items l"
  "le_work_items (observe_call keys units paths l) = le_work_items l"
  "le_requirements (observe_call keys units paths l) = le_requirements l"
  "le_engaged (observe_call keys units paths l) = le_engaged l"
  "le_validations (observe_call keys units paths l) = le_validations l"
  "le_writes (observe_call keys units paths l) = le_writes l"
  by (auto simp: observe_call_def Let_def open_plan_def count_progress_def holds_more_def observe_authority_def
      observe_implementation_def)

lemma note_validation_fields:
  "le_evidence (note_validation c s cov l) = le_evidence l" "le_items (note_validation c s cov l) = le_items l"
  "all_paths (note_validation c s cov l) = all_paths l" "le_engaged (note_validation c s cov l) = le_engaged l"
  "le_writes (note_validation c s cov l) = le_writes l"
  by (auto simp: note_validation_def Let_def close_settled_def settle_validated_def all_paths_def)

lemma plan_keeps_inv:
  assumes "planned_inv acc l" "record_plan text raws supersedes reason evidence l = ((ok, bad), l')"
  shows "planned_inv (acc \<union> iv_item ` set ok) l'"
proof -
  from assms(2) obtain vs l1 l3 where j: "judge_all text (supersedes \<noteq> [] \<or> evidence \<noteq> []) raws l = (vs, l1)"
    and ok: "ok = filter accepted vs" and l3: "le_work_items l3 = le_work_items l" "set (le_items l3) \<subseteq> set (le_items l)"
    and l': "le_evidence l' = le_evidence l" "le_items l' = le_items (fold (\<lambda>v. enter_item (iv_item v)) ok l3)"
      "le_work_items l' = le_work_items (fold (\<lambda>v. enter_item (iv_item v)) ok l3)"
    by (rule record_plan_parts) blast
  from judge_all_backed [OF j] ok have "\<forall>i \<in> iv_item ` set ok. plan_backed (le_evidence l) i" by auto
  moreover have "all_paths l3 = all_paths l" "all_paths l' = all_paths (fold (\<lambda>v. enter_item (iv_item v)) ok l3)"
    using l3 l' by (simp_all add: all_paths_def)
  ultimately show ?thesis
    using assms(1) l3 l' enter_all [of ok l3] unfolding planned_inv_def by (simp, blast)
qed

lemma step_keeps_planned: "planned_inv acc l \<Longrightarrow> planned_inv (acc \<union> accepted_by text c l) (turn_step text c l)"
proof (cases c)
  case (Plan raws supersedes reason evidence)
  assume "planned_inv acc l"
  moreover obtain ok bad l' where "record_plan text raws supersedes reason evidence l = ((ok, bad), l')"
    by (metis surj_pair)
  ultimately show ?thesis using plan_keeps_inv by (auto simp: Plan turn_step_def accepted_by_def)
next
  case (Ask_write path)
  assume "planned_inv acc l"
  then show ?thesis
    using same_but_coupled_fields [OF may_write_same [of l path]]
    by (simp add: Ask_write turn_step_def accepted_by_def planned_inv_def)
next
  case (Ran command status cov)
  assume "planned_inv acc l"
  then show ?thesis by (simp add: Ran turn_step_def accepted_by_def planned_inv_def note_validation_fields)
qed (auto simp: turn_step_def accepted_by_def observe_call_fields note_validation_fields all_paths_def
    invalidate_def refuse_write_def note_write_def Let_def owes_a_plan_def force_synthesis_def begin_review_def finish_def
    elim!: planned_inv_same)

lemma turn_planned: "planned_inv acc l \<Longrightarrow> planned_inv (acc \<union> accepted_in text calls l) (turn text calls l)"
proof (induction calls arbitrary: acc l)
  case (Cons c calls)
  from Cons.IH [OF step_keeps_planned [OF Cons.prems]] show ?case by (simp add: turn_def Un_assoc)
qed (simp add: turn_def)

lemma engaged_step: "le_engaged (turn_step text c l) = le_engaged l"
proof (cases c)
  case (Plan raws supersedes reason evidence)
  obtain ok bad l' where "record_plan text raws supersedes reason evidence l = ((ok, bad), l')" by (metis surj_pair)
  then show ?thesis by (auto simp: Plan turn_step_def elim!: record_plan_parts)
next
  case (Ask_write path)
  then show ?thesis using same_but_coupled_fields [OF may_write_same [of l path]] by (simp add: turn_step_def)
qed (simp_all add: turn_step_def observe_call_fields note_validation_fields invalidate_def refuse_write_def
    note_write_def Let_def owes_a_plan_def force_synthesis_def begin_review_def finish_def)

lemma turn_engaged: "le_engaged (turn text calls l) = le_engaged l"
  by (induction calls arbitrary: l) (simp_all add: turn_def engaged_step)

lemma engaged_start: "le_engaged (engage True True root prior reqs new_ledger)"
  by (simp add: engage_def Let_def split: option.splits)

lemma planned_start: "planned_inv {} (engage b w root prior reqs new_ledger)"
  by (simp add: planned_inv_def engage_def Let_def new_ledger_def all_paths_def split: option.splits)

lemma may_write_allowed:
  assumes "le_engaged l" "path \<noteq> []" "fst (may_write path l) = None"
  obtains k where "le_phase l \<noteq> REVIEW" "investigation_gaps l = []" "\<not> le_replan_pending l"
    "k < length (le_work_items l)" "covers_path (le_work_items l ! k) path"
    "snd (may_write path l) = couple_at k l" "local_gaps (couple_at k l) (le_work_items (couple_at k l) ! k) = []"
proof -
  from assms have ok: "le_phase l \<noteq> REVIEW" "investigation_gaps l = []" "\<not> le_replan_pending l"
    and k: "work_item_for l path \<noteq> None"
    by (auto simp: may_write_def split: if_splits)
  from k obtain k where k: "work_item_for l path = Some k" by blast
  then have cov: "k < length (le_work_items l)" "covers_path (le_work_items l ! k) path"
    by (auto simp: work_item_for_def find_Some_iff)
  then have "le_work_items l \<noteq> []" by auto
  with assms ok k have "local_gaps (couple_at k l) (le_work_items (couple_at k l) ! k) = []
      \<and> snd (may_write path l) = couple_at k l"
    by (auto simp: may_write_def Let_def split: if_splits)
  with ok cov show thesis using that by blast
qed

lemma allowed_file_is_planned:
  assumes "fst (may_write path (turn text calls (engage True True root prior reqs new_ledger))) = None" "path \<noteq> []"
  defines "start \<equiv> engage True True root prior reqs new_ledger"
  shows "\<exists>i \<in> accepted_in text calls start. basename path \<in> item_paths i
    \<and> plan_backed (le_evidence (turn text calls start)) i"
proof -
  let ?l = "turn text calls start"
  have l: "le_engaged ?l" by (simp add: turn_engaged start_def engaged_start)
  obtain k where "k < length (le_work_items ?l)" "covers_path (le_work_items ?l ! k) path"
    by (rule may_write_allowed [OF l assms(2)]) (simp_all add: assms(1) start_def)
  then have "basename path \<in> all_paths ?l" unfolding all_paths_def covers_path_def by force
  moreover have "planned_inv (accepted_in text calls start) ?l"
    using turn_planned [OF planned_start [of True True root prior reqs], of "text" calls] by (simp add: start_def)
  ultimately show ?thesis unfolding planned_inv_def by blast
qed

text \<open>
  C15: In a turn the lifecycle governs, a write of a named file is let through only outside the
  review, with both halves of the evidence read and no plan known to be wrong, for a file that a plan
  item of this turn names: one accepted with all its fields, a provision that is carried or was
  retrieved, a file that was read and, for a change, a design of its validation; and the work
  item it belongs to has answered for each of its own requirements.
\<close>

theorem every_write_has_a_plan:
  assumes "start = engage True True root prior reqs new_ledger" "now = turn text calls start"
    and "path \<noteq> []" "may_write path now = (None, after)"
  shows "le_phase now \<noteq> REVIEW \<and> has_authority (le_evidence now) \<and> has_implementation (le_evidence now)
    \<and> \<not> le_replan_pending now
    \<and> (\<exists>i \<in> accepted_in text calls start. basename path \<in> item_paths i \<and> plan_backed (le_evidence now) i)
    \<and> (\<exists>w \<in> set (le_work_items after). covers_path w path \<and> local_gaps after w = [])"
proof -
  have now: "le_engaged now" by (simp add: assms(1,2) turn_engaged engaged_start)
  obtain k where k: "le_phase now \<noteq> REVIEW" "investigation_gaps now = []" "\<not> le_replan_pending now"
    "k < length (le_work_items now)" "covers_path (le_work_items now ! k) path"
    "snd (may_write path now) = couple_at k now" "local_gaps (couple_at k now) (le_work_items (couple_at k now) ! k) = []"
    by (rule may_write_allowed [OF now assms(3)]) (simp add: assms(4))
  from k(2) have "has_authority (le_evidence now)" "has_implementation (le_evidence now)"
    by (auto simp: investigation_gaps_def split: if_splits)
  moreover have "\<exists>i \<in> accepted_in text calls start. basename path \<in> item_paths i \<and> plan_backed (le_evidence now) i"
    using allowed_file_is_planned [of path "text" calls root prior reqs] assms by simp
  moreover have "le_work_items after ! k \<in> set (le_work_items after)" "covers_path (le_work_items after ! k) path"
    using k(4-6) assms(4) by (auto simp: couple_at_def covers_path_def intro: set_update_memI)
  ultimately show ?thesis using k assms(4) by auto
qed

text \<open>
  A file whose name says that it is a test is refused to every tool that names its path, in every
  state of such a turn, although a planned test is what the turn is asked to write.
\<close>

theorem tests_cannot_be_written:
  assumes "path \<noteq> []" "looks_like_a_test (basename path)"
  shows "fst (may_write path (turn text calls (engage True True root prior reqs new_ledger))) \<noteq> None"
  using allowed_file_is_planned [of path "text" calls root prior reqs] assms by (auto simp: item_paths_def)

section \<open>One small turn\<close>

text \<open>
  The turn carries one requirement, reads one file, and plans a change of it that no test can observe;
  each step is evaluated on its own.
\<close>

definition plain_json :: "json \<Rightarrow> string" where
  "plain_json v = []"

definition one_item :: json where
  "one_item = JObj [(''requirement'', JStr ''r''), (''requirement_evidence'', JStr ''1.2''), (''current_behaviour'', JStr ''c''),
    (''implementation_evidence'', JStr ''a.c''), (''gap'', JStr ''g''), (''correction'', JStr ''x''),
    (''validation'', JStr ''no test because x''), (''disposition'', JStr ''change_planned'')]"

definition one_requirement :: requirement where
  "one_requirement = \<lparr>rq_key = ''1.2'', rq_section = ''1.2'', rq_source_id = [], rq_force = ''requirement'',
     rq_statement = ''s'', rq_members = [], rq_trigger = [], rq_origin = ''cited'', rq_disposition = UNDETERMINED,
     rq_note = [], rq_stated = False, rq_history = []\<rparr>"

definition one_contract :: "requirement_set" where
  "one_contract = \<lparr>rs_items = [one_requirement], rs_origin = ''o''\<rparr>"

definition one_start :: phase_ledger where
  "one_start = engage True True [] [] (Some one_contract) new_ledger"

definition one_plan :: "turn_call list" where
  "one_plan = [Call [''1.2''] 0 [''a.c''], Plan [one_item] [] [] []]"

definition read_item :: gap_item where
  "read_item = \<lparr>gi_requirement = ''r'', gi_requirement_evidence = ''1.2'', gi_current_behaviour = ''c'',
     gi_implementation_evidence = ''a.c'', gi_gap = ''g'', gi_correction = ''x'', gi_validation = ''no test because x'',
     gi_disposition = CHANGE_PLANNED, gi_bound_to = [], gi_branch_gap = [], gi_testability = None\<rparr>"

definition entered_item :: gap_item where
  "entered_item = read_item\<lparr>gi_testability := Some NOT_PRACTICAL, gi_bound_to := ''1.2''\<rparr>"

definition read_ledger :: phase_ledger where
  "read_ledger = new_ledger\<lparr>le_engaged := True, le_phase := PLAN, le_requirements := one_contract,
     le_evidence := \<lparr>ev_authority_keys = {''1.2''}, ev_authority_units = 0, ev_implementation_files = {''a.c''}, ev_root = []\<rparr>\<rparr>"

definition planned_ledger :: phase_ledger where
  "planned_ledger = read_ledger\<lparr>le_phase := EDIT, le_items := [entered_item], le_planned_at := [(''1.2'', 1, 0, 1, 0)],
     le_work_items := [opened 0 entered_item],
     le_requirements := one_contract\<lparr>rs_items := [disposed CHANGE_PLANNED ''x'' By_model one_requirement]\<rparr>\<rparr>"

definition written_ledger :: phase_ledger where
  "written_ledger = planned_ledger\<lparr>le_writes := 1, le_first_write_phase := Some EDIT, le_written := {''a.c''},
     le_requirements := one_contract\<lparr>rs_items := [disposed CODE_CHANGED_AWAITING_VALIDATION ''x'' By_harness
       (disposed CHANGE_PLANNED ''x'' By_model one_requirement)]\<rparr>\<rparr>"

lemma one_item_read: "gap_item_from plain_json one_item = read_item"
  by code_simp

lemma one_item_names [simp]:
  "validation_design ''no test because x'' {''a.c''} = Some NOT_PRACTICAL"
  "sections ''1.2'' = {''1.2''}" "handles_in ''1.2'' = {}" "wanted_in ''1.2'' = {''1.2''}" "citations_in ''1.2'' = {}"
  "named_files ''a.c'' = {''a.c''}" "named_files ''a.c x'' = {''a.c''}" "basename ''a.c'' = ''a.c''"
  "search MOVES_A_CALL_rx ''x'' = False" "paths_in ''a.c'' = {''a.c''}" "paths_in ''x'' = {}"
  "symbols_in ''x'' = {}" "symbols_in ''c'' = {}" "looks_like_a_test ''a.c'' = False"
  "starts_digit ''1.2'' = True" "lower ''1.2'' = ''1.2''" "lower ''x'' = ''x''" "squeeze ''1.2'' = ''1.2''" "strip ''1.2'' = ''1.2''"
  by code_simp+

lemma one_match [simp]: "rs_items rs = [r] \<Longrightarrow> rq_key r = ''1.2'' \<Longrightarrow> rq_source_id r = [] \<Longrightarrow> match_at rs ''1.2'' = Some 0"
  "rs_items rs = [r] \<Longrightarrow> rq_key r = ''1.2'' \<Longrightarrow> get_at rs ''1.2'' = Some 0"
  by (simp_all add: match_at_def get_at_def Let_def position_def)

lemma disposed_fields [simp]: "rq_key (disposed d n b r) = rq_key r" "rq_source_id (disposed d n b r) = rq_source_id r"
  "rq_disposition (disposed d n b r) = d" "rq_stated (disposed d n b r) = True" "rq_origin (disposed d n b r) = rq_origin r"
  "rq_trigger (disposed d n b r) = rq_trigger r" "rq_note (disposed d n b r) = (if n \<noteq> [] then n else rq_note r)"
  by (simp_all add: disposed_def)

lemma one_requirement_fields [simp]: "rq_key one_requirement = ''1.2''" "rq_source_id one_requirement = []"
  "rq_section one_requirement = ''1.2''" "rq_trigger one_requirement = []" "rq_origin one_requirement = ''cited''"
  "rs_items one_contract = [one_requirement]"
  by (simp_all add: one_requirement_def one_contract_def)

lemma read_step: "turn_step plain_json (Call [''1.2''] 0 [''a.c'']) one_start = read_ledger"
  by (simp add: one_start_def turn_step_def observe_call_def engage_def new_ledger_def observe_authority_def observe_implementation_def
    Let_def evidence_counts_def count_progress_def open_plan_def has_authority_def has_implementation_def inside_def
    read_ledger_def carried_keys_def) auto

lemma judged_item: "judge_all plain_json False [one_item] read_ledger = ([\<lparr>iv_item = entered_item, iv_reason = None\<rparr>], read_ledger)"
  by (simp add: one_item_read judge_item_def bound_item_def match_requirement_def read_ledger_def new_ledger_def Let_def
    read_item_def entered_item_def idle_revision_def standing_item_def missing_fields_def backs_requirement_def
    judge_point_def condition_of_def judge_sites_def judge_validation_def judge_read_def backs_implementation_def)

lemma item_entered:
  "enter_item entered_item read_ledger = read_ledger
     \<lparr>le_items := [entered_item], le_planned_at := [(''1.2'', 1, 0, 1, 0)],
      le_work_items := [opened 0 entered_item]\<rparr>"
  by (simp add: enter_item_def place_item_def place_def work_index_def couple_at_def couple_def required_items_def
    read_ledger_def new_ledger_def opened_def read_item_def entered_item_def answers_for_def identity_def
    evidence_mark_def evidence_counts_def Let_def item_paths_def item_symbols_def rq_required_def coupled_by_def)

lemma planned_step: "turn plain_json one_plan one_start = planned_ledger"
  by (simp add: turn_def one_plan_def read_step turn_step_def [of _ "Plan _ _ _ _"] record_plan_def judged_item accepted_def
      item_entered del: judge_all.simps)
    (simp add: Let_def dispose_item_def dispose_def read_ledger_def new_ledger_def planned_ledger_def
      entered_item_def read_item_def position_def settled_disposition_def)

lemma may_write_one: "fst (may_write ''a.c'' planned_ledger) = None"
  by (simp add: may_write_def investigation_gaps_def has_authority_def has_implementation_def read_ledger_def planned_ledger_def
    new_ledger_def
    work_item_for_def covers_path_def opened_def item_paths_def read_item_def entered_item_def answers_for_def Let_def local_gaps_def
    get_requirement_def couple_at_def couple_def required_items_def rq_required_def coupled_by_def map_filter_def)

theorem every_write_has_a_plan_witness:
  "\<exists>i \<in> accepted_in plain_json one_plan one_start. ''a.c'' \<in> item_paths i \<and> plan_backed (le_evidence planned_ledger) i"
proof -
  have allowed: "may_write ''a.c'' planned_ledger = (None, snd (may_write ''a.c'' planned_ledger))"
    by (metis may_write_one prod.collapse)
  from every_write_has_a_plan [OF one_start_def planned_step [symmetric] _ allowed] show ?thesis by simp
qed

theorem tests_cannot_be_written_witness:
  "fst (may_write ''t/test_a.c'' planned_ledger) \<noteq> None"
proof -
  have "looks_like_a_test (basename ''t/test_a.c'')" by code_simp
  then show ?thesis
    using tests_cannot_be_written [of "''t/test_a.c''" plain_json one_plan "[]" "[]" "Some one_contract"] planned_step
    by (simp add: one_start_def)
qed

end
