(* ===== verification/Requirements_Kept.thy ===== *)
theory Requirements_Kept
  imports Work_Phase_Props
begin

text \<open>
  What becomes of the requirements a turn carries: over every sequence of calls of the ledger they are
  neither lost nor declared implemented by the model, and a closed contract means that each of them
  was settled.
\<close>

section \<open>Requirements are neither lost nor talked away\<close>

definition later :: "requirement \<Rightarrow> requirement \<Rightarrow> bool" where
  "later r r' \<longleftrightarrow> (\<exists>d n s h. r' = r\<lparr>rq_disposition := d, rq_note := n, rq_stated := s, rq_history := rq_history r @ h\<rparr>)"

text \<open>
  What a history may hold: the model files only what it may state, the harness only what it observed,
  and implemented follows directly on changed code; the disposition is the last entry.
\<close>

definition tells_truth :: "requirement \<Rightarrow> bool" where
  "tells_truth r \<longleftrightarrow>
     (\<forall>h \<in> set (rq_history r). di_disposition h \<in> (case di_by h of By_model \<Rightarrow> set STATED
        | By_harness \<Rightarrow> {CODE_CHANGED_AWAITING_VALIDATION, CHANGE_IMPLEMENTED}))
     \<and> (\<forall>k < length (rq_history r). di_disposition (rq_history r ! k) = CHANGE_IMPLEMENTED \<longrightarrow>
          0 < k \<and> di_disposition (rq_history r ! (k - 1)) = CODE_CHANGED_AWAITING_VALIDATION)
     \<and> (if rq_history r = [] then \<not> rq_stated r \<and> rq_disposition r = UNDETERMINED
        else rq_stated r \<and> rq_disposition r = di_disposition (last (rq_history r)))"

definition keys_ok :: "requirement_set \<Rightarrow> bool" where
  "keys_ok rs \<longleftrightarrow> distinct (map (\<lambda>r. lower (rq_key r)) (rs_items rs)) \<and> (\<forall>r \<in> set (rs_items rs). strip (rq_key r) = rq_key r)"

definition marks :: "requirement_set \<Rightarrow> disposition set" where
  "marks rs = (\<Union>r \<in> set (rs_items rs). di_disposition ` set (rq_history r))"

text \<open>A step of the requirements that adds entries of the given kinds.\<close>

definition moves_on :: "disposition set \<Rightarrow> requirement_set \<Rightarrow> requirement_set \<Rightarrow> bool" where
  "moves_on ds rs rs' \<longleftrightarrow> list_all2 later (rs_items rs) (rs_items rs') \<and> keys_ok rs'
     \<and> (\<forall>r \<in> set (rs_items rs'). tells_truth r) \<and> marks rs' \<subseteq> marks rs \<union> ds"

definition sound :: "requirement_set \<Rightarrow> bool" where
  "sound rs \<longleftrightarrow> keys_ok rs \<and> (\<forall>r \<in> set (rs_items rs). tells_truth r)"

lemma later_refl [simp]: "later r r"
  unfolding later_def by (intro exI [of _ "rq_disposition r"] exI [of _ "rq_note r"] exI [of _ "rq_stated r"] exI [of _ "[]"]) simp

lemma later_trans: "later r s \<Longrightarrow> later s t \<Longrightarrow> later r t"
  by (force simp: later_def)

lemma moves_refl: "sound rs \<Longrightarrow> moves_on ds rs rs"
  by (simp add: moves_on_def sound_def list.rel_refl)

lemma moves_sound: "moves_on ds rs rs' \<Longrightarrow> sound rs'"
  by (simp add: moves_on_def sound_def)

lemma moves_trans: "moves_on ds rs rs' \<Longrightarrow> moves_on ds rs' rs'' \<Longrightarrow> moves_on ds rs rs''"
  unfolding moves_on_def by (auto intro: list_all2_trans [OF later_trans])

lemma moves_fold:
  assumes "\<And>x rs. x \<in> set xs \<Longrightarrow> sound rs \<Longrightarrow> moves_on ds rs (f x rs)" "sound rs"
  shows "moves_on ds rs (fold f xs rs)"
  using assms
proof (induction xs arbitrary: rs)
  case (Cons x xs)
  then have x: "moves_on ds rs (f x rs)" by simp
  moreover have "moves_on ds (f x rs) (fold f xs (f x rs))"
    using Cons.prems by (intro Cons.IH moves_sound [OF x]) simp_all
  ultimately show ?case by (auto intro: moves_trans)
qed (simp add: moves_refl)

lemma later_disposed: "later r (disposed d n b r)"
  unfolding later_def disposed_def by blast

lemma keys_ok_update: "keys_ok rs \<Longrightarrow> rq_key r = rq_key (rs_items rs ! j) \<Longrightarrow> keys_ok (rs\<lparr>rs_items := (rs_items rs)[j := r]\<rparr>)"
proof (cases "j < length (rs_items rs)")
  case True
  assume a: "keys_ok rs" "rq_key r = rq_key (rs_items rs ! j)"
  then have "map (\<lambda>r. lower (rq_key r)) ((rs_items rs)[j := r]) = map (\<lambda>r. lower (rq_key r)) (rs_items rs)"
    by (intro map_update_same) simp
  with a True show ?thesis
    by (auto simp: keys_ok_def dest!: set_update_subset_insert [THEN subsetD])
qed (simp add: not_less list_update_beyond)

lemma moves_update:
  assumes "sound rs" "j < length (rs_items rs)" "tells_truth (disposed d n b (rs_items rs ! j))" "d \<in> ds"
  shows "moves_on ds rs (rs\<lparr>rs_items := (rs_items rs)[j := disposed d n b (rs_items rs ! j)]\<rparr>)"
proof -
  let ?r = "rs_items rs ! j"
  have "list_all2 later (rs_items rs) ((rs_items rs)[j := disposed d n b ?r])"
    using list_all2_update_cong [of later "rs_items rs" "rs_items rs" ?r "disposed d n b ?r" j]
    by (simp add: list.rel_refl later_disposed)
  moreover have "keys_ok (rs\<lparr>rs_items := (rs_items rs)[j := disposed d n b ?r]\<rparr>)"
    using assms(1) by (intro keys_ok_update) (simp_all add: sound_def disposed_def)
  moreover have "marks (rs\<lparr>rs_items := (rs_items rs)[j := disposed d n b ?r]\<rparr>) \<subseteq> marks rs \<union> ds"
    using assms(2,4) nth_mem [OF assms(2)] unfolding marks_def
    by (force simp: disposed_def dest!: set_update_subset_insert [THEN subsetD])
  ultimately show ?thesis
    using assms by (auto simp: moves_on_def sound_def dest!: set_update_subset_insert [THEN subsetD])
qed

lemma position_Some:
  "position p rs = Some i \<longleftrightarrow> i < length rs \<and> p (rs ! i) \<and> (\<forall>j < i. \<not> p (rs ! j))"
  by (auto simp: position_def find_Some_iff)

lemma first_some_in: "first_some xs = Some x \<Longrightarrow> Some x \<in> set xs"
  by (induction xs rule: first_some.induct) auto

lemma match_at_bound: "match_at rs c = Some i \<Longrightarrow> i < length (rs_items rs)"
  unfolding match_at_def Let_def
  by (drule first_some_in) (auto simp: position_Some eq_commute [of "Some i"] split: if_splits)

lemma get_at_bound: "get_at rs c = Some i \<Longrightarrow> i < length (rs_items rs)"
  by (simp add: get_at_def Let_def position_Some)

lemma dispose_cases:
  obtains (none) "dispose key d n b rs = rs"
    | (one) j where "j < length (rs_items rs)"
        "dispose key d n b rs = rs\<lparr>rs_items := (rs_items rs)[j := disposed d n b (rs_items rs ! j)]\<rparr>"
proof (cases "first_some [get_at rs key, match_at rs key]")
  case None
  then show ?thesis by (intro none) (simp add: dispose_def)
next
  case (Some i)
  then have i: "i < length (rs_items rs)" by (auto dest!: first_some_in sym [of "Some i"] dest: match_at_bound get_at_bound)
  show ?thesis
  proof (cases "position (\<lambda>r. r = rs_items rs ! i) (rs_items rs)")
    case None
    with Some show ?thesis by (intro none) (simp add: dispose_def)
  next
    case (Some j)
    then have j: "j < length (rs_items rs)" "rs_items rs ! j = rs_items rs ! i" by (simp_all add: position_Some)
    then show ?thesis
      by (intro one [of j]) (simp_all add: dispose_def Some \<open>first_some _ = Some i\<close>)
  qed
qed

lemma keys_differ: "keys_ok rs \<Longrightarrow> j < k \<Longrightarrow> k < length (rs_items rs) \<Longrightarrow> lower (rq_key (rs_items rs ! j)) \<noteq> lower (rq_key (rs_items rs ! k))"
  unfolding keys_ok_def distinct_conv_nth by (metis (no_types, lifting) length_map less_irrefl less_trans nth_map)

lemma dispose_own:
  assumes "keys_ok rs" "k < length (rs_items rs)"
  shows "dispose (rq_key (rs_items rs ! k)) d n b rs = rs\<lparr>rs_items := (rs_items rs)[k := disposed d n b (rs_items rs ! k)]\<rparr>"
proof -
  from assms have "strip (rq_key (rs_items rs ! k)) = rq_key (rs_items rs ! k)" by (simp add: keys_ok_def)
  then have "get_at rs (rq_key (rs_items rs ! k)) = Some k"
    using assms keys_differ [OF assms(1)] by (simp add: get_at_def position_Some)
  moreover have "position (\<lambda>r. r = rs_items rs ! k) (rs_items rs) = Some k"
    using assms keys_differ [OF assms(1)] by (force simp: position_Some)
  ultimately show ?thesis by (simp add: dispose_def)
qed

text \<open>Disposing of requirements, by the model and by the harness.\<close>

lemma told_nonempty: "tells_truth r \<Longrightarrow> rq_disposition r \<noteq> UNDETERMINED \<Longrightarrow> rq_history r \<noteq> []"
  by (auto simp: tells_truth_def)

lemma told_disposed:
  assumes "tells_truth r" "d \<in> (case b of By_model \<Rightarrow> set STATED | By_harness \<Rightarrow> {CODE_CHANGED_AWAITING_VALIDATION, CHANGE_IMPLEMENTED})"
    and "d = CHANGE_IMPLEMENTED \<Longrightarrow> rq_disposition r = CODE_CHANGED_AWAITING_VALIDATION"
  shows "tells_truth (disposed d n b r)"
proof -
  have "rq_history r \<noteq> []" "di_disposition (rq_history r ! (length (rq_history r) - 1)) = CODE_CHANGED_AWAITING_VALIDATION"
    if "d = CHANGE_IMPLEMENTED"
    using assms(1) assms(3) [OF that] by (auto simp: tells_truth_def last_conv_nth split: if_splits)
  with assms(1,2) show ?thesis
    unfolding tells_truth_def by (auto simp: disposed_def nth_append less_Suc_eq)
qed

lemma dispose_moves:
  assumes "sound rs" "d \<in> set STATED"
  shows "moves_on (set STATED) rs (dispose key d n By_model rs)"
proof (cases rule: dispose_cases [of key d n By_model rs])
  case none
  with assms show ?thesis by (simp add: moves_refl)
next
  case (one j)
  with assms have "tells_truth (disposed d n By_model (rs_items rs ! j))"
    by (intro told_disposed) (auto simp: sound_def STATED_def)
  with one assms show ?thesis by (auto intro: moves_update)
qed

lemma own_moves:
  assumes "sound rs" "k < length (rs_items rs)" "d \<in> {CODE_CHANGED_AWAITING_VALIDATION, CHANGE_IMPLEMENTED}"
    and "d = CHANGE_IMPLEMENTED \<Longrightarrow> rq_disposition (rs_items rs ! k) = CODE_CHANGED_AWAITING_VALIDATION"
  shows "moves_on {d} rs (dispose (rq_key (rs_items rs ! k)) d n By_harness rs)"
proof -
  have "tells_truth (disposed d n By_harness (rs_items rs ! k))"
    using assms by (intro told_disposed) (auto simp: sound_def)
  then show ?thesis
    using assms by (simp add: dispose_own sound_def moves_update)
qed

lemma promote_written_moves: "sound rs \<Longrightarrow> moves_on {CODE_CHANGED_AWAITING_VALIDATION} rs (promote_written touched i rs)"
  by (auto simp: promote_written_def match_requirement_def moves_refl Let_def
      intro!: own_moves dest: match_at_bound split: option.splits)

lemma settle_at_moves: "sound rs \<Longrightarrow> k < length (rs_items rs) \<Longrightarrow> moves_on {CHANGE_IMPLEMENTED} rs (settle_at unproven k rs)"
  by (auto simp: settle_at_def Let_def moves_refl intro!: own_moves)

lemma moves_length: "moves_on ds rs rs' \<Longrightarrow> length (rs_items rs') = length (rs_items rs)"
  by (auto simp: moves_on_def dest: list_all2_lengthD)

lemma settle_all_moves:
  "sound rs \<Longrightarrow> \<forall>k \<in> set ks. k < length (rs_items rs) \<Longrightarrow> moves_on {CHANGE_IMPLEMENTED} rs (fold (settle_at unproven) ks rs)"
proof (induction ks arbitrary: rs)
  case (Cons k ks)
  then have k: "moves_on {CHANGE_IMPLEMENTED} rs (settle_at unproven k rs)" by (simp add: settle_at_moves)
  have "moves_on {CHANGE_IMPLEMENTED} (settle_at unproven k rs) (fold (settle_at unproven) ks (settle_at unproven k rs))"
    using Cons.prems by (intro Cons.IH moves_sound [OF k]) (simp add: moves_length [OF k])
  with k show ?case by (auto intro: moves_trans)
qed (simp add: moves_refl)

section \<open>Over a turn\<close>

text \<open>What every call of the ledger keeps holds after any sequence of calls.\<close>

locale turn_invariant =
  fixes printed :: "json \<Rightarrow> string" and holds :: "phase_ledger \<Rightarrow> bool"
  assumes kept: "holds l \<Longrightarrow> holds (turn_step printed c l)"
begin

lemma always: "holds l \<Longrightarrow> holds (turn printed calls l)"
  by (induction calls arbitrary: l) (simp_all add: turn_def kept)

end

text \<open>A run that passed and was started after something had been written.\<close>

definition tested_after_a_write :: "phase_ledger \<Rightarrow> bool" where
  "tested_after_a_write l \<longleftrightarrow> (\<exists>run \<in> set (le_validations l). va_status run = ''passed'' \<and> 0 < va_generation run)"

definition accounted :: "requirement_set \<Rightarrow> phase_ledger \<Rightarrow> bool" where
  "accounted rs l \<longleftrightarrow> list_all2 later (rs_items rs) (rs_items (le_requirements l)) \<and> sound (le_requirements l)
     \<and> (CODE_CHANGED_AWAITING_VALIDATION \<in> marks (le_requirements l) \<longrightarrow> 0 < le_writes l)
     \<and> (CHANGE_IMPLEMENTED \<in> marks (le_requirements l) \<longrightarrow> tested_after_a_write l)"

lemma accounted_step:
  assumes "accounted rs l" "moves_on ds (le_requirements l) (le_requirements l')" "le_writes l \<le> le_writes l'"
    and "set (le_validations l) \<subseteq> set (le_validations l')"
    and "CODE_CHANGED_AWAITING_VALIDATION \<in> ds \<Longrightarrow> 0 < le_writes l'"
    and "CHANGE_IMPLEMENTED \<in> ds \<Longrightarrow> CHANGE_IMPLEMENTED \<in> marks (le_requirements l') \<Longrightarrow> tested_after_a_write l'"
  shows "accounted rs l'"
proof -
  have "list_all2 later (rs_items rs) (rs_items (le_requirements l'))"
    using assms(1,2) unfolding accounted_def moves_on_def by (auto intro: list_all2_trans [OF later_trans])
  moreover have "tested_after_a_write l \<Longrightarrow> tested_after_a_write l'"
    using assms(4) by (auto simp: tested_after_a_write_def)
  ultimately show ?thesis
    using assms moves_sound [OF assms(2)] unfolding accounted_def moves_on_def by auto
qed

lemma accounted_same:
  "accounted rs l \<Longrightarrow> le_requirements l' = le_requirements l \<Longrightarrow> le_writes l' = le_writes l \<Longrightarrow>
   le_validations l' = le_validations l \<Longrightarrow> accounted rs l'"
  by (simp add: accounted_def tested_after_a_write_def)

lemma implemented_after_awaiting:
  assumes "sound rs" "CHANGE_IMPLEMENTED \<in> marks rs"
  shows "CODE_CHANGED_AWAITING_VALIDATION \<in> marks rs"
proof -
  from assms obtain r k where r: "r \<in> set (rs_items rs)" "tells_truth r" "k < length (rq_history r)"
    "di_disposition (rq_history r ! k) = CHANGE_IMPLEMENTED"
    by (force simp: marks_def sound_def in_set_conv_nth)
  then have "di_disposition (rq_history r ! (k - 1)) = CODE_CHANGED_AWAITING_VALIDATION" "rq_history r ! (k - 1) \<in> set (rq_history r)"
    by (auto simp: tells_truth_def)
  with r(1) show ?thesis unfolding marks_def by (metis UN_I image_eqI)
qed

lemma plan_accounted:
  assumes "accounted rs l" "record_plan text raws supersedes reason evidence l = ((ok, bad), l')"
  shows "accounted rs l'"
proof -
  from assms(2) obtain vs l1 where j: "judge_all text (supersedes \<noteq> [] \<or> evidence \<noteq> []) raws l = (vs, l1)"
    and ok: "ok = filter accepted vs" and l': "le_validations l' = le_validations l" "le_writes l' = le_writes l"
      "le_requirements l' = fold (\<lambda>v. dispose (gi_requirement_evidence (iv_item v)) (settled_disposition (iv_item v))
         (take 200 (gi_correction (iv_item v))) By_model) ok (le_requirements l)"
    by (rule record_plan_parts) blast
  have "settled_disposition (iv_item v) \<in> set STATED" if "v \<in> set ok" for v
    using judge_all_backed [OF j] that by (auto simp: ok plan_backed_def settled_disposition_def STATED_def)
  then have "moves_on (set STATED) (le_requirements l) (le_requirements l')"
    using assms(1) unfolding l'(3) by (intro moves_fold dispose_moves) (auto simp: accounted_def)
  with assms(1) show ?thesis
    by (rule accounted_step) (auto simp: l' STATED_def)
qed

lemma note_write_accounted:
  assumes "accounted rs l"
  shows "accounted rs (note_write paths l)"
proof -
  have "moves_on {CODE_CHANGED_AWAITING_VALIDATION} (le_requirements l) (le_requirements (note_write paths l))"
    using assms by (auto simp: note_write_def Let_def accounted_def intro!: moves_refl moves_fold promote_written_moves)
  with assms show ?thesis
    by (rule accounted_step) (auto simp: note_write_def Let_def)
qed

lemma settle_validated_accounted:
  assumes "accounted rs l" "\<exists>run \<in> set (le_validations l). va_status run = ''passed'' \<and> va_generation run = le_writes l"
  shows "accounted rs (settle_validated l)"
proof -
  have fields: "le_writes (settle_validated l) = le_writes l" "le_validations (settle_validated l) = le_validations l"
    by (simp_all add: settle_validated_def)
  have moved: "moves_on {CHANGE_IMPLEMENTED} (le_requirements l) (le_requirements (settle_validated l))"
    using assms(1) by (auto simp: settle_validated_def accounted_def intro!: moves_refl settle_all_moves)
  have "tested_after_a_write (settle_validated l)" if "CHANGE_IMPLEMENTED \<in> marks (le_requirements (settle_validated l))"
  proof -
    have "CODE_CHANGED_AWAITING_VALIDATION \<in> marks (le_requirements (settle_validated l))"
      using that moved by (intro implemented_after_awaiting moves_sound)
    with moved have "CODE_CHANGED_AWAITING_VALIDATION \<in> marks (le_requirements l)" by (auto simp: moves_on_def)
    with assms show ?thesis by (auto simp: accounted_def tested_after_a_write_def fields)
  qed
  with assms(1) moved show ?thesis by (auto intro: accounted_step simp: fields)
qed

lemma note_validation_accounted:
  assumes "accounted rs l"
  shows "accounted rs (note_validation command status cov l)"
proof -
  define l2 where "l2 = l\<lparr>le_validations := le_validations l @ [\<lparr>va_command = command, va_status = status, va_covers = cov,
      va_generation = le_writes l\<rparr>], le_failed_validations := le_failed_validations (note_validation command status cov l)\<rparr>"
  have l2: "accounted rs l2"
    using assms by (rule accounted_step [where ds = "{}"]) (use assms in \<open>auto simp: l2_def accounted_def intro: moves_refl\<close>)
  have "le_requirements (note_validation command status cov l) =
      (if status = ''passed'' then le_requirements (settle_validated l2) else le_requirements l2)"
    "le_validations (note_validation command status cov l) = le_validations l2"
    "le_writes (note_validation command status cov l) = le_writes l2"
    by (simp_all add: note_validation_def Let_def l2_def close_settled_def settle_validated_def unvalidated_requirements_def proven_keys_def validated_def)
  moreover have "accounted rs (settle_validated l2)" if "status = ''passed''"
    using that l2 by (intro settle_validated_accounted) (auto simp: l2_def)
  moreover have "le_writes (settle_validated l2) = le_writes l2" "le_validations (settle_validated l2) = le_validations l2"
    by (simp_all add: settle_validated_def)
  ultimately show ?thesis using l2 by (auto intro: accounted_same split: if_splits)
qed

lemma accounted_kept: "accounted rs l \<Longrightarrow> accounted rs (turn_step text c l)"
proof (cases c)
  case (Plan raws supersedes reason evidence)
  assume "accounted rs l"
  moreover obtain ok bad l' where "record_plan text raws supersedes reason evidence l = ((ok, bad), l')"
    by (metis surj_pair)
  ultimately show ?thesis using plan_accounted by (auto simp: Plan turn_step_def)
next
  case (Ask_write path)
  assume "accounted rs l"
  then show ?thesis
    using same_but_coupled_fields [OF may_write_same [of l path]]
    by (auto simp: Ask_write turn_step_def intro: accounted_same)
qed (auto simp: turn_step_def observe_call_fields invalidate_def refuse_write_def owes_a_plan_def force_synthesis_def
    begin_review_def finish_def note_write_accounted note_validation_accounted elim!: accounted_same)

interpretation accounting: turn_invariant printed "accounted rs" for printed rs
  by unfold_locales (rule accounted_kept)

section \<open>From what a turn published to a closed contract\<close>

definition fresh_contract :: "requirement_set \<Rightarrow> bool" where
  "fresh_contract rs \<longleftrightarrow> keys_ok rs \<and>
     (\<forall>r \<in> set (rs_items rs). rq_history r = [] \<and> \<not> rq_stated r \<and> rq_disposition r = UNDETERMINED)"

lemma fresh_accounted: "fresh_contract rs \<Longrightarrow> accounted rs (engage True True root prior (Some rs) new_ledger)"
  by (auto simp: accounted_def fresh_contract_def sound_def tells_truth_def marks_def engage_def Let_def list.rel_refl)

lemma later_keys: "list_all2 later xs ys \<Longrightarrow>
    map (\<lambda>r. (rq_key r, rq_statement r, rq_origin r)) ys = map (\<lambda>r. (rq_key r, rq_statement r, rq_origin r)) xs"
  by (induction rule: list_all2_induct) (auto simp: later_def)

text \<open>
  C16: A turn that starts with a freshly published set of requirements ends, whatever calls were made,
  with the same provisions under the same keys, texts and origins; the history of each tells the
  truth: the model is recorded for what it may state only, the harness for what it observed only,
  implemented follows directly on changed code, and the disposition is the last entry; and when the
  contract counts as closed, every required provision was stated, is satisfied, implemented or out
  of scope, and is implemented only if a run passed that was started after a write.
\<close>

theorem requirements_are_accounted_for:
  assumes "fresh_contract rs" "now = turn text calls (engage True True root prior (Some rs) new_ledger)"
  shows "map (\<lambda>r. (rq_key r, rq_statement r, rq_origin r)) (rs_items (le_requirements now))
        = map (\<lambda>r. (rq_key r, rq_statement r, rq_origin r)) (rs_items rs)
    \<and> (\<forall>r \<in> set (rs_items (le_requirements now)). tells_truth r)
    \<and> (contract_closed now \<longrightarrow> (\<forall>r \<in> set (required_items (le_requirements now)). rq_stated r
        \<and> rq_disposition r \<in> {SATISFIED_ALREADY, CHANGE_IMPLEMENTED, EXPLICITLY_OUT_OF_SCOPE}
        \<and> (rq_disposition r = CHANGE_IMPLEMENTED \<longrightarrow> tested_after_a_write now)))"
proof -
  have inv: "accounted rs now" unfolding assms(2) by (rule accounting.always) (rule fresh_accounted [OF assms(1)])
  have settled: "rq_stated r \<and> rq_disposition r \<in> {SATISFIED_ALREADY, CHANGE_IMPLEMENTED, EXPLICITLY_OUT_OF_SCOPE}
      \<and> (rq_disposition r = CHANGE_IMPLEMENTED \<longrightarrow> tested_after_a_write now)"
    if "contract_closed now" "r \<in> set (required_items (le_requirements now))" for r
  proof -
    from that have r: "r \<in> set (rs_items (le_requirements now))" "rq_required r" "rq_stated r" "\<not> rq_open r"
      by (auto simp: contract_closed_def required_items_def open_items_def unstated_items_def filter_empty_conv)
    then have "rq_disposition r \<in> {SATISFIED_ALREADY, CHANGE_IMPLEMENTED, EXPLICITLY_OUT_OF_SCOPE}"
      by (cases "rq_disposition r") (auto simp: rq_open_def UNFINISHED_def)
    moreover have "CHANGE_IMPLEMENTED \<in> marks (le_requirements now)" if "rq_disposition r = CHANGE_IMPLEMENTED"
    proof -
      have "tells_truth r" using inv r(1) by (simp add: accounted_def sound_def)
      with that have "rq_history r \<noteq> []" "di_disposition (last (rq_history r)) = CHANGE_IMPLEMENTED"
        by (auto simp: tells_truth_def split: if_splits)
      then show ?thesis using r(1) unfolding marks_def by (metis UN_I image_eqI last_in_set)
    qed
    ultimately show ?thesis using r inv by (auto simp: accounted_def)
  qed
  with inv show ?thesis by (simp add: accounted_def sound_def later_keys)
qed

text \<open>The turn of the plan goes on: it writes the file and a run passes.\<close>

lemma write_step: "note_write [''a.c''] planned_ledger = written_ledger"
  by (simp add: note_write_def Let_def planned_ledger_def read_ledger_def new_ledger_def written_ledger_def promote_written_def
    entered_item_def read_item_def match_requirement_def dispose_def position_def)

lemma test_step: "contract_closed (note_validation ''make'' ''passed'' [] written_ledger)"
  by (simp add: note_validation_def Let_def close_settled_def settle_validated_def written_ledger_def planned_ledger_def read_ledger_def
   new_ledger_def required_items_def rq_required_def unvalidated_requirements_def proven_keys_def entered_item_def read_item_def
   answers_for_def settle_at_def dispose_def position_def contract_closed_def open_items_def unstated_items_def rq_open_def UNFINISHED_def)
definition closed_turn :: phase_ledger where
  "closed_turn = note_validation ''make'' ''passed'' [] written_ledger"

lemma closed_turn_run:
  "closed_turn = turn plain_json (one_plan @ [Wrote [''a.c''], Ran ''make'' ''passed'' []])
     (engage True True [] [] (Some one_contract) new_ledger)"
  using planned_step by (simp add: turn_def turn_step_def write_step closed_turn_def one_start_def)

lemma one_contract_fresh: "fresh_contract one_contract"
  by (simp add: fresh_contract_def keys_ok_def one_requirement_def)

theorem requirements_are_accounted_for_witness:
  "contract_closed closed_turn \<and> list_all rq_stated (required_items (le_requirements closed_turn))
   \<and> map (\<lambda>r. (rq_key r, rq_statement r, rq_origin r)) (rs_items (le_requirements closed_turn)) = [(''1.2'', ''s'', ''cited'')]"
  using requirements_are_accounted_for [OF one_contract_fresh closed_turn_run] test_step
  by (simp add: closed_turn_def list_all_iff one_requirement_def one_contract_def)

section \<open>What a turn publishes\<close>

lemma rq_of_fields [simp]: "rq_key (requirement_of e) = er_key e" "rq_history (requirement_of e) = []"
  "rq_stated (requirement_of e) = False" "rq_disposition (requirement_of e) = UNDETERMINED" "rq_origin (requirement_of e) = ''cited''"
  by (simp_all add: requirement_of_def Let_def)

lemma binding_in: "r \<in> set (binding_requirements records) \<Longrightarrow> \<exists>e \<in> set records. r = requirement_of e"
  by (auto simp: binding_requirements_def)

lemma set_ordered [simp]: "set (ordered rs) = set rs"
  by (simp add: ordered_def)

lemma length_ordered [simp]: "length (ordered rs) = length rs"
  by (simp add: ordered_def)

lemma distinct_ordered [simp]: "distinct (map f (ordered rs)) = distinct (map f rs)"
  by (simp add: ordered_def distinct_map)

lemma binding_distinct:
  "distinct (map (\<lambda>e. lower (er_key e)) records) \<Longrightarrow> distinct (map (\<lambda>r. lower (rq_key r)) (binding_requirements records))"
  by (simp add: binding_requirements_def comp_def distinct_map_filter)

lemma distinct_apart:
  "distinct (map f xs) \<Longrightarrow> f ` set (filter P xs) \<inter> f ` set (filter (\<lambda>x. \<not> P x) xs) = {}"
  by (induction xs) auto

definition outside :: "requirement \<Rightarrow> requirement" where
  "outside r = r\<lparr>rq_origin := ''retrieved, not named in the answer''\<rparr>"

lemma outside_fields [simp]: "rq_key (outside r) = rq_key r" "rq_history (outside r) = rq_history r"
  "rq_stated (outside r) = rq_stated r" "rq_disposition (outside r) = rq_disposition r"
  by (simp_all add: outside_def)

text \<open>The list of the provisions, whichever way they were chosen.\<close>

lemma publish_items:
  fixes answer
  defines "named \<equiv> citations_in answer"
  obtains xs ys where "rs_items (publish records answer origin limit) = ordered xs @ take limit (ordered ys)"
    "xs = filter (cited_requirement named) (binding_requirements records)"
    "ys = map outside (filter (\<lambda>r. \<not> cited_requirement named r) (binding_requirements records))
     \<or> ys = binding_requirements records \<and> xs = []"
proof (cases "named \<noteq> {} \<and> filter (cited_requirement named) (binding_requirements records) \<noteq> []")
  case True
  then show thesis
    by (intro that [OF _ refl]) (auto simp: publish_def Let_def named_def outside_def [abs_def])
next
  case False
  then have "filter (cited_requirement named) (binding_requirements records) = []" by (auto simp: cited_requirement_def)
  then show thesis
    by (intro that [of "[]" "binding_requirements records"])
      (auto simp: publish_def Let_def named_def empty_requirements_def ordered_def)
qed

text \<open>
  C34: What a turn publishes, if the keys of its records differ up to case and have no blanks around
  them, is a fresh contract: each provision that is named in the answer and binds is in it and required,
  whatever the limit; of the other binding ones it holds as many as the limit allows, and nothing that
  was not retrieved as a requirement; and when the binding ones are no more than the limit, all are in
  it.  Beyond the limit the others are dropped without a trace, although a comment in the code says
  that nothing is dropped silently.
\<close>

theorem published_requirements:
  assumes "distinct (map (\<lambda>e. lower (er_key e)) records)" "\<forall>e \<in> set records. strip (er_key e) = er_key e"
    and "bound = binding_requirements records" "named = citations_in answer" "rs = publish records answer origin limit"
  shows "fresh_contract rs
    \<and> (\<forall>r \<in> set bound. cited_requirement named r \<longrightarrow> r \<in> set (required_items rs))
    \<and> length (rs_items rs) = length (filter (cited_requirement named) bound)
        + min limit (length (filter (\<lambda>r. \<not> cited_requirement named r) bound))
    \<and> (\<forall>r \<in> set (rs_items rs). r \<in> set bound \<or> (\<exists>b \<in> set bound. r = outside b))
    \<and> (length bound \<le> limit \<longrightarrow> rq_key ` set (rs_items rs) = rq_key ` set bound)"
proof -
  obtain xs ys where items: "rs_items rs = ordered xs @ take limit (ordered ys)"
    and xs: "xs = filter (cited_requirement named) bound"
    and ys: "ys = map outside (filter (\<lambda>r. \<not> cited_requirement named r) bound) \<or> ys = bound \<and> xs = []"
    using publish_items [of records answer origin limit] unfolding assms(3-5) by metis
  let ?key = "\<lambda>r. lower (rq_key r)"
  have d: "distinct (map ?key bound)" using assms(1) by (simp add: assms(3) binding_distinct)
  have "?key ` set (map outside zs) = ?key ` set zs" for zs by (simp add: image_image)
  then have keys: "?key ` set ys \<inter> ?key ` set xs = {}"
    using ys
  proof (elim disjE)
    assume "ys = map outside (filter (\<lambda>r. \<not> cited_requirement named r) bound)"
    with \<open>\<And>zs. ?key ` set (map outside zs) = ?key ` set zs\<close> distinct_apart [OF d, of "cited_requirement named"]
    show ?thesis unfolding xs by (simp only: Int_commute)
  qed simp
  have keys': "distinct (map ?key ys)"
    using ys d by (auto simp: comp_def distinct_map_filter)
  have "distinct (map ?key xs)" using d by (simp add: xs distinct_map_filter)
  moreover have "distinct (map ?key (take limit (ordered ys)))" using keys' by (simp flip: take_map)
  moreover have "?key ` set (take limit (ordered ys)) \<subseteq> ?key ` set ys" by (auto dest: in_set_takeD)
  ultimately have "distinct (map ?key (rs_items rs))"
    using keys unfolding items map_append distinct_append distinct_ordered set_map set_append set_ordered by blast
  moreover have bound: "\<forall>r \<in> set bound. rq_history r = [] \<and> \<not> rq_stated r \<and> rq_disposition r = UNDETERMINED
      \<and> rq_origin r = ''cited'' \<and> strip (rq_key r) = rq_key r"
    using assms(2) binding_in unfolding assms(3) by fastforce
  moreover have from_bound: "\<forall>r \<in> set (rs_items rs). r \<in> set bound \<or> (\<exists>b \<in> set bound. r = outside b)"
    using ys by (auto simp: items xs dest!: in_set_takeD)
  ultimately have "fresh_contract rs" by (fastforce simp: fresh_contract_def keys_ok_def)
  moreover have "r \<in> set (required_items rs)" if "r \<in> set bound" "cited_requirement named r" for r
    using that bound by (simp add: required_items_def items xs rq_required_def)
  moreover have "length ys = length (filter (\<lambda>r. \<not> cited_requirement named r) bound)"
    using ys sum_length_filter_compl [of "cited_requirement named" bound] by (auto simp: xs)
  then have "length (rs_items rs) = length (filter (cited_requirement named) bound)
      + min limit (length (filter (\<lambda>r. \<not> cited_requirement named r) bound))"
    by (simp add: items xs)
  moreover have "rq_key ` set (rs_items rs) = rq_key ` set bound" if "length bound \<le> limit"
  proof -
    have "length ys \<le> limit" using ys that by (auto intro: order_trans [OF length_filter_le])
    then have "set (rs_items rs) = set xs \<union> set ys" by (simp add: items)
    then have "rq_key ` set (rs_items rs) = rq_key ` set xs \<union> rq_key ` set ys" by (simp add: image_Un)
    moreover have "rq_key ` set (map outside zs) = rq_key ` set zs" for zs by (simp add: image_image)
    moreover have "rq_key ` set bound = rq_key ` set xs \<union> rq_key ` set (filter (\<lambda>r. \<not> cited_requirement named r) bound)"
      by (auto simp: xs)
    ultimately show ?thesis using ys by (elim disjE conjE) (simp_all only:, simp)
  qed
  ultimately show ?thesis using from_bound by blast
qed

definition three_rules :: "carried_record list" where
  "three_rules = map (\<lambda>k. \<lparr>er_key = k, er_section = drop 5 k, er_source_id = [], er_text = ''s'', er_force = Some 3\<rparr>)
     [''Rule 1.2'', ''Rule 1.3'', ''Rule 1.4'']"

theorem published_requirements_witness:
  "fresh_contract (publish three_rules ''See rule 1.4.'' ''o'' 1)
     \<and> requirement_of (three_rules ! 2) \<in> set (required_items (publish three_rules ''See rule 1.4.'' ''o'' 1))
     \<and> length (rs_items (publish three_rules ''See rule 1.4.'' ''o'' 1)) = 2"
proof -
  have d: "distinct (map (\<lambda>e. lower (er_key e)) three_rules)" by code_simp
  have "list_all (\<lambda>e. strip (er_key e) = er_key e) three_rules" by code_simp
  then have k: "\<forall>e \<in> set three_rules. strip (er_key e) = er_key e" by (simp add: list_all_iff)
  have b: "binding_requirements three_rules = map requirement_of three_rules"
    by (simp add: binding_requirements_def three_rules_def REQUIREMENT_FORCE_def)
  have n: "citations_in ''See rule 1.4.'' = {''1.4''}" by code_simp
  have w: "map (\<lambda>k. last (words (lower k))) [''Rule 1.2'', ''Rule 1.3'', ''Rule 1.4''] = [''1.2'', ''1.3'', ''1.4'']"
    "list_all (\<lambda>k. lower k \<noteq> ''1.4'' \<and> words (lower k) \<noteq> []) [''Rule 1.2'', ''Rule 1.3'', ''Rule 1.4'']" by code_simp+
  then have c: "map (cited_requirement (citations_in ''See rule 1.4.'')) (binding_requirements three_rules) = [False, False, True]"
    unfolding n b by (simp add: three_rules_def cited_requirement_def bare_key_def Let_def)
  then have "requirement_of (three_rules ! 2) \<in> set (binding_requirements three_rules)"
    "cited_requirement (citations_in ''See rule 1.4.'') (requirement_of (three_rules ! 2))"
    unfolding b by (simp_all add: three_rules_def)
  moreover have "length (filter (cited_requirement (citations_in ''See rule 1.4.'')) (binding_requirements three_rules)) = 1"
    "length (filter (\<lambda>r. \<not> cited_requirement (citations_in ''See rule 1.4.'') r) (binding_requirements three_rules)) = 2"
    using c unfolding b by (simp_all add: three_rules_def)
  ultimately show ?thesis
    using published_requirements [OF d k refl refl refl, of "''See rule 1.4.''" "''o''" 1] by simp
qed

section \<open>What does not reopen\<close>

definition same_standing :: "work_item list \<Rightarrow> work_item list \<Rightarrow> bool" where
  "same_standing ws ws' \<longleftrightarrow> length ws \<le> length ws' \<and>
     (\<forall>k < length ws. wi_closed (ws' ! k) = wi_closed (ws ! k) \<and> wi_reopened (ws' ! k) = wi_reopened (ws ! k))"

lemma couple_reopened [simp]: "wi_reopened (couple rs w) = wi_reopened w"
proof -
  have "wi_reopened (fold f rs w) = wi_reopened w" if "\<And>r w. wi_reopened (f r w) = wi_reopened w"
    for f and rs :: "requirement list" using that by (induction rs arbitrary: w) simp_all
  then show ?thesis by (simp add: couple_def)
qed

lemma place_item_standing: "same_standing (le_work_items l) (le_work_items (place_item i l))"
  by (auto simp: same_standing_def place_item_def couple_at_def place_def Let_def joined_def nth_list_update nth_append)

lemma enter_item_standing: "same_standing (le_work_items l) (le_work_items (enter_item i l))"
proof -
  obtain m where "enter_item i l = place_item i m" "le_work_items m = le_work_items l" by (rule enter_item_place)
  then show ?thesis using place_item_standing [of m i] by simp
qed

lemma enter_all_standing: "same_standing (le_work_items l) (le_work_items (fold (\<lambda>v. enter_item (iv_item v)) vs l))"
proof (induction vs arbitrary: l)
  case (Cons v vs)
  from Cons [of "enter_item (iv_item v) l"] enter_item_standing [of l "iv_item v"] show ?case
    by (simp add: same_standing_def)
qed (simp add: same_standing_def)

text \<open>
  A plan call reopens no work item, whatever it supersedes and whatever evidence it names: each
  keeps its place, whether it is closed, and how often it was reopened.
\<close>

theorem superseding_does_not_reopen:
  "same_standing (le_work_items l) (le_work_items (snd (record_plan text raws supersedes reason evidence l)))"
proof -
  obtain ok bad l' where r: "record_plan text raws supersedes reason evidence l = ((ok, bad), l')" by (metis surj_pair)
  from r obtain l3 where "le_work_items l3 = le_work_items l"
    "le_work_items l' = le_work_items (fold (\<lambda>v. enter_item (iv_item v)) ok l3)"
    by (rule record_plan_parts) blast
  then show ?thesis using enter_all_standing [of l3 ok] by (simp add: r)
qed

lemma promote_written_closed:
  "open_items rs = [] \<Longrightarrow> excluded_items rs = [] \<Longrightarrow> promote_written touched i rs = rs"
proof -
  assume a: "open_items rs = []" "excluded_items rs = []"
  then have "\<forall>r \<in> set (rs_items rs). rq_disposition r \<notin> set UNFINISHED"
    by (auto simp: open_items_def excluded_items_def rq_open_def filter_empty_conv)
  then show ?thesis
    by (auto simp: promote_written_def match_requirement_def UNFINISHED_def dest!: match_at_bound nth_mem split: option.splits)
qed

text \<open>
  C39: A write after the contract has closed leaves it closed when every carried provision is required:
  nothing that was validated has to be validated again.
\<close>

theorem later_writes_leave_it_closed:
  assumes "contract_closed l" "excluded_items (le_requirements l) = []"
  shows "contract_closed (note_write paths l) \<and> le_requirements (note_write paths l) = le_requirements l
    \<and> le_writes (note_write paths l) = le_writes l + 1"
proof -
  have "fold (promote_written touched) is (le_requirements l) = le_requirements l" for touched "is"
    using assms by (induction "is") (simp_all add: promote_written_closed contract_closed_def)
  then have same: "le_requirements (note_write paths l) = le_requirements l" by (simp add: note_write_def Let_def)
  have fields: "le_engaged (note_write paths l) = le_engaged l" "le_validations (note_write paths l) = le_validations l"
    "le_failed_validations (note_write paths l) = le_failed_validations l" "le_items (note_write paths l) = le_items l"
    "le_written l \<subseteq> le_written (note_write paths l)"
    by (auto simp: note_write_def Let_def)
  have "proven_keys l \<subseteq> proven_keys (note_write paths l)"
    using fields by (auto simp: proven_keys_def validated_def Let_def)
  then have "unvalidated_requirements (note_write paths l) = []"
    using assms(1) fields same
    by (auto simp: contract_closed_def unvalidated_requirements_def filter_empty_conv Let_def split: if_splits)
  then show ?thesis
    using assms(1) same fields by (simp add: contract_closed_def note_write_def Let_def)
qed

theorem later_writes_leave_it_closed_witness:
  "contract_closed (note_write [''b.c''] closed_turn)"
  by (rule later_writes_leave_it_closed [THEN conjunct1])
    (simp_all add: closed_turn_def test_step, simp add: note_validation_def Let_def close_settled_def settle_validated_def
      written_ledger_def planned_ledger_def read_ledger_def new_ledger_def required_items_def rq_required_def
      unvalidated_requirements_def proven_keys_def entered_item_def read_item_def answers_for_def settle_at_def dispose_def
      position_def excluded_items_def)

end
