(* ===== verification/Spec2Isabelle.thy ===== *)
theory Spec2Isabelle
  imports Working_State_Props Budgets_Props Runtime_Policy_Props Normative_Props Checkpoints_Props
    Training_Jobs_Props Verification_Policy_Props Capability_Gateway_Props Refusal_Breaker Resource_Control
    Completion_Props Workspace_Props Command_Policy_Props Planning_Props
    Session_Restore_Props Request_Reading_Props Tool_View_Props
    Delegation_Props Progress_Monitor_Props Result_Store Requirements_Kept
begin

text \<open>
  Verification of the control plane of SPEAR (\<open>src/client\<close>): the deterministic code around a
  language model that decides what the model may do, keeps the record of what was done, and
  says whether a result counts as verified or compliant.

  The program.  A task runs as a series of turns of the model.  What happens is recorded as
  events in a working state (\<open>runtime/working_state.py\<close>); every turn and tool call is charged
  to a budget (\<open>runtime/budgets.py\<close>), failures are classified and retried under a policy
  (\<open>runtime/failure_policy.py\<close>) and everything can be cancelled (\<open>runtime/cancellation.py\<close>).
  A task may follow a plan (\<open>runtime/planning.py\<close>), and what it records is also appended to the log of
  its session, from which a dead process is restored (\<open>runtime/session_store.py\<close>).
  Files are captured before they are changed, so that a task can be undone
  (\<open>harness/checkpoint.py\<close>).  For tasks bound by a standard, the applicable provisions are
  closed under their references, turned into constraints, and adjudicated from evidence into
  a verdict (\<open>normative/*.py\<close>); a later turn that changes code to meet the standard inherits the
  requirements and may write only what it has planned from evidence (\<open>runtime/work_phase.py\<close>).  What must be verified after a change, and how strongly, follows
  a policy (\<open>evidence/verification.py\<close>); external capabilities are reached only through a gateway
  (\<open>harness/capability_gateway.py\<close>), repeated refusals end a turn (\<open>harness/refusal_breaker.py\<close>)
  and commands run under resource limits (\<open>harness/resource_control.py\<close>).  A path the model names is
  resolved within the workspace (\<open>harness/workspace.py\<close>); a shell command it asks for is classified
  and authorized (\<open>harness/command_policy.py\<close>) before it is handed to the sandbox
  (\<open>cli/session_workspace.py\<close>).  What a request asks for is read from its words
  (\<open>context/request_intent.py\<close>, \<open>context/answer_scope.py\<close>); it decides which of the registered tools a turn is
  shown (\<open>harness/tool_registry.py\<close>, \<open>harness/tool_exposure.py\<close>), and every call passes the gates of the router
  (\<open>harness/tool_router.py\<close>).  Training runs started from recorded tasks are kept in a crash-safe
  store (\<open>training/training_jobs.py\<close>).

  The theories.
  \<^item> \<open>Spear_Prelude\<close>: JSON values, insertion-ordered dictionaries, Python's string methods,
    raising computations, replay of event logs; the contracts \<open>event_sourced\<close>,
    \<open>transition_table\<close>, \<open>forward_table\<close> and \<open>robust_object\<close> that the components interpret.
  \<^item> \<open>Working_State\<close>, \<open>Working_State_Laws\<close>, \<open>Working_State_Props\<close>: the event log and its
    reducer.  Replay of a log rebuilds the state, the invariant holds in every reachable
    state, statements of the model ground nothing, a finished task and a closed plan step stay so.
  \<^item> \<open>Planning\<close>, \<open>Planning_Props\<close>: when to plan, recording a plan, starting and closing its steps.
    A plan is recorded whole and goes on until its last step; where the code's own comparison of
    identifiers breaks the first promise is shown as well.
  \<^item> \<open>Session_Log\<close>, \<open>Session_Restore\<close>, \<open>Session_Log_Props\<close>, \<open>Session_Restore_Props\<close>: redaction, the log of a
    session with the torn lines that crashes leave, snapshots and restoration.  What was
    acknowledged stays in the log; what a running task recorded, with nothing redacted and no tool
    in flight, is what is restored; and no call of a tool is left open or repeated.
  \<^item> \<open>Budgets\<close>, \<open>Budgets_Props\<close>: ledgers with parents.  No accepted charge exceeds a limit, what
    children used is covered by their parents, a refused charge changes nothing.
  \<^item> \<open>Runtime_Policy\<close>, \<open>Runtime_Policy_Props\<close>: bounded retries; cancellation is permanent and
    goes from parent to child only.
  \<^item> \<open>Normative_Coverage\<close>, \<open>Normative_Verdict\<close>, \<open>Normative_Props\<close>: closure of the provisions,
    constraints, evidence, adjudication and verdict.  A compliant verdict rests on complete
    coverage and on fresh decisive evidence for every applicable obligation.
  \<^item> \<open>Requirement_Set\<close>, \<open>Work_Phase\<close>: the requirements one turn hands to the next
    (\<open>normative/requirement_set.py\<close>), and the ledger of a turn with its plan, its work items and the
    gate of every write.  \<open>Work_Phase_Props\<close>: a write needs an accepted plan item that names the
    file.  \<open>Requirements_Kept\<close>: no requirement is lost, the model declares none implemented, and
    what a closed contract means; what supersedes a plan and what is written later reopen nothing.
  \<^item> \<open>Filesystem\<close>: files, directories and symbolic links, and the resolution of paths.
  \<^item> \<open>Workspace\<close>, \<open>Workspace_Props\<close>: the roots of a session and their mounts.  A resolved path lies
    under a root and no link leads out of it.
  \<^item> \<open>Command_Policy\<close>, \<open>Command_Run\<close>, \<open>Command_Policy_Props\<close>: what a shell line needs, whether the
    mode grants it, and what is run.  Every command found in a line is vetted and nothing runs
    with more than was granted; what the analysis does not find is shown as well.
  \<^item> \<open>Request_Reading\<close>, \<open>Request_Reading_Props\<close>: what a message asks for, by the patterns of the code.
    The words settle what they settle before the model is asked, and a question about the
    document is answered without what was said of the project.
  \<^item> \<open>Tool_Registry\<close>, \<open>Agent_Roles\<close>, \<open>Tool_Exposure\<close>, \<open>Tool_Router\<close>: declarations of tools and roles, the
    view of tools a turn is shown, and the execution of a call.  \<open>Tool_Router_Props\<close>: what runs
    passed every gate, a call is traced once, the same call does not run for ever.
    \<open>Tool_View_Props\<close>: what is shown is what the router allows, and where a tool writes that is
    declared to read.
  \<^item> \<open>Delegation\<close>, \<open>Delegation_Props\<close>: children for trusted roles (\<open>runtime/orchestration.py\<close>).  A child has
    at most what its role allows, of tool calls and turns at most what its parent has left, and is
    recorded once.
  \<^item> \<open>Progress_Monitor\<close>, \<open>Progress_Monitor_Props\<close>: when a turn goes nowhere
    (\<open>runtime/progress_monitor.py\<close>).  A turn is stalled exactly when its last actions brought nothing
    new; two spellings of a command are one action; lines that were never shown can be called shown.
  \<^item> \<open>Result_Store\<close>: results kept out of the context (\<open>runtime/result_store.py\<close>).  What is read under a
    reference is what was stored for it, whatever happened to the bytes, or nothing; a put for a
    task with the empty name can take over a result of no task, which is shown as well.
  \<^item> \<open>Checkpoints\<close>, \<open>Checkpoints_Props\<close>: capture and rollback over the filesystem.  A successful
    rollback restores every changed file, a conflict touches nothing, nothing outside the roots
    is written, captured content stays readable.
  \<^item> \<open>Training_Jobs\<close>, \<open>Training_Jobs_Props\<close>: job records, their status table, and recovery from
    the journal after crashes and lost files; an object older than the stored job is not noticed.
  \<^item> \<open>Text_Patterns\<close>: regular expressions as a backtracking matcher, and the splitting of a
    command line into words.
  \<^item> \<open>Verification_Policy\<close>, \<open>Verification_Policy_Props\<close>: what a command verifies, the plan of
    checks that follows from the files changed, and where a check that did not run hides a failure.
  \<^item> \<open>Completion\<close>, \<open>Completion_Props\<close>: the verdict on the answer of a coding turn
    (\<open>evidence/completion.py\<close>).  An answer is verified only by what ran after the last change of
    the source, and every claim it makes has its checks.
  \<^item> \<open>Capability_Gateway\<close>, \<open>Capability_Gateway_Props\<close>: commands of the model for external
    providers.  Every call is of an admitted and described capability; a write needs the turn,
    the deployment, the task and the operator.
  \<^item> \<open>Refusal_Breaker\<close>: a turn stops exactly when an operation was refused as often as the limit.
  \<^item> \<open>Resource_Control\<close>: limits of a process tree are enforced or the command does not run.

  Reading the models.  A class is a record, an enum a datatype, an exception a value of a sum;
  a method that changes its object returns the changed object; clocks, digests, random
  identifiers and callbacks are arguments.  Python integers are \<open>int\<close>.  Fuel is used
  twice: \<open>realpath\<close> follows at most 40 symbolic links, as the operating system does, and reports
  a loop beyond that, the error of Python before 3.13; a repeated regular expression is unrolled as often as characters are left,
  which is enough because a round that consumes nothing ends the repetition.  Everything else
  recurs on its data.

  Not modelled: the terminal interface, retrieval and indexing, the ingestion of standards,
  model servers and prompts, evaluation and benchmark scripts, the sandbox and other code that
  only starts processes, and the parts of the modelled modules their theories name.
\<close>

end
